(* ===== verification/Prelude.thy ===== *)
theory Prelude
  imports Main "HOL-Library.Sublist"
begin

text \<open>
  Shared vocabulary of the development.

  A Go function that returns \<open>(T, error)\<close> is modelled by a value of the sum type
  \<open>'e + 'a\<close>: \<open>Inl e\<close> for a non-nil error, \<open>Inr v\<close> for a nil error. A Go pointer that may
  be nil is an \<open>option\<close>. A value of an interface type that a type switch inspects is an
  \<open>iface\<close>. Go strings are byte strings, which is what the type \<open>string\<close> (a list of
  8-bit characters) is.
\<close>

named_theorems go_defs \<open>definitions of the Go library functions\<close>
named_theorems getter_defs \<open>generated getters\<close>
named_theorems equal_defs \<open>generated Equal methods\<close>
named_theorems flow \<open>control flow of the handlers\<close>

section \<open>Interface values\<close>

text \<open>
  The values an argument of type \<open>interface{}\<close> can have for a method that tests it
  against \<open>*T\<close> and \<open>T\<close>: the nil interface, a pointer (possibly nil), a plain value, or a
  value of some other dynamic type.
\<close>

datatype 'a iface = INil | IPtr "'a option" | IVal 'a | IOther

section \<open>Lists\<close>

lemma take_length_append [simp]: "take (length xs) (xs @ ys) = xs"
  by simp

lemma dropWhile_idle: "(\<And>x. x \<in> set xs \<Longrightarrow> \<not> P x) \<Longrightarrow> dropWhile P xs = xs"
  by (cases xs) auto

lemma dropWhile_hd_idle: "xs = [] \<or> \<not> P (hd xs) \<Longrightarrow> dropWhile P xs = xs"
  by (cases xs) auto

lemma length_Suc_ex: "length xs = Suc n \<Longrightarrow> \<exists>y ys. xs = y # ys \<and> length ys = n"
  by (cases xs) auto

lemma prefix_append_drop: "prefix p s \<Longrightarrow> p @ drop (length p) s = s"
  by (auto simp: prefix_def)

text \<open>Two prefixes of one list are comparable, so at most one word of a prefix-free set fits.\<close>

lemma prefix_free_unique:
  assumes "prefix p s" and "prefix q s" and "\<not> prefix p q" and "\<not> prefix q p"
  shows False
  using assms prefix_same_cases by blast

section \<open>Finding the first element with a property\<close>

lemma find_Some_iff_unique:
  assumes "x \<in> set xs" and "P x" and "\<And>y. y \<in> set xs \<Longrightarrow> P y \<Longrightarrow> y = x"
  shows "find P xs = Some x"
proof (cases "find P xs")
  case None
  with assms(1,2) show ?thesis by (auto simp: find_None_iff)
next
  case (Some y)
  then have "y \<in> set xs" "P y" by (auto simp: find_Some_iff)
  then have "y = x" by (rule assms(3))
  with Some show ?thesis by simp
qed

lemma find_None_all: "find P xs = None \<longleftrightarrow> (\<forall>x \<in> set xs. \<not> P x)"
  by (auto simp: find_None_iff)

text \<open>
  When at most one element of a list satisfies \<open>P\<close>, the order of the list does not matter:
  this is what makes a loop over a Go map with an early return deterministic.
\<close>

lemma find_perm_unique:
  assumes "set xs = set ys"
    and "\<And>x y. x \<in> set xs \<Longrightarrow> y \<in> set xs \<Longrightarrow> P x \<Longrightarrow> P y \<Longrightarrow> x = y"
  shows "find P xs = find P ys"
proof (cases "find P xs")
  case None
  with assms(1) show ?thesis by (metis find_None_all)
next
  case (Some x)
  then have x: "x \<in> set xs" "P x" by (auto simp: find_Some_iff)
  have "find P ys = Some x"
  proof (rule find_Some_iff_unique)
    show "x \<in> set ys" using x(1) assms(1) by simp
    show "P x" by (rule x(2))
    show "y = x" if "y \<in> set ys" "P y" for y
      using that x assms(1) assms(2) [of y x] by simp
  qed
  with Some show ?thesis by simp
qed

end
