(* ===== verification/Go_Strings.thy ===== *)
theory Go_Strings
  imports Prelude "HOL-Library.Char_ord"
begin

text \<open>
  The functions of Go's packages \<open>strings\<close>, \<open>strconv\<close> and \<open>fmt\<close> that the service calls,
  on byte strings. \<open>ToLower\<close> folds the ASCII letters only: every caller compares the
  result with an ASCII word of the same length, or looks for an ASCII letter that is the
  lower case of no other code point, so the folding of the other code points cannot be observed.
  \<open>TrimSpace\<close> removes the Unicode white space, whose UTF-8 forms are listed.
\<close>

section \<open>Prefixes, suffixes, trimming\<close>

definition HasPrefix :: "string \<Rightarrow> string \<Rightarrow> bool" where
  "HasPrefix s p = prefix p s"

definition HasSuffix :: "string \<Rightarrow> string \<Rightarrow> bool" where
  "HasSuffix s p = suffix p s"

definition TrimPrefix :: "string \<Rightarrow> string \<Rightarrow> string" where
  "TrimPrefix s p = (if HasPrefix s p then drop (length p) s else s)"

definition TrimSuffix :: "string \<Rightarrow> string \<Rightarrow> string" where
  "TrimSuffix s p = (if HasSuffix s p then take (length s - length p) s else s)"

definition Trim :: "string \<Rightarrow> char list \<Rightarrow> string" where
  "Trim s cutset =
     rev (dropWhile (\<lambda>c. c \<in> set cutset) (rev (dropWhile (\<lambda>c. c \<in> set cutset) s)))"

lemma HasPrefix_append [simp]: "HasPrefix (p @ s) p"
  by (simp add: HasPrefix_def)

lemma TrimPrefix_append [simp]: "TrimPrefix (p @ s) p = s"
  by (simp add: TrimPrefix_def)

lemma TrimPrefix_id: "\<not> HasPrefix s p \<Longrightarrow> TrimPrefix s p = s"
  by (simp add: TrimPrefix_def)

lemma TrimSuffix_append [simp]: "TrimSuffix (s @ p) p = s"
  by (simp add: TrimSuffix_def HasSuffix_def suffix_def)

lemma Trim_idle:
  assumes "\<And>c. c \<in> set s \<Longrightarrow> c \<notin> set cutset"
  shows "Trim s cutset = s"
proof -
  have "dropWhile (\<lambda>c. c \<in> set cutset) s = s"
    using assms by (rule dropWhile_idle)
  moreover have "dropWhile (\<lambda>c. c \<in> set cutset) (rev s) = rev s"
    using assms by (intro dropWhile_idle) simp
  ultimately show ?thesis by (simp add: Trim_def)
qed

lemma length_Trim: "length (Trim s cs) \<le> length s"
proof -
  have "length (Trim s cs) \<le> length (dropWhile (\<lambda>c. c \<in> set cs) s)"
    unfolding Trim_def by (metis length_dropWhile_le length_rev)
  also have "\<dots> \<le> length s" by (rule length_dropWhile_le)
  finally show ?thesis .
qed

text \<open>White space: the ASCII bytes, and the UTF-8 forms of the other code points.\<close>

definition ascii_space :: "char \<Rightarrow> bool" where
  "ascii_space c \<longleftrightarrow>
     c = CHR 0x20 \<or> c = CHR 0x09 \<or> c = CHR 0x0A \<or> c = CHR 0x0B \<or> c = CHR 0x0C \<or> c = CHR 0x0D"

definition space_seqs :: "string list" where
  "space_seqs =
     [[CHR 0x20], [CHR 0x09], [CHR 0x0A], [CHR 0x0B], [CHR 0x0C], [CHR 0x0D],
      [CHR 0xC2, CHR 0x85], [CHR 0xC2, CHR 0xA0], [CHR 0xE1, CHR 0x9A, CHR 0x80],
      [CHR 0xE2, CHR 0x80, CHR 0x80], [CHR 0xE2, CHR 0x80, CHR 0x81],
      [CHR 0xE2, CHR 0x80, CHR 0x82], [CHR 0xE2, CHR 0x80, CHR 0x83],
      [CHR 0xE2, CHR 0x80, CHR 0x84], [CHR 0xE2, CHR 0x80, CHR 0x85],
      [CHR 0xE2, CHR 0x80, CHR 0x86], [CHR 0xE2, CHR 0x80, CHR 0x87],
      [CHR 0xE2, CHR 0x80, CHR 0x88], [CHR 0xE2, CHR 0x80, CHR 0x89],
      [CHR 0xE2, CHR 0x80, CHR 0x8A], [CHR 0xE2, CHR 0x80, CHR 0xA8],
      [CHR 0xE2, CHR 0x80, CHR 0xA9], [CHR 0xE2, CHR 0x80, CHR 0xAF],
      [CHR 0xE2, CHR 0x81, CHR 0x9F], [CHR 0xE3, CHR 0x80, CHR 0x80]]"

function strip_seqs :: "string list \<Rightarrow> string \<Rightarrow> string" where
  "strip_seqs ws s =
     (case find (\<lambda>w. w \<noteq> [] \<and> prefix w s) ws of
        None \<Rightarrow> s
      | Some w \<Rightarrow> strip_seqs ws (drop (length w) s))"
  by pat_completeness auto
termination
  by (relation "measure (\<lambda>(ws, s). length s)")
    (auto simp: find_Some_iff prefix_def dest: sym)

declare strip_seqs.simps [simp del]

definition TrimSpace :: "string \<Rightarrow> string" where
  "TrimSpace s = rev (strip_seqs (map rev space_seqs) (rev (strip_seqs space_seqs s)))"

lemma strip_seqs_suffix: "suffix (strip_seqs ws s) s"
proof (induction ws s rule: strip_seqs.induct)
  case (1 ws s)
  show ?case
  proof (cases "find (\<lambda>w. w \<noteq> [] \<and> prefix w s) ws")
    case None
    then show ?thesis by (simp add: strip_seqs.simps [of ws s])
  next
    case (Some w)
    with "1.IH" [OF Some] show ?thesis
      by (simp add: strip_seqs.simps [of ws s])
        (meson suffix_drop suffix_order.trans)
  qed
qed

lemma strip_seqs_done:
  "w \<in> set ws \<Longrightarrow> w \<noteq> [] \<Longrightarrow> \<not> prefix w (strip_seqs ws s)"
proof (induction ws s rule: strip_seqs.induct)
  case (1 ws s)
  show ?case
  proof (cases "find (\<lambda>w. w \<noteq> [] \<and> prefix w s) ws")
    case None
    then have "strip_seqs ws s = s" by (simp add: strip_seqs.simps [of ws s])
    with None "1.prems" show ?thesis by (auto simp: find_None_all)
  next
    case (Some v)
    with "1.IH" [OF Some] "1.prems" show ?thesis
      by (simp add: strip_seqs.simps [of ws s])
  qed
qed

lemma strip_seqs_idle:
  "(\<And>w. w \<in> set ws \<Longrightarrow> w \<noteq> [] \<Longrightarrow> \<not> prefix w s) \<Longrightarrow> strip_seqs ws s = s"
  by (subst strip_seqs.simps) (auto simp: find_Some_iff split: option.split)

lemma strip_seqs_Nil [simp]: "strip_seqs ws [] = []"
  using strip_seqs_suffix [of ws "[]"] by simp

lemma strip_seqs_char:
  assumes "[c] \<in> set ws" and "\<And>w. w \<in> set ws \<Longrightarrow> prefix w (c # s) \<Longrightarrow> w = [] \<or> w = [c]"
  shows "strip_seqs ws (c # s) = strip_seqs ws s"
proof -
  have "find (\<lambda>w. w \<noteq> [] \<and> prefix w (c # s)) ws = Some [c]"
    by (rule find_Some_iff_unique) (use assms in auto)
  then show ?thesis by (subst strip_seqs.simps) simp
qed

text \<open>A byte string whose first and last bytes are not white space is left alone.\<close>

definition plain_byte :: "char \<Rightarrow> bool" where
  "plain_byte c \<longleftrightarrow> of_char c < (128::nat) \<and> \<not> ascii_space c"

lemma TrimSpace_Nil [simp]: "TrimSpace [] = []"
  by (simp add: TrimSpace_def)

lemma plain_not_space_head:
  assumes "plain_byte c" and "w \<in> set space_seqs \<union> set (map rev space_seqs)"
  shows "\<not> prefix w (c # s)"
proof
  assume p: "prefix w (c # s)"
  have "w \<noteq> []" using assms(2) by (auto simp: space_seqs_def)
  with p have c: "c = hd w" by (cases w) auto
  have "hd w \<in> hd ` (set space_seqs \<union> set (map rev space_seqs))"
    using assms(2) by (rule imageI)
  then have "\<not> plain_byte (hd w)"
    unfolding space_seqs_def by (auto simp: plain_byte_def ascii_space_def)
  with assms(1) c show False by simp
qed

lemma TrimSpace_idle:
  assumes "s \<noteq> []" and "plain_byte (hd s)" and "plain_byte (last s)"
  shows "TrimSpace s = s"
proof -
  obtain c t where s: "s = c # t" using assms(1) by (cases s) auto
  have 1: "strip_seqs space_seqs s = s"
    using plain_not_space_head [of c _ t] assms(2) s by (intro strip_seqs_idle) auto
  obtain d u where r: "rev s = d # u" using assms(1) by (cases "rev s") auto
  then have "d = last s" by (metis hd_rev list.sel(1))
  then have 2: "strip_seqs (map rev space_seqs) (rev s) = rev s"
    unfolding r using plain_not_space_head [of d _ u] assms(3) by (intro strip_seqs_idle) auto
  show ?thesis by (simp add: TrimSpace_def 1 2)
qed

lemma TrimSpace_blank_left: "TrimSpace (CHR '' '' # s) = TrimSpace s"
proof -
  have "strip_seqs space_seqs (CHR '' '' # s) = strip_seqs space_seqs s"
    by (rule strip_seqs_char) (auto simp: space_seqs_def prefix_Cons)
  then show ?thesis by (simp add: TrimSpace_def)
qed

section \<open>Splitting, joining, searching\<close>

fun split_char :: "char \<Rightarrow> string \<Rightarrow> string list" where
  "split_char d [] = [[]]"
| "split_char d (c # s) =
     (if c = d then [] # split_char d s
      else (case split_char d s of [] \<Rightarrow> [[c]] | w # ws \<Rightarrow> (c # w) # ws))"

fun Join :: "string list \<Rightarrow> string \<Rightarrow> string" where
  "Join [] sep = []"
| "Join [w] sep = w"
| "Join (w # v # ws) sep = w @ sep @ Join (v # ws) sep"

fun Contains :: "string \<Rightarrow> string \<Rightarrow> bool" where
  "Contains [] sub = (sub = [])"
| "Contains (c # s) sub = (prefix sub (c # s) \<or> Contains s sub)"

lemma split_char_nonempty [simp]: "split_char d s \<noteq> []"
  by (induction s) (auto split: list.split)

lemma Join_Cons: "ws \<noteq> [] \<Longrightarrow> Join (w # ws) sep = w @ sep @ Join ws sep"
  by (cases ws) auto

lemma Join_split_char: "Join (split_char d s) [d] = s"
proof (induction s)
  case (Cons c s)
  then show ?case
  proof (cases "split_char d s")
    case (Cons w ws)
    with Cons.IH show ?thesis by (cases ws) auto
  qed simp
qed simp

lemma split_char_pieces: "w \<in> set (split_char d s) \<Longrightarrow> d \<notin> set w"
  by (induction s arbitrary: w) (auto split: list.splits if_splits)

lemma split_char_free: "d \<notin> set s \<Longrightarrow> split_char d s = [s]"
  by (induction s) auto

lemma split_char_append:
  "d \<notin> set w \<Longrightarrow> split_char d (w @ d # s) = w # split_char d s"
  by (induction w) auto

lemma split_char_Join:
  assumes "ws \<noteq> []" and "\<And>w. w \<in> set ws \<Longrightarrow> d \<notin> set w"
  shows "split_char d (Join ws [d]) = ws"
  using assms
proof (induction ws "[d]" rule: Join.induct)
  case (3 w v ws)
  then show ?case by (simp add: split_char_append)
qed (auto simp: split_char_free)

lemma Contains_single: "Contains s [c] \<longleftrightarrow> c \<in> set s"
  by (induction s) auto

definition lower_char :: "char \<Rightarrow> char" where
  "lower_char c = (if CHR ''A'' \<le> c \<and> c \<le> CHR ''Z'' then char_of (of_char c + 32 :: nat) else c)"

definition ToLower :: "string \<Rightarrow> string" where
  "ToLower s = map lower_char s"

lemma length_ToLower [simp]: "length (ToLower s) = length s"
  by (simp add: ToLower_def)

section \<open>Numbers and truth values\<close>

definition digit_char :: "nat \<Rightarrow> char" where
  "digit_char n = char_of (48 + n)"

fun nat_dec :: "nat \<Rightarrow> string" where
  "nat_dec n = (if n < 10 then [digit_char n] else nat_dec (n div 10) @ [digit_char (n mod 10)])"

declare nat_dec.simps [simp del]

definition Itoa :: "int \<Rightarrow> string" where
  "Itoa i = (if i < 0 then CHR ''-'' # nat_dec (nat (- i)) else nat_dec (nat i))"

definition digit_val :: "char \<Rightarrow> nat option" where
  "digit_val c = (if CHR ''0'' \<le> c \<and> c \<le> CHR ''9'' then Some (of_char c - 48) else None)"

fun dec_val :: "nat \<Rightarrow> string \<Rightarrow> nat option" where
  "dec_val acc [] = Some acc"
| "dec_val acc (c # s) =
     (case digit_val c of None \<Rightarrow> None | Some d \<Rightarrow> dec_val (10 * acc + d) s)"

text \<open>
  \<open>strconv.ParseInt(s, 10, 64)\<close>: an optional sign, at least one digit, and a value in the
  range of a 64-bit integer; the callers use of a failure only that it is one.
\<close>

definition ParseInt :: "string \<Rightarrow> int option" where
  "ParseInt s =
     (let (neg, ds) = (case s of
            c # t \<Rightarrow> if c = CHR ''-'' then (True, t) else if c = CHR ''+'' then (False, t) else (False, s)
          | [] \<Rightarrow> (False, []))
      in if ds = [] then None
         else (case dec_val 0 ds of
                 None \<Rightarrow> None
               | Some n \<Rightarrow>
                   if neg then (if n \<le> 2 ^ 63 then Some (- int n) else None)
                   else (if n < 2 ^ 63 then Some (int n) else None)))"

definition ParseBool :: "string \<Rightarrow> bool option" where
  "ParseBool s =
     (if s \<in> set [''1'', ''t'', ''T'', ''TRUE'', ''true'', ''True''] then Some True
      else if s \<in> set [''0'', ''f'', ''F'', ''FALSE'', ''false'', ''False''] then Some False
      else None)"

lemma digit_val_digit_char [simp]: "n < 10 \<Longrightarrow> digit_val (digit_char n) = Some n"
  by (auto simp: digit_val_def digit_char_def less_eq_char_def)

lemma dec_val_append: "dec_val acc (s @ t) = Option.bind (dec_val acc s) (\<lambda>a. dec_val a t)"
  by (induction s arbitrary: acc) (auto split: option.split)

lemma dec_val_nat_dec: "\<exists>k. dec_val acc (nat_dec n) = Some (acc * 10 ^ k + n) \<and> k \<ge> 1"
proof (induction n arbitrary: acc rule: nat_dec.induct)
  case (1 n)
  show ?case
  proof (cases "n < 10")
    case True
    then show ?thesis
      by (intro exI [of _ 1]) (simp add: nat_dec.simps [of n])
  next
    case False
    obtain k where "dec_val acc (nat_dec (n div 10)) = Some (acc * 10 ^ k + n div 10)"
      using "1.IH" [OF False] by blast
    with False show ?thesis
      by (intro exI [of _ "Suc k"])
        (simp add: nat_dec.simps [of n] dec_val_append algebra_simps)
  qed
qed

lemma dec_val_0_nat_dec [simp]: "dec_val 0 (nat_dec n) = Some n"
  using dec_val_nat_dec [of 0 n] by auto

lemma nat_dec_nonempty [simp]: "nat_dec n \<noteq> []"
  by (subst nat_dec.simps) simp

lemma nat_dec_hd: "digit_val (hd (nat_dec n)) \<noteq> None"
proof (induction n rule: nat_dec.induct)
  case (1 n)
  then show ?case
    by (cases "n < 10") (simp_all add: nat_dec.simps [of n])
qed

text \<open>Printing a number and reading it back.\<close>

lemma ParseInt_Itoa:
  assumes "- (2 ^ 63) \<le> i" and "i < 2 ^ 63"
  shows "ParseInt (Itoa i) = Some i"
proof (cases "i < 0")
  case True
  with assms show ?thesis by (simp add: ParseInt_def Itoa_def)
next
  case False
  obtain c t where ct: "nat_dec (nat i) = c # t"
    by (cases "nat_dec (nat i)") auto
  with nat_dec_hd [of "nat i"] have "c \<noteq> CHR ''-''" "c \<noteq> CHR ''+''"
    by (auto simp: digit_val_def less_eq_char_def)
  with False assms ct dec_val_0_nat_dec [of "nat i"] show ?thesis
    by (simp add: ParseInt_def Itoa_def)
qed

end
