(* ===== verification/Go_Path.thy ===== *)
theory Go_Path
  imports Go_Strings
begin

text \<open>
  The lexical operations on slash-separated paths of the Go library: \<open>path.Clean\<close>, \<open>path.Join\<close>,
  \<open>path.Base\<close> and \<open>path.Dir\<close> (\<open>filepath\<close> does the same on this system).
\<close>

section \<open>Definitions\<close>

text \<open>One component of a path pushed on the stack of components kept so far, last one first.\<close>

definition clean_step :: "bool \<Rightarrow> string list \<Rightarrow> string \<Rightarrow> string list" where
  "clean_step rooted st c =
     (if c = [] \<or> c = ''.'' then st
      else if c = ''..'' then
        (if st \<noteq> [] \<and> hd st \<noteq> ''..'' then tl st
         else if rooted then st else c # st)
      else c # st)"

definition clean_components :: "bool \<Rightarrow> string list \<Rightarrow> string list" where
  "clean_components rooted cs = rev (foldl (clean_step rooted) [] cs)"

definition Clean :: "string \<Rightarrow> string" where
  "Clean s =
     (if s = [] then ''.''
      else
        (let rooted = (hd s = CHR ''/'');
             out = Join (clean_components rooted (split_char CHR ''/'' s)) ''/''
         in if rooted then ''/'' @ out else if out = [] then ''.'' else out))"

definition path_Join :: "string list \<Rightarrow> string" where
  "path_Join elem =
     (case dropWhile (\<lambda>e. e = []) elem of [] \<Rightarrow> [] | es \<Rightarrow> Clean (Join es ''/''))"

definition path_Dir :: "string \<Rightarrow> string" where
  "path_Dir p = Clean (rev (dropWhile (\<lambda>c. c \<noteq> CHR ''/'') (rev p)))"

definition path_Base :: "string \<Rightarrow> string" where
  "path_Base p =
     (if p = [] then ''.''
      else
        (let q = rev (dropWhile (\<lambda>c. c = CHR ''/'') (rev p))
         in if q = [] then ''/'' else rev (takeWhile (\<lambda>c. c \<noteq> CHR ''/'') (rev q))))"

section \<open>Clean paths\<close>

definition plain_component :: "string \<Rightarrow> bool" where
  "plain_component c = (c \<noteq> [] \<and> c \<noteq> ''.'' \<and> c \<noteq> ''..'' \<and> CHR ''/'' \<notin> set c)"

lemma foldl_clean_plain:
  "list_all plain_component cs \<Longrightarrow> foldl (clean_step r) st cs = rev cs @ st"
  by (induction cs arbitrary: st) (auto simp: clean_step_def plain_component_def)

lemma clean_components_plain: "list_all plain_component cs \<Longrightarrow> clean_components r cs = cs"
  by (simp add: clean_components_def foldl_clean_plain)

lemma Clean_plain:
  assumes "cs \<noteq> []" and "list_all plain_component cs"
  shows "Clean (Join cs ''/'') = Join cs ''/''"
proof -
  have s: "split_char CHR ''/'' (Join cs [CHR ''/'']) = cs"
    using assms by (intro split_char_Join) (auto simp: list_all_iff plain_component_def)
  obtain c cs' where c: "cs = c # cs'" using assms(1) by (cases cs) auto
  then have "c \<noteq> []" "hd c \<noteq> CHR ''/''"
    using assms(2) by (auto simp: plain_component_def) (metis list.set_sel(1))
  then have "Join cs ''/'' \<noteq> []" "hd (Join cs ''/'') \<noteq> CHR ''/''"
    using c by (cases cs'; auto simp: Join_Cons)+
  then show ?thesis using s clean_components_plain [OF assms(2)] by (simp add: Clean_def)
qed

text \<open>
  A rooted path that is cleaned has no component that leads upwards: the stack never holds one.
\<close>

lemma clean_step_no_dotdot:
  "list_all plain_component st \<Longrightarrow> CHR ''/'' \<notin> set c \<Longrightarrow> list_all plain_component (clean_step True st c)"
  by (cases st) (auto simp: clean_step_def plain_component_def)

lemma foldl_clean_rooted:
  "list_all plain_component st \<Longrightarrow> (\<forall>c \<in> set cs. CHR ''/'' \<notin> set c) \<Longrightarrow>
     list_all plain_component (foldl (clean_step True) st cs)"
  by (induction cs arbitrary: st) (auto simp: clean_step_no_dotdot)

lemma clean_rooted_plain:
  "list_all plain_component (clean_components True (split_char CHR ''/'' s))"
proof -
  have "list_all plain_component (foldl (clean_step True) [] (split_char CHR ''/'' s))"
    by (rule foldl_clean_rooted) (auto simp: split_char_pieces)
  then show ?thesis by (simp add: clean_components_def list_all_iff)
qed

lemma Clean_rooted_idem:
  assumes "s \<noteq> []" and "hd s = CHR ''/''"
  shows "Clean (Clean s) = Clean s"
proof -
  let ?cs = "clean_components True (split_char CHR ''/'' s)"
  have c: "Clean s = CHR ''/'' # Join ?cs ''/''" using assms by (simp add: Clean_def)
  have p: "list_all plain_component ?cs" by (rule clean_rooted_plain)
  have "clean_components True (split_char CHR ''/'' (CHR ''/'' # Join ?cs ''/'')) = ?cs"
  proof (cases "?cs = []")
    case True
    then show ?thesis by (simp add: clean_components_def clean_step_def)
  next
    case False
    then have "split_char CHR ''/'' (Join ?cs [CHR ''/'']) = ?cs"
      using p by (intro split_char_Join) (auto simp: list_all_iff plain_component_def)
    then have "split_char CHR ''/'' (CHR ''/'' # Join ?cs ''/'') = [] # ?cs" by simp
    then show ?thesis
      using clean_components_plain [OF p, of True]
      by (simp add: clean_components_def clean_step_def)
  qed
  then show ?thesis unfolding c by (simp add: Clean_def)
qed

end
