(* ===== verification/Go_Fmt.thy ===== *)
theory Go_Fmt
  imports Go_Strings
begin

text \<open>
  \<open>fmt.Sprintf\<close> called with a format and no arguments, which is what \<open>Errorf(code, err.Error())\<close>
  does: every verb of the text is replaced by a complaint. Texts without a percent sign are
  printed as they are. Each step works on the rest of the format.
\<close>

section \<open>Numbers and argument indices\<close>

text \<open>
  \<open>parsenum\<close> reads digits; a number above one million ends the scan at the end of the text. The
  result is the number if there was one, and the rest.
\<close>

fun parsenum_from :: "nat \<Rightarrow> bool \<Rightarrow> string \<Rightarrow> nat option \<times> string" where
  "parsenum_from n seen [] = (if seen then Some n else None, [])"
| "parsenum_from n seen (c # s) =
     (case digit_val c of
        None \<Rightarrow> (if seen then Some n else None, c # s)
      | Some k \<Rightarrow> if n > 1000000 then (None, []) else parsenum_from (n * 10 + k) True s)"

definition parsenum :: "string \<Rightarrow> nat option \<times> string" where
  "parsenum s = parsenum_from 0 False s"

text \<open>
  \<open>parseArgNumber\<close> on a text that begins with a bracket: how many bytes it takes and whether it
  is a well-formed index. With no arguments no index is in range.
\<close>

definition parseArgNumber :: "string \<Rightarrow> nat \<times> bool" where
  "parseArgNumber s =
     (if length s < 3 then (1, False)
      else if CHR '']'' \<in> set s then
        (let inner = takeWhile (\<lambda>c. c \<noteq> CHR '']'') (tl s)
         in case parsenum inner of
              (Some n, []) \<Rightarrow> (length inner + 2, True)
            | _ \<Rightarrow> (length inner + 2, False))
      else (1, False))"

text \<open>\<open>argNumber\<close>: the rest, whether an index was read, and whether indices are still good.\<close>

definition argNumber :: "bool \<Rightarrow> string \<Rightarrow> string \<times> bool \<times> bool" where
  "argNumber good s =
     (if s = [] \<or> hd s \<noteq> CHR ''['' then (s, False, good)
      else (case parseArgNumber s of (w, ok) \<Rightarrow> (drop w s, ok, False)))"

section \<open>One verb\<close>

definition format_flag :: "char \<Rightarrow> bool" where
  "format_flag c = (c \<in> set ''#0+- '')"

definition read_width :: "bool \<Rightarrow> bool \<Rightarrow> string \<Rightarrow> string \<times> string \<times> bool \<times> bool" where
  "read_width after good s =
     (if s \<noteq> [] \<and> hd s = CHR ''*'' then (''%!(BADWIDTH)'', tl s, False, good)
      else (case parsenum s of (n, r) \<Rightarrow> ([], r, after, good \<and> \<not> (after \<and> n \<noteq> None))))"

definition read_precision :: "bool \<Rightarrow> bool \<Rightarrow> string \<Rightarrow> string \<times> string \<times> bool \<times> bool" where
  "read_precision after good s =
     (if s \<noteq> [] \<and> hd s = CHR ''.'' then
        (case argNumber (good \<and> \<not> after) (tl s) of
           (s1, after1, good1) \<Rightarrow>
             if s1 \<noteq> [] \<and> hd s1 = CHR ''*'' then (''%!(BADPREC)'', tl s1, False, good1)
             else ([], snd (parsenum s1), after1, good1))
      else ([], s, after, good))"

text \<open>
  The number of bytes of the character at the head: the length of the UTF-8 sequence it starts,
  or one when the bytes are not a sequence (the replacement character is printed then).
\<close>

definition cont_byte :: "char \<Rightarrow> bool" where
  "cont_byte c = (128 \<le> (of_char c :: nat) \<and> (of_char c :: nat) < 192)"

definition decode_rune :: "string \<Rightarrow> string \<times> string" where
  "decode_rune s =
     (let c = hd s; n = (of_char c :: nat);
          bad = ([char_of (239 :: nat), char_of (191 :: nat), char_of (189 :: nat)], tl s);
          len = (if 194 \<le> n \<and> n < 224 then 2 else if 224 \<le> n \<and> n < 240 then 3
                 else if 240 \<le> n \<and> n < 245 then 4 else (0 :: nat));
          second = (of_char (s ! 1) :: nat);
          lo = (if n = 224 then 160 else if n = 240 then 144 else 128);
          hi = (if n = 237 then 160 else if n = 244 then 144 else 192)
      in if n < 128 then ([c], tl s)
         else if len = 0 \<or> length s < len then bad
         else if \<not> (lo \<le> second \<and> second < hi) then bad
         else if \<not> list_all cont_byte (drop 2 (take len s)) then bad
         else (take len s, drop len s))"

text \<open>What follows a percent sign: the text printed for it and the rest of the format.\<close>

definition format_verb :: "string \<Rightarrow> string \<times> string" where
  "format_verb s0 =
     (let s1 = dropWhile format_flag s0
      in case argNumber True s1 of (s2, after1, good1) \<Rightarrow>
         case read_width after1 good1 s2 of (out1, s3, after2, good2) \<Rightarrow>
         case read_precision after2 good2 s3 of (out2, s4, after3, good3) \<Rightarrow>
         case (if after3 then (s4, True, good3) else argNumber good3 s4) of (s5, _, good4) \<Rightarrow>
           if s5 = [] then (out1 @ out2 @ ''%!(NOVERB)'', [])
           else (case decode_rune s5 of (verb, s6) \<Rightarrow>
             (out1 @ out2 @
              (if verb = ''%'' then ''%''
               else if \<not> good4 then ''%!'' @ verb @ ''(BADINDEX)''
               else ''%!'' @ verb @ ''(MISSING)''), s6)))"

section \<open>The whole format\<close>

lemma parsenum_from_rest: "length (snd (parsenum_from n b s)) \<le> length s"
  by (induction n b s rule: parsenum_from.induct) (auto split: option.split intro: le_SucI)

lemma argNumber_rest: "argNumber good s = (r, a, g) \<Longrightarrow> length r \<le> length s"
  by (auto simp: argNumber_def split: if_splits prod.splits)

lemma read_width_rest: "read_width a g s = (out, r, a', g') \<Longrightarrow> length r \<le> length s"
  using parsenum_from_rest [of 0 False s]
  by (auto simp: read_width_def parsenum_def split: if_splits prod.splits)

lemma read_precision_rest:
  assumes "read_precision a g s = (out, r, a', g')"
  shows "length r \<le> length s"
proof (cases "s \<noteq> [] \<and> hd s = CHR ''.''")
  case False
  with assms show ?thesis by (auto simp: read_precision_def)
next
  case True
  obtain s1 a1 g1 where x: "argNumber (g \<and> \<not> a) (tl s) = (s1, a1, g1)" by (metis prod_cases3)
  have "length r \<le> length s1"
    using assms True x parsenum_from_rest [of 0 False s1]
    by (auto simp: read_precision_def parsenum_def split: if_splits)
  with argNumber_rest [OF x] show ?thesis by simp
qed

lemma decode_rune_rest: "s \<noteq> [] \<Longrightarrow> length (snd (decode_rune s)) \<le> length s"
  by (simp add: decode_rune_def Let_def)

lemma format_verb_rest: "length (snd (format_verb s)) \<le> length s"
proof -
  let ?s1 = "dropWhile format_flag s"
  obtain s2 a1 g1 where 1: "argNumber True ?s1 = (s2, a1, g1)" by (metis prod_cases3)
  obtain o1 s3 b1 g2 where 2: "read_width a1 g1 s2 = (o1, s3, b1, g2)" by (metis prod_cases4)
  obtain o2 s4 a2 g3 where 3: "read_precision b1 g2 s3 = (o2, s4, a2, g3)" by (metis prod_cases4)
  obtain s5 a3 g4 where 4: "(if a2 then (s4, True, g3) else argNumber g3 s4) = (s5, a3, g4)"
    by (metis prod_cases3)
  have "length s5 \<le> length s4" using 4 argNumber_rest by (auto split: if_splits)
  moreover have "length ?s1 \<le> length s" by (rule length_dropWhile_le)
  ultimately have l: "length s5 \<le> length s"
    using argNumber_rest [OF 1] read_width_rest [OF 2] read_precision_rest [OF 3] by linarith
  show ?thesis
  proof (cases "s5 = []")
    case True
    with 1 2 3 4 show ?thesis by (simp add: format_verb_def Let_def)
  next
    case False
    from decode_rune_rest [OF this] l show ?thesis
      using 1 2 3 4 False by (cases "decode_rune s5") (simp add: format_verb_def Let_def)
  qed
qed

function Sprintf0 :: "string \<Rightarrow> string" where
  "Sprintf0 [] = []"
| "Sprintf0 (c # s) =
     (if c \<noteq> CHR ''%'' then c # Sprintf0 s
      else fst (format_verb s) @ Sprintf0 (snd (format_verb s)))"
  by pat_completeness auto
termination
  by (relation "measure length") (auto simp: le_imp_less_Suc format_verb_rest)

lemma Sprintf0_plain: "CHR ''%'' \<notin> set s \<Longrightarrow> Sprintf0 s = s"
  by (induction s) auto

lemma Sprintf0_percent: "Sprintf0 ''100%'' = ''100%!(NOVERB)''"
  by (simp add: format_verb_def argNumber_def read_width_def read_precision_def parsenum_def Let_def)

end
