(* ===== verification/Go_Regexp.thy ===== *)
theory Go_Regexp
  imports Go_Strings
begin

text \<open>
  The regular expressions of the validators, as Go's package \<open>regexp\<close> matches them. Every
  pattern the service compiles for validation is anchored at both ends, so \<open>MatchString\<close> is
  membership of the whole string. The matcher is the derivative matcher, which computes; its
  meaning is the language of the expression. All classes contain ASCII characters only, so
  matching bytes is matching code points.
\<close>

section \<open>Expressions and their languages\<close>

text \<open>A class is a list of ranges of code points, both ends included.\<close>

type_synonym cclass = "(nat \<times> nat) list"

definition in_class :: "cclass \<Rightarrow> char \<Rightarrow> bool" where
  "in_class cs c = list_ex (\<lambda>(lo, hi). lo \<le> of_char c \<and> of_char c \<le> hi) cs"

datatype rx =
    RNone
  | REps
  | RSet cclass
  | RSeq rx rx
  | RAlt rx rx
  | RStar rx

inductive_set star_lang :: "string set \<Rightarrow> string set" for L where
  star_nil: "[] \<in> star_lang L"
| star_app: "u \<in> L \<Longrightarrow> v \<in> star_lang L \<Longrightarrow> u @ v \<in> star_lang L"

primrec rx_lang :: "rx \<Rightarrow> string set" where
  "rx_lang RNone = {}"
| "rx_lang REps = {[]}"
| "rx_lang (RSet cs) = {[c] | c. in_class cs c}"
| "rx_lang (RSeq r s) = {u @ v | u v. u \<in> rx_lang r \<and> v \<in> rx_lang s}"
| "rx_lang (RAlt r s) = rx_lang r \<union> rx_lang s"
| "rx_lang (RStar r) = star_lang (rx_lang r)"

section \<open>The matcher\<close>

primrec nullable :: "rx \<Rightarrow> bool" where
  "nullable RNone = False"
| "nullable REps = True"
| "nullable (RSet cs) = False"
| "nullable (RSeq r s) = (nullable r \<and> nullable s)"
| "nullable (RAlt r s) = (nullable r \<or> nullable s)"
| "nullable (RStar r) = True"

definition seq :: "rx \<Rightarrow> rx \<Rightarrow> rx" where
  "seq r s = (if r = RNone \<or> s = RNone then RNone else if r = REps then s else RSeq r s)"

definition alt :: "rx \<Rightarrow> rx \<Rightarrow> rx" where
  "alt r s = (if r = RNone then s else if s = RNone then r else if r = s then r else RAlt r s)"

primrec deriv :: "char \<Rightarrow> rx \<Rightarrow> rx" where
  "deriv c RNone = RNone"
| "deriv c REps = RNone"
| "deriv c (RSet cs) = (if in_class cs c then REps else RNone)"
| "deriv c (RSeq r s) =
     (if nullable r then alt (seq (deriv c r) s) (deriv c s) else seq (deriv c r) s)"
| "deriv c (RAlt r s) = alt (deriv c r) (deriv c s)"
| "deriv c (RStar r) = seq (deriv c r) (RStar r)"

definition MatchString :: "rx \<Rightarrow> string \<Rightarrow> bool" where
  "MatchString r s = nullable (fold deriv s r)"

lemma seq_lang [simp]: "rx_lang (seq r s) = rx_lang (RSeq r s)"
  by (auto simp: seq_def)

lemma alt_lang [simp]: "rx_lang (alt r s) = rx_lang (RAlt r s)"
  by (auto simp: alt_def)

lemma nullable_lang: "nullable r \<longleftrightarrow> [] \<in> rx_lang r"
  by (induction r) (auto intro: star_lang.intros)

lemma star_Cons: "c # w \<in> star_lang L \<longleftrightarrow> (\<exists>u v. c # u \<in> L \<and> v \<in> star_lang L \<and> w = u @ v)"
proof
  have "x \<in> star_lang L \<Longrightarrow> x = c # w \<Longrightarrow> \<exists>u v. c # u \<in> L \<and> v \<in> star_lang L \<and> w = u @ v" for x
    by (induction arbitrary: w rule: star_lang.induct) (auto simp: append_eq_Cons_conv)
  then show "c # w \<in> star_lang L \<Longrightarrow> \<exists>u v. c # u \<in> L \<and> v \<in> star_lang L \<and> w = u @ v"
    by blast
next
  assume "\<exists>u v. c # u \<in> L \<and> v \<in> star_lang L \<and> w = u @ v"
  then obtain u v where "c # u \<in> L" "v \<in> star_lang L" "w = u @ v" by blast
  then show "c # w \<in> star_lang L" using star_app [of "c # u" L v] by simp
qed

lemma deriv_lang: "w \<in> rx_lang (deriv c r) \<longleftrightarrow> c # w \<in> rx_lang r"
proof (induction r arbitrary: w)
  case (RSeq r s)
  have "(\<exists>u v. c # w = u @ v \<and> u \<in> rx_lang r \<and> v \<in> rx_lang s) \<longleftrightarrow>
    (\<exists>u v. w = u @ v \<and> c # u \<in> rx_lang r \<and> v \<in> rx_lang s) \<or>
    ([] \<in> rx_lang r \<and> c # w \<in> rx_lang s)"
    by (auto simp: Cons_eq_append_conv)
  then show ?case using RSeq by (auto simp: nullable_lang)
next
  case (RStar r)
  then show ?case by (auto simp: star_Cons)
qed auto

text \<open>The matcher decides membership in the language.\<close>

theorem MatchString_lang: "MatchString r s \<longleftrightarrow> s \<in> rx_lang r"
  unfolding MatchString_def
  by (induction s arbitrary: r) (simp_all add: nullable_lang deriv_lang)

section \<open>Derived forms\<close>

definition ROpt :: "rx \<Rightarrow> rx" where
  "ROpt r = RAlt r REps"

definition RPlus :: "rx \<Rightarrow> rx" where
  "RPlus r = RSeq r (RStar r)"

text \<open>The counted repetition \<open>r{n,m}\<close>, as \<open>n\<close> copies and \<open>m - n\<close> nested options.\<close>

fun up_to :: "rx \<Rightarrow> nat \<Rightarrow> rx" where
  "up_to r 0 = REps"
| "up_to r (Suc n) = ROpt (RSeq r (up_to r n))"

fun times :: "rx \<Rightarrow> nat \<Rightarrow> rx \<Rightarrow> rx" where
  "times r 0 s = s"
| "times r (Suc n) s = RSeq r (times r n s)"

definition RRep :: "rx \<Rightarrow> nat \<Rightarrow> nat \<Rightarrow> rx" where
  "RRep r n m = times r n (up_to r (m - n))"

definition RLit :: "char \<Rightarrow> rx" where
  "RLit c = RSet [(of_char c, of_char c)]"

lemma RLit_lang [simp]: "rx_lang (RLit c) = {[c]}"
  by (auto simp: RLit_def in_class_def)

lemma ROpt_lang [simp]: "rx_lang (ROpt r) = insert [] (rx_lang r)"
  by (auto simp: ROpt_def)

definition words :: "cclass \<Rightarrow> string set" where
  "words cs = {w. \<forall>c \<in> set w. in_class cs c}"

lemma words_Nil [simp]: "[] \<in> words cs"
  by (simp add: words_def)

lemma words_Cons [simp]: "c # w \<in> words cs \<longleftrightarrow> in_class cs c \<and> w \<in> words cs"
  by (simp add: words_def)

lemma words_append [simp]: "u @ v \<in> words cs \<longleftrightarrow> u \<in> words cs \<and> v \<in> words cs"
  by (auto simp: words_def)

lemma RSeq_class:
  "w \<in> rx_lang (RSeq (RSet cs) s) \<longleftrightarrow> (\<exists>c v. w = c # v \<and> in_class cs c \<and> v \<in> rx_lang s)"
  by simp (metis append_Cons append_Nil)

lemma star_class: "star_lang (rx_lang (RSet cs)) = words cs"
proof (intro set_eqI iffI)
  fix w
  show "w \<in> words cs" if "w \<in> star_lang (rx_lang (RSet cs))"
    using that by (induction rule: star_lang.induct) (auto simp: words_def)
  show "w \<in> star_lang (rx_lang (RSet cs))" if "w \<in> words cs"
    using that
  proof (induction w)
    case (Cons c w)
    then have "[c] @ w \<in> star_lang (rx_lang (RSet cs))"
      by (intro star_app) (auto simp: words_def)
    then show ?case by simp
  qed (simp add: star_nil)
qed

lemma RPlus_class: "rx_lang (RPlus (RSet cs)) = {w. w \<noteq> [] \<and> w \<in> words cs}"
  unfolding RPlus_def rx_lang.simps(4,6) star_class
  by (auto simp: words_def neq_Nil_conv) (metis append_Cons append_Nil)

lemma up_to_class: "rx_lang (up_to (RSet cs) n) = {w. length w \<le> n \<and> w \<in> words cs}"
proof (induction n)
  case 0
  then show ?case by auto
next
  case (Suc n)
  have "w \<in> rx_lang (up_to (RSet cs) (Suc n)) \<longleftrightarrow> length w \<le> Suc n \<and> w \<in> words cs" for w
    using Suc by (cases w) (auto simp add: RSeq_class simp del: rx_lang.simps(4))
  then show ?case by blast
qed

lemma times_class_iff:
  "w \<in> rx_lang (times (RSet cs) n s) \<longleftrightarrow>
     n \<le> length w \<and> take n w \<in> words cs \<and> drop n w \<in> rx_lang s"
proof (induction n arbitrary: w)
  case (Suc n)
  then show ?case by (cases w) (auto simp add: RSeq_class simp del: rx_lang.simps(4))
qed simp

lemma times_class:
  "rx_lang (times (RSet cs) n s) =
     {u @ v | u v. length u = n \<and> u \<in> words cs \<and> v \<in> rx_lang s}"
proof (intro set_eqI iffI)
  fix w
  show "w \<in> {u @ v | u v. length u = n \<and> u \<in> words cs \<and> v \<in> rx_lang s}"
    if "w \<in> rx_lang (times (RSet cs) n s)"
    using that unfolding times_class_iff
    by (intro CollectI exI [of _ "take n w"] exI [of _ "drop n w"]) simp
qed (auto simp: times_class_iff)

lemma RRep_exact: "rx_lang (RRep (RSet cs) n n) = {w. length w = n \<and> w \<in> words cs}"
  by (auto simp: RRep_def times_class)

lemma RRep_upto: "rx_lang (RRep (RSet cs) 0 n) = {w. length w \<le> n \<and> w \<in> words cs}"
  by (simp add: RRep_def up_to_class)

text \<open>Separated lists: \<open>r (d r)*\<close> for a separator byte \<open>d\<close>.\<close>

lemma sep_list_lang:
  "rx_lang (RSeq r (RStar (RSeq (RLit d) r))) =
     {Join ws [d] | ws. ws \<noteq> [] \<and> set ws \<subseteq> rx_lang r}"
proof (intro set_eqI iffI)
  fix w
  let ?S = "star_lang (rx_lang (RSeq (RLit d) r))"
  have star: "v \<in> ?S \<Longrightarrow> u \<in> rx_lang r \<Longrightarrow>
      \<exists>ws. u @ v = Join ws [d] \<and> ws \<noteq> [] \<and> set ws \<subseteq> rx_lang r" for u v
  proof (induction arbitrary: u rule: star_lang.induct)
    case star_nil
    then show ?case by (intro exI [of _ "[u]"]) simp
  next
    case (star_app x v)
    then obtain y where x: "x = d # y" "y \<in> rx_lang r" by auto
    with star_app.IH [of y] obtain ws
      where ws: "y @ v = Join ws [d]" "ws \<noteq> []" "set ws \<subseteq> rx_lang r" by blast
    then have "u @ x @ v = Join (u # ws) [d]" by (simp add: Join_Cons x)
    with ws star_app.prems show ?case by (intro exI [of _ "u # ws"]) simp
  qed
  show "w \<in> {Join ws [d] | ws. ws \<noteq> [] \<and> set ws \<subseteq> rx_lang r}"
    if "w \<in> rx_lang (RSeq r (RStar (RSeq (RLit d) r)))"
    using that star by fastforce
  have "ws \<noteq> [] \<Longrightarrow> set ws \<subseteq> rx_lang r \<Longrightarrow> \<exists>u v. Join ws [d] = u @ v \<and> u \<in> rx_lang r \<and> v \<in> ?S" for ws
  proof (induction ws "[d]" rule: Join.induct)
    case (2 w)
    then show ?case by (intro exI [of _ w] exI [of _ "[]"]) (simp add: star_nil)
  next
    case (3 w v ws)
    then obtain a b where ab: "Join (v # ws) [d] = a @ b" "a \<in> rx_lang r" "b \<in> ?S" by auto
    then have "(d # a) @ b \<in> ?S" by (intro star_app) auto
    with 3 ab show ?case by (intro exI [of _ w] exI [of _ "(d # a) @ b"]) simp
  qed simp
  then show "w \<in> rx_lang (RSeq r (RStar (RSeq (RLit d) r)))"
    if "w \<in> {Join ws [d] | ws. ws \<noteq> [] \<and> set ws \<subseteq> rx_lang r}"
    using that by (simp only: rx_lang.simps(4,6)) blast
qed

end
