(* ===== verification/Uuid.thy ===== *)
theory Uuid
  imports Go_Regexp "HOL-Library.Word"
begin

text \<open>
  The package \<open>google/uuid\<close> of the vendored tree, as far as the service uses it: parsing the
  36-byte and the URN form, printing, version-4 generation from 16 random bytes, and the
  conversions to and from a database column. A UUID is its list of 16 bytes.
\<close>

unbundle bit_operations_syntax

type_synonym byte = "8 word"
type_synonym UUID = "byte list"

definition zero_UUID :: UUID where
  "zero_UUID = replicate 16 0"

datatype uuid_error =
    InvalidLength nat
  | InvalidUrnPrefix string
  | InvalidFormat

section \<open>Hexadecimal\<close>

text \<open>The table \<open>xvalues\<close>: digits, then upper case, then lower case; 255 elsewhere.\<close>

definition xvalues :: "byte list" where
  "xvalues =
     replicate 48 255 @ [0, 1, 2, 3, 4, 5, 6, 7, 8, 9] @ replicate 7 255 @
     [10, 11, 12, 13, 14, 15] @ replicate 26 255 @ [10, 11, 12, 13, 14, 15] @ replicate 153 255"

definition xvalue :: "char \<Rightarrow> byte" where
  "xvalue c = xvalues ! of_char c"

definition xtob :: "char \<Rightarrow> char \<Rightarrow> byte \<times> bool" where
  "xtob x1 x2 =
     (let b1 = xvalue x1; b2 = xvalue x2
      in (push_bit 4 b1 OR b2, b1 \<noteq> 255 \<and> b2 \<noteq> 255))"

text \<open>\<open>hex.Encode\<close>: two lower-case digits for each byte.\<close>

definition hex_digit :: "byte \<Rightarrow> char" where
  "hex_digit n = ''0123456789abcdef'' ! unat n"

fun hex_encode :: "byte list \<Rightarrow> string" where
  "hex_encode [] = []"
| "hex_encode (b # bs) = hex_digit (drop_bit 4 b) # hex_digit (b AND 15) # hex_encode bs"

section \<open>Parse and String\<close>

definition encodeHex :: "UUID \<Rightarrow> string" where
  "encodeHex u =
     hex_encode (take 4 u) @ ''-'' @
     hex_encode (take 2 (drop 4 u)) @ ''-'' @
     hex_encode (take 2 (drop 6 u)) @ ''-'' @
     hex_encode (take 2 (drop 8 u)) @ ''-'' @
     hex_encode (drop 10 u)"

definition UUID_String :: "UUID \<Rightarrow> string" where
  "UUID_String u = encodeHex u"

text \<open>The offsets of the 16 pairs of hexadecimal digits, and the loop over them.\<close>

definition hex_offsets :: "nat list" where
  "hex_offsets = [0, 2, 4, 6, 9, 11, 14, 16, 19, 21, 24, 26, 28, 30, 32, 34]"

fun parse_bytes :: "string \<Rightarrow> nat list \<Rightarrow> uuid_error + UUID" where
  "parse_bytes s [] = Inr []"
| "parse_bytes s (x # xs) =
     (case xtob (s ! x) (s ! (x + 1)) of
        (v, ok) \<Rightarrow>
          if \<not> ok then Inl InvalidFormat
          else (case parse_bytes s xs of Inl e \<Rightarrow> Inl e | Inr u \<Rightarrow> Inr (v # u)))"

definition parse36 :: "string \<Rightarrow> uuid_error + UUID" where
  "parse36 s =
     (if s ! 8 \<noteq> CHR ''-'' \<or> s ! 13 \<noteq> CHR ''-'' \<or> s ! 18 \<noteq> CHR ''-'' \<or> s ! 23 \<noteq> CHR ''-''
      then Inl InvalidFormat
      else parse_bytes s hex_offsets)"

definition Parse :: "string \<Rightarrow> uuid_error + UUID" where
  "Parse s =
     (if length s \<noteq> 36 then
        (if length s \<noteq> 36 + 9 then Inl (InvalidLength (length s))
         else if ToLower (take 9 s) \<noteq> ''urn:uuid:'' then Inl (InvalidUrnPrefix (take 9 s))
         else parse36 (drop 9 s))
      else parse36 s)"

section \<open>Version 4 and the database\<close>

text \<open>
  \<open>NewRandom\<close> on the outcome of reading 16 random bytes: \<open>None\<close> when the source fails.
  \<open>New\<close> panics then, which is \<open>None\<close> as well.
\<close>

definition NewRandom :: "byte list option \<Rightarrow> UUID option" where
  "NewRandom rnd =
     (case rnd of
        None \<Rightarrow> None
      | Some u \<Rightarrow> Some (u[6 := (u ! 6 AND 0x0f) OR 0x40, 8 := (u ! 8 AND 0x3f) OR 0x80]))"

definition UUID_New :: "byte list option \<Rightarrow> UUID option" where
  "UUID_New rnd = NewRandom rnd"

definition UUID_Version :: "UUID \<Rightarrow> byte" where
  "UUID_Version u = drop_bit 4 (u ! 6)"

datatype uuid_variant = RFC4122 | Reserved | Microsoft | Future

definition UUID_Variant :: "UUID \<Rightarrow> uuid_variant" where
  "UUID_Variant u =
     (if u ! 8 AND 0xc0 = 0x80 then RFC4122
      else if u ! 8 AND 0xe0 = 0xc0 then Microsoft
      else if u ! 8 AND 0xe0 = 0xe0 then Future
      else Reserved)"

text \<open>\<open>Value\<close> writes the printed form; \<open>Scan\<close> reads a text column, where empty text keeps the value.\<close>

definition UUID_Value :: "UUID \<Rightarrow> string" where
  "UUID_Value u = UUID_String u"

definition UUID_Scan :: "UUID \<Rightarrow> string \<Rightarrow> uuid_error + UUID" where
  "UUID_Scan u src = (if src = [] then Inr u else Parse src)"

section \<open>Round trips\<close>

lemma xvalue_hex_digit: "unat n < 16 \<Longrightarrow> xvalue (hex_digit n) = n"
proof -
  assume "unat n < 16"
  then have "unat n \<in> {0, 1, 2, 3, 4, 5, 6, 7, 8, 9, 10, 11, 12, 13, 14, 15}"
    by (auto simp: less_Suc_eq numeral_eq_Suc)
  then have "xvalue (hex_digit (word_of_nat (unat n))) = word_of_nat (unat n)"
    by (elim insertE) (simp_all add: hex_digit_def xvalue_def xvalues_def nth_append)
  then show ?thesis by simp
qed

lemma nibble_hi: "unat (drop_bit 4 (b :: byte)) < 16"
proof -
  have "unat b < 2 ^ LENGTH(8)" by (rule unsigned_less)
  then show ?thesis unfolding unat_drop_bit_eq by (simp add: drop_bit_eq_div)
qed

lemma nibble_lo: "unat (b AND 15 :: byte) < 16"
proof -
  have "b AND 15 \<le> (15 :: byte)" by (rule word_and_le1)
  then show ?thesis by (simp add: word_le_nat_alt)
qed

lemma nibbles_join: "push_bit 4 (drop_bit 4 b) OR (b AND 15) = (b :: byte)"
proof (rule bit_word_eqI)
  fix n assume "n < LENGTH(8)"
  then have "n \<in> {0, 1, 2, 3, 4, 5, 6, 7}" by auto
  then show "bit (push_bit 4 (drop_bit 4 b) OR (b AND 15)) n = bit b n"
    by (elim insertE) (simp_all add: bit_simps)
qed

lemma xtob_hex [simp]:
  "xtob (hex_digit (drop_bit 4 b)) (hex_digit (b AND 15)) = (b, True)"
proof -
  have "drop_bit 4 b \<noteq> 255" "b AND 15 \<noteq> 255"
    using nibble_hi [of b] nibble_lo [of b] by auto
  then show ?thesis
    by (simp add: xtob_def xvalue_hex_digit nibble_hi nibble_lo nibbles_join)
qed

text \<open>A list of 16 elements, taken apart.\<close>

lemma length_16:
  assumes "length xs = 16"
  obtains x0 x1 x2 x3 x4 x5 x6 x7 x8 x9 x10 x11 x12 x13 x14 x15 where
    "xs = [x0, x1, x2, x3, x4, x5, x6, x7, x8, x9, x10, x11, x12, x13, x14, x15]"
  using assms by (auto simp: length_Suc_conv numeral_eq_Suc)

lemma UUID_String_length: "length u = 16 \<Longrightarrow> length (UUID_String u) = 36"
  by (erule length_16) (simp add: UUID_String_def encodeHex_def)

lemma Parse_String: "length u = 16 \<Longrightarrow> Parse (UUID_String u) = Inr u"
  by (erule length_16)
    (simp add: Parse_def parse36_def hex_offsets_def UUID_String_def encodeHex_def)

lemma Parse_urn_String: "length u = 16 \<Longrightarrow> Parse (''urn:uuid:'' @ UUID_String u) = Inr u"
  by (erule length_16)
    (simp add: Parse_def parse36_def hex_offsets_def UUID_String_def encodeHex_def
      ToLower_def lower_char_def less_eq_char_def)

lemma UUID_String_inj:
  "length u = 16 \<Longrightarrow> length v = 16 \<Longrightarrow> UUID_String u = UUID_String v \<longleftrightarrow> u = v"
  by (metis Inr_inject Parse_String)

lemma parse_bytes_length: "parse_bytes s xs = Inr u \<Longrightarrow> length u = length xs"
  by (induction xs arbitrary: u) (auto split: prod.splits if_splits sum.splits)

lemma parse36_length: "parse36 s = Inr u \<Longrightarrow> length u = 16"
  using parse_bytes_length [of s hex_offsets u]
  by (auto simp: parse36_def hex_offsets_def simp del: parse_bytes.simps split: if_splits)

lemma Parse_length: "Parse s = Inr u \<Longrightarrow> length u = 16"
  by (auto simp: Parse_def dest: parse36_length split: if_splits)

lemma Parse_input_length: "Parse s = Inr u \<Longrightarrow> length s = 36 \<or> length s = 45"
  by (auto simp: Parse_def split: if_splits)

lemma Scan_Value: "length u = 16 \<Longrightarrow> UUID_Scan v (UUID_Value u) = Inr u"
  using UUID_String_length [of u]
  by (auto simp: UUID_Scan_def UUID_Value_def Parse_String)

end
