(* ===== verification/Pb_Messages.thy ===== *)
theory Pb_Messages
  imports Uuid
begin

text \<open>
  The generated message types of \<open>pb/www.pb.go\<close>: one record for each struct, the getters
  (which accept a nil receiver), \<open>Reset\<close>, the enumeration \<open>ServiceStatus_Status\<close> (a 32-bit
  integer, so values outside the two named ones exist), and the \<open>Equal\<close> methods, which take
  an \<open>interface{}\<close>. A message pointer is an \<open>option\<close>, nil being \<open>None\<close>.
\<close>

section \<open>The enumeration of service states\<close>

type_synonym ServiceStatus_Status = "32 word"

definition ServiceStatus_OK :: ServiceStatus_Status where
  "ServiceStatus_OK = 0"

definition ServiceStatus_UNAVAILABLE :: ServiceStatus_Status where
  "ServiceStatus_UNAVAILABLE = 1"

definition ServiceStatus_Status_name :: "ServiceStatus_Status \<rightharpoonup> string" where
  "ServiceStatus_Status_name = [0 \<mapsto> ''OK'', 1 \<mapsto> ''UNAVAILABLE'']"

definition ServiceStatus_Status_value :: "string \<rightharpoonup> ServiceStatus_Status" where
  "ServiceStatus_Status_value = [''OK'' \<mapsto> 0, ''UNAVAILABLE'' \<mapsto> 1]"

text \<open>\<open>proto.EnumName\<close>: the name of the value, or its decimal form.\<close>

definition ServiceStatus_Status_String :: "ServiceStatus_Status \<Rightarrow> string" where
  "ServiceStatus_Status_String x =
     (case ServiceStatus_Status_name x of Some s \<Rightarrow> s | None \<Rightarrow> Itoa (sint x))"

section \<open>Messages\<close>

datatype EmptyMessage = EmptyMessage

record VersionResponse =
  vr_Name :: "string"
  vr_Version :: "string"

record ServiceStatus =
  st_Name :: "string"
  st_Version :: "string"
  st_Status :: "ServiceStatus_Status"
  st_EMsg :: "string"

record ServicesStatusList =
  sl_Services :: "ServiceStatus option list"

record RsvpCreationRequest =
  rq_Names :: "string"
  rq_Email :: "string"
  rq_Presence :: "bool"
  rq_ChildrenNameAge :: "string"
  rq_Housing :: "bool"
  rq_Music :: "string"
  rq_Brunch :: "bool"

record RsvpInfo =
  ri_Uuid :: "string"
  ri_Names :: "string"
  ri_Email :: "string"
  ri_Presence :: "bool"
  ri_ChildrenNameAge :: "string"
  ri_Housing :: "bool"
  ri_Music :: "string"
  ri_Brunch :: "bool"
  ri_CreatedAt :: "string"
  ri_UpdatedAt :: "string"
  ri_DeletedAt :: "string"

record RsvpCreationResponse =
  rs_Ok :: "bool"
  rs_Info :: "RsvpInfo option"

text \<open>The zero messages, which \<open>Reset\<close> stores.\<close>

definition VersionResponse_Reset :: VersionResponse where
  "VersionResponse_Reset = \<lparr>vr_Name = [],
     vr_Version = []\<rparr>"

definition ServiceStatus_Reset :: ServiceStatus where
  "ServiceStatus_Reset = \<lparr>st_Name = [],
     st_Version = [],
     st_Status = ServiceStatus_OK,
     st_EMsg = []\<rparr>"

definition ServicesStatusList_Reset :: ServicesStatusList where
  "ServicesStatusList_Reset = \<lparr>sl_Services = []\<rparr>"

definition RsvpCreationRequest_Reset :: RsvpCreationRequest where
  "RsvpCreationRequest_Reset = \<lparr>rq_Names = [],
     rq_Email = [],
     rq_Presence = False,
     rq_ChildrenNameAge = [],
     rq_Housing = False,
     rq_Music = [],
     rq_Brunch = False\<rparr>"

definition RsvpInfo_Reset :: RsvpInfo where
  "RsvpInfo_Reset = \<lparr>ri_Uuid = [],
     ri_Names = [],
     ri_Email = [],
     ri_Presence = False,
     ri_ChildrenNameAge = [],
     ri_Housing = False,
     ri_Music = [],
     ri_Brunch = False,
     ri_CreatedAt = [],
     ri_UpdatedAt = [],
     ri_DeletedAt = []\<rparr>"

definition RsvpCreationResponse_Reset :: RsvpCreationResponse where
  "RsvpCreationResponse_Reset = \<lparr>rs_Ok = False,
     rs_Info = None\<rparr>"

section \<open>Getters\<close>

definition VersionResponse_GetName :: "VersionResponse option \<Rightarrow> string" where
  "VersionResponse_GetName m = (case m of Some m \<Rightarrow> vr_Name m | None \<Rightarrow> [])"

definition VersionResponse_GetVersion :: "VersionResponse option \<Rightarrow> string" where
  "VersionResponse_GetVersion m = (case m of Some m \<Rightarrow> vr_Version m | None \<Rightarrow> [])"

definition ServiceStatus_GetName :: "ServiceStatus option \<Rightarrow> string" where
  "ServiceStatus_GetName m = (case m of Some m \<Rightarrow> st_Name m | None \<Rightarrow> [])"

definition ServiceStatus_GetVersion :: "ServiceStatus option \<Rightarrow> string" where
  "ServiceStatus_GetVersion m = (case m of Some m \<Rightarrow> st_Version m | None \<Rightarrow> [])"

definition ServiceStatus_GetStatus :: "ServiceStatus option \<Rightarrow> ServiceStatus_Status" where
  "ServiceStatus_GetStatus m = (case m of Some m \<Rightarrow> st_Status m | None \<Rightarrow> ServiceStatus_OK)"

definition ServiceStatus_GetEMsg :: "ServiceStatus option \<Rightarrow> string" where
  "ServiceStatus_GetEMsg m = (case m of Some m \<Rightarrow> st_EMsg m | None \<Rightarrow> [])"

definition ServicesStatusList_GetServices :: "ServicesStatusList option \<Rightarrow> ServiceStatus option list" where
  "ServicesStatusList_GetServices m = (case m of Some m \<Rightarrow> sl_Services m | None \<Rightarrow> [])"

definition RsvpCreationRequest_GetNames :: "RsvpCreationRequest option \<Rightarrow> string" where
  "RsvpCreationRequest_GetNames m = (case m of Some m \<Rightarrow> rq_Names m | None \<Rightarrow> [])"

definition RsvpCreationRequest_GetEmail :: "RsvpCreationRequest option \<Rightarrow> string" where
  "RsvpCreationRequest_GetEmail m = (case m of Some m \<Rightarrow> rq_Email m | None \<Rightarrow> [])"

definition RsvpCreationRequest_GetPresence :: "RsvpCreationRequest option \<Rightarrow> bool" where
  "RsvpCreationRequest_GetPresence m = (case m of Some m \<Rightarrow> rq_Presence m | None \<Rightarrow> False)"

definition RsvpCreationRequest_GetChildrenNameAge :: "RsvpCreationRequest option \<Rightarrow> string" where
  "RsvpCreationRequest_GetChildrenNameAge m = (case m of Some m \<Rightarrow> rq_ChildrenNameAge m | None \<Rightarrow> [])"

definition RsvpCreationRequest_GetHousing :: "RsvpCreationRequest option \<Rightarrow> bool" where
  "RsvpCreationRequest_GetHousing m = (case m of Some m \<Rightarrow> rq_Housing m | None \<Rightarrow> False)"

definition RsvpCreationRequest_GetMusic :: "RsvpCreationRequest option \<Rightarrow> string" where
  "RsvpCreationRequest_GetMusic m = (case m of Some m \<Rightarrow> rq_Music m | None \<Rightarrow> [])"

definition RsvpCreationRequest_GetBrunch :: "RsvpCreationRequest option \<Rightarrow> bool" where
  "RsvpCreationRequest_GetBrunch m = (case m of Some m \<Rightarrow> rq_Brunch m | None \<Rightarrow> False)"

definition RsvpInfo_GetUuid :: "RsvpInfo option \<Rightarrow> string" where
  "RsvpInfo_GetUuid m = (case m of Some m \<Rightarrow> ri_Uuid m | None \<Rightarrow> [])"

definition RsvpInfo_GetNames :: "RsvpInfo option \<Rightarrow> string" where
  "RsvpInfo_GetNames m = (case m of Some m \<Rightarrow> ri_Names m | None \<Rightarrow> [])"

definition RsvpInfo_GetEmail :: "RsvpInfo option \<Rightarrow> string" where
  "RsvpInfo_GetEmail m = (case m of Some m \<Rightarrow> ri_Email m | None \<Rightarrow> [])"

definition RsvpInfo_GetPresence :: "RsvpInfo option \<Rightarrow> bool" where
  "RsvpInfo_GetPresence m = (case m of Some m \<Rightarrow> ri_Presence m | None \<Rightarrow> False)"

definition RsvpInfo_GetChildrenNameAge :: "RsvpInfo option \<Rightarrow> string" where
  "RsvpInfo_GetChildrenNameAge m = (case m of Some m \<Rightarrow> ri_ChildrenNameAge m | None \<Rightarrow> [])"

definition RsvpInfo_GetHousing :: "RsvpInfo option \<Rightarrow> bool" where
  "RsvpInfo_GetHousing m = (case m of Some m \<Rightarrow> ri_Housing m | None \<Rightarrow> False)"

definition RsvpInfo_GetMusic :: "RsvpInfo option \<Rightarrow> string" where
  "RsvpInfo_GetMusic m = (case m of Some m \<Rightarrow> ri_Music m | None \<Rightarrow> [])"

definition RsvpInfo_GetBrunch :: "RsvpInfo option \<Rightarrow> bool" where
  "RsvpInfo_GetBrunch m = (case m of Some m \<Rightarrow> ri_Brunch m | None \<Rightarrow> False)"

definition RsvpInfo_GetCreatedAt :: "RsvpInfo option \<Rightarrow> string" where
  "RsvpInfo_GetCreatedAt m = (case m of Some m \<Rightarrow> ri_CreatedAt m | None \<Rightarrow> [])"

definition RsvpInfo_GetUpdatedAt :: "RsvpInfo option \<Rightarrow> string" where
  "RsvpInfo_GetUpdatedAt m = (case m of Some m \<Rightarrow> ri_UpdatedAt m | None \<Rightarrow> [])"

definition RsvpInfo_GetDeletedAt :: "RsvpInfo option \<Rightarrow> string" where
  "RsvpInfo_GetDeletedAt m = (case m of Some m \<Rightarrow> ri_DeletedAt m | None \<Rightarrow> [])"

definition RsvpCreationResponse_GetOk :: "RsvpCreationResponse option \<Rightarrow> bool" where
  "RsvpCreationResponse_GetOk m = (case m of Some m \<Rightarrow> rs_Ok m | None \<Rightarrow> False)"

definition RsvpCreationResponse_GetInfo :: "RsvpCreationResponse option \<Rightarrow> RsvpInfo option" where
  "RsvpCreationResponse_GetInfo m = (case m of Some m \<Rightarrow> rs_Info m | None \<Rightarrow> None)"

lemmas getter_simps [getter_defs] =
  VersionResponse_GetName_def
  VersionResponse_GetVersion_def
  ServiceStatus_GetName_def
  ServiceStatus_GetVersion_def
  ServiceStatus_GetStatus_def
  ServiceStatus_GetEMsg_def
  ServicesStatusList_GetServices_def
  RsvpCreationRequest_GetNames_def
  RsvpCreationRequest_GetEmail_def
  RsvpCreationRequest_GetPresence_def
  RsvpCreationRequest_GetChildrenNameAge_def
  RsvpCreationRequest_GetHousing_def
  RsvpCreationRequest_GetMusic_def
  RsvpCreationRequest_GetBrunch_def
  RsvpInfo_GetUuid_def
  RsvpInfo_GetNames_def
  RsvpInfo_GetEmail_def
  RsvpInfo_GetPresence_def
  RsvpInfo_GetChildrenNameAge_def
  RsvpInfo_GetHousing_def
  RsvpInfo_GetMusic_def
  RsvpInfo_GetBrunch_def
  RsvpInfo_GetCreatedAt_def
  RsvpInfo_GetUpdatedAt_def
  RsvpInfo_GetDeletedAt_def
  RsvpCreationResponse_GetOk_def
  RsvpCreationResponse_GetInfo_def

section \<open>Equality\<close>

text \<open>
  The frame every generated \<open>Equal\<close> has: the nil interface, the two type assertions, the nil
  pointers, and then the comparison of the fields.
\<close>

definition equal_frame :: "('a \<Rightarrow> 'a \<Rightarrow> bool) \<Rightarrow> 'a option \<Rightarrow> 'a iface \<Rightarrow> bool" where
  "equal_frame eqf this that =
     (case that of
        INil \<Rightarrow> this = None
      | IOther \<Rightarrow> False
      | IVal v \<Rightarrow> (case this of None \<Rightarrow> False | Some t \<Rightarrow> eqf t v)
      | IPtr None \<Rightarrow> this = None
      | IPtr (Some v) \<Rightarrow> (case this of None \<Rightarrow> False | Some t \<Rightarrow> eqf t v))"

text \<open>What an \<open>Equal\<close> method promises: equality with the message the interface holds.\<close>

definition holds :: "'a iface \<Rightarrow> 'a option \<Rightarrow> bool" where
  "holds that this =
     (case that of
        INil \<Rightarrow> this = None
      | IPtr p \<Rightarrow> this = p
      | IVal v \<Rightarrow> this = Some v
      | IOther \<Rightarrow> False)"

lemma equal_frame_holds:
  assumes "\<And>x y. eqf x y \<longleftrightarrow> x = y"
  shows "equal_frame eqf this that \<longleftrightarrow> holds that this"
  by (auto simp: equal_frame_def holds_def assms split: iface.split option.split)

definition EmptyMessage_Equal :: "EmptyMessage option \<Rightarrow> EmptyMessage iface \<Rightarrow> bool" where
  "EmptyMessage_Equal = equal_frame (\<lambda>x y. True)"

definition VersionResponse_Equal :: "VersionResponse option \<Rightarrow> VersionResponse iface \<Rightarrow> bool" where
  "VersionResponse_Equal = equal_frame (\<lambda>x y.
     if vr_Name x \<noteq> vr_Name y then False
     else if vr_Version x \<noteq> vr_Version y then False
     else True)"

definition ServiceStatus_Equal :: "ServiceStatus option \<Rightarrow> ServiceStatus iface \<Rightarrow> bool" where
  "ServiceStatus_Equal = equal_frame (\<lambda>x y.
     if st_Name x \<noteq> st_Name y then False
     else if st_Version x \<noteq> st_Version y then False
     else if st_Status x \<noteq> st_Status y then False
     else if st_EMsg x \<noteq> st_EMsg y then False
     else True)"

text \<open>The loop compares the pointers at each index with \<open>ServiceStatus.Equal\<close>.\<close>

fun all_Equal :: "ServiceStatus option list \<Rightarrow> ServiceStatus option list \<Rightarrow> bool" where
  "all_Equal (x # xs) (y # ys) = (ServiceStatus_Equal x (IPtr y) \<and> all_Equal xs ys)"
| "all_Equal _ _ = True"

definition ServicesStatusList_Equal :: "ServicesStatusList option \<Rightarrow> ServicesStatusList iface \<Rightarrow> bool" where
  "ServicesStatusList_Equal = equal_frame (\<lambda>x y.
     if length (sl_Services x) \<noteq> length (sl_Services y) then False
     else all_Equal (sl_Services x) (sl_Services y))"

definition RsvpCreationRequest_Equal :: "RsvpCreationRequest option \<Rightarrow> RsvpCreationRequest iface \<Rightarrow> bool" where
  "RsvpCreationRequest_Equal = equal_frame (\<lambda>x y.
     if rq_Names x \<noteq> rq_Names y then False
     else if rq_Email x \<noteq> rq_Email y then False
     else if rq_Presence x \<noteq> rq_Presence y then False
     else if rq_ChildrenNameAge x \<noteq> rq_ChildrenNameAge y then False
     else if rq_Housing x \<noteq> rq_Housing y then False
     else if rq_Music x \<noteq> rq_Music y then False
     else if rq_Brunch x \<noteq> rq_Brunch y then False
     else True)"

definition RsvpInfo_Equal :: "RsvpInfo option \<Rightarrow> RsvpInfo iface \<Rightarrow> bool" where
  "RsvpInfo_Equal = equal_frame (\<lambda>x y.
     if ri_Uuid x \<noteq> ri_Uuid y then False
     else if ri_Names x \<noteq> ri_Names y then False
     else if ri_Email x \<noteq> ri_Email y then False
     else if ri_Presence x \<noteq> ri_Presence y then False
     else if ri_ChildrenNameAge x \<noteq> ri_ChildrenNameAge y then False
     else if ri_Housing x \<noteq> ri_Housing y then False
     else if ri_Music x \<noteq> ri_Music y then False
     else if ri_Brunch x \<noteq> ri_Brunch y then False
     else if ri_CreatedAt x \<noteq> ri_CreatedAt y then False
     else if ri_UpdatedAt x \<noteq> ri_UpdatedAt y then False
     else if ri_DeletedAt x \<noteq> ri_DeletedAt y then False
     else True)"

definition RsvpCreationResponse_Equal :: "RsvpCreationResponse option \<Rightarrow> RsvpCreationResponse iface \<Rightarrow> bool" where
  "RsvpCreationResponse_Equal = equal_frame (\<lambda>x y.
     if rs_Ok x \<noteq> rs_Ok y then False
     else if \<not> RsvpInfo_Equal (rs_Info x) (IPtr (rs_Info y)) then False
     else True)"

lemma EmptyMessage_Equal_holds [equal_defs]:
  "EmptyMessage_Equal this that \<longleftrightarrow> holds that this"
  unfolding EmptyMessage_Equal_def
  by (rule equal_frame_holds) (metis EmptyMessage.exhaust)

lemma VersionResponse_Equal_holds [equal_defs]:
  "VersionResponse_Equal this that \<longleftrightarrow> holds that this"
  unfolding VersionResponse_Equal_def
  by (rule equal_frame_holds) (auto)

lemma ServiceStatus_Equal_holds [equal_defs]:
  "ServiceStatus_Equal this that \<longleftrightarrow> holds that this"
  unfolding ServiceStatus_Equal_def
  by (rule equal_frame_holds) (auto)

lemma all_Equal_iff: "length xs = length ys \<Longrightarrow> all_Equal xs ys \<longleftrightarrow> xs = ys"
  by (induction xs ys rule: list_induct2) (auto simp: equal_defs holds_def)

lemma ServicesStatusList_Equal_holds [equal_defs]:
  "ServicesStatusList_Equal this that \<longleftrightarrow> holds that this"
  unfolding ServicesStatusList_Equal_def
  by (rule equal_frame_holds) (auto simp: all_Equal_iff)

lemma RsvpCreationRequest_Equal_holds [equal_defs]:
  "RsvpCreationRequest_Equal this that \<longleftrightarrow> holds that this"
  unfolding RsvpCreationRequest_Equal_def
  by (rule equal_frame_holds) (auto)

lemma RsvpInfo_Equal_holds [equal_defs]:
  "RsvpInfo_Equal this that \<longleftrightarrow> holds that this"
  unfolding RsvpInfo_Equal_def
  by (rule equal_frame_holds) (auto)

lemma RsvpCreationResponse_Equal_holds [equal_defs]:
  "RsvpCreationResponse_Equal this that \<longleftrightarrow> holds that this"
  unfolding RsvpCreationResponse_Equal_def
  by (rule equal_frame_holds) (auto simp: equal_defs holds_def)

end
