(* ===== verification/Pb_Validator.thy ===== *)
theory Pb_Validator
  imports Pb_Messages
begin

text \<open>
  The generated validators of \<open>pb/www.validator.pb.go\<close> and the \<open>FieldError\<close> wrapper of
  go-proto-validators. The two regular expressions are the compiled patterns of the file.
\<close>

section \<open>Field errors\<close>

text \<open>
  A validation error is a stack of field names around the message of the innermost error. An
  error that is not a \<open>fieldError\<close> has an empty stack here; wrapping it starts the stack.
\<close>

record fieldError =
  fieldStack :: "string list"
  nestedErr :: string

definition fieldError_Error :: "fieldError \<Rightarrow> string" where
  "fieldError_Error f =
     (if fieldStack f = [] then nestedErr f
      else ''invalid field '' @ Join (fieldStack f) ''.'' @ '': '' @ nestedErr f)"

definition Errorf :: "string \<Rightarrow> fieldError" where
  "Errorf msg = \<lparr>fieldStack = [], nestedErr = msg\<rparr>"

definition FieldError :: "string \<Rightarrow> fieldError \<Rightarrow> fieldError" where
  "FieldError fieldName err = err\<lparr>fieldStack := fieldName # fieldStack err\<rparr>"

section \<open>The patterns\<close>

definition alnum_class :: cclass where
  "alnum_class = [(97, 122), (65, 90), (48, 57)]"

definition alnumh_class :: cclass where
  "alnumh_class = alnum_class @ [(45, 45)]"

text \<open>\<open>[a-zA-Z0-9.!#$%&'*+/=?^_{|}~-]\<close>\<close>

definition local_class :: cclass where
  "local_class =
     alnum_class @
     [(46, 46), (33, 33), (35, 35), (36, 36), (37, 37), (38, 38), (39, 39), (42, 42), (43, 43),
      (47, 47), (61, 61), (63, 63), (94, 94), (95, 95), (123, 123), (124, 124), (125, 125),
      (126, 126), (45, 45)]"

text \<open>\<open>[a-zA-Z0-9](?:[a-zA-Z0-9-]{0,61}[a-zA-Z0-9])?\<close>\<close>

definition label_rx :: rx where
  "label_rx =
     RSeq (RSet alnum_class)
       (ROpt (RSeq (RRep (RSet alnumh_class) 0 61) (RSet alnum_class)))"

definition regex_Email :: rx where
  "regex_Email =
     RSeq (RPlus (RSet local_class))
       (RSeq (RLit CHR ''@'') (RSeq label_rx (RStar (RSeq (RLit CHR ''.'') label_rx))))"

definition hex_class :: cclass where
  "hex_class = [(97, 102), (65, 70), (48, 57)]"

text \<open>The class \<open>[8|9|aA|bB]\<close>, in which the bar is a member like any other character.\<close>

definition variant_class :: cclass where
  "variant_class =
     [(56, 56), (124, 124), (57, 57), (124, 124), (97, 97), (65, 65), (124, 124), (98, 98), (66, 66)]"

definition regex_Uuid :: rx where
  "regex_Uuid =
     RSeq (RRep (RSet hex_class) 8 8) (RSeq (RLit CHR ''-'')
    (RSeq (RRep (RSet hex_class) 4 4) (RSeq (RLit CHR ''-'')
    (RSeq (RLit CHR ''4'') (RSeq (RRep (RSet hex_class) 3 3) (RSeq (RLit CHR ''-'')
    (RSeq (RSet variant_class) (RSeq (RRep (RSet hex_class) 3 3) (RSeq (RLit CHR ''-'')
      (RRep (RSet hex_class) 12 12))))))))))"

section \<open>The validators\<close>

definition gt2_msg :: "string \<Rightarrow> string" where
  "gt2_msg v = ''value '' @ [CHR 0x27] @ v @ [CHR 0x27] @ '' must length be greater than '' @
     [CHR 0x27] @ ''2'' @ [CHR 0x27]"

definition lt256_msg :: "string \<Rightarrow> string" where
  "lt256_msg v = ''value '' @ [CHR 0x27] @ v @ [CHR 0x27] @ '' must length be less than '' @
     [CHR 0x27] @ ''256'' @ [CHR 0x27]"

definition EmptyMessage_Validate :: "EmptyMessage \<Rightarrow> fieldError option" where
  "EmptyMessage_Validate m = None"

definition VersionResponse_Validate :: "VersionResponse \<Rightarrow> fieldError option" where
  "VersionResponse_Validate m = None"

definition ServiceStatus_Validate :: "ServiceStatus \<Rightarrow> fieldError option" where
  "ServiceStatus_Validate m = None"

text \<open>The loop skips nil items and stops at the first error.\<close>

fun validate_items :: "ServiceStatus option list \<Rightarrow> fieldError option" where
  "validate_items [] = None"
| "validate_items (None # xs) = validate_items xs"
| "validate_items (Some x # xs) =
     (case ServiceStatus_Validate x of
        Some err \<Rightarrow> Some (FieldError ''Services'' err)
      | None \<Rightarrow> validate_items xs)"

definition ServicesStatusList_Validate :: "ServicesStatusList \<Rightarrow> fieldError option" where
  "ServicesStatusList_Validate m = validate_items (sl_Services m)"

definition RsvpCreationRequest_Validate :: "RsvpCreationRequest \<Rightarrow> fieldError option" where
  "RsvpCreationRequest_Validate m =
     (if \<not> length (rq_Names m) > 2 then Some (FieldError ''Names'' (Errorf (gt2_msg (rq_Names m))))
      else if \<not> length (rq_Names m) < 256 then
        Some (FieldError ''Names'' (Errorf (lt256_msg (rq_Names m))))
      else if \<not> MatchString regex_Email (rq_Email m) then
        Some (FieldError ''Email'' (Errorf ''Invalid email''))
      else if \<not> length (rq_ChildrenNameAge m) < 256 then
        Some (FieldError ''ChildrenNameAge'' (Errorf (lt256_msg (rq_ChildrenNameAge m))))
      else if \<not> length (rq_Music m) < 256 then
        Some (FieldError ''Music'' (Errorf (lt256_msg (rq_Music m))))
      else None)"

definition RsvpInfo_Validate :: "RsvpInfo \<Rightarrow> fieldError option" where
  "RsvpInfo_Validate m =
     (if \<not> MatchString regex_Uuid (ri_Uuid m) then
        Some (FieldError ''Uuid'' (Errorf ''Invalid uuid''))
      else if \<not> length (ri_Names m) > 2 then
        Some (FieldError ''Names'' (Errorf (gt2_msg (ri_Names m))))
      else if \<not> length (ri_Names m) < 256 then
        Some (FieldError ''Names'' (Errorf (lt256_msg (ri_Names m))))
      else if \<not> MatchString regex_Email (ri_Email m) then
        Some (FieldError ''Email'' (Errorf ''Invalid email''))
      else if \<not> length (ri_ChildrenNameAge m) < 256 then
        Some (FieldError ''ChildrenNameAge'' (Errorf (lt256_msg (ri_ChildrenNameAge m))))
      else if \<not> length (ri_Music m) < 256 then
        Some (FieldError ''Music'' (Errorf (lt256_msg (ri_Music m))))
      else None)"

definition RsvpCreationResponse_Validate :: "RsvpCreationResponse \<Rightarrow> fieldError option" where
  "RsvpCreationResponse_Validate m =
     (case rs_Info m of
        None \<Rightarrow> None
      | Some info \<Rightarrow>
          (case RsvpInfo_Validate info of
             Some err \<Rightarrow> Some (FieldError ''Info'' err)
           | None \<Rightarrow> None))"

section \<open>What the patterns accept\<close>

text \<open>A domain label: 1 to 63 letters, digits and hyphens, no hyphen at either end.\<close>

definition label_ok :: "string \<Rightarrow> bool" where
  "label_ok l \<longleftrightarrow>
     l \<noteq> [] \<and> length l \<le> 63 \<and> in_class alnum_class (hd l) \<and> in_class alnum_class (last l) \<and>
     list_all (in_class alnumh_class) l"

text \<open>An address: a non-empty local part, the first \<open>@\<close>, and labels separated by dots.\<close>

definition email_ok :: "string \<Rightarrow> bool" where
  "email_ok s \<longleftrightarrow>
     (let loc = takeWhile (\<lambda>c. c \<noteq> CHR ''@'') s; rest = dropWhile (\<lambda>c. c \<noteq> CHR ''@'') s
      in loc \<noteq> [] \<and> list_all (in_class local_class) loc \<and> rest \<noteq> [] \<and>
         list_all label_ok (split_char CHR ''.'' (tl rest)))"

lemma words_list_all: "w \<in> words cs \<longleftrightarrow> list_all (in_class cs) w"
  by (simp add: words_def list_all_iff)

lemma alnum_alnumh: "in_class alnum_class c \<Longrightarrow> in_class alnumh_class c"
  by (simp add: in_class_def alnumh_class_def)

lemma label_tail_lang:
  "u @ [d] \<in> rx_lang (RSeq (RRep (RSet alnumh_class) 0 61) (RSet alnum_class)) \<longleftrightarrow>
     length u \<le> 61 \<and> u \<in> words alnumh_class \<and> in_class alnum_class d"
  by (auto simp: RRep_upto)

lemma Nil_not_label_tail: "[] \<notin> rx_lang (RSeq r (RSet cs))"
  by auto

lemma label_rx_lang: "l \<in> rx_lang label_rx \<longleftrightarrow> label_ok l"
proof (cases l)
  case Nil
  then show ?thesis by (simp add: label_rx_def label_ok_def)
next
  case (Cons c t)
  have "l \<in> rx_lang label_rx \<longleftrightarrow> in_class alnum_class c \<and>
      (t = [] \<or> t \<in> rx_lang (RSeq (RRep (RSet alnumh_class) 0 61) (RSet alnum_class)))"
    unfolding label_rx_def Cons RSeq_class by simp
  also have "\<dots> \<longleftrightarrow> label_ok l"
  proof (cases t rule: rev_cases)
    case Nil
    with Cons show ?thesis by (auto simp: label_ok_def alnum_alnumh)
  next
    case (snoc u d)
    with Cons show ?thesis
      by (auto simp: label_tail_lang label_ok_def alnum_alnumh words_list_all
          simp del: rx_lang.simps(4))
  qed
  finally show ?thesis .
qed

lemma at_not_local: "\<not> in_class local_class CHR ''@''"
  by (simp add: in_class_def local_class_def alnum_class_def)

lemma dot_not_label: "label_ok l \<Longrightarrow> CHR ''.'' \<notin> set l"
  by (auto simp: label_ok_def list_all_iff in_class_def alnumh_class_def alnum_class_def)

lemma dotted_lang:
  "w \<in> rx_lang (RSeq label_rx (RStar (RSeq (RLit CHR ''.'') label_rx))) \<longleftrightarrow>
     list_all label_ok (split_char CHR ''.'' w)"
proof -
  have "w \<in> rx_lang (RSeq label_rx (RStar (RSeq (RLit CHR ''.'') label_rx))) \<longleftrightarrow>
     (\<exists>ws. w = Join ws ''.'' \<and> ws \<noteq> [] \<and> list_all label_ok ws)"
    unfolding sep_list_lang by (auto simp: label_rx_lang list_all_iff subset_eq)
  also have "\<dots> \<longleftrightarrow> list_all label_ok (split_char CHR ''.'' w)"
  proof
    assume "\<exists>ws. w = Join ws ''.'' \<and> ws \<noteq> [] \<and> list_all label_ok ws"
    then obtain ws where ws: "w = Join ws ''.''" "ws \<noteq> []" "list_all label_ok ws" by blast
    then have "split_char CHR ''.'' w = ws"
      by (auto intro!: split_char_Join dot_not_label simp: list_all_iff)
    with ws show "list_all label_ok (split_char CHR ''.'' w)" by simp
  next
    assume "list_all label_ok (split_char CHR ''.'' w)"
    then show "\<exists>ws. w = Join ws ''.'' \<and> ws \<noteq> [] \<and> list_all label_ok ws"
      by (intro exI [of _ "split_char CHR ''.'' w"]) (simp add: Join_split_char)
  qed
  finally show ?thesis .
qed

lemma RSeq_lit: "w \<in> rx_lang (RSeq (RLit c) s) \<longleftrightarrow> (\<exists>v. w = c # v \<and> v \<in> rx_lang s)"
  by auto

lemma regex_Email_ok: "MatchString regex_Email s \<longleftrightarrow> email_ok s"
proof -
  let ?D = "RSeq label_rx (RStar (RSeq (RLit CHR ''.'') label_rx))"
  let ?P = "\<lambda>c. c \<noteq> CHR ''@''"
  have "MatchString regex_Email s \<longleftrightarrow>
    (\<exists>u v. s = u @ CHR ''@'' # v \<and> u \<noteq> [] \<and> u \<in> words local_class \<and> v \<in> rx_lang ?D)"
    unfolding MatchString_lang regex_Email_def rx_lang.simps(4) [of "RPlus _"] RPlus_class
    by (auto simp: RSeq_lit simp del: rx_lang.simps(4))
  also have "\<dots> \<longleftrightarrow> email_ok s"
  proof
    assume "\<exists>u v. s = u @ CHR ''@'' # v \<and> u \<noteq> [] \<and> u \<in> words local_class \<and> v \<in> rx_lang ?D"
    then obtain u v where uv: "s = u @ CHR ''@'' # v" "u \<noteq> []" "u \<in> words local_class"
      "v \<in> rx_lang ?D" by blast
    then have "\<forall>c \<in> set u. ?P c" using at_not_local by (auto simp: words_def)
    with uv(1) have "takeWhile ?P s = u" "dropWhile ?P s = CHR ''@'' # v" by auto
    with uv show "email_ok s" by (simp add: email_ok_def words_list_all dotted_lang del: rx_lang.simps)
  next
    assume ok: "email_ok s"
    let ?u = "takeWhile ?P s" and ?r = "dropWhile ?P s"
    from ok have "?r \<noteq> []" by (simp add: email_ok_def Let_def)
    then obtain v where r: "?r = CHR ''@'' # v" using hd_dropWhile [of ?P s] by (cases ?r) auto
    then have "s = ?u @ CHR ''@'' # v" by (metis takeWhile_dropWhile_id)
    moreover have "?u \<noteq> []" "?u \<in> words local_class" "v \<in> rx_lang ?D"
      using ok r by (simp_all add: email_ok_def Let_def words_list_all dotted_lang del: rx_lang.simps)
    ultimately show "\<exists>u v. s = u @ CHR ''@'' # v \<and> u \<noteq> [] \<and> u \<in> words local_class \<and> v \<in> rx_lang ?D"
      by blast
  qed
  finally show ?thesis .
qed

text \<open>The identifier pattern reads its 36 characters position by position.\<close>

definition uuid_classes :: "cclass list" where
  "uuid_classes =
     replicate 8 hex_class @ [[(45, 45)]] @ replicate 4 hex_class @ [[(45, 45)]] @
     [[(52, 52)]] @ replicate 3 hex_class @ [[(45, 45)]] @
     [variant_class] @ replicate 3 hex_class @ [[(45, 45)]] @ replicate 12 hex_class"

definition reads :: "rx \<Rightarrow> cclass list \<Rightarrow> bool" where
  "reads r ks \<longleftrightarrow> (\<forall>w. w \<in> rx_lang r \<longleftrightarrow> list_all2 in_class ks w)"

lemma reads_REps: "reads REps []"
  by (simp add: reads_def)

lemma reads_RSet: "reads s ks \<Longrightarrow> reads (RSeq (RSet cs) s) (cs # ks)"
  unfolding reads_def RSeq_class by (auto simp: list_all2_Cons1)

lemma reads_RLit: "reads s ks \<Longrightarrow> reads (RSeq (RLit c) s) ([(of_char c, of_char c)] # ks)"
  unfolding RLit_def by (rule reads_RSet)

lemma reads_times: "reads s ks \<Longrightarrow> reads (times (RSet cs) n s) (replicate n cs @ ks)"
  by (induction n) (simp_all add: reads_RSet)

lemma times_RSeq: "reads (RSeq (RRep r n n) s) ks \<longleftrightarrow> reads (times r n s) ks"
proof -
  have "w \<in> rx_lang (RSeq (times r n REps) s) \<longleftrightarrow> w \<in> rx_lang (times r n s)" for w
  proof (induction n arbitrary: w)
    case (Suc n)
    have "w \<in> rx_lang (RSeq (times r (Suc n) REps) s) \<longleftrightarrow>
      (\<exists>a b. w = a @ b \<and> a \<in> rx_lang r \<and> b \<in> rx_lang (RSeq (times r n REps) s))"
      by simp (metis append.assoc)
    then show ?case by (simp only: Suc) simp
  qed simp
  then show ?thesis by (simp add: reads_def RRep_def del: rx_lang.simps)
qed

lemma reads_RRep: "reads s ks \<Longrightarrow> reads (RSeq (RRep (RSet cs) n n) s) (replicate n cs @ ks)"
  by (simp add: times_RSeq reads_times)

lemma reads_last: "reads (RRep (RSet cs) n n) (replicate n cs)"
  using reads_times [OF reads_REps, of cs n] by (simp add: RRep_def)

lemma regex_Uuid_reads: "MatchString regex_Uuid s \<longleftrightarrow> list_all2 in_class uuid_classes s"
proof -
  have "reads regex_Uuid
    (replicate 8 hex_class @ [(45, 45)] # replicate 4 hex_class @ [(45, 45)] #
     [(52, 52)] # replicate 3 hex_class @ [(45, 45)] #
     variant_class # replicate 3 hex_class @ [(45, 45)] # replicate 12 hex_class)"
    unfolding regex_Uuid_def
    using reads_RLit [of _ _ "CHR ''-''"] reads_RLit [of _ _ "CHR ''4''"]
    by (intro reads_RRep reads_RSet reads_last) (simp add: reads_RRep reads_RSet reads_last)
  then show ?thesis by (simp add: MatchString_lang reads_def uuid_classes_def)
qed

lemma hex_digit_class:
  assumes "unat n < 16"
  shows "in_class hex_class (hex_digit n)"
proof -
  from assms have "unat n \<in> {0, 1, 2, 3, 4, 5, 6, 7, 8, 9, 10, 11, 12, 13, 14, 15}"
    by (auto simp: less_Suc_eq numeral_eq_Suc)
  then show ?thesis
    unfolding hex_digit_def by (elim insertE) (simp_all add: in_class_def hex_class_def)
qed

lemma version_nibble: "drop_bit 4 ((b AND 0x0f) OR 0x40) = (4 :: byte)"
  and variant_nibble: "drop_bit 4 ((b AND 0x3f) OR 0x80) \<in> {8, 9, 10, 11 :: byte}"
  and variant_bits: "((b AND 0x3f) OR 0x80) AND 0xc0 = (0x80 :: byte)"
proof -
  show "drop_bit 4 ((b AND 0x0f) OR 0x40) = (4 :: byte)"
    by (rule bit_word_eqI) (auto simp: bit_simps less_Suc_eq numeral_eq_Suc)
  show "((b AND 0x3f) OR 0x80) AND 0xc0 = (0x80 :: byte)"
    by (rule bit_word_eqI) (auto simp: bit_simps less_Suc_eq numeral_eq_Suc)
  show "drop_bit 4 ((b AND 0x3f) OR 0x80) \<in> {8, 9, 10, 11 :: byte}"
  proof -
    define k where "k = drop_bit 4 b AND 3"
    have "k \<le> 3" unfolding k_def by (rule word_and_le1)
    then have "unat k \<in> {0, 1, 2, 3}" by (auto simp: word_le_nat_alt)
    then have "k \<in> {0, 1, 2, 3}" by (auto simp: word_unat_eq_iff)
    moreover have "drop_bit 4 ((b AND 0x3f) OR 0x80) = 8 OR k"
      unfolding k_def by (rule bit_word_eqI) (auto simp: bit_simps less_Suc_eq numeral_eq_Suc)
    ultimately show ?thesis by auto
  qed
qed

lemma hex_digit_variant: "n \<in> {8, 9, 10, 11} \<Longrightarrow> in_class variant_class (hex_digit n)"
  by (elim insertE) (simp_all add: in_class_def variant_class_def hex_digit_def)

lemma replicate_num: "replicate (numeral k) x = x # replicate (pred_numeral k) x"
  by (simp add: numeral_eq_Suc)

text \<open>A version 4 identifier with the RFC 4122 variant, printed, satisfies the pattern.\<close>

lemma uuid_v4_matches:
  assumes "length u = 16" and "drop_bit 4 (u ! 6) = 4" and "drop_bit 4 (u ! 8) \<in> {8, 9, 10, 11}"
  shows "MatchString regex_Uuid (UUID_String u)"
proof -
  have "in_class [(52, 52)] (hex_digit 4)" by (simp add: in_class_def hex_digit_def)
  moreover have "in_class [(45, 45)] CHR ''-''" by (simp add: in_class_def)
  moreover note hex_digit_variant [OF assms(3)]
  ultimately show ?thesis
    using assms(1,2)
    by (elim length_16)
      (simp add: regex_Uuid_reads uuid_classes_def UUID_String_def encodeHex_def replicate_num
        hex_digit_class nibble_hi nibble_lo)
qed

end
