(* ===== verification/Grpc_Stack.thy ===== *)
theory Grpc_Stack
  imports Go_Fmt Pb_Validator
begin

text \<open>
  The server side of a unary call as the service assembles it: the metadata of a context, the
  interceptors of go-grpc-middleware and of gomeet, and the chain that runs them in order. A
  handler takes the context, the request and the state of the server, and returns an outcome and
  the new state. Prometheus, context tags and logging observe a call and hand it on.
\<close>

section \<open>Errors and outcomes\<close>

datatype code =
    CodeOK
  | CodeCanceled
  | CodeUnknown
  | CodeInvalidArgument
  | CodeDeadlineExceeded
  | CodeNotFound
  | CodeAlreadyExists
  | CodePermissionDenied
  | CodeResourceExhausted
  | CodeFailedPrecondition
  | CodeAborted
  | CodeOutOfRange
  | CodeUnimplemented
  | CodeInternal
  | CodeUnavailable
  | CodeDataLoss
  | CodeUnauthenticated
  | CodeNumber int

text \<open>
  What a panic of this program can carry: the error of the random source (\<open>uuid.New\<close>), or a
  run-time error: a nil dereference, an index out of range, a failed type assertion.
\<close>

datatype panic = RandomFailed | NilDereference | IndexOutOfRange | TypeAssertion

text \<open>
  An error with a status, any other error, which the server reports as unknown, or the error
  made from a recovered panic, whose text is \<open>panic in gRPC procedure:\<close> and the panic's value.
\<close>

datatype rpc_error = Status code string | Plain string | Recovered panic

definition status_Error :: "code \<Rightarrow> string \<Rightarrow> rpc_error" where
  "status_Error c msg = Status c msg"

text \<open>\<open>status.Errorf\<close> and \<open>grpc.Errorf\<close> with a text as the format and no arguments.\<close>

definition status_Errorf0 :: "code \<Rightarrow> string \<Rightarrow> rpc_error" where
  "status_Errorf0 c fmt = Status c (Sprintf0 fmt)"

fun rpc_error_code :: "rpc_error \<Rightarrow> code" where
  "rpc_error_code (Status c _) = c"
| "rpc_error_code (Plain _) = CodeUnknown"
| "rpc_error_code (Recovered _) = CodeUnknown"

text \<open>\<open>Error()\<close>; \<open>pt\<close> prints the value of a panic.\<close>

fun code_String :: "code \<Rightarrow> string" where
  "code_String CodeOK = ''OK''"
| "code_String CodeCanceled = ''Canceled''"
| "code_String CodeUnknown = ''Unknown''"
| "code_String CodeInvalidArgument = ''InvalidArgument''"
| "code_String CodeDeadlineExceeded = ''DeadlineExceeded''"
| "code_String CodeNotFound = ''NotFound''"
| "code_String CodeAlreadyExists = ''AlreadyExists''"
| "code_String CodePermissionDenied = ''PermissionDenied''"
| "code_String CodeResourceExhausted = ''ResourceExhausted''"
| "code_String CodeFailedPrecondition = ''FailedPrecondition''"
| "code_String CodeAborted = ''Aborted''"
| "code_String CodeOutOfRange = ''OutOfRange''"
| "code_String CodeUnimplemented = ''Unimplemented''"
| "code_String CodeInternal = ''Internal''"
| "code_String CodeUnavailable = ''Unavailable''"
| "code_String CodeDataLoss = ''DataLoss''"
| "code_String CodeUnauthenticated = ''Unauthenticated''"
| "code_String (CodeNumber n) = ''Code('' @ Itoa n @ '')''"

fun rpc_error_text :: "(panic \<Rightarrow> string) \<Rightarrow> rpc_error \<Rightarrow> string" where
  "rpc_error_text pt (Status c m) = ''rpc error: code = '' @ code_String c @ '' desc = '' @ m"
| "rpc_error_text pt (Plain m) = m"
| "rpc_error_text pt (Recovered p) = ''panic in gRPC procedure: '' @ pt p"

text \<open>\<open>status.FromError\<close>: the code and the message of an error.\<close>

definition status_FromError :: "(panic \<Rightarrow> string) \<Rightarrow> rpc_error \<Rightarrow> code \<times> string" where
  "status_FromError pt e =
     (case e of Status c m \<Rightarrow> (c, m) | _ \<Rightarrow> (CodeUnknown, rpc_error_text pt e))"

text \<open>A Go handler returns a response and an error, both possibly nil, or panics.\<close>

datatype 'r outcome = Ret "'r option" "rpc_error option" | Panic panic

section \<open>Metadata and contexts\<close>

type_synonym MD = "string \<Rightarrow> string list option"

text \<open>\<open>NiceMD\<close>: keys are in lower case; \<open>Get\<close> is the first value; \<open>Add\<close> appends.\<close>

definition MD_Get :: "MD \<Rightarrow> string \<Rightarrow> string" where
  "MD_Get m key = (case m (ToLower key) of None \<Rightarrow> [] | Some vv \<Rightarrow> hd vv)"

definition MD_Add :: "MD \<Rightarrow> string \<Rightarrow> string \<Rightarrow> MD" where
  "MD_Add m key v =
     m(ToLower key \<mapsto> (case m (ToLower key) of None \<Rightarrow> [] | Some vv \<Rightarrow> vv) @ [v])"

record 'c ctx =
  x_incoming :: "MD option"
  x_outgoing :: "MD option"
  x_jwt :: "'c option"

definition Background :: "'c ctx" where
  "Background = \<lparr>x_incoming = None, x_outgoing = None, x_jwt = None\<rparr>"

definition ExtractIncoming :: "'c ctx \<Rightarrow> MD" where
  "ExtractIncoming c = (case x_incoming c of None \<Rightarrow> Map.empty | Some m \<Rightarrow> m)"

definition ExtractOutgoing :: "'c ctx \<Rightarrow> MD" where
  "ExtractOutgoing c = (case x_outgoing c of None \<Rightarrow> Map.empty | Some m \<Rightarrow> m)"

definition correlationId :: string where
  "correlationId = ''correlation_id''"

definition cid_Get :: "'c ctx \<Rightarrow> string" where
  "cid_Get c = MD_Get (ExtractIncoming c) correlationId"

definition cid_Set :: "'c ctx \<Rightarrow> string \<Rightarrow> 'c ctx" where
  "cid_Set c cid =
     (if cid \<noteq> [] then c\<lparr>x_outgoing := Some (MD_Add (ExtractOutgoing c) correlationId cid)\<rparr> else c)"

section \<open>Authentication\<close>

text \<open>\<open>AuthFromMD\<close>: the text after the first blank of the header, when the scheme fits.\<close>

definition AuthFromMD :: "'c ctx \<Rightarrow> string \<Rightarrow> rpc_error + string" where
  "AuthFromMD c expectedScheme =
     (let val = MD_Get (ExtractIncoming c) ''authorization''
      in if val = [] then
           Inl (status_Errorf0 CodeUnauthenticated (''Request unauthenticated with '' @ expectedScheme))
         else if CHR '' '' \<notin> set val then
           Inl (status_Errorf0 CodeUnauthenticated ''Bad authorization string'')
         else if ToLower (takeWhile (\<lambda>x. x \<noteq> CHR '' '') val) \<noteq> ToLower expectedScheme then
           Inl (status_Errorf0 CodeUnauthenticated (''Request unauthenticated with '' @ expectedScheme))
         else Inr (tl (dropWhile (\<lambda>x. x \<noteq> CHR '' '') val)))"

text \<open>\<open>jwt.Parse\<close>; \<open>verify\<close> is the third-party check of the signature and the claims.\<close>

definition jwt_Parse :: "(string \<Rightarrow> string \<Rightarrow> 'c option) \<Rightarrow> string \<Rightarrow> string \<Rightarrow> 'c option" where
  "jwt_Parse verify jwtSecret bearerToken =
     (if jwtSecret = [] then None else verify jwtSecret bearerToken)"

definition ParseJWTFromContext ::
  "(string \<Rightarrow> string \<Rightarrow> 'c option) \<Rightarrow> 'c ctx \<Rightarrow> string \<Rightarrow> rpc_error + 'c ctx" where
  "ParseJWTFromContext verify c jwtSecret =
     (if jwtSecret = [] then Inl (Plain ''No jwt secret'')
      else (case AuthFromMD c ''bearer'' of
              Inl e \<Rightarrow> Inl e
            | Inr bearerToken \<Rightarrow>
                (case jwt_Parse verify jwtSecret bearerToken of
                   None \<Rightarrow> Inl (status_Errorf0 CodeUnauthenticated ''invalid auth token'')
                 | Some claims \<Rightarrow> Inr (c\<lparr>x_jwt := Some claims\<rparr>))))"

definition AuthContextFromJWT :: "'c ctx \<Rightarrow> string \<Rightarrow> 'c ctx" where
  "AuthContextFromJWT c jwt =
     (if jwt \<noteq> [] then
        c\<lparr>x_outgoing := Some (MD_Add (ExtractOutgoing c) ''Authorization'' (''Bearer '' @ jwt))\<rparr>
      else c)"

definition NewSubServiceContextWithJWT :: "'c ctx \<Rightarrow> string \<Rightarrow> 'c ctx" where
  "NewSubServiceContextWithJWT c jwt =
     (let n = AuthContextFromJWT Background jwt; cid = cid_Get c
      in if cid \<noteq> [] then cid_Set n cid else n)"

definition NewSubServiceContext :: "'c ctx \<Rightarrow> 'c ctx" where
  "NewSubServiceContext c =
     NewSubServiceContextWithJWT c (case AuthFromMD c ''bearer'' of Inl _ \<Rightarrow> [] | Inr jwt \<Rightarrow> jwt)"

section \<open>Interceptors\<close>

type_synonym ('c, 'q, 'r, 's) handler = "'c ctx \<Rightarrow> 'q \<Rightarrow> 's \<Rightarrow> 'r outcome \<times> 's"

type_synonym ('c, 'q, 'r, 's) interceptor =
  "'c ctx \<Rightarrow> 'q \<Rightarrow> ('c, 'q, 'r, 's) handler \<Rightarrow> 's \<Rightarrow> 'r outcome \<times> 's"

text \<open>Prometheus, the context tags and the logger add nothing that later code of the service reads.\<close>

definition observer :: "('c, 'q, 'r, 's) interceptor" where
  "observer c q h s = h c q s"

text \<open>\<open>rnd\<close> is what the random source gives to \<open>uuid.New\<close>; this interceptor runs outside the recovery.\<close>

definition ensureCorrelationId :: "byte list option \<Rightarrow> bool \<Rightarrow> 'c ctx \<Rightarrow> 'c ctx option" where
  "ensureCorrelationId rnd forceNew c =
     (let nmd = ExtractIncoming c;
          cid = (if \<not> forceNew then MD_Get nmd correlationId else [])
      in if cid = [] then
           (case UUID_New rnd of
              None \<Rightarrow> None
            | Some u \<Rightarrow> Some (c\<lparr>x_incoming := Some (MD_Add nmd correlationId (UUID_String u))\<rparr>))
         else Some c)"

definition cid_interceptor :: "byte list option \<Rightarrow> bool \<Rightarrow> ('c, 'q, 'r, 's) interceptor" where
  "cid_interceptor rnd forceNew c q h s =
     (case ensureCorrelationId rnd forceNew c of
        None \<Rightarrow> (Panic RandomFailed, s)
      | Some c' \<Rightarrow> h c' q s)"

definition auth_interceptor ::
  "('c ctx \<Rightarrow> string \<Rightarrow> rpc_error + 'c ctx) \<Rightarrow> string \<Rightarrow> ('c, 'q, 'r, 's) interceptor" where
  "auth_interceptor authFuncOverride fullMethod c q h s =
     (case authFuncOverride c fullMethod of
        Inl e \<Rightarrow> (Ret None (Some e), s)
      | Inr c' \<Rightarrow> h c' q s)"

definition validator_interceptor :: "('q \<Rightarrow> fieldError option) \<Rightarrow> ('c, 'q, 'r, 's) interceptor" where
  "validator_interceptor validate c q h s =
     (case validate q of
        Some e \<Rightarrow> (Ret None (Some (status_Errorf0 CodeInvalidArgument (fieldError_Error e))), s)
      | None \<Rightarrow> h c q s)"

definition acl_interceptor ::
  "('c ctx \<Rightarrow> string \<Rightarrow> 'q \<Rightarrow> string option) \<Rightarrow> string \<Rightarrow> ('c, 'q, 'r, 's) interceptor" where
  "acl_interceptor aclFuncOverride fullMethod c q h s =
     (case aclFuncOverride c fullMethod q of
        Some e \<Rightarrow> (Ret None (Some (status_Errorf0 CodePermissionDenied e)), s)
      | None \<Rightarrow> h c q s)"

definition recoverFromPanic :: "panic \<Rightarrow> rpc_error" where
  "recoverFromPanic p = Recovered p"

definition recovery_interceptor :: "('c, 'q, 'r, 's) interceptor" where
  "recovery_interceptor c q h s =
     (case h c q s of
        (Panic p, s') \<Rightarrow> (Ret None (Some (recoverFromPanic p)), s')
      | (Ret r e, s') \<Rightarrow> (Ret r e, s'))"

section \<open>The chain\<close>

text \<open>\<open>chainHandler\<close> with the current index as an argument; the code counts it up and down again.\<close>

function chainHandler ::
  "('c, 'q, 'r, 's) interceptor list \<Rightarrow> ('c, 'q, 'r, 's) handler \<Rightarrow> nat \<Rightarrow> ('c, 'q, 'r, 's) handler" where
  "chainHandler is h k =
     (if length is \<le> k + 1 then h
      else (\<lambda>c q. (is ! (k + 1)) c q (chainHandler is h (k + 1))))"
  by pat_completeness auto
termination by (relation "measure (\<lambda>(is, h, k). length is - k)") auto

declare chainHandler.simps [simp del]

definition ChainUnaryServer :: "('c, 'q, 'r, 's) interceptor list \<Rightarrow> ('c, 'q, 'r, 's) interceptor" where
  "ChainUnaryServer is c q h =
     (if length is > 1 then (is ! 0) c q (chainHandler is h 0)
      else if length is = 1 then (is ! 0) c q h
      else h c q)"

text \<open>The reference: the interceptors wrapped around the handler from the last to the first.\<close>

fun wrap :: "('c, 'q, 'r, 's) interceptor list \<Rightarrow> ('c, 'q, 'r, 's) handler \<Rightarrow> ('c, 'q, 'r, 's) handler" where
  "wrap [] h = h"
| "wrap (i # is) h = (\<lambda>c q. i c q (wrap is h))"

lemma chainHandler_wrap: "chainHandler is h k = wrap (drop (k + 1) is) h"
proof (induction "length is - k" arbitrary: k)
  case 0
  then show ?case by (subst chainHandler.simps) simp
next
  case (Suc n)
  show ?case
  proof (cases "length is \<le> k + 1")
    case True
    then show ?thesis by (subst chainHandler.simps) simp
  next
    case False
    have "chainHandler is h (k + 1) = wrap (drop (k + 1 + 1) is) h"
      by (rule Suc.hyps) (use Suc.hyps(2) False in simp)
    then show ?thesis
      using False by (subst chainHandler.simps) (simp add: Cons_nth_drop_Suc [symmetric])
  qed
qed

lemma ChainUnaryServer_wrap: "ChainUnaryServer is c q h s = wrap is h c q s"
  by (cases "is"; cases "tl is") (auto simp: ChainUnaryServer_def chainHandler_wrap)

section \<open>The stack of this service\<close>

text \<open>The unary interceptors in the order of \<open>Interceptors\<close>.\<close>

definition uInterceptors ::
  "byte list option \<Rightarrow> ('c ctx \<Rightarrow> string \<Rightarrow> rpc_error + 'c ctx) \<Rightarrow> ('q \<Rightarrow> fieldError option) \<Rightarrow>
   ('c ctx \<Rightarrow> string \<Rightarrow> 'q \<Rightarrow> string option) \<Rightarrow> string \<Rightarrow> ('c, 'q, 'r, 's) interceptor list" where
  "uInterceptors rnd auth validate acl fullMethod =
     [observer, cid_interceptor rnd False, observer, observer,
      auth_interceptor auth fullMethod, validator_interceptor validate,
      acl_interceptor acl fullMethod, recovery_interceptor]"

lemma stack_unfold:
  "ChainUnaryServer (uInterceptors rnd auth validate acl m) c q h s =
     (case ensureCorrelationId rnd False c of
        None \<Rightarrow> (Panic RandomFailed, s)
      | Some c1 \<Rightarrow>
          (case auth c1 m of
             Inl e \<Rightarrow> (Ret None (Some e), s)
           | Inr c2 \<Rightarrow>
               (case validate q of
                  Some e \<Rightarrow> (Ret None (Some (status_Errorf0 CodeInvalidArgument (fieldError_Error e))), s)
                | None \<Rightarrow>
                    (case acl c2 m q of
                       Some e \<Rightarrow> (Ret None (Some (status_Errorf0 CodePermissionDenied e)), s)
                     | None \<Rightarrow> recovery_interceptor c2 q h s))))"
  unfolding ChainUnaryServer_wrap uInterceptors_def
  by (simp add: observer_def cid_interceptor_def auth_interceptor_def validator_interceptor_def
      acl_interceptor_def split: option.split sum.split)

lemma ensureCorrelationId_up:
  "UUID_New rnd \<noteq> None \<Longrightarrow> \<exists>c'. ensureCorrelationId rnd False c = Some c' \<and> x_jwt c' = x_jwt c \<and>
     MD_Get (ExtractIncoming c') ''authorization'' = MD_Get (ExtractIncoming c) ''authorization''"
  by (auto simp: ensureCorrelationId_def Let_def ExtractIncoming_def MD_Get_def MD_Add_def
      correlationId_def ToLower_def lower_char_def less_eq_char_def split: option.split)

text \<open>Past the interceptors no panic is left, whatever the handler does.\<close>

lemma recovery_no_panic: "fst (recovery_interceptor c q h s) \<noteq> Panic p"
  by (auto simp: recovery_interceptor_def split: prod.split outcome.split)

end
