(* ===== verification/Go_Http.thy ===== *)
theory Go_Http
  imports Go_Path Grpc_Stack "HOL-Library.Word"
begin

text \<open>
  What the service uses of Go's \<open>net/http\<close>, \<open>net/url\<close> and \<open>net\<close>: requests with their headers,
  replies, the form parser, and the split of a host from a port. The headers of a request are a
  list of keys with their values; the order of the list is the order in which a loop over the
  map of headers visits them.
\<close>

section \<open>Requests and replies\<close>

record http_request =
  rq_Method :: string
  rq_Path :: string
  rq_RawQuery :: string
  rq_Header :: "(string \<times> string list) list"
  rq_Host :: string
  rq_RemoteAddr :: string
  rq_Body :: string

record http_reply =
  rp_Status :: nat
  rp_Header :: "string \<Rightarrow> string option"
  rp_Body :: string

datatype http_result = Reply http_reply | HPanic panic

type_synonym 's http_handler = "http_request \<Rightarrow> 's \<Rightarrow> http_result \<times> 's"

definition StatusOK :: nat where "StatusOK = 200"
definition StatusMovedPermanently :: nat where "StatusMovedPermanently = 301"
definition StatusBadRequest :: nat where "StatusBadRequest = 400"
definition StatusUnauthorized :: nat where "StatusUnauthorized = 401"
definition StatusForbidden :: nat where "StatusForbidden = 403"
definition StatusNotFound :: nat where "StatusNotFound = 404"
definition StatusRequestTimeout :: nat where "StatusRequestTimeout = 408"
definition StatusConflict :: nat where "StatusConflict = 409"
definition StatusTooManyRequests :: nat where "StatusTooManyRequests = 429"
definition StatusInternalServerError :: nat where "StatusInternalServerError = 500"
definition StatusNotImplemented :: nat where "StatusNotImplemented = 501"
definition StatusServiceUnavailable :: nat where "StatusServiceUnavailable = 503"
definition StatusGatewayTimeout :: nat where "StatusGatewayTimeout = 504"

lemmas status_codes [go_defs] = StatusOK_def StatusMovedPermanently_def StatusBadRequest_def
  StatusUnauthorized_def StatusForbidden_def StatusNotFound_def StatusInternalServerError_def
  StatusNotImplemented_def StatusServiceUnavailable_def

text \<open>\<open>http.Error\<close>: a plain text reply.\<close>

definition http_Error :: "string \<Rightarrow> nat \<Rightarrow> http_reply" where
  "http_Error msg c =
     \<lparr>rp_Status = c,
      rp_Header = [''Content-Type'' \<mapsto> ''text/plain; charset=utf-8'',
        ''X-Content-Type-Options'' \<mapsto> ''nosniff''],
      rp_Body = msg @ [CHR 0x0A]\<rparr>"

section \<open>Header keys\<close>

definition upper_char :: "char \<Rightarrow> char" where
  "upper_char c = (if CHR ''a'' \<le> c \<and> c \<le> CHR ''z'' then char_of (of_char c - 32 :: nat) else c)"

definition ToUpper :: "string \<Rightarrow> string" where
  "ToUpper s = List.map upper_char s"

definition token_char :: "char \<Rightarrow> bool" where
  "token_char c \<longleftrightarrow>
     (CHR ''a'' \<le> c \<and> c \<le> CHR ''z'') \<or> (CHR ''A'' \<le> c \<and> c \<le> CHR ''Z'') \<or>
     (CHR ''0'' \<le> c \<and> c \<le> CHR ''9'') \<or> c \<in> set ''!#$%&*+-.^_|~'' \<or> c = CHR 0x27 \<or> c = CHR 0x60"

fun canonical_bytes :: "bool \<Rightarrow> string \<Rightarrow> string" where
  "canonical_bytes upper [] = []"
| "canonical_bytes upper (c # s) =
     (if upper then upper_char c else lower_char c) # canonical_bytes (c = CHR ''-'') s"

lemma of_char_upper:
  "of_char (upper_char c) =
     (if 97 \<le> (of_char c :: nat) \<and> (of_char c :: nat) \<le> 122 then of_char c - 32 else (of_char c :: nat))"
  by (auto simp: upper_char_def less_eq_char_def)

lemma of_char_lower:
  "of_char (lower_char c) =
     (if 65 \<le> (of_char c :: nat) \<and> (of_char c :: nat) \<le> 90 then of_char c + 32 else (of_char c :: nat))"
  by (auto simp: lower_char_def less_eq_char_def)

lemma char_nat_eq: "(c = d) = ((of_char c :: nat) = of_char d)"
  by simp

lemma upper_lower:
  "upper_char (lower_char c) = upper_char c" "lower_char (lower_char c) = lower_char c"
  "lower_char c = CHR ''-'' \<longleftrightarrow> c = CHR ''-''"
  unfolding char_nat_eq of_char_upper of_char_lower by auto

lemma canonical_bytes_lower: "canonical_bytes u (ToLower s) = canonical_bytes u s"
  by (induction s arbitrary: u) (simp_all add: ToLower_def upper_lower)

lemma token_lower: "token_char (lower_char c) \<Longrightarrow> token_char c"
proof (cases "CHR ''A'' \<le> c \<and> c \<le> CHR ''Z''")
  case True
  then show ?thesis unfolding token_char_def by blast
next
  case False
  then have "lower_char c = c" by (subst lower_char_def) (rule if_not_P)
  then show "token_char (lower_char c) \<Longrightarrow> token_char c" by simp
qed

lemma token_ToLower: "list_all token_char (ToLower s) \<Longrightarrow> list_all token_char s"
  unfolding ToLower_def by (induction s) (auto dest: token_lower)

text \<open>\<open>textproto.CanonicalMIMEHeaderKey\<close>\<close>

definition CanonicalMIMEHeaderKey :: "string \<Rightarrow> string" where
  "CanonicalMIMEHeaderKey s = (if list_all token_char s then canonical_bytes True s else s)"

definition Header_values :: "http_request \<Rightarrow> string \<Rightarrow> string list" where
  "Header_values r key = (case map_of (rq_Header r) key of None \<Rightarrow> [] | Some vs \<Rightarrow> vs)"

definition Header_Get :: "http_request \<Rightarrow> string \<Rightarrow> string" where
  "Header_Get r key =
     (case Header_values r (CanonicalMIMEHeaderKey key) of [] \<Rightarrow> [] | v # _ \<Rightarrow> v)"

section \<open>Splitting a host from a port\<close>

text \<open>\<open>net.SplitHostPort\<close>, with the text of the error.\<close>

fun last_index :: "'a \<Rightarrow> 'a list \<Rightarrow> nat option" where
  "last_index x [] = None"
| "last_index x (y # ys) =
     (case last_index x ys of
        Some k \<Rightarrow> Some (Suc k)
      | None \<Rightarrow> if y = x then Some 0 else None)"

definition addrErr :: "string \<Rightarrow> string \<Rightarrow> string + 'a" where
  "addrErr addr why = Inl (if addr \<noteq> [] then ''address '' @ addr @ '': '' @ why else why)"

definition missingPort :: string where
  "missingPort = ''missing port in address''"

definition tooManyColons :: string where
  "tooManyColons = ''too many colons in address''"

definition bracket_msg :: "string \<Rightarrow> char \<Rightarrow> string" where
  "bracket_msg what c = what @ [CHR 0x20, CHR 0x27, c, CHR 0x27] @ '' in address''"

text \<open>The brackets that are left over after the host.\<close>

definition split_rest :: "string \<Rightarrow> nat \<Rightarrow> nat \<Rightarrow> string \<times> string \<Rightarrow> string + string \<times> string" where
  "split_rest hostport j k res =
     (if CHR ''['' \<in> set (drop j hostport) then addrErr hostport (bracket_msg ''unexpected'' (CHR ''[''))
      else if CHR '']'' \<in> set (drop k hostport) then addrErr hostport (bracket_msg ''unexpected'' (CHR '']''))
      else Inr res)"

definition SplitHostPort :: "string \<Rightarrow> string + string \<times> string" where
  "SplitHostPort hostport =
     (case last_index (CHR '':'') hostport of
        None \<Rightarrow> addrErr hostport missingPort
      | Some i \<Rightarrow>
          let port = drop (i + 1) hostport
          in if hd hostport = CHR ''['' then
               (let close = length (takeWhile (\<lambda>c. c \<noteq> CHR '']'') hostport)
                in if close = length hostport then addrErr hostport (bracket_msg ''missing'' (CHR '']''))
                   else if close + 1 = length hostport then addrErr hostport missingPort
                   else if close + 1 \<noteq> i then
                     addrErr hostport (if hostport ! (close + 1) = CHR '':'' then tooManyColons else missingPort)
                   else split_rest hostport 1 (close + 1) (take (close - 1) (drop 1 hostport), port))
             else
               (let host = take i hostport
                in if CHR '':'' \<in> set host then addrErr hostport tooManyColons
                   else split_rest hostport 0 0 (host, port)))"

lemma last_index_None [simp]: "last_index x xs = None \<longleftrightarrow> x \<notin> set xs"
  by (induction xs) (auto split: option.split)

lemma last_index_append: "x \<notin> set ys \<Longrightarrow> last_index x (xs @ x # ys) = Some (length xs)"
proof (induction xs)
  case Nil
  then show ?case by (simp split: option.split)
next
  case (Cons a xs)
  then show ?case by simp
qed

definition host_char :: "char \<Rightarrow> bool" where
  "host_char c \<longleftrightarrow> c \<noteq> CHR '':'' \<and> c \<noteq> CHR ''['' \<and> c \<noteq> CHR '']''"

lemma SplitHostPort_plain:
  assumes "list_all host_char h" and "list_all host_char p"
  shows "SplitHostPort (h @ CHR '':'' # p) = Inr (h, p)"
proof -
  have n: "CHR '':'' \<notin> set h" "CHR ''['' \<notin> set h" "CHR '']'' \<notin> set h"
    "CHR '':'' \<notin> set p" "CHR ''['' \<notin> set p" "CHR '']'' \<notin> set p"
    using assms by (auto simp: list_all_iff host_char_def)
  then have "hd (h @ CHR '':'' # p) \<noteq> CHR ''[''" by (cases h) auto
  with n show ?thesis
    by (simp add: SplitHostPort_def Let_def last_index_append split_rest_def)
qed

section \<open>Forms\<close>

definition ishex :: "char \<Rightarrow> bool" where
  "ishex c \<longleftrightarrow> (CHR ''0'' \<le> c \<and> c \<le> CHR ''9'') \<or> (CHR ''a'' \<le> c \<and> c \<le> CHR ''f'') \<or>
     (CHR ''A'' \<le> c \<and> c \<le> CHR ''F'')"

text \<open>The first escape of \<open>url.QueryUnescape\<close> that is not one.\<close>

fun bad_escape :: "string \<Rightarrow> string option" where
  "bad_escape [] = None"
| "bad_escape (c # s) =
     (if c = CHR ''%'' then
        (case s of
           a # b # t \<Rightarrow> if ishex a \<and> ishex b then bad_escape t else Some (take 3 (c # s))
         | _ \<Rightarrow> Some (take 3 (c # s)))
      else bad_escape s)"

text \<open>
  The error of \<open>url.ParseQuery\<close>, if any: that of the first key or value that fails. \<open>quote\<close> is
  \<open>strconv.Quote\<close>.
\<close>

fun split_on :: "(char \<Rightarrow> bool) \<Rightarrow> string \<Rightarrow> string list" where
  "split_on P [] = [[]]"
| "split_on P (c # s) =
     (if P c then [] # split_on P s
      else (case split_on P s of [] \<Rightarrow> [[c]] | w # ws \<Rightarrow> (c # w) # ws))"

definition pair_error :: "string \<Rightarrow> string option" where
  "pair_error kv =
     (let key = takeWhile (\<lambda>c. c \<noteq> CHR ''='') kv; val = tl (dropWhile (\<lambda>c. c \<noteq> CHR ''='') kv)
      in case bad_escape key of Some e \<Rightarrow> Some e | None \<Rightarrow> bad_escape val)"

fun first_error :: "string option list \<Rightarrow> string option" where
  "first_error [] = None"
| "first_error (Some e # _) = Some e"
| "first_error (None # es) = first_error es"

definition ParseQuery_error :: "(string \<Rightarrow> string) \<Rightarrow> string \<Rightarrow> string option" where
  "ParseQuery_error quote q =
     map_option (\<lambda>e. ''invalid URL escape '' @ quote e)
       (first_error (List.map pair_error (split_on (\<lambda>c. c = CHR ''&'' \<or> c = CHR '';'') q)))"

definition maxFormSize :: nat where "maxFormSize = 10485760"

text \<open>
  \<open>ParseForm\<close> on a request whose content type is that of a form: the error, and the request with
  what is left of its body, which the methods that carry a form read.
\<close>

definition ParseForm :: "(string \<Rightarrow> string) \<Rightarrow> http_request \<Rightarrow> string option \<times> http_request" where
  "ParseForm quote r =
     (let post = (rq_Method r \<in> {''POST'', ''PUT'', ''PATCH''});
          perr = (if \<not> post then None
                  else if length (rq_Body r) > maxFormSize then Some ''http: POST too large''
                  else ParseQuery_error quote (rq_Body r));
          qerr = ParseQuery_error quote (rq_RawQuery r);
          r' = (if post then r\<lparr>rq_Body := drop (maxFormSize + 1) (rq_Body r)\<rparr> else r)
      in (case perr of Some e \<Rightarrow> Some e | None \<Rightarrow> qerr, r'))"

end
