(* ===== verification/Pb_Grpc.thy ===== *)
theory Pb_Grpc
  imports Grpc_Stack
begin

text \<open>
  The generated service code of \<open>pb/www.pb.go\<close> and \<open>pb/www.pb.grpchan.go\<close>: the server interface,
  the three method handlers, the service descriptor, its registration, and the client stubs over
  a channel. The channel is the in-process one of grpchan: it finds the method in the registry
  and calls its handler, with the interceptors, on a copy of the request.
\<close>

section \<open>Messages of a call and the server interface\<close>

datatype www_req = ReqEmpty EmptyMessage | ReqRsvp RsvpCreationRequest

datatype www_resp =
    RespVersion VersionResponse
  | RespStatus ServicesStatusList
  | RespRsvp RsvpCreationResponse

record ('c, 's) WwwServer =
  srv_Version :: "('c, EmptyMessage, VersionResponse, 's) handler"
  srv_ServicesStatus :: "('c, EmptyMessage, ServicesStatusList, 's) handler"
  srv_RsvpCreation :: "('c, RsvpCreationRequest, RsvpCreationResponse, 's) handler"

text \<open>A response seen as an interface value.\<close>

fun map_outcome :: "('a \<Rightarrow> 'b) \<Rightarrow> 'a outcome \<Rightarrow> 'b outcome" where
  "map_outcome f (Ret r e) = Ret (map_option f r) e"
| "map_outcome f (Panic p) = Panic p"

definition lift_handler :: "('a \<Rightarrow> 'b) \<Rightarrow> 'a outcome \<times> 's \<Rightarrow> 'b outcome \<times> 's" where
  "lift_handler f x = (map_outcome f (fst x), snd x)"

text \<open>An interceptor is called with the full name of the method.\<close>

type_synonym ('c, 's) www_interceptor = "string \<Rightarrow> ('c, www_req, www_resp, 's) interceptor"

type_synonym ('c, 's) method_handler =
  "('c, 's) WwwServer \<Rightarrow> 'c ctx \<Rightarrow> www_req \<Rightarrow> ('c, 's) www_interceptor option \<Rightarrow> 's \<Rightarrow> www_resp outcome \<times> 's"

section \<open>The handlers\<close>

text \<open>
  \<open>dec\<close> copies the request into a new message of the method's type; a request of another type
  does not fit.
\<close>

definition dec_error :: rpc_error where
  "dec_error = Status CodeInternal ''unable to copy the request''"

fun dec_EmptyMessage :: "www_req \<Rightarrow> rpc_error + EmptyMessage" where
  "dec_EmptyMessage (ReqEmpty m) = Inr m"
| "dec_EmptyMessage (ReqRsvp _) = Inl dec_error"

fun dec_RsvpCreationRequest :: "www_req \<Rightarrow> rpc_error + RsvpCreationRequest" where
  "dec_RsvpCreationRequest (ReqRsvp m) = Inr m"
| "dec_RsvpCreationRequest (ReqEmpty _) = Inl dec_error"

definition Version_name :: string where
  "Version_name = ''/grpc.hugdubois.www.Www/Version''"

definition ServicesStatus_name :: string where
  "ServicesStatus_name = ''/grpc.hugdubois.www.Www/ServicesStatus''"

definition RsvpCreation_name :: string where
  "RsvpCreation_name = ''/grpc.hugdubois.www.Www/RsvpCreation''"

definition Www_Version_Handler :: "('c, 's) method_handler" where
  "Www_Version_Handler srv c wire interceptor s =
     (case dec_EmptyMessage wire of
        Inl e \<Rightarrow> (Ret None (Some e), s)
      | Inr m \<Rightarrow>
          (case interceptor of
             None \<Rightarrow> lift_handler RespVersion (srv_Version srv c m s)
           | Some i \<Rightarrow>
               i Version_name c (ReqEmpty m)
                 (\<lambda>c req s. case req of
                    ReqEmpty m \<Rightarrow> lift_handler RespVersion (srv_Version srv c m s)
                  | _ \<Rightarrow> (Panic TypeAssertion, s)) s))"

definition Www_ServicesStatus_Handler :: "('c, 's) method_handler" where
  "Www_ServicesStatus_Handler srv c wire interceptor s =
     (case dec_EmptyMessage wire of
        Inl e \<Rightarrow> (Ret None (Some e), s)
      | Inr m \<Rightarrow>
          (case interceptor of
             None \<Rightarrow> lift_handler RespStatus (srv_ServicesStatus srv c m s)
           | Some i \<Rightarrow>
               i ServicesStatus_name c (ReqEmpty m)
                 (\<lambda>c req s. case req of
                    ReqEmpty m \<Rightarrow> lift_handler RespStatus (srv_ServicesStatus srv c m s)
                  | _ \<Rightarrow> (Panic TypeAssertion, s)) s))"

definition Www_RsvpCreation_Handler :: "('c, 's) method_handler" where
  "Www_RsvpCreation_Handler srv c wire interceptor s =
     (case dec_RsvpCreationRequest wire of
        Inl e \<Rightarrow> (Ret None (Some e), s)
      | Inr m \<Rightarrow>
          (case interceptor of
             None \<Rightarrow> lift_handler RespRsvp (srv_RsvpCreation srv c m s)
           | Some i \<Rightarrow>
               i RsvpCreation_name c (ReqRsvp m)
                 (\<lambda>c req s. case req of
                    ReqRsvp m \<Rightarrow> lift_handler RespRsvp (srv_RsvpCreation srv c m s)
                  | _ \<Rightarrow> (Panic TypeAssertion, s)) s))"

section \<open>The descriptor and the registry\<close>

record ('c, 's) ServiceDesc =
  sd_ServiceName :: string
  sd_Methods :: "(string \<times> ('c, 's) method_handler) list"

definition Www_serviceDesc :: "('c, 's) ServiceDesc" where
  "Www_serviceDesc =
     \<lparr>sd_ServiceName = ''grpc.hugdubois.www.Www'',
      sd_Methods = [(''Version'', Www_Version_Handler),
        (''ServicesStatus'', Www_ServicesStatus_Handler),
        (''RsvpCreation'', Www_RsvpCreation_Handler)]\<rparr>"

type_synonym ('c, 's) HandlerMap = "string \<Rightarrow> (('c, 's) ServiceDesc \<times> ('c, 's) WwwServer) option"

text \<open>Registering a name twice panics (\<open>None\<close>).\<close>

definition RegisterService ::
  "('c, 's) HandlerMap \<Rightarrow> ('c, 's) ServiceDesc \<Rightarrow> ('c, 's) WwwServer \<Rightarrow> ('c, 's) HandlerMap option" where
  "RegisterService reg desc srv =
     (case reg (sd_ServiceName desc) of
        Some _ \<Rightarrow> None
      | None \<Rightarrow> Some (reg(sd_ServiceName desc \<mapsto> (desc, srv))))"

definition RegisterHandlerWww ::
  "('c, 's) HandlerMap \<Rightarrow> ('c, 's) WwwServer \<Rightarrow> ('c, 's) HandlerMap option" where
  "RegisterHandlerWww reg srv = RegisterService reg Www_serviceDesc srv"

text \<open>The same on a gRPC server.\<close>

definition RegisterWwwServer ::
  "('c, 's) HandlerMap \<Rightarrow> ('c, 's) WwwServer \<Rightarrow> ('c, 's) HandlerMap option" where
  "RegisterWwwServer s srv = RegisterService s Www_serviceDesc srv"

section \<open>The in-process channel\<close>

text \<open>The metadata sent becomes the metadata received; other values of the context stay behind.\<close>

definition makeServerContext :: "'c ctx \<Rightarrow> 'c ctx" where
  "makeServerContext c = \<lparr>x_incoming = x_outgoing c, x_outgoing = None, x_jwt = None\<rparr>"

definition FindUnaryMethod ::
  "string \<Rightarrow> (string \<times> ('c, 's) method_handler) list \<Rightarrow> ('c, 's) method_handler option" where
  "FindUnaryMethod methodName methods =
     map_option snd (find (\<lambda>m. fst m = methodName) methods)"

definition Invoke ::
  "('c, 's) HandlerMap \<Rightarrow> ('c, 's) www_interceptor option \<Rightarrow> 'c ctx \<Rightarrow> string \<Rightarrow> www_req \<Rightarrow> 's \<Rightarrow>
   www_resp outcome \<times> 's" where
  "Invoke handlers interceptor c method0 req s =
     (if method0 = [] then (Panic IndexOutOfRange, s)
      else
        (let method = (if hd method0 \<noteq> CHR ''/'' then ''/'' @ method0 else method0);
             path = tl method;
             serviceName = takeWhile (\<lambda>x. x \<noteq> CHR ''/'') path
         in if CHR ''/'' \<notin> set path then (Panic IndexOutOfRange, s)
            else
              (let methodName = tl (dropWhile (\<lambda>x. x \<noteq> CHR ''/'') path)
               in case handlers serviceName of
                    None \<Rightarrow>
                      (Ret None (Some (Status CodeUnimplemented
                         (''service '' @ serviceName @ '' not implemented''))), s)
                  | Some (sd, srv) \<Rightarrow>
                      (case FindUnaryMethod methodName (sd_Methods sd) of
                         None \<Rightarrow>
                           (Ret None (Some (Status CodeUnimplemented
                              (''method '' @ serviceName @ ''/'' @ methodName @ '' not implemented''))), s)
                       | Some h \<Rightarrow> h srv (makeServerContext c) req interceptor s))))"

section \<open>The client stubs\<close>

text \<open>\<open>ch\<close> is \<open>Invoke\<close> of a channel. A response of another type leaves the new message empty.\<close>

type_synonym ('c, 's) channel = "'c ctx \<Rightarrow> string \<Rightarrow> www_req \<Rightarrow> 's \<Rightarrow> www_resp outcome \<times> 's"

definition stub_result :: "(www_resp option \<Rightarrow> 'a) \<Rightarrow> www_resp outcome \<times> 's \<Rightarrow> 'a outcome \<times> 's" where
  "stub_result out x =
     (case x of
        (Ret r (Some e), s) \<Rightarrow> (Ret None (Some e), s)
      | (Ret r None, s) \<Rightarrow> (Ret (Some (out r)) None, s)
      | (Panic p, s) \<Rightarrow> (Panic p, s))"

definition out_Version :: "www_resp option \<Rightarrow> VersionResponse" where
  "out_Version r = (case r of Some (RespVersion v) \<Rightarrow> v | _ \<Rightarrow> VersionResponse_Reset)"

definition out_ServicesStatus :: "www_resp option \<Rightarrow> ServicesStatusList" where
  "out_ServicesStatus r = (case r of Some (RespStatus v) \<Rightarrow> v | _ \<Rightarrow> ServicesStatusList_Reset)"

definition out_RsvpCreation :: "www_resp option \<Rightarrow> RsvpCreationResponse" where
  "out_RsvpCreation r = (case r of Some (RespRsvp v) \<Rightarrow> v | _ \<Rightarrow> RsvpCreationResponse_Reset)"

definition wwwChannelClient_Version ::
  "('c, 's) channel \<Rightarrow> ('c, EmptyMessage, VersionResponse, 's) handler" where
  "wwwChannelClient_Version ch c m s = stub_result out_Version (ch c Version_name (ReqEmpty m) s)"

definition wwwChannelClient_ServicesStatus ::
  "('c, 's) channel \<Rightarrow> ('c, EmptyMessage, ServicesStatusList, 's) handler" where
  "wwwChannelClient_ServicesStatus ch c m s =
     stub_result out_ServicesStatus (ch c ServicesStatus_name (ReqEmpty m) s)"

definition wwwChannelClient_RsvpCreation ::
  "('c, 's) channel \<Rightarrow> ('c, RsvpCreationRequest, RsvpCreationResponse, 's) handler" where
  "wwwChannelClient_RsvpCreation ch c m s =
     stub_result out_RsvpCreation (ch c RsvpCreation_name (ReqRsvp m) s)"

text \<open>The stubs of \<open>www.pb.go\<close> over a network connection, \<open>grpc.Invoke\<close> being the argument.\<close>

definition wwwClient_Version ::
  "('c, 's) channel \<Rightarrow> ('c, EmptyMessage, VersionResponse, 's) handler" where
  "wwwClient_Version ivk c m s = stub_result out_Version (ivk c Version_name (ReqEmpty m) s)"

definition wwwClient_ServicesStatus ::
  "('c, 's) channel \<Rightarrow> ('c, EmptyMessage, ServicesStatusList, 's) handler" where
  "wwwClient_ServicesStatus ivk c m s =
     stub_result out_ServicesStatus (ivk c ServicesStatus_name (ReqEmpty m) s)"

definition wwwClient_RsvpCreation ::
  "('c, 's) channel \<Rightarrow> ('c, RsvpCreationRequest, RsvpCreationResponse, 's) handler" where
  "wwwClient_RsvpCreation ivk c m s =
     stub_result out_RsvpCreation (ivk c RsvpCreation_name (ReqRsvp m) s)"

definition NewWwwClient :: "('c, 's) channel \<Rightarrow> ('c, 's) WwwServer" where
  "NewWwwClient ivk =
     \<lparr>srv_Version = wwwClient_Version ivk, srv_ServicesStatus = wwwClient_ServicesStatus ivk,
      srv_RsvpCreation = wwwClient_RsvpCreation ivk\<rparr>"

definition NewWwwChannelClient :: "('c, 's) channel \<Rightarrow> ('c, 's) WwwServer" where
  "NewWwwChannelClient ch =
     \<lparr>srv_Version = wwwChannelClient_Version ch, srv_ServicesStatus = wwwChannelClient_ServicesStatus ch,
      srv_RsvpCreation = wwwChannelClient_RsvpCreation ch\<rparr>"

end
