(* ===== verification/Client.thy ===== *)
theory Client
  imports Go_Http Pb_Grpc
begin

text \<open>
  The client library \<open>client/gomeet_client.go\<close>: a remote client over a connection, with or without
  TLS, and the in-process client. What the client asks of the machine and of grpc is the record
  \<open>net_env\<close>; a connection is the \<open>Invoke\<close> of \<open>grpc.ClientConn\<close>.
\<close>

section \<open>The environment\<close>

text \<open>
  The TLS configuration of a connection: the server name it expects, the pair of files of its own
  certificate, and the file of the certificate authority.
\<close>

record tls_config =
  tls_ServerName :: string
  tls_Certificate :: "(string \<times> string) option"
  tls_RootCA :: string

text \<open>
  \<open>ne_LoadKeyPair\<close> gives the error of loading a certificate with its key, \<open>ne_ReadFile\<close> that of
  reading a file, \<open>ne_AppendCerts\<close> tells whether a file holds certificates, \<open>ne_Dial\<close> dials an
  address with a timeout in nanoseconds.
\<close>

record ('c, 's) net_env =
  ne_LoadKeyPair :: "string \<Rightarrow> string \<Rightarrow> string option"
  ne_ReadFile :: "string \<Rightarrow> string option"
  ne_AppendCerts :: "string \<Rightarrow> bool"
  ne_Dial :: "string \<Rightarrow> int \<Rightarrow> tls_config option \<Rightarrow> string + ('c, 's) channel"

text \<open>\<open>time.Duration(n) * time.Second\<close> in 64 bits.\<close>

definition seconds :: "int \<Rightarrow> int" where
  "seconds n = sint (of_int (n * 10 ^ 9) :: 64 word)"

section \<open>Clients\<close>

definition CLIENT_TYPE_REMOTE :: string where
  "CLIENT_TYPE_REMOTE = ''REMOTE''"

definition CLIENT_TYPE_INPROCESS :: string where
  "CLIENT_TYPE_INPROCESS = ''INPROCESS''"

record ('c, 's) GomeetClient =
  gc_clientType :: string
  gc_address :: string
  gc_caCertificate :: string
  gc_clientCertificate :: string
  gc_clientPrivateKey :: string
  gc_cc :: "('c, 's) channel option"
  gc_inProcessChannel :: "('c, 's) channel option"
  gc_c :: "('c, 's) WwwServer"

text \<open>A call through a nil connection is a nil dereference.\<close>

definition conn_channel :: "('c, 's) channel option \<Rightarrow> ('c, 's) channel" where
  "conn_channel cc = (case cc of Some ivk \<Rightarrow> ivk | None \<Rightarrow> (\<lambda>c m q s. (Panic NilDereference, s)))"

definition NewGomeetInProcessClient :: "('c, 's) channel option \<Rightarrow> ('c, 's) GomeetClient" where
  "NewGomeetInProcessClient inProcessChannel =
     \<lparr>gc_clientType = CLIENT_TYPE_INPROCESS, gc_address = [], gc_caCertificate = [],
      gc_clientCertificate = [], gc_clientPrivateKey = [], gc_cc = None,
      gc_inProcessChannel = inProcessChannel,
      gc_c = NewWwwChannelClient (conn_channel inProcessChannel)\<rparr>"

text \<open>
  The variables \<open>cc\<close> and \<open>err\<close> of the function after the branches. In the TLS branch the result of
  \<open>grpc.Dial\<close> is assigned to the outer \<open>cc\<close> but to the \<open>err\<close> of the branch, so that the test after
  the branches sees no error.
\<close>

definition dial_client ::
  "('c, 's) net_env \<Rightarrow> string \<Rightarrow> int \<Rightarrow> string \<Rightarrow> string \<Rightarrow> string \<Rightarrow>
   string + ('c, 's) channel option \<times> string option" where
  "dial_client env addr timeoutDuration caCertificate clientCertificate clientPrivateKey =
     (if caCertificate \<noteq> [] \<and> clientCertificate \<noteq> [] \<and> clientPrivateKey \<noteq> [] then
        (case ne_LoadKeyPair env clientCertificate clientPrivateKey of
           Some err \<Rightarrow> Inl (''failed to load gRPC client key pair: '' @ err)
         | None \<Rightarrow>
             (case ne_ReadFile env caCertificate of
                Some err \<Rightarrow> Inl (''failed to read CA certificate: '' @ err)
              | None \<Rightarrow>
                  if \<not> ne_AppendCerts env caCertificate then Inl ''failed to build certificate pool''
                  else
                    (case SplitHostPort addr of
                       Inl err \<Rightarrow>
                         Inl (''failed to parse server hostname in '' @ addr @ '': '' @ err)
                     | Inr (serverHost, _) \<Rightarrow>
                         (case ne_Dial env addr timeoutDuration
                             (Some \<lparr>tls_ServerName = serverHost,
                                tls_Certificate = Some (clientCertificate, clientPrivateKey),
                                tls_RootCA = caCertificate\<rparr>) of
                            Inl err \<Rightarrow> Inr (None, None)
                          | Inr cc \<Rightarrow> Inr (Some cc, None)))))
      else
        (case ne_Dial env addr timeoutDuration None of
           Inl err \<Rightarrow> Inr (None, Some err)
         | Inr cc \<Rightarrow> Inr (Some cc, None)))"

definition NewGomeetClient ::
  "('c, 's) net_env \<Rightarrow> string \<Rightarrow> int \<Rightarrow> string \<Rightarrow> string \<Rightarrow> string \<Rightarrow>
   string + ('c, 's) GomeetClient" where
  "NewGomeetClient env addr timeout caCertificate clientCertificate clientPrivateKey =
     (case dial_client env addr (seconds timeout) caCertificate clientCertificate clientPrivateKey of
        Inl err \<Rightarrow> Inl err
      | Inr (cc, Some err) \<Rightarrow> Inl (''gRPC connect fail - '' @ err)
      | Inr (cc, None) \<Rightarrow>
          Inr \<lparr>gc_clientType = CLIENT_TYPE_REMOTE, gc_address = addr, gc_caCertificate = caCertificate,
            gc_clientCertificate = clientCertificate, gc_clientPrivateKey = clientPrivateKey,
            gc_cc = cc, gc_inProcessChannel = Some (Invoke Map.empty None), gc_c = NewWwwClient (conn_channel cc)\<rparr>)"

text \<open>Closing is the closing of the connection, if there is one.\<close>

definition Client_Close :: "(('c, 's) channel \<Rightarrow> 'n \<Rightarrow> 'n) \<Rightarrow> ('c, 's) GomeetClient \<Rightarrow> 'n \<Rightarrow> 'n" where
  "Client_Close close c n = (case gc_cc c of None \<Rightarrow> n | Some cc \<Rightarrow> close cc n)"

definition GetGRPCClient :: "('c, 's) GomeetClient \<Rightarrow> ('c, 's) WwwServer" where
  "GetGRPCClient c = gc_c c"

definition GetAddress :: "('c, 's) GomeetClient \<Rightarrow> string" where
  "GetAddress c = gc_address c"

definition GetCaCertificate :: "('c, 's) GomeetClient \<Rightarrow> string" where
  "GetCaCertificate c = gc_caCertificate c"

definition GetCertificate :: "('c, 's) GomeetClient \<Rightarrow> string" where
  "GetCertificate c = gc_clientCertificate c"

definition GetPrivateKey :: "('c, 's) GomeetClient \<Rightarrow> string" where
  "GetPrivateKey c = gc_clientPrivateKey c"

lemmas client_getters [getter_defs] = GetGRPCClient_def GetAddress_def GetCaCertificate_def
  GetCertificate_def GetPrivateKey_def

section \<open>Timeouts\<close>

lemma seconds_small:
  assumes "- 9223372036 \<le> n" and "n \<le> 9223372036"
  shows "seconds n = n * 10 ^ 9"
proof -
  have "sint (word_of_int (n * 10 ^ 9) :: 64 word) = signed_take_bit 63 (n * 10 ^ 9)"
    by (subst sint_sbintrunc') simp
  also have "\<dots> = n * 10 ^ 9"
    by (rule signed_take_bit_int_eq_self) (use assms in simp_all)
  finally show ?thesis by (simp only: seconds_def)
qed

section \<open>What a new client is\<close>

lemma NewGomeetClient_plain:
  assumes "NewGomeetClient env addr t ca cert key = Inr c" and "ca = [] \<or> cert = [] \<or> key = []"
  shows "\<exists>cc. ne_Dial env addr (seconds t) None = Inr cc \<and> gc_cc c = Some cc \<and>
    GetGRPCClient c = NewWwwClient cc \<and> GetAddress c = addr"
  using assms
  by (auto simp: NewGomeetClient_def dial_client_def conn_channel_def getter_defs split: sum.splits)

text \<open>
  A client made without TLS has a live connection; with TLS it may have none: when the dialing
  fails, the error is lost and every call of the client ends in a nil dereference.
\<close>

lemma NewGomeetClient_connection:
  assumes "NewGomeetClient env addr t ca cert key = Inr c"
  shows "(ca = [] \<or> cert = [] \<or> key = [] \<longrightarrow> gc_cc c \<noteq> None) \<and>
    (\<forall>err host port. ca \<noteq> [] \<longrightarrow> cert \<noteq> [] \<longrightarrow> key \<noteq> [] \<longrightarrow> SplitHostPort addr = Inr (host, port) \<longrightarrow>
       ne_Dial env addr (seconds t) (Some \<lparr>tls_ServerName = host, tls_Certificate = Some (cert, key),
         tls_RootCA = ca\<rparr>) = Inl err \<longrightarrow>
       srv_Version (GetGRPCClient c) ctx EmptyMessage s = (Panic NilDereference, s) \<and>
       srv_RsvpCreation (GetGRPCClient c) ctx req s = (Panic NilDereference, s))"
  using assms
  by (auto simp: NewGomeetClient_def dial_client_def conn_channel_def getter_defs NewWwwClient_def
      wwwClient_Version_def wwwClient_RsvpCreation_def stub_result_def split: sum.splits option.splits if_splits)

definition no_net :: "(unit, nat) net_env" where
  "no_net =
     \<lparr>ne_LoadKeyPair = (\<lambda>c k. None), ne_ReadFile = (\<lambda>f. None), ne_AppendCerts = (\<lambda>f. True),
      ne_Dial = (\<lambda>a t tls. Inl ''no route'')\<rparr>"

lemma NewGomeetClient_connection_sample:
  "\<exists>c. NewGomeetClient no_net ''h:1'' 5 ''ca'' ''cert'' ''key'' = Inr c \<and>
     srv_Version (GetGRPCClient c) Background EmptyMessage 0 = (Panic NilDereference, 0)"
proof -
  have h: "SplitHostPort ''h:1'' = Inr (''h'', ''1'')"
    using SplitHostPort_plain [of "''h''" "''1''"] by (simp add: host_char_def)
  obtain c where c: "NewGomeetClient no_net ''h:1'' 5 ''ca'' ''cert'' ''key'' = Inr c"
    by (simp add: NewGomeetClient_def dial_client_def no_net_def h)
  from NewGomeetClient_connection [OF c, of Background 0] c h show ?thesis
    by (simp add: no_net_def)
qed

end
