(* ===== verification/Remote_Cli.thy ===== *)
theory Remote_Cli
  imports Client
begin

text \<open>
  The command interpreter of \<open>cmd/remotecli\<close>, which the commands \<open>cli\<close> and \<open>console\<close> share: it splits
  a line into a command and its arguments, and the commands call the service through a client or
  read and change the state of the interpreter. Three functions are arguments: \<open>ce_quote\<close> is
  \<open>strconv.Quote\<close>, \<open>ce_show\<close> prints a message in the text format of protocol buffers, \<open>ce_panic\<close>
  prints the value of a panic.
\<close>

record cli_env =
  ce_quote :: "string \<Rightarrow> string"
  ce_show :: "www_resp option \<Rightarrow> string"
  ce_panic :: "panic \<Rightarrow> string"

section \<open>State\<close>

datatype ContextCall = ConsoleCall | CliCall

record ('c, 's) remoteCli =
  rc_name :: string
  rc_version :: string
  rc_ctxCall :: ContextCall
  rc_defaultTimeout :: int
  rc_GomeetClient :: "('c, 's) GomeetClient"
  rc_c :: "('c, 's) WwwServer"
  rc_ctx :: "'c ctx"

definition NewRemoteCli ::
  "('c, 's) net_env \<Rightarrow> string \<Rightarrow> string \<Rightarrow> ContextCall \<Rightarrow> string \<Rightarrow> int \<Rightarrow> string \<Rightarrow> string \<Rightarrow> string \<Rightarrow> string \<Rightarrow>
   string + ('c, 's) remoteCli" where
  "NewRemoteCli env name version ctxCall addr timeout caCertificate clientCertificate clientPrivateKey jwt =
     (case NewGomeetClient env addr timeout caCertificate clientCertificate clientPrivateKey of
        Inl err \<Rightarrow> Inl err
      | Inr cli \<Rightarrow>
          Inr \<lparr>rc_name = name, rc_version = version, rc_ctxCall = ctxCall, rc_defaultTimeout = timeout,
            rc_GomeetClient = cli, rc_c = GetGRPCClient cli, rc_ctx = AuthContextFromJWT Background jwt\<rparr>)"

definition remoteCli_Close ::
  "(('c, 's) channel \<Rightarrow> 'n \<Rightarrow> 'n) \<Rightarrow> ('c, 's) remoteCli \<Rightarrow> 'n \<Rightarrow> 'n" where
  "remoteCli_Close close c n = Client_Close close (rc_GomeetClient c) n"

definition SetDefaultTimeout :: "int \<Rightarrow> ('c, 's) remoteCli \<Rightarrow> ('c, 's) remoteCli" where
  "SetDefaultTimeout t c = c\<lparr>rc_defaultTimeout := t\<rparr>"

definition UnsetDefaultTimeout :: "('c, 's) remoteCli \<Rightarrow> ('c, 's) remoteCli" where
  "UnsetDefaultTimeout c = SetDefaultTimeout 0 c"

definition GetDefaultTimeout :: "('c, 's) remoteCli \<Rightarrow> int" where
  "GetDefaultTimeout c = rc_defaultTimeout c"

text \<open>The context of a call, and its deadline from now in nanoseconds.\<close>

definition GetTimeoutContext :: "('c, 's) remoteCli \<Rightarrow> int \<Rightarrow> 'c ctx \<times> int option" where
  "GetTimeoutContext c t = (if t > 0 then (rc_ctx c, Some (seconds t)) else (rc_ctx c, None))"

definition remoteCli_GetGRPCClient :: "('c, 's) remoteCli \<Rightarrow> ('c, 's) WwwServer" where
  "remoteCli_GetGRPCClient c = rc_c c"

definition SetJWT :: "string \<Rightarrow> ('c, 's) remoteCli \<Rightarrow> ('c, 's) remoteCli" where
  "SetJWT jwt c = c\<lparr>rc_ctx := AuthContextFromJWT Background jwt\<rparr>"

definition UnsetJWT :: "('c, 's) remoteCli \<Rightarrow> ('c, 's) remoteCli" where
  "UnsetJWT c = c\<lparr>rc_ctx := Background\<rparr>"

section \<open>Results of commands\<close>

datatype cmd_result = CmdOk string | CmdErr string | CmdPanic panic

type_synonym ('c, 's) command =
  "('c, 's) remoteCli \<Rightarrow> string list \<Rightarrow> 's \<Rightarrow> cmd_result \<times> ('c, 's) remoteCli \<times> 's"

text \<open>A call of the service whose error is reported as a text.\<close>

datatype 'a call_result = Called "'a option" | CallErr string | CallPanic panic

definition report :: "cli_env \<Rightarrow> string \<Rightarrow> 'a outcome \<Rightarrow> 'a call_result" where
  "report env what x =
     (case x of
        Ret r None \<Rightarrow> Called r
      | Ret r (Some e) \<Rightarrow> CallErr (what @ '' service call fail - '' @ rpc_error_text (ce_panic env) e)
      | Panic p \<Rightarrow> CallPanic p)"

definition RemoteVersion ::
  "cli_env \<Rightarrow> ('c, 's) remoteCli \<Rightarrow> 's \<Rightarrow> VersionResponse call_result \<times> 's" where
  "RemoteVersion env c s =
     (case srv_Version (rc_c c) (rc_ctx c) EmptyMessage s of
        (x, s') \<Rightarrow> (report env ''Version'' x, s'))"

section \<open>Commands\<close>

definition cmdVersion :: "cli_env \<Rightarrow> ('c, 's) command" where
  "cmdVersion env c args s =
     (case RemoteVersion env c s of
        (Called r, s') \<Rightarrow> (CmdOk (''Version: '' @ ce_show env (map_option RespVersion r)), c, s')
      | (CallErr e, s') \<Rightarrow> (CmdErr e, c, s')
      | (CallPanic p, s') \<Rightarrow> (CmdPanic p, c, s'))"

text \<open>
  One line per service. The flag and the message are variables outside the loop, so a status of
  another value keeps those of the line before.
\<close>

fun status_lines :: "string \<Rightarrow> string \<Rightarrow> ServiceStatus option list \<Rightarrow> string" where
  "status_lines eFlag eMsg [] = []"
| "status_lines eFlag eMsg (svc # svcs) =
     (let st = ServiceStatus_GetStatus svc;
          (f, m) = (if st = ServiceStatus_UNAVAILABLE then (''ERR'', '' - '' @ ServiceStatus_GetEMsg svc)
                    else if st = ServiceStatus_OK then (''OK'', [])
                    else (eFlag, eMsg))
      in ''['' @ f @ ''] '' @ ServiceStatus_GetName svc @ '' ('' @ ServiceStatus_GetVersion svc @ '')'' @ m @
         [CHR 0x0A] @ status_lines f m svcs)"

definition cmdServicesStatus :: "cli_env \<Rightarrow> ('c, 's) command" where
  "cmdServicesStatus env c args s =
     (let ctx = fst (GetTimeoutContext c (GetDefaultTimeout c))
      in case srv_ServicesStatus (rc_c c) ctx EmptyMessage s of
           (x, s') \<Rightarrow>
             (case report env ''ServicesStatus'' x of
                Called l \<Rightarrow>
                  (CmdOk (''Services status:'' @ [CHR 0x0A] @
                     status_lines [] [] (ServicesStatusList_GetServices l)), c, s')
              | CallErr e \<Rightarrow> (CmdErr e, c, s')
              | CallPanic p \<Rightarrow> (CmdPanic p, c, s')))"

definition rsvp_usage :: string where
  "rsvp_usage =
     ''Bad arguments : rsvp_creation <names [string]> <email [string]> <presence [bool]> '' @
     ''<children_name_age [string]> <housing [bool]> <music [string]> <brunch [bool]>''"

definition cmdRsvpCreation :: "cli_env \<Rightarrow> ('c, 's) command" where
  "cmdRsvpCreation env c args s =
     (if length args < 7 then (CmdErr rsvp_usage, c, s)
      else
        (case ParseBool (args ! 2) of
           None \<Rightarrow> (CmdErr ''Bad arguments : presence is not bool'', c, s)
         | Some presence \<Rightarrow>
             (case ParseBool (args ! 4) of
                None \<Rightarrow> (CmdErr ''Bad arguments : housing is not bool'', c, s)
              | Some housing \<Rightarrow>
                  (case ParseBool (args ! 6) of
                     None \<Rightarrow> (CmdErr ''Bad arguments : brunch is not bool'', c, s)
                   | Some brunch \<Rightarrow>
                       (let req = RsvpCreationRequest_Reset\<lparr>rq_Names := args ! 0, rq_Email := args ! 1,
                              rq_Presence := presence, rq_ChildrenNameAge := args ! 3,
                              rq_Housing := housing, rq_Music := args ! 5, rq_Brunch := brunch\<rparr>
                        in case RsvpCreationRequest_Validate req of
                             Some err \<Rightarrow> (CmdErr (fieldError_Error err), c, s)
                           | None \<Rightarrow>
                               (let ctx = fst (GetTimeoutContext c (GetDefaultTimeout c))
                                in case srv_RsvpCreation (rc_c c) ctx req s of
                                     (x, s') \<Rightarrow>
                                       (case report env ''RsvpCreation'' x of
                                          Called r \<Rightarrow>
                                            (CmdOk (''RsvpCreation: '' @ ce_show env (map_option RespRsvp r)), c, s')
                                        | CallErr e \<Rightarrow> (CmdErr e, c, s')
                                        | CallPanic p \<Rightarrow> (CmdPanic p, c, s'))))))))"

definition cmdConsoleVersion :: "('c, 's) command" where
  "cmdConsoleVersion c args s = (CmdOk (''Client Version: '' @ rc_name c @ ''-'' @ rc_version c), c, s)"

definition cmdJWT :: "('c, 's) command" where
  "cmdJWT c args s =
     (let c' = (case args of
                  [] \<Rightarrow> c
                | jwt # _ \<Rightarrow> if jwt = [] then UnsetJWT c else SetJWT jwt c)
      in case x_outgoing (rc_ctx c') of
           None \<Rightarrow> (CmdErr ''Context FromOutgoingContext fail'', c', s)
         | Some md \<Rightarrow>
             (let v = Join (case md ''authorization'' of None \<Rightarrow> [] | Some vs \<Rightarrow> vs) []
              in (CmdOk (''jwt : '' @ (if HasPrefix v ''Bearer '' then TrimPrefix v ''Bearer '' else v)), c', s)))"

definition cmdDefaultTimeout :: "('c, 's) command" where
  "cmdDefaultTimeout c args s =
     (case args of
        [] \<Rightarrow> (CmdOk (''Default timeout: '' @ Itoa (GetDefaultTimeout c)), c, s)
      | sto # _ \<Rightarrow>
          if sto = [] then (CmdOk ''Unset default timeout'', UnsetDefaultTimeout c, s)
          else
            (case ParseInt sto of
               None \<Rightarrow> (CmdErr (sto @ '' is not integer or is negative''), c, s)
             | Some t \<Rightarrow>
                 if t \<le> 0 then (CmdErr (sto @ '' is not integer or is negative''), c, s)
                 else
                   (let c' = SetDefaultTimeout t c
                    in (CmdOk (''Default timeout: '' @ Itoa (GetDefaultTimeout c')), c', s))))"

definition cmdServiceAddress :: "('c, 's) command" where
  "cmdServiceAddress c args s = (CmdOk (''gRPC address: '' @ GetAddress (rc_GomeetClient c)), c, s)"

text \<open>The command logs the configuration and returns nothing.\<close>

definition cmdTLSConfig :: "('c, 's) command" where
  "cmdTLSConfig c args s = (CmdOk [], c, s)"

definition tls_log :: "('c, 's) remoteCli \<Rightarrow> string list" where
  "tls_log c =
     (let ca = GetCaCertificate (rc_GomeetClient c); cert = GetCertificate (rc_GomeetClient c);
          key = GetPrivateKey (rc_GomeetClient c)
      in if ca \<noteq> [] \<and> cert \<noteq> [] \<and> key \<noteq> [] then
           [''gRPC TLS support: enabled'', ''CA certificate file: '' @ ca,
            ''client certificate file: '' @ cert, ''client private key file: '' @ key]
         else [''gRPC TLS support: disabled''])"

section \<open>Help\<close>

text \<open>The corners and the lines of the help text in UTF-8.\<close>

definition help_entry :: "string \<Rightarrow> string \<Rightarrow> string" where
  "help_entry what does =
     [CHR 0x09, CHR 0xE2, CHR 0x94, CHR 0x8C, CHR 0xE2, CHR 0x94, CHR 0x80, CHR 0x20] @ what @
     [CHR 0x0A, CHR 0x09, CHR 0xE2, CHR 0x94, CHR 0x94, CHR 0xE2, CHR 0x94, CHR 0x80, CHR 0x20] @ does @
     [CHR 0x0A]"

definition help_text :: string where
  "help_text =
     ''HELP :'' @ [CHR 0x0A, CHR 0x0A] @
     Join
       [help_entry ''version'' ''call version service'',
        help_entry ''services_status'' ''call services_status service'',
        help_entry
          (''rsvp_creation <names [string]> <email [string]> <presence [bool]> '' @
           ''<children_name_age [string]> <housing [bool]> <music [string]> <brunch [bool]>'')
          ''call rsvp_creation service'',
        help_entry ''service_address'' ''return service address'',
        help_entry ''jwt [<token>]'' (''display current jwt or save one if it'' @ [CHR 0x27] @ ''s set''),
        help_entry ''default_timeout [<timeout in second (int)>]''
          (''display current client default timeout or save one if it'' @ [CHR 0x27] @ ''s set (0 to disable)''),
        help_entry ''console_version'' ''return console version'',
        help_entry ''tls_config'' ''display TLS client configuration'',
        help_entry ''help'' ''display this help'']
       [CHR 0x0A]"

definition GetExtraHelp :: "('c, 's) remoteCli \<Rightarrow> string" where
  "GetExtraHelp c = []"

definition cmdHelp :: "('c, 's) command" where
  "cmdHelp c args s =
     (let h1 = help_text @
            (if GetExtraHelp c \<noteq> [] then [CHR 0x0A] @ GetExtraHelp c @ [CHR 0x0A] else []);
          h2 = h1 @ (if rc_ctxCall c = ConsoleCall then [CHR 0x0A] @ help_entry ''exit'' ''exit the console'' else [])
      in (CmdOk (h2 @ [CHR 0x0A]), c, s))"

section \<open>Arguments\<close>

text \<open>
  The matches of \<open>'.*?'|".*?"|\S+\<close>: at a quote, the text up to the next quote of the same kind when
  it comes before the end of the line; otherwise a run of characters that are not white space.
\<close>

fun until_quote :: "char \<Rightarrow> string \<Rightarrow> (string \<times> string) option" where
  "until_quote q [] = None"
| "until_quote q (c # s) =
     (if c = q then Some ([], s)
      else if c = CHR 0x0A then None
      else map_option (\<lambda>(a, r). (c # a, r)) (until_quote q s))"

definition re_space :: "char \<Rightarrow> bool" where
  "re_space c \<longleftrightarrow> c \<in> {CHR 0x09, CHR 0x0A, CHR 0x0C, CHR 0x0D, CHR 0x20}"

lemma until_quote_length: "until_quote q s = Some (a, r) \<Longrightarrow> length r < length s"
  by (induction s arbitrary: a) (force split: if_splits)+

function param_tokens :: "string \<Rightarrow> string list" where
  "param_tokens [] = []"
| "param_tokens (c # s) =
     (if re_space c then param_tokens s
      else
        (case (if c = CHR 0x27 \<or> c = CHR 0x22 then until_quote c s else None) of
           Some (a, r) \<Rightarrow> (c # a @ [c]) # param_tokens r
         | None \<Rightarrow> (c # takeWhile (\<lambda>x. \<not> re_space x) s) # param_tokens (dropWhile (\<lambda>x. \<not> re_space x) s)))"
  by pat_completeness auto
termination
  by (relation "measure length")
    (auto dest: until_quote_length split: if_splits simp: less_Suc_eq_le length_dropWhile_le)

definition trim_param :: "string \<Rightarrow> string" where
  "trim_param v =
     Trim (Trim (Trim (Trim v [CHR 0x20]) [CHR 0x27]) [CHR 0x22]) [CHR 0x20]"

definition parseParams :: "string \<Rightarrow> string list" where
  "parseParams s = map trim_param (param_tokens s)"

text \<open>\<open>order\<close> is the order in which the loop visits the map.\<close>

definition mapToArray :: "(int \<times> string) list \<Rightarrow> string list" where
  "mapToArray order = map snd order"

section \<open>Dispatch\<close>

definition GetExtraActionsMap :: "('c, 's) remoteCli \<Rightarrow> (string \<times> ('c, 's) command) list" where
  "GetExtraActionsMap c = []"

definition GetActionsMap :: "cli_env \<Rightarrow> ('c, 's) remoteCli \<Rightarrow> (string \<times> ('c, 's) command) list" where
  "GetActionsMap env c =
     [(''version'', cmdVersion env), (''services_status'', cmdServicesStatus env),
      (''rsvp_creation'', cmdRsvpCreation env), (''console_version'', cmdConsoleVersion),
      (''jwt'', cmdJWT), (''default_timeout'', cmdDefaultTimeout),
      (''service_address'', cmdServiceAddress), (''tls_config'', cmdTLSConfig), (''help'', cmdHelp)] @
     GetExtraActionsMap c"

text \<open>\<open>visit\<close> permutes the map of actions into the order in which the loop visits it.\<close>

definition Eval ::
  "cli_env \<Rightarrow> ((string \<times> ('c, 's) command) list \<Rightarrow> (string \<times> ('c, 's) command) list) \<Rightarrow>
   ('c, 's) remoteCli \<Rightarrow> string \<Rightarrow> 's \<Rightarrow> cmd_result \<times> ('c, 's) remoteCli \<times> 's" where
  "Eval env visit c line s =
     (if length line = 0 then (CmdErr ''Bad arguments : Empty'', c, s)
      else
        (case find (\<lambda>(k, fn). HasPrefix line k) (visit (GetActionsMap env c)) of
           Some (k, fn) \<Rightarrow> fn c (parseParams (TrimSpace (drop (length k) line))) s
         | None \<Rightarrow> (CmdErr (''Bad arguments : '' @ ce_quote env line @ '' unknow''), c, s)))"

end
