(* ===== verification/Gorm.thy ===== *)
theory Gorm
  imports Pb_Validator "HOL-Library.Multiset"
begin

text \<open>
  The vendored ORM as the service drives it, for its one model \<open>Rsvp\<close>: scopes, the callback
  chains of create, query, update and delete, and the SQL statements they produce. The SQL
  engine below it (SQLite, C code behind a driver) is a parameter, the record \<open>driver\<close>; what
  the code relies on is the locale \<open>sql_store\<close>, interpreted on a table kept as a list.
\<close>

section \<open>The model struct and its column values\<close>

text \<open>Times are nanoseconds since the Unix epoch; the zero \<open>time.Time\<close> is the first instant of year 1.\<close>

type_synonym gtime = int

definition zero_time :: gtime where
  "zero_time = - 62135596800 * 10 ^ 9"

record Rsvp =
  r_UUID :: UUID
  r_Names :: string
  r_Email :: string
  r_Presence :: bool
  r_ChildrenNameAge :: string
  r_Housing :: bool
  r_Music :: string
  r_Brunch :: bool
  r_CreatedAt :: gtime
  r_UpdatedAt :: gtime
  r_DeletedAt :: "gtime option"

definition zero_Rsvp :: Rsvp where
  "zero_Rsvp = \<lparr>r_UUID = zero_UUID, r_Names = [], r_Email = [], r_Presence = False,
     r_ChildrenNameAge = [], r_Housing = False, r_Music = [], r_Brunch = False,
     r_CreatedAt = zero_time, r_UpdatedAt = zero_time, r_DeletedAt = None\<rparr>"

record rsvp_row =
  c_uuid :: string
  c_names :: string
  c_email :: string
  c_presence :: bool
  c_children_name_age :: string
  c_housing :: bool
  c_music :: string
  c_brunch :: bool
  c_created_at :: gtime
  c_updated_at :: gtime
  c_deleted_at :: "gtime option"

definition to_row :: "Rsvp \<Rightarrow> rsvp_row" where
  "to_row r = \<lparr>c_uuid = UUID_Value (r_UUID r), c_names = r_Names r, c_email = r_Email r,
     c_presence = r_Presence r, c_children_name_age = r_ChildrenNameAge r,
     c_housing = r_Housing r, c_music = r_Music r, c_brunch = r_Brunch r,
     c_created_at = r_CreatedAt r, c_updated_at = r_UpdatedAt r, c_deleted_at = r_DeletedAt r\<rparr>"

section \<open>Statements\<close>

text \<open>
  The statements the callbacks build, with the values bound. The last string of an update or a
  delete is the extra option appended to its text. A criterion of \<open>Where(map)\<close> compares a
  column with a value.
\<close>

datatype sqlval = VText string | VBool bool | VNull

datatype cond =
    UuidIs string
  | DeletedIsNull
  | DeletedIsNotNull
  | ColumnIs string sqlval

datatype assign =
    SetNames string
  | SetEmail string
  | SetPresence bool
  | SetChildrenNameAge string
  | SetHousing bool
  | SetMusic string
  | SetBrunch bool
  | SetUpdatedAt gtime
  | SetDeletedAt gtime

datatype sql =
    SqlInsert rsvp_row
  | SqlUpdate "assign list" "cond list" string
  | SqlDelete "cond list" string
  | SqlSelect "cond list" string "nat option" "nat option"
  | SqlCount "cond list" "nat option"

fun row_column :: "string \<Rightarrow> rsvp_row \<Rightarrow> sqlval option" where
  "row_column k r =
     (if k = ''uuid'' then Some (VText (c_uuid r))
      else if k = ''names'' then Some (VText (c_names r))
      else if k = ''email'' then Some (VText (c_email r))
      else if k = ''presence'' then Some (VBool (c_presence r))
      else if k = ''children_name_age'' then Some (VText (c_children_name_age r))
      else if k = ''housing'' then Some (VBool (c_housing r))
      else if k = ''music'' then Some (VText (c_music r))
      else if k = ''brunch'' then Some (VBool (c_brunch r))
      else None)"

fun cond_holds :: "rsvp_row \<Rightarrow> cond \<Rightarrow> bool" where
  "cond_holds r (UuidIs u) = (c_uuid r = u)"
| "cond_holds r DeletedIsNull = (c_deleted_at r = None)"
| "cond_holds r DeletedIsNotNull = (c_deleted_at r \<noteq> None)"
| "cond_holds r (ColumnIs k v) = (row_column k r = Some v)"

text \<open>A criterion that names a column of the table and a value of the column's own type.\<close>

fun typed_cond :: "cond \<Rightarrow> bool" where
  "typed_cond (ColumnIs k (VText t)) =
     (k \<in> {''uuid'', ''names'', ''email'', ''children_name_age'', ''music''})"
| "typed_cond (ColumnIs k (VBool b)) = (k \<in> {''presence'', ''housing'', ''brunch''})"
| "typed_cond (ColumnIs k VNull) = False"
| "typed_cond _ = True"

definition conds_hold :: "cond list \<Rightarrow> rsvp_row \<Rightarrow> bool" where
  "conds_hold cs r = list_all (cond_holds r) cs"

fun apply_assign :: "assign \<Rightarrow> rsvp_row \<Rightarrow> rsvp_row" where
  "apply_assign (SetNames v) r = r\<lparr>c_names := v\<rparr>"
| "apply_assign (SetEmail v) r = r\<lparr>c_email := v\<rparr>"
| "apply_assign (SetPresence v) r = r\<lparr>c_presence := v\<rparr>"
| "apply_assign (SetChildrenNameAge v) r = r\<lparr>c_children_name_age := v\<rparr>"
| "apply_assign (SetHousing v) r = r\<lparr>c_housing := v\<rparr>"
| "apply_assign (SetMusic v) r = r\<lparr>c_music := v\<rparr>"
| "apply_assign (SetBrunch v) r = r\<lparr>c_brunch := v\<rparr>"
| "apply_assign (SetUpdatedAt t) r = r\<lparr>c_updated_at := t\<rparr>"
| "apply_assign (SetDeletedAt t) r = r\<lparr>c_deleted_at := Some t\<rparr>"

definition apply_assigns :: "assign list \<Rightarrow> rsvp_row \<Rightarrow> rsvp_row" where
  "apply_assigns as r = fold apply_assign as r"

lemma apply_assigns_uuid [simp]: "c_uuid (apply_assigns as r) = c_uuid r"
proof -
  have "c_uuid (apply_assign a r) = c_uuid r" for a r by (cases a) auto
  then show ?thesis unfolding apply_assigns_def by (induction as arbitrary: r) auto
qed

section \<open>The SQL engine\<close>

text \<open>The ORDER BY text of \<open>First\<close>.\<close>

definition by_primary_key :: string where
  "by_primary_key = [CHR 0x22] @ ''rsvps'' @ [CHR 0x22] @ ''.'' @ [CHR 0x22] @ ''uuid'' @ [CHR 0x22] @ '' ASC''"

record 'db driver =
  d_open :: "string \<Rightarrow> string + 'db"
  d_ping :: "'db \<Rightarrow> string option"
  d_close :: "'db \<Rightarrow> string option"
  d_begin :: "'db \<Rightarrow> 'db option"
  d_commit :: "'db \<Rightarrow> string option \<times> 'db"
  d_rollback :: "'db \<Rightarrow> 'db"
  d_exec :: "sql \<Rightarrow> 'db \<Rightarrow> string option \<times> 'db"
  d_query :: "sql \<Rightarrow> 'db \<Rightarrow> string + rsvp_row list"
  d_count :: "sql \<Rightarrow> 'db \<Rightarrow> string + nat"
  d_has_table :: "'db \<Rightarrow> string \<Rightarrow> bool"
  d_auto_migrate :: "'db \<Rightarrow> 'db"

definition window :: "nat option \<Rightarrow> nat option \<Rightarrow> 'a list \<Rightarrow> 'a list" where
  "window lim off xs =
     (let ys = (case off of None \<Rightarrow> xs | Some n \<Rightarrow> drop n xs)
      in case lim of None \<Rightarrow> ys | Some n \<Rightarrow> take n ys)"

definition update_rows :: "assign list \<Rightarrow> cond list \<Rightarrow> rsvp_row list \<Rightarrow> rsvp_row list" where
  "update_rows as cs rs = map (\<lambda>r. if conds_hold cs r then apply_assigns as r else r) rs"

definition delete_rows :: "cond list \<Rightarrow> rsvp_row list \<Rightarrow> rsvp_row list" where
  "delete_rows cs rs = filter (\<lambda>r. \<not> conds_hold cs r) rs"

definition limit_message :: string where
  "limit_message = ''near '' @ [CHR 0x22] @ ''LIMIT'' @ [CHR 0x22] @ '': syntax error''"

definition unique_message :: string where
  "unique_message = ''UNIQUE constraint failed: rsvps.uuid''"

text \<open>
  What the code relies on. \<open>rows\<close> reads the table as the handle sees it and \<open>base\<close> as it was
  when the transaction began. A failing statement changes nothing (statement atomicity); a
  successful one has the effect of its text; a roll-back returns to the base. \<open>ord\<close> is the
  order the engine gives the rows of a query with a given ORDER BY text: some rearrangement
  of them. The laws of queries are for criteria that name columns with values of their type,
  and a query whose ORDER BY text is anything but empty or the primary key may be refused. On
  an engine that is \<open>up\<close> only a duplicate key makes a plain statement fail.
\<close>

locale sql_store =
  fixes drv :: "'db driver"
    and rows :: "'db \<Rightarrow> rsvp_row list"
    and base :: "'db \<Rightarrow> rsvp_row list"
    and up :: "'db \<Rightarrow> bool"
    and ord :: "string \<Rightarrow> rsvp_row list \<Rightarrow> rsvp_row list"
  assumes begin_rows: "d_begin drv d = Some d' \<Longrightarrow> rows d' = rows d \<and> base d' = rows d"
    and begin_up: "up d \<Longrightarrow> \<exists>d'. d_begin drv d = Some d' \<and> up d'"
    and commit_rows: "d_commit drv d = (None, d') \<Longrightarrow> rows d' = rows d"
    and commit_up: "up d \<Longrightarrow> \<exists>d'. d_commit drv d = (None, d') \<and> up d'"
    and rollback_rows: "rows (d_rollback drv d) = base d"
    and rollback_up: "up d \<Longrightarrow> up (d_rollback drv d)"
    and exec_base: "d_exec drv s d = (e, d') \<Longrightarrow> base d' = base d"
    and exec_fails: "d_exec drv s d = (Some m, d') \<Longrightarrow> rows d' = rows d"
    and exec_up: "up d \<Longrightarrow> d_exec drv s d = (e, d') \<Longrightarrow> up d'"
    and insert_rows: "d_exec drv (SqlInsert r) d = (None, d') \<Longrightarrow>
          c_uuid r \<notin> c_uuid ` set (rows d) \<and> rows d' = rows d @ [r]"
    and insert_up: "up d \<Longrightarrow> c_uuid r \<notin> c_uuid ` set (rows d) \<Longrightarrow>
          fst (d_exec drv (SqlInsert r) d) = None"
    and update_effect: "d_exec drv (SqlUpdate as cs []) d = (None, d') \<Longrightarrow>
          rows d' = update_rows as cs (rows d)"
    and update_up: "up d \<Longrightarrow> fst (d_exec drv (SqlUpdate as cs []) d) = None"
    and delete_effect: "d_exec drv (SqlDelete cs []) d = (None, d') \<Longrightarrow>
          rows d' = delete_rows cs (rows d)"
    and delete_up: "up d \<Longrightarrow> fst (d_exec drv (SqlDelete cs []) d) = None"
    and query_rows: "list_all typed_cond cs \<Longrightarrow>
          d_query drv (SqlSelect cs o' lim off) d = Inr rs \<Longrightarrow>
          rs = window lim off (ord o' (filter (conds_hold cs) (rows d)))"
    and query_up: "up d \<Longrightarrow> list_all typed_cond cs \<Longrightarrow> o' \<in> {[], by_primary_key} \<Longrightarrow>
          lim \<noteq> None \<or> off = None \<Longrightarrow>
          \<exists>rs. d_query drv (SqlSelect cs o' lim off) d = Inr rs"
    and count_rows: "list_all typed_cond cs \<Longrightarrow> lim \<noteq> Some 0 \<Longrightarrow> d_count drv (SqlCount cs lim) d = Inr n \<Longrightarrow>
          n = length (filter (conds_hold cs) (rows d))"
    and count_up: "up d \<Longrightarrow> list_all typed_cond cs \<Longrightarrow> lim \<noteq> Some 0 \<Longrightarrow>
          \<exists>n. d_count drv (SqlCount cs lim) d = Inr n"
    and count_no_row: "\<exists>m. d_count drv (SqlCount cs (Some 0)) d = Inl m"
    and ord_mset: "mset (ord o' rs) = mset rs"

text \<open>
  The engine as this repository builds it: the compiler flags of the vendored driver do not
  enable LIMIT on updates and deletes, so such a statement is a syntax error.
\<close>

locale sql_store_no_limit = sql_store +
  assumes update_limit: "opt \<noteq> [] \<Longrightarrow> fst (d_exec drv (SqlUpdate as cs opt) d) = Some limit_message"
    and delete_limit: "opt \<noteq> [] \<Longrightarrow> fst (d_exec drv (SqlDelete cs opt) d) = Some limit_message"

section \<open>Scopes\<close>

datatype gorm_error =
    ErrRecordNotFound
  | DbError string
  | ScanError uuid_error

text \<open>
  A scope: the connection (inside a transaction once one was started), the errors collected so
  far, and the value operated on.
\<close>

record 'db scope =
  sc_db :: 'db
  sc_started :: bool
  sc_errs :: "gorm_error list"
  sc_val :: Rsvp

definition NewScope :: "'db \<Rightarrow> Rsvp \<Rightarrow> 'db scope" where
  "NewScope d v = \<lparr>sc_db = d, sc_started = False, sc_errs = [], sc_val = v\<rparr>"

definition AddError :: "string option \<Rightarrow> 'db scope \<Rightarrow> 'db scope" where
  "AddError e sc = (case e of None \<Rightarrow> sc | Some m \<Rightarrow> sc\<lparr>sc_errs := sc_errs sc @ [DbError m]\<rparr>)"

definition HasError :: "'db scope \<Rightarrow> bool" where
  "HasError sc = (sc_errs sc \<noteq> [])"

definition Begin :: "'db driver \<Rightarrow> 'db scope \<Rightarrow> 'db scope" where
  "Begin drv sc =
     (case d_begin drv (sc_db sc) of
        Some d \<Rightarrow> sc\<lparr>sc_db := d, sc_started := True\<rparr>
      | None \<Rightarrow> sc)"

definition CommitOrRollback :: "'db driver \<Rightarrow> 'db scope \<Rightarrow> 'db scope" where
  "CommitOrRollback drv sc =
     (if sc_started sc then
        (if HasError sc then sc\<lparr>sc_db := d_rollback drv (sc_db sc)\<rparr>
         else (case d_commit drv (sc_db sc) of (e, d) \<Rightarrow> AddError e (sc\<lparr>sc_db := d\<rparr>)))
      else sc)"

definition Exec :: "'db driver \<Rightarrow> sql \<Rightarrow> 'db scope \<Rightarrow> 'db scope" where
  "Exec drv s sc =
     (if HasError sc then sc
      else (case d_exec drv s (sc_db sc) of (e, d) \<Rightarrow> AddError e (sc\<lparr>sc_db := d\<rparr>)))"

text \<open>The primary key condition is there only when the key is not blank, that is, not all zero.\<close>

definition whereSQL :: "bool \<Rightarrow> Rsvp \<Rightarrow> cond list" where
  "whereSQL unscoped v =
     (if unscoped then [] else [DeletedIsNull]) @
     (if r_UUID v \<noteq> zero_UUID then [UuidIs (UUID_Value (r_UUID v))] else [])"

lemma typed_whereSQL [simp]: "list_all typed_cond (whereSQL unscoped v)"
  by (simp add: whereSQL_def)

section \<open>Open\<close>

text \<open>\<open>gorm.Open\<close> opens the handle and pings it; a handle that does not answer is closed again.\<close>

definition gorm_Open :: "'db driver \<Rightarrow> string \<Rightarrow> string + 'db" where
  "gorm_Open drv dsn =
     (case d_open drv dsn of
        Inl e \<Rightarrow> Inl e
      | Inr d \<Rightarrow> (case d_ping drv d of Some e \<Rightarrow> Inl e | None \<Rightarrow> Inr d))"

section \<open>Create\<close>

text \<open>\<open>BeforeCreate\<close> of the model gives the value a new identifier; \<open>None\<close> is the panic of \<open>uuid.New\<close>.\<close>

definition BeforeCreate :: "byte list option \<Rightarrow> Rsvp \<Rightarrow> Rsvp option" where
  "BeforeCreate rnd v = (case UUID_New rnd of None \<Rightarrow> None | Some u \<Rightarrow> Some (v\<lparr>r_UUID := u\<rparr>))"

definition beforeCreateCallback :: "byte list option \<Rightarrow> 'db scope \<Rightarrow> 'db scope option" where
  "beforeCreateCallback rnd sc =
     (if HasError sc then Some sc
      else (case BeforeCreate rnd (sc_val sc) of
              None \<Rightarrow> None
            | Some v \<Rightarrow> Some (sc\<lparr>sc_val := v\<rparr>)))"

definition updateTimeStampForCreateCallback :: "gtime \<Rightarrow> 'db scope \<Rightarrow> 'db scope" where
  "updateTimeStampForCreateCallback now sc =
     (if HasError sc then sc
      else (let v = sc_val sc;
                v1 = (if r_CreatedAt v = zero_time then v\<lparr>r_CreatedAt := now\<rparr> else v);
                v2 = (if r_UpdatedAt v1 = zero_time then v1\<lparr>r_UpdatedAt := now\<rparr> else v1)
            in sc\<lparr>sc_val := v2\<rparr>))"

definition createCallback :: "'db driver \<Rightarrow> 'db scope \<Rightarrow> 'db scope" where
  "createCallback drv sc = Exec drv (SqlInsert (to_row (sc_val sc))) sc"

definition gorm_Create ::
  "'db driver \<Rightarrow> gtime \<Rightarrow> byte list option \<Rightarrow> Rsvp \<Rightarrow> 'db \<Rightarrow> 'db scope option" where
  "gorm_Create drv now rnd v d =
     (case beforeCreateCallback rnd (Begin drv (NewScope d v)) of
        None \<Rightarrow> None
      | Some sc \<Rightarrow>
          Some (CommitOrRollback drv
                 (createCallback drv (updateTimeStampForCreateCallback now sc))))"

section \<open>Query\<close>

text \<open>
  Scanning a row into a struct. The identifier is the first column: when its text does not
  parse, the scan stops there and the struct keeps its values.
\<close>

definition scan_row :: "Rsvp \<Rightarrow> rsvp_row \<Rightarrow> gorm_error list \<times> Rsvp" where
  "scan_row v r =
     (case UUID_Scan (r_UUID v) (c_uuid r) of
        Inl e \<Rightarrow> ([ScanError e], v)
      | Inr u \<Rightarrow>
          ([], \<lparr>r_UUID = u, r_Names = c_names r, r_Email = c_email r, r_Presence = c_presence r,
             r_ChildrenNameAge = c_children_name_age r, r_Housing = c_housing r,
             r_Music = c_music r, r_Brunch = c_brunch r, r_CreatedAt = c_created_at r,
             r_UpdatedAt = c_updated_at r, r_DeletedAt = c_deleted_at r\<rparr>))"

definition gorm_First :: "'db driver \<Rightarrow> bool \<Rightarrow> Rsvp \<Rightarrow> 'db \<Rightarrow> gorm_error list \<times> Rsvp" where
  "gorm_First drv unscoped v d =
     (case d_query drv (SqlSelect (whereSQL unscoped v) by_primary_key (Some 1) None) d of
        Inl m \<Rightarrow> ([DbError m], v)
      | Inr [] \<Rightarrow> ([ErrRecordNotFound], v)
      | Inr (r # _) \<Rightarrow> scan_row v r)"

definition RecordNotFound :: "gorm_error list \<Rightarrow> bool" where
  "RecordNotFound errs = (ErrRecordNotFound \<in> set errs)"

fun scan_all :: "rsvp_row list \<Rightarrow> gorm_error list \<times> Rsvp list" where
  "scan_all [] = ([], [])"
| "scan_all (r # rs) =
     (case scan_row zero_Rsvp r of
        (e, v) \<Rightarrow> (case scan_all rs of (es, vs) \<Rightarrow> (e @ es, v # vs)))"

section \<open>Update\<close>

text \<open>
  \<open>Field.Set\<close>: a value converts to a field of its own type only. A pointer to a string or to a
  truth value is not convertible to a string or a truth value, and neither field type is a
  scanner, so for those the field keeps its value and an error is returned.
\<close>

datatype goval =
    GString string
  | GBool bool
  | GStringPtr string
  | GBoolPtr bool

datatype column = CNames | CEmail | CPresence | CChildrenNameAge | CHousing | CMusic | CBrunch

fun Field_Set :: "column \<Rightarrow> goval \<Rightarrow> Rsvp \<Rightarrow> Rsvp" where
  "Field_Set CNames (GString s) v = v\<lparr>r_Names := s\<rparr>"
| "Field_Set CEmail (GString s) v = v\<lparr>r_Email := s\<rparr>"
| "Field_Set CPresence (GBool b) v = v\<lparr>r_Presence := b\<rparr>"
| "Field_Set CChildrenNameAge (GString s) v = v\<lparr>r_ChildrenNameAge := s\<rparr>"
| "Field_Set CHousing (GBool b) v = v\<lparr>r_Housing := b\<rparr>"
| "Field_Set CMusic (GString s) v = v\<lparr>r_Music := s\<rparr>"
| "Field_Set CBrunch (GBool b) v = v\<lparr>r_Brunch := b\<rparr>"
| "Field_Set _ _ v = v"

text \<open>The value the field has afterwards is what the statement writes.\<close>

fun field_assign :: "column \<Rightarrow> Rsvp \<Rightarrow> assign" where
  "field_assign CNames v = SetNames (r_Names v)"
| "field_assign CEmail v = SetEmail (r_Email v)"
| "field_assign CPresence v = SetPresence (r_Presence v)"
| "field_assign CChildrenNameAge v = SetChildrenNameAge (r_ChildrenNameAge v)"
| "field_assign CHousing v = SetHousing (r_Housing v)"
| "field_assign CMusic v = SetMusic (r_Music v)"
| "field_assign CBrunch v = SetBrunch (r_Brunch v)"

fun updatedAttrsWithValues :: "(column \<times> goval) list \<Rightarrow> Rsvp \<Rightarrow> assign list \<times> Rsvp" where
  "updatedAttrsWithValues [] v = ([], v)"
| "updatedAttrsWithValues ((c, x) # cs) v =
     (let v1 = Field_Set c x v
      in case updatedAttrsWithValues cs v1 of (as, v2) \<Rightarrow> (field_assign c v1 # as, v2))"

text \<open>\<open>db.Model(v).Updates(changes)\<close>, not unscoped; the time stamp is written as well.\<close>

definition gorm_Updates ::
  "'db driver \<Rightarrow> gtime \<Rightarrow> (column \<times> goval) list \<Rightarrow> Rsvp \<Rightarrow> 'db \<Rightarrow> 'db scope" where
  "gorm_Updates drv now changes v d =
     (case updatedAttrsWithValues changes v of
        (as, v1) \<Rightarrow>
          (let sc = Begin drv (NewScope d v1);
               v2 = v1\<lparr>r_UpdatedAt := now\<rparr>
           in CommitOrRollback drv
                (Exec drv (SqlUpdate (as @ [SetUpdatedAt now]) (whereSQL False v2) [])
                  (sc\<lparr>sc_val := v2\<rparr>))))"

section \<open>Delete\<close>

definition gorm_Delete :: "'db driver \<Rightarrow> gtime \<Rightarrow> string \<Rightarrow> Rsvp \<Rightarrow> 'db \<Rightarrow> 'db scope" where
  "gorm_Delete drv now option v d =
     (let sc = Begin drv (NewScope d v)
      in CommitOrRollback drv
           (Exec drv (SqlUpdate [SetDeletedAt now] (whereSQL False v) option) sc))"

end
