(* ===== verification/Gorm_Store.thy ===== *)
theory Gorm_Store
  imports Gorm "HOL-Library.List_Lexorder"
begin

text \<open>
  The laws of the SQL engine at work: what the ORM operations do to the table, proved once in
  the locale \<open>sql_store\<close>, and the engine that keeps the table as a list, which satisfies the
  laws and on which every operation of the development can be run.
\<close>

section \<open>The callback chains over any engine\<close>

lemma sel_scope [simp]:
  "sc_errs (NewScope d v) = []" "sc_db (NewScope d v) = d" "sc_val (NewScope d v) = v"
  "sc_started (NewScope d v) = False"
  by (simp_all add: NewScope_def)

lemma AddError_simps [simp]:
  "sc_db (AddError e sc) = sc_db sc" "sc_val (AddError e sc) = sc_val sc"
  "sc_started (AddError e sc) = sc_started sc" "AddError None sc = sc"
  by (simp_all add: AddError_def split: option.split)

lemma AddError_errs [simp]: "sc_errs (AddError (Some m) sc) = sc_errs sc @ [DbError m]"
  by (simp add: AddError_def)

lemma sc_val_frame [simp]:
  "sc_val (Begin drv sc) = sc_val sc" "sc_errs (Begin drv sc) = sc_errs sc"
  "sc_val (Exec drv s sc) = sc_val sc" "sc_started (Exec drv s sc) = sc_started sc"
  "sc_val (CommitOrRollback drv sc) = sc_val sc"
  by (simp_all add: Begin_def Exec_def CommitOrRollback_def split: option.split prod.split)

text \<open>The value after the two callbacks that run before the insert.\<close>

definition stamped :: "gtime \<Rightarrow> Rsvp \<Rightarrow> Rsvp" where
  "stamped now v =
     (let v1 = (if r_CreatedAt v = zero_time then v\<lparr>r_CreatedAt := now\<rparr> else v)
      in if r_UpdatedAt v1 = zero_time then v1\<lparr>r_UpdatedAt := now\<rparr> else v1)"

lemma updateTimeStamp_stamped:
  "\<not> HasError sc \<Longrightarrow>
     updateTimeStampForCreateCallback now sc = sc\<lparr>sc_val := stamped now (sc_val sc)\<rparr>"
  by (simp add: updateTimeStampForCreateCallback_def stamped_def Let_def)

lemma gorm_Create_unfold:
  "gorm_Create drv now rnd v d =
     (case UUID_New rnd of
        None \<Rightarrow> None
      | Some u \<Rightarrow>
          (let w = stamped now (v\<lparr>r_UUID := u\<rparr>)
           in Some (CommitOrRollback drv
                (Exec drv (SqlInsert (to_row w)) ((Begin drv (NewScope d v))\<lparr>sc_val := w\<rparr>)))))"
  by (simp add: gorm_Create_def beforeCreateCallback_def BeforeCreate_def HasError_def
      updateTimeStamp_stamped createCallback_def Let_def split: option.split)

lemma stamped_UUID [simp]: "r_UUID (stamped now v) = r_UUID v"
  by (simp add: stamped_def Let_def)

text \<open>A transaction of one statement.\<close>

definition transact :: "'db driver \<Rightarrow> sql \<Rightarrow> Rsvp \<Rightarrow> 'db \<Rightarrow> 'db scope" where
  "transact drv s v d =
     CommitOrRollback drv (Exec drv s ((Begin drv (NewScope d v))\<lparr>sc_val := v\<rparr>))"

context sql_store
begin

lemma transact_val: "sc_val (transact drv s v d) = v"
  by (simp add: transact_def)

lemma transact_up:
  assumes "up d"
  obtains d1 e d2 where
    "d_begin drv d = Some d1" "up d1" "rows d1 = rows d" "base d1 = rows d"
    "d_exec drv s d1 = (e, d2)" "up d2" "base d2 = rows d"
    "e = None \<Longrightarrow> \<exists>d3. transact drv s v d = \<lparr>sc_db = d3, sc_started = True, sc_errs = [], sc_val = v\<rparr>
        \<and> rows d3 = rows d2 \<and> up d3"
    "\<And>m. e = Some m \<Longrightarrow> \<exists>d3. transact drv s v d =
        \<lparr>sc_db = d3, sc_started = True, sc_errs = [DbError m], sc_val = v\<rparr> \<and> rows d3 = rows d \<and> up d3"
proof -
  from begin_up [OF assms] obtain d1 where d1: "d_begin drv d = Some d1" "up d1" by blast
  from begin_rows [OF d1(1)] have r1: "rows d1 = rows d" "base d1 = rows d" by auto
  obtain e d2 where d2: "d_exec drv s d1 = (e, d2)" by (cases "d_exec drv s d1")
  from exec_up [OF d1(2) d2] exec_base [OF d2] r1 have u2: "up d2" "base d2 = rows d" by auto
  from commit_up [OF u2(1)] obtain d3 where d3: "d_commit drv d2 = (None, d3)" "up d3" by blast
  show thesis
  proof (rule that [OF d1 r1 d2 u2])
    show "\<exists>d3. transact drv s v d = \<lparr>sc_db = d3, sc_started = True, sc_errs = [], sc_val = v\<rparr>
        \<and> rows d3 = rows d2 \<and> up d3" if "e = None"
      using that d1 d2 d3 commit_rows [OF d3(1)]
      by (simp add: transact_def Begin_def NewScope_def Exec_def HasError_def CommitOrRollback_def)
    show "\<exists>d3. transact drv s v d =
        \<lparr>sc_db = d3, sc_started = True, sc_errs = [DbError m], sc_val = v\<rparr> \<and> rows d3 = rows d \<and> up d3"
      if "e = Some m" for m
      using that d1 d2 u2 rollback_rows [of d2] rollback_up [OF u2(1)]
      by (simp add: transact_def Begin_def NewScope_def Exec_def HasError_def CommitOrRollback_def
          AddError_def)
  qed
qed

lemma transact_ok:
  assumes "up d" and "\<And>d1. up d1 \<Longrightarrow> rows d1 = rows d \<Longrightarrow> fst (d_exec drv s d1) = None"
  shows "\<exists>d1 d2. rows d1 = rows d \<and> d_exec drv s d1 = (None, d2) \<and>
    sc_errs (transact drv s v d) = [] \<and> rows (sc_db (transact drv s v d)) = rows d2 \<and>
    up (sc_db (transact drv s v d))"
proof -
  obtain d1 e d2 where h: "up d1" "rows d1 = rows d" "d_exec drv s d1 = (e, d2)"
    "e = None \<Longrightarrow> \<exists>d3. transact drv s v d = \<lparr>sc_db = d3, sc_started = True, sc_errs = [], sc_val = v\<rparr>
        \<and> rows d3 = rows d2 \<and> up d3"
    using transact_up [OF assms(1), of s v] by metis
  from assms(2) [OF h(1,2)] h(3) have "e = None" by simp
  with h show ?thesis by force
qed

lemma transact_fails:
  assumes "up d" and "sc_errs (transact drv s v d) \<noteq> []"
  shows "rows (sc_db (transact drv s v d)) = rows d"
  using transact_up [OF assms(1), of s v] assms(2)
  by (metis option.exhaust_sel scope.select_convs(1,3))

text \<open>Create: with a fresh identifier one row is appended; with an error nothing is.\<close>

lemma create_fresh:
  assumes "up d" and "UUID_New rnd = Some u" and "UUID_Value u \<notin> c_uuid ` set (rows d)"
  shows "\<exists>sc. gorm_Create drv now rnd v d = Some sc \<and> sc_errs sc = [] \<and>
    sc_val sc = stamped now (v\<lparr>r_UUID := u\<rparr>) \<and> up (sc_db sc) \<and>
    rows (sc_db sc) = rows d @ [to_row (stamped now (v\<lparr>r_UUID := u\<rparr>))]"
proof -
  let ?w = "stamped now (v\<lparr>r_UUID := u\<rparr>)"
  have c: "c_uuid (to_row ?w) = UUID_Value u" by (simp add: to_row_def)
  let ?sc = "CommitOrRollback drv
    (Exec drv (SqlInsert (to_row ?w)) ((Begin drv (NewScope d v))\<lparr>sc_val := ?w\<rparr>))"
  have g: "gorm_Create drv now rnd v d = Some ?sc"
    by (simp add: gorm_Create_unfold assms(2) Let_def)
  have t: "?sc = transact drv (SqlInsert (to_row ?w)) ?w d"
    by (simp add: transact_def Begin_def NewScope_def split: option.split)
  have "\<exists>d1 d2. rows d1 = rows d \<and> d_exec drv (SqlInsert (to_row ?w)) d1 = (None, d2) \<and>
    sc_errs ?sc = [] \<and> rows (sc_db ?sc) = rows d2 \<and> up (sc_db ?sc)"
    unfolding t using assms(3) c by (intro transact_ok [OF assms(1)] insert_up) auto
  then show ?thesis using g insert_rows by (metis t transact_val)
qed

lemma create_shape:
  assumes "gorm_Create drv now rnd v d = Some sc"
  shows "\<exists>u. UUID_New rnd = Some u \<and>
    sc = transact drv (SqlInsert (to_row (stamped now (v\<lparr>r_UUID := u\<rparr>)))) (stamped now (v\<lparr>r_UUID := u\<rparr>)) d"
  using assms
  by (auto simp: gorm_Create_unfold transact_def Let_def Begin_def NewScope_def split: option.splits)

lemma create_error:
  assumes "up d" and "gorm_Create drv now rnd v d = Some sc" and "sc_errs sc \<noteq> []"
  shows "rows (sc_db sc) = rows d"
  using create_shape [OF assms(2)] transact_fails [OF assms(1)] assms(3) by metis

lemma updates_shape:
  assumes "updatedAttrsWithValues changes v = (as, v1)"
  shows "gorm_Updates drv now changes v d =
    transact drv (SqlUpdate (as @ [SetUpdatedAt now]) (whereSQL False (v1\<lparr>r_UpdatedAt := now\<rparr>)) [])
      (v1\<lparr>r_UpdatedAt := now\<rparr>) d"
  by (simp add: gorm_Updates_def assms transact_def Begin_def NewScope_def Let_def split: option.split)

lemma updates_rows:
  assumes "up d" and "updatedAttrsWithValues changes v = (as, v1)"
  shows "sc_errs (gorm_Updates drv now changes v d) = [] \<and>
    rows (sc_db (gorm_Updates drv now changes v d)) =
      update_rows (as @ [SetUpdatedAt now]) (whereSQL False (v1\<lparr>r_UpdatedAt := now\<rparr>)) (rows d) \<and>
    sc_val (gorm_Updates drv now changes v d) = v1\<lparr>r_UpdatedAt := now\<rparr>"
  unfolding updates_shape [OF assms(2)]
  using transact_ok [OF assms(1), of "SqlUpdate (as @ [SetUpdatedAt now])
      (whereSQL False (v1\<lparr>r_UpdatedAt := now\<rparr>)) []" "v1\<lparr>r_UpdatedAt := now\<rparr>"]
    update_up update_effect by (metis transact_val)

text \<open>Delete without an extra option stamps the matching live rows.\<close>

lemma delete_shape:
  "gorm_Delete drv now option v d =
     transact drv (SqlUpdate [SetDeletedAt now] (whereSQL False v) option) v d"
  by (simp add: gorm_Delete_def transact_def Begin_def NewScope_def Let_def split: option.split)

lemma First_cases:
  assumes "up d"
  shows "(filter (conds_hold (whereSQL unscoped v)) (rows d) = [] \<and>
      gorm_First drv unscoped v d = ([ErrRecordNotFound], v)) \<or>
    (\<exists>r \<in> set (rows d). conds_hold (whereSQL unscoped v) r \<and>
      gorm_First drv unscoped v d = scan_row v r)"
proof -
  let ?f = "filter (conds_hold (whereSQL unscoped v)) (rows d)"
  from query_up [OF assms typed_whereSQL, of by_primary_key "Some 1" None] obtain rs where
    rs: "d_query drv (SqlSelect (whereSQL unscoped v) by_primary_key (Some 1) None) d = Inr rs"
    by blast
  then have w: "rs = take 1 (ord by_primary_key ?f)"
    using query_rows [OF typed_whereSQL rs] by (simp add: window_def)
  have m: "set (ord by_primary_key ?f) = set ?f" using ord_mset [of by_primary_key ?f]
    by (metis set_mset_mset)
  show ?thesis
  proof (cases rs)
    case Nil
    with w have "ord by_primary_key ?f = []" by (cases "ord by_primary_key ?f") auto
    with m have "?f = []" by simp
    with rs Nil show ?thesis by (simp add: gorm_First_def)
  next
    case (Cons r rs')
    then have "r \<in> set (ord by_primary_key ?f)" using w by (metis in_set_takeD list.set_intros(1))
    with m have "r \<in> set (rows d)" "conds_hold (whereSQL unscoped v) r" by auto
    with rs Cons show ?thesis by (auto simp: gorm_First_def)
  qed
qed

end

context sql_store_no_limit
begin

lemma delete_with_option_fails:
  assumes "up d" and "option \<noteq> []"
  shows "sc_errs (gorm_Delete drv now option v d) = [DbError limit_message] \<and>
    rows (sc_db (gorm_Delete drv now option v d)) = rows d"
proof -
  let ?s = "SqlUpdate [SetDeletedAt now] (whereSQL False v) option"
  obtain d1 e d2 where h: "d_exec drv ?s d1 = (e, d2)"
    "\<And>m. e = Some m \<Longrightarrow> \<exists>d3. transact drv ?s v d =
        \<lparr>sc_db = d3, sc_started = True, sc_errs = [DbError m], sc_val = v\<rparr> \<and> rows d3 = rows d \<and> up d3"
    using transact_up [OF assms(1), of ?s v] by metis
  from update_limit [OF assms(2)] h(1) have "e = Some limit_message" by (metis fst_conv)
  with h(2) show ?thesis unfolding delete_shape by force
qed

end

section \<open>The engine on a list\<close>

text \<open>
  The table as a list of rows, a copy of it taken when a transaction begins, and the names of
  the tables that exist. A statement on a missing table fails.
\<close>

record mem =
  m_rows :: "rsvp_row list"
  m_base :: "rsvp_row list"
  m_tables :: "string list"

definition mem_up :: "mem \<Rightarrow> bool" where
  "mem_up m = (''rsvps'' \<in> set (m_tables m))"

definition no_table_message :: string where
  "no_table_message = ''no such table: rsvps''"

fun mem_run :: "sql \<Rightarrow> mem \<Rightarrow> string option \<times> mem" where
  "mem_run (SqlInsert r) m =
     (if c_uuid r \<in> c_uuid ` set (m_rows m) then (Some unique_message, m)
      else (None, m\<lparr>m_rows := m_rows m @ [r]\<rparr>))"
| "mem_run (SqlUpdate as cs opt) m =
     (if opt \<noteq> [] then (Some limit_message, m)
      else (None, m\<lparr>m_rows := update_rows as cs (m_rows m)\<rparr>))"
| "mem_run (SqlDelete cs opt) m =
     (if opt \<noteq> [] then (Some limit_message, m)
      else (None, m\<lparr>m_rows := delete_rows cs (m_rows m)\<rparr>))"
| "mem_run _ m = (None, m)"

text \<open>A syntax error is found before the names of the tables are resolved.\<close>

definition mem_exec :: "sql \<Rightarrow> mem \<Rightarrow> string option \<times> mem" where
  "mem_exec s m =
     (case mem_run s m of
        (e, m') \<Rightarrow> if mem_up m \<or> e = Some limit_message then (e, m') else (Some no_table_message, m))"

definition mem_ord :: "string \<Rightarrow> rsvp_row list \<Rightarrow> rsvp_row list" where
  "mem_ord o' rs = (if o' = by_primary_key then sort_key c_uuid rs else rs)"

fun mem_query :: "sql \<Rightarrow> mem \<Rightarrow> string + rsvp_row list" where
  "mem_query (SqlSelect cs o' lim off) m =
     (if mem_up m then Inr (window lim off (mem_ord o' (filter (conds_hold cs) (m_rows m))))
      else Inl no_table_message)"
| "mem_query _ m = Inr []"

fun mem_count :: "sql \<Rightarrow> mem \<Rightarrow> string + nat" where
  "mem_count (SqlCount cs lim) m =
     (if \<not> mem_up m then Inl no_table_message
      else if lim = Some 0 then Inl ''sql: no rows in result set''
      else Inr (length (filter (conds_hold cs) (m_rows m))))"
| "mem_count _ m = Inl ''sql: no rows in result set''"

text \<open>The engine over a disk: the contents behind every data source name.\<close>

definition mem_driver :: "(string \<Rightarrow> string + mem) \<Rightarrow> mem driver" where
  "mem_driver disk =
     \<lparr>d_open = disk,
      d_ping = (\<lambda>m. None),
      d_close = (\<lambda>m. None),
      d_begin = (\<lambda>m. Some (m\<lparr>m_base := m_rows m\<rparr>)),
      d_commit = (\<lambda>m. (None, m)),
      d_rollback = (\<lambda>m. m\<lparr>m_rows := m_base m\<rparr>),
      d_exec = mem_exec,
      d_query = mem_query,
      d_count = mem_count,
      d_has_table = (\<lambda>m t. t \<in> set (m_tables m)),
      d_auto_migrate =
        (\<lambda>m. m\<lparr>m_tables := (if mem_up m then m_tables m else ''rsvps'' # m_tables m)\<rparr>)\<rparr>"

lemma mem_run_fails: "mem_run s d = (Some m, d') \<Longrightarrow> d' = d"
  by (cases s) (auto split: if_splits)

lemma mem_run_frame: "mem_run s d = (e, d') \<Longrightarrow> m_base d' = m_base d \<and> m_tables d' = m_tables d"
  by (cases s) (auto split: if_splits)

lemma mem_exec_fails: "mem_exec s d = (Some m, d') \<Longrightarrow> d' = d"
  by (auto simp: mem_exec_def dest: mem_run_fails split: prod.splits if_splits)

lemma mem_exec_frame: "mem_exec s d = (e, d') \<Longrightarrow> m_base d' = m_base d \<and> mem_up d' = mem_up d"
  by (auto simp: mem_exec_def mem_up_def dest: mem_run_frame split: prod.splits if_splits)

lemma mem_exec_insert:
  "mem_exec (SqlInsert r) d = (None, d') \<Longrightarrow>
     c_uuid r \<notin> c_uuid ` set (m_rows d) \<and> m_rows d' = m_rows d @ [r]"
  by (auto simp: mem_exec_def split: if_splits)

lemma mem_exec_insert_up:
  "mem_up d \<Longrightarrow> c_uuid r \<notin> c_uuid ` set (m_rows d) \<Longrightarrow> fst (mem_exec (SqlInsert r) d) = None"
  by (auto simp: mem_exec_def)

lemma mem_exec_update:
  "mem_exec (SqlUpdate as cs []) d = (None, d') \<Longrightarrow> m_rows d' = update_rows as cs (m_rows d)"
  by (auto simp: mem_exec_def split: if_splits)

lemma mem_exec_delete:
  "mem_exec (SqlDelete cs []) d = (None, d') \<Longrightarrow> m_rows d' = delete_rows cs (m_rows d)"
  by (auto simp: mem_exec_def split: if_splits)

lemma mem_query_rows:
  "mem_query (SqlSelect cs o' lim off) d = Inr rs \<Longrightarrow>
     rs = window lim off (mem_ord o' (filter (conds_hold cs) (m_rows d)))"
  by (auto split: if_splits)

lemma mem_driver_sel [simp]:
  "d_open (mem_driver disk) = disk" "d_ping (mem_driver disk) m = None"
  "d_begin (mem_driver disk) m = Some (m\<lparr>m_base := m_rows m\<rparr>)"
  "d_commit (mem_driver disk) m = (None, m)"
  "d_rollback (mem_driver disk) m = m\<lparr>m_rows := m_base m\<rparr>"
  "d_exec (mem_driver disk) = mem_exec" "d_query (mem_driver disk) = mem_query"
  "d_count (mem_driver disk) = mem_count"
  "d_has_table (mem_driver disk) m t = (t \<in> set (m_tables m))"
  "d_close (mem_driver disk) m = None"
  by (simp_all add: mem_driver_def)

text \<open>The laws of the engine, collected for the interpretation.\<close>

lemma mem_exec_laws:
  "mem_exec s d = (e, d') \<Longrightarrow> m_base d' = m_base d"
  "mem_exec s d = (Some m, d') \<Longrightarrow> m_rows d' = m_rows d"
  "mem_up d \<Longrightarrow> mem_exec s d = (e, d') \<Longrightarrow> mem_up d'"
  "mem_exec (SqlInsert r) d = (None, d') \<Longrightarrow> c_uuid r \<in> c_uuid ` set (m_rows d) \<Longrightarrow> False"
  "mem_up d \<Longrightarrow> fst (mem_exec (SqlUpdate as cs []) d) = None"
  "mem_up d \<Longrightarrow> fst (mem_exec (SqlDelete cs []) d) = None"
  "opt \<noteq> [] \<Longrightarrow> fst (mem_exec (SqlUpdate as cs opt) d) = Some limit_message"
  "opt \<noteq> [] \<Longrightarrow> fst (mem_exec (SqlDelete cs opt) d) = Some limit_message"
  by (auto dest: mem_exec_frame mem_exec_fails mem_exec_insert)
    (simp_all add: mem_exec_def)

lemmas mem_laws = mem_exec_laws mem_exec_insert mem_exec_insert_up mem_exec_update mem_exec_delete

lemma mem_up_driver [simp]:
  "mem_up (m\<lparr>m_base := b\<rparr>) = mem_up m" "mem_up (m\<lparr>m_rows := r\<rparr>) = mem_up m"
  by (simp_all add: mem_up_def)

lemma mem_ord_mset [simp]: "mset (mem_ord o' rs) = mset rs"
  by (simp add: mem_ord_def)

interpretation mem: sql_store_no_limit "mem_driver disk" m_rows m_base mem_up mem_ord
  by unfold_locales
    (auto simp del: mem_query.simps dest: mem_laws mem_query_rows intro: mem_laws
      intro!: mem_query.simps [THEN trans] split: if_splits)

text \<open>
  What the migration promises: afterwards the table exists, its rows are the same and the
  engine answers.
\<close>

locale migrating_store = sql_store +
  assumes migrate_table: "d_has_table drv (d_auto_migrate drv d) ''rsvps''"
    and migrate_rows: "rows (d_auto_migrate drv d) = rows d"
    and migrate_up: "up (d_auto_migrate drv d)"

interpretation mem_migrating: migrating_store "mem_driver disk" m_rows m_base mem_up mem_ord
  apply unfold_locales
  apply (simp_all add: mem_driver_def mem_up_def)
  done

end
