(* ===== verification/Models.thy ===== *)
theory Models
  imports Gorm_Store "HOL-Library.Signed_Division"
begin

text \<open>
  The package \<open>models\<close>: the parameter checks, the five operations on the table \<open>rsvps\<close>, the
  schema migration and the flush. Every operation takes the handle's state and, where it writes,
  returns the new one. An operation that returns a pointer and an error is a pair of options,
  because the code returns both when the statement fails.
\<close>

section \<open>Errors\<close>

datatype models_error =
    InvalidField string string
  | BadUUID string uuid_error
  | CannotFind string
  | BothFilters
  | GormErrors "gorm_error list"
  | ConnectionError string
  | MissingTable Rsvp
  | FlushErrors "gorm_error list"

text \<open>
  The texts. \<open>q\<close> is the quoting of the verb \<open>%q\<close> and \<open>se\<close> the text \<open>database/sql\<close> wraps around
  an error of a scanner; several errors of one scope are joined the way \<open>gorm.Errors\<close> does.
\<close>

definition uuid_error_msg :: "(string \<Rightarrow> string) \<Rightarrow> uuid_error \<Rightarrow> string" where
  "uuid_error_msg q e =
     (case e of
        InvalidLength n \<Rightarrow> ''invalid UUID length: '' @ nat_dec n
      | InvalidUrnPrefix p \<Rightarrow> ''invalid urn prefix: '' @ q p
      | InvalidFormat \<Rightarrow> ''invalid UUID format'')"

definition gorm_error_msg :: "(uuid_error \<Rightarrow> string) \<Rightarrow> gorm_error \<Rightarrow> string" where
  "gorm_error_msg se e =
     (case e of ErrRecordNotFound \<Rightarrow> ''record not found'' | DbError m \<Rightarrow> m | ScanError u \<Rightarrow> se u)"

text \<open>How \<open>%v\<close> prints the only model, the zero \<open>Rsvp\<close>.\<close>

definition zero_Rsvp_text :: string where
  "zero_Rsvp_text =
     ''&{'' @ UUID_String zero_UUID @ ''   false  false  false '' @
     ''0001-01-01 00:00:00 +0000 UTC 0001-01-01 00:00:00 +0000 UTC <nil>}''"

definition newline :: string where
  "newline = [CHR 0x0A]"

definition models_error_msg ::
  "(string \<Rightarrow> string) \<Rightarrow> (uuid_error \<Rightarrow> string) \<Rightarrow> models_error \<Rightarrow> string" where
  "models_error_msg q se e =
     (case e of
        InvalidField f m \<Rightarrow> ''invalid field '' @ f @ '': '' @ m
      | BadUUID s u \<Rightarrow> s @ '' bad UUID '' @ uuid_error_msg q u
      | CannotFind s \<Rightarrow> ''cannot find rsvp UUID '' @ s
      | BothFilters \<Rightarrow> ''excludeSoftDeleted and softDeletedOnly are true''
      | GormErrors es \<Rightarrow> Join (map (gorm_error_msg se) es) ''; ''
      | ConnectionError m \<Rightarrow> ''Sqlite database connection error: '' @ m
      | MissingTable t \<Rightarrow>
          ''Schema migration error: the '' @ zero_Rsvp_text @ '' table does not exist''
      | FlushErrors es \<Rightarrow>
          ''some errors occured :'' @ newline @ ''  '' @
          Join (map (gorm_error_msg se) es) (newline @ ''  ''))"

definition gorm_Error :: "gorm_error list \<Rightarrow> models_error option" where
  "gorm_Error es = (if es = [] then None else Some (GormErrors es))"

section \<open>The parameters\<close>

type_synonym rsvp_params = "string \<times> string \<times> bool \<times> string \<times> bool \<times> string \<times> bool"

definition castRsvpParams ::
  "string \<Rightarrow> string \<Rightarrow> bool \<Rightarrow> string \<Rightarrow> bool \<Rightarrow> string \<Rightarrow> bool \<Rightarrow> models_error + rsvp_params" where
  "castRsvpParams names email presence childrenNameAge housing music brunch =
     (if length names < 3 then Inl (InvalidField ''Names'' (gt2_msg names))
      else if length names > 255 then Inl (InvalidField ''Names'' (lt256_msg names))
      else if length childrenNameAge > 255 then
        Inl (InvalidField ''ChildrenNameAge'' (lt256_msg childrenNameAge))
      else if length music > 255 then Inl (InvalidField ''Music'' (lt256_msg music))
      else Inr (names, email, presence, childrenNameAge, housing, music, brunch))"

section \<open>Create and find\<close>

text \<open>The outer option is \<open>None\<close> when \<open>uuid.New\<close> panics.\<close>

definition CreateRsvp ::
  "'db driver \<Rightarrow> gtime \<Rightarrow> byte list option \<Rightarrow> string \<Rightarrow> string \<Rightarrow> bool \<Rightarrow> string \<Rightarrow> bool \<Rightarrow> string \<Rightarrow>
   bool \<Rightarrow> 'db \<Rightarrow> (Rsvp option \<times> models_error option \<times> 'db) option" where
  "CreateRsvp drv now rnd names email presence childrenNameAge housing music brunch d =
     (case castRsvpParams names email presence childrenNameAge housing music brunch of
        Inl e \<Rightarrow> Some (None, Some e, d)
      | Inr (cn, ce, cp, cc, ch, cm, cb) \<Rightarrow>
          (case gorm_Create drv now rnd
              (zero_Rsvp\<lparr>r_Names := cn, r_Email := ce, r_Presence := cp, r_ChildrenNameAge := cc,
                 r_Housing := ch, r_Music := cm, r_Brunch := cb\<rparr>) d of
             None \<Rightarrow> None
           | Some sc \<Rightarrow> Some (Some (sc_val sc), gorm_Error (sc_errs sc), sc_db sc)))"

definition FindRsvpByUUID :: "'db driver \<Rightarrow> string \<Rightarrow> 'db \<Rightarrow> models_error + Rsvp" where
  "FindRsvpByUUID drv sUuid d =
     (case Parse sUuid of
        Inl e \<Rightarrow> Inl (BadUUID sUuid e)
      | Inr u \<Rightarrow>
          (case gorm_First drv True (zero_Rsvp\<lparr>r_UUID := u\<rparr>) d of
             (errs, rsvp) \<Rightarrow> if RecordNotFound errs then Inl (CannotFind sUuid) else Inr rsvp))"

section \<open>List\<close>

text \<open>
  The clauses LIMIT and OFFSET are written only when the value, printed and read back as a
  signed 64-bit integer, is in range and not negative.
\<close>

definition limit_clause :: "64 word \<Rightarrow> nat option" where
  "limit_clause n = (if unat n < 2 ^ 63 then Some (unat n) else None)"

definition list_conds :: "(string \<times> sqlval) list \<Rightarrow> bool \<Rightarrow> bool \<Rightarrow> cond list" where
  "list_conds criteria excludeSoftDeleted softDeletedOnly =
     map (\<lambda>(k, v). ColumnIs k v) criteria @
     (if excludeSoftDeleted then [DeletedIsNull]
      else if softDeletedOnly then [DeletedIsNotNull] else [])"

definition ListRsvps ::
  "'db driver \<Rightarrow> 64 word \<Rightarrow> 64 word \<Rightarrow> string \<Rightarrow> (string \<times> sqlval) list \<Rightarrow> bool \<Rightarrow> bool \<Rightarrow> 'db \<Rightarrow>
   Rsvp list \<times> 64 word \<times> bool \<times> models_error option" where
  "ListRsvps drv offset limit order criteria excludeSoftDeleted softDeletedOnly d =
     (if excludeSoftDeleted \<and> softDeletedOnly then ([], 0, False, Some BothFilters)
      else
        (let cs = list_conds criteria excludeSoftDeleted softDeletedOnly;
             found = (case d_query drv (SqlSelect cs order (limit_clause limit) (limit_clause offset)) d of
                        Inl m \<Rightarrow> ([DbError m], [])
                      | Inr rs \<Rightarrow> scan_all rs);
             rsvps = snd found;
             resultSetSize = (case d_count drv (SqlCount cs (limit_clause limit)) d of
                                Inl m \<Rightarrow> 0
                              | Inr n \<Rightarrow> (word_of_nat n :: 64 word));
             hasMore = (sint (offset + word_of_nat (length rsvps)) < sint resultSetSize)
         in (rsvps, resultSetSize, hasMore, gorm_Error (fst found))))"

section \<open>Update\<close>

text \<open>The map of changes holds the pointers that \<open>castRsvpParams\<close> returned.\<close>

definition update_changes :: "rsvp_params \<Rightarrow> (column \<times> goval) list" where
  "update_changes p =
     (case p of (cNames, cEmail, cPresence, cChildrenNameAge, cHousing, cMusic, cBrunch) \<Rightarrow>
        [(CNames, GStringPtr cNames), (CEmail, GStringPtr cEmail), (CPresence, GBoolPtr cPresence),
         (CChildrenNameAge, GStringPtr cChildrenNameAge), (CHousing, GBoolPtr cHousing),
         (CMusic, GStringPtr cMusic), (CBrunch, GBoolPtr cBrunch)])"

definition UpdateRsvp ::
  "'db driver \<Rightarrow> gtime \<Rightarrow> string \<Rightarrow> string \<Rightarrow> string \<Rightarrow> bool \<Rightarrow> string \<Rightarrow> bool \<Rightarrow> string \<Rightarrow>
   bool \<Rightarrow> 'db \<Rightarrow> Rsvp option \<times> models_error option \<times> 'db" where
  "UpdateRsvp drv now sUuid names email presence childrenNameAge housing music brunch d =
     (case Parse sUuid of
        Inl e \<Rightarrow> (None, Some (BadUUID sUuid e), d)
      | Inr u \<Rightarrow>
          (case castRsvpParams names email presence childrenNameAge housing music brunch of
             Inl e \<Rightarrow> (None, Some e, d)
           | Inr p \<Rightarrow>
               (case gorm_First drv True (zero_Rsvp\<lparr>r_UUID := u\<rparr>) d of
                  (errs, rsvp) \<Rightarrow>
                    if RecordNotFound errs then (None, Some (CannotFind sUuid), d)
                    else
                      (let sc = gorm_Updates drv now (update_changes p) rsvp d
                       in (Some (sc_val sc), gorm_Error (sc_errs sc), sc_db sc)))))"

section \<open>Delete\<close>

definition DeleteRsvpLogically ::
  "'db driver \<Rightarrow> gtime \<Rightarrow> string \<Rightarrow> 'db \<Rightarrow> Rsvp option \<times> models_error option \<times> 'db" where
  "DeleteRsvpLogically drv now sUuid d =
     (case Parse sUuid of
        Inl e \<Rightarrow> (None, Some (BadUUID sUuid e), d)
      | Inr u \<Rightarrow>
          (case gorm_First drv False (zero_Rsvp\<lparr>r_UUID := u\<rparr>) d of
             (errs, rsvp) \<Rightarrow>
               if RecordNotFound errs then (None, Some (CannotFind sUuid), d)
               else
                 (let sc = gorm_Delete drv now ''LIMIT 1'' rsvp d;
                      rsvp2 = (if sc_errs sc = [] \<and> r_DeletedAt (sc_val sc) = None
                               then (sc_val sc)\<lparr>r_DeletedAt := Some now\<rparr> else sc_val sc)
                  in (Some rsvp2, gorm_Error (sc_errs sc), sc_db sc))))"

definition raw_exec :: "'db driver \<Rightarrow> sql \<Rightarrow> 'db \<Rightarrow> models_error option \<times> 'db" where
  "raw_exec drv s d =
     (case d_exec drv s d of
        (None, d') \<Rightarrow> (None, d')
      | (Some m, d') \<Rightarrow> (Some (GormErrors [DbError m]), d'))"

text \<open>The statement binds the text of the argument, not the parsed identifier.\<close>

definition DeleteRsvpPhysically ::
  "'db driver \<Rightarrow> string \<Rightarrow> 'db \<Rightarrow> models_error option \<times> 'db" where
  "DeleteRsvpPhysically drv sUuid d =
     (case Parse sUuid of
        Inl e \<Rightarrow> (Some (BadUUID sUuid e), d)
      | Inr _ \<Rightarrow> raw_exec drv (SqlDelete [UuidIs sUuid] ''LIMIT 1'') d)"

section \<open>Migration and flush\<close>

definition sqliteModels :: "Rsvp list" where
  "sqliteModels = [zero_Rsvp]"

text \<open>The table of a model: the plural of the snake-case name of its type.\<close>

definition TableName :: "Rsvp \<Rightarrow> string" where
  "TableName mdl = ''rsvps''"

definition MigrateSchema :: "'db driver \<Rightarrow> string \<Rightarrow> models_error option \<times> 'db option" where
  "MigrateSchema drv dsn =
     (case gorm_Open drv dsn of
        Inl e \<Rightarrow> (Some (ConnectionError e), None)
      | Inr d \<Rightarrow>
          (if sqliteModels \<noteq> [] then
             (let d1 = d_auto_migrate drv d
              in case find (\<lambda>mdl. \<not> d_has_table drv d1 (TableName mdl)) sqliteModels of
                   Some mdl \<Rightarrow> (Some (MissingTable mdl), Some d1)
                 | None \<Rightarrow> (None, Some d1))
           else (None, Some d)))"

fun flush_tables :: "'db driver \<Rightarrow> Rsvp list \<Rightarrow> 'db \<Rightarrow> gorm_error list \<times> 'db" where
  "flush_tables drv [] d = ([], d)"
| "flush_tables drv (t # ts) d =
     (case d_exec drv (SqlDelete [] []) d of
        (e, d1) \<Rightarrow>
          (case flush_tables drv ts d1 of
             (errs, d2) \<Rightarrow> ((case e of None \<Rightarrow> errs | Some m \<Rightarrow> DbError m # errs), d2)))"

definition Flush :: "'db driver \<Rightarrow> string \<Rightarrow> models_error option \<times> 'db option" where
  "Flush drv dsn =
     (case gorm_Open drv dsn of
        Inl e \<Rightarrow> (Some (ConnectionError e), None)
      | Inr d \<Rightarrow>
          (case flush_tables drv sqliteModels d of
             (errs, d1) \<Rightarrow> (if errs \<noteq> [] then (Some (FlushErrors errs), Some d1) else (None, Some d1))))"

section \<open>The logger\<close>

datatype log_level = LDebug | LInfo | LWarn | LError

text \<open>\<open>Print\<close> on a call with the parts \<open>v\<close> as texts: the entries it writes. Part 3 of an \<open>sql\<close>
  call and part 2 of a \<open>log\<close> call are read whatever their number; \<open>None\<close> is the panic when
  they are missing.\<close>

definition Logger_Print :: "string list \<Rightarrow> (log_level \<times> (string \<times> string) list \<times> string) list option" where
  "Logger_Print v =
     (if v = [] then None
      else if v ! 0 = ''sql'' then
        (if 3 < length v then
           Some [(LDebug, [(''module'', ''gorm''), (''type'', ''sql'')], v ! 3)] else None)
      else if v ! 0 = ''log'' then
        (if 2 < length v then
           Some [(LWarn, [(''module'', ''gorm''), (''type'', ''log'')], v ! 2)] else None)
      else Some [])"

end
