(* ===== verification/Models_Facts.thy ===== *)
theory Models_Facts
  imports Models
begin

text \<open>
  What the operations of \<open>models\<close> do to the table, over every SQL engine with the laws of
  \<open>sql_store\<close>: the invariant of the table, the effect of each operation on every branch, and the
  round trip from a row to the struct and back.
\<close>

section \<open>Well-formed tables\<close>

text \<open>
  The identifiers are different and are the printed forms of identifiers that are not all zero.
\<close>

definition canonical :: "string \<Rightarrow> bool" where
  "canonical s =
     (case Parse s of Inl _ \<Rightarrow> False | Inr u \<Rightarrow> u \<noteq> zero_UUID \<and> UUID_Value u = s)"

definition wf_table :: "rsvp_row list \<Rightarrow> bool" where
  "wf_table rs = (distinct (map c_uuid rs) \<and> list_all (\<lambda>r. canonical (c_uuid r)) rs)"

lemma wf_table_cong: "map c_uuid rs = map c_uuid rs' \<Longrightarrow> wf_table rs = wf_table rs'"
  unfolding wf_table_def
  using list.pred_map [of canonical c_uuid rs] list.pred_map [of canonical c_uuid rs']
  by (simp add: comp_def)

lemma canonical_Value: "length u = 16 \<Longrightarrow> u \<noteq> zero_UUID \<Longrightarrow> canonical (UUID_Value u)"
  by (simp add: canonical_def UUID_Value_def Parse_String)

lemma canonicalE:
  assumes "canonical s"
  obtains u where "Parse s = Inr u" "length u = 16" "u \<noteq> zero_UUID" "UUID_Value u = s" "s \<noteq> []"
  using assms Parse_length Parse_input_length by (fastforce simp: canonical_def split: sum.splits)

text \<open>A version-4 identifier is never all zero.\<close>

lemma UUID_New_nonzero:
  assumes "UUID_New (Some bs) = Some u" and "length bs = 16"
  shows "length u = 16" and "u \<noteq> zero_UUID"
proof -
  from assms have u: "u = bs[6 := (bs ! 6 AND 0x0f) OR 0x40, 8 := (bs ! 8 AND 0x3f) OR 0x80]"
    by (simp add: UUID_New_def NewRandom_def)
  then show "length u = 16" using assms(2) by simp
  have "bit (u ! 6) 6" using assms(2) by (simp add: u bit_simps)
  then show "u \<noteq> zero_UUID" by (auto simp: zero_UUID_def)
qed

section \<open>Rows and structs\<close>

definition from_row :: "rsvp_row \<Rightarrow> Rsvp" where
  "from_row r = snd (scan_row zero_Rsvp r)"

lemma scan_row_canonical:
  assumes "canonical (c_uuid r)"
  shows "\<exists>w. scan_row v r = ([], w) \<and> to_row w = r \<and> r_UUID w \<noteq> zero_UUID"
  using assms
  by (elim canonicalE) (auto simp: scan_row_def UUID_Scan_def to_row_def)

lemma scan_row_from_row: "canonical (c_uuid r) \<Longrightarrow> scan_row v r = ([], from_row r)"
  by (elim canonicalE) (auto simp: scan_row_def UUID_Scan_def from_row_def)

lemma to_row_from_row: "canonical (c_uuid r) \<Longrightarrow> to_row (from_row r) = r"
  using scan_row_canonical [of r zero_Rsvp] by (auto simp: from_row_def)

lemma scan_to_row: "length (r_UUID w) = 16 \<Longrightarrow> scan_row v (to_row w) = ([], w)"
  by (simp add: scan_row_def to_row_def Scan_Value)

lemma scan_all_canonical:
  "list_all (\<lambda>r. canonical (c_uuid r)) rs \<Longrightarrow> scan_all rs = ([], map from_row rs)"
  by (induction rs) (auto simp: scan_row_from_row)

section \<open>The checks\<close>

lemma castRsvpParams_Inr:
  "castRsvpParams n e p c h m b = Inr q \<longleftrightarrow>
     q = (n, e, p, c, h, m, b) \<and> length n \<in> {3..255} \<and> length c \<le> 255 \<and> length m \<le> 255"
  by (auto simp: castRsvpParams_def)

section \<open>The update writes back what it read\<close>

lemma updatedAttrs_pointers:
  "list_all (\<lambda>(c, x). \<exists>s b. x = GStringPtr s \<or> x = GBoolPtr b) cs \<Longrightarrow>
     updatedAttrsWithValues cs v = (map (\<lambda>(c, x). field_assign c v) cs, v)"
proof (induction cs)
  case (Cons p cs)
  obtain c x where p: "p = (c, x)" by (cases p)
  then have "Field_Set c x v = v" using Cons.prems by (cases c) auto
  with p Cons show ?case by simp
qed simp

lemma update_changes_pointers:
  "updatedAttrsWithValues (update_changes p) v =
     (map (\<lambda>c. field_assign c v)
        [CNames, CEmail, CPresence, CChildrenNameAge, CHousing, CMusic, CBrunch], v)"
  by (cases p) (auto simp: update_changes_def)

lemma write_back:
  "apply_assigns (map (\<lambda>c. field_assign c v)
       [CNames, CEmail, CPresence, CChildrenNameAge, CHousing, CMusic, CBrunch] @ [SetUpdatedAt t])
     (to_row v) = (to_row v)\<lparr>c_updated_at := t\<rparr>"
  by (simp add: apply_assigns_def to_row_def)

lemma sint_of_nat_small: "n < 2 ^ 63 \<Longrightarrow> sint (word_of_nat n :: 64 word) = int n"
  by (simp add: sint_uint uint_nat unat_of_nat take_bit_nat_eq_self signed_take_bit_int_eq_self)

section \<open>The operations over an engine\<close>

context sql_store
begin

lemma create_success:
  assumes "up d" and "gorm_Create drv now rnd v d = Some sc" and "sc_errs sc = []"
  shows "\<exists>u. UUID_New rnd = Some u \<and> sc_val sc = stamped now (v\<lparr>r_UUID := u\<rparr>) \<and> up (sc_db sc) \<and>
    UUID_Value u \<notin> c_uuid ` set (rows d) \<and> rows (sc_db sc) = rows d @ [to_row (sc_val sc)]"
proof -
  obtain u where u: "UUID_New rnd = Some u"
    and sc: "sc = transact drv (SqlInsert (to_row (stamped now (v\<lparr>r_UUID := u\<rparr>))))
      (stamped now (v\<lparr>r_UUID := u\<rparr>)) d"
    using create_shape [OF assms(2)] by blast
  let ?w = "stamped now (v\<lparr>r_UUID := u\<rparr>)"
  obtain d1 e d2 where h: "rows d1 = rows d" "d_exec drv (SqlInsert (to_row ?w)) d1 = (e, d2)"
    "e = None \<Longrightarrow> \<exists>d3. sc = \<lparr>sc_db = d3, sc_started = True, sc_errs = [], sc_val = ?w\<rparr>
      \<and> rows d3 = rows d2 \<and> up d3"
    "\<And>m. e = Some m \<Longrightarrow> \<exists>d3. sc = \<lparr>sc_db = d3, sc_started = True, sc_errs = [DbError m],
        sc_val = ?w\<rparr> \<and> rows d3 = rows d \<and> up d3"
    using transact_up [OF assms(1), of "SqlInsert (to_row ?w)" ?w] unfolding sc [symmetric] by metis
  with assms(3) have e: "e = None" by (cases e) auto
  from insert_rows [of "to_row ?w" d1 d2] h(1,2) e
  have "c_uuid (to_row ?w) \<notin> c_uuid ` set (rows d)" "rows d2 = rows d @ [to_row ?w]" by auto
  with h(3) [OF e] u show ?thesis by (auto simp: to_row_def)
qed

lemma create_wf:
  assumes "wf_table (rows d)" and "up d" and "length bs = 16"
    and "gorm_Create drv now (Some bs) v d = Some sc"
  shows "wf_table (rows (sc_db sc))"
proof (cases "sc_errs sc = []")
  case False
  with create_error [OF assms(2,4)] assms(1) show ?thesis by simp
next
  case True
  from create_success [OF assms(2,4) True] obtain u where u: "UUID_New (Some bs) = Some u"
    "sc_val sc = stamped now (v\<lparr>r_UUID := u\<rparr>)" "UUID_Value u \<notin> c_uuid ` set (rows d)"
    "rows (sc_db sc) = rows d @ [to_row (sc_val sc)]" by blast
  then have "canonical (c_uuid (to_row (sc_val sc)))"
    using UUID_New_nonzero [OF u(1) assms(3)] by (simp add: to_row_def canonical_Value)
  moreover have "c_uuid (to_row (sc_val sc)) \<notin> c_uuid ` set (rows d)"
    using u by (simp add: to_row_def)
  ultimately show ?thesis using u(4) assms(1) by (auto simp: wf_table_def)
qed

lemma CreateRsvp_wf:
  assumes "wf_table (rows d)" and "up d" and "length bs = 16"
    and "CreateRsvp drv now (Some bs) n e p c h m b d = Some (ro, err, d')"
  shows "wf_table (rows d')"
  using assms(1,4) create_wf [OF assms(1-3)]
  by (auto simp: CreateRsvp_def split: sum.splits option.splits)

lemma CreateRsvp_success:
  assumes "wf_table (rows d)" and "up d" and "length bs = 16"
    and "CreateRsvp drv now (Some bs) n e p c h m b d = Some (Some w, None, d')"
  shows "up d'" and "rows d' = rows d @ [to_row w]" and "length (r_UUID w) = 16"
    and "r_UUID w \<noteq> zero_UUID"
proof -
  from assms(4) obtain v sc where sc: "gorm_Create drv now (Some bs) v d = Some sc"
    "sc_errs sc = []" "w = sc_val sc" "d' = sc_db sc"
    by (auto simp: CreateRsvp_def gorm_Error_def split: sum.splits option.splits if_splits)
  from create_success [OF assms(2) sc(1,2)] obtain u where
    u: "UUID_New (Some bs) = Some u" "r_UUID w = u" and "up d'" "rows d' = rows d @ [to_row w]"
    using sc(3,4) by auto
  then show "up d'" "rows d' = rows d @ [to_row w]" "length (r_UUID w) = 16" "r_UUID w \<noteq> zero_UUID"
    using UUID_New_nonzero [OF u(1) assms(3)] by simp_all
qed

lemma First_found:
  assumes "up d" and "wf_table (rows d)" and "u \<noteq> zero_UUID" and "r_UUID v = u"
    and "r \<in> set (rows d)" and "c_uuid r = UUID_Value u"
  shows "gorm_First drv True v d = ([], from_row r)"
proof -
  have c: "conds_hold (whereSQL True v) x \<longleftrightarrow> c_uuid x = UUID_Value u" for x
    using assms(3,4) by (simp add: whereSQL_def conds_hold_def)
  have "filter (conds_hold (whereSQL True v)) (rows d) \<noteq> []"
    using assms(5,6) by (auto simp: c filter_empty_conv)
  then obtain x where "x \<in> set (rows d)" "c_uuid x = UUID_Value u"
    "gorm_First drv True v d = scan_row v x"
    using First_cases [OF assms(1), of True v] by (auto simp: c)
  moreover from this assms(2,5,6) have "x = r"
    by (auto simp: wf_table_def distinct_map inj_on_def)
  ultimately show ?thesis using assms(2,5) by (auto simp: wf_table_def list_all_iff scan_row_from_row)
qed

lemma First_absent:
  assumes "up d" and "r_UUID v \<noteq> zero_UUID" and "UUID_Value (r_UUID v) \<notin> c_uuid ` set (rows d)"
  shows "gorm_First drv unscoped v d = ([ErrRecordNotFound], v)"
proof -
  have "\<not> conds_hold (whereSQL unscoped v) r" if "r \<in> set (rows d)" for r
    using assms(2,3) that by (auto simp: whereSQL_def conds_hold_def image_iff)
  then show ?thesis using First_cases [OF assms(1), of unscoped v] by auto
qed

text \<open>What a look-up can return on a well-formed table: nothing, or one of its rows.\<close>

lemma First_wf:
  assumes "up d" and "wf_table (rows d)"
  shows "gorm_First drv unscoped v d = ([ErrRecordNotFound], v) \<or>
    (\<exists>r \<in> set (rows d). gorm_First drv unscoped v d = ([], from_row r))"
  using First_cases [OF assms(1), of unscoped v] assms(2)
  by (auto simp: wf_table_def list_all_iff scan_row_from_row)

text \<open>An update through the pointers stamps the time and nothing else.\<close>

lemma updates_stamp_only:
  assumes "up d" and "wf_table (rows d)" and "r \<in> set (rows d)"
  shows "sc_errs (gorm_Updates drv now (update_changes p) (from_row r) d) = []"
    and "sc_val (gorm_Updates drv now (update_changes p) (from_row r) d) =
      (from_row r)\<lparr>r_UpdatedAt := now\<rparr>"
    and "rows (sc_db (gorm_Updates drv now (update_changes p) (from_row r) d)) =
      map (\<lambda>x. if x = r \<and> c_deleted_at r = None then x\<lparr>c_updated_at := now\<rparr> else x) (rows d)"
proof -
  let ?v = "from_row r" and ?G = "gorm_Updates drv now (update_changes p) (from_row r) d"
  let ?as = "map (\<lambda>c. field_assign c ?v)
        [CNames, CEmail, CPresence, CChildrenNameAge, CHousing, CMusic, CBrunch]"
  have r: "canonical (c_uuid r)" using assms(2,3) by (auto simp: wf_table_def list_all_iff)
  have z: "to_row ?v = r" using r by (rule to_row_from_row)
  have nz: "r_UUID ?v \<noteq> zero_UUID"
    using scan_row_canonical [OF r, of zero_Rsvp] by (auto simp: from_row_def)
  have key: "UUID_Value (r_UUID ?v) = c_uuid r" using z by (metis rsvp_row.select_convs(1) to_row_def)
  note g = updates_rows [OF assms(1) update_changes_pointers [of p ?v], of now]
  from g show "sc_errs ?G = []" "sc_val ?G = ?v\<lparr>r_UpdatedAt := now\<rparr>" by simp_all
  have cond: "conds_hold (whereSQL False (?v\<lparr>r_UpdatedAt := now\<rparr>)) x \<longleftrightarrow>
      c_deleted_at x = None \<and> c_uuid x = c_uuid r" for x
    using nz by (simp add: whereSQL_def conds_hold_def key)
  have one: "x \<in> set (rows d) \<Longrightarrow> c_uuid x = c_uuid r \<longleftrightarrow> x = r" for x
    using assms(2,3) by (auto simp: wf_table_def distinct_map inj_on_def)
  have "rows (sc_db ?G) = update_rows (?as @ [SetUpdatedAt now])
      (whereSQL False (?v\<lparr>r_UpdatedAt := now\<rparr>)) (rows d)"
    using g by blast
  also have "\<dots> = map (\<lambda>x. if x = r \<and> c_deleted_at r = None then x\<lparr>c_updated_at := now\<rparr> else x) (rows d)"
    unfolding update_rows_def
  proof (rule map_cong [OF refl])
    fix x assume "x \<in> set (rows d)"
    with one [of x] cond [of x] write_back [of ?v now]
    show "(if conds_hold (whereSQL False (?v\<lparr>r_UpdatedAt := now\<rparr>)) x
        then apply_assigns (?as @ [SetUpdatedAt now]) x else x) =
      (if x = r \<and> c_deleted_at r = None then x\<lparr>c_updated_at := now\<rparr> else x)"
      unfolding z by auto
  qed
  finally show "rows (sc_db ?G) = map
      (\<lambda>x. if x = r \<and> c_deleted_at r = None then x\<lparr>c_updated_at := now\<rparr> else x) (rows d)" .
qed

lemma UpdateRsvp_cases:
  assumes "up d" and "wf_table (rows d)"
    and "UpdateRsvp drv now s n e p c h m b d = (ro, err, d')"
  shows "(err \<noteq> None \<and> ro = None \<and> d' = d) \<or>
    (\<exists>r \<in> set (rows d). err = None \<and> ro = Some ((from_row r)\<lparr>r_UpdatedAt := now\<rparr>) \<and>
      rows d' = map (\<lambda>x. if x = r \<and> c_deleted_at r = None then x\<lparr>c_updated_at := now\<rparr> else x) (rows d))"
proof (cases "Parse s")
  case (Inl x)
  with assms(3) show ?thesis by (auto simp: UpdateRsvp_def)
next
  case u: (Inr u)
  show ?thesis
  proof (cases "castRsvpParams n e p c h m b")
    case (Inl x)
    with u assms(3) show ?thesis by (auto simp: UpdateRsvp_def)
  next
    case (Inr q)
    from First_wf [OF assms(1,2), of True "zero_Rsvp\<lparr>r_UUID := u\<rparr>"]
    consider "gorm_First drv True (zero_Rsvp\<lparr>r_UUID := u\<rparr>) d = ([ErrRecordNotFound], zero_Rsvp\<lparr>r_UUID := u\<rparr>)"
      | r where "r \<in> set (rows d)" "gorm_First drv True (zero_Rsvp\<lparr>r_UUID := u\<rparr>) d = ([], from_row r)"
      by blast
    then show ?thesis
    proof cases
      case 1
      with u Inr assms(3) show ?thesis by (auto simp: UpdateRsvp_def RecordNotFound_def)
    next
      case 2
      note up = updates_stamp_only [OF assms(1,2) 2(1), of now q]
      from 2 u Inr assms(3) up(1,2) have "ro = Some ((from_row r)\<lparr>r_UpdatedAt := now\<rparr>)" "err = None"
        "d' = sc_db (gorm_Updates drv now (update_changes q) (from_row r) d)"
        by (auto simp: UpdateRsvp_def RecordNotFound_def Let_def gorm_Error_def)
      with up(3) 2(1) show ?thesis by blast
    qed
  qed
qed

lemma FindRsvpByUUID_row:
  assumes "up d" and "wf_table (rows d)" and "Parse s = Inr u" and "u \<noteq> zero_UUID"
    and "r \<in> set (rows d)" and "c_uuid r = UUID_Value u"
  shows "FindRsvpByUUID drv s d = Inr (from_row r)"
  using First_found [OF assms(1,2,4) _ assms(5,6), of "zero_Rsvp\<lparr>r_UUID := u\<rparr>"] assms(3)
  by (simp add: FindRsvpByUUID_def RecordNotFound_def)

lemma CreateRsvp_Find:
  assumes "wf_table (rows d)" and "up d" and "length bs = 16"
    and "CreateRsvp drv now (Some bs) n e p c h m b d = Some (Some w, None, d')"
    and "Parse s = Inr (r_UUID w)"
  shows "FindRsvpByUUID drv s d' = Inr w"
proof -
  note c = CreateRsvp_success [OF assms(1-4)]
  have "FindRsvpByUUID drv s d' = Inr (from_row (to_row w))"
    using c by (intro FindRsvpByUUID_row [OF c(1) CreateRsvp_wf [OF assms(1-4)] assms(5) c(4)])
      (simp_all add: to_row_def)
  then show ?thesis using scan_to_row [OF c(3), of zero_Rsvp] by (simp add: from_row_def)
qed

lemma CreateRsvp_valid:
  assumes "up d" and "UUID_New rnd = Some u" and "UUID_Value u \<notin> c_uuid ` set (rows d)"
    and "length n \<in> {3..255}" and "length c \<le> 255" and "length m \<le> 255"
  shows "\<exists>w d'. CreateRsvp drv now rnd n e p c h m b d = Some (Some w, None, d') \<and>
    rows d' = rows d @ [to_row w] \<and>
    w = \<lparr>r_UUID = u, r_Names = n, r_Email = e, r_Presence = p, r_ChildrenNameAge = c,
      r_Housing = h, r_Music = m, r_Brunch = b, r_CreatedAt = now, r_UpdatedAt = now,
      r_DeletedAt = None\<rparr>"
proof -
  let ?v = "zero_Rsvp\<lparr>r_Names := n, r_Email := e, r_Presence := p, r_ChildrenNameAge := c,
    r_Housing := h, r_Music := m, r_Brunch := b\<rparr>"
  from create_fresh [OF assms(1-3), of now ?v] obtain sc where
    "gorm_Create drv now rnd ?v d = Some sc" "sc_errs sc = []"
    "sc_val sc = stamped now (?v\<lparr>r_UUID := u\<rparr>)"
    "rows (sc_db sc) = rows d @ [to_row (stamped now (?v\<lparr>r_UUID := u\<rparr>))]"
    by blast
  moreover have "castRsvpParams n e p c h m b = Inr (n, e, p, c, h, m, b)"
    using assms(4-6) by (simp add: castRsvpParams_Inr)
  ultimately show ?thesis
    by (simp add: CreateRsvp_def gorm_Error_def stamped_def zero_Rsvp_def Let_def)
qed

lemma UpdateRsvp_wf:
  assumes "up d" and "wf_table (rows d)"
    and "UpdateRsvp drv now s n e p c h m b d = (ro, err, d')"
  shows "wf_table (rows d')"
proof -
  have "map c_uuid (map (\<lambda>x. if x = r \<and> Q then x\<lparr>c_updated_at := now\<rparr> else x) rs) = map c_uuid rs"
    for r rs Q by (induction rs) auto
  then have "wf_table (map (\<lambda>x. if x = r \<and> Q then x\<lparr>c_updated_at := now\<rparr> else x) rs) = wf_table rs"
    for r rs Q by (rule wf_table_cong)
  then show ?thesis using UpdateRsvp_cases [OF assms] assms(2) by (elim disjE bexE) simp_all
qed

lemma UpdateRsvp_found:
  assumes "up d" and "wf_table (rows d)" and "Parse s = Inr u" and "u \<noteq> zero_UUID"
    and "r \<in> set (rows d)" and "c_uuid r = UUID_Value u"
    and "length n \<in> {3..255}" and "length c \<le> 255" and "length m \<le> 255"
  shows "fst (snd (UpdateRsvp drv now s n e p c h m b d)) = None"
proof -
  have "castRsvpParams n e p c h m b = Inr (n, e, p, c, h, m, b)"
    using assms(7-9) by (simp add: castRsvpParams_Inr)
  with First_found [OF assms(1,2,4) _ assms(5,6), of "zero_Rsvp\<lparr>r_UUID := u\<rparr>"] assms(3)
    updates_stamp_only(1) [OF assms(1,2,5)]
  show ?thesis by (simp add: UpdateRsvp_def RecordNotFound_def Let_def gorm_Error_def)
qed

text \<open>A page of a listing, and the total.\<close>

definition page_of :: "64 word \<Rightarrow> 64 word \<Rightarrow> string \<Rightarrow> cond list \<Rightarrow> 'db \<Rightarrow> rsvp_row list" where
  "page_of offset limit order cs d =
     take (unat limit) (drop (unat offset) (ord order (filter (conds_hold cs) (rows d))))"

lemma ListRsvps_page:
  assumes "up d" and "wf_table (rows d)" and "list_all typed_cond (list_conds criteria ex only)"
    and "order \<in> {[], by_primary_key}" and "\<not> (ex \<and> only)"
    and "0 < unat limit" and "unat limit < 2 ^ 63" and "unat offset < 2 ^ 63"
  shows "ListRsvps drv offset limit order criteria ex only d =
    (let cs = list_conds criteria ex only; page = page_of offset limit order cs d;
         total = word_of_nat (length (filter (conds_hold cs) (rows d))) :: 64 word
     in (map from_row page, total,
         sint (offset + word_of_nat (length page)) < sint total, None))"
proof -
  let ?cs = "list_conds criteria ex only"
  have l: "limit_clause limit = Some (unat limit)" "limit_clause offset = Some (unat offset)"
    using assms(7,8) by (simp_all add: limit_clause_def)
  obtain rs where q: "d_query drv (SqlSelect ?cs order (Some (unat limit)) (Some (unat offset))) d = Inr rs"
    using query_up [OF assms(1,3,4), of "Some (unat limit)" "Some (unat offset)"] by auto
  then have rs: "rs = page_of offset limit order ?cs d"
    using query_rows [OF assms(3) q] by (simp add: window_def page_of_def)
  obtain k where k: "d_count drv (SqlCount ?cs (Some (unat limit))) d = Inr k"
    using count_up [OF assms(1,3), of "Some (unat limit)"] assms(6) by auto
  then have kk: "k = length (filter (conds_hold ?cs) (rows d))"
    using count_rows [OF assms(3) _ k] assms(6) by simp
  have "set rs \<subseteq> set (rows d)"
  proof -
    have "set (ord order (filter (conds_hold ?cs) (rows d))) = set (filter (conds_hold ?cs) (rows d))"
      by (metis ord_mset set_mset_mset)
    then show ?thesis unfolding rs page_of_def by (auto dest!: in_set_takeD in_set_dropD)
  qed
  then have "list_all (\<lambda>r. canonical (c_uuid r)) rs"
    using assms(2) by (auto simp: wf_table_def list_all_iff)
  from scan_all_canonical [OF this] show ?thesis
    using assms(5) by (simp add: ListRsvps_def l q k Let_def rs [symmetric] kk gorm_Error_def)
qed

lemma page_of_length:
  "length (page_of offset limit order cs d) =
     min (unat limit) (length (filter (conds_hold cs) (rows d)) - unat offset)"
proof -
  have "length (ord order xs) = length xs" for xs by (metis ord_mset size_mset)
  then show ?thesis by (simp add: page_of_def min.commute)
qed

end

context sql_store_no_limit
begin

lemma DeleteRsvpLogically_unchanged:
  assumes "up d"
  shows "\<exists>ro e d'. DeleteRsvpLogically drv now s d = (ro, Some e, d') \<and> rows d' = rows d"
proof -
  have "sc_errs (gorm_Delete drv now ''LIMIT 1'' v d) = [DbError limit_message] \<and>
      rows (sc_db (gorm_Delete drv now ''LIMIT 1'' v d)) = rows d" for v
    by (rule delete_with_option_fails [OF assms]) simp
  then show ?thesis
    by (auto simp: DeleteRsvpLogically_def gorm_Error_def Let_def split: sum.split prod.split)
qed

lemma DeleteRsvpPhysically_unchanged:
  "\<exists>e d'. DeleteRsvpPhysically drv s d = (Some e, d') \<and> rows d' = rows d"
proof -
  obtain e d' where x: "d_exec drv (SqlDelete [UuidIs s] ''LIMIT 1'') d = (e, d')"
    by (cases "d_exec drv (SqlDelete [UuidIs s] ''LIMIT 1'') d")
  from delete_limit [of "''LIMIT 1''" "[UuidIs s]" d] x have e: "e = Some limit_message" by simp
  with x exec_fails have "rows d' = rows d" by blast
  with x e show ?thesis by (simp add: DeleteRsvpPhysically_def raw_exec_def split: sum.split)
qed

end

end
