(* ===== verification/Go_Time.thy ===== *)
theory Go_Time
  imports Gorm
begin

text \<open>
  The time arithmetic of the Go library that the service uses: the civil date of a number of
  days, and the format \<open>time.RFC3339\<close> of a time in UTC. A time is a number of nanoseconds since
  1970; days are counted from the first of January of year 1.
\<close>

section \<open>The civil date\<close>

text \<open>Whole cycles of 400, 100, 4 and 1 years are cut off; the last cycle of its kind is one day longer.\<close>

definition year_yday :: "int \<Rightarrow> int \<times> int" where
  "year_yday D =
     (let n400 = D div 146097; d1 = D mod 146097;
          q100 = d1 div 36524; n100 = q100 - q100 div 4; d2 = d1 - 36524 * n100;
          n4 = d2 div 1461; d3 = d2 - 1461 * n4;
          q1 = d3 div 365; n1 = q1 - q1 div 4
      in (400 * n400 + 100 * n100 + 4 * n4 + n1 + 1, d3 - 365 * n1))"

definition isLeap :: "int \<Rightarrow> bool" where
  "isLeap y = (y mod 4 = 0 \<and> (y mod 100 \<noteq> 0 \<or> y mod 400 = 0))"

definition daysBefore :: "int list" where
  "daysBefore = [0, 31, 59, 90, 120, 151, 181, 212, 243, 273, 304, 334, 365]"

definition month_day :: "int \<Rightarrow> int \<Rightarrow> int \<times> int" where
  "month_day year yday =
     (if isLeap year \<and> yday = 59 then (2, 29)
      else
        (let day = (if isLeap year \<and> yday > 59 then yday - 1 else yday);
             m = nat (day div 31);
             end = daysBefore ! (m + 1)
         in if day \<ge> end then (int m + 2, day - end + 1) else (int m + 1, day - daysBefore ! m + 1)))"

definition days_before_year :: "int \<Rightarrow> int" where
  "days_before_year y = 365 * (y - 1) + (y - 1) div 4 - (y - 1) div 100 + (y - 1) div 400"

lemma div_pos_int:
  fixes n q r m :: int
  assumes "n = m * q + r" "0 \<le> r" "r < m"
  shows "n div m = q"
  using assms by (simp add: div_pos_pos_trivial)

lemma mod_pos_int:
  fixes n q r m :: int
  assumes "n = m * q + r" "0 \<le> r" "r < m"
  shows "n mod m = r"
  using assms by (simp add: mod_pos_pos_trivial)

lemma zdiv_less: "0 < m \<Longrightarrow> n < m * k \<Longrightarrow> n div m < (k :: int)"
  using div_mult_mod_eq [of n m] pos_mod_sign [of m n]
  by (metis add_increasing2 linorder_not_le mult.commute mult_le_cancel_left_pos order_less_le_trans)

lemma cycles:
  fixes a b c e :: int
  assumes "0 \<le> b" "b \<le> 3" "0 \<le> c" "c \<le> 24" "0 \<le> e" "e \<le> 3"
  shows "days_before_year (400 * a + 100 * b + 4 * c + e + 1) = 146097 * a + 36524 * b + 1461 * c + 365 * e"
proof -
  let ?y = "400 * a + 100 * b + 4 * c + e"
  have "?y div 4 = 100 * a + 25 * b + c"
    by (rule div_pos_int [where r = e]) (use assms in simp_all)
  moreover have "?y div 100 = 4 * a + b"
    by (rule div_pos_int [where r = "4 * c + e"]) (use assms in simp_all)
  moreover have "?y div 400 = a"
    by (rule div_pos_int [where r = "100 * b + 4 * c + e"]) (use assms in simp_all)
  ultimately show ?thesis by (simp add: days_before_year_def)
qed

lemma year_yday_cases:
  obtains a b c e r where "0 \<le> b" "b \<le> 3" "0 \<le> c" "c \<le> 24" "0 \<le> e" "e \<le> 3" "0 \<le> r"
    "r \<le> 364 \<or> r = 365 \<and> e = 3 \<and> (c = 24 \<longrightarrow> b = 3)"
    "D = 146097 * a + 36524 * b + 1461 * c + 365 * e + r"
    "year_yday D = (400 * a + 100 * b + 4 * c + e + 1, r)"
proof -
  define a d1 where "a = D div 146097" and "d1 = D mod 146097"
  define q where "q = d1 div 36524"
  define b where "b = q - q div 4"
  define d2 where "d2 = d1 - 36524 * b"
  define c where "c = d2 div 1461"
  define d3 where "d3 = d2 - 1461 * c"
  define p where "p = d3 div 365"
  define e where "e = p - p div 4"
  have D: "D = 146097 * a + d1" by (simp add: a_def d1_def)
  have d1: "0 \<le> d1" "d1 < 146097" by (simp_all add: d1_def)
  have q: "36524 * q \<le> d1" "d1 < 36524 * q + 36524"
    using div_mult_mod_eq [of d1 36524] pos_mod_bound [of 36524 d1] pos_mod_sign [of 36524 d1]
    by (simp_all add: q_def)
  with d1 have "q = 0 \<or> q = 1 \<or> q = 2 \<or> q = 3 \<or> q = 4" by linarith
  then have b: "0 \<le> b \<and> b \<le> 3 \<and> 0 \<le> d2 \<and> (d2 < 36524 \<or> d2 = 36524 \<and> b = 3)"
    using q d1 by (elim disjE) (simp_all add: b_def d2_def)
  have c1: "1461 * c \<le> d2" "d2 < 1461 * c + 1461"
    using div_mult_mod_eq [of d2 1461] pos_mod_bound [of 1461 d2] pos_mod_sign [of 1461 d2]
    by (simp_all add: c_def)
  with b have c: "0 \<le> c" "c \<le> 24" "0 \<le> d3" "d3 \<le> 1460" "1461 * c + d3 = d2"
    unfolding d3_def by linarith+
  have p: "365 * p \<le> d3" "d3 < 365 * p + 365"
    using div_mult_mod_eq [of d3 365] pos_mod_bound [of 365 d3] pos_mod_sign [of 365 d3]
    by (simp_all add: p_def)
  with c have "p = 0 \<or> p = 1 \<or> p = 2 \<or> p = 3 \<or> p = 4" by linarith
  then have e: "0 \<le> e" "e \<le> 3" "0 \<le> d3 - 365 * e" "d3 - 365 * e \<le> 364 \<or> d3 = 1460 \<and> e = 3"
    using p c(3,4) by (elim disjE; simp add: e_def)+
  show thesis
  proof (rule that [of b c e "d3 - 365 * e" a])
    show "d3 - 365 * e \<le> 364 \<or> d3 - 365 * e = 365 \<and> e = 3 \<and> (c = 24 \<longrightarrow> b = 3)"
      using e(4) b c(5) by auto
    show "D = 146097 * a + 36524 * b + 1461 * c + 365 * e + (d3 - 365 * e)"
      using D d2_def c(5) by simp
    show "year_yday D = (400 * a + 100 * b + 4 * c + e + 1, d3 - 365 * e)"
      by (simp only: year_yday_def Let_def a_def [symmetric] d1_def [symmetric] q_def [symmetric]
          b_def [symmetric] d2_def [symmetric] c_def [symmetric] d3_def [symmetric] p_def [symmetric]
          e_def [symmetric])
  qed (use b c e in simp_all)
qed

text \<open>The year and the day of the year add up to the number of days, and the day is in the year.\<close>

lemma year_yday_correct:
  "case year_yday D of (y, r) \<Rightarrow>
     days_before_year y + r = D \<and> 0 \<le> r \<and> r < (if isLeap y then 366 else 365)"
proof -
  obtain a b c e r where h: "0 \<le> b" "b \<le> 3" "0 \<le> c" "c \<le> 24" "0 \<le> e" "e \<le> 3" "0 \<le> r"
    "r \<le> 364 \<or> r = 365 \<and> e = 3 \<and> (c = 24 \<longrightarrow> b = 3)"
    "D = 146097 * a + 36524 * b + 1461 * c + 365 * e + r"
    "year_yday D = (400 * a + 100 * b + 4 * c + e + 1, r)"
    by (rule year_yday_cases)
  have "isLeap (400 * a + 100 * b + 4 * c + e + 1)" if "e = 3" "c = 24 \<longrightarrow> b = 3"
  proof -
    have y: "400 * a + 100 * b + 4 * c + e + 1 = 4 * (100 * a + 25 * b + c + 1)" using that by simp
    show ?thesis
    proof (cases "c = 24")
      case True
      then have "400 * a + 100 * b + 4 * c + e + 1 = 400 * (a + 1)" using that by simp
      then show ?thesis by (simp only: isLeap_def) simp
    next
      case False
      have "(400 * a + 100 * b + 4 * c + e + 1) mod 100 = 4 * c + 4"
        using that(1) h(3,4) False
        by (intro mod_pos_int [where q = "4 * a + b"]) simp_all
      then show ?thesis using h(3) unfolding isLeap_def y by simp
    qed
  qed
  with h cycles [OF h(1-6), of a] show ?thesis by auto
qed

lemma le_11: "n \<le> 11 \<Longrightarrow> n \<in> {0, 1, 2, 3, 4, 5, 6, 7, 8, 9, 10, 11 :: nat}"
  by (simp add: le_Suc_eq numeral_eq_Suc)

lemma month_day_range:
  assumes "0 \<le> r" and "r < (if isLeap y then 366 else 365)"
  shows "case month_day y r of (m, d) \<Rightarrow> 1 \<le> m \<and> m \<le> 12 \<and> 1 \<le> d \<and> d \<le> 31"
proof -
  define day where "day = (if isLeap y \<and> r > 59 then r - 1 else r)"
  have "0 \<le> day" "day < 365" using assms by (auto simp: day_def split: if_splits)
  moreover define q where "q = day div 31"
  ultimately have i: "31 * q \<le> day" "day < 31 * q + 31"
    using div_mult_mod_eq [of day 31] pos_mod_bound [of 31 day] pos_mod_sign [of 31 day] by simp_all
  with \<open>0 \<le> day\<close> \<open>day < 365\<close>
  have "0 \<le> q" "q \<le> 11" by linarith+
  then have m: "nat q \<in> {0, 1, 2, 3, 4, 5, 6, 7, 8, 9, 10, 11}" "q = int (nat q)"
    using le_11 [of "nat q"] by simp_all
  show ?thesis
  proof (cases "isLeap y \<and> r = 59")
    case True
    then show ?thesis by (simp add: month_day_def)
  next
    case False
    have "month_day y r =
        (if day \<ge> daysBefore ! (nat q + 1) then (int (nat q) + 2, day - daysBefore ! (nat q + 1) + 1)
         else (int (nat q) + 1, day - daysBefore ! nat q + 1))"
      unfolding month_day_def if_not_P [OF False] Let_def day_def [symmetric] q_def [symmetric]
      by (rule refl)
    moreover have "31 * int (nat q) \<le> day" "day < 31 * int (nat q) + 31" using i m(2) by simp_all
    ultimately show ?thesis
      using m(1) \<open>day < 365\<close>
      by (elim insertE emptyE) (simp_all add: daysBefore_def split: if_splits)
  qed
qed

section \<open>RFC 3339\<close>

definition pad :: "nat \<Rightarrow> int \<Rightarrow> string" where
  "pad w i =
     (let s = nat_dec (nat \<bar>i\<bar>)
      in (if i < 0 then ''-'' else []) @ replicate (w - length s) CHR ''0'' @ s)"

definition day_ns :: int where
  "day_ns = 86400 * 10 ^ 9"

text \<open>The days from year 1 to 1970 are 719162.\<close>

definition Format_RFC3339 :: "gtime \<Rightarrow> string" where
  "Format_RFC3339 t =
     (let secs = t div 10 ^ 9; D = secs div 86400 + 719162; s = secs mod 86400
      in case year_yday D of (y, r) \<Rightarrow>
         case month_day y r of (m, d) \<Rightarrow>
           pad 4 y @ ''-'' @ pad 2 m @ ''-'' @ pad 2 d @ ''T'' @
           pad 2 (s div 3600) @ '':'' @ pad 2 (s mod 3600 div 60) @ '':'' @ pad 2 (s mod 60) @ ''Z'')"

lemma Format_zero_time: "Format_RFC3339 zero_time = ''0001-01-01T00:00:00Z''"
  by code_simp

lemma nat_dec_length_le: "n < 10 ^ k \<Longrightarrow> 0 < k \<Longrightarrow> length (nat_dec n) \<le> k"
proof (induction n arbitrary: k rule: nat_dec.induct)
  case (1 n)
  show ?case
  proof (cases "n < 10")
    case True
    then show ?thesis using 1(3) by (simp add: nat_dec.simps [of n])
  next
    case False
    then have "k \<noteq> 1" using 1(2) by auto
    then obtain j where k: "k = Suc j" "0 < j" using 1(3) by (cases k) auto
    with 1(2) have "n div 10 < 10 ^ j" by (simp add: less_mult_imp_div_less mult.commute)
    with 1(1) [OF False this k(2)] show ?thesis using False k by (simp add: nat_dec.simps [of n])
  qed
qed

lemma pad_le: "0 \<le> i \<Longrightarrow> i < 10 ^ w \<Longrightarrow> 0 < w \<Longrightarrow> length (pad w i) = w"
  using nat_dec_length_le [of "nat i" w]
  by (simp add: pad_def Let_def nat_less_iff)

lemma pad_length:
  "0 \<le> i \<Longrightarrow> i < 10000 \<Longrightarrow> length (pad 4 i) = 4"
  "0 \<le> i \<Longrightarrow> i < 100 \<Longrightarrow> length (pad 2 i) = 2"
  using pad_le [of i 4] pad_le [of i 2] by simp_all

text \<open>In the years 0 to 9999 the format always has its 20 bytes.\<close>

lemma Format_RFC3339_length:
  assumes "year_yday (t div 10 ^ 9 div 86400 + 719162) = (y, r)" and "0 \<le> y" and "y \<le> 9999"
  shows "length (Format_RFC3339 t) = 20"
proof -
  obtain m d where md: "month_day y r = (m, d)" by (cases "month_day y r")
  have 1: "1 \<le> m \<and> m \<le> 12 \<and> 1 \<le> d \<and> d \<le> 31"
    using month_day_range [of r y] year_yday_correct [of "t div 10 ^ 9 div 86400 + 719162"] assms(1) md
    by simp
  define s where "s = t div 10 ^ 9 mod 86400"
  have "0 \<le> s" "s < 86400" by (simp_all add: s_def)
  moreover have "0 \<le> s mod 3600" "s mod 3600 < 3600" "0 \<le> s mod 60" "s mod 60 < 60" by simp_all
  ultimately have 2: "0 \<le> s div 3600" "s div 3600 < 100" "0 \<le> s mod 3600 div 60"
    "s mod 3600 div 60 < 100" "0 \<le> s mod 60" "s mod 60 < 100"
    by (simp_all add: pos_imp_zdiv_nonneg_iff zdiv_less)
  have p: "length (pad 4 y) = 4" "length (pad 2 m) = 2" "length (pad 2 d) = 2"
    "length (pad 2 (s div 3600)) = 2" "length (pad 2 (s mod 3600 div 60)) = 2"
    "length (pad 2 (s mod 60)) = 2"
    by (rule pad_length; use 1 2 assms(2,3) in linarith)+
  show ?thesis
    unfolding Format_RFC3339_def Let_def assms(1) s_def [symmetric] prod.case md
    by (simp only: length_append p list.size)
qed

end
