(* ===== verification/Service.thy ===== *)
theory Service
  imports Models_Facts Go_Time Pb_Grpc
begin

text \<open>
  The package \<open>service\<close>: the server's state with its lazily opened database handle, the three
  methods, the authentication and access functions the interceptors call, the conversion from
  the stored struct to the message, and the registration of the service.
\<close>

section \<open>The state\<close>

definition svc_name :: string where
  "svc_name = ''ah-svc-www''"

definition svc_version :: string where
  "svc_version = ''latest''"

definition defaultPageSize :: nat where
  "defaultPageSize = 50"

definition grpcTimeout :: nat where
  "grpcTimeout = 5"

record 'db wwwServer =
  ws_version :: string
  ws_jwtSecret :: string
  ws_caCertificate :: string
  ws_certificate :: string
  ws_privateKey :: string
  ws_sqliteDataSourceName :: string
  ws_sqliteHandle :: "'db option"

record 'db Service =
  Service_Name :: string
  Service_Version :: string
  Service_serverImpl :: "'db wwwServer option"

definition NewService :: "string list \<Rightarrow> 'db Service" where
  "NewService opts =
     \<lparr>Service_Name = svc_name,
      Service_Version = (if length opts > 0 then opts ! 0 else svc_version),
      Service_serverImpl = None\<rparr>"

definition GetServerImpl :: "'db Service \<Rightarrow> 'db wwwServer option" where
  "GetServerImpl svc = Service_serverImpl svc"

section \<open>The database handle\<close>

text \<open>The handle is opened by the first call that needs it, and pinged by every one.\<close>

definition initDatabaseHandle :: "'db driver \<Rightarrow> 'db wwwServer \<Rightarrow> string option \<times> 'db wwwServer" where
  "initDatabaseHandle drv s =
     (case ws_sqliteHandle s of
        Some d \<Rightarrow> (d_ping drv d, s)
      | None \<Rightarrow>
          (case gorm_Open drv (ws_sqliteDataSourceName s) of
             Inl err \<Rightarrow> (Some err, s)
           | Inr d \<Rightarrow> (d_ping drv d, s\<lparr>ws_sqliteHandle := Some d\<rparr>)))"

definition closeDatabaseHandle :: "'db driver \<Rightarrow> 'db wwwServer \<Rightarrow> string option \<times> 'db wwwServer" where
  "closeDatabaseHandle drv s =
     (case ws_sqliteHandle s of
        None \<Rightarrow> (None, s)
      | Some d \<Rightarrow>
          (case d_close drv d of
             Some err \<Rightarrow> (Some err, s)
           | None \<Rightarrow> (None, s\<lparr>ws_sqliteHandle := None\<rparr>)))"

text \<open>The logger given to the ORM is the one of the package \<open>models\<close> over again.\<close>

definition gormLogger_Print :: "string list \<Rightarrow> (log_level \<times> (string \<times> string) list \<times> string) list option" where
  "gormLogger_Print v =
     (if v = [] then None
      else if v ! 0 = ''sql'' then
        (if 3 < length v then
           Some [(LDebug, [(''module'', ''gorm''), (''type'', ''sql'')], v ! 3)] else None)
      else if v ! 0 = ''log'' then
        (if 2 < length v then
           Some [(LWarn, [(''module'', ''gorm''), (''type'', ''log'')], v ! 2)] else None)
      else Some [])"

section \<open>Authentication and access\<close>

definition public_method :: "string \<Rightarrow> bool" where
  "public_method m = (m = ''/grpc.hugdubois.www.Www/Version'' \<or>
     m = ''/grpc.hugdubois.www.Www/ServicesStatus'')"

definition AuthFuncOverride ::
  "(string \<Rightarrow> string \<Rightarrow> 'c option) \<Rightarrow> 'db wwwServer \<Rightarrow> 'c ctx \<Rightarrow> string \<Rightarrow> rpc_error + 'c ctx" where
  "AuthFuncOverride verify s c fullMethodName =
     (case ParseJWTFromContext verify c (ws_jwtSecret s) of
        Inl err \<Rightarrow>
          (if ws_jwtSecret s = [] \<or>
              fullMethodName = ''/grpc.hugdubois.www.Www/Version'' \<or>
              fullMethodName = ''/grpc.hugdubois.www.Www/ServicesStatus'' then Inr c
           else Inl err)
      | Inr newCtx \<Rightarrow> Inr newCtx)"

definition AclFuncOverride :: "'db wwwServer \<Rightarrow> 'c ctx \<Rightarrow> string \<Rightarrow> 'q \<Rightarrow> string option" where
  "AclFuncOverride s c fullMethodName msg =
     (if ws_jwtSecret s = [] \<or>
         fullMethodName = ''/grpc.hugdubois.www.Www/Version'' \<or>
         fullMethodName = ''/grpc.hugdubois.www.Www/ServicesStatus'' then None
      else (case x_jwt c of None \<Rightarrow> Some ''Invalid jwt'' | Some _ \<Rightarrow> None))"

section \<open>Version\<close>

text \<open>
  What one call reads from outside: the clock, the random source of the identifier and of the
  correlation id, and texts that other packages make (see \<open>models_error_msg\<close> and \<open>rpc_error_text\<close>).
\<close>

record call_env =
  e_now :: gtime
  e_rnd :: "byte list option"
  e_cid_rnd :: "byte list option"
  e_quote :: "string \<Rightarrow> string"
  e_scan :: "uuid_error \<Rightarrow> string"
  e_panic :: "panic \<Rightarrow> string"

definition Version :: "('c, EmptyMessage, VersionResponse, 'db wwwServer) handler" where
  "Version c req s =
     (Ret (Some (VersionResponse_Reset\<lparr>vr_Name := svc_name, vr_Version := ws_version s\<rparr>)) None, s)"

section \<open>ServicesStatus\<close>

definition serviceStatusErrorHandler :: "VersionResponse option \<Rightarrow> string \<Rightarrow> ServiceStatus" where
  "serviceStatusErrorHandler ver err =
     ServiceStatus_Reset\<lparr>st_Name := VersionResponse_GetName ver,
       st_Version := VersionResponse_GetVersion ver,
       st_Status := ServiceStatus_UNAVAILABLE, st_EMsg := err\<rparr>"

definition serviceStatusSuccessHandler :: "VersionResponse option \<Rightarrow> ServiceStatus" where
  "serviceStatusSuccessHandler ver =
     ServiceStatus_Reset\<lparr>st_Name := VersionResponse_GetName ver,
       st_Version := VersionResponse_GetVersion ver,
       st_Status := ServiceStatus_OK, st_EMsg := []\<rparr>"

definition svcCurrentStatus :: "call_env \<Rightarrow> 'db wwwServer \<Rightarrow> 'c ctx \<Rightarrow> 'c ctx \<Rightarrow> ServiceStatus" where
  "svcCurrentStatus env s c svcCtx =
     (case Version c EmptyMessage s of
        (Ret ver (Some err), _) \<Rightarrow>
          serviceStatusErrorHandler
            (Some (VersionResponse_Reset\<lparr>vr_Name := svc_name, vr_Version := svc_version\<rparr>))
            (rpc_error_text (e_panic env) err)
      | (Ret ver None, _) \<Rightarrow>
          serviceStatusSuccessHandler
            (Some (VersionResponse_Reset\<lparr>vr_Name := VersionResponse_GetName ver,
               vr_Version := VersionResponse_GetVersion ver\<rparr>)))"

text \<open>
  The functions run at the same time and append their result under a mutex, so the list before
  the sort is in the order in which they finish. \<open>finish\<close> is that order, a list of indices.
\<close>

definition status_fns :: "call_env \<Rightarrow> ('db wwwServer \<Rightarrow> 'c ctx \<Rightarrow> 'c ctx \<Rightarrow> ServiceStatus) list" where
  "status_fns env = [svcCurrentStatus env]"

definition Less :: "ServiceStatus \<Rightarrow> ServiceStatus \<Rightarrow> bool" where
  "Less a b = (st_Name a < st_Name b)"

definition collect_status ::
  "('db wwwServer \<Rightarrow> 'c ctx \<Rightarrow> 'c ctx \<Rightarrow> ServiceStatus) list \<Rightarrow> nat list \<Rightarrow> 'db wwwServer \<Rightarrow> 'c ctx \<Rightarrow>
   ServiceStatus list" where
  "collect_status fns finish s c =
     sort_key st_Name (map (\<lambda>i. (fns ! i) s c (NewSubServiceContext c)) finish)"

definition ServicesStatus ::
  "call_env \<Rightarrow> nat list \<Rightarrow> ('c, EmptyMessage, ServicesStatusList, 'db wwwServer) handler" where
  "ServicesStatus env finish c req s =
     (Ret (Some (ServicesStatusList_Reset\<lparr>sl_Services := map Some (collect_status (status_fns env) finish s c)\<rparr>))
        None, s)"

section \<open>RsvpCreation\<close>

definition convertRsvpFromModelToProtocol :: "Rsvp \<Rightarrow> RsvpInfo" where
  "convertRsvpFromModelToProtocol dbRsvp =
     (let deletedAt = (case r_DeletedAt dbRsvp of None \<Rightarrow> [] | Some t \<Rightarrow> Format_RFC3339 t)
      in RsvpInfo_Reset\<lparr>ri_Uuid := UUID_String (r_UUID dbRsvp), ri_Names := r_Names dbRsvp,
           ri_Email := r_Email dbRsvp, ri_Presence := r_Presence dbRsvp,
           ri_ChildrenNameAge := r_ChildrenNameAge dbRsvp, ri_Housing := r_Housing dbRsvp,
           ri_Music := r_Music dbRsvp, ri_Brunch := r_Brunch dbRsvp,
           ri_CreatedAt := Format_RFC3339 (r_CreatedAt dbRsvp),
           ri_UpdatedAt := Format_RFC3339 (r_UpdatedAt dbRsvp), ri_DeletedAt := deletedAt\<rparr>)"

definition RsvpCreation ::
  "'db driver \<Rightarrow> call_env \<Rightarrow> ('c, RsvpCreationRequest, RsvpCreationResponse, 'db wwwServer) handler" where
  "RsvpCreation drv env c req s =
     (let res = RsvpCreationResponse_Reset\<lparr>rs_Ok := False\<rparr>
      in case RsvpCreationRequest_Validate req of
           Some err \<Rightarrow> (Ret (Some res) (Some (status_Error CodeInvalidArgument (fieldError_Error err))), s)
         | None \<Rightarrow>
             (case initDatabaseHandle drv s of
                (Some err, s1) \<Rightarrow> (Ret (Some res) (Some (status_Errorf0 CodeInternal err)), s1)
              | (None, s1) \<Rightarrow>
                  (case ws_sqliteHandle s1 of
                     None \<Rightarrow> (Panic NilDereference, s1)
                   | Some d \<Rightarrow>
                       (case CreateRsvp drv (e_now env) (e_rnd env)
                           (RsvpCreationRequest_GetNames (Some req))
                           (RsvpCreationRequest_GetEmail (Some req))
                           (RsvpCreationRequest_GetPresence (Some req))
                           (RsvpCreationRequest_GetChildrenNameAge (Some req))
                           (RsvpCreationRequest_GetHousing (Some req))
                           (RsvpCreationRequest_GetMusic (Some req))
                           (RsvpCreationRequest_GetBrunch (Some req)) d of
                          None \<Rightarrow> (Panic RandomFailed, s1)
                        | Some (_, Some err, d') \<Rightarrow>
                            (Ret (Some res) (Some (status_Errorf0 CodeInvalidArgument
                               (models_error_msg (e_quote env) (e_scan env) err))),
                             s1\<lparr>ws_sqliteHandle := Some d'\<rparr>)
                        | Some (None, None, d') \<Rightarrow>
                            (Panic NilDereference, s1\<lparr>ws_sqliteHandle := Some d'\<rparr>)
                        | Some (Some dbRsvp, None, d') \<Rightarrow>
                            (Ret (Some (res\<lparr>rs_Ok := True,
                               rs_Info := Some (convertRsvpFromModelToProtocol dbRsvp)\<rparr>)) None,
                             s1\<lparr>ws_sqliteHandle := Some d'\<rparr>)))))"

section \<open>The service behind its interceptors\<close>

definition www_server ::
  "'db driver \<Rightarrow> call_env \<Rightarrow> nat list \<Rightarrow> ('c, 'db wwwServer) WwwServer" where
  "www_server drv env finish =
     \<lparr>srv_Version = Version, srv_ServicesStatus = ServicesStatus env finish,
      srv_RsvpCreation = RsvpCreation drv env\<rparr>"

fun www_validate :: "www_req \<Rightarrow> fieldError option" where
  "www_validate (ReqEmpty m) = EmptyMessage_Validate m"
| "www_validate (ReqRsvp m) = RsvpCreationRequest_Validate m"

text \<open>The interceptors of the server whose state is \<open>s\<close> when the call comes in.\<close>

definition www_interceptor ::
  "(string \<Rightarrow> string \<Rightarrow> 'c option) \<Rightarrow> call_env \<Rightarrow> ('c, 'db wwwServer) www_interceptor" where
  "www_interceptor verify env fullMethod c req h s =
     ChainUnaryServer
       (uInterceptors (e_cid_rnd env) (AuthFuncOverride verify s) www_validate (AclFuncOverride s)
          fullMethod) c req h s"

text \<open>\<open>RegisterGRPCServices\<close>: the state of the new server, and the registry with its methods.\<close>

definition RegisterGRPCServices ::
  "'db Service \<Rightarrow> string \<Rightarrow> string \<Rightarrow> string \<Rightarrow> string \<Rightarrow> string \<Rightarrow> 'db Service" where
  "RegisterGRPCServices svc jwtSecret caCert cert privKey sqliteDSN =
     svc\<lparr>Service_serverImpl := Some
       \<lparr>ws_version = Service_Version svc, ws_jwtSecret = jwtSecret, ws_caCertificate = caCert,
        ws_certificate = cert, ws_privateKey = privKey, ws_sqliteDataSourceName = sqliteDSN,
        ws_sqliteHandle = None\<rparr>\<rparr>"

definition serve ::
  "'db driver \<Rightarrow> (string \<Rightarrow> string \<Rightarrow> 'c option) \<Rightarrow> call_env \<Rightarrow> nat list \<Rightarrow> ('c, 'db wwwServer) channel" where
  "serve drv verify env finish =
     (case RegisterHandlerWww Map.empty (www_server drv env finish) of
        None \<Rightarrow> (\<lambda>c m req s. (Panic NilDereference, s))
      | Some reg \<Rightarrow> Invoke reg (Some (www_interceptor verify env)))"

end
