(* ===== verification/Functest.thy ===== *)
theory Functest
  imports Remote_Cli Service
begin

text \<open>
  The functional tests of \<open>cmd/functest\<close>: each makes a client from a configuration, calls a running
  service over gRPC or HTTP and returns the list of what was wrong. A test that panics ends the
  process: its result is the panic, on the left. The state of the service is threaded through.
\<close>

section \<open>Types\<close>

definition FUNCTEST_HTTP :: string where
  "FUNCTEST_HTTP = ''HTTP''"

definition FUNCTEST_GRPC :: string where
  "FUNCTEST_GRPC = ''GRPC''"

record FunctionalTestConfig =
  fc_ServerAddress :: string
  fc_GrpcServerAddress :: string
  fc_HttpServerAddress :: string
  fc_CaCertificate :: string
  fc_ClientCertificate :: string
  fc_ClientPrivateKey :: string
  fc_JsonWebToken :: string
  fc_TimeoutSeconds :: int
  fc_SqliteDataSourceName :: string

record TestFailure =
  tf_Message :: string
  tf_Procedure :: string

text \<open>The message and the response are interface values: nil, a pointer or another type.\<close>

record TestCaseResult =
  tc_Request :: "RsvpCreationRequest iface"
  tc_Response :: "RsvpCreationResponse iface"
  tc_Error :: "rpc_error option"

record HttpError =
  he_Code :: nat
  he_Error :: string

definition failure :: "string \<Rightarrow> string \<Rightarrow> TestFailure" where
  "failure procedure msg = \<lparr>tf_Message = msg, tf_Procedure = procedure\<rparr>"

type_synonym 's test_run = "'s \<Rightarrow> (panic + TestFailure list) \<times> 's"

section \<open>The environment\<close>

text \<open>
  JSON as \<open>encoding/json\<close> reads it into an \<open>interface{}\<close>.
\<close>

datatype json =
    JNull
  | JBool bool
  | JNumber string
  | JString string
  | JArray "json list"
  | JObject "(string \<times> json) list"

text \<open>A response whose body can fail to be read to its end.\<close>

record http_response =
  hr_Body :: string
  hr_ReadErr :: "string option"

record http_client =
  cl_TLS :: "(string \<times> string) option"
  cl_Timeout :: int

text \<open>
  What the tests ask of libraries and of the network: printing a request (\<open>%v\<close>), making a request
  for a method and an address (an error when it is no URL), sending it, writing and reading
  JSON, compiling a regular expression. Reading into a message gives the message as it is at the
  end, with an error or without.
\<close>

record 's test_env =
  te_show :: "RsvpCreationRequest \<Rightarrow> string"
  te_panic :: "panic \<Rightarrow> string"
  te_NewRequest :: "string \<Rightarrow> string \<Rightarrow> string option"
  te_Do :: "http_client \<Rightarrow> string \<Rightarrow> string \<Rightarrow> (string \<times> string list) list \<Rightarrow> string \<Rightarrow> 's \<Rightarrow>
    (string + http_response) \<times> 's"
  te_Marshal :: "RsvpCreationRequest \<Rightarrow> string + string"
  te_Version :: "http_response \<Rightarrow> VersionResponse \<times> string option"
  te_Status :: "http_response \<Rightarrow> ServicesStatusList \<times> string option"
  te_Rsvp :: "string \<Rightarrow> RsvpCreationResponse \<times> string option"
  te_HttpError :: "string \<Rightarrow> HttpError \<times> string option"
  te_json :: "string \<Rightarrow> string + json"
  te_Compile :: "string \<Rightarrow> string + (string \<Rightarrow> bool)"

section \<open>Clients\<close>

definition grpcClient ::
  "('c, 's) net_env \<Rightarrow> FunctionalTestConfig \<Rightarrow> string + ('c, 's) GomeetClient \<times> 'c ctx" where
  "grpcClient net config =
     (let serverAddr = (if fc_GrpcServerAddress config \<noteq> [] then fc_GrpcServerAddress config
                        else fc_ServerAddress config)
      in case NewGomeetClient net serverAddr (fc_TimeoutSeconds config) (fc_CaCertificate config)
             (fc_ClientCertificate config) (fc_ClientPrivateKey config) of
           Inl err \<Rightarrow> Inl err
         | Inr c \<Rightarrow> Inr (c, AuthContextFromJWT Background (fc_JsonWebToken config)))"

definition httpClient ::
  "('c, 's) net_env \<Rightarrow> FunctionalTestConfig \<Rightarrow> string + http_client \<times> string \<times> string" where
  "httpClient net config =
     (let timeout = seconds (fc_TimeoutSeconds config);
          serverAddr = (if fc_HttpServerAddress config \<noteq> [] then fc_HttpServerAddress config
                        else fc_ServerAddress config)
      in if fc_CaCertificate config \<noteq> [] \<and> fc_ClientCertificate config \<noteq> [] \<and>
            fc_ClientPrivateKey config \<noteq> [] \<and> fc_GrpcServerAddress config \<noteq> [] \<and>
            fc_HttpServerAddress config \<noteq> [] then
           (case ne_ReadFile net (fc_CaCertificate config) of
              Some err \<Rightarrow> Inl (''failed to read CA certificate: '' @ err)
            | None \<Rightarrow>
                if \<not> ne_AppendCerts net (fc_CaCertificate config) then Inl ''failed to build certificate pool''
                else
                  (case SplitHostPort (fc_HttpServerAddress config) of
                     Inl err \<Rightarrow>
                       Inl (''failed to parse server hostname in '' @ fc_HttpServerAddress config @ '': '' @ err)
                   | Inr (serverHost, _) \<Rightarrow>
                       Inr (\<lparr>cl_TLS = Some (serverHost, fc_CaCertificate config), cl_Timeout = timeout\<rparr>,
                         serverAddr, ''https'')))
         else Inr (\<lparr>cl_TLS = None, cl_Timeout = timeout\<rparr>, serverAddr, ''http''))"

text \<open>Texts between double and single quotes, and \<open>%s\<close> applied to a bool.\<close>

definition dquote :: "string \<Rightarrow> string" where
  "dquote s = [CHR 0x22] @ s @ [CHR 0x22]"

definition squote :: "string \<Rightarrow> string" where
  "squote s = [CHR 0x27] @ s @ [CHR 0x27]"

definition bool_as_s :: "bool \<Rightarrow> string" where
  "bool_as_s b = ''%!s(bool='' @ (if b then ''true'' else ''false'') @ '')''"

section \<open>Version\<close>

definition testVersionResponse :: "EmptyMessage \<Rightarrow> VersionResponse option \<Rightarrow> TestFailure list" where
  "testVersionResponse req res =
     (let svc = (NewService [] :: unit Service)
      in (if VersionResponse_GetName res \<noteq> Service_Name svc then
            [failure ''Version'' (''expected name '' @ dquote (Service_Name svc) @ '' but got '' @
               dquote (VersionResponse_GetName res))] else []) @
         (if VersionResponse_GetVersion res \<noteq> Service_Version svc then
            [failure ''Version'' (''expected version number '' @ dquote (Service_Version svc) @ '' but got '' @
               dquote (VersionResponse_GetVersion res))] else []))"

definition init_failure :: "string \<Rightarrow> string \<Rightarrow> TestFailure list" where
  "init_failure procedure err =
     [failure procedure (''gRPC client initialization error ('' @ err @ '')'')]"

definition TestVersion ::
  "'s test_env \<Rightarrow> ('c, 's) net_env \<Rightarrow> FunctionalTestConfig \<Rightarrow> 's test_run" where
  "TestVersion te net config s =
     (case grpcClient net config of
        Inl err \<Rightarrow> (Inr (init_failure ''Version'' err), s)
      | Inr (client, ctx) \<Rightarrow>
          (case srv_Version (GetGRPCClient client) ctx EmptyMessage s of
             (Panic p, s1) \<Rightarrow> (Inl p, s1)
           | (Ret res None, s1) \<Rightarrow> (Inr (testVersionResponse EmptyMessage res), s1)
           | (Ret res (Some err), s1) \<Rightarrow>
               (case grpcClient net config of
                  Inl err \<Rightarrow> (Inr (init_failure ''Version'' err), s1)
                | Inr (client2, ctx2) \<Rightarrow>
                    (case srv_Version (GetGRPCClient client2) ctx2 EmptyMessage s1 of
                       (Panic p, s2) \<Rightarrow> (Inl p, s2)
                     | (Ret res2 None, s2) \<Rightarrow> (Inr (testVersionResponse EmptyMessage res2), s2)
                     | (Ret res2 (Some err2), s2) \<Rightarrow>
                         (Inr [failure ''Version'' (''call error ('' @ rpc_error_text (te_panic te) err2 @ '')'')], s2)))))"

section \<open>ServicesStatus\<close>

definition expected_status :: "ServiceStatus list" where
  "expected_status =
     sort_key st_Name
       [ServiceStatus_Reset\<lparr>st_Name := Service_Name (NewService [] :: unit Service),
          st_Version := Service_Version (NewService [] :: unit Service),
          st_Status := ServiceStatus_OK, st_EMsg := []\<rparr>]"

definition testServicesStatusReponse ::
  "FunctionalTestConfig \<Rightarrow> EmptyMessage \<Rightarrow> ServicesStatusList option \<Rightarrow> TestFailure list" where
  "testServicesStatusReponse config req res =
     (let svc = (NewService [] :: unit Service);
          expected = expected_status;
          ssStatus = ServicesStatusList_GetServices res
      in if length ssStatus \<noteq> length expected then
           [failure ''ServciesStatus'' (''expected services count '' @ dquote (nat_dec (length expected)) @
              '' but got '' @ dquote (nat_dec (length ssStatus)))]
         else
           concat (List.map (\<lambda>(sStatus, e).
             (if ServiceStatus_GetName sStatus \<noteq> ServiceStatus_GetName (Some e) then
                [failure ''ServiceStatus'' (''expected name '' @ dquote (Service_Name svc) @ '' but got '' @
                   dquote (ServiceStatus_GetName sStatus))] else []) @
             (if ServiceStatus_GetVersion sStatus \<noteq> ServiceStatus_GetVersion (Some e) then
                [failure ''ServicesSatus'' (''expected version number '' @ dquote (Service_Version svc) @
                   '' but got '' @ dquote (ServiceStatus_GetVersion sStatus))] else []))
             (zip ssStatus expected)))"

definition TestServicesStatus ::
  "'s test_env \<Rightarrow> ('c, 's) net_env \<Rightarrow> FunctionalTestConfig \<Rightarrow> 's test_run" where
  "TestServicesStatus te net config s =
     (case grpcClient net config of
        Inl err \<Rightarrow> (Inr (init_failure ''ServicesSatus'' err), s)
      | Inr (client, ctx) \<Rightarrow>
          (case srv_ServicesStatus (GetGRPCClient client) ctx EmptyMessage s of
             (Panic p, s1) \<Rightarrow> (Inl p, s1)
           | (Ret res None, s1) \<Rightarrow> (Inr (testServicesStatusReponse config EmptyMessage res), s1)
           | (Ret res (Some err), s1) \<Rightarrow>
               (case grpcClient net config of
                  Inl err \<Rightarrow> (Inr (init_failure ''ServicesStatus'' err), s1)
                | Inr (client2, ctx2) \<Rightarrow>
                    (case srv_ServicesStatus (GetGRPCClient client2) ctx2 EmptyMessage s1 of
                       (Panic p, s2) \<Rightarrow> (Inl p, s2)
                     | (Ret res2 None, s2) \<Rightarrow> (Inr (testServicesStatusReponse config EmptyMessage res2), s2)
                     | (Ret res2 (Some err2), s2) \<Rightarrow>
                         (Inr [failure ''ServciesStatus'' (''call error ('' @ rpc_error_text (te_panic te) err2 @ '')'')], s2)))))"

section \<open>RsvpCreation\<close>

text \<open>
  The six requests: five that must be refused, and a valid one. \<open>validRequest\<close> is what
  \<open>NewRsvpCreationRequestGomeetFaker\<close> draws, \<open>verylongString\<close> 256 random characters.
\<close>

definition testGetRsvpCreationRequest ::
  "RsvpCreationRequest \<times> string \<Rightarrow> FunctionalTestConfig \<Rightarrow> string + RsvpCreationRequest list" where
  "testGetRsvpCreationRequest draw config =
     (let (validRequest, verylongString) = draw; v = Some validRequest
      in Inr
        [RsvpCreationRequest_Reset,
         RsvpCreationRequest_Reset\<lparr>rq_Names := verylongString\<rparr>,
         RsvpCreationRequest_Reset\<lparr>rq_Names := RsvpCreationRequest_GetNames v\<rparr>,
         RsvpCreationRequest_Reset\<lparr>rq_Names := RsvpCreationRequest_GetNames v,
           rq_Email := RsvpCreationRequest_GetEmail v, rq_ChildrenNameAge := verylongString\<rparr>,
         RsvpCreationRequest_Reset\<lparr>rq_Names := RsvpCreationRequest_GetNames v,
           rq_Email := RsvpCreationRequest_GetEmail v,
           rq_ChildrenNameAge := RsvpCreationRequest_GetChildrenNameAge v, rq_Music := verylongString\<rparr>,
         validRequest])"

definition expectedCode :: code where
  "expectedCode = CodeInvalidArgument"

definition expectedMessage :: "nat \<Rightarrow> RsvpCreationRequest option \<Rightarrow> string" where
  "expectedMessage i req =
     (if i < 1 then ''invalid field Names: value '' @ squote (RsvpCreationRequest_GetNames req) @
        '' must length be greater than '' @ squote ''2''
      else if i < 2 then ''invalid field Names: value '' @ squote (RsvpCreationRequest_GetNames req) @
        '' must length be less than '' @ squote ''256''
      else if i < 3 then ''invalid field Email: Invalid email''
      else if i < 4 then ''invalid field ChildrenNameAge: value '' @
        squote (RsvpCreationRequest_GetChildrenNameAge req) @ '' must length be less than '' @ squote ''256''
      else ''invalid field Music: value '' @ squote (RsvpCreationRequest_GetMusic req) @
        '' must length be less than '' @ squote ''256'')"

definition status_Convert :: "(panic \<Rightarrow> string) \<Rightarrow> rpc_error option \<Rightarrow> code \<times> string" where
  "status_Convert pt err =
     (case err of
        None \<Rightarrow> (CodeOK, [])
      | Some (Status c m) \<Rightarrow> (c, m)
      | Some e \<Rightarrow> (CodeUnknown, rpc_error_text pt e))"

text \<open>The checks of an error case: over HTTP only that there is an error.\<close>

definition check_error_case ::
  "(panic \<Rightarrow> string) \<Rightarrow> string \<Rightarrow> nat \<Rightarrow> RsvpCreationRequest option \<Rightarrow> rpc_error option \<Rightarrow> TestFailure list" where
  "check_error_case pt testsType i req err =
     (if err = None then
        [failure ''RsvpCreation'' (''an error is expected -- '' @ nat_dec i @ '' - '' @ testsType)] else []) @
     (if testsType = ''GRPC'' then
        (let (c, m) = status_Convert pt err
         in (if c \<noteq> expectedCode then
               [failure ''RsvpCreation'' (''Error code '' @ dquote (code_String expectedCode) @
                  '' is expected got '' @ dquote (code_String c))] else []) @
            (if m \<noteq> expectedMessage i req then
               [failure ''RsvpCreation'' (''Error message '' @ dquote (expectedMessage i req) @
                  '' is expected got '' @ dquote m)] else []))
      else [])"

definition not_equal :: "string \<Rightarrow> string \<Rightarrow> string \<Rightarrow> TestFailure list" where
  "not_equal field expected got =
     [failure ''RsvpCreation'' (field @ '' is not equal than the request expected '' @ squote expected @
        '' got '' @ squote got)]"

text \<open>The first field in which the entry of a response differs from its request.\<close>

definition check_info :: "RsvpCreationRequest option \<Rightarrow> RsvpInfo option \<Rightarrow> TestFailure list" where
  "check_info req info =
     (if RsvpInfo_GetNames info \<noteq> RsvpCreationRequest_GetNames req then
        not_equal ''Names'' (RsvpCreationRequest_GetNames req) (RsvpInfo_GetNames info)
      else if RsvpInfo_GetEmail info \<noteq> RsvpCreationRequest_GetEmail req then
        not_equal ''Email'' (RsvpCreationRequest_GetEmail req) (RsvpInfo_GetEmail info)
      else if RsvpInfo_GetPresence info \<noteq> RsvpCreationRequest_GetPresence req then
        not_equal ''Presence'' (bool_as_s (RsvpCreationRequest_GetPresence req)) (bool_as_s (RsvpInfo_GetPresence info))
      else if RsvpInfo_GetChildrenNameAge info \<noteq> RsvpCreationRequest_GetChildrenNameAge req then
        not_equal ''ChildrenNameAge'' (RsvpCreationRequest_GetChildrenNameAge req) (RsvpInfo_GetChildrenNameAge info)
      else if RsvpInfo_GetHousing info \<noteq> RsvpCreationRequest_GetHousing req then
        not_equal ''Housing'' (bool_as_s (RsvpCreationRequest_GetHousing req)) (bool_as_s (RsvpInfo_GetHousing info))
      else if RsvpInfo_GetMusic info \<noteq> RsvpCreationRequest_GetMusic req then
        not_equal ''Music'' (RsvpCreationRequest_GetMusic req) (RsvpInfo_GetMusic info)
      else if RsvpInfo_GetBrunch info \<noteq> RsvpCreationRequest_GetBrunch req then
        not_equal ''Brunch'' (bool_as_s (RsvpCreationRequest_GetBrunch req)) (bool_as_s (RsvpInfo_GetBrunch info))
      else [])"

definition check_valid_case ::
  "(panic \<Rightarrow> string) \<Rightarrow> string \<Rightarrow> nat \<Rightarrow> RsvpCreationRequest option \<Rightarrow> TestCaseResult \<Rightarrow> TestFailure list" where
  "check_valid_case pt testsType i req tr =
     (case tc_Error tr of
        Some err \<Rightarrow>
          [failure ''RsvpCreation'' (''no error expected got ('' @ rpc_error_text pt err @ '') -- '' @
             nat_dec i @ '' '' @ testsType)]
      | None \<Rightarrow>
          (case tc_Response tr of
             INil \<Rightarrow> [failure ''RsvpCreation'' ''a response is expected'']
           | IPtr res \<Rightarrow>
               if req = None \<or> res = None then
                 [failure ''RsvpCreation'' ''a request and a response are expected'']
               else if \<not> RsvpCreationResponse_GetOk res then
                 [failure ''RsvpCreation'' ''the true value is expected for the Ok attribute of the response'']
               else if RsvpCreationResponse_GetInfo res = None then
                 [failure ''RsvpCreation'' ''no nil Rsvp is expected'']
               else check_info req (RsvpCreationResponse_GetInfo res)
           | _ \<Rightarrow>
               [failure ''RsvpCreation''
                  ''expected response message type pb.RsvpCreationResponse - cast fail'']))"

definition check_case ::
  "(panic \<Rightarrow> string) \<Rightarrow> string \<Rightarrow> nat \<Rightarrow> TestCaseResult \<Rightarrow> TestFailure list" where
  "check_case pt testsType i tr =
     (case tc_Request tr of
        INil \<Rightarrow>
          [failure ''RsvpCreation'' ''expected request message type pb.RsvpCreationRequest - nil given'']
      | IPtr req \<Rightarrow>
          if i < 5 then check_error_case pt testsType i req (tc_Error tr)
          else check_valid_case pt testsType i req tr
      | _ \<Rightarrow>
          [failure ''RsvpCreation'' ''expected request message type pb.RsvpCreationRequest - cast fail''])"

definition testRsvpCreationResponse ::
  "(panic \<Rightarrow> string) \<Rightarrow> FunctionalTestConfig \<Rightarrow> string \<Rightarrow> TestCaseResult list \<Rightarrow> TestFailure list" where
  "testRsvpCreationResponse pt config testsType results =
     concat (List.map (\<lambda>(i, tr). check_case pt testsType i tr) (enumerate 0 results))"

text \<open>One call per request, with the results in the order of the requests.\<close>

fun call_each ::
  "('c, 's) WwwServer \<Rightarrow> 'c ctx \<Rightarrow> RsvpCreationRequest list \<Rightarrow> 's \<Rightarrow> (panic + TestCaseResult list) \<times> 's" where
  "call_each srv ctx [] s = (Inr [], s)"
| "call_each srv ctx (req # reqs) s =
     (case srv_RsvpCreation srv ctx req s of
        (Panic p, s1) \<Rightarrow> (Inl p, s1)
      | (Ret res err, s1) \<Rightarrow>
          (case call_each srv ctx reqs s1 of
             (Inl p, s2) \<Rightarrow> (Inl p, s2)
           | (Inr rs, s2) \<Rightarrow>
               (Inr (\<lparr>tc_Request = IPtr (Some req), tc_Response = IPtr res, tc_Error = err\<rparr> # rs), s2)))"

definition TestRsvpCreation ::
  "'s test_env \<Rightarrow> ('c, 's) net_env \<Rightarrow> RsvpCreationRequest \<times> string \<Rightarrow> FunctionalTestConfig \<Rightarrow> 's test_run" where
  "TestRsvpCreation te net draw config s =
     (case grpcClient net config of
        Inl err \<Rightarrow> (Inr (init_failure ''RsvpCreation'' err), s)
      | Inr (client, ctx) \<Rightarrow>
          (case testGetRsvpCreationRequest draw config of
             Inl err \<Rightarrow>
               (Inr [failure ''RsvpCreation'' (''HTTP testGetRsvpCreationRequest error ('' @ err @ '')'')], s)
           | Inr reqs \<Rightarrow>
               (case call_each (GetGRPCClient client) ctx reqs s of
                  (Inl p, s1) \<Rightarrow> (Inl p, s1)
                | (Inr results, s1) \<Rightarrow>
                    (Inr (testRsvpCreationResponse (te_panic te) config FUNCTEST_GRPC results), s1))))"

end
