(* ===== verification/Functest_Http.thy ===== *)
theory Functest_Http
  imports Functest
begin

text \<open>
  The functional tests over HTTP and the session that runs all tests. A request that cannot be made
  is nil, and adding a header to it is a nil dereference, except where the code tests the error.
\<close>

section \<open>Requests\<close>

definition bearer_header :: "FunctionalTestConfig \<Rightarrow> string \<times> string list" where
  "bearer_header config = (''Authorization'', [''Bearer '' @ fc_JsonWebToken config])"

definition json_header :: "string \<times> string list" where
  "json_header = (''Content-Type'', [''application/json''])"

text \<open>
  A GET of a test: the client, the request with its headers, the sending. The procedure names the
  failures; the continuation gets the response.
\<close>

definition http_get ::
  "'s test_env \<Rightarrow> ('c, 's) net_env \<Rightarrow> string \<Rightarrow> string \<Rightarrow> (string \<times> string list) list \<Rightarrow>
   FunctionalTestConfig \<Rightarrow> (http_response \<Rightarrow> TestFailure list) \<Rightarrow> 's test_run" where
  "http_get te net procedure path headers config check s =
     (case httpClient net config of
        Inl err \<Rightarrow> (Inr [failure procedure (''HTTP client initialization error ('' @ err @ '')'')], s)
      | Inr (client, serverAddr, proto) \<Rightarrow>
          (let url = proto @ ''://'' @ serverAddr @ path
           in if te_NewRequest te ''GET'' url \<noteq> None then (Inl NilDereference, s)
              else
                (case te_Do te client ''GET'' url headers [] s of
                   (Inl err, s1) \<Rightarrow>
                     (Inr [failure procedure (''HTTP GET error on '' @ url @ '' ('' @ err @ '')'')], s1)
                 | (Inr resp, s1) \<Rightarrow> (Inr (check resp), s1))))"

definition json_failure :: "string \<Rightarrow> string \<Rightarrow> TestFailure list" where
  "json_failure procedure err = [failure procedure (''JSON parsing error ('' @ err @ '')'')]"

section \<open>Version and ServicesStatus\<close>

definition TestHttpVersion ::
  "'s test_env \<Rightarrow> ('c, 's) net_env \<Rightarrow> FunctionalTestConfig \<Rightarrow> 's test_run" where
  "TestHttpVersion te net config =
     http_get te net ''Version/HTTP'' ''/api/v1/version'' [bearer_header config, json_header] config
       (\<lambda>resp. case te_Version te resp of
          (res, Some err) \<Rightarrow> json_failure ''Version/HTTP'' err
        | (res, None) \<Rightarrow> testVersionResponse EmptyMessage (Some res))"

definition TestHttpServicesStatus ::
  "'s test_env \<Rightarrow> ('c, 's) net_env \<Rightarrow> FunctionalTestConfig \<Rightarrow> 's test_run" where
  "TestHttpServicesStatus te net config =
     http_get te net ''ServicesStatus/HTTP'' ''/api/v1/services/status'' [bearer_header config, json_header] config
       (\<lambda>resp. case te_Status te resp of
          (res, Some err) \<Rightarrow> json_failure ''ServicesStatus/HTTP'' err
        | (res, None) \<Rightarrow> testServicesStatusReponse config EmptyMessage (Some res))"

section \<open>Status, swagger, metrics\<close>

text \<open>The errors of reading a body are ignored here: what was read is judged.\<close>

definition TestHttpStatus ::
  "'s test_env \<Rightarrow> ('c, 's) net_env \<Rightarrow> FunctionalTestConfig \<Rightarrow> 's test_run" where
  "TestHttpStatus te net config =
     http_get te net ''Status/HTTP'' ''/status'' [bearer_header config] config
       (\<lambda>resp. if hr_Body resp \<noteq> ''OK'' then
          [failure ''Stats/HTTP'' (''expected status '' @ dquote ''OK'' @ '', got '' @ dquote (hr_Body resp))]
        else [])"

definition json_field :: "(string \<times> json) list \<Rightarrow> string \<Rightarrow> json option" where
  "json_field m k = map_of m k"

definition is_string :: "json option \<Rightarrow> bool" where
  "is_string j = (case j of Some (JString _) \<Rightarrow> True | _ \<Rightarrow> False)"

definition is_object :: "json option \<Rightarrow> bool" where
  "is_object j = (case j of Some (JObject _) \<Rightarrow> True | _ \<Rightarrow> False)"

definition check_swagger :: "'s test_env \<Rightarrow> string \<Rightarrow> TestFailure list" where
  "check_swagger te body =
     (case te_json te body of
        Inl err \<Rightarrow> json_failure ''Swagger/HTTP'' err
      | Inr responseData \<Rightarrow>
          (case responseData of
             JObject m \<Rightarrow>
               if \<not> is_string (json_field m ''swagger'') then
                 [failure ''Swagger/HTTP'' ''JSON response should contain the Swagger version field'']
               else if \<not> is_object (json_field m ''info'') then
                 [failure ''Swagger/HTTP'' ''JSON response should contain the Swagger info object'']
               else if \<not> is_object (json_field m ''paths'') then
                 [failure ''Swagger/HTTP'' ''JSON response should contain the Swagger paths object'']
               else []
           | _ \<Rightarrow> json_failure ''Swagger/HTTP'' ''top-level map''))"

definition TestHttpSwagger ::
  "'s test_env \<Rightarrow> ('c, 's) net_env \<Rightarrow> FunctionalTestConfig \<Rightarrow> 's test_run" where
  "TestHttpSwagger te net config =
     http_get te net ''Swagger/HTTP'' ''/api/v1/swagger.json'' [bearer_header config, json_header] config
       (\<lambda>resp. check_swagger te (hr_Body resp))"

definition metrics_patterns :: "string list" where
  "metrics_patterns =
     [''^process_cpu_seconds_total'', ''^process_open_fds'', ''^process_resident_memory_bytes'',
      ''^process_start_time_seconds'', ''^process_virtual_memory_bytes'', ''^go_goroutines'',
      ''^go_memstats_alloc_bytes'']"

definition metrics_routeMap :: "(string \<times> string) list" where
  "metrics_routeMap =
     [(''/api/v1/services/status'', ''Api.ServicesStatus''),
      (''/api/v1/rsvp_creation'', ''Api.RsvpCreation''),
      (''/api/v1/version'', ''Api.Version'')]"

definition escape_bars :: "string \<Rightarrow> string" where
  "escape_bars label = concat (List.map (\<lambda>c. if c = CHR ''|'' then [CHR 0x5C, CHR ''|''] else [c]) label)"

definition label_patterns :: "string \<Rightarrow> string list" where
  "label_patterns label =
     concat (List.map (\<lambda>lblMethod.
       let method = TrimPrefix lblMethod ''Api.''
       in [''^grpc_server_handled_total.+grpc_method='' @ dquote method,
           ''^grpc_server_msg_received_total.+grpc_method='' @ dquote method,
           ''^grpc_server_msg_sent_total.+grpc_method='' @ dquote method])
       (split_char (CHR ''|'') label)) @
     [''^http_request_duration_microseconds.+handler='' @ dquote (escape_bars label),
      ''^http_request_size_bytes.+handler='' @ dquote (escape_bars label)]"

text \<open>\<open>order\<close> lists the entries of the map in the order in which the loop visits them.\<close>

definition check_metrics :: "'s test_env \<Rightarrow> (string \<times> string) list \<Rightarrow> string \<Rightarrow> TestFailure list" where
  "check_metrics te order body =
     (if body = [] then [failure ''Metrics/HTTP'' ''response should contain metrics data'']
      else
        (let patternsToMatch = metrics_patterns @ concat (List.map (\<lambda>(_, label). label_patterns label) order);
             lns = split_char (CHR 0x0A) body
         in concat (List.map (\<lambda>pattern.
              case te_Compile te pattern of
                Inl err \<Rightarrow>
                  [failure ''Metrics/HTTP'' (''could not compile regular expression '' @ dquote pattern @
                     '' ('' @ err @ '')'')]
              | Inr matches \<Rightarrow>
                  if \<not> list_ex matches lns then
                    [failure ''Metrics/HTTP'' (''could not match regular expression '' @ dquote pattern @
                       '' in metrics output'')]
                  else []) patternsToMatch)))"

definition TestHttpMetrics ::
  "'s test_env \<Rightarrow> ('c, 's) net_env \<Rightarrow> (string \<times> string) list \<Rightarrow> FunctionalTestConfig \<Rightarrow> 's test_run" where
  "TestHttpMetrics te net order config =
     http_get te net ''Metrics/HTTP'' ''/metrics'' [bearer_header config] config
       (\<lambda>resp. check_metrics te order (hr_Body resp))"

section \<open>RsvpCreation\<close>

definition http_case :: "RsvpCreationRequest \<Rightarrow> RsvpCreationResponse iface \<Rightarrow> string option \<Rightarrow> TestCaseResult" where
  "http_case req res err = \<lparr>tc_Request = IPtr (Some req), tc_Response = res, tc_Error = map_option Plain err\<rparr>"

text \<open>What comes of one request: an error at one of the steps, or the decoded response.\<close>

definition http_rsvp ::
  "'s test_env \<Rightarrow> http_client \<Rightarrow> string \<Rightarrow> FunctionalTestConfig \<Rightarrow> RsvpCreationRequest \<Rightarrow> 's \<Rightarrow>
   TestCaseResult \<times> 's" where
  "http_rsvp te client url config req s =
     (let failed = (\<lambda>text. http_case req INil (Some (''RsvpCreation/HTTP POST error '' @ text)));
          v = te_show te req
      in case te_Marshal te req of
           Inl err \<Rightarrow> (failed (''to marshalling the message with '' @ url @ '' ('' @ err @ '') - '' @ v), s)
         | Inr sMsg \<Rightarrow>
             (case te_NewRequest te ''POST'' url of
                Some err \<Rightarrow>
                  (failed (''to construct the http request with '' @ url @ '' ('' @ err @ '') - '' @ v), s)
              | None \<Rightarrow>
                  (case te_Do te client ''POST'' url [bearer_header config, json_header] sMsg s of
                     (Inl err, s1) \<Rightarrow> (failed (''on '' @ url @ '' ('' @ err @ '') - '' @ v), s1)
                   | (Inr resp, s1) \<Rightarrow>
                       (case hr_ReadErr resp of
                          Some err \<Rightarrow> (failed (''on '' @ url @ '' ('' @ err @ '') - '' @ v @ '' - readAll body''), s1)
                        | None \<Rightarrow>
                            (let (httpError, err) = te_HttpError te (hr_Body resp)
                             in if err = None \<and> (he_Code httpError \<noteq> 0 \<or> he_Error httpError \<noteq> []) then
                                  (failed (''on '' @ url @ '' (Code: '' @ nat_dec (he_Code httpError) @
                                     '', Error: '' @ he_Error httpError @ '') - '' @ v), s1)
                                else
                                  (let (res, err2) = te_Rsvp te (hr_Body resp)
                                   in (http_case req (IPtr (Some res)) err2, s1)))))))"

fun post_each ::
  "(RsvpCreationRequest \<Rightarrow> 's \<Rightarrow> TestCaseResult \<times> 's) \<Rightarrow> RsvpCreationRequest list \<Rightarrow> 's \<Rightarrow>
   TestCaseResult list \<times> 's" where
  "post_each f [] s = ([], s)"
| "post_each f (req # reqs) s =
     (case f req s of
        (r, s1) \<Rightarrow> (case post_each f reqs s1 of (rs, s2) \<Rightarrow> (r # rs, s2)))"

definition TestHttpRsvpCreation ::
  "'s test_env \<Rightarrow> ('c, 's) net_env \<Rightarrow> RsvpCreationRequest \<times> string \<Rightarrow> FunctionalTestConfig \<Rightarrow> 's test_run" where
  "TestHttpRsvpCreation te net draw config s =
     (case httpClient net config of
        Inl err \<Rightarrow>
          (Inr [failure ''RsvpCreation/HTTP'' (''HTTP client initialization error ('' @ err @ '')'')], s)
      | Inr (client, serverAddr, proto) \<Rightarrow>
          (case testGetRsvpCreationRequest draw config of
             Inl err \<Rightarrow>
               (Inr [failure ''RsvpCreation/HTTP'' (''HTTP testGetRsvpCreationRequest error ('' @ err @ '')'')], s)
           | Inr reqs \<Rightarrow>
               (case post_each (http_rsvp te client (proto @ ''://'' @ serverAddr @ ''/api/v1/rsvp_creation'') config)
                   reqs s of
                  (results, s1) \<Rightarrow>
                    (Inr (testRsvpCreationResponse (te_panic te) config FUNCTEST_HTTP results), s1))))"

section \<open>The session\<close>

fun appendFailures :: "TestFailure list \<Rightarrow> TestFailure list \<Rightarrow> TestFailure list" where
  "appendFailures acc [] = acc"
| "appendFailures acc (f # newSlice) = appendFailures (acc @ [f]) newSlice"

fun run_tests :: "TestFailure list \<Rightarrow> 's test_run list \<Rightarrow> 's test_run" where
  "run_tests failures [] s = (Inr failures, s)"
| "run_tests failures (t # ts) s =
     (case t s of
        (Inl p, s1) \<Rightarrow> (Inl p, s1)
      | (Inr fs, s1) \<Rightarrow> run_tests (appendFailures failures fs) ts s1)"

text \<open>\<open>draw1\<close> and \<open>draw2\<close> are the random requests of the two tests that need them.\<close>

definition session_tests ::
  "'s test_env \<Rightarrow> ('c, 's) net_env \<Rightarrow> (string \<times> string) list \<Rightarrow> RsvpCreationRequest \<times> string \<Rightarrow>
   RsvpCreationRequest \<times> string \<Rightarrow> FunctionalTestConfig \<Rightarrow> 's test_run list" where
  "session_tests te net order draw1 draw2 config =
     [TestVersion te net config, TestHttpVersion te net config,
      TestServicesStatus te net config, TestHttpServicesStatus te net config,
      TestRsvpCreation te net draw1 config, TestHttpRsvpCreation te net draw2 config,
      TestHttpStatus te net config, TestHttpMetrics te net order config, TestHttpSwagger te net config]"

definition runFunctionalTestSession ::
  "'s test_env \<Rightarrow> ('c, 's) net_env \<Rightarrow> (string \<times> string) list \<Rightarrow> RsvpCreationRequest \<times> string \<Rightarrow>
   RsvpCreationRequest \<times> string \<Rightarrow> FunctionalTestConfig \<Rightarrow> 's test_run" where
  "runFunctionalTestSession te net order draw1 draw2 config =
     run_tests [] (session_tests te net order draw1 draw2 config)"

end
