(* ===== verification/Service_Facts.thy ===== *)
theory Service_Facts
  imports Service
begin

text \<open>
  How a call runs through the registry, the handler and the interceptors of this service, and
  the effect of \<open>RsvpCreation\<close> on the server's state.
\<close>

section \<open>Routing\<close>

lemma RegisterHandlerWww_empty:
  "RegisterHandlerWww Map.empty srv = Some [''grpc.hugdubois.www.Www'' \<mapsto> (Www_serviceDesc, srv)]"
  by (simp add: RegisterHandlerWww_def RegisterService_def Www_serviceDesc_def)

lemma Invoke_methods:
  assumes "reg ''grpc.hugdubois.www.Www'' = Some (Www_serviceDesc, srv)"
  shows "Invoke reg i c Version_name req s = Www_Version_Handler srv (makeServerContext c) req i s"
    and "Invoke reg i c ServicesStatus_name req s =
      Www_ServicesStatus_Handler srv (makeServerContext c) req i s"
    and "Invoke reg i c RsvpCreation_name req s =
      Www_RsvpCreation_Handler srv (makeServerContext c) req i s"
  using assms
  by (simp_all add: Invoke_def Version_name_def ServicesStatus_name_def RsvpCreation_name_def Let_def
      FindUnaryMethod_def Www_serviceDesc_def)

lemma serve_methods [flow]:
  "serve drv verify env finish c Version_name (ReqEmpty m) s =
     www_interceptor verify env Version_name (makeServerContext c) (ReqEmpty m)
       (\<lambda>c req s. case req of ReqEmpty m \<Rightarrow> lift_handler RespVersion (Version c m s)
         | _ \<Rightarrow> (Panic TypeAssertion, s)) s"
  "serve drv verify env finish c ServicesStatus_name (ReqEmpty m) s =
     www_interceptor verify env ServicesStatus_name (makeServerContext c) (ReqEmpty m)
       (\<lambda>c req s. case req of ReqEmpty m \<Rightarrow> lift_handler RespStatus (ServicesStatus env finish c m s)
         | _ \<Rightarrow> (Panic TypeAssertion, s)) s"
  "serve drv verify env finish c RsvpCreation_name (ReqRsvp r) s =
     www_interceptor verify env RsvpCreation_name (makeServerContext c) (ReqRsvp r)
       (\<lambda>c req s. case req of ReqRsvp r \<Rightarrow> lift_handler RespRsvp (RsvpCreation drv env c r s)
         | _ \<Rightarrow> (Panic TypeAssertion, s)) s"
  by (simp_all add: serve_def RegisterHandlerWww_empty Invoke_methods Www_Version_Handler_def
      Www_ServicesStatus_Handler_def Www_RsvpCreation_Handler_def www_server_def
      cong: www_req.case_cong)

section \<open>Authentication\<close>

lemma AuthFuncOverride_public [flow]:
  "public_method m \<Longrightarrow> \<exists>c'. AuthFuncOverride verify s c m = Inr c'"
  by (auto simp: AuthFuncOverride_def public_method_def split: sum.split)

lemma AclFuncOverride_public [flow]: "public_method m \<Longrightarrow> AclFuncOverride s c m q = None"
  by (auto simp: AclFuncOverride_def public_method_def)

lemma public_names [simp]:
  "public_method Version_name" "public_method ServicesStatus_name" "\<not> public_method RsvpCreation_name"
  by (simp_all add: public_method_def Version_name_def ServicesStatus_name_def RsvpCreation_name_def)

text \<open>A private method passes the authentication exactly with a verified token, or without a secret.\<close>

lemma AuthFuncOverride_private:
  assumes "\<not> public_method m"
  shows "AuthFuncOverride verify s c m =
    (if ws_jwtSecret s = [] then Inr c
     else (case AuthFromMD c ''bearer'' of
             Inl e \<Rightarrow> Inl e
           | Inr t \<Rightarrow> (case verify (ws_jwtSecret s) t of
                          None \<Rightarrow> Inl (Status CodeUnauthenticated ''invalid auth token'')
                        | Some claims \<Rightarrow> Inr (c\<lparr>x_jwt := Some claims\<rparr>))))"
  using assms
  by (auto simp: AuthFuncOverride_def public_method_def ParseJWTFromContext_def jwt_Parse_def
      status_Errorf0_def Sprintf0_plain split: sum.split option.split)

lemma AclFuncOverride_private:
  "\<not> public_method m \<Longrightarrow> AclFuncOverride s c m q =
     (if ws_jwtSecret s = [] \<or> x_jwt c \<noteq> None then None else Some ''Invalid jwt'')"
  by (auto simp: AclFuncOverride_def public_method_def split: option.split)

lemma AuthFromMD_code: "AuthFromMD c sch = Inl e \<Longrightarrow> rpc_error_code e = CodeUnauthenticated"
  by (auto simp: AuthFromMD_def status_Errorf0_def Let_def split: if_splits)

lemma ensureCorrelationId_auth:
  assumes "ensureCorrelationId rnd b c = Some c'"
  shows "AuthFromMD c' sch = AuthFromMD c sch"
proof -
  have "MD_Get (ExtractIncoming c') ''authorization'' = MD_Get (ExtractIncoming c) ''authorization''"
    using assms
    by (auto simp: ensureCorrelationId_def Let_def ExtractIncoming_def MD_Get_def MD_Add_def
        correlationId_def ToLower_def lower_char_def less_eq_char_def split: option.splits if_splits)
  then show ?thesis by (simp add: AuthFromMD_def)
qed

section \<open>RsvpCreation\<close>

text \<open>A request that passes its validator passes the checks of the model.\<close>

lemma validated_lengths:
  "RsvpCreationRequest_Validate m = None \<Longrightarrow>
     length (rq_Names m) \<in> {3..255} \<and> length (rq_ChildrenNameAge m) \<le> 255 \<and> length (rq_Music m) \<le> 255"
  by (auto simp: RsvpCreationRequest_Validate_def split: if_splits)

text \<open>What the handler can do to the server: nothing, open the handle, or run \<open>CreateRsvp\<close> on it.\<close>

lemma initDatabaseHandle_cases:
  assumes "initDatabaseHandle drv s = (e, s1)"
  shows "s1 = s \<or>
    (\<exists>d. ws_sqliteHandle s = None \<and> gorm_Open drv (ws_sqliteDataSourceName s) = Inr d \<and>
      s1 = s\<lparr>ws_sqliteHandle := Some d\<rparr>)"
  using assms by (auto simp: initDatabaseHandle_def split: option.splits sum.splits)

lemma initDatabaseHandle_ok:
  assumes "initDatabaseHandle drv s = (None, s1)"
  shows "\<exists>d. ws_sqliteHandle s1 = Some d \<and> d_ping drv d = None"
  using assms by (auto simp: initDatabaseHandle_def split: option.splits sum.splits)

lemma initDatabaseHandle_idem:
  assumes "initDatabaseHandle drv s = (None, s1)"
  shows "initDatabaseHandle drv s1 = (None, s1)"
  using assms by (auto simp: initDatabaseHandle_def split: option.splits sum.splits)

definition same_config :: "'db wwwServer \<Rightarrow> 'db wwwServer \<Rightarrow> bool" where
  "same_config s t = (s\<lparr>ws_sqliteHandle := None\<rparr> = t\<lparr>ws_sqliteHandle := None\<rparr>)"

lemma same_config_handle [simp]: "same_config (s\<lparr>ws_sqliteHandle := h\<rparr>) t = same_config s t"
  "same_config s (t\<lparr>ws_sqliteHandle := h\<rparr>) = same_config s t" "same_config s s"
  by (simp_all add: same_config_def)

lemma same_config_trans: "same_config s t \<Longrightarrow> same_config t u \<Longrightarrow> same_config s u"
  by (simp add: same_config_def)

lemma RsvpCreation_state:
  assumes "RsvpCreation drv env c req s = (out, s')"
  shows "s' = s \<or>
    (\<exists>e s1. initDatabaseHandle drv s = (e, s1) \<and>
      (s' = s1 \<or>
       (\<exists>d n em p ch h m b ro err d'. ws_sqliteHandle s1 = Some d \<and>
          CreateRsvp drv (e_now env) (e_rnd env) n em p ch h m b d = Some (ro, err, d') \<and>
          s' = s1\<lparr>ws_sqliteHandle := Some d'\<rparr>)))"
  using assms
  by (auto simp: RsvpCreation_def Let_def split: option.splits prod.splits) blast+

lemma RsvpCreation_config:
  assumes "RsvpCreation drv env c req s = (out, s')"
  shows "same_config s s'"
  using RsvpCreation_state [OF assms] initDatabaseHandle_cases by fastforce

section \<open>Sorting by different keys\<close>

lemma sort_key_eq_of_mset:
  assumes "mset xs = mset ys" and "inj_on f (set xs)"
  shows "sort_key f xs = sort_key f ys"
proof (rule properties_for_sort_key)
  show "mset (sort_key f ys) = mset xs" using assms(1) by simp
  show "sorted (map f (sort_key f ys))" by simp
  show "filter (\<lambda>y. f k = f y) (sort_key f ys) = filter (\<lambda>y. f k = f y) xs"
    if "k \<in> set (sort_key f ys)" for k
  proof -
    have k: "k \<in> set xs" using that mset_eq_setD [OF assms(1)] by simp
    have m: "mset (filter (\<lambda>y. f k = f y) (sort_key f ys)) = mset (filter (\<lambda>y. f k = f y) xs)"
      using assms(1) by (simp add: mset_filter)
    have "replicate (length (filter (\<lambda>y. f k = f y) zs)) k = filter (\<lambda>y. f k = f y) zs"
      if "set zs \<subseteq> set xs" for zs
      using that k assms(2) by (intro replicate_length_same) (auto simp: inj_on_def)
    moreover have "set (sort_key f ys) \<subseteq> set xs" using mset_eq_setD [OF assms(1)] by simp
    ultimately show ?thesis using mset_eq_length [OF m] by (metis order_refl)
  qed
qed

section \<open>Every call\<close>

text \<open>The interceptors leave the state alone; only the handler changes it.\<close>

lemma stack_state:
  assumes "ChainUnaryServer (uInterceptors rnd auth v acl m) c q h s = (out, s')"
  shows "s' = s \<or> (\<exists>c2. s' = snd (h c2 q s))"
proof -
  have "snd (recovery_interceptor c2 q h s) = snd (h c2 q s)" for c2
    by (auto simp: recovery_interceptor_def split: prod.split outcome.split)
  with assms show ?thesis
    unfolding stack_unfold by (auto split: option.splits sum.splits) (metis snd_conv)
qed

lemma lift_handler_snd [simp]: "snd (lift_handler f x) = snd x"
  by (simp add: lift_handler_def)

lemma serve_state:
  fixes verify :: "string \<Rightarrow> string \<Rightarrow> 'c option"
  assumes "serve drv verify env finish c m req s = (out, s')"
  shows "s' = s \<or> (\<exists>(c2 :: 'c ctx) r. s' = snd (RsvpCreation drv env c2 r s))"
proof -
  let ?srv = "www_server drv env finish" and ?i = "www_interceptor verify env"
  have V: "s' = s" if "Www_Version_Handler ?srv c2 req (Some ?i) s = (out, s')" for c2
    using that
    by (auto simp: Www_Version_Handler_def www_interceptor_def www_server_def Version_def
        dest!: stack_state split: sum.splits www_req.splits)
  have S: "s' = s" if "Www_ServicesStatus_Handler ?srv c2 req (Some ?i) s = (out, s')" for c2
    using that
    by (auto simp: Www_ServicesStatus_Handler_def www_interceptor_def www_server_def ServicesStatus_def
        dest!: stack_state split: sum.splits www_req.splits)
  have R: "s' = s \<or> (\<exists>(c2 :: 'c ctx) r. s' = snd (RsvpCreation drv env c2 r s))"
    if "Www_RsvpCreation_Handler ?srv c2 req (Some ?i) s = (out, s')" for c2
    using that
    by (auto simp: Www_RsvpCreation_Handler_def www_interceptor_def www_server_def
        dest!: stack_state split: sum.splits www_req.splits) metis
  show ?thesis
    using assms V S R
    by (auto simp: serve_def RegisterHandlerWww_empty Invoke_def Let_def FindUnaryMethod_def
        Www_serviceDesc_def split: if_splits option.splits)
qed

context sql_store
begin

lemma CreateRsvp_up:
  assumes "up d" and "CreateRsvp drv now rnd n e p c h m b d = Some (ro, err, d')"
  shows "up d'"
proof -
  have "up (sc_db sc)" if "gorm_Create drv now rnd v d = Some sc" for v sc
  proof -
    from create_shape [OF that] obtain t w where sc: "sc = transact drv t w d" by blast
    obtain e1 d2 where "e1 = None \<Longrightarrow> \<exists>d3. sc = \<lparr>sc_db = d3, sc_started = True, sc_errs = [], sc_val = w\<rparr>
        \<and> rows d3 = rows d2 \<and> up d3"
      "\<And>m. e1 = Some m \<Longrightarrow> \<exists>d3. sc =
        \<lparr>sc_db = d3, sc_started = True, sc_errs = [DbError m], sc_val = w\<rparr> \<and> rows d3 = rows d \<and> up d3"
      using transact_up [OF assms(1), of t w] unfolding sc by metis
    then show ?thesis by (cases e1) auto
  qed
  with assms show ?thesis by (auto simp: CreateRsvp_def split: sum.splits option.splits)
qed

end

section \<open>The life of a server\<close>

text \<open>
  The steps of a server: a call of any method with any request, context and environment whose
  random source yields 16 bytes, or a close of the database handle.
\<close>

inductive server_step ::
  "'db driver \<Rightarrow> (string \<Rightarrow> string \<Rightarrow> 'c option) \<Rightarrow> 'db wwwServer \<Rightarrow> 'db wwwServer \<Rightarrow> bool"
  for drv verify where
  call: "(\<forall>bs. e_rnd env = Some bs \<longrightarrow> length bs = 16) \<Longrightarrow>
     serve drv verify env finish c m req s = (out, s') \<Longrightarrow> server_step drv verify s s'"
| close: "closeDatabaseHandle drv s = (e, s') \<Longrightarrow> server_step drv verify s s'"

inductive_cases server_stepE: "server_step drv verify s s'"

inductive server_reach ::
  "'db driver \<Rightarrow> (string \<Rightarrow> string \<Rightarrow> 'c option) \<Rightarrow> 'db wwwServer \<Rightarrow> 'db wwwServer \<Rightarrow> bool"
  for drv verify s where
  start: "server_reach drv verify s s"
| more: "server_reach drv verify s t \<Longrightarrow> server_step drv verify t u \<Longrightarrow> server_reach drv verify s u"

definition handle_ok :: "('db \<Rightarrow> rsvp_row list) \<Rightarrow> ('db \<Rightarrow> bool) \<Rightarrow> 'db wwwServer \<Rightarrow> bool" where
  "handle_ok rows up s =
     (case ws_sqliteHandle s of None \<Rightarrow> True | Some d \<Rightarrow> up d \<and> wf_table (rows d))"

context sql_store
begin

lemma RsvpCreation_handle_ok:
  assumes "handle_ok rows up s" and "\<forall>bs. e_rnd env = Some bs \<longrightarrow> length bs = 16"
    and "\<And>d. gorm_Open drv (ws_sqliteDataSourceName s) = Inr d \<Longrightarrow> up d \<and> wf_table (rows d)"
    and "RsvpCreation drv env c req s = (out, s')"
  shows "handle_ok rows up s'"
proof -
  have i: "handle_ok rows up s1" if "initDatabaseHandle drv s = (e, s1)" for e s1
    using initDatabaseHandle_cases [OF that] assms(1,3) by (auto simp: handle_ok_def)
  have k: "handle_ok rows up (s1\<lparr>ws_sqliteHandle := Some d'\<rparr>)"
    if "initDatabaseHandle drv s = (e, s1)" "ws_sqliteHandle s1 = Some d"
      "CreateRsvp drv (e_now env) (e_rnd env) n em p ch h m b d = Some (ro, err, d')"
    for e s1 d n em p ch h m b ro err d'
  proof -
    have d: "up d" "wf_table (rows d)" using i [OF that(1)] that(2) by (simp_all add: handle_ok_def)
    have "wf_table (rows d')"
    proof (cases "e_rnd env")
      case None
      with that(3) d show ?thesis
        by (auto simp: CreateRsvp_def gorm_Create_unfold UUID_New_def NewRandom_def split: sum.splits)
    next
      case (Some bs)
      with assms(2) CreateRsvp_wf [OF d(2,1)] that(3) show ?thesis by auto
    qed
    with CreateRsvp_up [OF d(1) that(3)] show ?thesis by (simp add: handle_ok_def)
  qed
  from RsvpCreation_state [OF assms(4)] assms(1) i k show ?thesis by blast
qed

lemma step_handle_ok:
  assumes "server_step drv verify s s'" and "handle_ok rows up s"
    and "\<And>d. gorm_Open drv (ws_sqliteDataSourceName s) = Inr d \<Longrightarrow> up d \<and> wf_table (rows d)"
  shows "handle_ok rows up s' \<and> same_config s s'"
proof -
  from assms(1) consider
      (call) env finish c m req out where "\<forall>bs. e_rnd env = Some bs \<longrightarrow> length bs = 16"
        "serve drv verify env finish c m req s = (out, s')"
    | (close) e where "closeDatabaseHandle drv s = (e, s')"
    by (auto elim!: server_stepE)
  then show ?thesis
  proof cases
    case call
    from serve_state [OF call(2)] show ?thesis
    proof
      assume "\<exists>(c2 :: 'b ctx) r. s' = snd (RsvpCreation drv env c2 r s)"
      then obtain c2 :: "'b ctx" and r out2 where "RsvpCreation drv env c2 r s = (out2, s')"
        by (metis prod.collapse)
      with RsvpCreation_handle_ok [OF assms(2) call(1) assms(3)] RsvpCreation_config
      show ?thesis by blast
    qed (use assms(2) in simp)
  next
    case close
    then show ?thesis using assms(2)
      by (auto simp: closeDatabaseHandle_def handle_ok_def split: option.splits)
  qed
qed

lemma reach_handle_ok:
  assumes "server_reach drv verify s t" and "handle_ok rows up s"
    and "\<And>d. gorm_Open drv (ws_sqliteDataSourceName s) = Inr d \<Longrightarrow> up d \<and> wf_table (rows d)"
  shows "handle_ok rows up t \<and> same_config s t"
  using assms(1)
proof (induction rule: server_reach.induct)
  case start
  with assms(2) show ?case by simp
next
  case (more t u)
  have "ws_sqliteDataSourceName t = ws_sqliteDataSourceName s"
    using more.IH by (auto simp: same_config_def) (metis wwwServer.select_convs(6) wwwServer.surjective wwwServer.update_convs(7))
  with step_handle_ok [OF more.hyps(2)] more.IH assms(3) show ?case
    by (metis same_config_trans)
qed

end

end
