(* ===== verification/Models_Props.thy ===== *)
theory Models_Props
  imports Models_Facts
begin

text \<open>
  The properties of the package \<open>models\<close>, over every SQL engine that satisfies \<open>sql_store\<close>,
  each with an instance on the engine that keeps the table as a list.
\<close>

section \<open>Tables for the instances\<close>

definition empty_mem :: mem where
  "empty_mem = \<lparr>m_rows = [], m_base = [], m_tables = [''rsvps'']\<rparr>"

definition new_bytes :: "byte list" where
  "new_bytes = replicate 16 1"

definition new_uuid :: UUID where
  "new_uuid = [1, 1, 1, 1, 1, 1, 0x41, 1, 0x81, 1, 1, 1, 1, 1, 1, 1]"

lemma UUID_New_new_bytes: "UUID_New (Some new_bytes) = Some new_uuid"
  by (simp add: UUID_New_def NewRandom_def new_bytes_def new_uuid_def numeral_eq_Suc)

lemma length_new_bytes [simp]: "length new_bytes = 16"
  by (simp add: new_bytes_def)

lemma new_uuid_facts: "length new_uuid = 16" "new_uuid \<noteq> zero_UUID"
  by (simp_all add: new_uuid_def zero_UUID_def numeral_eq_Suc)

definition sample_row :: rsvp_row where
  "sample_row = \<lparr>c_uuid = UUID_Value new_uuid, c_names = ''Ada'', c_email = ''a@b'',
     c_presence = True, c_children_name_age = [], c_housing = False, c_music = [],
     c_brunch = True, c_created_at = 5, c_updated_at = 5, c_deleted_at = None\<rparr>"

definition sample_mem :: mem where
  "sample_mem = \<lparr>m_rows = [sample_row], m_base = [], m_tables = [''rsvps'']\<rparr>"

definition sample_disk :: "string \<Rightarrow> string + mem" where
  "sample_disk dsn = Inr sample_mem"

lemma sample_wf: "wf_table (m_rows sample_mem)"
  using canonical_Value [OF new_uuid_facts] by (simp add: wf_table_def sample_mem_def sample_row_def)

lemma sample_up [simp]: "mem_up sample_mem" "mem_up empty_mem"
  by (simp_all add: mem_up_def sample_mem_def empty_mem_def)

lemma empty_rows [simp]: "m_rows empty_mem = []"
  by (simp add: empty_mem_def)

section \<open>Create\<close>

text \<open>
  C15: with parameters that pass the length checks, a working random source and a fresh
  identifier, \<open>CreateRsvp\<close> appends exactly one row, which holds the parameters, the new
  identifier and the current time twice, and returns the struct of that row without an error.
\<close>

lemma CreateRsvp_appends_row:
  assumes "sql_store drv rows base up ord" and "up d"
    and "length n \<in> {3..255}" and "length c \<le> 255" and "length m \<le> 255"
    and "UUID_New rnd = Some u" and "UUID_Value u \<notin> c_uuid ` set (rows d)"
  shows "\<exists>w d'. CreateRsvp drv now rnd n e p c h m b d = Some (Some w, None, d') \<and>
    rows d' = rows d @ [to_row w] \<and>
    w = \<lparr>r_UUID = u, r_Names = n, r_Email = e, r_Presence = p, r_ChildrenNameAge = c,
      r_Housing = h, r_Music = m, r_Brunch = b, r_CreatedAt = now, r_UpdatedAt = now,
      r_DeletedAt = None\<rparr>"
  by (rule sql_store.CreateRsvp_valid [OF assms(1,2,6,7,3-5)])

theorem CreateRsvp_appends_row_witness:
  "\<exists>w d'. CreateRsvp (mem_driver sample_disk) 7 (Some new_bytes) ''Ada'' ''a@b'' True [] False [] True
      empty_mem = Some (Some w, None, d') \<and> length (m_rows d') = 1"
  using CreateRsvp_appends_row [OF mem.sql_store_axioms, of empty_mem "''Ada''" "[]" "[]"
      "Some new_bytes" new_uuid sample_disk 7 "''a@b''" True False True]
  by (auto simp: UUID_New_new_bytes)

text \<open>
  With parameters that fail a length check nothing is written and the result is an error
  alone.
\<close>

lemma CreateRsvp_invalid:
  assumes "length n < 3 \<or> length n > 255 \<or> length c > 255 \<or> length m > 255"
  shows "\<exists>err. CreateRsvp drv now rnd n e p c h m b d = Some (None, Some err, d)"
  using assms by (auto simp: CreateRsvp_def castRsvpParams_def)

lemma CreateRsvp_invalid_sample:
  "\<exists>err. CreateRsvp (mem_driver sample_disk) 7 None ''Al'' ''a@b'' True [] False [] True
      empty_mem = Some (None, Some err, empty_mem)"
  by (rule CreateRsvp_invalid) simp

text \<open>
  C16: what was created is found: after a successful \<open>CreateRsvp\<close> on a well-formed table,
  \<open>FindRsvpByUUID\<close> returns the created struct, under the printed identifier and under its URN
  form.
\<close>

lemma CreateRsvp_FindRsvpByUUID:
  assumes "sql_store drv rows base up ord" and "up d" and "wf_table (rows d)" and "length bs = 16"
    and "CreateRsvp drv now (Some bs) n e p c h m b d = Some (Some w, None, d')"
  shows "FindRsvpByUUID drv (UUID_String (r_UUID w)) d' = Inr w \<and>
    FindRsvpByUUID drv (''urn:uuid:'' @ UUID_String (r_UUID w)) d' = Inr w"
proof (intro conjI)
  note l = sql_store.CreateRsvp_success(3) [OF assms(1,3,2,4,5)]
  note f = sql_store.CreateRsvp_Find [OF assms(1,3,2,4,5)]
  show "FindRsvpByUUID drv (UUID_String (r_UUID w)) d' = Inr w"
    by (rule f [OF Parse_String [OF l]])
  show "FindRsvpByUUID drv (''urn:uuid:'' @ UUID_String (r_UUID w)) d' = Inr w"
    by (rule f [OF Parse_urn_String [OF l]])
qed

theorem CreateRsvp_FindRsvpByUUID_witness:
  "\<exists>w d'. CreateRsvp (mem_driver sample_disk) 7 (Some new_bytes) ''Ada'' ''a@b'' True [] False [] True
      empty_mem = Some (Some w, None, d') \<and>
     FindRsvpByUUID (mem_driver sample_disk) (UUID_String (r_UUID w)) d' = Inr w"
proof -
  have "\<exists>w d'. CreateRsvp (mem_driver sample_disk) 7 (Some new_bytes) ''Ada'' ''a@b'' True [] False
      [] True empty_mem = Some (Some w, None, d')"
    using sql_store.CreateRsvp_valid [OF mem.sql_store_axioms, of empty_mem "Some new_bytes" new_uuid
        "''Ada''" "[]" "[]" sample_disk 7 "''a@b''" True False True]
    by (auto simp: UUID_New_new_bytes)
  then show ?thesis
    using CreateRsvp_FindRsvpByUUID [OF mem.sql_store_axioms, of empty_mem new_bytes sample_disk 7]
    by (force simp: wf_table_def new_bytes_def)
qed

section \<open>The invariant of the table\<close>

text \<open>
  C17: the operations keep the table well formed: identifiers stay different, canonical and not
  all zero through \<open>CreateRsvp\<close>, \<open>UpdateRsvp\<close> and both deletions, whatever their outcome.
\<close>

lemma models_keep_wf_table:
  assumes "sql_store_no_limit drv rows base up ord" and "up d" and "wf_table (rows d)"
    and "length bs = 16"
  shows "(case CreateRsvp drv now (Some bs) n e p c h m b d of
        None \<Rightarrow> True | Some (_, _, d') \<Rightarrow> wf_table (rows d')) \<and>
    (case UpdateRsvp drv now s n e p c h m b d of (_, _, d') \<Rightarrow> wf_table (rows d')) \<and>
    (case DeleteRsvpLogically drv now s d of (_, _, d') \<Rightarrow> wf_table (rows d')) \<and>
    (case DeleteRsvpPhysically drv s d of (_, d') \<Rightarrow> wf_table (rows d'))"
proof (intro conjI)
  note S = sql_store_no_limit.axioms(1) [OF assms(1)]
  show "case CreateRsvp drv now (Some bs) n e p c h m b d of
      None \<Rightarrow> True | Some (_, _, d') \<Rightarrow> wf_table (rows d')"
    using sql_store.CreateRsvp_wf [OF S assms(3,2,4)] by (auto split: option.split)
  show "case UpdateRsvp drv now s n e p c h m b d of (_, _, d') \<Rightarrow> wf_table (rows d')"
    using sql_store.UpdateRsvp_wf [OF S assms(2,3)] by (auto split: prod.split)
  show "case DeleteRsvpLogically drv now s d of (_, _, d') \<Rightarrow> wf_table (rows d')"
    using sql_store_no_limit.DeleteRsvpLogically_unchanged [OF assms(1,2), of now s] assms(3) by auto
  show "case DeleteRsvpPhysically drv s d of (_, d') \<Rightarrow> wf_table (rows d')"
    using sql_store_no_limit.DeleteRsvpPhysically_unchanged [OF assms(1), of s d] assms(3) by auto
qed

theorem models_keep_wf_table_witness:
  "case UpdateRsvp (mem_driver sample_disk) 9 (UUID_String new_uuid) ''Eve'' ''e@f'' False [] True []
      False sample_mem of (_, _, d') \<Rightarrow> wf_table (m_rows d')"
  using models_keep_wf_table [OF mem.sql_store_no_limit_axioms sample_up(1) sample_wf,
      of new_bytes sample_disk 9] by (simp add: new_bytes_def)

section \<open>Update\<close>

text \<open>
  C18: \<open>UpdateRsvp\<close> never changes the data of the table. The map of changes holds pointers, which
  do not convert to the types of the fields, so the statement writes back what was read: on a
  well-formed table every column but the time of the last update is as before, also when the
  call reports success.
\<close>

lemma UpdateRsvp_never_changes_data:
  assumes "sql_store drv rows base up ord" and "up d" and "wf_table (rows d)"
    and "UpdateRsvp drv now s n e p c h m b d = (ro, err, d')"
  shows "map (\<lambda>r. r\<lparr>c_updated_at := t\<rparr>) (rows d') = map (\<lambda>r. r\<lparr>c_updated_at := t\<rparr>) (rows d)"
  using sql_store.UpdateRsvp_cases [OF assms] by auto

theorem UpdateRsvp_never_changes_data_witness:
  "\<exists>ro d'. UpdateRsvp (mem_driver sample_disk) 9 (UUID_String new_uuid) ''Eve'' ''e@f'' False [] True
      [] False sample_mem = (ro, None, d') \<and> map c_names (m_rows d') = [''Ada'']"
proof -
  let ?U = "UpdateRsvp (mem_driver sample_disk) 9 (UUID_String new_uuid) ''Eve'' ''e@f'' False [] True
    [] False sample_mem"
  obtain ro err d' where u: "?U = (ro, err, d')" by (cases ?U)
  have "map (\<lambda>r. r\<lparr>c_updated_at := 0\<rparr>) (m_rows d') = map (\<lambda>r. r\<lparr>c_updated_at := 0\<rparr>) (m_rows sample_mem)"
    by (rule UpdateRsvp_never_changes_data [OF mem.sql_store_axioms sample_up(1) sample_wf u])
  then have "map c_names (map (\<lambda>r. r\<lparr>c_updated_at := 0\<rparr>) (m_rows d')) = [''Ada'']"
    by (simp add: sample_mem_def sample_row_def)
  then have n: "map c_names (m_rows d') = [''Ada'']" by (simp add: comp_def)
  have "err = None"
    using sql_store.UpdateRsvp_found [OF mem.sql_store_axioms sample_up(1) sample_wf
        Parse_String [OF new_uuid_facts(1)] new_uuid_facts(2), of sample_row "''Eve''" "[]" "[]"
        sample_disk 9 "''e@f''" False True False] u
    by (auto simp: sample_mem_def sample_row_def)
  with u n show ?thesis by simp
qed

section \<open>Delete\<close>

text \<open>
  C19: on an engine built as this repository builds it, neither deletion ever succeeds: the
  statement carries \<open>LIMIT 1\<close>, which is a syntax error there, so the call returns an error and
  the table is unchanged, whether the row exists or not.
\<close>

lemma DeleteRsvp_never_succeeds:
  assumes "sql_store_no_limit drv rows base up ord" and "up d"
  shows "(\<exists>ro err d'. DeleteRsvpLogically drv now s d = (ro, Some err, d') \<and> rows d' = rows d) \<and>
    (\<exists>err d'. DeleteRsvpPhysically drv s d = (Some err, d') \<and> rows d' = rows d)"
  using sql_store_no_limit.DeleteRsvpLogically_unchanged [OF assms]
    sql_store_no_limit.DeleteRsvpPhysically_unchanged [OF assms(1)] by blast

theorem DeleteRsvp_never_succeeds_witness:
  "\<exists>err d'. DeleteRsvpPhysically (mem_driver sample_disk) (UUID_String new_uuid) sample_mem
     = (Some err, d') \<and> m_rows d' = [sample_row]"
  using DeleteRsvp_never_succeeds [OF mem.sql_store_no_limit_axioms sample_up(1)]
  by (auto simp: sample_mem_def)

section \<open>List\<close>

text \<open>
  C20: \<open>ListRsvps\<close> with a positive limit, in-range numbers and typed criteria returns the page the
  limit and the offset cut out of the matching rows in the engine's order, the number of all
  matching rows, and \<open>hasMore\<close> exactly when rows follow the page.
\<close>

lemma ListRsvps_page_and_total:
  assumes "sql_store drv rows base up ord" and "up d" and "wf_table (rows d)"
    and "list_all typed_cond (list_conds criteria ex only)" and "order \<in> {[], by_primary_key}"
    and "\<not> (ex \<and> only)" and "0 < unat limit" and "unat limit < 2 ^ 63" and "unat offset < 2 ^ 62"
    and "length (rows d) < 2 ^ 62"
  shows "\<exists>sel page. ListRsvps drv offset limit order criteria ex only d =
      (map from_row page, word_of_nat (length sel), unat offset + length page < length sel, None) \<and>
    sel = filter (conds_hold (list_conds criteria ex only)) (rows d) \<and>
    page = take (unat limit) (drop (unat offset) (ord order sel)) \<and>
    length page = min (unat limit) (length sel - unat offset)"
proof -
  let ?cs = "list_conds criteria ex only"
  let ?sel = "filter (conds_hold ?cs) (rows d)"
  let ?page = "take (unat limit) (drop (unat offset) (ord order ?sel))"
  have len: "length ?page = min (unat limit) (length ?sel - unat offset)"
    using sql_store.page_of_length [OF assms(1), of offset limit order ?cs d]
    by (simp add: sql_store.page_of_def [OF assms(1)])
  have sel: "length ?sel < 2 ^ 62" using assms(10) by (rule le_less_trans [OF length_filter_le])
  with len have pg: "unat offset + length ?page < 2 ^ 63" using assms(9) by simp
  have "sint (offset + word_of_nat (length ?page)) = int (unat offset + length ?page)"
    using sint_of_nat_small [OF pg] by simp
  moreover have "sint (word_of_nat (length ?sel) :: 64 word) = int (length ?sel)"
    using sel by (intro sint_of_nat_small) simp
  ultimately have lt: "sint (offset + word_of_nat (length ?page)) < sint (word_of_nat (length ?sel) :: 64 word)
      \<longleftrightarrow> unat offset + length ?page < length ?sel" by (simp only: of_nat_less_iff)
  have "ListRsvps drv offset limit order criteria ex only d = (map from_row ?page,
      word_of_nat (length ?sel),
      sint (offset + word_of_nat (length ?page)) < sint (word_of_nat (length ?sel) :: 64 word), None)"
    using sql_store.ListRsvps_page [OF assms(1-8)] assms(9)
    by (simp add: sql_store.page_of_def [OF assms(1)] Let_def)
  with len show ?thesis unfolding lt by blast
qed

theorem ListRsvps_page_and_total_witness:
  "\<exists>page. ListRsvps (mem_driver sample_disk) 0 10 [] [(''presence'', VBool True)] True False sample_mem =
     (map from_row page, 1, False, None) \<and> page = [sample_row]"
  using ListRsvps_page_and_total [OF mem.sql_store_axioms sample_up(1) sample_wf,
      of "[(''presence'', VBool True)]" True False "[]" 10 0 sample_disk]
  by (auto simp: list_conds_def sample_mem_def sample_row_def conds_hold_def mem_ord_def)

section \<open>Migration and flush\<close>

text \<open>
  On an engine that migrates, \<open>MigrateSchema\<close> followed by \<open>Flush\<close> on the migrated handle never
  reports an error: the table exists and is then empty.
\<close>

lemma MigrateSchema_then_Flush:
  assumes "migrating_store drv rows base up ord" and "gorm_Open drv dsn = Inr d"
    and "gorm_Open drv dsn2 = Inr (d_auto_migrate drv d)"
  shows "\<exists>d1 d2. MigrateSchema drv dsn = (None, Some d1) \<and> d_has_table drv d1 ''rsvps'' \<and>
    rows d1 = rows d \<and> Flush drv dsn2 = (None, Some d2) \<and> rows d2 = []"
proof -
  note S = migrating_store.axioms(1) [OF assms(1)]
  note M = migrating_store.migrate_table [OF assms(1)] migrating_store.migrate_rows [OF assms(1)]
    migrating_store.migrate_up [OF assms(1)]
  obtain e d2 where x: "d_exec drv (SqlDelete [] []) (d_auto_migrate drv d) = (e, d2)"
    by (cases "d_exec drv (SqlDelete [] []) (d_auto_migrate drv d)")
  with sql_store.delete_up [OF S M(3), of "[]" d] have e: "e = None" by simp
  with sql_store.delete_effect [OF S] x have "rows d2 = []"
    by (force simp: delete_rows_def conds_hold_def)
  with x e assms(2,3) M show ?thesis
    by (simp add: MigrateSchema_def Flush_def sqliteModels_def TableName_def Let_def)
qed

definition fresh_disk :: "string \<Rightarrow> string + mem" where
  "fresh_disk dsn = Inr (if dsn = ''new'' then sample_mem\<lparr>m_tables := []\<rparr> else sample_mem)"

lemma MigrateSchema_then_Flush_sample:
  "\<exists>d1 d2. MigrateSchema (mem_driver fresh_disk) ''new'' = (None, Some d1) \<and>
     Flush (mem_driver fresh_disk) ''old'' = (None, Some d2) \<and> m_rows d2 = []"
  using MigrateSchema_then_Flush [OF mem_migrating.migrating_store_axioms,
      of fresh_disk "''new''" "sample_mem\<lparr>m_tables := []\<rparr>" "''old''"]
  by (force simp: gorm_Open_def fresh_disk_def mem_driver_def mem_up_def sample_mem_def)

end
