(* ===== verification/Service_Props.thy ===== *)
theory Service_Props
  imports Service_Facts Models_Props
begin

text \<open>The properties of the server as a caller sees it, through the registry and the interceptors.\<close>

section \<open>Lemmas on the creation\<close>

text \<open>What the success of a creation returns.\<close>

definition created_rsvp :: "UUID \<Rightarrow> gtime \<Rightarrow> RsvpCreationRequest \<Rightarrow> Rsvp" where
  "created_rsvp u now req =
     \<lparr>r_UUID = u, r_Names = rq_Names req, r_Email = rq_Email req, r_Presence = rq_Presence req,
      r_ChildrenNameAge = rq_ChildrenNameAge req, r_Housing = rq_Housing req,
      r_Music = rq_Music req, r_Brunch = rq_Brunch req, r_CreatedAt = now, r_UpdatedAt = now,
      r_DeletedAt = None\<rparr>"

context sql_store
begin

lemma RsvpCreation_success:
  assumes "RsvpCreationRequest_Validate req = None"
    and "initDatabaseHandle drv s = (None, s1)" and "ws_sqliteHandle s1 = Some d" and "up d"
    and "UUID_New (e_rnd env) = Some u" and "UUID_Value u \<notin> c_uuid ` set (rows d)"
  shows "\<exists>d'. RsvpCreation drv env c req s =
      (Ret (Some (RsvpCreationResponse_Reset\<lparr>rs_Ok := True,
         rs_Info := Some (convertRsvpFromModelToProtocol (created_rsvp u (e_now env) req))\<rparr>)) None,
       s1\<lparr>ws_sqliteHandle := Some d'\<rparr>) \<and>
    rows d' = rows d @ [to_row (created_rsvp u (e_now env) req)]"
proof -
  from validated_lengths [OF assms(1)] have l: "length (rq_Names req) \<in> {3..255}"
    "length (rq_ChildrenNameAge req) \<le> 255" "length (rq_Music req) \<le> 255" by auto
  from CreateRsvp_valid [OF assms(4-6) l, of "e_now env" "rq_Email req" "rq_Presence req"
      "rq_Housing req" "rq_Brunch req"] assms(1-3)
  show ?thesis by (auto simp: RsvpCreation_def created_rsvp_def getter_defs)
qed

end

text \<open>The message made from a created row satisfies the validator of its type.\<close>

lemma created_uuid_matches:
  assumes "UUID_New (Some bs) = Some u" and "length bs = 16"
  shows "MatchString regex_Uuid (UUID_String u)"
proof -
  from assms have u: "u = bs[6 := (bs ! 6 AND 0x0f) OR 0x40, 8 := (bs ! 8 AND 0x3f) OR 0x80]"
    by (simp add: UUID_New_def NewRandom_def)
  then have "u ! 6 = (bs ! 6 AND 0x0f) OR 0x40" "u ! 8 = (bs ! 8 AND 0x3f) OR 0x80" "length u = 16"
    using assms(2) by simp_all
  then show ?thesis
    using version_nibble [of "bs ! 6"] variant_nibble [of "bs ! 8"]
    by (intro uuid_v4_matches) simp_all
qed

lemma created_info_valid:
  assumes "RsvpCreationRequest_Validate req = None" and "UUID_New (Some bs) = Some u"
    and "length bs = 16"
  shows "RsvpInfo_Validate (convertRsvpFromModelToProtocol (created_rsvp u now req)) = None"
  using assms(1) created_uuid_matches [OF assms(2,3)]
  by (auto simp: RsvpInfo_Validate_def RsvpCreationRequest_Validate_def created_rsvp_def
      convertRsvpFromModelToProtocol_def Let_def split: if_splits)

lemma www_validate_rsvp: "RsvpCreationRequest_Validate r = None \<Longrightarrow> www_validate (ReqRsvp r) = None"
  by simp

text \<open>A call without a secret, with a correlation id or a random source for one.\<close>

lemma stack_open:
  assumes "ws_jwtSecret s = []" and "UUID_New (e_cid_rnd env) \<noteq> None" and "www_validate req = None"
  shows "\<exists>c2. www_interceptor verify env m c req h s = recovery_interceptor c2 req h s"
proof -
  obtain c1 where c1: "ensureCorrelationId (e_cid_rnd env) False c = Some c1"
    using ensureCorrelationId_up [OF assms(2), of c] by blast
  have "AuthFuncOverride verify s c1 m = Inr c1" "AclFuncOverride s c1 m req = None"
    using assms(1) by (simp_all add: AuthFuncOverride_def ParseJWTFromContext_def AclFuncOverride_def)
  then show ?thesis
    unfolding www_interceptor_def stack_unfold by (auto simp: c1 assms(3))
qed

section \<open>Creation end to end\<close>

definition sample_env :: call_env where
  "sample_env = \<lparr>e_now = 10 ^ 9, e_rnd = Some new_bytes, e_cid_rnd = Some new_bytes, e_quote = id,
     e_scan = (\<lambda>_. []), e_panic = (\<lambda>_. [])\<rparr>"

lemma sample_cid: "UUID_New (e_cid_rnd sample_env) \<noteq> None"
  by (simp add: sample_env_def UUID_New_new_bytes)

definition sample_server :: "mem wwwServer" where
  "sample_server = \<lparr>ws_version = ''1'', ws_jwtSecret = [], ws_caCertificate = [], ws_certificate = [],
     ws_privateKey = [], ws_sqliteDataSourceName = ''dsn'', ws_sqliteHandle = None\<rparr>"

definition sample_request :: RsvpCreationRequest where
  "sample_request = RsvpCreationRequest_Reset\<lparr>rq_Names := ''Ada'', rq_Email := ''a@b''\<rparr>"

definition empty_disk :: "string \<Rightarrow> string + mem" where
  "empty_disk dsn = Inr empty_mem"

lemma sample_request_valid: "RsvpCreationRequest_Validate sample_request = None"
  by (simp add: RsvpCreationRequest_Validate_def sample_request_def RsvpCreationRequest_Reset_def
      regex_Email_ok email_ok_def) code_simp

text \<open>
  C6: end to end, without a secret: a valid request to \<open>RsvpCreation\<close>, with the database up and a
  fresh identifier, is answered with \<open>Ok\<close> and the created entry, and exactly the row of that
  entry is appended to the table. The answer satisfies the validator of its own type.
\<close>

lemma RsvpCreation_end_to_end:
  fixes verify :: "string \<Rightarrow> string \<Rightarrow> 'c option"
  assumes "sql_store drv rows base up ord"
    and "ws_jwtSecret s = []" and "UUID_New (e_cid_rnd env) \<noteq> None"
    and "RsvpCreationRequest_Validate req = None"
    and "initDatabaseHandle drv s = (None, s1)" and "ws_sqliteHandle s1 = Some d" and "up d"
    and "e_rnd env = Some bs" and "length bs = 16" and "UUID_New (Some bs) = Some u"
    and "UUID_Value u \<notin> c_uuid ` set (rows d)"
  shows "\<exists>info d'. serve drv verify env finish c RsvpCreation_name (ReqRsvp req) s =
      (Ret (Some (RespRsvp (RsvpCreationResponse_Reset\<lparr>rs_Ok := True, rs_Info := Some info\<rparr>))) None,
       s1\<lparr>ws_sqliteHandle := Some d'\<rparr>) \<and>
    rows d' = rows d @ [to_row (created_rsvp u (e_now env) req)] \<and>
    info = convertRsvpFromModelToProtocol (created_rsvp u (e_now env) req) \<and>
    RsvpInfo_Validate info = None"
proof -
  let ?h = "\<lambda>(c :: 'c ctx) req s. case req of ReqRsvp r \<Rightarrow> lift_handler RespRsvp (RsvpCreation drv env c r s)
    | _ \<Rightarrow> (Panic TypeAssertion, s)"
  obtain c2 :: "'c ctx" where c2: "www_interceptor verify env RsvpCreation_name (makeServerContext c) (ReqRsvp req) ?h s
      = recovery_interceptor c2 (ReqRsvp req) ?h s"
    using stack_open [OF assms(2,3) www_validate_rsvp [OF assms(4)], of verify RsvpCreation_name
        "makeServerContext c" ?h] by blast
  obtain d' where "RsvpCreation drv env c2 req s =
      (Ret (Some (RsvpCreationResponse_Reset\<lparr>rs_Ok := True,
         rs_Info := Some (convertRsvpFromModelToProtocol (created_rsvp u (e_now env) req))\<rparr>)) None,
       s1\<lparr>ws_sqliteHandle := Some d'\<rparr>)" "rows d' = rows d @ [to_row (created_rsvp u (e_now env) req)]"
    using sql_store.RsvpCreation_success [OF assms(1,4-7) _ assms(11), of env c2] assms(8,10) by auto
  with created_info_valid [OF assms(4,10,9), of "e_now env"] show ?thesis
    unfolding serve_methods(3) c2
    by (intro exI [where x = "convertRsvpFromModelToProtocol (created_rsvp u (e_now env) req)"]
        exI [where x = d']) (simp add: recovery_interceptor_def lift_handler_def)
qed

theorem RsvpCreation_end_to_end_witness:
  "\<exists>info s'. serve (mem_driver empty_disk) (\<lambda>_ _. None :: unit option) sample_env [0] Background
      RsvpCreation_name (ReqRsvp sample_request) sample_server =
      (Ret (Some (RespRsvp (RsvpCreationResponse_Reset\<lparr>rs_Ok := True, rs_Info := Some info\<rparr>))) None, s') \<and>
     RsvpInfo_Validate info = None"
proof -
  have "\<exists>info d'. serve (mem_driver empty_disk) (\<lambda>_ _. None :: unit option) sample_env [0] Background
      RsvpCreation_name (ReqRsvp sample_request) sample_server =
      (Ret (Some (RespRsvp (RsvpCreationResponse_Reset\<lparr>rs_Ok := True, rs_Info := Some info\<rparr>))) None,
       sample_server\<lparr>ws_sqliteHandle := Some empty_mem\<rparr>\<lparr>ws_sqliteHandle := Some d'\<rparr>) \<and>
    m_rows d' = m_rows empty_mem @ [to_row (created_rsvp new_uuid (e_now sample_env) sample_request)] \<and>
    info = convertRsvpFromModelToProtocol (created_rsvp new_uuid (e_now sample_env) sample_request) \<and>
    RsvpInfo_Validate info = None"
    by (rule RsvpCreation_end_to_end [OF mem.sql_store_axioms, where bs = new_bytes])
      (simp_all add: sample_server_def sample_env_def UUID_New_new_bytes sample_request_valid
        initDatabaseHandle_def gorm_Open_def empty_disk_def)
  then show ?thesis by blast
qed

section \<open>Access\<close>

text \<open>
  C7: with a secret set, a call of \<open>RsvpCreation\<close> whose metadata holds no token that the secret
  verifies never reaches the handler: the caller gets an \<open>Unauthenticated\<close> error and the server
  and its database are unchanged.
\<close>

lemma RsvpCreation_unauthenticated:
  assumes "ws_jwtSecret s \<noteq> []" and "UUID_New (e_cid_rnd env) \<noteq> None"
    and "\<And>t. AuthFromMD (makeServerContext c) ''bearer'' = Inr t \<Longrightarrow> verify (ws_jwtSecret s) t = None"
  shows "\<exists>err. serve drv verify env finish c RsvpCreation_name (ReqRsvp req) s = (Ret None (Some err), s) \<and>
    rpc_error_code err = CodeUnauthenticated"
proof -
  obtain c1 where c1: "ensureCorrelationId (e_cid_rnd env) False (makeServerContext c) = Some c1"
    using ensureCorrelationId_up [OF assms(2), of "makeServerContext c"] by blast
  have "\<exists>err. AuthFuncOverride verify s c1 RsvpCreation_name = Inl err \<and>
      rpc_error_code err = CodeUnauthenticated"
    using assms(1,3) AuthFromMD_code [of c1 "''bearer''"] ensureCorrelationId_auth [OF c1, of "''bearer''"]
    by (cases "AuthFromMD (makeServerContext c) ''bearer''") (simp_all add: AuthFuncOverride_private)
  then show ?thesis
    unfolding serve_methods(3) www_interceptor_def stack_unfold by (auto simp: c1)
qed

theorem RsvpCreation_unauthenticated_witness:
  "\<exists>err. serve (mem_driver empty_disk) (\<lambda>_ _. None :: unit option) sample_env [0] Background
      RsvpCreation_name (ReqRsvp sample_request) (sample_server\<lparr>ws_jwtSecret := ''s''\<rparr>) =
      (Ret None (Some err), sample_server\<lparr>ws_jwtSecret := ''s''\<rparr>)"
  using RsvpCreation_unauthenticated [of "sample_server\<lparr>ws_jwtSecret := ''s''\<rparr>" sample_env Background
      "\<lambda>_ _. None :: unit option" "mem_driver empty_disk" "[0]" sample_request]
  by (force simp: sample_env_def UUID_New_new_bytes)

text \<open>
  C21: the methods \<open>Version\<close> and \<open>ServicesStatus\<close> answer every caller, with or without a secret
  and a token, and change nothing. The status lists this service alone, with the name and the
  version that \<open>Version\<close> returns, as available and without a message.
\<close>

lemma public_methods_answer:
  assumes "UUID_New (e_cid_rnd env) \<noteq> None"
  shows "serve drv verify env [0] c Version_name (ReqEmpty m) s =
      (Ret (Some (RespVersion (VersionResponse_Reset\<lparr>vr_Name := svc_name, vr_Version := ws_version s\<rparr>)))
         None, s) \<and>
    serve drv verify env [0] c ServicesStatus_name (ReqEmpty m) s =
      (Ret (Some (RespStatus (ServicesStatusList_Reset\<lparr>sl_Services :=
         [Some (ServiceStatus_Reset\<lparr>st_Name := svc_name, st_Version := ws_version s,
            st_Status := ServiceStatus_OK, st_EMsg := []\<rparr>)]\<rparr>))) None, s)"
proof -
  obtain c1 where c1: "ensureCorrelationId (e_cid_rnd env) False (makeServerContext c) = Some c1"
    using ensureCorrelationId_up [OF assms, of "makeServerContext c"] by blast
  obtain c2 c3 where "AuthFuncOverride verify s c1 Version_name = Inr c2"
    "AuthFuncOverride verify s c1 ServicesStatus_name = Inr c3"
    using AuthFuncOverride_public by (metis public_names(1,2))
  then show ?thesis
    unfolding serve_methods www_interceptor_def stack_unfold
    by (simp_all add: c1 EmptyMessage_Validate_def AclFuncOverride_public recovery_interceptor_def
        lift_handler_def Version_def ServicesStatus_def collect_status_def status_fns_def
        svcCurrentStatus_def serviceStatusSuccessHandler_def getter_defs)
qed

theorem public_methods_answer_witness:
  "fst (serve (mem_driver empty_disk) (\<lambda>_ _. None :: unit option) sample_env [0] Background Version_name
      (ReqEmpty EmptyMessage) (sample_server\<lparr>ws_jwtSecret := ''s''\<rparr>)) =
    Ret (Some (RespVersion (VersionResponse_Reset\<lparr>vr_Name := ''ah-svc-www'', vr_Version := ''1''\<rparr>))) None"
  unfolding public_methods_answer [OF sample_cid, THEN conjunct1]
  by (simp add: sample_server_def svc_name_def)

text \<open>
  C9: a request that fails its validator never reaches the handler, whoever sends it: the server
  and its database are unchanged and the answer is an error.
\<close>

lemma invalid_request_rejected:
  assumes "RsvpCreationRequest_Validate req = Some fe" and "UUID_New (e_cid_rnd env) \<noteq> None"
  shows "\<exists>err. serve drv verify env finish c RsvpCreation_name (ReqRsvp req) s = (Ret None (Some err), s) \<and>
    rpc_error_code err \<in> {CodeUnauthenticated, CodeInvalidArgument} \<and>
    (ws_jwtSecret s = [] \<longrightarrow> err = Status CodeInvalidArgument (Sprintf0 (fieldError_Error fe)))"
proof -
  obtain c1 where c1: "ensureCorrelationId (e_cid_rnd env) False (makeServerContext c) = Some c1"
    using ensureCorrelationId_up [OF assms(2), of "makeServerContext c"] by blast
  show ?thesis
    unfolding serve_methods(3) www_interceptor_def stack_unfold
    using assms(1) AuthFromMD_code [of c1 "''bearer''"]
    by (auto simp: c1 AuthFuncOverride_private status_Errorf0_def split: sum.split option.split)
qed

theorem invalid_request_rejected_witness:
  "\<exists>err. serve (mem_driver empty_disk) (\<lambda>_ _. None :: unit option) sample_env [0] Background
      RsvpCreation_name (ReqRsvp RsvpCreationRequest_Reset) sample_server = (Ret None (Some err), sample_server)"
  using invalid_request_rejected [of RsvpCreationRequest_Reset _ sample_env "mem_driver empty_disk"
      "\<lambda>_ _. None :: unit option" "[0]" Background sample_server]
  by (force simp: sample_env_def UUID_New_new_bytes RsvpCreationRequest_Validate_def
      RsvpCreationRequest_Reset_def)

section \<open>Robustness\<close>

text \<open>
  C22: no panic of a handler reaches the transport: once the correlation id is set, a call of one
  of the three methods returns a response or an error, also when the random source of the
  identifiers fails.
\<close>

lemma serve_never_panics:
  assumes "UUID_New (e_cid_rnd env) \<noteq> None"
  shows "fst (serve drv verify env finish c Version_name (ReqEmpty m) s) \<noteq> Panic p \<and>
    fst (serve drv verify env finish c ServicesStatus_name (ReqEmpty m) s) \<noteq> Panic p \<and>
    fst (serve drv verify env finish c RsvpCreation_name (ReqRsvp req) s) \<noteq> Panic p"
proof -
  obtain c1 where c1: "ensureCorrelationId (e_cid_rnd env) False (makeServerContext c) = Some c1"
    using ensureCorrelationId_up [OF assms, of "makeServerContext c"] by blast
  show ?thesis
    unfolding serve_methods www_interceptor_def stack_unfold
    by (auto simp: c1 recovery_no_panic split: sum.split option.split)
qed

theorem serve_never_panics_witness:
  "fst (serve (mem_driver empty_disk) (\<lambda>_ _. None :: unit option) (sample_env\<lparr>e_rnd := None\<rparr>) [0] Background
      RsvpCreation_name (ReqRsvp sample_request) sample_server) \<noteq> Panic RandomFailed"
  using serve_never_panics [of "sample_env\<lparr>e_rnd := None\<rparr>" "mem_driver empty_disk" "\<lambda>_ _. None :: unit option" "[0]"
      Background EmptyMessage sample_server RandomFailed sample_request]
  by (simp add: sample_env_def UUID_New_new_bytes)

text \<open>
  C8: in every state a server can reach by calls and closes, the configuration is the one it
  started with and an open handle has a well-formed table, provided that opening the data source
  yields one.
\<close>

lemma reachable_server_ok:
  assumes "sql_store drv rows base up ord" and "server_reach drv verify s t"
    and "ws_sqliteHandle s = None"
    and "\<And>d. gorm_Open drv (ws_sqliteDataSourceName s) = Inr d \<Longrightarrow> up d \<and> wf_table (rows d)"
  shows "same_config s t \<and> (\<forall>d. ws_sqliteHandle t = Some d \<longrightarrow> up d \<and> wf_table (rows d))"
  using sql_store.reach_handle_ok [OF assms(1,2) _ assms(4)] assms(3)
  by (auto simp: handle_ok_def)

theorem reachable_server_ok_witness:
  "\<exists>t. server_reach (mem_driver empty_disk) (\<lambda>_ _. None :: unit option) sample_server t \<and>
     same_config sample_server t \<and> (\<forall>d. ws_sqliteHandle t = Some d \<longrightarrow> wf_table (m_rows d))"
proof -
  obtain out t where c: "serve (mem_driver empty_disk) (\<lambda>_ _. None :: unit option) sample_env [0]
      Background RsvpCreation_name (ReqRsvp sample_request) sample_server = (out, t)" by fastforce
  have r: "server_reach (mem_driver empty_disk) (\<lambda>_ _. None :: unit option) sample_server t"
    by (rule server_reach.more [OF server_reach.start server_step.call [OF _ c]])
      (simp add: sample_env_def)
  then have "same_config sample_server t \<and>
      (\<forall>d. ws_sqliteHandle t = Some d \<longrightarrow> mem_up d \<and> wf_table (m_rows d))"
    by (rule reachable_server_ok [OF mem.sql_store_axioms])
      (auto simp: sample_server_def gorm_Open_def empty_disk_def wf_table_def)
  with r show ?thesis by blast
qed

section \<open>Status and tokens\<close>

text \<open>
  The list of statuses does not depend on the order in which the concurrent status functions
  finish, as long as they report different names.
\<close>

lemma collect_status_order_irrelevant:
  assumes "mset finish = mset finish'"
    and "distinct (map (\<lambda>i. st_Name ((fns ! i) s c (NewSubServiceContext c))) finish)"
  shows "collect_status fns finish s c = collect_status fns finish' s c"
proof -
  let ?f = "\<lambda>i. (fns ! i) s c (NewSubServiceContext c)"
  have "mset (map ?f finish) = mset (map ?f finish')" using assms(1) by simp
  moreover have "inj_on st_Name (set (map ?f finish))"
    using assms(2) by (auto simp: distinct_map inj_on_def)
  ultimately show ?thesis
    unfolding collect_status_def by (rule sort_key_eq_of_mset)
qed

lemma collect_status_order_irrelevant_sample:
  "collect_status [svcCurrentStatus sample_env, \<lambda>_ _ _. ServiceStatus_Reset] [0, 1] sample_server
     (Background :: unit ctx) =
   collect_status [svcCurrentStatus sample_env, \<lambda>_ _ _. ServiceStatus_Reset] [1, 0] sample_server
     (Background :: unit ctx)"
  by (rule collect_status_order_irrelevant)
    (simp_all add: svcCurrentStatus_def Version_def serviceStatusSuccessHandler_def getter_defs
      ServiceStatus_Reset_def svc_name_def)

lemma lower_words: "ToLower ''Authorization'' = ''authorization''"
  "ToLower ''authorization'' = ''authorization''" "ToLower ''bearer'' = ''bearer''"
  "ToLower ''Bearer'' = ''bearer''"
  by code_simp+

text \<open>
  C23: the token a client puts into its context is the token the server's authentication reads,
  when the context carried no authorization before; with the secret that verifies it, the call
  of a private method is let through with the claims in its context.
\<close>

lemma token_round_trip:
  assumes "t \<noteq> []" and "ExtractOutgoing c ''authorization'' = None"
    and "ws_jwtSecret s \<noteq> []" and "verify (ws_jwtSecret s) t = Some claims"
    and "\<not> public_method m"
  shows "AuthFromMD (makeServerContext (AuthContextFromJWT c t)) ''bearer'' = Inr t \<and>
    (\<exists>c2. AuthFuncOverride verify s (makeServerContext (AuthContextFromJWT c t)) m = Inr c2 \<and>
      x_jwt c2 = Some claims \<and> AclFuncOverride s c2 m req = None)"
proof -
  have "AuthFromMD (makeServerContext (AuthContextFromJWT c t)) ''bearer'' = Inr t"
    using assms(1,2)
    by (simp add: AuthFromMD_def AuthContextFromJWT_def makeServerContext_def ExtractIncoming_def
        MD_Get_def MD_Add_def lower_words Let_def)
  then show ?thesis
    using assms(3-5) by (simp add: AuthFuncOverride_private AclFuncOverride_private)
qed

theorem token_round_trip_witness:
  "AuthFromMD (makeServerContext (AuthContextFromJWT (Background :: unit ctx) ''tok'')) ''bearer'' = Inr ''tok''"
  by (rule token_round_trip [where s = "sample_server\<lparr>ws_jwtSecret := ''s''\<rparr>" and claims = "()"
        and verify = "\<lambda>_ _. Some ()" and m = RsvpCreation_name and req = "()", THEN conjunct1])
    (simp_all add: Background_def ExtractOutgoing_def)

end
