(* ===== verification/Www_Api.thy ===== *)
theory Www_Api
  imports Service_Props
begin

text \<open>
  What the service promises to its callers, as the interface \<open>www_api\<close> of a connection: the
  clients (the gateway, the interpreter, the functional tests) are proved against it, and the
  server of this program, its database up and supplied with fresh identifiers, is shown to satisfy
  it.
\<close>

section \<open>The interface\<close>

definition version_answer :: VersionResponse where
  "version_answer = VersionResponse_Reset\<lparr>vr_Name := svc_name, vr_Version := svc_version\<rparr>"

definition status_answer :: ServicesStatusList where
  "status_answer = ServicesStatusList_Reset\<lparr>sl_Services :=
     [Some (ServiceStatus_Reset\<lparr>st_Name := svc_name, st_Version := svc_version,
        st_Status := ServiceStatus_OK, st_EMsg := []\<rparr>)]\<rparr>"

definition created_answer :: "RsvpInfo \<Rightarrow> RsvpCreationResponse" where
  "created_answer info = RsvpCreationResponse_Reset\<lparr>rs_Ok := True, rs_Info := Some info\<rparr>"

text \<open>The entry repeats the fields of the request.\<close>

definition echoes :: "RsvpCreationRequest \<Rightarrow> RsvpInfo \<Rightarrow> bool" where
  "echoes req info \<longleftrightarrow>
     ri_Names info = rq_Names req \<and> ri_Email info = rq_Email req \<and> ri_Presence info = rq_Presence req \<and>
     ri_ChildrenNameAge info = rq_ChildrenNameAge req \<and> ri_Housing info = rq_Housing req \<and>
     ri_Music info = rq_Music req \<and> ri_Brunch info = rq_Brunch req"

definition refusal :: "fieldError \<Rightarrow> rpc_error" where
  "refusal e = Status CodeInvalidArgument (Sprintf0 (fieldError_Error e))"

text \<open>
  \<open>live n s\<close> says that the service can take \<open>n\<close> more calls from the state \<open>s\<close>: identifiers are
  finitely many; \<open>sendable\<close> holds of the requests that the connection can carry.
\<close>

locale www_api =
  fixes conn :: "('c, 's) channel"
    and admitted :: "'c ctx \<Rightarrow> bool"
    and live :: "nat \<Rightarrow> 's \<Rightarrow> bool"
    and sendable :: "RsvpCreationRequest \<Rightarrow> bool"
  assumes answers_version: "\<lbrakk>admitted c; live (Suc n) s\<rbrakk> \<Longrightarrow>
      \<exists>s'. conn c Version_name (ReqEmpty EmptyMessage) s = (Ret (Some (RespVersion version_answer)) None, s') \<and>
        live n s'"
    and answers_status: "\<lbrakk>admitted c; live (Suc n) s\<rbrakk> \<Longrightarrow>
      \<exists>s'. conn c ServicesStatus_name (ReqEmpty EmptyMessage) s = (Ret (Some (RespStatus status_answer)) None, s') \<and>
        live n s'"
    and accepts: "\<lbrakk>admitted c; live (Suc n) s; sendable req; RsvpCreationRequest_Validate req = None\<rbrakk> \<Longrightarrow>
      \<exists>info s'. conn c RsvpCreation_name (ReqRsvp req) s =
        (Ret (Some (RespRsvp (created_answer info))) None, s') \<and> live n s' \<and> echoes req info"
    and refuses: "\<lbrakk>admitted c; live (Suc n) s; sendable req; RsvpCreationRequest_Validate req = Some e\<rbrakk> \<Longrightarrow>
      \<exists>s'. conn c RsvpCreation_name (ReqRsvp req) s = (Ret None (Some (refusal e)), s') \<and> live n s'"
begin

text \<open>The same through the generated client.\<close>

lemma client_version:
  assumes "admitted c" and "live (Suc n) s"
  shows "\<exists>s'. srv_Version (NewWwwClient conn) c EmptyMessage s = (Ret (Some version_answer) None, s') \<and> live n s'"
  using answers_version [OF assms]
  by (auto simp: NewWwwClient_def wwwClient_Version_def stub_result_def out_Version_def)

lemma client_status:
  assumes "admitted c" and "live (Suc n) s"
  shows "\<exists>s'. srv_ServicesStatus (NewWwwClient conn) c EmptyMessage s = (Ret (Some status_answer) None, s') \<and> live n s'"
  using answers_status [OF assms]
  by (auto simp: NewWwwClient_def wwwClient_ServicesStatus_def stub_result_def out_ServicesStatus_def)

lemma client_accepts:
  assumes "admitted c" and "live (Suc n) s" and "sendable req" and "RsvpCreationRequest_Validate req = None"
  shows "\<exists>info s'. srv_RsvpCreation (NewWwwClient conn) c req s = (Ret (Some (created_answer info)) None, s') \<and>
    live n s' \<and> echoes req info"
  using accepts [OF assms]
  by (auto simp: NewWwwClient_def wwwClient_RsvpCreation_def stub_result_def out_RsvpCreation_def)

lemma client_refuses:
  assumes "admitted c" and "live (Suc n) s" and "sendable req" and "RsvpCreationRequest_Validate req = Some e"
  shows "\<exists>s'. srv_RsvpCreation (NewWwwClient conn) c req s = (Ret None (Some (refusal e)), s') \<and> live n s'"
  using refuses [OF assms]
  by (auto simp: NewWwwClient_def wwwClient_RsvpCreation_def stub_result_def)

end

section \<open>The server with a supply of environments\<close>

text \<open>
  Every call has its own clock and random bytes: the state carries the environments of the calls
  to come.
\<close>

definition clocked ::
  "(call_env \<Rightarrow> ('c, 's) channel) \<Rightarrow> ('c, 's \<times> (nat \<Rightarrow> call_env)) channel" where
  "clocked f c m q x =
     (case x of (s, es) \<Rightarrow> (case f (es 0) c m q s of (out, s') \<Rightarrow> (out, (s', \<lambda>i. es (Suc i)))))"

text \<open>The identifier a call would give to a new entry.\<close>

definition new_id :: "call_env \<Rightarrow> string option" where
  "new_id env = map_option UUID_Value (UUID_New (e_rnd env))"

text \<open>Random bytes for the next calls, and identifiers that are neither used nor repeated.\<close>

definition good_supply :: "nat \<Rightarrow> string set \<Rightarrow> (nat \<Rightarrow> call_env) \<Rightarrow> bool" where
  "good_supply n used es \<longleftrightarrow>
     (\<forall>i<n. UUID_New (e_cid_rnd (es i)) \<noteq> None \<and> new_id (es i) \<noteq> None \<and>
        the (new_id (es i)) \<notin> used \<and> (\<forall>j<i. new_id (es j) \<noteq> new_id (es i)))"

lemma good_supply_next:
  assumes "good_supply (Suc n) used es" and "used' \<subseteq> insert (the (new_id (es 0))) used"
  shows "good_supply n used' (\<lambda>i. es (Suc i))"
  unfolding good_supply_def
proof (intro allI impI conjI)
  fix i
  assume i: "i < n"
  with assms(1) have s: "UUID_New (e_cid_rnd (es (Suc i))) \<noteq> None" "new_id (es (Suc i)) \<noteq> None"
    "the (new_id (es (Suc i))) \<notin> used" "\<And>j. j < Suc i \<Longrightarrow> new_id (es j) \<noteq> new_id (es (Suc i))"
    by (auto simp: good_supply_def)
  then show "UUID_New (e_cid_rnd (es (Suc i))) \<noteq> None" "new_id (es (Suc i)) \<noteq> None" by blast+
  show "new_id (es (Suc j)) \<noteq> new_id (es (Suc i))" if "j < i" for j using s(4) that by simp
  have "new_id (es 0) \<noteq> None" using assms(1) by (simp add: good_supply_def)
  then have "the (new_id (es 0)) \<noteq> the (new_id (es (Suc i)))"
    using s(2) s(4) [of 0] by (metis option.collapse zero_less_Suc)
  with s(3) assms(2) show "the (new_id (es (Suc i))) \<notin> used'" by auto
qed

text \<open>The callers that the authentication lets through.\<close>

definition lets_in :: "(string \<Rightarrow> string \<Rightarrow> 'c option) \<Rightarrow> string \<Rightarrow> 'c ctx \<Rightarrow> bool" where
  "lets_in verify secret c =
     (secret = [] \<or>
      (case AuthFromMD (makeServerContext c) ''bearer'' of
         Inl _ \<Rightarrow> False
       | Inr t \<Rightarrow> verify secret t \<noteq> None))"

text \<open>
  A server with this secret whose database answers, open or not yet opened, with identifiers left.
\<close>

definition live_server ::
  "'db driver \<Rightarrow> ('db \<Rightarrow> rsvp_row list) \<Rightarrow> ('db \<Rightarrow> bool) \<Rightarrow> string \<Rightarrow> nat \<Rightarrow>
   'db wwwServer \<times> (nat \<Rightarrow> call_env) \<Rightarrow> bool" where
  "live_server drv rows up secret n x =
     (case x of (s, es) \<Rightarrow>
        ws_version s = svc_version \<and> ws_jwtSecret s = secret \<and>
        (\<exists>d. initDatabaseHandle drv s = (None, s\<lparr>ws_sqliteHandle := Some d\<rparr>) \<and> up d \<and>
           (\<forall>d'. up d' \<longrightarrow> d_ping drv d' = None) \<and> good_supply n (c_uuid ` set (rows d)) es))"

section \<open>The calls of an admitted caller\<close>

lemma admitted_auth:
  assumes "lets_in verify (ws_jwtSecret s) c"
    and "ensureCorrelationId rnd False (makeServerContext c) = Some c1"
  shows "\<exists>c2. AuthFuncOverride verify s c1 m = Inr c2 \<and> AclFuncOverride s c2 m req = None"
proof (cases "public_method m")
  case True
  then obtain c2 where "AuthFuncOverride verify s c1 m = Inr c2"
    using AuthFuncOverride_public by metis
  with AclFuncOverride_public [OF True] show ?thesis by (intro exI [of _ c2] conjI) assumption+
next
  case False
  note auth = AuthFuncOverride_private [OF False, of verify s c1, unfolded ensureCorrelationId_auth [OF assms(2)]]
  show ?thesis
  proof (cases "ws_jwtSecret s = []")
    case True
    then show ?thesis unfolding auth AclFuncOverride_private [OF False] by simp
  next
    case secret: False
    then obtain t claims where "AuthFromMD (makeServerContext c) ''bearer'' = Inr t"
      "verify (ws_jwtSecret s) t = Some claims"
      using assms(1) by (auto simp: lets_in_def split: sum.splits)
    with secret show ?thesis unfolding auth AclFuncOverride_private [OF False] by simp
  qed
qed

lemma stack_admitted:
  assumes "lets_in verify (ws_jwtSecret s) c" and "UUID_New (e_cid_rnd env) \<noteq> None"
  shows "www_validate req = None \<Longrightarrow>
      \<exists>c2. www_interceptor verify env m (makeServerContext c) req h s = recovery_interceptor c2 req h s"
    and "www_validate req = Some e \<Longrightarrow>
      www_interceptor verify env m (makeServerContext c) req h s = (Ret None (Some (refusal e)), s)"
proof -
  obtain c1 where c1: "ensureCorrelationId (e_cid_rnd env) False (makeServerContext c) = Some c1"
    using ensureCorrelationId_up [OF assms(2), of "makeServerContext c"] by blast
  obtain c2 where c2: "AuthFuncOverride verify s c1 m = Inr c2" "AclFuncOverride s c2 m req = None"
    using admitted_auth [OF assms(1) c1, of m req] by (elim exE conjE) (rule that)
  show "\<exists>c2. www_interceptor verify env m (makeServerContext c) req h s = recovery_interceptor c2 req h s"
    if "www_validate req = None"
    by (rule exI [of _ c2]) (simp only: www_interceptor_def stack_unfold c1 c2 that option.case sum.case)
  show "www_interceptor verify env m (makeServerContext c) req h s = (Ret None (Some (refusal e)), s)"
    if "www_validate req = Some e"
    by (simp only: www_interceptor_def stack_unfold c1 c2 that refusal_def status_Errorf0_def option.case sum.case)
qed

lemma www_validate_empty: "www_validate (ReqEmpty m) = None"
  by (simp add: EmptyMessage_Validate_def)

lemma admitted_version:
  fixes c :: "'c ctx"
  assumes "lets_in verify (ws_jwtSecret s) c" and "UUID_New (e_cid_rnd env) \<noteq> None"
    and "ws_version s = svc_version"
  shows "serve drv verify env finish c Version_name (ReqEmpty EmptyMessage) s =
    (Ret (Some (RespVersion version_answer)) None, s)"
proof -
  let ?h = "\<lambda>(c :: 'c ctx) req s. case req of ReqEmpty m \<Rightarrow> lift_handler RespVersion (Version c m s)
    | _ \<Rightarrow> (Panic TypeAssertion, s)"
  obtain c2 where "www_interceptor verify env Version_name (makeServerContext c) (ReqEmpty EmptyMessage) ?h s
      = recovery_interceptor c2 (ReqEmpty EmptyMessage) ?h s"
    using stack_admitted(1) [OF assms(1,2) www_validate_empty, of Version_name EmptyMessage ?h] by blast
  with assms(3) show ?thesis
    unfolding serve_methods(1)
    by (simp add: recovery_interceptor_def lift_handler_def Version_def version_answer_def)
qed

lemma admitted_status:
  fixes c :: "'c ctx"
  assumes "lets_in verify (ws_jwtSecret s) c" and "UUID_New (e_cid_rnd env) \<noteq> None"
    and "ws_version s = svc_version"
  shows "serve drv verify env [0] c ServicesStatus_name (ReqEmpty EmptyMessage) s =
    (Ret (Some (RespStatus status_answer)) None, s)"
proof -
  let ?h = "\<lambda>(c :: 'c ctx) req s. case req of
      ReqEmpty m \<Rightarrow> lift_handler RespStatus (ServicesStatus env [0] c m s)
    | _ \<Rightarrow> (Panic TypeAssertion, s)"
  obtain c2 where "www_interceptor verify env ServicesStatus_name (makeServerContext c) (ReqEmpty EmptyMessage) ?h s
      = recovery_interceptor c2 (ReqEmpty EmptyMessage) ?h s"
    using stack_admitted(1) [OF assms(1,2) www_validate_empty, of ServicesStatus_name EmptyMessage ?h] by blast
  with assms(3) show ?thesis
    unfolding serve_methods(2)
    by (simp add: recovery_interceptor_def lift_handler_def ServicesStatus_def
        status_answer_def collect_status_def status_fns_def svcCurrentStatus_def Version_def
        serviceStatusSuccessHandler_def getter_defs)
qed

lemma admitted_refused:
  assumes "lets_in verify (ws_jwtSecret s) c" and "UUID_New (e_cid_rnd env) \<noteq> None"
    and "RsvpCreationRequest_Validate req = Some e"
  shows "serve drv verify env finish c RsvpCreation_name (ReqRsvp req) s = (Ret None (Some (refusal e)), s)"
  unfolding serve_methods(3)
  by (rule stack_admitted(2) [OF assms(1,2)]) (simp add: assms(3))

context sql_store
begin

lemma RsvpCreation_stores:
  assumes "RsvpCreationRequest_Validate req = None"
    and "initDatabaseHandle drv s = (None, s\<lparr>ws_sqliteHandle := Some d\<rparr>)" and "up d"
    and "UUID_New (e_rnd env) = Some u" and "UUID_Value u \<notin> c_uuid ` set (rows d)"
  shows "\<exists>d'. RsvpCreation drv env c req s =
      (Ret (Some (created_answer (convertRsvpFromModelToProtocol (created_rsvp u (e_now env) req)))) None,
       s\<lparr>ws_sqliteHandle := Some d'\<rparr>) \<and>
    rows d' = rows d @ [to_row (created_rsvp u (e_now env) req)] \<and> up d'"
proof -
  from validated_lengths [OF assms(1)] have l: "length (rq_Names req) \<in> {3..255}"
    "length (rq_ChildrenNameAge req) \<le> 255" "length (rq_Music req) \<le> 255" by auto
  from CreateRsvp_valid [OF assms(3-5) l, of "e_now env" "rq_Email req" "rq_Presence req"
      "rq_Housing req" "rq_Brunch req"]
  obtain d' where d': "CreateRsvp drv (e_now env) (e_rnd env) (rq_Names req) (rq_Email req) (rq_Presence req)
      (rq_ChildrenNameAge req) (rq_Housing req) (rq_Music req) (rq_Brunch req) d =
      Some (Some (created_rsvp u (e_now env) req), None, d')"
    "rows d' = rows d @ [to_row (created_rsvp u (e_now env) req)]"
    by (auto simp: created_rsvp_def)
  with CreateRsvp_up [OF assms(3) d'(1)] assms(1,2) show ?thesis
    by (intro exI [of _ d']) (simp add: RsvpCreation_def getter_defs created_answer_def)
qed

lemma admitted_accepted:
  fixes c :: "'c ctx"
  assumes "lets_in verify (ws_jwtSecret s) c" and "UUID_New (e_cid_rnd env) \<noteq> None"
    and "RsvpCreationRequest_Validate req = None"
    and "initDatabaseHandle drv s = (None, s\<lparr>ws_sqliteHandle := Some d\<rparr>)" and "up d"
    and "UUID_New (e_rnd env) = Some u" and "UUID_Value u \<notin> c_uuid ` set (rows d)"
  shows "\<exists>d'. serve drv verify env finish c RsvpCreation_name (ReqRsvp req) s =
      (Ret (Some (RespRsvp (created_answer
         (convertRsvpFromModelToProtocol (created_rsvp u (e_now env) req))))) None,
       s\<lparr>ws_sqliteHandle := Some d'\<rparr>) \<and>
    rows d' = rows d @ [to_row (created_rsvp u (e_now env) req)] \<and> up d'"
proof -
  let ?h = "\<lambda>(c :: 'c ctx) req s. case req of ReqRsvp r \<Rightarrow> lift_handler RespRsvp (RsvpCreation drv env c r s)
    | _ \<Rightarrow> (Panic TypeAssertion, s)"
  obtain c2 :: "'c ctx" where c2: "www_interceptor verify env RsvpCreation_name (makeServerContext c) (ReqRsvp req) ?h s
      = recovery_interceptor c2 (ReqRsvp req) ?h s"
    using stack_admitted(1) [OF assms(1,2) www_validate_rsvp [OF assms(3)], of RsvpCreation_name ?h] by blast
  obtain d' where d': "RsvpCreation drv env c2 req s =
      (Ret (Some (created_answer (convertRsvpFromModelToProtocol (created_rsvp u (e_now env) req)))) None,
       s\<lparr>ws_sqliteHandle := Some d'\<rparr>)" "rows d' = rows d @ [to_row (created_rsvp u (e_now env) req)]" "up d'"
    using RsvpCreation_stores [OF assms(3-7), of c2] by auto
  with d' show ?thesis
    unfolding serve_methods(3) c2
    by (intro exI [where x = d']) (simp add: recovery_interceptor_def lift_handler_def)
qed

end

section \<open>The server satisfies the interface\<close>

lemma live_serverE:
  assumes "live_server drv rows up secret (Suc n) x"
  obtains s es d u where "x = (s, es)" "ws_version s = svc_version" "ws_jwtSecret s = secret"
    "initDatabaseHandle drv s = (None, s\<lparr>ws_sqliteHandle := Some d\<rparr>)" "up d"
    "\<And>d'. up d' \<Longrightarrow> d_ping drv d' = None" "good_supply (Suc n) (c_uuid ` set (rows d)) es"
    "UUID_New (e_cid_rnd (es 0)) \<noteq> None" "UUID_New (e_rnd (es 0)) = Some u"
    "UUID_Value u \<notin> c_uuid ` set (rows d)" "new_id (es 0) = Some (UUID_Value u)"
proof -
  from assms obtain s es d where x: "x = (s, es)" "ws_version s = svc_version" "ws_jwtSecret s = secret"
    "initDatabaseHandle drv s = (None, s\<lparr>ws_sqliteHandle := Some d\<rparr>)" "up d"
    "\<And>d'. up d' \<Longrightarrow> d_ping drv d' = None" "good_supply (Suc n) (c_uuid ` set (rows d)) es"
    by (auto simp: live_server_def)
  from x(7) have "UUID_New (e_cid_rnd (es 0)) \<noteq> None" "new_id (es 0) \<noteq> None"
    "the (new_id (es 0)) \<notin> c_uuid ` set (rows d)"
    by (auto simp: good_supply_def)
  with x that show thesis by (auto simp: new_id_def)
qed

text \<open>A call that leaves the table as it is, or adds the entry of its identifier, keeps it live.\<close>

lemma live_server_same:
  assumes "live_server drv rows up secret (Suc n) (s, es)"
  shows "live_server drv rows up secret n (s, \<lambda>i. es (Suc i))"
  using assms good_supply_next [OF _ subset_insertI] by (fastforce simp: live_server_def)

lemma live_server_stored:
  assumes "live_server drv rows up secret (Suc n) (s, es)" and "up d'"
    and "initDatabaseHandle drv s = (None, s\<lparr>ws_sqliteHandle := Some d\<rparr>)"
    and "rows d' = rows d @ [r]" and "new_id (es 0) = Some (c_uuid r)"
  shows "live_server drv rows up secret n (s\<lparr>ws_sqliteHandle := Some d'\<rparr>, \<lambda>i. es (Suc i))"
proof -
  from assms(1,3) have "good_supply (Suc n) (c_uuid ` set (rows d)) es" "d_ping drv d' = None"
    using assms(2) by (auto simp: live_server_def dest: arg_cong [of _ _ ws_sqliteHandle])
  moreover from this(1) have "good_supply n (c_uuid ` set (rows d')) (\<lambda>i. es (Suc i))"
    by (rule good_supply_next) (simp add: assms(4,5))
  ultimately show ?thesis
    using assms(1,2) by (auto simp: live_server_def initDatabaseHandle_def)
qed

text \<open>What the server answers an admitted caller, and the state it is left in.\<close>

lemma live_version:
  assumes "lets_in verify secret c" and "live_server drv rows up secret (Suc n) (s, es)"
  shows "serve drv verify (es 0) [0] c Version_name (ReqEmpty EmptyMessage) s =
      (Ret (Some (RespVersion version_answer)) None, s)"
    and "serve drv verify (es 0) [0] c ServicesStatus_name (ReqEmpty EmptyMessage) s =
      (Ret (Some (RespStatus status_answer)) None, s)"
    and "RsvpCreationRequest_Validate req = Some e \<Longrightarrow>
      serve drv verify (es 0) [0] c RsvpCreation_name (ReqRsvp req) s = (Ret None (Some (refusal e)), s)"
proof -
  from assms(2) have "ws_version s = svc_version" "ws_jwtSecret s = secret" "UUID_New (e_cid_rnd (es 0)) \<noteq> None"
    by (auto elim!: live_serverE)
  with assms(1) show "serve drv verify (es 0) [0] c Version_name (ReqEmpty EmptyMessage) s =
      (Ret (Some (RespVersion version_answer)) None, s)"
    "serve drv verify (es 0) [0] c ServicesStatus_name (ReqEmpty EmptyMessage) s =
      (Ret (Some (RespStatus status_answer)) None, s)"
    "RsvpCreationRequest_Validate req = Some e \<Longrightarrow>
      serve drv verify (es 0) [0] c RsvpCreation_name (ReqRsvp req) s = (Ret None (Some (refusal e)), s)"
    by (simp_all add: admitted_version admitted_status admitted_refused)
qed

lemma live_created:
  assumes "sql_store drv rows base up ord" and "lets_in verify secret c"
    and "live_server drv rows up secret (Suc n) (s, es)" and "RsvpCreationRequest_Validate req = None"
  obtains u s' where "serve drv verify (es 0) [0] c RsvpCreation_name (ReqRsvp req) s =
      (Ret (Some (RespRsvp (created_answer
         (convertRsvpFromModelToProtocol (created_rsvp u (e_now (es 0)) req))))) None, s')"
    "live_server drv rows up secret n (s', \<lambda>i. es (Suc i))" "UUID_New (e_rnd (es 0)) = Some u"
proof -
  from assms(3) obtain d u where x: "ws_jwtSecret s = secret"
    "initDatabaseHandle drv s = (None, s\<lparr>ws_sqliteHandle := Some d\<rparr>)" "up d"
    "UUID_New (e_cid_rnd (es 0)) \<noteq> None" "UUID_New (e_rnd (es 0)) = Some u"
    "UUID_Value u \<notin> c_uuid ` set (rows d)" "new_id (es 0) = Some (UUID_Value u)"
    by (auto elim!: live_serverE)
  let ?r = "created_rsvp u (e_now (es 0)) req"
  have c': "lets_in verify (ws_jwtSecret s) c" using assms(2) x(1) by simp
  obtain d' where d': "serve drv verify (es 0) [0] c RsvpCreation_name (ReqRsvp req) s =
      (Ret (Some (RespRsvp (created_answer (convertRsvpFromModelToProtocol ?r)))) None,
       s\<lparr>ws_sqliteHandle := Some d'\<rparr>)" "rows d' = rows d @ [to_row ?r]" "up d'"
    using sql_store.admitted_accepted [OF assms(1) c' x(4) assms(4) x(2,3,5,6), of "[0]"] by blast
  have "new_id (es 0) = Some (c_uuid (to_row ?r))"
    by (simp add: x(7) created_rsvp_def to_row_def)
  with live_server_stored [OF assms(3) d'(3) x(2) d'(2)]
  have "live_server drv rows up secret n (s\<lparr>ws_sqliteHandle := Some d'\<rparr>, \<lambda>i. es (Suc i))" by blast
  from that [OF d'(1) this x(5)] show thesis .
qed

lemma created_echoes: "echoes req (convertRsvpFromModelToProtocol (created_rsvp u now req))"
  by (simp add: echoes_def convertRsvpFromModelToProtocol_def created_rsvp_def Let_def)

lemma serve_www_api:
  assumes "sql_store drv rows base up ord"
  shows "www_api (clocked (\<lambda>env. serve drv verify env [0])) (lets_in verify secret)
    (live_server drv rows up secret) (\<lambda>_. True)"
proof
  fix c n x
  assume c: "lets_in verify secret c" and l: "live_server drv rows up secret (Suc n) x"
  obtain s es where x: "x = (s, es)" by (cases x)
  note same = live_server_same [OF l [unfolded x]] and calls = live_version [OF c l [unfolded x]]
  show "\<exists>s'. clocked (\<lambda>env. serve drv verify env [0]) c Version_name (ReqEmpty EmptyMessage) x =
      (Ret (Some (RespVersion version_answer)) None, s') \<and> live_server drv rows up secret n s'"
    using same by (simp add: clocked_def x calls)
  show "\<exists>s'. clocked (\<lambda>env. serve drv verify env [0]) c ServicesStatus_name (ReqEmpty EmptyMessage) x =
      (Ret (Some (RespStatus status_answer)) None, s') \<and> live_server drv rows up secret n s'"
    using same by (simp add: clocked_def x calls)
  show "\<exists>s'. clocked (\<lambda>env. serve drv verify env [0]) c RsvpCreation_name (ReqRsvp req) x =
      (Ret None (Some (refusal e)), s') \<and> live_server drv rows up secret n s'"
    if "RsvpCreationRequest_Validate req = Some e" for req e
    using same by (simp add: clocked_def x calls(3) [OF that])
  show "\<exists>info s'. clocked (\<lambda>env. serve drv verify env [0]) c RsvpCreation_name (ReqRsvp req) x =
      (Ret (Some (RespRsvp (created_answer info))) None, s') \<and> live_server drv rows up secret n s' \<and>
      echoes req info"
    if v: "RsvpCreationRequest_Validate req = None" for req
  proof -
    obtain u s' where "serve drv verify (es 0) [0] c RsvpCreation_name (ReqRsvp req) s =
        (Ret (Some (RespRsvp (created_answer
           (convertRsvpFromModelToProtocol (created_rsvp u (e_now (es 0)) req))))) None, s')"
      "live_server drv rows up secret n (s', \<lambda>i. es (Suc i))"
      by (rule live_created [OF assms c l [unfolded x] v])
    then show ?thesis by (auto simp: clocked_def x intro!: exI created_echoes)
  qed
qed

interpretation mem_api: www_api "clocked (\<lambda>env. serve (mem_driver disk) verify env [0])"
    "lets_in verify secret" "live_server (mem_driver disk) m_rows mem_up secret" "\<lambda>_. True"
  by (rule serve_www_api [OF mem.sql_store_axioms])

end
