(* ===== verification/Functest_Props.thy ===== *)
theory Functest_Props
  imports Functest_Http Www_Api
begin

text \<open>
  The functional tests over gRPC find nothing wrong with a service that keeps the interface
  \<open>www_api\<close>: the lemmas are proved inside the interface, for any connection.
\<close>

section \<open>The requests of the tests\<close>

text \<open>A usable draw: a valid request and a text of 256 characters, without per cent signs.\<close>

definition plain_text :: "string \<Rightarrow> bool" where
  "plain_text s \<longleftrightarrow> CHR ''%'' \<notin> set s"

definition good_draw :: "RsvpCreationRequest \<times> string \<Rightarrow> bool" where
  "good_draw draw =
     (case draw of (v, long) \<Rightarrow>
        RsvpCreationRequest_Validate v = None \<and> length long = 256 \<and> plain_text long \<and>
        plain_text (rq_Names v) \<and> plain_text (rq_ChildrenNameAge v))"

definition bad_requests :: "RsvpCreationRequest \<times> string \<Rightarrow> RsvpCreationRequest list" where
  "bad_requests draw = butlast (case testGetRsvpCreationRequest draw undefined of Inr reqs \<Rightarrow> reqs | _ \<Rightarrow> [])"

lemma test_requests:
  "testGetRsvpCreationRequest draw config = Inr (bad_requests draw @ [fst draw])" "length (bad_requests draw) = 5"
  by (simp_all add: testGetRsvpCreationRequest_def bad_requests_def Let_def split: prod.split)

lemma empty_email: "\<not> MatchString regex_Email []"
  by (simp add: regex_Email_ok email_ok_def)

lemma refusal_text:
  assumes "plain_text (fieldError_Error e)"
  shows "refusal e = Status CodeInvalidArgument (fieldError_Error e)"
  using assms by (simp add: refusal_def Sprintf0_plain plain_text_def)

text \<open>Each of the five is refused with the text that the tests expect.\<close>

lemma bad_requests_refused:
  assumes "good_draw draw" and "i < 5"
  shows "\<exists>e. RsvpCreationRequest_Validate (bad_requests draw ! i) = Some e \<and>
    refusal e = Status expectedCode (expectedMessage i (Some (bad_requests draw ! i)))"
proof -
  obtain v long where d: "draw = (v, long)" by (cases draw)
  with assms(1) have v: "RsvpCreationRequest_Validate v = None" and long: "length long = 256"
    and p: "plain_text long" "plain_text (rq_Names v)" "plain_text (rq_ChildrenNameAge v)"
    by (simp_all add: good_draw_def)
  note n = validated_lengths [OF v]
  have email: "MatchString regex_Email (rq_Email v)"
    using v by (auto simp: RsvpCreationRequest_Validate_def split: if_splits)
  note defs = RsvpCreationRequest_Validate_def RsvpCreationRequest_Reset_def bad_requests_def d
    testGetRsvpCreationRequest_def getter_defs empty_email
  note texts = refusal_text plain_text_def fieldError_Error_def FieldError_def Errorf_def gt2_msg_def
    lt256_msg_def expectedCode_def expectedMessage_def squote_def getter_defs
  from assms(2) consider "i = 0" | "i = 1" | "i = 2" | "i = 3" | "i = 4" by linarith
  then show ?thesis
    using n long p email by cases (simp_all add: defs, simp_all add: texts)
qed

lemma bad_refused: "good_draw draw \<Longrightarrow> r \<in> set (bad_requests draw) \<Longrightarrow> RsvpCreationRequest_Validate r \<noteq> None"
  using bad_requests_refused [of draw] by (force simp: in_set_conv_nth test_requests)

text \<open>The requests of the tests are ones that a connection can carry.\<close>

definition sends :: "(RsvpCreationRequest \<Rightarrow> bool) \<Rightarrow> RsvpCreationRequest \<times> string \<Rightarrow> bool" where
  "sends sendable draw \<longleftrightarrow> sendable (fst draw) \<and> list_all sendable (bad_requests draw)"

lemma sends_all [simp]: "sends (\<lambda>_. True) draw"
  by (simp add: sends_def list_all_iff)

section \<open>Results without failures\<close>

lemma check_info_echo: "echoes req info \<Longrightarrow> check_info (Some req) (Some info) = []"
  by (simp add: check_info_def echoes_def getter_defs)

lemma check_refused:
  assumes "good_draw draw" and "i < 5"
    and "tc_Request tr = IPtr (Some (bad_requests draw ! i))"
    and "tc_Error tr = map_option refusal (RsvpCreationRequest_Validate (bad_requests draw ! i))"
  shows "check_case pt typ i tr = []"
proof -
  obtain e where e: "RsvpCreationRequest_Validate (bad_requests draw ! i) = Some e"
    "refusal e = Status expectedCode (expectedMessage i (Some (bad_requests draw ! i)))"
    using bad_requests_refused [OF assms(1,2)] by blast
  then show ?thesis
    using assms(2-4) by (simp add: check_case_def check_error_case_def status_Convert_def e)
qed

lemma check_created:
  assumes "echoes req info" and "tc_Error tr = None" and "5 \<le> i"
    and "tc_Request tr = IPtr (Some req)" and "tc_Response tr = IPtr (Some (created_answer info))"
  shows "check_case pt typ i tr = []"
  using assms check_info_echo
  by (simp add: check_case_def check_valid_case_def created_answer_def getter_defs)

lemma test_results_ok:
  assumes "length bad = 5" and "\<And>i. i < 5 \<Longrightarrow> check_case pt typ i (bad ! i) = []"
    and "check_case pt typ 5 good = []"
  shows "testRsvpCreationResponse pt config typ (bad @ [good]) = []"
proof -
  have "case_prod (check_case pt typ) x = []" if "x \<in> set (enumerate 0 (bad @ [good]))" for x
  proof -
    obtain i tr where x: "x = (i, tr)" by (cases x)
    with that assms(1) have "x = (i, (bad @ [good]) ! i)" "i < 6"
      by (simp_all add: in_set_enumerate_eq)
    then have "i < 5 \<or> i = 5" by linarith
    with assms \<open>x = (i, (bad @ [good]) ! i)\<close> show ?thesis by (auto simp: nth_append)
  qed
  then show ?thesis by (simp add: testRsvpCreationResponse_def)
qed

lemma version_answer_passes: "testVersionResponse EmptyMessage (Some version_answer) = []"
  by (simp add: testVersionResponse_def version_answer_def NewService_def getter_defs)

lemma status_answer_passes: "testServicesStatusReponse config EmptyMessage (Some status_answer) = []"
  by (simp add: testServicesStatusReponse_def status_answer_def expected_status_def NewService_def
      getter_defs ServicesStatusList_Reset_def)

section \<open>The tests over gRPC\<close>

text \<open>The configuration and the network lead to the connection, with the token in the context.\<close>

definition connects ::
  "('c, 's) net_env \<Rightarrow> FunctionalTestConfig \<Rightarrow> ('c, 's) channel \<Rightarrow> bool" where
  "connects net config conn \<longleftrightarrow>
     (\<exists>client. grpcClient net config =
        Inr (client, AuthContextFromJWT Background (fc_JsonWebToken config)) \<and>
        GetGRPCClient client = NewWwwClient conn)"

text \<open>A test of \<open>k\<close> calls finds nothing wrong and leaves the service the rest of its calls.\<close>

abbreviation passes :: "'s test_run \<Rightarrow> nat \<Rightarrow> (nat \<Rightarrow> 's \<Rightarrow> bool) \<Rightarrow> bool" where
  "passes t k live \<equiv> \<forall>n s. live (k + n) s \<longrightarrow> (\<exists>s'. t s = (Inr [], s') \<and> live n s')"

context www_api
begin

lemma TestVersion_passes:
  assumes "connects net config conn"
    and "admitted (AuthContextFromJWT Background (fc_JsonWebToken config))"
  shows "passes (TestVersion te net config) 1 live"
proof (intro allI impI)
  fix n s
  assume "live (1 + n) s"
  with client_version [OF assms(2), of n s] obtain s' where "live n s'"
    "srv_Version (NewWwwClient conn) (AuthContextFromJWT Background (fc_JsonWebToken config)) EmptyMessage s =
      (Ret (Some version_answer) None, s')" by auto
  with assms(1) show "\<exists>s'. TestVersion te net config s = (Inr [], s') \<and> live n s'"
    by (auto simp: connects_def TestVersion_def version_answer_passes)
qed

lemma TestServicesStatus_passes:
  assumes "connects net config conn"
    and "admitted (AuthContextFromJWT Background (fc_JsonWebToken config))"
  shows "passes (TestServicesStatus te net config) 1 live"
proof (intro allI impI)
  fix n s
  assume "live (1 + n) s"
  with client_status [OF assms(2), of n s] obtain s' where "live n s'"
    "srv_ServicesStatus (NewWwwClient conn) (AuthContextFromJWT Background (fc_JsonWebToken config)) EmptyMessage s =
      (Ret (Some status_answer) None, s')" by auto
  with assms(1) show "\<exists>s'. TestServicesStatus te net config s = (Inr [], s') \<and> live n s'"
    by (auto simp: connects_def TestServicesStatus_def status_answer_passes)
qed

lemma call_each_refused:
  assumes "admitted ctx" and "live (length reqs + n) s"
    and "\<And>r. r \<in> set reqs \<Longrightarrow> sendable r \<and> RsvpCreationRequest_Validate r \<noteq> None"
  shows "\<exists>s'. call_each (NewWwwClient conn) ctx (reqs @ rest) s =
      (case call_each (NewWwwClient conn) ctx rest s' of
         (Inl p, s2) \<Rightarrow> (Inl p, s2)
       | (Inr rs, s2) \<Rightarrow>
           (Inr (List.map (\<lambda>r. \<lparr>tc_Request = IPtr (Some r), tc_Response = IPtr None,
              tc_Error = map_option refusal (RsvpCreationRequest_Validate r)\<rparr>) reqs @ rs), s2)) \<and>
    live n s'"
  using assms
proof (induction reqs arbitrary: s)
  case Nil
  then show ?case by (auto intro!: exI [of _ s] split: prod.split sum.split)
next
  case (Cons r reqs)
  obtain e where e: "sendable r" "RsvpCreationRequest_Validate r = Some e" using Cons.prems(3) by force
  from client_refuses [OF Cons.prems(1) _ e, of "length reqs + n" s] Cons.prems(2) obtain s1 where
    s1: "srv_RsvpCreation (NewWwwClient conn) ctx r s = (Ret None (Some (refusal e)), s1)" "live (length reqs + n) s1" by auto
  from Cons.IH [OF Cons.prems(1) s1(2)] Cons.prems(3) obtain s' where
    "call_each (NewWwwClient conn) ctx (reqs @ rest) s1 =
      (case call_each (NewWwwClient conn) ctx rest s' of
         (Inl p, s2) \<Rightarrow> (Inl p, s2)
       | (Inr rs, s2) \<Rightarrow>
           (Inr (List.map (\<lambda>r. \<lparr>tc_Request = IPtr (Some r), tc_Response = IPtr None,
              tc_Error = map_option refusal (RsvpCreationRequest_Validate r)\<rparr>) reqs @ rs), s2))" "live n s'"
    by auto
  with s1(1) e(2) show ?case
    by (intro exI [of _ s']) (simp split: prod.split sum.split)
qed

lemma TestRsvpCreation_passes:
  assumes "connects net config conn" and "good_draw draw"
    and "admitted (AuthContextFromJWT Background (fc_JsonWebToken config))" and "sends sendable draw"
  shows "passes (TestRsvpCreation te net draw config) 6 live"
proof (intro allI impI)
  fix n s
  assume s: "live (6 + n) s"
  let ?ctx = "AuthContextFromJWT Background (fc_JsonWebToken config)"
  let ?srv = "NewWwwClient conn" and ?bad = "bad_requests draw" and ?good = "fst draw"
  let ?refused = "List.map (\<lambda>r. \<lparr>tc_Request = IPtr (Some r), tc_Response = IPtr None,
    tc_Error = map_option refusal (RsvpCreationRequest_Validate r)\<rparr>) ?bad"
  have bad: "\<And>r. r \<in> set ?bad \<Longrightarrow> sendable r \<and> RsvpCreationRequest_Validate r \<noteq> None"
    using bad_refused [OF assms(2)] assms(4) by (auto simp: sends_def list_all_iff)
  have good: "RsvpCreationRequest_Validate ?good = None"
    using assms(2) by (auto simp: good_draw_def split: prod.splits)
  have s5: "live (length ?bad + Suc n) s" using s by (simp add: test_requests eval_nat_numeral)
  from call_each_refused [OF assms(3) s5 bad, where rest = "[?good]"] obtain s1 where
    s1: "call_each ?srv ?ctx (?bad @ [?good]) s =
      (case call_each ?srv ?ctx [?good] s1 of
         (Inl p, s2) \<Rightarrow> (Inl p, s2) | (Inr rs, s2) \<Rightarrow> (Inr (?refused @ rs), s2))" "live (Suc n) s1" by blast
  from client_accepts [OF assms(3) s1(2) _ good] obtain info s2 where
    s2: "srv_RsvpCreation ?srv ?ctx ?good s1 = (Ret (Some (created_answer info)) None, s2)" "live n s2"
      "echoes ?good info" using assms(4) unfolding sends_def by blast
  let ?created = "\<lparr>tc_Request = IPtr (Some ?good), tc_Response = IPtr (Some (created_answer info)),
    tc_Error = None\<rparr>"
  have "testRsvpCreationResponse (te_panic te) config FUNCTEST_GRPC (?refused @ [?created]) = []"
    by (rule test_results_ok)
      (auto simp: test_requests intro: check_refused [OF assms(2)] check_created [OF s2(3)])
  with assms(1) s1(1) s2 show "\<exists>s'. TestRsvpCreation te net draw config s = (Inr [], s') \<and> live n s'"
    by (auto simp: connects_def TestRsvpCreation_def test_requests)
qed

end

end
