(* ===== verification/Assets.thy ===== *)
theory Assets
  imports Go_Path Gorm "HOL-Library.Char_ord"
begin

text \<open>
  The embedded files of \<open>ui/assets.go\<close>: the file information every loader function gives its
  file, the table from names to loaders, the directory tree over the same loaders, the look-ups,
  and the restoring of files to a disk. A loader is represented by its file information; the
  compressed contents and their decompression are an argument, and so is the file system.
\<close>

section \<open>Loaders\<close>

record bindataFileInfo =
  fi_name :: string
  fi_size :: nat
  fi_mode :: nat
  fi_modTime :: gtime

definition FileInfo_IsDir :: "bindataFileInfo \<Rightarrow> bool" where
  "FileInfo_IsDir fi = False"

record asset =
  a_bytes :: "byte list"
  a_info :: bindataFileInfo

text \<open>
  What gzip does with the data of a name: the errors of opening, of reading and of closing, and
  the bytes read. When only the close fails, the code returns no bytes and no error.
\<close>

datatype unzip = OpenError string | Unzipped "byte list" "string option" "string option"

definition bindataRead :: "(string \<Rightarrow> unzip) \<Rightarrow> (string \<Rightarrow> string) \<Rightarrow> string \<Rightarrow> string + byte list" where
  "bindataRead gz q name =
     (case gz name of
        OpenError err \<Rightarrow> Inl (''Read '' @ q name @ '': '' @ err)
      | Unzipped buf (Some err) _ \<Rightarrow> Inl (''Read '' @ q name @ '': '' @ err)
      | Unzipped buf None (Some clErr) \<Rightarrow> Inr []
      | Unzipped buf None None \<Rightarrow> Inr buf)"

text \<open>The body every loader has: read the bytes of its name, pair them with its information.\<close>

definition load_asset :: "(string \<Rightarrow> unzip) \<Rightarrow> (string \<Rightarrow> string) \<Rightarrow> bindataFileInfo \<Rightarrow> string + asset" where
  "load_asset gz q info =
     (case bindataRead gz q (fi_name info) of
        Inl err \<Rightarrow> Inl err
      | Inr bytes \<Rightarrow> Inr \<lparr>a_bytes = bytes, a_info = info\<rparr>)"

definition assets404Html :: bindataFileInfo where
  "assets404Html =
     \<lparr>fi_name = ''assets/404.html'', fi_size = 1361, fi_mode = 420,
      fi_modTime = 1535041156 * 10 ^ 9\<rparr>"

definition assetsAndroidChrome192x192Png :: bindataFileInfo where
  "assetsAndroidChrome192x192Png =
     \<lparr>fi_name = ''assets/android-chrome-192x192.png'', fi_size = 6172, fi_mode = 420,
      fi_modTime = 1535041156 * 10 ^ 9\<rparr>"

definition assetsAndroidChrome512x512Png :: bindataFileInfo where
  "assetsAndroidChrome512x512Png =
     \<lparr>fi_name = ''assets/android-chrome-512x512.png'', fi_size = 26670, fi_mode = 420,
      fi_modTime = 1535041156 * 10 ^ 9\<rparr>"

definition assetsAppleTouchIconPng :: bindataFileInfo where
  "assetsAppleTouchIconPng =
     \<lparr>fi_name = ''assets/apple-touch-icon.png'', fi_size = 5682, fi_mode = 420,
      fi_modTime = 1535041156 * 10 ^ 9\<rparr>"

definition assetsBrowserconfigXml :: bindataFileInfo where
  "assetsBrowserconfigXml =
     \<lparr>fi_name = ''assets/browserconfig.xml'', fi_size = 246, fi_mode = 420,
      fi_modTime = 1535041156 * 10 ^ 9\<rparr>"

definition assetsCssCarouselCss :: bindataFileInfo where
  "assetsCssCarouselCss =
     \<lparr>fi_name = ''assets/css/carousel.css'', fi_size = 3228, fi_mode = 420,
      fi_modTime = 1535041156 * 10 ^ 9\<rparr>"

definition assetsCssFooterCss :: bindataFileInfo where
  "assetsCssFooterCss =
     \<lparr>fi_name = ''assets/css/footer.css'', fi_size = 3828, fi_mode = 420,
      fi_modTime = 1535041156 * 10 ^ 9\<rparr>"

definition assetsCssMainCss :: bindataFileInfo where
  "assetsCssMainCss =
     \<lparr>fi_name = ''assets/css/main.css'', fi_size = 8109, fi_mode = 420,
      fi_modTime = 1535041156 * 10 ^ 9\<rparr>"

definition assetsCssMaterialComponentsWebCss :: bindataFileInfo where
  "assetsCssMaterialComponentsWebCss =
     \<lparr>fi_name = ''assets/css/material-components-web.css'', fi_size = 212272, fi_mode = 420,
      fi_modTime = 1535042922 * 10 ^ 9\<rparr>"

definition assetsFavicon16x16Png :: bindataFileInfo where
  "assetsFavicon16x16Png =
     \<lparr>fi_name = ''assets/favicon-16x16.png'', fi_size = 772, fi_mode = 420,
      fi_modTime = 1535041156 * 10 ^ 9\<rparr>"

definition assetsFavicon32x32Png :: bindataFileInfo where
  "assetsFavicon32x32Png =
     \<lparr>fi_name = ''assets/favicon-32x32.png'', fi_size = 1087, fi_mode = 420,
      fi_modTime = 1535041156 * 10 ^ 9\<rparr>"

definition assetsFaviconIco :: bindataFileInfo where
  "assetsFaviconIco =
     \<lparr>fi_name = ''assets/favicon.ico'', fi_size = 15086, fi_mode = 420,
      fi_modTime = 1535041156 * 10 ^ 9\<rparr>"

definition assetsImgCarouselAultJpg :: bindataFileInfo where
  "assetsImgCarouselAultJpg =
     \<lparr>fi_name = ''assets/img/carousel/ault.jpg'', fi_size = 63360, fi_mode = 420,
      fi_modTime = 1535041156 * 10 ^ 9\<rparr>"

definition assetsImgCarouselBaieDeSommeJpg :: bindataFileInfo where
  "assetsImgCarouselBaieDeSommeJpg =
     \<lparr>fi_name = ''assets/img/carousel/baie-de-somme.jpg'', fi_size = 152263, fi_mode = 420,
      fi_modTime = 1535041156 * 10 ^ 9\<rparr>"

definition assetsImgCarouselBoisDeCiseJpg :: bindataFileInfo where
  "assetsImgCarouselBoisDeCiseJpg =
     \<lparr>fi_name = ''assets/img/carousel/bois-de-cise.jpg'', fi_size = 2659027, fi_mode = 420,
      fi_modTime = 1535041156 * 10 ^ 9\<rparr>"

definition assetsImgCarouselDieppeCerfsVolantsJpg :: bindataFileInfo where
  "assetsImgCarouselDieppeCerfsVolantsJpg =
     \<lparr>fi_name = ''assets/img/carousel/dieppe-cerfs-volants.jpg'', fi_size = 98376, fi_mode = 420,
      fi_modTime = 1535041156 * 10 ^ 9\<rparr>"

definition assetsImgCarouselDieppeJpg :: bindataFileInfo where
  "assetsImgCarouselDieppeJpg =
     \<lparr>fi_name = ''assets/img/carousel/dieppe.jpg'', fi_size = 56415, fi_mode = 420,
      fi_modTime = 1535041156 * 10 ^ 9\<rparr>"

definition assetsImgCarouselMersLesBainsJpg :: bindataFileInfo where
  "assetsImgCarouselMersLesBainsJpg =
     \<lparr>fi_name = ''assets/img/carousel/mers-les-bains.jpg'', fi_size = 319592, fi_mode = 420,
      fi_modTime = 1535041156 * 10 ^ 9\<rparr>"

definition assetsImgCarouselVeulesLesRosesJpg :: bindataFileInfo where
  "assetsImgCarouselVeulesLesRosesJpg =
     \<lparr>fi_name = ''assets/img/carousel/veules-les-roses.jpg'', fi_size = 53792, fi_mode = 420,
      fi_modTime = 1535041156 * 10 ^ 9\<rparr>"

definition assetsImgFavicon_package_v016Zip :: bindataFileInfo where
  "assetsImgFavicon_package_v016Zip =
     \<lparr>fi_name = ''assets/img/favicon_package_v0.16.zip'', fi_size = 47364, fi_mode = 420,
      fi_modTime = 1535041156 * 10 ^ 9\<rparr>"

definition assetsImgIconsBrunchSmallPng :: bindataFileInfo where
  "assetsImgIconsBrunchSmallPng =
     \<lparr>fi_name = ''assets/img/icons/brunch-small.png'', fi_size = 1567, fi_mode = 420,
      fi_modTime = 1535041156 * 10 ^ 9\<rparr>"

definition assetsImgIconsBrunchPng :: bindataFileInfo where
  "assetsImgIconsBrunchPng =
     \<lparr>fi_name = ''assets/img/icons/brunch.png'', fi_size = 2836, fi_mode = 420,
      fi_modTime = 1535041156 * 10 ^ 9\<rparr>"

definition assetsImgIconsChampagneGlassesSmallPng :: bindataFileInfo where
  "assetsImgIconsChampagneGlassesSmallPng =
     \<lparr>fi_name = ''assets/img/icons/champagne-glasses-small.png'', fi_size = 1686, fi_mode = 420,
      fi_modTime = 1535041156 * 10 ^ 9\<rparr>"

definition assetsImgIconsChampagneGlassesPng :: bindataFileInfo where
  "assetsImgIconsChampagneGlassesPng =
     \<lparr>fi_name = ''assets/img/icons/champagne-glasses.png'', fi_size = 3365, fi_mode = 420,
      fi_modTime = 1535041156 * 10 ^ 9\<rparr>"

definition assetsImgIconsChurchSmallPng :: bindataFileInfo where
  "assetsImgIconsChurchSmallPng =
     \<lparr>fi_name = ''assets/img/icons/church-small.png'', fi_size = 1183, fi_mode = 420,
      fi_modTime = 1535041156 * 10 ^ 9\<rparr>"

definition assetsImgIconsChurchPng :: bindataFileInfo where
  "assetsImgIconsChurchPng =
     \<lparr>fi_name = ''assets/img/icons/church.png'', fi_size = 2127, fi_mode = 420,
      fi_modTime = 1535041156 * 10 ^ 9\<rparr>"

definition assetsImgIconsClubbingSmallPng :: bindataFileInfo where
  "assetsImgIconsClubbingSmallPng =
     \<lparr>fi_name = ''assets/img/icons/clubbing-small.png'', fi_size = 1329, fi_mode = 420,
      fi_modTime = 1535041156 * 10 ^ 9\<rparr>"

definition assetsImgIconsClubbingPng :: bindataFileInfo where
  "assetsImgIconsClubbingPng =
     \<lparr>fi_name = ''assets/img/icons/clubbing.png'', fi_size = 2481, fi_mode = 420,
      fi_modTime = 1535041156 * 10 ^ 9\<rparr>"

definition assetsImgIconsCocktailSmallPng :: bindataFileInfo where
  "assetsImgIconsCocktailSmallPng =
     \<lparr>fi_name = ''assets/img/icons/cocktail-small.png'', fi_size = 2376, fi_mode = 420,
      fi_modTime = 1535041156 * 10 ^ 9\<rparr>"

definition assetsImgIconsCocktailPng :: bindataFileInfo where
  "assetsImgIconsCocktailPng =
     \<lparr>fi_name = ''assets/img/icons/cocktail.png'', fi_size = 5389, fi_mode = 420,
      fi_modTime = 1535041156 * 10 ^ 9\<rparr>"

definition assetsImgIconsDancingSmallPng :: bindataFileInfo where
  "assetsImgIconsDancingSmallPng =
     \<lparr>fi_name = ''assets/img/icons/dancing-small.png'', fi_size = 2438, fi_mode = 420,
      fi_modTime = 1535041156 * 10 ^ 9\<rparr>"

definition assetsImgIconsDancingPng :: bindataFileInfo where
  "assetsImgIconsDancingPng =
     \<lparr>fi_name = ''assets/img/icons/dancing.png'', fi_size = 5319, fi_mode = 420,
      fi_modTime = 1535041156 * 10 ^ 9\<rparr>"

definition assetsImgIconsDinnerSmallPng :: bindataFileInfo where
  "assetsImgIconsDinnerSmallPng =
     \<lparr>fi_name = ''assets/img/icons/dinner-small.png'', fi_size = 1535, fi_mode = 420,
      fi_modTime = 1535041156 * 10 ^ 9\<rparr>"

definition assetsImgIconsDinnerPng :: bindataFileInfo where
  "assetsImgIconsDinnerPng =
     \<lparr>fi_name = ''assets/img/icons/dinner.png'', fi_size = 2985, fi_mode = 420,
      fi_modTime = 1535041156 * 10 ^ 9\<rparr>"

definition assetsImgIconsHallSmallPng :: bindataFileInfo where
  "assetsImgIconsHallSmallPng =
     \<lparr>fi_name = ''assets/img/icons/hall-small.png'', fi_size = 1793, fi_mode = 420,
      fi_modTime = 1535041156 * 10 ^ 9\<rparr>"

definition assetsImgIconsHallPng :: bindataFileInfo where
  "assetsImgIconsHallPng =
     \<lparr>fi_name = ''assets/img/icons/hall.png'', fi_size = 3227, fi_mode = 420,
      fi_modTime = 1535041156 * 10 ^ 9\<rparr>"

definition assetsImgIconsParkSmallPng :: bindataFileInfo where
  "assetsImgIconsParkSmallPng =
     \<lparr>fi_name = ''assets/img/icons/park-small.png'', fi_size = 1936, fi_mode = 420,
      fi_modTime = 1535041156 * 10 ^ 9\<rparr>"

definition assetsImgIconsParkPng :: bindataFileInfo where
  "assetsImgIconsParkPng =
     \<lparr>fi_name = ''assets/img/icons/park.png'', fi_size = 3848, fi_mode = 420,
      fi_modTime = 1535041156 * 10 ^ 9\<rparr>"

definition assetsImgIconsRoadSmallPng :: bindataFileInfo where
  "assetsImgIconsRoadSmallPng =
     \<lparr>fi_name = ''assets/img/icons/road-small.png'', fi_size = 1461, fi_mode = 420,
      fi_modTime = 1535041156 * 10 ^ 9\<rparr>"

definition assetsImgIconsRoadPng :: bindataFileInfo where
  "assetsImgIconsRoadPng =
     \<lparr>fi_name = ''assets/img/icons/road.png'', fi_size = 2809, fi_mode = 420,
      fi_modTime = 1535041156 * 10 ^ 9\<rparr>"

definition assetsImgIconsSoupSmallPng :: bindataFileInfo where
  "assetsImgIconsSoupSmallPng =
     \<lparr>fi_name = ''assets/img/icons/soup-small.png'', fi_size = 1693, fi_mode = 420,
      fi_modTime = 1535041156 * 10 ^ 9\<rparr>"

definition assetsImgIconsSoupPng :: bindataFileInfo where
  "assetsImgIconsSoupPng =
     \<lparr>fi_name = ''assets/img/icons/soup.png'', fi_size = 3420, fi_mode = 420,
      fi_modTime = 1535041156 * 10 ^ 9\<rparr>"

definition assetsImgIconsSoup2SmallPng :: bindataFileInfo where
  "assetsImgIconsSoup2SmallPng =
     \<lparr>fi_name = ''assets/img/icons/soup2-small.png'', fi_size = 2038, fi_mode = 420,
      fi_modTime = 1535041156 * 10 ^ 9\<rparr>"

definition assetsImgIconsSoup2Png :: bindataFileInfo where
  "assetsImgIconsSoup2Png =
     \<lparr>fi_name = ''assets/img/icons/soup2.png'', fi_size = 4129, fi_mode = 420,
      fi_modTime = 1535041156 * 10 ^ 9\<rparr>"

definition assetsImgLogoTextPng :: bindataFileInfo where
  "assetsImgLogoTextPng =
     \<lparr>fi_name = ''assets/img/logo-text.png'', fi_size = 36103, fi_mode = 420,
      fi_modTime = 1535041156 * 10 ^ 9\<rparr>"

definition assetsImgLogoJpg :: bindataFileInfo where
  "assetsImgLogoJpg =
     \<lparr>fi_name = ''assets/img/logo.jpg'', fi_size = 98039, fi_mode = 420,
      fi_modTime = 1535041156 * 10 ^ 9\<rparr>"

definition assetsIndexHtml :: bindataFileInfo where
  "assetsIndexHtml =
     \<lparr>fi_name = ''assets/index.html'', fi_size = 14782, fi_mode = 420,
      fi_modTime = 1535041156 * 10 ^ 9\<rparr>"

definition assetsJsElmMdcJs :: bindataFileInfo where
  "assetsJsElmMdcJs =
     \<lparr>fi_name = ''assets/js/elm-mdc.js'', fi_size = 8980, fi_mode = 420,
      fi_modTime = 1535042922 * 10 ^ 9\<rparr>"

definition assetsJsFlickityPkgdMinJs :: bindataFileInfo where
  "assetsJsFlickityPkgdMinJs =
     \<lparr>fi_name = ''assets/js/flickity.pkgd.min.js'', fi_size = 55241, fi_mode = 420,
      fi_modTime = 1535041156 * 10 ^ 9\<rparr>"

definition assetsJsJquery331MinJs :: bindataFileInfo where
  "assetsJsJquery331MinJs =
     \<lparr>fi_name = ''assets/js/jquery-3.3.1.min.js'', fi_size = 86927, fi_mode = 420,
      fi_modTime = 1535041156 * 10 ^ 9\<rparr>"

definition assetsJsRsvpJs :: bindataFileInfo where
  "assetsJsRsvpJs =
     \<lparr>fi_name = ''assets/js/rsvp.js'', fi_size = 758447, fi_mode = 420,
      fi_modTime = 1535042922 * 10 ^ 9\<rparr>"

definition assetsMstile150x150Png :: bindataFileInfo where
  "assetsMstile150x150Png =
     \<lparr>fi_name = ''assets/mstile-150x150.png'', fi_size = 4546, fi_mode = 420,
      fi_modTime = 1535041156 * 10 ^ 9\<rparr>"

definition assetsSafariPinnedTabSvg :: bindataFileInfo where
  "assetsSafariPinnedTabSvg =
     \<lparr>fi_name = ''assets/safari-pinned-tab.svg'', fi_size = 603, fi_mode = 420,
      fi_modTime = 1535041156 * 10 ^ 9\<rparr>"

definition assetsSiteWebmanifest :: bindataFileInfo where
  "assetsSiteWebmanifest =
     \<lparr>fi_name = ''assets/site.webmanifest'', fi_size = 426, fi_mode = 420,
      fi_modTime = 1535041156 * 10 ^ 9\<rparr>"

section \<open>The table and the tree\<close>

definition bindata :: "(string \<times> bindataFileInfo) list" where
  "bindata =
     [(''assets/404.html'', assets404Html),
      (''assets/android-chrome-192x192.png'', assetsAndroidChrome192x192Png),
      (''assets/android-chrome-512x512.png'', assetsAndroidChrome512x512Png),
      (''assets/apple-touch-icon.png'', assetsAppleTouchIconPng),
      (''assets/browserconfig.xml'', assetsBrowserconfigXml),
      (''assets/css/carousel.css'', assetsCssCarouselCss),
      (''assets/css/footer.css'', assetsCssFooterCss),
      (''assets/css/main.css'', assetsCssMainCss),
      (''assets/css/material-components-web.css'', assetsCssMaterialComponentsWebCss),
      (''assets/favicon-16x16.png'', assetsFavicon16x16Png),
      (''assets/favicon-32x32.png'', assetsFavicon32x32Png),
      (''assets/favicon.ico'', assetsFaviconIco),
      (''assets/img/carousel/ault.jpg'', assetsImgCarouselAultJpg),
      (''assets/img/carousel/baie-de-somme.jpg'', assetsImgCarouselBaieDeSommeJpg),
      (''assets/img/carousel/bois-de-cise.jpg'', assetsImgCarouselBoisDeCiseJpg),
      (''assets/img/carousel/dieppe-cerfs-volants.jpg'', assetsImgCarouselDieppeCerfsVolantsJpg),
      (''assets/img/carousel/dieppe.jpg'', assetsImgCarouselDieppeJpg),
      (''assets/img/carousel/mers-les-bains.jpg'', assetsImgCarouselMersLesBainsJpg),
      (''assets/img/carousel/veules-les-roses.jpg'', assetsImgCarouselVeulesLesRosesJpg),
      (''assets/img/favicon_package_v0.16.zip'', assetsImgFavicon_package_v016Zip),
      (''assets/img/icons/brunch-small.png'', assetsImgIconsBrunchSmallPng),
      (''assets/img/icons/brunch.png'', assetsImgIconsBrunchPng),
      (''assets/img/icons/champagne-glasses-small.png'', assetsImgIconsChampagneGlassesSmallPng),
      (''assets/img/icons/champagne-glasses.png'', assetsImgIconsChampagneGlassesPng),
      (''assets/img/icons/church-small.png'', assetsImgIconsChurchSmallPng),
      (''assets/img/icons/church.png'', assetsImgIconsChurchPng),
      (''assets/img/icons/clubbing-small.png'', assetsImgIconsClubbingSmallPng),
      (''assets/img/icons/clubbing.png'', assetsImgIconsClubbingPng),
      (''assets/img/icons/cocktail-small.png'', assetsImgIconsCocktailSmallPng),
      (''assets/img/icons/cocktail.png'', assetsImgIconsCocktailPng),
      (''assets/img/icons/dancing-small.png'', assetsImgIconsDancingSmallPng),
      (''assets/img/icons/dancing.png'', assetsImgIconsDancingPng),
      (''assets/img/icons/dinner-small.png'', assetsImgIconsDinnerSmallPng),
      (''assets/img/icons/dinner.png'', assetsImgIconsDinnerPng),
      (''assets/img/icons/hall-small.png'', assetsImgIconsHallSmallPng),
      (''assets/img/icons/hall.png'', assetsImgIconsHallPng),
      (''assets/img/icons/park-small.png'', assetsImgIconsParkSmallPng),
      (''assets/img/icons/park.png'', assetsImgIconsParkPng),
      (''assets/img/icons/road-small.png'', assetsImgIconsRoadSmallPng),
      (''assets/img/icons/road.png'', assetsImgIconsRoadPng),
      (''assets/img/icons/soup-small.png'', assetsImgIconsSoupSmallPng),
      (''assets/img/icons/soup.png'', assetsImgIconsSoupPng),
      (''assets/img/icons/soup2-small.png'', assetsImgIconsSoup2SmallPng),
      (''assets/img/icons/soup2.png'', assetsImgIconsSoup2Png),
      (''assets/img/logo-text.png'', assetsImgLogoTextPng),
      (''assets/img/logo.jpg'', assetsImgLogoJpg),
      (''assets/index.html'', assetsIndexHtml),
      (''assets/js/elm-mdc.js'', assetsJsElmMdcJs),
      (''assets/js/flickity.pkgd.min.js'', assetsJsFlickityPkgdMinJs),
      (''assets/js/jquery-3.3.1.min.js'', assetsJsJquery331MinJs),
      (''assets/js/rsvp.js'', assetsJsRsvpJs),
      (''assets/mstile-150x150.png'', assetsMstile150x150Png),
      (''assets/safari-pinned-tab.svg'', assetsSafariPinnedTabSvg),
      (''assets/site.webmanifest'', assetsSiteWebmanifest)]"

datatype bintree = Bintree (bt_Func: "bindataFileInfo option") (bt_Children: "(string \<times> bintree) list")

definition the_bintree :: bintree where
  "the_bintree =
     Bintree None [
  (''assets'', Bintree None [
    (''404.html'', Bintree (Some assets404Html) []),
    (''android-chrome-192x192.png'', Bintree (Some assetsAndroidChrome192x192Png) []),
    (''android-chrome-512x512.png'', Bintree (Some assetsAndroidChrome512x512Png) []),
    (''apple-touch-icon.png'', Bintree (Some assetsAppleTouchIconPng) []),
    (''browserconfig.xml'', Bintree (Some assetsBrowserconfigXml) []),
    (''css'', Bintree None [
      (''carousel.css'', Bintree (Some assetsCssCarouselCss) []),
      (''footer.css'', Bintree (Some assetsCssFooterCss) []),
      (''main.css'', Bintree (Some assetsCssMainCss) []),
      (''material-components-web.css'', Bintree (Some assetsCssMaterialComponentsWebCss) [])
    ]),
    (''favicon-16x16.png'', Bintree (Some assetsFavicon16x16Png) []),
    (''favicon-32x32.png'', Bintree (Some assetsFavicon32x32Png) []),
    (''favicon.ico'', Bintree (Some assetsFaviconIco) []),
    (''img'', Bintree None [
      (''carousel'', Bintree None [
        (''ault.jpg'', Bintree (Some assetsImgCarouselAultJpg) []),
        (''baie-de-somme.jpg'', Bintree (Some assetsImgCarouselBaieDeSommeJpg) []),
        (''bois-de-cise.jpg'', Bintree (Some assetsImgCarouselBoisDeCiseJpg) []),
        (''dieppe-cerfs-volants.jpg'', Bintree (Some assetsImgCarouselDieppeCerfsVolantsJpg) []),
        (''dieppe.jpg'', Bintree (Some assetsImgCarouselDieppeJpg) []),
        (''mers-les-bains.jpg'', Bintree (Some assetsImgCarouselMersLesBainsJpg) []),
        (''veules-les-roses.jpg'', Bintree (Some assetsImgCarouselVeulesLesRosesJpg) [])
      ]),
      (''favicon_package_v0.16.zip'', Bintree (Some assetsImgFavicon_package_v016Zip) []),
      (''icons'', Bintree None [
        (''brunch-small.png'', Bintree (Some assetsImgIconsBrunchSmallPng) []),
        (''brunch.png'', Bintree (Some assetsImgIconsBrunchPng) []),
        (''champagne-glasses-small.png'', Bintree (Some assetsImgIconsChampagneGlassesSmallPng) []),
        (''champagne-glasses.png'', Bintree (Some assetsImgIconsChampagneGlassesPng) []),
        (''church-small.png'', Bintree (Some assetsImgIconsChurchSmallPng) []),
        (''church.png'', Bintree (Some assetsImgIconsChurchPng) []),
        (''clubbing-small.png'', Bintree (Some assetsImgIconsClubbingSmallPng) []),
        (''clubbing.png'', Bintree (Some assetsImgIconsClubbingPng) []),
        (''cocktail-small.png'', Bintree (Some assetsImgIconsCocktailSmallPng) []),
        (''cocktail.png'', Bintree (Some assetsImgIconsCocktailPng) []),
        (''dancing-small.png'', Bintree (Some assetsImgIconsDancingSmallPng) []),
        (''dancing.png'', Bintree (Some assetsImgIconsDancingPng) []),
        (''dinner-small.png'', Bintree (Some assetsImgIconsDinnerSmallPng) []),
        (''dinner.png'', Bintree (Some assetsImgIconsDinnerPng) []),
        (''hall-small.png'', Bintree (Some assetsImgIconsHallSmallPng) []),
        (''hall.png'', Bintree (Some assetsImgIconsHallPng) []),
        (''park-small.png'', Bintree (Some assetsImgIconsParkSmallPng) []),
        (''park.png'', Bintree (Some assetsImgIconsParkPng) []),
        (''road-small.png'', Bintree (Some assetsImgIconsRoadSmallPng) []),
        (''road.png'', Bintree (Some assetsImgIconsRoadPng) []),
        (''soup-small.png'', Bintree (Some assetsImgIconsSoupSmallPng) []),
        (''soup.png'', Bintree (Some assetsImgIconsSoupPng) []),
        (''soup2-small.png'', Bintree (Some assetsImgIconsSoup2SmallPng) []),
        (''soup2.png'', Bintree (Some assetsImgIconsSoup2Png) [])
      ]),
      (''logo-text.png'', Bintree (Some assetsImgLogoTextPng) []),
      (''logo.jpg'', Bintree (Some assetsImgLogoJpg) [])
    ]),
    (''index.html'', Bintree (Some assetsIndexHtml) []),
    (''js'', Bintree None [
      (''elm-mdc.js'', Bintree (Some assetsJsElmMdcJs) []),
      (''flickity.pkgd.min.js'', Bintree (Some assetsJsFlickityPkgdMinJs) []),
      (''jquery-3.3.1.min.js'', Bintree (Some assetsJsJquery331MinJs) []),
      (''rsvp.js'', Bintree (Some assetsJsRsvpJs) [])
    ]),
    (''mstile-150x150.png'', Bintree (Some assetsMstile150x150Png) []),
    (''safari-pinned-tab.svg'', Bintree (Some assetsSafariPinnedTabSvg) []),
    (''site.webmanifest'', Bintree (Some assetsSiteWebmanifest) [])
  ])
]"
section \<open>Look-ups\<close>

definition canonical_name :: "string \<Rightarrow> string" where
  "canonical_name name = map (\<lambda>c. if c = CHR 0x5C then CHR ''/'' else c) name"

definition cannot_read :: string where
  "cannot_read = '' can'' @ [CHR 0x27] @ ''t read by error: ''"

definition Asset :: "(string \<Rightarrow> unzip) \<Rightarrow> (string \<Rightarrow> string) \<Rightarrow> string \<Rightarrow> string + byte list" where
  "Asset gz q name =
     (case map_of bindata (canonical_name name) of
        Some f \<Rightarrow>
          (case load_asset gz q f of
             Inl err \<Rightarrow> Inl (''Asset '' @ name @ cannot_read @ err)
           | Inr a \<Rightarrow> Inr (a_bytes a))
      | None \<Rightarrow> Inl (''Asset '' @ name @ '' not found''))"

text \<open>\<open>None\<close> is the panic.\<close>

definition MustAsset :: "(string \<Rightarrow> unzip) \<Rightarrow> (string \<Rightarrow> string) \<Rightarrow> string \<Rightarrow> byte list option" where
  "MustAsset gz q name = (case Asset gz q name of Inl _ \<Rightarrow> None | Inr a \<Rightarrow> Some a)"

definition AssetInfo :: "(string \<Rightarrow> unzip) \<Rightarrow> (string \<Rightarrow> string) \<Rightarrow> string \<Rightarrow> string + bindataFileInfo" where
  "AssetInfo gz q name =
     (case map_of bindata (canonical_name name) of
        Some f \<Rightarrow>
          (case load_asset gz q f of
             Inl err \<Rightarrow> Inl (''AssetInfo '' @ name @ cannot_read @ err)
           | Inr a \<Rightarrow> Inr (a_info a))
      | None \<Rightarrow> Inl (''AssetInfo '' @ name @ '' not found''))"

definition AssetNames :: "string list" where
  "AssetNames = map fst bindata"

fun tree_walk :: "bintree \<Rightarrow> string list \<Rightarrow> bintree option" where
  "tree_walk t [] = Some t"
| "tree_walk t (p # ps) =
     (case map_of (bt_Children t) p of None \<Rightarrow> None | Some u \<Rightarrow> tree_walk u ps)"

definition AssetDir :: "string \<Rightarrow> string + string list" where
  "AssetDir name =
     (case (if length name \<noteq> 0 then tree_walk the_bintree (split_char CHR ''/'' (canonical_name name))
            else Some the_bintree) of
        None \<Rightarrow> Inl (''Asset '' @ name @ '' not found'')
      | Some node \<Rightarrow>
          (if bt_Func node \<noteq> None then Inl (''Asset '' @ name @ '' not found'')
           else Inr (map fst (bt_Children node))))"

section \<open>Restoring\<close>

record 'f filesys =
  fs_MkdirAll :: "string \<Rightarrow> nat \<Rightarrow> 'f \<Rightarrow> string option \<times> 'f"
  fs_WriteFile :: "string \<Rightarrow> byte list \<Rightarrow> nat \<Rightarrow> 'f \<Rightarrow> string option \<times> 'f"
  fs_Chtimes :: "string \<Rightarrow> gtime \<Rightarrow> gtime \<Rightarrow> 'f \<Rightarrow> string option \<times> 'f"

definition filePath :: "string \<Rightarrow> string \<Rightarrow> string" where
  "filePath dir name = path_Join (dir # split_char CHR ''/'' (canonical_name name))"

definition RestoreAsset ::
  "'f filesys \<Rightarrow> (string \<Rightarrow> unzip) \<Rightarrow> (string \<Rightarrow> string) \<Rightarrow> string \<Rightarrow> string \<Rightarrow> 'f \<Rightarrow> string option \<times> 'f" where
  "RestoreAsset fsys gz q dir name f =
     (case Asset gz q name of
        Inl err \<Rightarrow> (Some err, f)
      | Inr data \<Rightarrow>
          (case AssetInfo gz q name of
             Inl err \<Rightarrow> (Some err, f)
           | Inr info \<Rightarrow>
               (case fs_MkdirAll fsys (filePath dir (path_Dir name)) 0x1ED f of
                  (Some err, f1) \<Rightarrow> (Some err, f1)
                | (None, f1) \<Rightarrow>
                    (case fs_WriteFile fsys (filePath dir name) data (fi_mode info) f1 of
                       (Some err, f2) \<Rightarrow> (Some err, f2)
                     | (None, f2) \<Rightarrow>
                         fs_Chtimes fsys (filePath dir name) (fi_modTime info) (fi_modTime info) f2))))"

text \<open>A loop over names that stops at the first error; \<open>None\<close> is the exhaustion of the fuel.\<close>

fun restore_list ::
  "('a \<Rightarrow> 'f \<Rightarrow> (string option \<times> 'f) option) \<Rightarrow> 'a list \<Rightarrow> 'f \<Rightarrow> (string option \<times> 'f) option" where
  "restore_list g [] f = Some (None, f)"
| "restore_list g (x # xs) f =
     (case g x f of
        None \<Rightarrow> None
      | Some (Some err, f1) \<Rightarrow> Some (Some err, f1)
      | Some (None, f1) \<Rightarrow> restore_list g xs f1)"

text \<open>The recursion goes down the tree; five levels are enough for the tree of the program.\<close>

fun RestoreAssets ::
  "nat \<Rightarrow> 'f filesys \<Rightarrow> (string \<Rightarrow> unzip) \<Rightarrow> (string \<Rightarrow> string) \<Rightarrow> string \<Rightarrow> string \<Rightarrow> 'f \<Rightarrow>
   (string option \<times> 'f) option" where
  "RestoreAssets 0 fsys gz q dir name f = None"
| "RestoreAssets (Suc n) fsys gz q dir name f =
     (case AssetDir name of
        Inl _ \<Rightarrow> Some (RestoreAsset fsys gz q dir name f)
      | Inr children \<Rightarrow>
          restore_list (\<lambda>child. RestoreAssets n fsys gz q dir (path_Join [name, child])) children f)"

section \<open>The tree and the table are the same set of files\<close>

text \<open>The files of a tree with their paths, by levels.\<close>

fun files_at :: "nat \<Rightarrow> bintree \<Rightarrow> (string list \<times> bindataFileInfo) list" where
  "files_at 0 t = (case bt_Func t of None \<Rightarrow> [] | Some g \<Rightarrow> [([], g)])"
| "files_at (Suc n) t =
     (case bt_Func t of None \<Rightarrow> [] | Some g \<Rightarrow> [([], g)]) @
     concat (map (\<lambda>(k, u). map (\<lambda>(p, g). (k # p, g)) (files_at n u)) (bt_Children t))"

text \<open>A key of the tree: a plain component without a backslash.\<close>

definition key_ok :: "string \<Rightarrow> bool" where
  "key_ok k = (plain_component k \<and> CHR 0x5C \<notin> set k)"

fun tree_ok :: "nat \<Rightarrow> bintree \<Rightarrow> bool" where
  "tree_ok 0 t = (bt_Children t = [] \<and> bt_Func t \<noteq> None)"
| "tree_ok (Suc n) t =
     (distinct (map fst (bt_Children t)) \<and> (bt_Func t \<noteq> None \<longleftrightarrow> bt_Children t = []) \<and>
      (\<forall>(k, u) \<in> set (bt_Children t). key_ok k \<and> tree_ok n u))"

lemmas assets_defs =
  assets404Html_def assetsAndroidChrome192x192Png_def assetsAndroidChrome512x512Png_def
  assetsAppleTouchIconPng_def assetsBrowserconfigXml_def assetsCssCarouselCss_def
  assetsCssFooterCss_def assetsCssMainCss_def assetsCssMaterialComponentsWebCss_def
  assetsFavicon16x16Png_def assetsFavicon32x32Png_def assetsFaviconIco_def
  assetsImgCarouselAultJpg_def assetsImgCarouselBaieDeSommeJpg_def assetsImgCarouselBoisDeCiseJpg_def
  assetsImgCarouselDieppeCerfsVolantsJpg_def assetsImgCarouselDieppeJpg_def assetsImgCarouselMersLesBainsJpg_def
  assetsImgCarouselVeulesLesRosesJpg_def assetsImgFavicon_package_v016Zip_def assetsImgIconsBrunchSmallPng_def
  assetsImgIconsBrunchPng_def assetsImgIconsChampagneGlassesSmallPng_def assetsImgIconsChampagneGlassesPng_def
  assetsImgIconsChurchSmallPng_def assetsImgIconsChurchPng_def assetsImgIconsClubbingSmallPng_def
  assetsImgIconsClubbingPng_def assetsImgIconsCocktailSmallPng_def assetsImgIconsCocktailPng_def
  assetsImgIconsDancingSmallPng_def assetsImgIconsDancingPng_def assetsImgIconsDinnerSmallPng_def
  assetsImgIconsDinnerPng_def assetsImgIconsHallSmallPng_def assetsImgIconsHallPng_def
  assetsImgIconsParkSmallPng_def assetsImgIconsParkPng_def assetsImgIconsRoadSmallPng_def
  assetsImgIconsRoadPng_def assetsImgIconsSoupSmallPng_def assetsImgIconsSoupPng_def
  assetsImgIconsSoup2SmallPng_def assetsImgIconsSoup2Png_def assetsImgLogoTextPng_def
  assetsImgLogoJpg_def assetsIndexHtml_def assetsJsElmMdcJs_def
  assetsJsFlickityPkgdMinJs_def assetsJsJquery331MinJs_def assetsJsRsvpJs_def
  assetsMstile150x150Png_def assetsSafariPinnedTabSvg_def assetsSiteWebmanifest_def

lemma the_bintree_ok: "tree_ok 4 the_bintree"
  by (simp add: the_bintree_def key_ok_def plain_component_def numeral_eq_Suc)

lemma the_bintree_files:
  "map (\<lambda>(p, g). (Join p ''/'', g)) (files_at 4 the_bintree) = bindata"
  by (simp add: the_bintree_def bindata_def numeral_eq_Suc)

lemma bindata_names: "map (\<lambda>(k, g). fi_name g) bindata = map fst bindata"
  by (simp add: bindata_def assets_defs)

lemma bindata_distinct: "distinct (map fst bindata)"
  by (simp add: bindata_def)

lemma tree_walk_files:
  "tree_ok n t \<Longrightarrow> (\<exists>u. tree_walk t p = Some u \<and> bt_Func u = Some g) \<longleftrightarrow> (p, g) \<in> set (files_at n t)"
proof (induction n arbitrary: t p)
  case 0
  then show ?case by (cases p) auto
next
  case (Suc n)
  show ?case
  proof (cases p)
    case Nil
    have "([], g) \<notin> set (concat (map (\<lambda>(k, u). map (\<lambda>(p, g). (k # p, g)) (files_at n u)) cs))" for cs
      by auto
    with Nil show ?thesis by (cases "bt_Func t") auto
  next
    case (Cons k ps)
    have d: "distinct (map fst (bt_Children t))" using Suc.prems by simp
    have "(k # ps, g) \<in> set (files_at (Suc n) t) \<longleftrightarrow>
        (\<exists>u. (k, u) \<in> set (bt_Children t) \<and> (ps, g) \<in> set (files_at n u))"
      by (cases "bt_Func t") (auto, force+)
    also have "\<dots> \<longleftrightarrow> (\<exists>u. map_of (bt_Children t) k = Some u \<and> (ps, g) \<in> set (files_at n u))"
      using d by (auto dest: map_of_SomeD intro: map_of_is_SomeI)
    also have "\<dots> \<longleftrightarrow> (\<exists>u v. map_of (bt_Children t) k = Some u \<and> tree_walk u ps = Some v \<and> bt_Func v = Some g)"
    proof -
      have "(ps, g) \<in> set (files_at n u) \<longleftrightarrow> (\<exists>v. tree_walk u ps = Some v \<and> bt_Func v = Some g)"
        if "map_of (bt_Children t) k = Some u" for u
        using Suc.IH [of u ps] Suc.prems map_of_SomeD [OF that] by auto
      then show ?thesis by blast
    qed
    finally show ?thesis using Cons by (auto split: option.split)
  qed
qed

lemma files_at_plain:
  "tree_ok n t \<Longrightarrow> (p, g) \<in> set (files_at n t) \<Longrightarrow> list_all plain_component p"
proof (induction n arbitrary: t p)
  case 0
  then show ?case by (auto split: option.splits)
next
  case (Suc n)
  show ?case
  proof (cases p)
    case (Cons k ps)
    then obtain u where u: "(k, u) \<in> set (bt_Children t)" "(ps, g) \<in> set (files_at n u)"
      using Suc.prems(2) by (cases "bt_Func t") auto
    with Suc.prems(1) have "plain_component k" "tree_ok n u" by (auto simp: key_ok_def)
    with Suc.IH [OF _ u(2)] Cons show ?thesis by simp
  qed simp
qed

lemma bindata_files:
  "(k, g) \<in> set bindata \<longleftrightarrow> (\<exists>p. (p, g) \<in> set (files_at 4 the_bintree) \<and> k = Join p ''/'')"
  unfolding the_bintree_files [symmetric] by force

lemma root_not_a_file: "([], g) \<notin> set (files_at 4 the_bintree)"
  by (simp add: the_bintree_def numeral_eq_Suc)

lemma split_file:
  assumes "(p, g) \<in> set (files_at 4 the_bintree)"
  shows "split_char CHR ''/'' (Join p ''/'') = p"
proof -
  have "p \<noteq> []" using assms root_not_a_file by (cases p) auto
  then show ?thesis
    using files_at_plain [OF the_bintree_ok assms]
    by (intro split_char_Join) (auto simp: list_all_iff plain_component_def)
qed

lemma bindata_walk:
  "map_of bindata k = Some g \<longleftrightarrow>
     (\<exists>u. tree_walk the_bintree (split_char CHR ''/'' k) = Some u \<and> bt_Func u = Some g)"
proof -
  have "map_of bindata k = Some g \<longleftrightarrow> (k, g) \<in> set bindata"
    using bindata_distinct by (simp add: map_of_eq_Some_iff)
  also have "\<dots> \<longleftrightarrow> (split_char CHR ''/'' k, g) \<in> set (files_at 4 the_bintree)"
  proof
    assume "(k, g) \<in> set bindata"
    then obtain p where "(p, g) \<in> set (files_at 4 the_bintree)" "k = Join p ''/''"
      unfolding bindata_files by blast
    with split_file show "(split_char CHR ''/'' k, g) \<in> set (files_at 4 the_bintree)" by simp
  next
    assume "(split_char CHR ''/'' k, g) \<in> set (files_at 4 the_bintree)"
    then show "(k, g) \<in> set bindata" unfolding bindata_files by (metis Join_split_char)
  qed
  finally show ?thesis using tree_walk_files [OF the_bintree_ok] by simp
qed

lemma bindata_no_backslash: "k \<in> set (map fst bindata) \<Longrightarrow> canonical_name k = k \<and> k \<noteq> []"
proof -
  have "list_all (\<lambda>k. canonical_name k = k \<and> k \<noteq> []) (map fst bindata)"
    by (simp add: bindata_def canonical_name_def)
  then show "k \<in> set (map fst bindata) \<Longrightarrow> canonical_name k = k \<and> k \<noteq> []"
    unfolding list_all_iff by blast
qed

lemma AssetDir_file: "k \<in> set (map fst bindata) \<Longrightarrow> \<exists>e. AssetDir k = Inl e"
proof -
  assume k: "k \<in> set (map fst bindata)"
  then obtain g where "(k, g) \<in> set bindata" by auto
  then have "map_of bindata k = Some g" using bindata_distinct by (simp add: map_of_eq_Some_iff)
  then show ?thesis
    using bindata_no_backslash [OF k] by (auto simp: bindata_walk AssetDir_def)
qed

section \<open>Restoring everything\<close>

lemma restore_list_append:
  "restore_list g (xs @ ys) f =
     (case restore_list g xs f of
        None \<Rightarrow> None
      | Some (Some err, f1) \<Rightarrow> Some (Some err, f1)
      | Some (None, f1) \<Rightarrow> restore_list g ys f1)"
  by (induction xs arbitrary: f) (auto split: option.split)

lemma restore_list_cong:
  "(\<And>x f. x \<in> set xs \<Longrightarrow> g x f = h x f) \<Longrightarrow> restore_list g xs f = restore_list h xs f"
  by (induction xs arbitrary: f) (auto split: option.split)

lemma restore_list_map: "restore_list g (map k xs) f = restore_list (\<lambda>x. g (k x)) xs f"
  by (induction xs arbitrary: f) (auto split: option.split)

text \<open>The files one after the other.\<close>

definition restore_files ::
  "'f filesys \<Rightarrow> (string \<Rightarrow> unzip) \<Rightarrow> (string \<Rightarrow> string) \<Rightarrow> string \<Rightarrow> string list \<Rightarrow> 'f \<Rightarrow>
   (string option \<times> 'f) option" where
  "restore_files fsys gz q dir names f = restore_list (\<lambda>n f. Some (RestoreAsset fsys gz q dir n f)) names f"

text \<open>The files below a name, when the fuel reaches them.\<close>

fun collect_all :: "('a \<Rightarrow> 'b list option) \<Rightarrow> 'a list \<Rightarrow> 'b list option" where
  "collect_all g [] = Some []"
| "collect_all g (x # xs) =
     (case g x of None \<Rightarrow> None
      | Some ys \<Rightarrow> (case collect_all g xs of None \<Rightarrow> None | Some zs \<Rightarrow> Some (ys @ zs)))"

fun files_below :: "nat \<Rightarrow> string \<Rightarrow> string list option" where
  "files_below 0 name = None"
| "files_below (Suc n) name =
     (case AssetDir name of
        Inl _ \<Rightarrow> Some [name]
      | Inr children \<Rightarrow> collect_all (\<lambda>child. files_below n (path_Join [name, child])) children)"

lemma restore_files_append:
  "restore_files fsys gz q dir (xs @ ys) f =
     (case restore_files fsys gz q dir xs f of
        None \<Rightarrow> None
      | Some (Some err, f1) \<Rightarrow> Some (Some err, f1)
      | Some (None, f1) \<Rightarrow> restore_files fsys gz q dir ys f1)"
  unfolding restore_files_def by (rule restore_list_append)

lemma restore_list_files:
  assumes "collect_all g xs = Some ns"
    and "\<And>x ys f. x \<in> set xs \<Longrightarrow> g x = Some ys \<Longrightarrow> r x f = restore_files fsys gz q dir ys f"
  shows "restore_list r xs f = restore_files fsys gz q dir ns f"
  using assms
proof (induction xs arbitrary: ns f)
  case Nil
  then show ?case by (simp add: restore_files_def)
next
  case (Cons x xs)
  from Cons.prems(1) obtain ys zs where "g x = Some ys" "collect_all g xs = Some zs" "ns = ys @ zs"
    by (auto split: option.splits)
  with Cons.IH [of zs] Cons.prems(2) show ?case
    by (simp add: restore_files_append split: option.split)
qed

lemma RestoreAssets_files_below:
  "files_below n name = Some ns \<Longrightarrow>
     RestoreAssets n fsys gz q dir name f = restore_files fsys gz q dir ns f"
proof (induction n arbitrary: name ns f)
  case (Suc n)
  show ?case
  proof (cases "AssetDir name")
    case (Inl e)
    with Suc.prems show ?thesis by (auto simp: restore_files_def split: prod.split option.split)
  next
    case (Inr children)
    with Suc.prems have "collect_all (\<lambda>child. files_below n (path_Join [name, child])) children = Some ns"
      by simp
    from restore_list_files [OF this Suc.IH] Inr show ?thesis by simp
  qed
qed simp

text \<open>Names that come from the tree: joined keys.\<close>

lemma Join_snoc: "ps \<noteq> [] \<Longrightarrow> Join [Join ps sep, c] sep = Join (ps @ [c]) sep"
proof (induction ps)
  case (Cons p ps)
  show ?case
  proof (cases "ps = []")
    case False
    with Cons.IH show ?thesis by (simp add: Join_Cons)
  qed simp
qed simp

lemma set_Join: "set (Join ps sep) \<subseteq> (\<Union>p \<in> set ps. set p) \<union> set sep"
  by (induction ps sep rule: Join.induct) auto

lemma canonical_Join: "list_all key_ok ps \<Longrightarrow> canonical_name (Join ps ''/'') = Join ps ''/''"
proof -
  assume "list_all key_ok ps"
  then have "CHR 0x5C \<notin> set (Join ps ''/'')"
    using set_Join [of ps "''/''"] by (fastforce simp: list_all_iff key_ok_def)
  then show ?thesis by (auto simp: canonical_name_def intro!: map_idI)
qed

lemma keys_plain: "list_all key_ok ps \<Longrightarrow> list_all plain_component ps"
  by (auto simp: list_all_iff key_ok_def)

lemma split_keys:
  "list_all key_ok ps \<Longrightarrow> ps \<noteq> [] \<Longrightarrow> split_char CHR ''/'' (Join ps ''/'') = ps \<and> Join ps ''/'' \<noteq> []"
proof
  assume k: "list_all key_ok ps" and n: "ps \<noteq> []"
  then show "split_char CHR ''/'' (Join ps ''/'') = ps"
    by (intro split_char_Join) (auto simp: list_all_iff key_ok_def plain_component_def)
  then show "Join ps ''/'' \<noteq> []"
    using k n by (cases ps; cases "tl ps") (auto simp: key_ok_def plain_component_def Join_Cons)
qed

lemma path_Join_keys:
  assumes "list_all key_ok ps" and "key_ok c"
  shows "path_Join [Join ps ''/'', c] = Join (ps @ [c]) ''/''"
proof (cases "ps = []")
  case True
  have "c \<noteq> []" using assms(2) by (simp add: key_ok_def plain_component_def)
  then show ?thesis
    using True Clean_plain [of "[c]"] assms(2) by (simp add: path_Join_def key_ok_def)
next
  case False
  have "list_all plain_component (ps @ [c])" using assms keys_plain by (simp add: key_ok_def)
  then have "Clean (Join (ps @ [c]) ''/'') = Join (ps @ [c]) ''/''" by (intro Clean_plain) simp_all
  with False split_keys [OF assms(1) False] show ?thesis
    by (simp only: path_Join_def dropWhile.simps if_False list.case Join_snoc [OF False])
qed

lemma AssetDir_walk:
  assumes "tree_walk the_bintree ps = Some u" and "list_all key_ok ps"
  shows "bt_Func u \<noteq> None \<Longrightarrow> \<exists>e. AssetDir (Join ps ''/'') = Inl e"
    and "bt_Func u = None \<Longrightarrow> AssetDir (Join ps ''/'') = Inr (map fst (bt_Children u))"
proof -
  have "(if length (Join ps ''/'') \<noteq> 0 then
      tree_walk the_bintree (split_char CHR ''/'' (canonical_name (Join ps ''/'')))
      else Some the_bintree) = Some u"
    using assms split_keys [OF assms(2)] by (cases "ps = []") (simp_all add: canonical_Join)
  then show "bt_Func u \<noteq> None \<Longrightarrow> \<exists>e. AssetDir (Join ps ''/'') = Inl e"
    "bt_Func u = None \<Longrightarrow> AssetDir (Join ps ''/'') = Inr (map fst (bt_Children u))"
    by (simp_all only: AssetDir_def) simp_all
qed

lemma tree_walk_append:
  "tree_walk t (ps @ qs) = (case tree_walk t ps of None \<Rightarrow> None | Some u \<Rightarrow> tree_walk u qs)"
  by (induction t ps rule: tree_walk.induct) (auto split: option.split)

lemma collect_all_pairs:
  "(\<And>k v. (k, v) \<in> set cs \<Longrightarrow> g k = Some (h k v)) \<Longrightarrow>
     collect_all g (map fst cs) = Some (concat (map (\<lambda>(k, v). h k v) cs))"
proof (induction cs)
  case (Cons x cs)
  obtain k v where x: "x = (k, v)" by (cases x)
  then have "g k = Some (h k v)" using Cons.prems by simp
  moreover have "collect_all g (map fst cs) = Some (concat (map (\<lambda>(k, v). h k v) cs))"
    using Cons.prems by (intro Cons.IH) simp
  ultimately show ?case using x by simp
qed simp

lemma files_below_tree:
  assumes "tree_walk the_bintree ps = Some u" and "tree_ok n u" and "list_all key_ok ps"
  shows "files_below (Suc n) (Join ps ''/'') = Some (map (\<lambda>(p, g). Join (ps @ p) ''/'') (files_at n u))"
  using assms
proof (induction n arbitrary: ps u)
  case 0
  then obtain g where "bt_Func u = Some g" by auto
  then show ?case using AssetDir_walk(1) [OF 0(1,3)] by auto
next
  case (Suc n)
  show ?case
  proof (cases "bt_Func u")
    case (Some g)
    then show ?thesis using AssetDir_walk(1) [OF Suc.prems(1,3)] Suc.prems(2) by auto
  next
    case None
    let ?h = "\<lambda>k v. map (\<lambda>(p, g). Join (ps @ k # p) ''/'') (files_at n v)"
    have "files_below (Suc n) (path_Join [Join ps ''/'', k]) = Some (?h k v)"
      if kv: "(k, v) \<in> set (bt_Children u)" for k v
    proof -
      have k: "key_ok k" "tree_ok n v" using Suc.prems(2) kv by auto
      have "map_of (bt_Children u) k = Some v" using Suc.prems(2) kv by simp
      then have "tree_walk the_bintree (ps @ [k]) = Some v"
        using Suc.prems(1) by (simp add: tree_walk_append)
      from Suc.IH [OF this k(2)] k(1) Suc.prems(3) show ?thesis
        by (simp add: path_Join_keys [OF Suc.prems(3) k(1)] del: files_below.simps)
    qed
    from collect_all_pairs [of "bt_Children u" "\<lambda>c. files_below (Suc n) (path_Join [Join ps ''/'', c])" ?h,
        OF this]
    show ?thesis
      using AssetDir_walk(2) [OF Suc.prems(1,3) None] None
      by (simp add: map_concat comp_def case_prod_unfold)
  qed
qed

lemma files_below_root: "files_below 5 [] = Some (map fst bindata)"
proof -
  have "files_below (Suc 4) (Join [] ''/'') = Some (map (\<lambda>(p, g). Join ([] @ p) ''/'') (files_at 4 the_bintree))"
    by (rule files_below_tree [OF _ the_bintree_ok]) simp_all
  also have "map (\<lambda>(p, g). Join ([] @ p) ''/'') (files_at 4 the_bintree) = map fst bindata"
    unfolding the_bintree_files [symmetric] by (simp add: comp_def case_prod_unfold)
  finally show ?thesis by simp
qed

section \<open>Properties\<close>

text \<open>
  The table and the tree agree: a name is in the table with a loader exactly when walking the
  tree along its components ends in a file with that loader, so \<open>Asset\<close> and \<open>AssetDir\<close> are never
  both successful on the same name.
\<close>

lemma Asset_table_iff_tree:
  "(map_of bindata (canonical_name name) = Some g \<longleftrightarrow>
      (\<exists>u. tree_walk the_bintree (split_char CHR ''/'' (canonical_name name)) = Some u \<and> bt_Func u = Some g)) \<and>
   ((\<exists>e. Asset gz q name = Inl e) \<or> (\<exists>e. AssetDir name = Inl e))"
proof (intro conjI)
  show "map_of bindata (canonical_name name) = Some g \<longleftrightarrow>
      (\<exists>u. tree_walk the_bintree (split_char CHR ''/'' (canonical_name name)) = Some u \<and> bt_Func u = Some g)"
    by (rule bindata_walk)
  show "(\<exists>e. Asset gz q name = Inl e) \<or> (\<exists>e. AssetDir name = Inl e)"
  proof (cases "map_of bindata (canonical_name name)")
    case None
    then show ?thesis by (simp add: Asset_def)
  next
    case (Some h)
    then have "canonical_name name \<in> set (map fst bindata)" by (force dest: map_of_SomeD)
    then have "canonical_name name \<noteq> []" using bindata_no_backslash by blast
    then have "name \<noteq> []" by (auto simp: canonical_name_def)
    with Some bindata_walk [of "canonical_name name" h] show ?thesis by (auto simp: AssetDir_def)
  qed
qed

text \<open>
  \<open>RestoreAssets\<close> on the root returns, and restores exactly the files of the table, each once and
  in the table's order, stopping at the first error, on every file system.
\<close>

lemma RestoreAssets_restores_table:
  "RestoreAssets 5 fsys gz q dir [] f = restore_files fsys gz q dir AssetNames f \<and>
   distinct AssetNames \<and> RestoreAssets 5 fsys gz q dir [] f \<noteq> None"
proof -
  have "restore_files fsys gz q dir ns f \<noteq> None" for ns f
    by (induction ns arbitrary: f) (auto simp: restore_files_def split: prod.split option.split)
  then show ?thesis
    unfolding RestoreAssets_files_below [OF files_below_root] AssetNames_def
    using bindata_distinct by simp
qed

end
