(* ===== verification/Gw_Pattern.thy ===== *)
theory Gw_Pattern
  imports Go_Strings
begin

text \<open>
  The path patterns of the gateway (\<open>runtime/pattern.go\<close>): a compiled pattern is a program for a
  small stack machine. \<open>NewPattern\<close> checks a program, \<open>Match\<close> runs it over the components of a
  path. \<open>Match\<close> indexes slices without a test of its own; what it may rely on is what
  \<open>NewPattern\<close> has checked, and the property of this theory is that this is enough.
\<close>

section \<open>Programs\<close>

datatype OpCode = OpNop | OpPush | OpLitPush | OpPushM | OpConcatN | OpCapture

definition OpCode_of :: "int \<Rightarrow> OpCode option" where
  "OpCode_of i =
     (if i = 0 then Some OpNop else if i = 1 then Some OpPush else if i = 2 then Some OpLitPush
      else if i = 3 then Some OpPushM else if i = 4 then Some OpConcatN
      else if i = 5 then Some OpCapture else None)"

record op =
  op_code :: OpCode
  op_operand :: int

record Pattern =
  p_ops :: "op list"
  p_pool :: "string list"
  p_vars :: "string list"
  p_stacksize :: int
  p_tailLen :: int
  p_verb :: string

text \<open>The variables of the loop of \<open>NewPattern\<close>.\<close>

record np_state =
  np_typedOps :: "op list"
  np_stack :: int
  np_maxstack :: int
  np_tailLen :: int
  np_pushMSeen :: bool
  np_vars :: "string list"

definition np_emit :: "op \<Rightarrow> np_state \<Rightarrow> np_state" where
  "np_emit op st =
     st\<lparr>np_maxstack := (if np_maxstack st < np_stack st then np_stack st else np_maxstack st),
        np_typedOps := np_typedOps st @ [op]\<rparr>"

definition np_step :: "string list \<Rightarrow> int \<Rightarrow> int \<Rightarrow> np_state \<Rightarrow> np_state option" where
  "np_step pool c x st =
     (case OpCode_of c of
        None \<Rightarrow> None
      | Some OpNop \<Rightarrow> Some st
      | Some OpPush \<Rightarrow>
          Some (np_emit \<lparr>op_code = OpPush, op_operand = x\<rparr>
            (st\<lparr>np_tailLen := (if np_pushMSeen st then np_tailLen st + 1 else np_tailLen st),
                np_stack := np_stack st + 1\<rparr>))
      | Some OpPushM \<Rightarrow>
          if np_pushMSeen st then None
          else Some (np_emit \<lparr>op_code = OpPushM, op_operand = x\<rparr>
            (st\<lparr>np_pushMSeen := True, np_stack := np_stack st + 1\<rparr>))
      | Some OpLitPush \<Rightarrow>
          if x < 0 \<or> int (length pool) \<le> x then None
          else Some (np_emit \<lparr>op_code = OpLitPush, op_operand = x\<rparr>
            (st\<lparr>np_tailLen := (if np_pushMSeen st then np_tailLen st + 1 else np_tailLen st),
                np_stack := np_stack st + 1\<rparr>))
      | Some OpConcatN \<Rightarrow>
          if x \<le> 0 then None
          else if np_stack st - x < 0 then None
          else Some (np_emit \<lparr>op_code = OpConcatN, op_operand = x\<rparr>
            (st\<lparr>np_stack := np_stack st - x + 1\<rparr>))
      | Some OpCapture \<Rightarrow>
          if x < 0 \<or> int (length pool) \<le> x then None
          else if np_stack st - 1 < 0 then None
          else Some (np_emit \<lparr>op_code = OpCapture, op_operand = int (length (np_vars st))\<rparr>
            (st\<lparr>np_vars := np_vars st @ [pool ! nat x], np_stack := np_stack st - 1\<rparr>)))"

fun np_loop :: "string list \<Rightarrow> int list \<Rightarrow> np_state \<Rightarrow> np_state option" where
  "np_loop pool (c # x # ops) st =
     (case np_step pool c x st of None \<Rightarrow> None | Some st' \<Rightarrow> np_loop pool ops st')"
| "np_loop pool _ st = Some st"

definition NewPattern :: "int \<Rightarrow> int list \<Rightarrow> string list \<Rightarrow> string \<Rightarrow> Pattern option" where
  "NewPattern version ops pool verb =
     (if version \<noteq> 1 then None
      else if length ops mod 2 \<noteq> 0 then None
      else (case np_loop pool ops \<lparr>np_typedOps = [], np_stack = 0, np_maxstack = 0, np_tailLen = 0,
                np_pushMSeen = False, np_vars = []\<rparr> of
              None \<Rightarrow> None
            | Some st \<Rightarrow>
                Some \<lparr>p_ops = np_typedOps st, p_pool = pool, p_vars = np_vars st,
                  p_stacksize = np_maxstack st, p_tailLen = np_tailLen st, p_verb = verb\<rparr>))"

text \<open>\<open>MustPattern\<close> ends the process on an error; here \<open>None\<close> is passed on.\<close>

definition MustPattern :: "Pattern option \<Rightarrow> Pattern option" where
  "MustPattern p = (case p of None \<Rightarrow> None | Some p \<Rightarrow> Some p)"

section \<open>Matching\<close>

text \<open>A run ends with the captured values, without a match, or with an index out of range.\<close>

datatype 'a match_result = Matched 'a | ErrNotMatch | MatchPanic

record match_state =
  ms_pos :: int
  ms_stack :: "string list"
  ms_captured :: "string list"

text \<open>Go's \<open>xs[a:b]\<close> and \<open>xs[a]\<close>, which panic out of range.\<close>

definition slice :: "'a list \<Rightarrow> int \<Rightarrow> int \<Rightarrow> 'a list option" where
  "slice xs a b =
     (if 0 \<le> a \<and> a \<le> b \<and> b \<le> int (length xs) then Some (take (nat (b - a)) (drop (nat a) xs)) else None)"

definition index_at :: "'a list \<Rightarrow> int \<Rightarrow> 'a option" where
  "index_at xs i = (if 0 \<le> i \<and> i < int (length xs) then Some (xs ! nat i) else None)"

definition match_step :: "Pattern \<Rightarrow> string list \<Rightarrow> op \<Rightarrow> match_state \<Rightarrow> match_state match_result" where
  "match_step p components op st =
     (let l = int (length components); pos = ms_pos st; stack = ms_stack st
      in case op_code op of
           OpNop \<Rightarrow> Matched st
         | OpPush \<Rightarrow>
             if pos \<ge> l then ErrNotMatch
             else (case index_at components pos of
                     None \<Rightarrow> MatchPanic
                   | Some c \<Rightarrow> Matched (st\<lparr>ms_stack := stack @ [c], ms_pos := pos + 1\<rparr>))
         | OpLitPush \<Rightarrow>
             if pos \<ge> l then ErrNotMatch
             else (case index_at components pos of
                     None \<Rightarrow> MatchPanic
                   | Some c \<Rightarrow>
                       (case index_at (p_pool p) (op_operand op) of
                          None \<Rightarrow> MatchPanic
                        | Some lit \<Rightarrow>
                            if c \<noteq> lit then ErrNotMatch
                            else Matched (st\<lparr>ms_stack := stack @ [c], ms_pos := pos + 1\<rparr>)))
         | OpPushM \<Rightarrow>
             if l < pos + p_tailLen p then ErrNotMatch
             else (case slice components pos (l - p_tailLen p) of
                     None \<Rightarrow> MatchPanic
                   | Some cs \<Rightarrow> Matched (st\<lparr>ms_stack := stack @ [Join cs ''/''], ms_pos := l - p_tailLen p\<rparr>))
         | OpConcatN \<Rightarrow>
             (let k = int (length stack) - op_operand op
              in case (slice stack 0 k, slice stack k (int (length stack))) of
                   (Some a, Some b) \<Rightarrow> Matched (st\<lparr>ms_stack := a @ [Join b ''/'']\<rparr>)
                 | _ \<Rightarrow> MatchPanic)
         | OpCapture \<Rightarrow>
             (let n = int (length stack) - 1
              in case index_at stack n of
                   None \<Rightarrow> MatchPanic
                 | Some v \<Rightarrow>
                     if 0 \<le> op_operand op \<and> op_operand op < int (length (ms_captured st)) then
                       Matched (st\<lparr>ms_captured := (ms_captured st)[nat (op_operand op) := v],
                         ms_stack := take (nat n) stack\<rparr>)
                     else MatchPanic))"

fun match_ops :: "Pattern \<Rightarrow> string list \<Rightarrow> op list \<Rightarrow> match_state \<Rightarrow> match_state match_result" where
  "match_ops p components [] st = Matched st"
| "match_ops p components (op # ops) st =
     (case match_step p components op st of
        Matched st' \<Rightarrow> match_ops p components ops st'
      | ErrNotMatch \<Rightarrow> ErrNotMatch
      | MatchPanic \<Rightarrow> MatchPanic)"

text \<open>The bindings as a map; a later variable of the same name overwrites an earlier one.\<close>

definition Match :: "Pattern \<Rightarrow> string list \<Rightarrow> string \<Rightarrow> (string \<Rightarrow> string option) match_result" where
  "Match p components verb =
     (if p_verb p \<noteq> verb then ErrNotMatch
      else (case match_ops p components (p_ops p)
                \<lparr>ms_pos = 0, ms_stack = [], ms_captured = replicate (length (p_vars p)) []\<rparr> of
              ErrNotMatch \<Rightarrow> ErrNotMatch
            | MatchPanic \<Rightarrow> MatchPanic
            | Matched st \<Rightarrow>
                if ms_pos st < int (length components) then ErrNotMatch
                else Matched (map_of (rev (zip (p_vars p) (ms_captured st))))))"

definition Pattern_Verb :: "Pattern \<Rightarrow> string" where
  "Pattern_Verb p = p_verb p"

section \<open>Checked programs do not go wrong\<close>

text \<open>The height of the stack after an operation that is safe at height \<open>d\<close>.\<close>

definition op_height :: "nat \<Rightarrow> nat \<Rightarrow> op \<Rightarrow> int \<Rightarrow> int option" where
  "op_height lits vars op d =
     (case op_code op of
        OpNop \<Rightarrow> Some d
      | OpPush \<Rightarrow> Some (d + 1)
      | OpPushM \<Rightarrow> Some (d + 1)
      | OpLitPush \<Rightarrow> if 0 \<le> op_operand op \<and> op_operand op < int lits then Some (d + 1) else None
      | OpConcatN \<Rightarrow> if 0 < op_operand op \<and> op_operand op \<le> d then Some (d - op_operand op + 1) else None
      | OpCapture \<Rightarrow>
          if 0 < d \<and> 0 \<le> op_operand op \<and> op_operand op < int vars then Some (d - 1) else None)"

fun ops_height :: "nat \<Rightarrow> nat \<Rightarrow> op list \<Rightarrow> int \<Rightarrow> int option" where
  "ops_height lits vars [] d = Some d"
| "ops_height lits vars (op # ops) d =
     (case op_height lits vars op d of None \<Rightarrow> None | Some d' \<Rightarrow> ops_height lits vars ops d')"

lemma ops_height_append:
  "ops_height l v (xs @ ys) d = Option.bind (ops_height l v xs d) (ops_height l v ys)"
  by (induction xs arbitrary: d) (auto split: option.split)

lemma op_height_mono: "op_height l v op d = Some d' \<Longrightarrow> v \<le> w \<Longrightarrow> op_height l w op d = Some d'"
  by (auto simp: op_height_def split: OpCode.splits if_splits)

lemma ops_height_mono: "ops_height l v ops d = Some d' \<Longrightarrow> v \<le> w \<Longrightarrow> ops_height l w ops d = Some d'"
  by (induction ops arbitrary: d) (auto split: option.splits dest: op_height_mono)

text \<open>What the loop of \<open>NewPattern\<close> keeps.\<close>

definition np_inv :: "string list \<Rightarrow> np_state \<Rightarrow> bool" where
  "np_inv pool st \<longleftrightarrow>
     ops_height (length pool) (length (np_vars st)) (np_typedOps st) 0 = Some (np_stack st) \<and>
     0 \<le> np_stack st \<and> 0 \<le> np_tailLen st"

lemma np_inv_emit:
  assumes "np_inv pool st" and "length (np_vars st) \<le> length (np_vars st')"
    and "np_typedOps st' = np_typedOps st"
    and "op_height (length pool) (length (np_vars st')) op (np_stack st) = Some (np_stack st')"
    and "0 \<le> np_stack st'" and "0 \<le> np_tailLen st'"
  shows "np_inv pool (np_emit op st')"
proof -
  have "ops_height (length pool) (length (np_vars st')) (np_typedOps st) 0 = Some (np_stack st)"
    using assms(1,2) unfolding np_inv_def by (blast intro: ops_height_mono)
  with assms show ?thesis by (simp add: np_inv_def np_emit_def ops_height_append)
qed

lemma np_step_inv: "np_inv pool st \<Longrightarrow> np_step pool c x st = Some st' \<Longrightarrow> np_inv pool st'"
  unfolding np_step_def
  by (auto split: option.splits OpCode.splits if_splits intro!: np_inv_emit [where st = st]
      simp: op_height_def) (auto simp: np_inv_def)

lemma np_loop_inv: "np_inv pool st \<Longrightarrow> np_loop pool ops st = Some st' \<Longrightarrow> np_inv pool st'"
  by (induction pool ops st rule: np_loop.induct) (auto split: option.splits dest: np_step_inv)

text \<open>A pattern that \<open>NewPattern\<close> has accepted.\<close>

definition wf_pattern :: "Pattern \<Rightarrow> bool" where
  "wf_pattern p \<longleftrightarrow>
     ops_height (length (p_pool p)) (length (p_vars p)) (p_ops p) 0 \<noteq> None \<and> 0 \<le> p_tailLen p"

lemma NewPattern_wf: "NewPattern v ops pool verb = Some p \<Longrightarrow> wf_pattern p"
  by (auto simp: NewPattern_def wf_pattern_def np_inv_def split: if_splits option.splits
      dest!: np_loop_inv [rotated])

text \<open>The stack of a run has the height that the program predicts.\<close>

definition run_ok :: "Pattern \<Rightarrow> string list \<Rightarrow> int \<Rightarrow> match_state \<Rightarrow> bool" where
  "run_ok p components d st \<longleftrightarrow>
     int (length (ms_stack st)) = d \<and> length (ms_captured st) = length (p_vars p) \<and>
     0 \<le> ms_pos st"

lemma match_step_ok:
  assumes "run_ok p cs d st" and "0 \<le> p_tailLen p"
    and "op_height (length (p_pool p)) (length (p_vars p)) op d = Some d'"
  shows "match_step p cs op st \<noteq> MatchPanic \<and>
    (\<forall>st'. match_step p cs op st = Matched st' \<longrightarrow> run_ok p cs d' st')"
  using assms
  by (cases "op_code op")
    (auto simp: run_ok_def op_height_def match_step_def Let_def index_at_def slice_def split: if_splits)

lemma match_ops_ok:
  assumes "run_ok p cs d st" and "0 \<le> p_tailLen p"
    and "ops_height (length (p_pool p)) (length (p_vars p)) ops d \<noteq> None"
  shows "match_ops p cs ops st \<noteq> MatchPanic"
  using assms
proof (induction ops arbitrary: d st)
  case (Cons op ops)
  then obtain d' where d': "op_height (length (p_pool p)) (length (p_vars p)) op d = Some d'"
    by (auto split: option.splits)
  note ok = match_step_ok [OF Cons.prems(1,2) d']
  show ?case
    using ok Cons.prems(3) d' Cons.IH [OF _ Cons.prems(2)]
    by (cases "match_step p cs op st") auto
qed simp

lemma wf_pattern_Match: "wf_pattern p \<Longrightarrow> Match p cs verb \<noteq> MatchPanic"
  using match_ops_ok [of p cs 0 "\<lparr>ms_pos = 0, ms_stack = [], ms_captured = replicate (length (p_vars p)) []\<rparr>" "p_ops p"]
  by (auto simp: Match_def wf_pattern_def run_ok_def split: match_result.split)

text \<open>
  C27: a pattern that \<open>NewPattern\<close> accepts can be matched against any path: \<open>Match\<close>, which pops,
  indexes and slices without a test, never goes out of range, because the static check of the
  stack height, of the literals and of the variables covers every step of a run.
\<close>

theorem NewPattern_Match_safe:
  assumes "NewPattern version ops pool verb = Some p"
  shows "Match p components v \<noteq> MatchPanic"
  using NewPattern_wf [OF assms] by (rule wf_pattern_Match)

theorem NewPattern_Match_safe_witness:
  "\<exists>p. NewPattern 1 [2, 0, 3, 0, 4, 2, 5, 1, 2, 2] [''a'', ''name'', ''b''] ''v'' = Some p \<and>
       Match p [''a'', ''x'', ''y'', ''b''] ''v'' \<noteq> MatchPanic \<and>
       Match p [''a'', ''x'', ''y'', ''b''] ''v'' = Matched [''name'' \<mapsto> ''a/x/y'']"
proof -
  let ?n = "NewPattern 1 [2, 0, 3, 0, 4, 2, 5, 1, 2, 2] [''a'', ''name'', ''b''] ''v''"
  let ?p = "\<lparr>p_ops = [\<lparr>op_code = OpLitPush, op_operand = 0\<rparr>, \<lparr>op_code = OpPushM, op_operand = 0\<rparr>,
      \<lparr>op_code = OpConcatN, op_operand = 2\<rparr>, \<lparr>op_code = OpCapture, op_operand = 0\<rparr>,
      \<lparr>op_code = OpLitPush, op_operand = 2\<rparr>],
     p_pool = [''a'', ''name'', ''b''], p_vars = [''name''], p_stacksize = 2, p_tailLen = 1, p_verb = ''v''\<rparr>"
  have n: "?n = Some ?p"
    by (simp add: NewPattern_def np_step_def OpCode_of_def np_emit_def)
  have "Match ?p [''a'', ''x'', ''y'', ''b''] ''v'' = Matched [''name'' \<mapsto> ''a/x/y'']"
    by (simp add: Match_def match_step_def index_at_def slice_def)
  with n NewPattern_Match_safe [OF n] show ?thesis by blast
qed

end
