(* ===== verification/Gateway.thy ===== *)
theory Gateway
  imports Gw_Pattern Go_Http Pb_Grpc
begin

text \<open>
  The HTTP gateway of the service: the multiplexer of grpc-gateway (\<open>runtime/mux.go\<close>), the
  metadata it makes from the headers of a request (\<open>runtime/context.go\<close>), its error replies, and
  the generated handlers of \<open>pb/www.pb.gw.go\<close>. The JSON marshaler is an argument. The header and
  trailer metadata of a reply and the deadline of a context are not part of the model.
\<close>

section \<open>The marshaler\<close>

datatype payload = PMsg "www_resp option" | PStatus code string

datatype decode_error = DecEOF | DecError string

text \<open>Decoding fills a message, also when it then reports an error.\<close>

record marshaler =
  mr_ContentType :: string
  mr_Marshal :: "payload \<Rightarrow> string + string"
  mr_Decode :: "string \<Rightarrow> RsvpCreationRequest \<times> decode_error option"

section \<open>Metadata\<close>

definition MetadataHeaderPrefix :: string where
  "MetadataHeaderPrefix = ''Grpc-Metadata-''"

definition MetadataPrefix :: string where
  "MetadataPrefix = ''grpcgateway-''"

definition isPermanentHTTPHeader :: "string \<Rightarrow> bool" where
  "isPermanentHTTPHeader hdr \<longleftrightarrow> hdr \<in> set
     [''Accept'', ''Accept-Charset'', ''Accept-Language'', ''Accept-Ranges'', ''Authorization'',
      ''Cache-Control'', ''Content-Type'', ''Cookie'', ''Date'', ''Expect'', ''From'', ''Host'',
      ''If-Match'', ''If-Modified-Since'', ''If-None-Match'', ''If-Schedule-Tag-Match'',
      ''If-Unmodified-Since'', ''Max-Forwards'', ''Origin'', ''Pragma'', ''Referer'', ''User-Agent'',
      ''Via'', ''Warning'']"

definition DefaultHeaderMatcher :: "string \<Rightarrow> string option" where
  "DefaultHeaderMatcher key0 =
     (let key = CanonicalMIMEHeaderKey key0
      in if isPermanentHTTPHeader key then Some (MetadataPrefix @ key)
         else if HasPrefix key MetadataHeaderPrefix then Some (drop (length MetadataHeaderPrefix) key)
         else None)"

text \<open>The pairs of one value of a header, and of all of them.\<close>

definition value_pairs :: "string \<Rightarrow> string \<Rightarrow> (string \<times> string) list" where
  "value_pairs key val =
     (if ToLower key = ''authorization'' then [(''authorization'', val)] else []) @
     (case DefaultHeaderMatcher key of None \<Rightarrow> [] | Some h \<Rightarrow> [(h, val)])"

definition header_pairs :: "(string \<times> string list) list \<Rightarrow> (string \<times> string) list" where
  "header_pairs hs = concat (List.map (\<lambda>(key, vals). concat (List.map (value_pairs key) vals)) hs)"

definition host_pairs :: "http_request \<Rightarrow> (string \<times> string) list" where
  "host_pairs r =
     (let host = Header_Get r ''X-Forwarded-Host''
      in if host \<noteq> [] then [(''x-forwarded-host'', host)]
         else if rq_Host r \<noteq> [] then [(''x-forwarded-host'', rq_Host r)] else [])"

definition addr_pairs :: "http_request \<Rightarrow> (string \<times> string) list" where
  "addr_pairs r =
     (if rq_RemoteAddr r = [] then []
      else (case SplitHostPort (rq_RemoteAddr r) of
              Inl _ \<Rightarrow> []
            | Inr (remoteIP, _) \<Rightarrow>
                (let fwd = Header_Get r ''X-Forwarded-For''
                 in if fwd = [] then [(''x-forwarded-for'', remoteIP)]
                    else [(''x-forwarded-for'', fwd @ '', '' @ remoteIP)])))"

text \<open>\<open>metadata.Pairs\<close>\<close>

definition md_Pairs :: "(string \<times> string) list \<Rightarrow> MD" where
  "md_Pairs kv = foldl (\<lambda>m (k, v). MD_Add m k v) Map.empty kv"

text \<open>A unit of \<open>Grpc-Timeout\<close> in nanoseconds.\<close>

definition timeoutUnitToDuration :: "char \<Rightarrow> int option" where
  "timeoutUnitToDuration u =
     (if u = CHR ''H'' then Some 3600000000000
      else if u = CHR ''M'' then Some 60000000000
      else if u = CHR ''S'' then Some 1000000000
      else if u = CHR ''m'' then Some 1000000
      else if u = CHR ''u'' then Some 1000
      else if u = CHR ''n'' then Some 1
      else None)"

definition timeoutDecode :: "string \<Rightarrow> int option" where
  "timeoutDecode s =
     (if length s < 2 then None
      else (case timeoutUnitToDuration (last s) of
              None \<Rightarrow> None
            | Some d \<Rightarrow>
                (case ParseInt (butlast s) of
                   None \<Rightarrow> None
                 | Some t \<Rightarrow> Some (sint (of_int (d * t) :: 64 word)))))"

definition AnnotateContext :: "'c ctx \<Rightarrow> http_request \<Rightarrow> rpc_error + 'c ctx" where
  "AnnotateContext c r =
     (let tm = Header_Get r ''Grpc-Timeout''
      in if tm \<noteq> [] \<and> timeoutDecode tm = None then
           Inl (status_Error CodeInvalidArgument (''invalid grpc-timeout: '' @ tm))
         else
           (let pairs = header_pairs (rq_Header r) @ host_pairs r @ addr_pairs r
            in if pairs = [] then Inr c else Inr (c\<lparr>x_outgoing := Some (md_Pairs pairs)\<rparr>)))"

section \<open>Replies\<close>

fun HTTPStatusFromCode :: "code \<Rightarrow> nat" where
  "HTTPStatusFromCode CodeOK = StatusOK"
| "HTTPStatusFromCode CodeCanceled = StatusRequestTimeout"
| "HTTPStatusFromCode CodeUnknown = StatusInternalServerError"
| "HTTPStatusFromCode CodeInvalidArgument = StatusBadRequest"
| "HTTPStatusFromCode CodeDeadlineExceeded = StatusGatewayTimeout"
| "HTTPStatusFromCode CodeNotFound = StatusNotFound"
| "HTTPStatusFromCode CodeAlreadyExists = StatusConflict"
| "HTTPStatusFromCode CodePermissionDenied = StatusForbidden"
| "HTTPStatusFromCode CodeUnauthenticated = StatusUnauthorized"
| "HTTPStatusFromCode CodeResourceExhausted = StatusTooManyRequests"
| "HTTPStatusFromCode CodeFailedPrecondition = StatusBadRequest"
| "HTTPStatusFromCode CodeAborted = StatusConflict"
| "HTTPStatusFromCode CodeOutOfRange = StatusBadRequest"
| "HTTPStatusFromCode CodeUnimplemented = StatusNotImplemented"
| "HTTPStatusFromCode CodeInternal = StatusInternalServerError"
| "HTTPStatusFromCode CodeUnavailable = StatusServiceUnavailable"
| "HTTPStatusFromCode CodeDataLoss = StatusInternalServerError"
| "HTTPStatusFromCode (CodeNumber _) = StatusInternalServerError"

text \<open>\<open>pt\<close> prints the value of a panic.\<close>

definition DefaultHTTPProtoErrorHandler ::
  "(panic \<Rightarrow> string) \<Rightarrow> marshaler \<Rightarrow> rpc_error \<Rightarrow> http_reply" where
  "DefaultHTTPProtoErrorHandler pt mr err =
     (let (c, m) = status_FromError pt err; hdr = [''Content-Type'' \<mapsto> mr_ContentType mr]
      in case mr_Marshal mr (PStatus c m) of
           Inl _ \<Rightarrow>
             \<lparr>rp_Status = StatusInternalServerError, rp_Header = hdr,
              rp_Body = ''{\"code\": 13, \"message\": \"failed to marshal error message\"}''\<rparr>
         | Inr buf \<Rightarrow> \<lparr>rp_Status = HTTPStatusFromCode c, rp_Header = hdr, rp_Body = buf\<rparr>)"

definition ForwardResponseMessage ::
  "(panic \<Rightarrow> string) \<Rightarrow> marshaler \<Rightarrow> www_resp option \<Rightarrow> http_reply" where
  "ForwardResponseMessage pt mr resp =
     (case mr_Marshal mr (PMsg resp) of
        Inl e \<Rightarrow> DefaultHTTPProtoErrorHandler pt mr (Plain e)
      | Inr buf \<Rightarrow>
          \<lparr>rp_Status = StatusOK, rp_Header = [''Content-Type'' \<mapsto> mr_ContentType mr], rp_Body = buf\<rparr>)"

section \<open>The generated request functions\<close>

definition request_Www_Version_0 ::
  "'c ctx \<Rightarrow> marshaler \<Rightarrow> ('c, 's) WwwServer \<Rightarrow> http_request \<Rightarrow> 's \<Rightarrow> www_resp outcome \<times> 's" where
  "request_Www_Version_0 c mr client r s =
     lift_handler RespVersion (srv_Version client c EmptyMessage s)"

definition request_Www_ServicesStatus_0 ::
  "'c ctx \<Rightarrow> marshaler \<Rightarrow> ('c, 's) WwwServer \<Rightarrow> http_request \<Rightarrow> 's \<Rightarrow> www_resp outcome \<times> 's" where
  "request_Www_ServicesStatus_0 c mr client r s =
     lift_handler RespStatus (srv_ServicesStatus client c EmptyMessage s)"

definition request_Www_RsvpCreation_0 ::
  "'c ctx \<Rightarrow> marshaler \<Rightarrow> ('c, 's) WwwServer \<Rightarrow> http_request \<Rightarrow> 's \<Rightarrow> www_resp outcome \<times> 's" where
  "request_Www_RsvpCreation_0 c mr client r s =
     (case mr_Decode mr (rq_Body r) of
        (protoReq, Some (DecError e)) \<Rightarrow> (Ret None (Some (status_Error CodeInvalidArgument e)), s)
      | (protoReq, _) \<Rightarrow> lift_handler RespRsvp (srv_RsvpCreation client c protoReq s))"

section \<open>The multiplexer\<close>

type_synonym pathParams = "string \<Rightarrow> string option"

type_synonym 's HandlerFunc = "http_request \<Rightarrow> pathParams \<Rightarrow> 's \<Rightarrow> http_result \<times> 's"

text \<open>
  The handlers of each method, and the order in which a loop over the map of methods visits
  them, which Go leaves open.
\<close>

record 's ServeMux =
  gm_handlers :: "string \<Rightarrow> (Pattern \<times> 's HandlerFunc) list"
  gm_order :: "string list"

definition NewServeMux :: "string list \<Rightarrow> 's ServeMux" where
  "NewServeMux order = \<lparr>gm_handlers = (\<lambda>_. []), gm_order = order\<rparr>"

definition Handle :: "'s ServeMux \<Rightarrow> string \<Rightarrow> Pattern \<Rightarrow> 's HandlerFunc \<Rightarrow> 's ServeMux" where
  "Handle mx meth pat h =
     mx\<lparr>gm_handlers := (gm_handlers mx)(meth := gm_handlers mx meth @ [(pat, h)])\<rparr>"

definition isPathLengthFallback :: "http_request \<Rightarrow> bool" where
  "isPathLengthFallback r \<longleftrightarrow>
     rq_Method r = ''POST'' \<and> Header_Get r ''Content-Type'' = ''application/x-www-form-urlencoded''"

text \<open>The first handler of a list whose pattern matches.\<close>

fun first_match ::
  "string list \<Rightarrow> string \<Rightarrow> (Pattern \<times> 'h) list \<Rightarrow> ('h \<times> pathParams) match_result" where
  "first_match cs verb [] = ErrNotMatch"
| "first_match cs verb ((p, h) # hs) =
     (case Match p cs verb of
        Matched params \<Rightarrow> Matched (h, params)
      | MatchPanic \<Rightarrow> MatchPanic
      | ErrNotMatch \<Rightarrow> first_match cs verb hs)"

fun other_methods ::
  "string list \<Rightarrow> string \<Rightarrow> string \<Rightarrow> (string \<Rightarrow> (Pattern \<times> 'h) list) \<Rightarrow> string list \<Rightarrow>
   ('h \<times> pathParams) match_result" where
  "other_methods cs verb meth hs [] = ErrNotMatch"
| "other_methods cs verb meth hs (m # ms) =
     (if m = meth then other_methods cs verb meth hs ms
      else (case first_match cs verb (hs m) of
              ErrNotMatch \<Rightarrow> other_methods cs verb meth hs ms
            | x \<Rightarrow> x))"

text \<open>The components of the path without the verb, and the verb; \<open>None\<close> for a verb of nothing.\<close>

definition split_verb :: "string list \<Rightarrow> (string list \<times> string) option" where
  "split_verb components =
     (let c = last components
      in case last_index (CHR '':'') c of
           None \<Rightarrow> Some (components, [])
         | Some idx \<Rightarrow>
             if idx = 0 then None
             else Some (butlast components @ [take idx c], drop (idx + 1) c))"

definition ServeHTTP ::
  "(string \<Rightarrow> string) \<Rightarrow> (panic \<Rightarrow> string) \<Rightarrow> marshaler \<Rightarrow> 's ServeMux \<Rightarrow> 's http_handler" where
  "ServeHTTP quote pt mr mx r0 s =
     (let fail = (\<lambda>c m. (Reply (DefaultHTTPProtoErrorHandler pt mr (status_Error c m)), s))
      in if \<not> HasPrefix (rq_Path r0) ''/'' then fail CodeInvalidArgument ''Bad Request''
         else
           (case split_verb (split_char (CHR ''/'') (tl (rq_Path r0))) of
              None \<Rightarrow> fail CodeUnimplemented ''Not Implemented''
            | Some (components, verb) \<Rightarrow>
                (let override = Header_Get r0 ''X-HTTP-Method-Override'';
                     (perr, r) = (if override \<noteq> [] \<and> isPathLengthFallback r0
                                  then ParseForm quote (r0\<lparr>rq_Method := ToUpper override\<rparr>)
                                  else (None, r0))
                 in case perr of
                      Some e \<Rightarrow> fail CodeInvalidArgument e
                    | None \<Rightarrow>
                        (case first_match components verb (gm_handlers mx (rq_Method r)) of
                           Matched (h, params) \<Rightarrow> h r params s
                         | MatchPanic \<Rightarrow> (HPanic IndexOutOfRange, s)
                         | ErrNotMatch \<Rightarrow>
                             (case other_methods components verb (rq_Method r) (gm_handlers mx) (gm_order mx) of
                                ErrNotMatch \<Rightarrow> fail CodeUnimplemented ''Not Implemented''
                              | MatchPanic \<Rightarrow> (HPanic IndexOutOfRange, s)
                              | Matched (h, params) \<Rightarrow>
                                  if isPathLengthFallback r then
                                    (case ParseForm quote r of
                                       (Some e, _) \<Rightarrow> fail CodeInvalidArgument e
                                     | (None, r') \<Rightarrow> h r' params s)
                                  else fail CodeUnimplemented ''Method Not Allowed'')))))"

section \<open>The routes of the service\<close>

definition pattern_Www_Version_0 :: "Pattern option" where
  "pattern_Www_Version_0 =
     MustPattern (NewPattern 1 [2, 0, 2, 1, 2, 2] [''api'', ''v1'', ''version''] '''')"

definition pattern_Www_ServicesStatus_0 :: "Pattern option" where
  "pattern_Www_ServicesStatus_0 =
     MustPattern (NewPattern 1 [2, 0, 2, 1, 2, 2, 2, 3] [''api'', ''v1'', ''services'', ''status''] '''')"

definition pattern_Www_RsvpCreation_0 :: "Pattern option" where
  "pattern_Www_RsvpCreation_0 =
     MustPattern (NewPattern 1 [2, 0, 2, 1, 2, 2] [''api'', ''v1'', ''rsvp_creation''] '''')"

text \<open>The body that the three generated handlers share, around their request function.\<close>

definition gw_handler ::
  "(panic \<Rightarrow> string) \<Rightarrow> marshaler \<Rightarrow>
   ('c ctx \<Rightarrow> http_request \<Rightarrow> 's \<Rightarrow> www_resp outcome \<times> 's) \<Rightarrow> 's HandlerFunc" where
  "gw_handler pt mr request r params s =
     (case AnnotateContext Background r of
        Inl e \<Rightarrow> (Reply (DefaultHTTPProtoErrorHandler pt mr e), s)
      | Inr rctx \<Rightarrow>
          (case request rctx r s of
             (Panic p, s') \<Rightarrow> (HPanic p, s')
           | (Ret _ (Some e), s') \<Rightarrow> (Reply (DefaultHTTPProtoErrorHandler pt mr e), s')
           | (Ret resp None, s') \<Rightarrow> (Reply (ForwardResponseMessage pt mr resp), s')))"

definition RegisterWwwHandlerClient ::
  "(panic \<Rightarrow> string) \<Rightarrow> marshaler \<Rightarrow> 's ServeMux \<Rightarrow> ('c, 's) WwwServer \<Rightarrow> 's ServeMux option" where
  "RegisterWwwHandlerClient pt mr mx client =
     (case (pattern_Www_Version_0, pattern_Www_ServicesStatus_0, pattern_Www_RsvpCreation_0) of
        (Some pv, Some ps, Some pr) \<Rightarrow>
          Some (Handle
            (Handle
              (Handle mx ''GET'' pv (gw_handler pt mr (\<lambda>c. request_Www_Version_0 c mr client)))
              ''GET'' ps (gw_handler pt mr (\<lambda>c. request_Www_ServicesStatus_0 c mr client)))
            ''POST'' pr (gw_handler pt mr (\<lambda>c. request_Www_RsvpCreation_0 c mr client)))
      | _ \<Rightarrow> None)"

definition RegisterWwwHandler ::
  "(panic \<Rightarrow> string) \<Rightarrow> marshaler \<Rightarrow> 's ServeMux \<Rightarrow> ('c, 's) channel \<Rightarrow> 's ServeMux option" where
  "RegisterWwwHandler pt mr mx conn = RegisterWwwHandlerClient pt mr mx (NewWwwClient conn)"

text \<open>\<open>dial\<close> is the result of \<open>grpc.Dial\<close>: an error, or the connection.\<close>

definition RegisterWwwHandlerFromEndpoint ::
  "(panic \<Rightarrow> string) \<Rightarrow> marshaler \<Rightarrow> 's ServeMux \<Rightarrow> string + ('c, 's) channel \<Rightarrow>
   string + 's ServeMux option" where
  "RegisterWwwHandlerFromEndpoint pt mr mx dial =
     (case dial of
        Inl err \<Rightarrow> Inl err
      | Inr conn \<Rightarrow> Inr (RegisterWwwHandler pt mr mx conn))"

end
