(* ===== verification/Http.thy ===== *)
theory Http
  imports Assets Gateway Service
begin

text \<open>
  The HTTP side of the service: the controller of \<open>service/http.go\<close>, the routes that
  \<open>RegisterHTTPServices\<close> of \<open>service/service.go\<close> sets up, the matching of routes by gorilla/mux, the
  file system of go-bindata-assetfs over the embedded files, and Go's file server. What the
  standard library and the other packages compute is collected in the record \<open>http_lib\<close>.
\<close>

section \<open>The libraries\<close>

text \<open>
  \<open>hl_serveContent\<close> is \<open>http.serveContent\<close> (ranges, conditions and content types) on a file name, a
  time and a content; \<open>hl_dirList\<close> lists a directory; \<open>hl_URL\<close> prints a path with a query;
  \<open>hl_json\<close> encodes a string; \<open>hl_gz\<close> decompresses the embedded files; \<open>hl_metrics\<close> is the handler
  of Prometheus; \<open>hl_start\<close> is the time at which the process started.
\<close>

record http_lib =
  hl_serveContent :: "http_request \<Rightarrow> string \<Rightarrow> gtime \<Rightarrow> byte list \<Rightarrow> http_reply"
  hl_dirList :: "http_request \<Rightarrow> (string \<times> bool) list \<Rightarrow> http_reply"
  hl_URL :: "string \<Rightarrow> string \<Rightarrow> string"
  hl_json :: "string \<Rightarrow> string"
  hl_quote :: "string \<Rightarrow> string"
  hl_gz :: "string \<Rightarrow> unzip"
  hl_metrics :: "http_request \<Rightarrow> http_reply"
  hl_panic :: "panic \<Rightarrow> string"
  hl_marshaler :: marshaler
  hl_Swagger :: string
  hl_start :: gtime

definition text_of :: "byte list \<Rightarrow> string" where
  "text_of bs = List.map (\<lambda>b. char_of (unat b)) bs"

section \<open>The embedded file system\<close>

datatype fs_file =
    AssetFile string "byte list" gtime
  | AssetDirectory string "(string \<times> bool) list"

datatype open_error = ErrNotExist | OpenFailed string

record AssetFS =
  af_Asset :: "string \<Rightarrow> string + byte list"
  af_AssetDir :: "string \<Rightarrow> string + string list"
  af_AssetInfo :: "string \<Rightarrow> string + bindataFileInfo"
  af_Prefix :: string

definition NewAssetDirectory :: "string \<Rightarrow> string list \<Rightarrow> AssetFS \<Rightarrow> fs_file" where
  "NewAssetDirectory name children fs =
     AssetDirectory name
       (List.map (\<lambda>child. (child, \<not> isl (af_AssetDir fs (path_Join [name, child])))) children)"

definition AssetFS_Open :: "gtime \<Rightarrow> AssetFS \<Rightarrow> string \<Rightarrow> open_error + fs_file" where
  "AssetFS_Open start fs name0 =
     (let joined = path_Join [af_Prefix fs, name0];
          name = (if joined \<noteq> [] \<and> hd joined = CHR ''/'' then tl joined else joined)
      in case af_Asset fs name of
           Inr b \<Rightarrow>
             Inr (AssetFile name b
               (case af_AssetInfo fs name of Inl _ \<Rightarrow> start | Inr info \<Rightarrow> fi_modTime info))
         | Inl _ \<Rightarrow>
             (case af_AssetDir fs name of
                Inr children \<Rightarrow> Inr (NewAssetDirectory name children fs)
              | Inl err \<Rightarrow>
                  if Contains err ''not found'' then Inl ErrNotExist else Inl (OpenFailed err)))"

definition fs_IsDir :: "fs_file \<Rightarrow> bool" where
  "fs_IsDir f = (case f of AssetFile _ _ _ \<Rightarrow> False | AssetDirectory _ _ \<Rightarrow> True)"

section \<open>Go's file server\<close>

definition toHTTPError :: "open_error \<Rightarrow> string \<times> nat" where
  "toHTTPError e =
     (case e of
        ErrNotExist \<Rightarrow> (''404 page not found'', StatusNotFound)
      | OpenFailed _ \<Rightarrow> (''500 Internal Server Error'', StatusInternalServerError))"

definition localRedirect :: "http_request \<Rightarrow> string \<Rightarrow> http_reply" where
  "localRedirect r newPath =
     \<lparr>rp_Status = StatusMovedPermanently,
      rp_Header = [''Location'' \<mapsto>
        (if rq_RawQuery r \<noteq> [] then newPath @ ''?'' @ rq_RawQuery r else newPath)],
      rp_Body = []\<rparr>"

text \<open>The last component of the name of a file.\<close>

definition file_Name :: "string \<Rightarrow> string" where
  "file_Name p = rev (takeWhile (\<lambda>c. c \<noteq> CHR ''/'') (rev p))"

definition serve_opened :: "http_lib \<Rightarrow> http_request \<Rightarrow> fs_file \<Rightarrow> http_reply" where
  "serve_opened lib r f =
     (case f of
        AssetFile name content t \<Rightarrow> hl_serveContent lib r (file_Name name) t content
      | AssetDirectory _ infos \<Rightarrow> hl_dirList lib r infos)"

definition serveFile :: "http_lib \<Rightarrow> AssetFS \<Rightarrow> http_request \<Rightarrow> string \<Rightarrow> http_reply" where
  "serveFile lib fs r name =
     (if HasSuffix (rq_Path r) ''/index.html'' then localRedirect r ''./''
      else
        (case AssetFS_Open (hl_start lib) fs name of
           Inl e \<Rightarrow> (let (msg, c) = toHTTPError e in http_Error msg c)
         | Inr f \<Rightarrow>
             (let url = rq_Path r
              in if fs_IsDir f \<and> last url \<noteq> CHR ''/'' then localRedirect r (path_Base url @ ''/'')
                 else if \<not> fs_IsDir f \<and> last url = CHR ''/'' then localRedirect r (''../'' @ path_Base url)
                 else if fs_IsDir f then
                   (case AssetFS_Open (hl_start lib) fs (TrimSuffix name ''/'' @ ''/index.html'') of
                      Inl _ \<Rightarrow> serve_opened lib r f
                    | Inr ff \<Rightarrow> serve_opened lib r ff)
                 else serve_opened lib r f)))"

definition FileServer :: "http_lib \<Rightarrow> AssetFS \<Rightarrow> http_request \<Rightarrow> http_reply" where
  "FileServer lib fs r0 =
     (let r = (if \<not> HasPrefix (rq_Path r0) ''/'' then r0\<lparr>rq_Path := ''/'' @ rq_Path r0\<rparr> else r0)
      in serveFile lib fs r (Clean (rq_Path r)))"

section \<open>The controller\<close>

record wwwHTTPController =
  hc_version :: string
  hc_jwt :: "string option"
  hc_uiFs :: "AssetFS option"

definition initUiFS :: "http_lib \<Rightarrow> wwwHTTPController \<Rightarrow> wwwHTTPController" where
  "initUiFS lib s =
     s\<lparr>hc_uiFs := Some
       \<lparr>af_Asset = Asset (hl_gz lib) (hl_quote lib), af_AssetDir = AssetDir,
        af_AssetInfo = AssetInfo (hl_gz lib) (hl_quote lib), af_Prefix = ''assets''\<rparr>\<rparr>"

text \<open>A file system that was not set up is a nil pointer.\<close>

definition html_reply :: "nat \<Rightarrow> byte list \<Rightarrow> http_reply" where
  "html_reply c contents =
     \<lparr>rp_Status = c, rp_Header = [''Content-Type'' \<mapsto> ''text/html''], rp_Body = text_of contents\<rparr>"

definition NotFound :: "wwwHTTPController \<Rightarrow> http_request \<Rightarrow> http_result" where
  "NotFound s r =
     (case hc_uiFs s of
        None \<Rightarrow> HPanic NilDereference
      | Some fs \<Rightarrow>
          (case af_Asset fs (path_Join [af_Prefix fs, ''404.html'']) of
             Inl _ \<Rightarrow> Reply (http_Error ''Page not found'' StatusNotFound)
           | Inr contents \<Rightarrow> Reply (html_reply StatusNotFound contents)))"

definition Root :: "http_lib \<Rightarrow> wwwHTTPController \<Rightarrow> http_request \<Rightarrow> http_result" where
  "Root lib s r =
     (case hc_uiFs s of
        None \<Rightarrow> HPanic NilDereference
      | Some fs \<Rightarrow>
          if TrimPrefix (rq_Path r) ''/'' = [] then
            (case af_Asset fs (path_Join [af_Prefix fs, ''index.html'']) of
               Inl _ \<Rightarrow> NotFound s r
             | Inr contents \<Rightarrow> Reply (html_reply StatusOK contents))
          else
            (case af_AssetInfo fs (path_Join [af_Prefix fs, rq_Path r]) of
               Inl _ \<Rightarrow> NotFound s r
             | Inr _ \<Rightarrow> Reply (FileServer lib fs r)))"

definition http_Status :: "http_request \<Rightarrow> http_result" where
  "http_Status r = Reply \<lparr>rp_Status = StatusOK, rp_Header = Map.empty, rp_Body = ''OK''\<rparr>"

definition json_reply :: "string \<Rightarrow> http_reply" where
  "json_reply body =
     \<lparr>rp_Status = StatusOK, rp_Header = [''Content-Type'' \<mapsto> ''application/json''], rp_Body = body\<rparr>"

definition http_Swagger :: "http_lib \<Rightarrow> http_request \<Rightarrow> http_result" where
  "http_Swagger lib r = Reply (json_reply (hl_Swagger lib))"

text \<open>\<open>json.Marshal\<close> of a version: the fields that are not empty; strings always encode.\<close>

definition json_version :: "(string \<Rightarrow> string) \<Rightarrow> VersionResponse \<Rightarrow> string" where
  "json_version js v =
     ''{'' @ Join
       ((if vr_Name v \<noteq> [] then [js ''name'' @ '':'' @ js (vr_Name v)] else []) @
        (if vr_Version v \<noteq> [] then [js ''version'' @ '':'' @ js (vr_Version v)] else [])) '','' @ ''}''"

definition http_Version :: "http_lib \<Rightarrow> wwwHTTPController \<Rightarrow> http_request \<Rightarrow> http_result" where
  "http_Version lib s r =
     Reply (json_reply (json_version (hl_json lib)
       (VersionResponse_Reset\<lparr>vr_Name := ''ah-svc-www'', vr_Version := hc_version s\<rparr>)))"

section \<open>Routes\<close>

text \<open>
  Routes of gorilla/mux whose templates have no variables: \<open>HandleFunc\<close> and \<open>Handle\<close> match the whole
  path, \<open>PathPrefix\<close> a prefix. The label is that of the instrumented handler.
\<close>

datatype route_template = RPath string | RPrefix string

record 's route =
  rt_template :: route_template
  rt_label :: string
  rt_handler :: "'s http_handler"

fun routeRegexp_Match :: "route_template \<Rightarrow> string \<Rightarrow> bool" where
  "routeRegexp_Match (RPath tpl) p = (p = tpl)"
| "routeRegexp_Match (RPrefix tpl) p = HasPrefix p tpl"

definition Router_Match :: "'s route list \<Rightarrow> http_request \<Rightarrow> 's route option" where
  "Router_Match routes r = find (\<lambda>rt. routeRegexp_Match (rt_template rt) (rq_Path r)) routes"

definition cleanPath :: "string \<Rightarrow> string" where
  "cleanPath p0 =
     (if p0 = [] then ''/''
      else
        (let p = (if hd p0 \<noteq> CHR ''/'' then ''/'' @ p0 else p0); np = Clean p
         in if last p = CHR ''/'' \<and> np \<noteq> ''/'' then np @ ''/'' else np))"

definition Router_ServeHTTP :: "http_lib \<Rightarrow> 's route list \<Rightarrow> 's http_handler" where
  "Router_ServeHTTP lib routes r s =
     (let p = cleanPath (rq_Path r)
      in if p \<noteq> rq_Path r then
           (Reply \<lparr>rp_Status = StatusMovedPermanently,
              rp_Header = [''Location'' \<mapsto> hl_URL lib p (rq_RawQuery r)], rp_Body = []\<rparr>, s)
         else
           (case Router_Match routes r of
              None \<Rightarrow> (Reply (http_Error ''404 page not found'' StatusNotFound), s)
            | Some rt \<Rightarrow> rt_handler rt r s))"

definition pure_handler :: "(http_request \<Rightarrow> http_result) \<Rightarrow> 's http_handler" where
  "pure_handler h r s = (h r, s)"

definition RegisterRoutes :: "http_lib \<Rightarrow> wwwHTTPController \<Rightarrow> 's route list" where
  "RegisterRoutes lib s0 =
     (let s = initUiFS lib s0
      in [\<lparr>rt_template = RPath ''/status'', rt_label = ''Http.Status'', rt_handler = pure_handler http_Status\<rparr>,
          \<lparr>rt_template = RPath ''/version'', rt_label = ''Http.Version'', rt_handler = pure_handler (http_Version lib s)\<rparr>,
          \<lparr>rt_template = RPath ''/404'', rt_label = ''Http.NotFoundPage'', rt_handler = pure_handler (NotFound s)\<rparr>,
          \<lparr>rt_template = RPrefix ''/'', rt_label = ''Http.Root'', rt_handler = pure_handler (Root lib s)\<rparr>])"

definition routeMap :: "(string \<times> string) list" where
  "routeMap =
     [(''/api/v1/services/status'', ''Api.ServicesStatus''),
      (''/api/v1/rsvp_creation'', ''Api.RsvpCreation''),
      (''/api/v1/version'', ''Api.Version'')]"

text \<open>
  \<open>rorder\<close> lists the entries of \<open>routeMap\<close> in the order in which the loop visits the map,
  \<open>gorder\<close> is the order of the map of methods of the gateway. A failing registration ends the
  process (\<open>None\<close>).
\<close>

definition RegisterHTTPServices ::
  "http_lib \<Rightarrow> (string \<times> string) list \<Rightarrow> string list \<Rightarrow> string + ('c, 's) channel \<Rightarrow>
   string option \<Rightarrow> 'db Service \<Rightarrow> 's route list option" where
  "RegisterHTTPServices lib rorder gorder dial jwtMiddleware svc =
     (let hc = \<lparr>hc_version = Service_Version svc, hc_jwt = jwtMiddleware, hc_uiFs = None\<rparr>
      in case RegisterWwwHandlerFromEndpoint (hl_panic lib) (hl_marshaler lib) (NewServeMux gorder) dial of
           Inl err \<Rightarrow> None
         | Inr None \<Rightarrow> None
         | Inr (Some gwmux) \<Rightarrow>
             Some
               ([\<lparr>rt_template = RPrefix ''/api/v1/swagger.json'', rt_label = ''Api.Swagger'',
                  rt_handler = pure_handler (http_Swagger lib)\<rparr>] @
                List.map (\<lambda>(route, label).
                  \<lparr>rt_template = RPrefix route, rt_label = label,
                   rt_handler = ServeHTTP (hl_quote lib) (hl_panic lib) (hl_marshaler lib) gwmux\<rparr>) rorder @
                [\<lparr>rt_template = RPath ''/metrics'', rt_label = [],
                  rt_handler = pure_handler (\<lambda>r. Reply (hl_metrics lib r))\<rparr>] @
                RegisterRoutes lib hc))"

end
