(* ===== verification/Cors.thy ===== *)
theory Cors
  imports Go_Http
begin

text \<open>
  The cross-origin middleware of the HTTP server (vendored rs/cors), as the server sets it up: only
  the list of allowed origins is configured, so methods and request headers are the defaults and
  credentials are never allowed. A header with several values carries them separated by commas.
\<close>

section \<open>Configuration\<close>

record wildcard =
  wc_prefix :: string
  wc_suffix :: string

record Cors =
  co_allowedOrigins :: "string list"
  co_allowedWOrigins :: "wildcard list"
  co_allowedOriginsAll :: bool

definition wildcard_match :: "wildcard \<Rightarrow> string \<Rightarrow> bool" where
  "wildcard_match w s \<longleftrightarrow>
     length s \<ge> length (wc_prefix w @ wc_suffix w) \<and> HasPrefix s (wc_prefix w) \<and> HasSuffix s (wc_suffix w)"

fun cors_origins :: "string list \<Rightarrow> Cors \<Rightarrow> Cors" where
  "cors_origins [] c = c"
| "cors_origins (o0 # os) c =
     (let origin = ToLower o0
      in if origin = ''*'' then
           \<lparr>co_allowedOrigins = [], co_allowedWOrigins = [], co_allowedOriginsAll = True\<rparr>
         else if CHR ''*'' \<in> set origin then
           cors_origins os (c\<lparr>co_allowedWOrigins := co_allowedWOrigins c @
             [\<lparr>wc_prefix = takeWhile (\<lambda>x. x \<noteq> CHR ''*'') origin,
               wc_suffix = tl (dropWhile (\<lambda>x. x \<noteq> CHR ''*'') origin)\<rparr>]\<rparr>)
         else cors_origins os (c\<lparr>co_allowedOrigins := co_allowedOrigins c @ [origin]\<rparr>))"

definition cors_New :: "string list \<Rightarrow> Cors" where
  "cors_New AllowedOrigins =
     (if AllowedOrigins = [] then
        \<lparr>co_allowedOrigins = [], co_allowedWOrigins = [], co_allowedOriginsAll = True\<rparr>
      else
        cors_origins AllowedOrigins
          \<lparr>co_allowedOrigins = [], co_allowedWOrigins = [], co_allowedOriginsAll = False\<rparr>)"

definition isOriginAllowed :: "Cors \<Rightarrow> string \<Rightarrow> bool" where
  "isOriginAllowed c origin0 =
     (if co_allowedOriginsAll c then True
      else
        (let origin = ToLower origin0
         in list_ex (\<lambda>x. x = origin) (co_allowedOrigins c) \<or>
            list_ex (\<lambda>w. wildcard_match w origin) (co_allowedWOrigins c)))"

definition allowedMethods :: "string list" where
  "allowedMethods = [''GET'', ''POST'', ''HEAD'']"

definition isMethodAllowed :: "string \<Rightarrow> bool" where
  "isMethodAllowed meth0 =
     (let meth = ToUpper meth0
      in meth = ''OPTIONS'' \<or> list_ex (\<lambda>m. m = meth) allowedMethods)"

definition allowedHeaders :: "string list" where
  "allowedHeaders = [''Origin'', ''Accept'', ''Content-Type'']"

definition areHeadersAllowed :: "string list \<Rightarrow> bool" where
  "areHeadersAllowed requested =
     list_all (\<lambda>h. list_ex (\<lambda>a. a = CanonicalMIMEHeaderKey h) allowedHeaders) requested"

section \<open>The list of requested headers\<close>

text \<open>One byte: the header under construction, whether the next letter is a capital, the headers.\<close>

definition header_byte :: "bool \<Rightarrow> char \<Rightarrow> string" where
  "header_byte upper b =
     (if CHR ''a'' \<le> b \<and> b \<le> CHR ''z'' then (if upper then [upper_char b] else [b])
      else if CHR ''A'' \<le> b \<and> b \<le> CHR ''Z'' then (if \<not> upper then [lower_char b] else [b])
      else if b = CHR ''-'' \<or> b = CHR ''_'' \<or> (CHR ''0'' \<le> b \<and> b \<le> CHR ''9'') then [b]
      else [])"

fun header_list :: "string \<Rightarrow> bool \<Rightarrow> string \<Rightarrow> string list" where
  "header_list h upper [] = []"
| "header_list h upper (b # bs) =
     (let h' = h @ header_byte upper b
      in if b = CHR '' '' \<or> b = CHR '','' \<or> bs = [] then
           (if length h' > 0 then h' # header_list [] True bs else header_list h' upper bs)
         else header_list h' (b = CHR ''-'' \<or> b = CHR ''_'') bs)"

definition parseHeaderList :: "string \<Rightarrow> string list" where
  "parseHeaderList s = header_list [] True s"

section \<open>The two kinds of request\<close>

type_synonym headers = "string \<Rightarrow> string option"

definition handlePreflight :: "Cors \<Rightarrow> http_request \<Rightarrow> headers" where
  "handlePreflight c r =
     (let origin = Header_Get r ''Origin'';
          vary = [''Vary'' \<mapsto> ''Origin, Access-Control-Request-Method, Access-Control-Request-Headers''];
          reqMethod = Header_Get r ''Access-Control-Request-Method'';
          reqHeaders = parseHeaderList (Header_Get r ''Access-Control-Request-Headers'')
      in if rq_Method r \<noteq> ''OPTIONS'' then Map.empty
         else if origin = [] then vary
         else if \<not> isOriginAllowed c origin then vary
         else if \<not> isMethodAllowed reqMethod then vary
         else if \<not> areHeadersAllowed reqHeaders then vary
         else
           (let h1 = vary(''Access-Control-Allow-Origin'' \<mapsto> (if co_allowedOriginsAll c then ''*'' else origin),
                ''Access-Control-Allow-Methods'' \<mapsto> ToUpper reqMethod)
            in if reqHeaders \<noteq> [] then h1(''Access-Control-Allow-Headers'' \<mapsto> Join reqHeaders '', '') else h1))"

definition handleActualRequest :: "Cors \<Rightarrow> http_request \<Rightarrow> headers" where
  "handleActualRequest c r =
     (let origin = Header_Get r ''Origin''; vary = [''Vary'' \<mapsto> ''Origin'']
      in if rq_Method r = ''OPTIONS'' then Map.empty
         else if origin = [] then vary
         else if \<not> isOriginAllowed c origin then vary
         else if \<not> isMethodAllowed (rq_Method r) then vary
         else vary(''Access-Control-Allow-Origin'' \<mapsto> (if co_allowedOriginsAll c then ''*'' else origin)))"

text \<open>The headers set before a handler runs stay unless the handler sets them again.\<close>

definition with_headers :: "headers \<Rightarrow> http_result \<Rightarrow> http_result" where
  "with_headers h x =
     (case x of Reply rp \<Rightarrow> Reply (rp\<lparr>rp_Header := h ++ rp_Header rp\<rparr>) | HPanic p \<Rightarrow> HPanic p)"

definition Cors_ServeHTTP :: "Cors \<Rightarrow> 's http_handler \<Rightarrow> 's http_handler" where
  "Cors_ServeHTTP c nxt r s =
     (if rq_Method r = ''OPTIONS'' \<and> Header_Get r ''Access-Control-Request-Method'' \<noteq> [] then
        (Reply \<lparr>rp_Status = StatusOK, rp_Header = handlePreflight c r, rp_Body = []\<rparr>, s)
      else
        (case nxt r s of (x, s') \<Rightarrow> (with_headers (handleActualRequest c r) x, s')))"

section \<open>Which origins are allowed\<close>

text \<open>The reference: an origin fits a pattern with at most one star that counts.\<close>

definition origin_fits :: "string \<Rightarrow> string \<Rightarrow> bool" where
  "origin_fits pat origin \<longleftrightarrow>
     ToLower pat = ''*'' \<or> (CHR ''*'' \<notin> set (ToLower pat) \<and> ToLower pat = ToLower origin) \<or>
     (\<exists>a b m. ToLower pat = a @ CHR ''*'' # b \<and> CHR ''*'' \<notin> set a \<and> ToLower origin = a @ m @ b)"

lemma wildcard_match_iff:
  "wildcard_match \<lparr>wc_prefix = a, wc_suffix = b\<rparr> s \<longleftrightarrow> (\<exists>m. s = a @ m @ b)"
proof
  assume w: "wildcard_match \<lparr>wc_prefix = a, wc_suffix = b\<rparr> s"
  then have p: "prefix a s" and q: "suffix b s" and l: "length s \<ge> length a + length b"
    by (simp_all add: wildcard_match_def HasPrefix_def HasSuffix_def)
  let ?m = "take (length s - length b - length a) (drop (length a) s)"
  have "s = a @ drop (length a) s" using p by (auto simp: prefix_def)
  moreover have "drop (length a) s = ?m @ drop (length s - length b) s"
    using l by (metis append_take_drop_id drop_drop le_add_diff_inverse2 le_diff_conv2 add_leD2)
  moreover have "drop (length s - length b) s = b"
    using q by (auto simp: suffix_def)
  ultimately show "\<exists>m. s = a @ m @ b" by metis
next
  assume "\<exists>m. s = a @ m @ b"
  then show "wildcard_match \<lparr>wc_prefix = a, wc_suffix = b\<rparr> s"
    by (auto simp: wildcard_match_def HasPrefix_def HasSuffix_def suffix_def)
qed

lemma cors_origins_allowed:
  "\<not> co_allowedOriginsAll c \<Longrightarrow>
     isOriginAllowed (cors_origins os c) origin \<longleftrightarrow>
     isOriginAllowed c origin \<or> list_ex (\<lambda>p. origin_fits p origin) os"
proof (induction os arbitrary: c)
  case (Cons p os)
  consider (all) "ToLower p = ''*''" | (wild) "ToLower p \<noteq> ''*''" "CHR ''*'' \<in> set (ToLower p)"
    | (plain) "CHR ''*'' \<notin> set (ToLower p)" by blast
  then show ?case
  proof cases
    case all
    then show ?thesis by (simp add: isOriginAllowed_def origin_fits_def)
  next
    case plain
    then have star: "ToLower p \<noteq> ''*''" by auto
    have no: "ToLower p \<noteq> a @ CHR ''*'' # b" for a b
      using plain by (metis in_set_conv_decomp)
    have fits: "origin_fits p origin \<longleftrightarrow> ToLower p = ToLower origin"
      using plain star no by (simp add: origin_fits_def)
    let ?c = "c\<lparr>co_allowedOrigins := co_allowedOrigins c @ [ToLower p]\<rparr>"
    have add: "isOriginAllowed ?c origin \<longleftrightarrow> isOriginAllowed c origin \<or> origin_fits p origin"
      unfolding fits using Cons.prems by (auto simp: isOriginAllowed_def Let_def)
    have step: "cors_origins (p # os) c = cors_origins os ?c"
      using plain star by (simp add: Let_def)
    have "isOriginAllowed (cors_origins os ?c) origin \<longleftrightarrow>
        isOriginAllowed ?c origin \<or> list_ex (\<lambda>p. origin_fits p origin) os"
      by (rule Cons.IH) (use Cons.prems in simp)
    then show ?thesis unfolding step add by simp
  next
    case wild
    let ?a = "takeWhile (\<lambda>x. x \<noteq> CHR ''*'') (ToLower p)"
    let ?b = "tl (dropWhile (\<lambda>x. x \<noteq> CHR ''*'') (ToLower p))"
    have split: "ToLower p = ?a @ CHR ''*'' # ?b"
    proof -
      obtain ys zs where sp: "ToLower p = ys @ CHR ''*'' # zs" "CHR ''*'' \<notin> set ys"
        using split_list_first [OF wild(2)] by blast
      then have "?a = ys" "?b = zs"
        unfolding sp(1) by (auto simp: takeWhile_append dropWhile_append)
      with sp(1) show ?thesis by simp
    qed
    have fits: "origin_fits p origin \<longleftrightarrow> (\<exists>m. ToLower origin = ?a @ m @ ?b)"
    proof
      assume "origin_fits p origin"
      with wild obtain a b m where abm: "ToLower p = a @ CHR ''*'' # b" "CHR ''*'' \<notin> set a"
        "ToLower origin = a @ m @ b"
        by (auto simp: origin_fits_def)
      then have "?a = a" "?b = b"
        unfolding abm(1) by (auto simp: takeWhile_append dropWhile_append)
      with abm(3) show "\<exists>m. ToLower origin = ?a @ m @ ?b" by metis
    next
      assume "\<exists>m. ToLower origin = ?a @ m @ ?b"
      moreover have "CHR ''*'' \<notin> set ?a" by (auto dest: set_takeWhileD)
      ultimately show "origin_fits p origin" unfolding origin_fits_def using split by blast
    qed
    let ?c = "c\<lparr>co_allowedWOrigins := co_allowedWOrigins c @ [\<lparr>wc_prefix = ?a, wc_suffix = ?b\<rparr>]\<rparr>"
    have add: "isOriginAllowed ?c origin \<longleftrightarrow> isOriginAllowed c origin \<or> origin_fits p origin"
      unfolding fits using Cons.prems by (auto simp: isOriginAllowed_def Let_def wildcard_match_iff)
    have step: "cors_origins (p # os) c = cors_origins os ?c"
      using wild by (simp add: Let_def)
    have "isOriginAllowed (cors_origins os ?c) origin \<longleftrightarrow>
        isOriginAllowed ?c origin \<or> list_ex (\<lambda>p. origin_fits p origin) os"
      by (rule Cons.IH) (use Cons.prems in simp)
    then show ?thesis unfolding step add by simp
  qed
qed simp

lemma cors_New_allowed:
  "os \<noteq> [] \<Longrightarrow> isOriginAllowed (cors_New os) origin \<longleftrightarrow> list_ex (\<lambda>p. origin_fits p origin) os"
  by (simp add: cors_New_def cors_origins_allowed) (simp add: isOriginAllowed_def)


definition cors_get :: http_request where
  "cors_get =
     \<lparr>rq_Method = ''GET'', rq_Path = ''/'', rq_RawQuery = [], rq_Header = [(''Origin'', [''http://a.b''])],
      rq_Host = [], rq_RemoteAddr = [], rq_Body = []\<rparr>"


end
