(* ===== verification/Server.thy ===== *)
theory Server
  imports Http Cors Client Service_Facts
begin

text \<open>
  The two servers of \<open>server/server.go\<close>, gRPC and HTTP, and the functions that run them on one or
  on two addresses. \<open>log.Fatal\<close> ends the process: a function that can call it returns the text of
  its last line on the left. The certificates, the dialing and the listening are those of
  \<open>net_env\<close> and of an argument \<open>listen\<close>; how the calls of \<open>Serve\<close> end is a list of errors in the
  order in which they arrive.
\<close>

section \<open>The gRPC server\<close>

text \<open>The server's own pair of files, and the authority that must have signed a client's certificate.\<close>

record tls_server =
  ts_Certificate :: "string \<times> string"
  ts_ClientCA :: "string option"

text \<open>\<open>ForEach\<close> hands every registered service to a function, in the order of the map.\<close>

definition ForEach ::
  "('c, 's) HandlerMap \<Rightarrow> string list \<Rightarrow>
   (('c, 's) ServiceDesc \<Rightarrow> ('c, 's) WwwServer \<Rightarrow> 'g \<Rightarrow> 'g option) \<Rightarrow> 'g \<Rightarrow> 'g option" where
  "ForEach reg order fn g0 =
     fold (\<lambda>name g. case (g, reg name) of
                      (Some g, Some (desc, srv)) \<Rightarrow> fn desc srv g
                    | _ \<Rightarrow> g) order (Some g0)"

record ('c, 'db) grpc_server =
  gs_Creds :: "tls_server option"
  gs_services :: "('c, 'db wwwServer) HandlerMap"
  gs_svc :: "'db Service"

definition server_credentials ::
  "('c, 's) net_env \<Rightarrow> string \<Rightarrow> string \<Rightarrow> string \<Rightarrow> string + tls_server option" where
  "server_credentials env caCert serverCert serverKey =
     (if caCert \<noteq> [] \<and> serverCert \<noteq> [] \<and> serverKey \<noteq> [] then
        (case ne_LoadKeyPair env serverCert serverKey of
           Some err \<Rightarrow> Inl (''failed to load gateway key pair: '' @ err)
         | None \<Rightarrow>
             (case ne_ReadFile env caCert of
                Some err \<Rightarrow> Inl (''failed to read CA certificate: '' @ err)
              | None \<Rightarrow>
                  if \<not> ne_AppendCerts env caCert then Inl ''failed to build certificate pool''
                  else Inr (Some \<lparr>ts_Certificate = (serverCert, serverKey), ts_ClientCA = Some caCert\<rparr>)))
      else Inr None)"

text \<open>Registering a service twice panics; the map of one service cannot do it.\<close>

definition grpcServer ::
  "('c, 's) net_env \<Rightarrow> 'db driver \<Rightarrow> call_env \<Rightarrow> nat list \<Rightarrow>
   string \<Rightarrow> string \<Rightarrow> string \<Rightarrow> string \<Rightarrow> string \<Rightarrow> string + ('c, 'db) grpc_server" where
  "grpcServer env drv cenv finish caCert serverCert serverKey jwtKey sqliteDSN =
     (case server_credentials env caCert serverCert serverKey of
        Inl err \<Rightarrow> Inl err
      | Inr creds \<Rightarrow>
          (let svc = RegisterGRPCServices (NewService []) jwtKey caCert serverCert serverKey sqliteDSN
           in case RegisterHandlerWww Map.empty (www_server drv cenv finish) of
                None \<Rightarrow> Inl ''panic''
              | Some mainHandlers \<Rightarrow>
                  (case ForEach mainHandlers [sd_ServiceName (Www_serviceDesc :: ('c, 'db wwwServer) ServiceDesc)]
                      (\<lambda>desc srv g. RegisterService g desc srv) Map.empty of
                     None \<Rightarrow> Inl ''panic''
                   | Some services \<Rightarrow>
                       Inr \<lparr>gs_Creds = creds, gs_services = services, gs_svc = svc\<rparr>)))"

text \<open>A call that the transport delivers to the server.\<close>

definition grpc_call ::
  "('c, 'db) grpc_server \<Rightarrow> (string \<Rightarrow> string \<Rightarrow> 'c option) \<Rightarrow> call_env \<Rightarrow> ('c, 'db wwwServer) channel" where
  "grpc_call g verify cenv = Invoke (gs_services g) (Some (www_interceptor verify cenv))"

section \<open>The HTTP server\<close>

text \<open>The middlewares of negroni around a handler: the log observes.\<close>

definition nlog :: "'s http_handler \<Rightarrow> 's http_handler" where
  "nlog nxt r s = nxt r s"

text \<open>
  The recovery writes the value of the panic and the stack (\<open>stack\<close>); the headers that were set
  before the panic are left out of the model.
\<close>

definition negroni_Recovery ::
  "(panic \<Rightarrow> string) \<Rightarrow> (panic \<Rightarrow> string) \<Rightarrow> 's http_handler \<Rightarrow> 's http_handler" where
  "negroni_Recovery pt stack nxt r s =
     (case nxt r s of
        (HPanic p, s') \<Rightarrow>
          (Reply \<lparr>rp_Status = StatusInternalServerError, rp_Header = Map.empty,
             rp_Body = ''PANIC: '' @ pt p @ [CHR 0x0A] @ stack p\<rparr>, s')
      | (Reply rp, s') \<Rightarrow> (Reply rp, s'))"

fun negroni_build :: "('s http_handler \<Rightarrow> 's http_handler) list \<Rightarrow> 's http_handler \<Rightarrow> 's http_handler" where
  "negroni_build [] h = h"
| "negroni_build (m # ms) h = m (negroni_build ms h)"

text \<open>The options with which the gateway dials the gRPC server.\<close>

definition gateway_credentials ::
  "('c, 's) net_env \<Rightarrow> string \<Rightarrow> string \<Rightarrow> string \<Rightarrow> string \<Rightarrow> string + tls_config option" where
  "gateway_credentials env grpcServerAddr caCert gatewayCert gatewayKey =
     (if caCert \<noteq> [] \<and> gatewayCert \<noteq> [] \<and> gatewayKey \<noteq> [] then
        (case ne_LoadKeyPair env gatewayCert gatewayKey of
           Some err \<Rightarrow> Inl (''failed to load client key pair: '' @ err)
         | None \<Rightarrow>
             (case ne_ReadFile env caCert of
                Some err \<Rightarrow> Inl (''failed to read CA certificate: '' @ err)
              | None \<Rightarrow>
                  if \<not> ne_AppendCerts env caCert then Inl ''failed to build certificate pool''
                  else
                    (case SplitHostPort grpcServerAddr of
                       Inl err \<Rightarrow>
                         Inl (''failed to parse server hostname in '' @ grpcServerAddr @ '': '' @ err)
                     | Inr (host, _) \<Rightarrow>
                         Inr (Some \<lparr>tls_ServerName = (if host = [] then ''localhost'' else host),
                           tls_Certificate = Some (gatewayCert, gatewayKey), tls_RootCA = caCert\<rparr>))))
      else Inr None)"

text \<open>The secret is handed over as the key of a middleware which no route uses.\<close>

definition httpServer ::
  "http_lib \<Rightarrow> (panic \<Rightarrow> string) \<Rightarrow> (string \<times> string) list \<Rightarrow> string list \<Rightarrow> ('c, 's) net_env \<Rightarrow>
   string \<Rightarrow> string \<Rightarrow> string \<Rightarrow> string \<Rightarrow> string \<Rightarrow> string \<Rightarrow> string + 's http_handler" where
  "httpServer lib stack rorder gorder env grpcServerAddr corsAllowedOrigins caCert gatewayCert gatewayKey jwtKey =
     (case gateway_credentials env grpcServerAddr caCert gatewayCert gatewayKey of
        Inl err \<Rightarrow> Inl err
      | Inr creds \<Rightarrow>
          (case RegisterHTTPServices lib rorder gorder (ne_Dial env grpcServerAddr 0 creds)
              (if jwtKey \<noteq> [] then Some jwtKey else None) (NewService [] :: unit Service) of
             None \<Rightarrow> Inl ''RegisterGRPCGateway error''
           | Some routes \<Rightarrow>
               Inr (negroni_build
                 ([negroni_Recovery (hl_panic lib) stack, nlog] @
                  (if corsAllowedOrigins \<noteq> [] then
                     [Cors_ServeHTTP (cors_New (split_char (CHR ''|'') corsAllowedOrigins))]
                   else []))
                 (Router_ServeHTTP lib routes))))"

section \<open>Running the servers\<close>

text \<open>
  The loop that collects the ends of the two calls of \<open>Serve\<close>: it stops at the second one. \<open>None\<close>
  means that it still waits.
\<close>

fun collect_exits :: "bool \<Rightarrow> nat \<Rightarrow> string option list \<Rightarrow> bool option" where
  "collect_exits ok i [] = None"
| "collect_exits ok i (err # eps) =
     (let ok' = (if err \<noteq> None then False else ok); i' = i + 1
      in if i' = 2 then Some ok' else collect_exits ok' i' eps)"

text \<open>
  What a run comes to: a fatal error before anything is served, or the two servers with the result
  of the loop. The certificate of the HTTPS listener is that of the gRPC server.
\<close>

record ('c, 'db, 's) running =
  run_grpc :: "('c, 'db) grpc_server"
  run_http :: "'s http_handler"
  run_https :: "tls_server option"
  run_ok :: "bool option"

definition OnMultipleAddresses ::
  "http_lib \<Rightarrow> (panic \<Rightarrow> string) \<Rightarrow> (string \<times> string) list \<Rightarrow> string list \<Rightarrow> ('c, 's) net_env \<Rightarrow>
   (string \<Rightarrow> string option) \<Rightarrow> 'db driver \<Rightarrow> call_env \<Rightarrow> nat list \<Rightarrow> string option list \<Rightarrow>
   string \<Rightarrow> string \<Rightarrow> string \<Rightarrow> string \<Rightarrow> string \<Rightarrow> string \<Rightarrow> string \<Rightarrow> string \<Rightarrow> string + ('c, 'db, 's) running" where
  "OnMultipleAddresses lib stack rorder gorder env listen drv cenv finish eps
     grpcAddr httpAddr corsAllowedOrigins caCert serverCert serverKey jwtKey sqliteDSN =
     (case listen grpcAddr of
        Some err \<Rightarrow> Inl err
      | None \<Rightarrow>
          (case listen httpAddr of
             Some err \<Rightarrow> Inl err
           | None \<Rightarrow>
               (case grpcServer env drv cenv finish caCert serverCert serverKey jwtKey sqliteDSN of
                  Inl err \<Rightarrow> Inl err
                | Inr g \<Rightarrow>
                    (case httpServer lib stack rorder gorder env grpcAddr corsAllowedOrigins caCert serverCert
                        serverKey jwtKey of
                       Inl err \<Rightarrow> Inl err
                     | Inr h \<Rightarrow>
                         if caCert \<noteq> [] \<and> serverCert \<noteq> [] \<and> serverKey \<noteq> [] then
                           (case ne_LoadKeyPair env serverCert serverKey of
                              Some err \<Rightarrow> Inl (''failed to load HTTPS server key pair: '' @ err)
                            | None \<Rightarrow>
                                Inr \<lparr>run_grpc = g, run_http = h,
                                  run_https = Some \<lparr>ts_Certificate = (serverCert, serverKey), ts_ClientCA = None\<rparr>,
                                  run_ok = collect_exits True 0 eps\<rparr>)
                         else
                           Inr \<lparr>run_grpc = g, run_http = h, run_https = None,
                             run_ok = collect_exits True 0 eps\<rparr>))))"

text \<open>On one address the connections are told apart by their first bytes; HTTP is served without TLS.\<close>

definition OnSingleAddress ::
  "http_lib \<Rightarrow> (panic \<Rightarrow> string) \<Rightarrow> (string \<times> string) list \<Rightarrow> string list \<Rightarrow> ('c, 's) net_env \<Rightarrow>
   (string \<Rightarrow> string option) \<Rightarrow> 'db driver \<Rightarrow> call_env \<Rightarrow> nat list \<Rightarrow> string option list \<Rightarrow>
   string \<Rightarrow> string \<Rightarrow> string \<Rightarrow> string \<Rightarrow> string \<Rightarrow> string \<Rightarrow> string \<Rightarrow> string + ('c, 'db, 's) running" where
  "OnSingleAddress lib stack rorder gorder env listen drv cenv finish eps
     addr corsAllowedOrigins caCert serverCert serverKey jwtKey sqliteDSN =
     (case listen addr of
        Some err \<Rightarrow> Inl err
      | None \<Rightarrow>
          (case grpcServer env drv cenv finish caCert serverCert serverKey jwtKey sqliteDSN of
             Inl err \<Rightarrow> Inl err
           | Inr g \<Rightarrow>
               (case httpServer lib stack rorder gorder env addr corsAllowedOrigins caCert serverCert
                   serverKey jwtKey of
                  Inl err \<Rightarrow> Inl err
                | Inr h \<Rightarrow>
                    Inr \<lparr>run_grpc = g, run_http = h, run_https = None,
                      run_ok = collect_exits True 0 eps\<rparr>)))"

end
