(* ===== verification/Gateway_Props.thy ===== *)
theory Gateway_Props
  imports Gateway
begin

text \<open>
  What the gateway does with a request: which handler it runs, whatever the order in which the
  map of methods is visited, and which metadata reaches the service.
\<close>

section \<open>Patterns made of literals\<close>

definition pattern_V :: Pattern where
  "pattern_V = \<lparr>p_ops = [\<lparr>op_code = OpLitPush, op_operand = 0\<rparr>, \<lparr>op_code = OpLitPush, op_operand = 1\<rparr>,
      \<lparr>op_code = OpLitPush, op_operand = 2\<rparr>],
     p_pool = [''api'', ''v1'', ''version''], p_vars = [], p_stacksize = 3, p_tailLen = 0, p_verb = []\<rparr>"

definition pattern_S :: Pattern where
  "pattern_S = \<lparr>p_ops = [\<lparr>op_code = OpLitPush, op_operand = 0\<rparr>, \<lparr>op_code = OpLitPush, op_operand = 1\<rparr>,
      \<lparr>op_code = OpLitPush, op_operand = 2\<rparr>, \<lparr>op_code = OpLitPush, op_operand = 3\<rparr>],
     p_pool = [''api'', ''v1'', ''services'', ''status''], p_vars = [], p_stacksize = 4, p_tailLen = 0,
     p_verb = []\<rparr>"

definition pattern_R :: Pattern where
  "pattern_R = pattern_V\<lparr>p_pool := [''api'', ''v1'', ''rsvp_creation'']\<rparr>"

lemma patterns_compiled:
  "pattern_Www_Version_0 = Some pattern_V"
  "pattern_Www_ServicesStatus_0 = Some pattern_S"
  "pattern_Www_RsvpCreation_0 = Some pattern_R"
  by (simp_all add: pattern_Www_Version_0_def pattern_Www_ServicesStatus_0_def
      pattern_Www_RsvpCreation_0_def pattern_V_def pattern_S_def pattern_R_def NewPattern_def
      np_step_def OpCode_of_def np_emit_def MustPattern_def)

definition version_path :: "string list" where
  "version_path = [''api'', ''v1'', ''version'']"

definition status_path :: "string list" where
  "status_path = [''api'', ''v1'', ''services'', ''status'']"

definition rsvp_path :: "string list" where
  "rsvp_path = [''api'', ''v1'', ''rsvp_creation'']"

lemma lit3_match:
  "Match \<lparr>p_ops = [\<lparr>op_code = OpLitPush, op_operand = 0\<rparr>, \<lparr>op_code = OpLitPush, op_operand = 1\<rparr>,
      \<lparr>op_code = OpLitPush, op_operand = 2\<rparr>],
     p_pool = [a, b, c], p_vars = [], p_stacksize = k, p_tailLen = 0, p_verb = []\<rparr> cs verb =
   (if cs = [a, b, c] \<and> verb = [] then Matched Map.empty else ErrNotMatch)"
  by (cases cs; cases "tl cs"; cases "tl (tl cs)")
    (auto simp: Match_def match_step_def index_at_def Let_def)

lemma lit4_match:
  "Match \<lparr>p_ops = [\<lparr>op_code = OpLitPush, op_operand = 0\<rparr>, \<lparr>op_code = OpLitPush, op_operand = 1\<rparr>,
      \<lparr>op_code = OpLitPush, op_operand = 2\<rparr>, \<lparr>op_code = OpLitPush, op_operand = 3\<rparr>],
     p_pool = [a, b, c, d], p_vars = [], p_stacksize = k, p_tailLen = 0, p_verb = []\<rparr> cs verb =
   (if cs = [a, b, c, d] \<and> verb = [] then Matched Map.empty else ErrNotMatch)"
  by (cases cs; cases "tl cs"; cases "tl (tl cs)"; cases "tl (tl (tl cs))")
    (auto simp: Match_def match_step_def index_at_def Let_def)

lemma route_match:
  "Match pattern_V cs verb = (if cs = version_path \<and> verb = [] then Matched Map.empty else ErrNotMatch)"
  "Match pattern_S cs verb = (if cs = status_path \<and> verb = [] then Matched Map.empty else ErrNotMatch)"
  "Match pattern_R cs verb = (if cs = rsvp_path \<and> verb = [] then Matched Map.empty else ErrNotMatch)"
  by (simp_all add: pattern_V_def pattern_S_def pattern_R_def lit3_match lit4_match
      version_path_def status_path_def rsvp_path_def)

lemma routes_differ [simp]:
  "version_path \<noteq> status_path" "status_path \<noteq> version_path" "version_path \<noteq> rsvp_path"
  "rsvp_path \<noteq> version_path" "status_path \<noteq> rsvp_path" "rsvp_path \<noteq> status_path"
  by (simp_all add: version_path_def status_path_def rsvp_path_def)

section \<open>Paths with an empty verb\<close>

text \<open>The gateway serves a path also with a colon at its end.\<close>

definition served_as :: "string \<Rightarrow> string list \<Rightarrow> bool" where
  "served_as p route \<longleftrightarrow> p = ''/'' @ Join route ''/'' \<or> p = ''/'' @ Join route ''/'' @ '':''"

lemma last_index_Some_split:
  "last_index x xs = Some i \<Longrightarrow> i < length xs \<and> xs = take i xs @ x # drop (i + 1) xs \<and> x \<notin> set (drop (i + 1) xs)"
proof (induction xs arbitrary: i)
  case (Cons y ys)
  then show ?case by (cases "last_index x ys") (auto split: if_splits)
qed simp

lemma split_verb_empty:
  assumes "cs \<noteq> []" and "split_verb cs = Some (route, [])"
  shows "cs = route \<or> cs = butlast route @ [last route @ '':'']"
proof (cases "last_index (CHR '':'') (last cs)")
  case None
  with assms(2) show ?thesis by (simp add: split_verb_def del: last_index_None)
next
  case (Some i)
  with assms(2) have i: "route = butlast cs @ [take i (last cs)]" "drop (i + 1) (last cs) = []"
    by (auto simp: split_verb_def Let_def split: if_splits)
  with last_index_Some_split [OF Some] have "last cs = take i (last cs) @ '':''" by simp
  with i assms(1) show ?thesis by (metis append_butlast_last_id butlast_snoc last_snoc)
qed

lemma served_as_split:
  assumes "split_verb (split_char (CHR ''/'') p) = Some (route, [])" and "route \<noteq> []"
  shows "served_as (''/'' @ p) route"
proof -
  let ?cs = "split_char (CHR ''/'') p"
  from split_verb_empty [OF _ assms(1)] consider "?cs = route" | "?cs = butlast route @ [last route @ '':'']"
    by auto
  then show ?thesis
  proof cases
    case 1
    with Join_split_char [of "CHR ''/''" p] show ?thesis by (simp add: served_as_def)
  next
    case 2
    have "Join (butlast xs @ [last xs @ t]) d = Join xs d @ t" if "xs \<noteq> []" for xs t d
      using that
    proof (induction xs)
      case (Cons x xs)
      then show ?case by (cases xs; cases "tl xs") auto
    qed simp
    with 2 Join_split_char [of "CHR ''/''" p] assms(2) show ?thesis by (simp add: served_as_def)
  qed
qed

lemma path_split:
  "split_verb (split_char (CHR ''/'') ''api/v1/version'') = Some (version_path, [])"
  "split_verb (split_char (CHR ''/'') ''api/v1/version:'') = Some (version_path, [])"
  "split_verb (split_char (CHR ''/'') ''api/v1/services/status'') = Some (status_path, [])"
  "split_verb (split_char (CHR ''/'') ''api/v1/services/status:'') = Some (status_path, [])"
  "split_verb (split_char (CHR ''/'') ''api/v1/rsvp_creation'') = Some (rsvp_path, [])"
  "split_verb (split_char (CHR ''/'') ''api/v1/rsvp_creation:'') = Some (rsvp_path, [])"
  by (simp_all add: split_verb_def version_path_def status_path_def rsvp_path_def Let_def)

lemma route_paths:
  assumes "route = version_path \<or> route = status_path \<or> route = rsvp_path"
  shows "split_verb (split_char (CHR ''/'') p) = Some (route, []) \<longleftrightarrow> served_as (''/'' @ p) route"
proof
  show "served_as (''/'' @ p) route" if "split_verb (split_char (CHR ''/'') p) = Some (route, [])"
    using that by (rule served_as_split)
      (use assms in \<open>auto simp: version_path_def status_path_def rsvp_path_def\<close>)
next
  assume "served_as (''/'' @ p) route"
  then have "p = Join route ''/'' \<or> p = Join route ''/'' @ '':''"
    by (simp add: served_as_def)
  with assms show "split_verb (split_char (CHR ''/'') p) = Some (route, [])"
    using path_split by (auto simp: version_path_def status_path_def rsvp_path_def)
qed

section \<open>Dispatch\<close>

text \<open>The handlers of the three routes.\<close>

definition gw_version where
  "gw_version pt mr client = gw_handler pt mr (\<lambda>c. request_Www_Version_0 c mr client)"

definition gw_status where
  "gw_status pt mr client = gw_handler pt mr (\<lambda>c. request_Www_ServicesStatus_0 c mr client)"

definition gw_rsvp where
  "gw_rsvp pt mr client = gw_handler pt mr (\<lambda>c. request_Www_RsvpCreation_0 c mr client)"

lemma registered_mux:
  "RegisterWwwHandlerClient pt mr (NewServeMux order) client =
     Some \<lparr>gm_handlers = (\<lambda>_. [])(''GET'' := [(pattern_V, gw_version pt mr client),
         (pattern_S, gw_status pt mr client)], ''POST'' := [(pattern_R, gw_rsvp pt mr client)]),
       gm_order = order\<rparr>"
  by (simp add: RegisterWwwHandlerClient_def patterns_compiled NewServeMux_def Handle_def
      gw_version_def gw_status_def gw_rsvp_def fun_upd_def) (auto simp: fun_eq_iff)

text \<open>What the lists of the multiplexer hold for a path.\<close>

definition get_list where
  "get_list pt mr client = [(pattern_V, gw_version pt mr client), (pattern_S, gw_status pt mr client)]"

definition post_list where
  "post_list pt mr client = [(pattern_R, gw_rsvp pt mr client)]"

lemma lists_match:
  "first_match cs verb (get_list pt mr client) =
     (if cs = version_path \<and> verb = [] then Matched (gw_version pt mr client, Map.empty)
      else if cs = status_path \<and> verb = [] then Matched (gw_status pt mr client, Map.empty)
      else ErrNotMatch)"
  "first_match cs verb (post_list pt mr client) =
     (if cs = rsvp_path \<and> verb = [] then Matched (gw_rsvp pt mr client, Map.empty) else ErrNotMatch)"
  by (auto simp: get_list_def post_list_def route_match)

text \<open>The loop over the other methods finds the same handler in every order of the map.\<close>

lemma other_methods_disjoint:
  assumes "set ms \<subseteq> {g, p}" and "g \<noteq> p"
    and d: "first_match cs verb (hs g) = ErrNotMatch \<or> first_match cs verb (hs p) = ErrNotMatch"
  shows "other_methods cs verb meth hs ms =
    (if g \<in> set ms \<and> meth \<noteq> g \<and> first_match cs verb (hs g) \<noteq> ErrNotMatch then first_match cs verb (hs g)
     else if p \<in> set ms \<and> meth \<noteq> p then first_match cs verb (hs p)
     else ErrNotMatch)"
  using assms(1)
proof (induction ms)
  case (Cons m ms)
  then have IH: "other_methods cs verb meth hs ms =
    (if g \<in> set ms \<and> meth \<noteq> g \<and> first_match cs verb (hs g) \<noteq> ErrNotMatch then first_match cs verb (hs g)
     else if p \<in> set ms \<and> meth \<noteq> p then first_match cs verb (hs p)
     else ErrNotMatch)" and m: "m = g \<or> m = p" by auto
  have step: "other_methods cs verb meth hs (m # ms) =
    (if m \<noteq> meth \<and> first_match cs verb (hs m) \<noteq> ErrNotMatch then first_match cs verb (hs m)
     else other_methods cs verb meth hs ms)"
    by (simp split: match_result.split)
  show ?case
    unfolding step IH using m \<open>g \<noteq> p\<close> d by (elim disjE) simp_all
qed simp

lemma other_methods_order:
  assumes "set order = {''GET'', ''POST''}"
  shows "other_methods cs verb meth
      ((\<lambda>_. [])(''GET'' := get_list pt mr client, ''POST'' := post_list pt mr client)) order =
    (if meth \<noteq> ''GET'' \<and> first_match cs verb (get_list pt mr client) \<noteq> ErrNotMatch
     then first_match cs verb (get_list pt mr client)
     else if meth \<noteq> ''POST'' then first_match cs verb (post_list pt mr client)
     else ErrNotMatch)"
proof -
  let ?hs = "(\<lambda>_. [])(''GET'' := get_list pt mr client, ''POST'' := post_list pt mr client)"
  have h: "?hs ''GET'' = get_list pt mr client" "?hs ''POST'' = post_list pt mr client" by simp_all
  have d: "first_match cs verb (?hs ''GET'') = ErrNotMatch \<or> first_match cs verb (?hs ''POST'') = ErrNotMatch"
    unfolding h lists_match by simp
  show ?thesis
    using other_methods_disjoint [of order "''GET''" "''POST''" cs verb ?hs meth, OF _ _ d] assms
    unfolding h by simp
qed

lemma HasPrefix_hd [simp]: "HasPrefix (c # s) [c]"
  by (simp add: HasPrefix_def)

lemma route_cases:
  assumes "split_verb (split_char (CHR ''/'') p) = Some (cs, verb)"
    and "route = version_path \<or> route = status_path \<or> route = rsvp_path"
  shows "(cs = route \<and> verb = []) = served_as (CHR ''/'' # p) route"
  using route_paths [OF assms(2), of p] assms(1) by auto

lemma no_route:
  assumes "split_verb (split_char (CHR ''/'') p) = None"
    and "route = version_path \<or> route = status_path \<or> route = rsvp_path"
  shows "\<not> served_as (CHR ''/'' # p) route"
  using route_paths [OF assms(2), of p] assms(1) by auto

lemma served_as_one:
  assumes "served_as q a" and "served_as q b"
    and "a = version_path \<or> a = status_path \<or> a = rsvp_path"
    and "b = version_path \<or> b = status_path \<or> b = rsvp_path"
  shows "a = b"
proof -
  from assms(1) obtain p where q: "q = CHR ''/'' # p" by (auto simp: served_as_def)
  then show ?thesis
    using assms route_paths [of a p] route_paths [of b p] by auto
qed

text \<open>An error of the multiplexer.\<close>

definition gw_fail :: "(panic \<Rightarrow> string) \<Rightarrow> marshaler \<Rightarrow> code \<Rightarrow> string \<Rightarrow> 's \<Rightarrow> http_result \<times> 's" where
  "gw_fail pt mr c m s = (Reply (DefaultHTTPProtoErrorHandler pt mr (status_Error c m)), s)"

text \<open>The handler that a method and a path select, in every order of the map of methods.\<close>

lemma ServeHTTP_routes:
  assumes "RegisterWwwHandlerClient pt mr (NewServeMux order) client = Some mx"
    and "set order = {''GET'', ''POST''}"
    and "\<not> isPathLengthFallback r"
    and "HasPrefix (rq_Path r) ''/''"
  shows "ServeHTTP quote pt mr mx r s =
    (if rq_Method r = ''GET'' \<and> served_as (rq_Path r) version_path then
       gw_version pt mr client r Map.empty s
     else if rq_Method r = ''GET'' \<and> served_as (rq_Path r) status_path then
       gw_status pt mr client r Map.empty s
     else if rq_Method r = ''POST'' \<and> served_as (rq_Path r) rsvp_path then
       gw_rsvp pt mr client r Map.empty s
     else if served_as (rq_Path r) version_path \<or> served_as (rq_Path r) status_path \<or>
       served_as (rq_Path r) rsvp_path then
       gw_fail pt mr CodeUnimplemented ''Method Not Allowed'' s
     else gw_fail pt mr CodeUnimplemented ''Not Implemented'' s)"
proof -
  obtain p where p: "rq_Path r = CHR ''/'' # p"
    using assms(4) by (auto simp: HasPrefix_def prefix_def)
  let ?hs = "(\<lambda>_. [])(''GET'' := get_list pt mr client, ''POST'' := post_list pt mr client)"
  have mx: "gm_handlers mx = ?hs" "gm_order mx = order"
    using assms(1) by (auto simp: registered_mux get_list_def post_list_def)
  have hs: "?hs m = (if m = ''GET'' then get_list pt mr client else if m = ''POST'' then post_list pt mr client else [])"
    for m by simp
  show ?thesis
  proof (cases "split_verb (split_char (CHR ''/'') p)")
    case None
    with assms(3) p show ?thesis
      by (simp add: ServeHTTP_def Let_def no_route gw_fail_def)
  next
    case (Some x)
    then obtain cs verb where x: "split_verb (split_char (CHR ''/'') p) = Some (cs, verb)" by (cases x) auto
    note rc = route_cases [OF x, of version_path] route_cases [OF x, of status_path]
      route_cases [OF x, of rsvp_path]
    have "ServeHTTP quote pt mr mx r s =
      (case first_match cs verb (?hs (rq_Method r)) of
         Matched (h, params) \<Rightarrow> h r params s
       | MatchPanic \<Rightarrow> (HPanic IndexOutOfRange, s)
       | ErrNotMatch \<Rightarrow>
           (case other_methods cs verb (rq_Method r) ?hs order of
              ErrNotMatch \<Rightarrow> gw_fail pt mr CodeUnimplemented ''Not Implemented'' s
            | MatchPanic \<Rightarrow> (HPanic IndexOutOfRange, s)
            | Matched (h, params) \<Rightarrow> gw_fail pt mr CodeUnimplemented ''Method Not Allowed'' s))"
      using assms(3) p x mx
      by (simp add: ServeHTTP_def Let_def gw_fail_def split: match_result.split prod.split del: fun_upd_apply)
    then show ?thesis
      unfolding other_methods_order [OF assms(2)] hs lists_match p
      using served_as_one [of "CHR ''/'' # p" version_path status_path]
        served_as_one [of "CHR ''/'' # p" version_path rsvp_path] served_as_one [of "CHR ''/'' # p" status_path rsvp_path]
      by (simp add: rc lists_match)
  qed
qed

text \<open>
  C28: the gateway routes a request, which is not a form, by its method and path alone, whatever
  the order in which the map of methods is visited: GET on the paths of the version and of the
  status of the services, and POST on the path of the invitation answers, run their handlers; the
  same paths with another method answer that it is not allowed, all other paths that they are not
  implemented. A colon at the end of a path is taken as an empty verb and served like the path.
\<close>

theorem gateway_dispatch:
  assumes "RegisterWwwHandlerClient pt mr (NewServeMux order) client = Some mx"
    and "set order = {''GET'', ''POST''}"
    and "\<not> isPathLengthFallback r"
    and "HasPrefix (rq_Path r) ''/''"
  shows "ServeHTTP quote pt mr mx r s =
    (if rq_Method r = ''GET'' \<and> served_as (rq_Path r) version_path then
       gw_version pt mr client r Map.empty s
     else if rq_Method r = ''GET'' \<and> served_as (rq_Path r) status_path then
       gw_status pt mr client r Map.empty s
     else if rq_Method r = ''POST'' \<and> served_as (rq_Path r) rsvp_path then
       gw_rsvp pt mr client r Map.empty s
     else if served_as (rq_Path r) version_path \<or> served_as (rq_Path r) status_path \<or>
       served_as (rq_Path r) rsvp_path then
       gw_fail pt mr CodeUnimplemented ''Method Not Allowed'' s
     else gw_fail pt mr CodeUnimplemented ''Not Implemented'' s)"
  by (rule ServeHTTP_routes [OF assms])

text \<open>A marshaler and a client for the witnesses.\<close>

definition plain_marshaler :: marshaler where
  "plain_marshaler =
     \<lparr>mr_ContentType = ''application/json'',
      mr_Marshal = (\<lambda>x. Inr (case x of PMsg _ \<Rightarrow> ''{}'' | PStatus c m \<Rightarrow> m)),
      mr_Decode = (\<lambda>b. (RsvpCreationRequest_Reset\<lparr>rq_Names := b\<rparr>, None))\<rparr>"

definition sample_get :: "string \<Rightarrow> http_request" where
  "sample_get p =
     \<lparr>rq_Method = ''GET'', rq_Path = p, rq_RawQuery = [], rq_Header = [], rq_Host = ''h'',
      rq_RemoteAddr = ''10.0.0.1:99'', rq_Body = []\<rparr>"

definition nil_client :: "('c, 's) WwwServer" where
  "nil_client =
     \<lparr>srv_Version = (\<lambda>c q s. (Ret (Some VersionResponse_Reset) None, s)),
      srv_ServicesStatus = (\<lambda>c q s. (Ret (Some ServicesStatusList_Reset) None, s)),
      srv_RsvpCreation = (\<lambda>c q s. (Ret (Some RsvpCreationResponse_Reset) None, s))\<rparr>"

theorem gateway_dispatch_witness:
  "\<exists>mx. RegisterWwwHandlerClient (\<lambda>_. []) plain_marshaler (NewServeMux [''POST'', ''GET''])
      (nil_client :: (unit, nat) WwwServer) = Some mx \<and>
    ServeHTTP id (\<lambda>_. []) plain_marshaler mx (sample_get ''/api/v1/version'') 7 =
      gw_version (\<lambda>_. []) plain_marshaler (nil_client :: (unit, nat) WwwServer)
        (sample_get ''/api/v1/version'') Map.empty 7 \<and>
    ServeHTTP id (\<lambda>_. []) plain_marshaler mx (sample_get ''/api/v1/rsvp_creation'') 7 =
      gw_fail (\<lambda>_. []) plain_marshaler CodeUnimplemented ''Method Not Allowed'' 7"
proof -
  let ?c = "nil_client :: (unit, nat) WwwServer"
  obtain mx where mx: "RegisterWwwHandlerClient (\<lambda>_. []) plain_marshaler (NewServeMux [''POST'', ''GET'']) ?c = Some mx"
    by (simp add: registered_mux)
  have f: "\<not> isPathLengthFallback (sample_get p)" for p
    by (simp add: isPathLengthFallback_def sample_get_def)
  have o: "set [''POST'', ''GET''] = {''GET'', ''POST''}" by auto
  have sl: "HasPrefix (rq_Path (sample_get ''/api/v1/version'')) ''/''"
    "HasPrefix (rq_Path (sample_get ''/api/v1/rsvp_creation'')) ''/''"
    by (simp_all add: sample_get_def HasPrefix_def)
  have sa: "served_as ''/api/v1/version'' version_path" "served_as ''/api/v1/rsvp_creation'' rsvp_path"
    "\<not> served_as ''/api/v1/rsvp_creation'' version_path" "\<not> served_as ''/api/v1/rsvp_creation'' status_path"
    by (simp_all add: served_as_def version_path_def rsvp_path_def status_path_def)
  have m: "rq_Method (sample_get p) = ''GET''" "rq_Path (sample_get p) = p" for p
    by (simp_all add: sample_get_def)
  have "''GET'' \<noteq> ''POST''" by simp
  then show ?thesis
    using mx gateway_dispatch [OF mx o f sl(1), of id 7] gateway_dispatch [OF mx o f sl(2), of id 7]
    unfolding m by (simp add: sa)
qed

section \<open>Forms\<close>

text \<open>
  A POST of a well-formed form reaches the GET routes too, and a method override on such a
  request selects the routes of the other method. The multiplexer parses the form first: without
  an override its body is consumed, with an override to GET it is not read.
\<close>

lemma gateway_form_fallback:
  assumes "RegisterWwwHandlerClient pt mr (NewServeMux order) client = Some mx"
    and "set order = {''GET'', ''POST''}"
    and "isPathLengthFallback r"
    and "length (rq_Body r) \<le> maxFormSize"
    and "ParseQuery_error quote (rq_Body r) = None" and "ParseQuery_error quote (rq_RawQuery r) = None"
    and "served_as (rq_Path r) version_path"
    and "ToUpper (Header_Get r ''X-HTTP-Method-Override'') \<in> {[], ''GET''}"
  shows "\<exists>r'. rq_Path r' = rq_Path r \<and> rq_Header r' = rq_Header r \<and>
    rq_Body r' = (if Header_Get r ''X-HTTP-Method-Override'' = [] then [] else rq_Body r) \<and>
    ServeHTTP quote pt mr mx r s = gw_version pt mr client r' Map.empty s"
proof -
  obtain p where p: "rq_Path r = CHR ''/'' # p"
    using assms(7) by (auto simp: served_as_def)
  have sv: "split_verb (split_char (CHR ''/'') p) = Some (version_path, [])"
    using assms(7) route_paths [of version_path p] p by simp
  let ?hs = "(\<lambda>_. [])(''GET'' := get_list pt mr client, ''POST'' := post_list pt mr client)"
  have mx: "gm_handlers mx = ?hs" "gm_order mx = order"
    using assms(1) by (auto simp: registered_mux get_list_def post_list_def)
  have lm: "first_match version_path [] (?hs ''GET'') = Matched (gw_version pt mr client, Map.empty)"
    "first_match version_path [] (?hs ''POST'') = ErrNotMatch"
    by (simp_all add: lists_match)
  have om: "other_methods version_path [] ''POST'' ?hs order = Matched (gw_version pt mr client, Map.empty)"
    unfolding other_methods_order [OF assms(2)] by (simp add: lists_match)
  have post: "rq_Method r = ''POST''" using assms(3) by (simp add: isPathLengthFallback_def)
  have big: "drop (maxFormSize + 1) (rq_Body r) = []" using assms(4) by simp
  show ?thesis
  proof (cases "Header_Get r ''X-HTTP-Method-Override'' = []")
    case True
    have "ParseForm quote r = (None, r\<lparr>rq_Body := []\<rparr>)"
      using assms(4-6) post big by (simp add: ParseForm_def Let_def)
    with True assms(3) p sv mx lm om post show ?thesis
      by (intro exI [of _ "r\<lparr>rq_Body := []\<rparr>"])
        (simp add: ServeHTTP_def Let_def del: fun_upd_apply)
  next
    case False
    with assms(8) have up: "ToUpper (Header_Get r ''X-HTTP-Method-Override'') = ''GET''"
      by (auto simp: ToUpper_def)
    have "ParseForm quote (r\<lparr>rq_Method := ''GET''\<rparr>) = (None, r\<lparr>rq_Method := ''GET''\<rparr>)"
      using assms(6) by (simp add: ParseForm_def Let_def)
    with False assms(3) p sv mx lm up show ?thesis
      by (intro exI [of _ "r\<lparr>rq_Method := ''GET''\<rparr>"])
        (simp add: ServeHTTP_def Let_def del: fun_upd_apply)
  qed
qed

lemma gateway_form_fallback_sample:
  "\<exists>mx r'. RegisterWwwHandlerClient (\<lambda>_. []) plain_marshaler (NewServeMux [''POST'', ''GET''])
      (nil_client :: (unit, nat) WwwServer) = Some mx \<and> rq_Body r' = [] \<and>
    ServeHTTP id (\<lambda>_. []) plain_marshaler mx
      (sample_get ''/api/v1/version''\<lparr>rq_Method := ''POST'', rq_Body := ''a=b%20c'',
         rq_Header := [(''Content-Type'', [''application/x-www-form-urlencoded''])]\<rparr>) 7 =
      gw_version (\<lambda>_. []) plain_marshaler (nil_client :: (unit, nat) WwwServer) r' Map.empty 7"
proof -
  let ?c = "nil_client :: (unit, nat) WwwServer"
  let ?r = "sample_get ''/api/v1/version''\<lparr>rq_Method := ''POST'', rq_Body := ''a=b%20c'',
    rq_Header := [(''Content-Type'', [''application/x-www-form-urlencoded''])]\<rparr>"
  obtain mx where mx: "RegisterWwwHandlerClient (\<lambda>_. []) plain_marshaler (NewServeMux [''POST'', ''GET'']) ?c = Some mx"
    by (simp add: registered_mux)
  have "CanonicalMIMEHeaderKey ''Content-Type'' = ''Content-Type''"
    "CanonicalMIMEHeaderKey ''X-HTTP-Method-Override'' = ''X-Http-Method-Override''"
    by (code_simp, code_simp)
  then have h: "isPathLengthFallback ?r" "Header_Get ?r ''X-HTTP-Method-Override'' = []"
    by (simp_all add: isPathLengthFallback_def Header_Get_def Header_values_def)
  have q: "ParseQuery_error id (rq_Body ?r) = None" "ParseQuery_error id (rq_RawQuery ?r) = None"
    by (simp_all add: ParseQuery_error_def pair_error_def Let_def ishex_def sample_get_def less_eq_char_def)
  have b: "length (rq_Body ?r) \<le> maxFormSize" "served_as (rq_Path ?r) version_path"
    by (simp_all add: maxFormSize_def served_as_def version_path_def sample_get_def)
  have u: "ToUpper (Header_Get ?r ''X-HTTP-Method-Override'') \<in> {[], ''GET''}"
    unfolding h(2) by (simp add: ToUpper_def)
  have o: "set [''POST'', ''GET''] = {''GET'', ''POST''}" by auto
  show ?thesis
    using gateway_form_fallback [OF mx o h(1) b(1) q b(2) u, of 7] mx h(2) by auto
qed

section \<open>Credentials\<close>

text \<open>The metadata made of pairs: the values of the keys that agree up to case, in order.\<close>

definition md_values :: "(string \<times> string) list \<Rightarrow> string \<Rightarrow> string list" where
  "md_values kv k = List.map snd (filter (\<lambda>p. ToLower (fst p) = k) kv)"

lemma md_Pairs_lookup: "md_Pairs kv k = (if md_values kv k = [] then None else Some (md_values kv k))"
proof (induction kv rule: rev_induct)
  case Nil
  then show ?case by (simp add: md_Pairs_def md_values_def)
next
  case (snoc p kv)
  obtain a b where p: "p = (a, b)" by (cases p)
  have step: "md_Pairs (kv @ [(a, b)]) = MD_Add (md_Pairs kv) a b" by (simp add: md_Pairs_def)
  have v: "md_values (kv @ [(a, b)]) k = md_values kv k @ (if ToLower a = k then [b] else [])"
    by (simp add: md_values_def)
  show ?case
    unfolding p step v using snoc.IH by (auto simp: MD_Add_def)
qed

lemma ToLower_authorization [simp]: "ToLower ''authorization'' = ''authorization''"
  by (simp add: ToLower_def lower_char_def less_eq_char_def)

lemma canonical_authorization:
  assumes "ToLower k = ''authorization''" and "CanonicalMIMEHeaderKey k = k"
  shows "k = ''Authorization''"
proof -
  have "list_all token_char (ToLower k)"
    unfolding assms(1) by code_simp
  then have "list_all token_char k" by (rule token_ToLower)
  then have "k = canonical_bytes True (ToLower k)"
    using assms(2) by (simp add: canonical_bytes_lower CanonicalMIMEHeaderKey_def)
  also have "\<dots> = ''Authorization''" unfolding assms(1) by code_simp
  finally show ?thesis .
qed

text \<open>The headers of a request as \<open>net/http\<close> delivers them: canonical keys, each one once.\<close>

definition canonical_headers :: "http_request \<Rightarrow> bool" where
  "canonical_headers r \<longleftrightarrow>
     distinct (List.map fst (rq_Header r)) \<and> (\<forall>k \<in> fst ` set (rq_Header r). CanonicalMIMEHeaderKey k = k)"

text \<open>Which of the pairs of a header carry an authorization.\<close>

lemma prefix_not_authorization:
  "ToLower (MetadataPrefix @ k) \<noteq> ''authorization''"
  "ToLower ''x-forwarded-host'' \<noteq> ''authorization''" "ToLower ''x-forwarded-for'' \<noteq> ''authorization''"
  by (simp_all add: MetadataPrefix_def ToLower_def lower_char_def less_eq_char_def)

definition forwarded_authorization :: string where
  "forwarded_authorization = ''Grpc-Metadata-Authorization''"

lemma canonical_bytes_prefix:
  "canonical_bytes True (MetadataHeaderPrefix @ k) = MetadataHeaderPrefix @ canonical_bytes True k"
  by (simp add: MetadataHeaderPrefix_def upper_char_def lower_char_def less_eq_char_def)

lemma matcher_authorization:
  assumes "CanonicalMIMEHeaderKey k = k" and "DefaultHeaderMatcher k = Some h"
    and "ToLower h = ''authorization''"
  shows "k = forwarded_authorization"
proof -
  from assms prefix_not_authorization(1)
  have pre: "HasPrefix k MetadataHeaderPrefix" and h: "h = drop (length MetadataHeaderPrefix) k"
    by (auto simp: DefaultHeaderMatcher_def Let_def split: if_splits)
  then have k: "k = MetadataHeaderPrefix @ h"
    by (auto simp: HasPrefix_def prefix_def)
  have "list_all token_char (ToLower h)" unfolding assms(3) by code_simp
  then have th: "list_all token_char h" by (rule token_ToLower)
  moreover have "list_all token_char MetadataHeaderPrefix" by code_simp
  ultimately have "canonical_bytes True k = k"
    using assms(1) by (simp add: CanonicalMIMEHeaderKey_def k)
  then have "canonical_bytes True h = h" using canonical_bytes_prefix [of h] by (simp add: k)
  then have "h = ''Authorization''"
    using canonical_authorization [OF assms(3)] th by (simp add: CanonicalMIMEHeaderKey_def)
  then show ?thesis by (simp add: k forwarded_authorization_def MetadataHeaderPrefix_def)
qed

lemma ToLower_Authorization: "ToLower ''Authorization'' = ''authorization''"
  by code_simp

lemma md_values_append: "md_values (xs @ ys) k = md_values xs k @ md_values ys k"
  by (simp add: md_values_def)

lemma value_pairs_authorization:
  assumes "CanonicalMIMEHeaderKey k = k" and "k \<noteq> forwarded_authorization"
  shows "md_values (value_pairs k v) ''authorization'' = (if k = ''Authorization'' then [v] else [])"
proof -
  have "md_values (case DefaultHeaderMatcher k of None \<Rightarrow> [] | Some h \<Rightarrow> [(h, v)]) ''authorization'' = []"
    using matcher_authorization [OF assms(1)] assms(2) by (auto simp: md_values_def split: option.split)
  moreover have "ToLower k = ''authorization'' \<longleftrightarrow> k = ''Authorization''"
    using canonical_authorization [OF _ assms(1)] ToLower_Authorization by blast
  ultimately show ?thesis
    unfolding value_pairs_def md_values_append by (simp add: md_values_def)
qed

lemma values_pairs_authorization:
  assumes "CanonicalMIMEHeaderKey k = k" and "k \<noteq> forwarded_authorization"
  shows "md_values (concat (List.map (value_pairs k) vs)) ''authorization'' =
    (if k = ''Authorization'' then vs else [])"
  by (induction vs) (simp_all add: md_values_append value_pairs_authorization [OF assms], simp add: md_values_def)

lemma header_pairs_authorization:
  assumes "distinct (List.map fst hs)" and "\<forall>k \<in> fst ` set hs. CanonicalMIMEHeaderKey k = k"
    and "forwarded_authorization \<notin> fst ` set hs"
  shows "md_values (header_pairs hs) ''authorization'' =
    (case map_of hs ''Authorization'' of None \<Rightarrow> [] | Some vs \<Rightarrow> vs)"
  using assms
proof (induction hs)
  case Nil
  then show ?case by (simp add: header_pairs_def md_values_def)
next
  case (Cons h hs)
  obtain k vs where h: "h = (k, vs)" by (cases h)
  have hp: "header_pairs (h # hs) = concat (List.map (value_pairs k) vs) @ header_pairs hs"
    by (simp add: header_pairs_def h)
  have vp: "md_values (concat (List.map (value_pairs k) vs)) ''authorization'' =
      (if k = ''Authorization'' then vs else [])"
    by (rule values_pairs_authorization) (use Cons.prems h in auto)
  have IH: "md_values (header_pairs hs) ''authorization'' =
      (case map_of hs ''Authorization'' of None \<Rightarrow> [] | Some vs \<Rightarrow> vs)"
    by (rule Cons.IH) (use Cons.prems in auto)
  have no: "k = ''Authorization'' \<Longrightarrow> map_of hs ''Authorization'' = None"
    using Cons.prems(1) h by (auto simp: map_of_eq_None_iff)
  show ?case
    unfolding hp md_values_append vp IH using no by (auto simp: h)
qed

lemma rest_pairs_authorization:
  "md_values (host_pairs r) ''authorization'' = []" "md_values (addr_pairs r) ''authorization'' = []"
  using prefix_not_authorization(2,3)
  by (auto simp: host_pairs_def addr_pairs_def md_values_def Let_def split: sum.split)

text \<open>The metadata the service reads are those of the annotated context.\<close>

lemma annotated_authorization:
  assumes "AnnotateContext Background r = Inr c"
    and "canonical_headers r"
    and "forwarded_authorization \<notin> fst ` set (rq_Header r)"
    and "map_of (rq_Header r) ''Authorization'' \<noteq> Some []"
  shows "MD_Get (ExtractIncoming (makeServerContext c)) ''authorization'' =
    Header_Get r ''Authorization''"
proof -
  let ?pairs = "header_pairs (rq_Header r) @ host_pairs r @ addr_pairs r"
  have v: "md_values ?pairs ''authorization'' =
      (case map_of (rq_Header r) ''Authorization'' of None \<Rightarrow> [] | Some vs \<Rightarrow> vs)"
    using assms(2,3)
    by (simp add: md_values_append header_pairs_authorization canonical_headers_def rest_pairs_authorization)
  have can: "CanonicalMIMEHeaderKey ''Authorization'' = ''Authorization''" by code_simp
  have nil: "md_Pairs [] = Map.empty" by (simp add: md_Pairs_def)
  have "ExtractIncoming (makeServerContext c) = md_Pairs ?pairs"
    using assms(1) nil
    by (auto simp: AnnotateContext_def Let_def ExtractIncoming_def makeServerContext_def Background_def
        split: if_splits)
  then show ?thesis
    using assms(4)
    by (simp add: MD_Get_def md_Pairs_lookup v Header_Get_def Header_values_def can split: option.split list.split)
qed

lemma AnnotateContext_ok: "Header_Get r ''Grpc-Timeout'' = [] \<Longrightarrow> \<exists>c'. AnnotateContext c r = Inr c'"
  by (simp add: AnnotateContext_def Let_def)

text \<open>An example.\<close>

lemma AnnotateContext_authorization_sample:
  "\<exists>c :: unit ctx. AnnotateContext Background
      (sample_get ''/''\<lparr>rq_Header := [(''Authorization'', [''bearer t''])]\<rparr>) = Inr c \<and>
    MD_Get (ExtractIncoming (makeServerContext c)) ''authorization'' = ''bearer t''"
proof -
  let ?r = "sample_get ''/''\<lparr>rq_Header := [(''Authorization'', [''bearer t''])]\<rparr>"
  have can: "CanonicalMIMEHeaderKey ''Authorization'' = ''Authorization''"
    "CanonicalMIMEHeaderKey ''Grpc-Timeout'' = ''Grpc-Timeout''" by (code_simp, code_simp)
  have h: "rq_Header ?r = [(''Authorization'', [''bearer t''])]" by simp
  have t: "Header_Get ?r ''Grpc-Timeout'' = []" "Header_Get ?r ''Authorization'' = ''bearer t''"
    by (simp_all add: Header_Get_def Header_values_def can del: select_convs)
  obtain c :: "unit ctx" where c: "AnnotateContext Background ?r = Inr c"
    using AnnotateContext_ok [OF t(1)] by blast
  have "canonical_headers ?r" "forwarded_authorization \<notin> fst ` set (rq_Header ?r)"
    "map_of (rq_Header ?r) ''Authorization'' \<noteq> Some []"
    by (simp_all add: canonical_headers_def can forwarded_authorization_def)
  from annotated_authorization [OF c this] c t(2) show ?thesis by auto
qed

end
