(* ===== verification/Http_Props.thy ===== *)
theory Http_Props
  imports Http Gateway_Props
begin

text \<open>
  Which route answers a request, whatever the order in which the map of API routes is visited,
  and what the root handler serves: the embedded files and nothing else.
\<close>

section \<open>Routing\<close>

lemma find_append:
  "find P (xs @ ys) = (case find P xs of Some x \<Rightarrow> Some x | None \<Rightarrow> find P ys)"
  by (induction xs) auto

lemma find_map: "find P (List.map f xs) = map_option f (find (\<lambda>x. P (f x)) xs)"
  by (induction xs) auto

text \<open>No API route is a prefix of another one.\<close>

lemma routeMap_prefix_free:
  assumes "x \<in> set routeMap" and "y \<in> set routeMap" and "HasPrefix p (fst x)" and "HasPrefix p (fst y)"
  shows "x = y"
proof (rule ccontr)
  have "list_all (\<lambda>x. list_all (\<lambda>y. snd x = snd y \<or> \<not> prefix (fst x) (fst y)) routeMap) routeMap"
    by (simp add: routeMap_def)
  moreover have "snd x = snd y \<Longrightarrow> x = y"
    using assms(1,2) by (auto simp: routeMap_def)
  moreover assume "x \<noteq> y"
  ultimately have "\<not> prefix (fst x) (fst y)" "\<not> prefix (fst y) (fst x)"
    using assms(1,2) unfolding list_all_iff by metis+
  with assms(3,4) show False
    unfolding HasPrefix_def using prefix_free_unique [of "fst x" p "fst y"] by blast
qed

lemma routeMap_order:
  assumes "set rorder = set routeMap"
  shows "find (\<lambda>x. HasPrefix p (fst x)) rorder = find (\<lambda>x. HasPrefix p (fst x)) routeMap"
  by (rule find_perm_unique [OF assms]) (use routeMap_prefix_free assms in blast)

lemma find_api_routes:
  "find (\<lambda>rt. routeRegexp_Match (rt_template rt) p)
     (List.map (\<lambda>(route, label). \<lparr>rt_template = RPrefix route, rt_label = label, rt_handler = h\<rparr>) xs) =
   map_option (\<lambda>(route, label). \<lparr>rt_template = RPrefix route, rt_label = label, rt_handler = h\<rparr>)
     (find (\<lambda>x. HasPrefix p (fst x)) xs)"
  by (simp add: find_map case_prod_unfold)

lemma Router_Match_order:
  assumes "RegisterHTTPServices lib rorder gorder dial jwt svc = Some routes"
    and "set rorder = set routeMap"
  shows "\<exists>routes'. RegisterHTTPServices lib routeMap gorder dial jwt svc = Some routes' \<and>
    Router_Match routes r = Router_Match routes' r"
  using assms(1)
  by (auto simp: RegisterHTTPServices_def Router_Match_def find_append find_api_routes
      routeMap_order [OF assms(2)] split: sum.splits option.splits)

definition http_table :: "http_lib \<Rightarrow> string \<Rightarrow> string option \<Rightarrow> 's ServeMux \<Rightarrow> 's route list" where
  "http_table lib ver jwt gwmux =
     \<lparr>rt_template = RPrefix ''/api/v1/swagger.json'', rt_label = ''Api.Swagger'',
        rt_handler = pure_handler (http_Swagger lib)\<rparr> #
     List.map (\<lambda>(route, label).
        \<lparr>rt_template = RPrefix route, rt_label = label,
         rt_handler = ServeHTTP (hl_quote lib) (hl_panic lib) (hl_marshaler lib) gwmux\<rparr>) routeMap @
     \<lparr>rt_template = RPath ''/metrics'', rt_label = [],
        rt_handler = pure_handler (\<lambda>r. Reply (hl_metrics lib r))\<rparr> #
     RegisterRoutes lib \<lparr>hc_version = ver, hc_jwt = jwt, hc_uiFs = None\<rparr>"

text \<open>
  C29: the route that answers a request whose path is clean does not depend on the order in which
  the map of API routes is visited: the swagger document, the three API routes and the metrics
  come first, then the pages of the service, and every other path reaches the root handler.
\<close>

theorem http_routes:
  assumes "RegisterHTTPServices lib rorder gorder dial jwt svc = Some routes"
    and "set rorder = set routeMap"
  shows "map_option rt_label (Router_Match routes r) =
    (let p = rq_Path r
     in if HasPrefix p ''/api/v1/swagger.json'' then Some ''Api.Swagger''
        else if HasPrefix p ''/api/v1/services/status'' then Some ''Api.ServicesStatus''
        else if HasPrefix p ''/api/v1/rsvp_creation'' then Some ''Api.RsvpCreation''
        else if HasPrefix p ''/api/v1/version'' then Some ''Api.Version''
        else if p = ''/metrics'' then Some []
        else if p = ''/status'' then Some ''Http.Status''
        else if p = ''/version'' then Some ''Http.Version''
        else if p = ''/404'' then Some ''Http.NotFoundPage''
        else if HasPrefix p ''/'' then Some ''Http.Root'' else None)"
proof -
  obtain routes' where r: "RegisterHTTPServices lib routeMap gorder dial jwt svc = Some routes'"
    "Router_Match routes r = Router_Match routes' r"
    using Router_Match_order [OF assms] by blast
  then obtain gwmux where routes': "routes' = http_table lib (Service_Version svc) jwt gwmux"
    by (auto simp: RegisterHTTPServices_def http_table_def Let_def split: sum.splits option.splits)
  show ?thesis
    unfolding r(2) unfolding routes' http_table_def RegisterRoutes_def Router_Match_def routeMap_def Let_def
    by (simp add: if_distrib [of "map_option rt_label"] cong: if_cong)
qed

section \<open>The embedded files\<close>

lemma bindata_names_prefix: "k \<in> set (List.map fst bindata) \<Longrightarrow> k \<noteq> [] \<and> hd k = CHR ''a''"
proof -
  have "list_all (\<lambda>k. k \<noteq> [] \<and> hd k = CHR ''a'') (List.map fst bindata)"
    by (simp add: bindata_def)
  then show "k \<in> set (List.map fst bindata) \<Longrightarrow> k \<noteq> [] \<and> hd k = CHR ''a''"
    by (auto simp: list_all_iff)
qed

lemma AssetInfo_Asset:
  assumes "AssetInfo gz q name = Inr info"
  obtains b where "Asset gz q name = Inr b" "map_of bindata (canonical_name name) = Some info"
    "name \<noteq> []" "hd name \<noteq> CHR ''/''"
proof -
  from assms obtain b where b: "Asset gz q name = Inr b" "map_of bindata (canonical_name name) = Some info"
    by (auto simp: AssetInfo_def Asset_def load_asset_def split: option.splits sum.splits)
  then have "canonical_name name \<in> set (List.map fst bindata)" by (force dest: map_of_SomeD)
  then have "canonical_name name \<noteq> []" "hd (canonical_name name) = CHR ''a''"
    using bindata_names_prefix by blast+
  then have "name \<noteq> []" "hd name \<noteq> CHR ''/''"
    by (cases name; auto simp: canonical_name_def)+
  with b that show thesis by blast
qed

lemma split_char_snoc: "split_char d (s @ [d]) = split_char d s @ [[]]"
  by (induction s) (auto split: list.split)

lemma Clean_slash: "s \<noteq> [] \<Longrightarrow> Clean (s @ ''/'') = Clean s"
  by (simp add: Clean_def clean_components_def split_char_snoc clean_step_def Let_def)

lemma Clean_rooted: "s \<noteq> [] \<Longrightarrow> hd s = CHR ''/'' \<Longrightarrow> Clean s \<noteq> [] \<and> hd (Clean s) = CHR ''/''"
  by (simp add: Clean_def Let_def)

lemma cleanPath_rooted: "cleanPath p \<noteq> [] \<and> hd (cleanPath p) = CHR ''/''"
  using Clean_rooted [of p] Clean_rooted [of "''/'' @ p"]
  by (auto simp: cleanPath_def Let_def)

text \<open>A path that the router does not redirect is clean up to a slash at its end.\<close>

lemma cleanPath_fixed:
  assumes "cleanPath p = p"
  shows "p \<noteq> [] \<and> hd p = CHR ''/'' \<and> (Clean p = p \<or> p = Clean p @ ''/'')"
  using cleanPath_rooted [of p] assms by (auto simp: cleanPath_def Let_def split: if_splits)

lemma path_Join_assets_clean:
  assumes "cleanPath p = p"
  shows "path_Join [''assets'', Clean p] = path_Join [''assets'', p]"
  using cleanPath_fixed [OF assms] Clean_slash [of "''assets/'' @ Clean p"]
  by (auto simp: path_Join_def)

definition ui_fs :: "http_lib \<Rightarrow> AssetFS" where
  "ui_fs lib =
     \<lparr>af_Asset = Asset (hl_gz lib) (hl_quote lib), af_AssetDir = AssetDir,
      af_AssetInfo = AssetInfo (hl_gz lib) (hl_quote lib), af_Prefix = ''assets''\<rparr>"

lemma Root_unfold:
  "Root lib (initUiFS lib s) r =
     (if TrimPrefix (rq_Path r) ''/'' = [] then
        (case Asset (hl_gz lib) (hl_quote lib) ''assets/index.html'' of
           Inl _ \<Rightarrow> NotFound (initUiFS lib s) r
         | Inr contents \<Rightarrow> Reply (html_reply StatusOK contents))
      else
        (case AssetInfo (hl_gz lib) (hl_quote lib) (path_Join [''assets'', rq_Path r]) of
           Inl _ \<Rightarrow> NotFound (initUiFS lib s) r
         | Inr _ \<Rightarrow> Reply (FileServer lib (ui_fs lib) r)))"
proof -
  have fs: "hc_uiFs (initUiFS lib s) = Some (ui_fs lib)" by (simp add: initUiFS_def ui_fs_def)
  have idx: "path_Join [''assets'', ''index.html''] = ''assets/index.html''" by code_simp
  show ?thesis
    unfolding Root_def fs by (simp add: idx) (simp add: ui_fs_def idx)
qed

text \<open>Opening the clean path of an embedded file gives the file.\<close>

lemma Open_embedded:
  assumes "cleanPath p = p"
    and "AssetInfo (hl_gz lib) (hl_quote lib) (path_Join [''assets'', p]) = Inr info"
  shows "\<exists>b. Asset (hl_gz lib) (hl_quote lib) (path_Join [''assets'', p]) = Inr b \<and>
    AssetFS_Open (hl_start lib) (ui_fs lib) (Clean p) = Inr (AssetFile (path_Join [''assets'', p]) b (fi_modTime info))"
proof -
  from AssetInfo_Asset [OF assms(2)] obtain b where b: "Asset (hl_gz lib) (hl_quote lib) (path_Join [''assets'', p]) = Inr b"
    "path_Join [''assets'', p] \<noteq> []" "hd (path_Join [''assets'', p]) \<noteq> CHR ''/''" by metis
  with assms(2) show ?thesis
    by (simp add: AssetFS_Open_def ui_fs_def path_Join_assets_clean [OF assms(1)] Let_def)
qed

text \<open>
  C30: the root handler serves the embedded files and nothing else. On a path the router lets
  through it answers with the index page for the root, with a redirect for the address of an index
  page or of a file followed by a slash, with the content of the embedded file of that name
  otherwise, and with the page of an unknown path when there is no such file; a directory is
  never listed.
\<close>

theorem Root_serves_embedded:
  assumes "cleanPath (rq_Path r) = rq_Path r"
  shows "Root lib (initUiFS lib s) r =
    (let name = path_Join [''assets'', rq_Path r]
     in if rq_Path r = ''/'' then
          (case Asset (hl_gz lib) (hl_quote lib) ''assets/index.html'' of
             Inl _ \<Rightarrow> NotFound (initUiFS lib s) r
           | Inr page \<Rightarrow> Reply (html_reply StatusOK page))
        else
          (case (AssetInfo (hl_gz lib) (hl_quote lib) name, Asset (hl_gz lib) (hl_quote lib) name) of
             (Inr info, Inr content) \<Rightarrow>
               Reply
                 (if HasSuffix (rq_Path r) ''/index.html'' then localRedirect r ''./''
                  else if last (rq_Path r) = CHR ''/'' then localRedirect r (''../'' @ path_Base (rq_Path r))
                  else hl_serveContent lib r (file_Name name) (fi_modTime info) content)
           | _ \<Rightarrow> NotFound (initUiFS lib s) r))"
proof -
  let ?p = "rq_Path r"
  let ?name = "path_Join [''assets'', ?p]"
  have rooted: "?p \<noteq> []" "hd ?p = CHR ''/''" using cleanPath_fixed [OF assms] by auto
  then have pre: "HasPrefix ?p ''/''" by (cases ?p) (auto simp: HasPrefix_def)
  have top: "TrimPrefix ?p ''/'' = [] \<longleftrightarrow> ?p = ''/''"
    using rooted pre by (cases ?p) (auto simp: TrimPrefix_def)
  show ?thesis
  proof (cases "?p = ''/''")
    case True
    then show ?thesis unfolding Root_unfold by (simp add: TrimPrefix_def HasPrefix_def)
  next
    case False
    show ?thesis
    proof (cases "AssetInfo (hl_gz lib) (hl_quote lib) ?name")
      case (Inl e)
      with False show ?thesis unfolding Root_unfold top by simp
    next
      case (Inr info)
      from Open_embedded [OF assms Inr] False Inr show ?thesis
        unfolding Root_unfold top
        by (auto simp: Let_def FileServer_def serveFile_def pre fs_IsDir_def serve_opened_def)
    qed
  qed
qed

text \<open>A library for the witnesses.\<close>

definition plain_lib :: http_lib where
  "plain_lib =
     \<lparr>hl_serveContent = (\<lambda>r name t content. html_reply StatusOK content),
      hl_dirList = (\<lambda>r infos. html_reply StatusOK []),
      hl_URL = (\<lambda>p q. p), hl_json = (\<lambda>s. s), hl_quote = (\<lambda>s. s),
      hl_gz = (\<lambda>name. Unzipped [104, 105] None None), hl_metrics = (\<lambda>r. html_reply StatusOK []),
      hl_panic = (\<lambda>_. ''panic''), hl_marshaler = plain_marshaler, hl_Swagger = ''{}'', hl_start = 0\<rparr>"

definition null_conn :: "string + (unit, nat) channel" where
  "null_conn = Inr (\<lambda>c m q s. (Ret None None, s))"

theorem http_routes_witness:
  "\<exists>routes. RegisterHTTPServices plain_lib (rev routeMap) [''GET'', ''POST''] null_conn None
      (NewService [] :: unit Service) = Some routes \<and>
    map_option rt_label (Router_Match routes (sample_get ''/api/v1/version'')) = Some ''Api.Version''"
proof -
  obtain routes where r: "RegisterHTTPServices plain_lib (rev routeMap) [''GET'', ''POST''] null_conn None
      (NewService [] :: unit Service) = Some routes"
    by (simp add: RegisterHTTPServices_def RegisterWwwHandlerFromEndpoint_def null_conn_def
        RegisterWwwHandler_def registered_mux Let_def)
  have "set (rev routeMap) = set routeMap" by simp
  from http_routes [OF r this, of "sample_get ''/api/v1/version''"] r show ?thesis
    by (simp add: sample_get_def HasPrefix_def)
qed

theorem Root_serves_embedded_witness:
  "Root plain_lib (initUiFS plain_lib \<lparr>hc_version = ''1'', hc_jwt = None, hc_uiFs = None\<rparr>)
     (sample_get ''/js/rsvp.js'') = Reply (html_reply StatusOK [104, 105])"
proof -
  let ?r = "sample_get ''/js/rsvp.js''"
  have p: "rq_Path ?r = ''/js/rsvp.js''" by (simp add: sample_get_def)
  have c: "cleanPath (rq_Path ?r) = rq_Path ?r" unfolding p by code_simp
  have j: "path_Join [''assets'', ''/js/rsvp.js''] = ''assets/js/rsvp.js''" by code_simp
  have m: "map_of bindata ''assets/js/rsvp.js'' = Some assetsJsRsvpJs" by (simp add: bindata_def)
  have n: "fi_name assetsJsRsvpJs = ''assets/js/rsvp.js''" by (simp add: assetsJsRsvpJs_def)
  have "AssetInfo (hl_gz plain_lib) (hl_quote plain_lib) ''assets/js/rsvp.js'' = Inr assetsJsRsvpJs"
    "Asset (hl_gz plain_lib) (hl_quote plain_lib) ''assets/js/rsvp.js'' = Inr [104, 105]"
    by (simp_all add: AssetInfo_def Asset_def canonical_name_def m load_asset_def bindataRead_def plain_lib_def)
  with Root_serves_embedded [OF c, of plain_lib "\<lparr>hc_version = ''1'', hc_jwt = None, hc_uiFs = None\<rparr>"]
  show ?thesis unfolding p by (simp add: j HasSuffix_def suffix_def plain_lib_def)
qed

end
