(* ===== verification/Server_Props.thy ===== *)
theory Server_Props
  imports Server Http_Props Service_Props
begin

text \<open>The properties of the two servers: what they serve, and that every request is answered.\<close>

section \<open>What the servers are\<close>

lemma grpcServer_serve:
  assumes "grpcServer env drv cenv finish ca cert key jwt dsn = Inr g"
  shows "grpc_call g verify cenv = serve drv verify cenv finish \<and>
    Service_serverImpl (gs_svc g) = Some \<lparr>ws_version = svc_version, ws_jwtSecret = jwt,
      ws_caCertificate = ca, ws_certificate = cert, ws_privateKey = key, ws_sqliteDataSourceName = dsn,
      ws_sqliteHandle = None\<rparr>"
  using assms
  by (auto simp: grpcServer_def grpc_call_def serve_def RegisterHandlerWww_empty ForEach_def
      RegisterService_def RegisterGRPCServices_def NewService_def Www_serviceDesc_def Let_def
      split: sum.splits)

lemma negroni_Recovery_reply: "\<exists>rp. fst (negroni_Recovery pt stack nxt r s) = Reply rp"
  by (auto simp: negroni_Recovery_def split: prod.split http_result.split)

lemma mset_two:
  assumes "mset xs = {#a, b#}"
  shows "xs = [a, b] \<or> xs = [b, a]"
proof -
  from assms have "length xs = 2" by (metis size_mset size_add_mset size_single numeral_2_eq_2 One_nat_def)
  then obtain x y where "xs = [x, y]" by (auto simp: length_Suc_conv numeral_2_eq_2)
  with assms show ?thesis by (auto simp: add_eq_conv_ex)
qed

lemma collect_two:
  "collect_exits True 0 eps =
     (case eps of e1 # e2 # _ \<Rightarrow> Some (e1 = None \<and> e2 = None) | _ \<Rightarrow> None)"
  by (auto split: list.split)

text \<open>
  Every request of the HTTP server is answered: a panic of a handler becomes a reply with
  status 500, with any certificates, origins, routes and connection to the gRPC server.
\<close>

lemma httpServer_answers:
  assumes "httpServer lib stack rorder gorder env addr origins ca cert key jwt = Inr h"
  shows "\<exists>rp. fst (h r s) = Reply rp"
  using assms negroni_Recovery_reply
  by (auto simp: httpServer_def split: sum.splits option.splits)

text \<open>
  A server that runs on one address serves, over gRPC, exactly the methods of the service with
  its interceptors, starting from a state with the configuration it was given and a closed
  database; and it reports success exactly when both protocols have ended without an error, in
  either order.
\<close>

lemma OnSingleAddress_serves:
  assumes "OnSingleAddress lib stack rorder gorder env listen drv cenv finish eps addr origins ca cert
      key jwt dsn = Inr run"
  shows "grpc_call (run_grpc run) verify cenv = serve drv verify cenv finish \<and>
    Service_serverImpl (gs_svc (run_grpc run)) = Some \<lparr>ws_version = svc_version, ws_jwtSecret = jwt,
      ws_caCertificate = ca, ws_certificate = cert, ws_privateKey = key, ws_sqliteDataSourceName = dsn,
      ws_sqliteHandle = None\<rparr> \<and>
    (\<forall>e1 e2. mset eps = {#e1, e2#} \<longrightarrow> run_ok run = Some (e1 = None \<and> e2 = None))"
proof (intro conjI allI impI)
  from assms obtain g where g: "grpcServer env drv cenv finish ca cert key jwt dsn = Inr g"
    "run_grpc run = g" "run_ok run = collect_exits True 0 eps"
    by (auto simp: OnSingleAddress_def split: option.splits sum.splits)
  from grpcServer_serve [OF g(1)] g(2)
  show "grpc_call (run_grpc run) verify cenv = serve drv verify cenv finish"
    and "Service_serverImpl (gs_svc (run_grpc run)) = Some \<lparr>ws_version = svc_version, ws_jwtSecret = jwt,
      ws_caCertificate = ca, ws_certificate = cert, ws_privateKey = key, ws_sqliteDataSourceName = dsn,
      ws_sqliteHandle = None\<rparr>" by auto
  fix e1 e2
  assume eps: "mset eps = {#e1, e2#}"
  from mset_two [OF eps] show "run_ok run = Some (e1 = None \<and> e2 = None)"
    unfolding g(3) collect_two by auto
qed


text \<open>A machine without certificates on which every address can be dialed.\<close>

definition live_net :: "('c, 's) channel \<Rightarrow> ('c, 's) net_env" where
  "live_net conn =
     \<lparr>ne_LoadKeyPair = (\<lambda>c k. None), ne_ReadFile = (\<lambda>f. None), ne_AppendCerts = (\<lambda>f. True),
      ne_Dial = (\<lambda>a t tls. Inr conn)\<rparr>"

lemma httpServer_plain:
  "\<exists>h. httpServer plain_lib stack (rev routeMap) [''GET''] (live_net conn) addr [] [] [] [] [] = Inr h"
  by (simp add: httpServer_def gateway_credentials_def live_net_def RegisterHTTPServices_def
      RegisterWwwHandlerFromEndpoint_def RegisterWwwHandler_def registered_mux Let_def)

lemma grpcServer_plain:
  "\<exists>g. grpcServer (live_net conn) drv cenv finish [] [] [] [] dsn = Inr g"
  by (simp add: grpcServer_def server_credentials_def RegisterHandlerWww_empty ForEach_def
      RegisterService_def RegisterGRPCServices_def NewService_def Www_serviceDesc_def Let_def)

lemma httpServer_answers_sample:
  "\<exists>h. httpServer plain_lib (\<lambda>_. []) (rev routeMap) [''GET''] (live_net (\<lambda>c m q s. (Ret None None, s :: nat)) :: (unit, nat) net_env)
      ''h:1'' [] [] [] [] [] = Inr h \<and> (\<exists>rp. fst (h (sample_get ''/'') 0) = Reply rp)"
  using httpServer_plain httpServer_answers by metis

lemma OnSingleAddress_serves_sample:
  "\<exists>run. OnSingleAddress plain_lib (\<lambda>_. []) (rev routeMap) [''GET'']
      (live_net (serve (mem_driver empty_disk) (\<lambda>_ _. None :: unit option) sample_env [0]))
      (\<lambda>_. None) (mem_driver empty_disk) sample_env [0] [None, Some ''closed''] ''h:1'' [] [] [] [] [] ''dsn'' = Inr run \<and>
    run_ok run = Some False"
proof -
  let ?n = "live_net (serve (mem_driver empty_disk) (\<lambda>_ _. None :: unit option) sample_env [0])"
  obtain g where g: "grpcServer ?n (mem_driver empty_disk) sample_env [0] [] [] [] [] ''dsn'' = Inr g"
    using grpcServer_plain by metis
  obtain h where h: "httpServer plain_lib (\<lambda>_. []) (rev routeMap) [''GET''] ?n ''h:1'' [] [] [] [] [] = Inr h"
    using httpServer_plain by metis
  obtain run where r: "OnSingleAddress plain_lib (\<lambda>_. []) (rev routeMap) [''GET''] ?n (\<lambda>_. None)
      (mem_driver empty_disk) sample_env [0] [None, Some ''closed''] ''h:1'' [] [] [] [] [] ''dsn'' = Inr run"
    by (simp add: OnSingleAddress_def g h)
  from OnSingleAddress_serves [OF r] have "run_ok run = Some False" by auto
  with r show ?thesis by auto
qed

end
