(* ===== verification/Http_Api.thy ===== *)
theory Http_Api
  imports Www_Api Server_Props
begin

text \<open>
  The API over HTTP: a request to one of the three routes of the HTTP server is a call over its
  connection to the gRPC server, and the reply is what the marshaler makes of the answer. The
  interface \<open>www_http_api\<close> adds to \<open>www_api\<close> the callers whose bearer token is known.
\<close>

section \<open>Through the middlewares and the router\<close>

text \<open>The reply of a handler up to the headers that the middlewares add.\<close>

definition answers :: "'s http_handler \<Rightarrow> http_request \<Rightarrow> 's \<Rightarrow> nat \<Rightarrow> string \<Rightarrow> 's \<Rightarrow> bool" where
  "answers h r s status body s' =
     (case h r s of
        (Reply rp, s1) \<Rightarrow> rp_Status rp = status \<and> rp_Body rp = body \<and> s1 = s'
      | (HPanic p, s1) \<Rightarrow> False)"

lemma middlewares_answer:
  assumes "rq_Method r \<noteq> ''OPTIONS''" and "answers k r s status body s'"
  shows "answers (negroni_build [negroni_Recovery pt stack, nlog] k) r s status body s'"
    and "answers (negroni_build [negroni_Recovery pt stack, nlog, Cors_ServeHTTP c] k) r s status body s'"
  using assms
  by (auto simp: answers_def negroni_Recovery_def nlog_def Cors_ServeHTTP_def with_headers_def
      split: prod.splits http_result.splits)

lemma httpServer_routes:
  assumes "httpServer lib stack rorder gorder net addr origins ca cert key jwt = Inr h"
    and "\<And>creds. ne_Dial net addr 0 creds = Inr conn"
  shows "\<exists>routes. RegisterHTTPServices lib rorder gorder (Inr conn) (if jwt \<noteq> [] then Some jwt else None)
      (NewService [] :: unit Service) = Some routes \<and>
    (\<forall>r s status body s'. rq_Method r \<noteq> ''OPTIONS'' \<longrightarrow>
       answers (Router_ServeHTTP lib routes) r s status body s' \<longrightarrow> answers h r s status body s')"
  using assms(1) middlewares_answer [where pt = "hl_panic lib" and stack = stack]
  by (auto simp: httpServer_def assms(2) split: sum.splits option.splits if_splits)

lemma clean_api_paths:
  "cleanPath ''/api/v1/version'' = ''/api/v1/version''"
  "cleanPath ''/api/v1/services/status'' = ''/api/v1/services/status''"
  "cleanPath ''/api/v1/rsvp_creation'' = ''/api/v1/rsvp_creation''"
  "cleanPath ''/status'' = ''/status''" "cleanPath ''/metrics'' = ''/metrics''"
  "cleanPath ''/api/v1/swagger.json'' = ''/api/v1/swagger.json''"
  by (code_simp, code_simp, code_simp, code_simp, code_simp, code_simp)

lemma router_serves:
  assumes "RegisterHTTPServices lib rorder gorder (Inr conn) jwt svc = Some routes"
    and "set rorder = set routeMap"
  shows "\<exists>gwmux. RegisterWwwHandlerClient (hl_panic lib) (hl_marshaler lib) (NewServeMux gorder)
        (NewWwwClient conn) = Some gwmux \<and>
      (rq_Path r \<in> {''/api/v1/version'', ''/api/v1/services/status'', ''/api/v1/rsvp_creation''} \<longrightarrow>
         Router_ServeHTTP lib routes r s =
           ServeHTTP (hl_quote lib) (hl_panic lib) (hl_marshaler lib) gwmux r s) \<and>
      (rq_Path r = ''/status'' \<longrightarrow> Router_ServeHTTP lib routes r s = (http_Status r, s)) \<and>
      (rq_Path r = ''/metrics'' \<longrightarrow> Router_ServeHTTP lib routes r s = (Reply (hl_metrics lib r), s)) \<and>
      (rq_Path r = ''/api/v1/swagger.json'' \<longrightarrow> Router_ServeHTTP lib routes r s = (http_Swagger lib r, s))"
proof -
  obtain routes' where r: "RegisterHTTPServices lib routeMap gorder (Inr conn) jwt svc = Some routes'"
    "Router_Match routes r = Router_Match routes' r"
    using Router_Match_order [OF assms] by blast
  then obtain gwmux where g: "RegisterWwwHandlerClient (hl_panic lib) (hl_marshaler lib) (NewServeMux gorder)
      (NewWwwClient conn) = Some gwmux" and t: "routes' = http_table lib (Service_Version svc) jwt gwmux"
    by (auto simp: RegisterHTTPServices_def RegisterWwwHandlerFromEndpoint_def RegisterWwwHandler_def
        http_table_def Let_def split: option.splits)
  have u: "Router_ServeHTTP lib routes r s =
      (let p = cleanPath (rq_Path r)
       in if p \<noteq> rq_Path r then
            (Reply \<lparr>rp_Status = StatusMovedPermanently,
               rp_Header = [''Location'' \<mapsto> hl_URL lib p (rq_RawQuery r)], rp_Body = []\<rparr>, s)
          else (case Router_Match routes' r of
                  None \<Rightarrow> (Reply (http_Error ''404 page not found'' StatusNotFound), s)
                | Some rt \<Rightarrow> rt_handler rt r s))"
    unfolding Router_ServeHTTP_def r(2) ..
  show ?thesis
    unfolding u t
    by (intro exI [of _ gwmux] conjI impI g)
      (auto simp: clean_api_paths http_table_def RegisterRoutes_def
        Router_Match_def routeMap_def pure_handler_def HasPrefix_def Let_def)
qed

section \<open>Calls\<close>

text \<open>An HTTP server in front of a connection, in any order of the two maps.\<close>

locale http_front =
  fixes lib :: http_lib
    and stack :: "panic \<Rightarrow> string"
    and rorder :: "(string \<times> string) list"
    and gorder :: "string list"
    and net :: "('c, 's) net_env"
    and addr origins ca cert key jwt :: string
    and conn :: "('c, 's) channel"
    and h :: "'s http_handler"
  assumes made: "httpServer lib stack rorder gorder net addr origins ca cert key jwt = Inr h"
    and dials: "ne_Dial net addr 0 creds = Inr conn"
    and all_routes: "set rorder = set routeMap"
    and all_methods: "set gorder = {''GET'', ''POST''}"
begin

lemma front:
  assumes "rq_Method r \<noteq> ''OPTIONS''"
  shows "rq_Path r \<in> {''/api/v1/version'', ''/api/v1/services/status'', ''/api/v1/rsvp_creation''} \<Longrightarrow>
      \<exists>gwmux. RegisterWwwHandlerClient (hl_panic lib) (hl_marshaler lib) (NewServeMux gorder)
          (NewWwwClient conn) = Some gwmux \<and>
        (\<forall>status body s'. answers (ServeHTTP (hl_quote lib) (hl_panic lib) (hl_marshaler lib) gwmux) r s status body s' \<longrightarrow>
           answers h r s status body s')"
    and "rq_Path r = ''/status'' \<Longrightarrow> answers h r s StatusOK ''OK'' s"
    and "rq_Path r = ''/metrics'' \<Longrightarrow>
      answers h r s (rp_Status (hl_metrics lib r)) (rp_Body (hl_metrics lib r)) s"
    and "rq_Path r = ''/api/v1/swagger.json'' \<Longrightarrow> answers h r s StatusOK (hl_Swagger lib) s"
proof -
  obtain routes where r: "RegisterHTTPServices lib rorder gorder (Inr conn) (if jwt \<noteq> [] then Some jwt else None)
      (NewService [] :: unit Service) = Some routes"
    and pass: "\<And>status body s'. answers (Router_ServeHTTP lib routes) r s status body s' \<Longrightarrow>
      answers h r s status body s'"
    using httpServer_routes [OF made dials] assms by blast
  obtain gwmux where g: "RegisterWwwHandlerClient (hl_panic lib) (hl_marshaler lib) (NewServeMux gorder)
        (NewWwwClient conn) = Some gwmux"
    and serves: "rq_Path r \<in> {''/api/v1/version'', ''/api/v1/services/status'', ''/api/v1/rsvp_creation''} \<Longrightarrow>
      Router_ServeHTTP lib routes r s = ServeHTTP (hl_quote lib) (hl_panic lib) (hl_marshaler lib) gwmux r s"
      "rq_Path r = ''/status'' \<Longrightarrow> Router_ServeHTTP lib routes r s = (http_Status r, s)"
      "rq_Path r = ''/metrics'' \<Longrightarrow> Router_ServeHTTP lib routes r s = (Reply (hl_metrics lib r), s)"
      "rq_Path r = ''/api/v1/swagger.json'' \<Longrightarrow> Router_ServeHTTP lib routes r s = (http_Swagger lib r, s)"
    using router_serves [OF r all_routes, of r s] by blast
  show "\<exists>gwmux. RegisterWwwHandlerClient (hl_panic lib) (hl_marshaler lib) (NewServeMux gorder)
          (NewWwwClient conn) = Some gwmux \<and>
        (\<forall>status body s'. answers (ServeHTTP (hl_quote lib) (hl_panic lib) (hl_marshaler lib) gwmux) r s status body s' \<longrightarrow>
           answers h r s status body s')"
    if "rq_Path r \<in> {''/api/v1/version'', ''/api/v1/services/status'', ''/api/v1/rsvp_creation''}"
    using g pass serves(1) [OF that] by (auto simp: answers_def)
  show "answers h r s StatusOK ''OK'' s" if "rq_Path r = ''/status''"
    by (rule pass) (simp add: answers_def serves(2) [OF that] http_Status_def)
  show "answers h r s (rp_Status (hl_metrics lib r)) (rp_Body (hl_metrics lib r)) s" if "rq_Path r = ''/metrics''"
    by (rule pass) (simp add: answers_def serves(3) [OF that])
  show "answers h r s StatusOK (hl_Swagger lib) s" if "rq_Path r = ''/api/v1/swagger.json''"
    by (rule pass) (simp add: answers_def serves(4) [OF that] http_Swagger_def json_reply_def)
qed

end

lemma served_api_paths:
  "served_as ''/api/v1/version'' version_path" "served_as ''/api/v1/services/status'' status_path"
  "served_as ''/api/v1/rsvp_creation'' rsvp_path"
  by (simp_all add: served_as_def version_path_def status_path_def rsvp_path_def)

lemma served_one_path:
  "\<not> served_as ''/api/v1/services/status'' version_path" "\<not> served_as ''/api/v1/rsvp_creation'' version_path"
  "\<not> served_as ''/api/v1/rsvp_creation'' status_path"
  using served_as_one served_api_paths routes_differ by metis+

text \<open>What a handler of the gateway makes of the outcome of a call.\<close>

definition gw_reply :: "http_lib \<Rightarrow> www_resp outcome \<Rightarrow> (nat \<times> string) option" where
  "gw_reply lib x =
     (case x of
        Panic p \<Rightarrow> None
      | Ret _ (Some e) \<Rightarrow>
          (let rp = DefaultHTTPProtoErrorHandler (hl_panic lib) (hl_marshaler lib) e
           in Some (rp_Status rp, rp_Body rp))
      | Ret resp None \<Rightarrow>
          (let rp = ForwardResponseMessage (hl_panic lib) (hl_marshaler lib) resp
           in Some (rp_Status rp, rp_Body rp)))"

lemma gw_handler_answers:
  assumes "AnnotateContext Background r = Inr c" and "request c r s = (x, s')"
    and "gw_reply lib x = Some (status, body)"
  shows "answers (\<lambda>r. gw_handler (hl_panic lib) (hl_marshaler lib) request r params) r s status body s'"
  using assms by (auto simp: answers_def gw_handler_def gw_reply_def Let_def split: outcome.splits option.splits)

context http_front
begin

lemma http_version:
  assumes "rq_Method r = ''GET''" and "rq_Path r = ''/api/v1/version''"
    and "AnnotateContext Background r = Inr c"
    and "conn c Version_name (ReqEmpty EmptyMessage) s = (Ret (Some (RespVersion v)) None, s')"
    and "mr_Marshal (hl_marshaler lib) (PMsg (Some (RespVersion v))) = Inr b"
  shows "answers h r s StatusOK b s'"
proof -
  obtain gwmux where g: "RegisterWwwHandlerClient (hl_panic lib) (hl_marshaler lib) (NewServeMux gorder)
      (NewWwwClient conn) = Some gwmux"
    and pass: "\<And>status body s'. answers (ServeHTTP (hl_quote lib) (hl_panic lib) (hl_marshaler lib) gwmux)
      r s status body s' \<Longrightarrow> answers h r s status body s'"
    using front(1) [of r s] assms(1,2) by auto
  have form: "\<not> isPathLengthFallback r" using assms(1) by (simp add: isPathLengthFallback_def)
  have "request_Www_Version_0 c (hl_marshaler lib) (NewWwwClient conn) r s =
      (Ret (Some (RespVersion v)) None, s')"
    by (simp add: request_Www_Version_0_def NewWwwClient_def wwwClient_Version_def assms(4) stub_result_def
        out_Version_def lift_handler_def)
  from gw_handler_answers [where request = "\<lambda>c. request_Www_Version_0 c (hl_marshaler lib) (NewWwwClient conn)",
      OF assms(3) this, of lib StatusOK b Map.empty]
  show ?thesis
    using ServeHTTP_routes [OF g all_methods form, of "hl_quote lib" s] assms(1,2)
    by (intro pass) (simp add: answers_def served_api_paths gw_version_def gw_reply_def
        ForwardResponseMessage_def assms(5) HasPrefix_hd)
qed

lemma http_status:
  assumes "rq_Method r = ''GET''" and "rq_Path r = ''/api/v1/services/status''"
    and "AnnotateContext Background r = Inr c"
    and "conn c ServicesStatus_name (ReqEmpty EmptyMessage) s = (Ret (Some (RespStatus v)) None, s')"
    and "mr_Marshal (hl_marshaler lib) (PMsg (Some (RespStatus v))) = Inr b"
  shows "answers h r s StatusOK b s'"
proof -
  obtain gwmux where g: "RegisterWwwHandlerClient (hl_panic lib) (hl_marshaler lib) (NewServeMux gorder)
      (NewWwwClient conn) = Some gwmux"
    and pass: "\<And>status body s'. answers (ServeHTTP (hl_quote lib) (hl_panic lib) (hl_marshaler lib) gwmux)
      r s status body s' \<Longrightarrow> answers h r s status body s'"
    using front(1) [of r s] assms(1,2) by auto
  have form: "\<not> isPathLengthFallback r" using assms(1) by (simp add: isPathLengthFallback_def)
  have "request_Www_ServicesStatus_0 c (hl_marshaler lib) (NewWwwClient conn) r s =
      (Ret (Some (RespStatus v)) None, s')"
    by (simp add: request_Www_ServicesStatus_0_def NewWwwClient_def wwwClient_ServicesStatus_def assms(4)
        stub_result_def out_ServicesStatus_def lift_handler_def)
  from gw_handler_answers [where request = "\<lambda>c. request_Www_ServicesStatus_0 c (hl_marshaler lib) (NewWwwClient conn)",
      OF assms(3) this, of lib StatusOK b Map.empty]
  show ?thesis
    using ServeHTTP_routes [OF g all_methods form, of "hl_quote lib" s] assms(1,2)
    by (intro pass) (simp add: answers_def served_api_paths served_one_path gw_status_def gw_reply_def
        ForwardResponseMessage_def assms(5) HasPrefix_hd)
qed

lemma http_rsvp:
  assumes "rq_Method r = ''POST''" and "rq_Path r = ''/api/v1/rsvp_creation''" and "\<not> isPathLengthFallback r"
    and "AnnotateContext Background r = Inr c"
    and "mr_Decode (hl_marshaler lib) (rq_Body r) = (req, None)"
    and "lift_handler RespRsvp (srv_RsvpCreation (NewWwwClient conn) c req s) = (x, s')"
    and "gw_reply lib x = Some (status, body)"
  shows "answers h r s status body s'"
proof -
  obtain gwmux where g: "RegisterWwwHandlerClient (hl_panic lib) (hl_marshaler lib) (NewServeMux gorder)
      (NewWwwClient conn) = Some gwmux"
    and pass: "\<And>status body s'. answers (ServeHTTP (hl_quote lib) (hl_panic lib) (hl_marshaler lib) gwmux)
      r s status body s' \<Longrightarrow> answers h r s status body s'"
    using front(1) [of r s] assms(1,2) by auto
  have "request_Www_RsvpCreation_0 c (hl_marshaler lib) (NewWwwClient conn) r s = (x, s')"
    by (simp add: request_Www_RsvpCreation_0_def assms(5,6))
  from gw_handler_answers [where request = "\<lambda>c. request_Www_RsvpCreation_0 c (hl_marshaler lib) (NewWwwClient conn)",
      OF assms(4) this assms(7), of Map.empty]
  show ?thesis
    using ServeHTTP_routes [OF g all_methods assms(3), of "hl_quote lib" s] assms(1,2)
    by (intro pass) (simp add: answers_def served_api_paths served_one_path gw_rsvp_def HasPrefix_hd)
qed

end

end
