(* ===== verification/Functest_Session.thy ===== *)
theory Functest_Session
  imports Functest_Props Http_Api
begin

text \<open>
  The functional tests over HTTP, and the whole session: run against the servers of this program
  they report nothing but what the metrics and the swagger document lack.
\<close>

section \<open>Tokens\<close>

definition good_token :: "(string \<Rightarrow> string \<Rightarrow> 'c option) \<Rightarrow> string \<Rightarrow> string \<Rightarrow> bool" where
  "good_token verify secret t \<longleftrightarrow> secret = [] \<or> (t \<noteq> [] \<and> verify secret t \<noteq> None)"

lemma bearer_read:
  assumes "MD_Get (ExtractIncoming c) ''authorization'' = ''Bearer '' @ t"
  shows "AuthFromMD c ''bearer'' = Inr t"
  using assms by (simp add: AuthFromMD_def lower_words Let_def)

lemma lets_in_token:
  fixes verify :: "string \<Rightarrow> string \<Rightarrow> 'c option"
  assumes "good_token verify secret t"
  shows "lets_in verify secret (AuthContextFromJWT Background t)"
proof (cases "secret = []")
  case False
  with assms have t: "t \<noteq> []" "verify secret t \<noteq> None" by (auto simp: good_token_def)
  then have "MD_Get (ExtractIncoming (makeServerContext (AuthContextFromJWT (Background :: 'c ctx) t))) ''authorization'' =
      ''Bearer '' @ t"
    by (simp add: AuthContextFromJWT_def makeServerContext_def ExtractIncoming_def MD_Get_def MD_Add_def
        lower_words Let_def Background_def ExtractOutgoing_def)
  from bearer_read [OF this] t(2) show ?thesis by (simp add: lets_in_def)
qed (simp add: lets_in_def)

lemma lets_in_http:
  assumes "good_token verify secret t" and "AnnotateContext Background r = Inr c" and "canonical_headers r"
    and "forwarded_authorization \<notin> fst ` set (rq_Header r)"
    and "map_of (rq_Header r) ''Authorization'' = Some [''Bearer '' @ t]"
  shows "lets_in verify secret c"
proof (cases "secret = []")
  case False
  have "CanonicalMIMEHeaderKey ''Authorization'' = ''Authorization''" by code_simp
  then have "Header_Get r ''Authorization'' = ''Bearer '' @ t"
    by (simp add: Header_Get_def Header_values_def assms(5))
  with annotated_authorization [OF assms(2-4)] assms(5)
  have "AuthFromMD (makeServerContext c) ''bearer'' = Inr t" by (intro bearer_read) simp
  with assms(1) False show ?thesis by (auto simp: good_token_def lets_in_def)
qed (simp add: lets_in_def)

section \<open>The interface with HTTP in front\<close>

locale www_http_api = www_api conn admitted live sendable +
    http_front lib stack rorder gorder net addr origins ca cert key jwt conn h
  for conn :: "('c, 's) channel" and admitted live sendable lib stack rorder gorder net addr origins ca cert key jwt h +
  fixes token :: string
  assumes admits_token: "admitted (AuthContextFromJWT Background token)"
    and admits_bearer: "\<lbrakk>AnnotateContext Background r = Inr c; canonical_headers r;
        forwarded_authorization \<notin> fst ` set (rq_Header r);
        map_of (rq_Header r) ''Authorization'' = Some [''Bearer '' @ token]\<rbrakk> \<Longrightarrow> admitted c"

text \<open>The request that a test sends, as the server gets it.\<close>

definition sent_request ::
  "string \<Rightarrow> string \<Rightarrow> string \<Rightarrow> (string \<times> string list) list \<Rightarrow> string \<Rightarrow> http_request" where
  "sent_request host m path headers body =
     \<lparr>rq_Method = m, rq_Path = path, rq_RawQuery = [],
      rq_Header = headers @ [(''User-Agent'', [''Go-http-client/1.1'']), (''Accept-Encoding'', [''gzip''])],
      rq_Host = host, rq_RemoteAddr = ''127.0.0.1:42000'', rq_Body = body\<rparr>"

text \<open>The reply to the request for the metrics.\<close>

definition metrics_body :: "http_lib \<Rightarrow> string \<Rightarrow> FunctionalTestConfig \<Rightarrow> string" where
  "metrics_body lib host config =
     rp_Body (hl_metrics lib (sent_request host ''GET'' (''/'' @ ''metrics'') [bearer_header config] []))"

text \<open>
  The network delivers the requests of the tests for a host to a handler and its replies to the
  tests.
\<close>

definition delivers :: "'s test_env \<Rightarrow> 's http_handler \<Rightarrow> string \<Rightarrow> string \<Rightarrow> bool" where
  "delivers te h proto host \<longleftrightarrow>
     (\<forall>m url. te_NewRequest te m url = None) \<and>
     (\<forall>client m path headers body s.
        te_Do te client m (proto @ ''://'' @ host @ ''/'' @ path) headers body s =
        (case h (sent_request host m (''/'' @ path) headers body) s of
           (Reply rp, s') \<Rightarrow> (Inr \<lparr>hr_Body = rp_Body rp, hr_ReadErr = None\<rparr>, s')
         | (HPanic p, s') \<Rightarrow> (Inl ''EOF'', s')))"

text \<open>The JSON of the gateway and the JSON of the tests agree on the messages they exchange.\<close>

definition json_agrees :: "'s test_env \<Rightarrow> marshaler \<Rightarrow> bool" where
  "json_agrees te mr \<longleftrightarrow>
     (\<exists>b. mr_Marshal mr (PMsg (Some (RespVersion version_answer))) = Inr b \<and>
        te_Version te \<lparr>hr_Body = b, hr_ReadErr = None\<rparr> = (version_answer, None)) \<and>
     (\<exists>b. mr_Marshal mr (PMsg (Some (RespStatus status_answer))) = Inr b \<and>
        te_Status te \<lparr>hr_Body = b, hr_ReadErr = None\<rparr> = (status_answer, None)) \<and>
     (\<forall>info. \<exists>b he err. mr_Marshal mr (PMsg (Some (RespRsvp (created_answer info)))) = Inr b \<and>
        te_HttpError te b = (he, err) \<and> (err = None \<longrightarrow> he_Code he = 0 \<and> he_Error he = []) \<and>
        te_Rsvp te b = (created_answer info, None)) \<and>
     (\<forall>m. \<exists>b he. mr_Marshal mr (PStatus CodeInvalidArgument m) = Inr b \<and>
        te_HttpError te b = (he, None) \<and> he_Code he \<noteq> 0) \<and>
     (\<forall>req. \<exists>b. te_Marshal te req = Inr b \<and> mr_Decode mr b = (req, None))"

lemma json_agreesD:
  assumes "json_agrees te mr"
  shows "\<exists>b. mr_Marshal mr (PMsg (Some (RespVersion version_answer))) = Inr b \<and>
      te_Version te \<lparr>hr_Body = b, hr_ReadErr = None\<rparr> = (version_answer, None)"
    and "\<exists>b. mr_Marshal mr (PMsg (Some (RespStatus status_answer))) = Inr b \<and>
      te_Status te \<lparr>hr_Body = b, hr_ReadErr = None\<rparr> = (status_answer, None)"
    and "\<exists>b he err. mr_Marshal mr (PMsg (Some (RespRsvp (created_answer info)))) = Inr b \<and>
      te_HttpError te b = (he, err) \<and> (err = None \<longrightarrow> he_Code he = 0 \<and> he_Error he = []) \<and>
      te_Rsvp te b = (created_answer info, None)"
    and "\<exists>b he. mr_Marshal mr (PStatus CodeInvalidArgument m) = Inr b \<and>
      te_HttpError te b = (he, None) \<and> he_Code he \<noteq> 0"
    and "\<exists>b. te_Marshal te req = Inr b \<and> mr_Decode mr b = (req, None)"
  using assms unfolding json_agrees_def by blast+

lemma test_headers:
  fixes r :: http_request
  assumes "r = sent_request host m path (bearer_header config # hs) body" and "hs = [] \<or> hs = [json_header]"
  shows "\<exists>c :: 'c ctx. AnnotateContext Background r = Inr c"
    and "canonical_headers r" and "forwarded_authorization \<notin> fst ` set (rq_Header r)"
    and "map_of (rq_Header r) ''Authorization'' = Some [''Bearer '' @ fc_JsonWebToken config]"
    and "\<not> isPathLengthFallback r"
proof -
  have k: "CanonicalMIMEHeaderKey ''Authorization'' = ''Authorization''"
    "CanonicalMIMEHeaderKey ''Content-Type'' = ''Content-Type''"
    "CanonicalMIMEHeaderKey ''User-Agent'' = ''User-Agent''"
    "CanonicalMIMEHeaderKey ''Accept-Encoding'' = ''Accept-Encoding''"
    "CanonicalMIMEHeaderKey ''Grpc-Timeout'' = ''Grpc-Timeout''"
    by (code_simp, code_simp, code_simp, code_simp, code_simp)
  note defs = assms(1) sent_request_def bearer_header_def json_header_def
  have "Header_Get r ''Grpc-Timeout'' = []"
    using assms(2) by (auto simp: Header_Get_def Header_values_def defs k)
  then show "\<exists>c :: 'c ctx. AnnotateContext Background r = Inr c" by (rule AnnotateContext_ok)
  show "canonical_headers r"
    using assms(2) by (auto simp: canonical_headers_def defs k)
  show "forwarded_authorization \<notin> fst ` set (rq_Header r)"
    using assms(2) by (auto simp: forwarded_authorization_def defs)
  show "map_of (rq_Header r) ''Authorization'' = Some [''Bearer '' @ fc_JsonWebToken config]"
    by (simp add: defs)
  show "\<not> isPathLengthFallback r"
    using assms(2) by (auto simp: isPathLengthFallback_def Header_Get_def Header_values_def defs k)
qed

lemma delivered:
  assumes "delivers te h proto host" and "answers h (sent_request host m (''/'' @ path) headers body) s status b s'"
  shows "te_Do te client m (proto @ ''://'' @ host @ ''/'' @ path) headers body s =
    (Inr \<lparr>hr_Body = b, hr_ReadErr = None\<rparr>, s')"
  using assms by (auto simp: delivers_def answers_def split: prod.splits http_result.splits)

lemma http_get_delivered:
  assumes "delivers te h proto host" and "httpClient netc config = Inr (client, host, proto)"
    and "answers h (sent_request host ''GET'' (''/'' @ path) headers []) s status b s'"
  shows "http_get te netc procedure (''/'' @ path) headers config check s =
    (Inr (check \<lparr>hr_Body = b, hr_ReadErr = None\<rparr>), s')"
  using assms(1,2) delivered [OF assms(1,3), of client]
  by (simp add: http_get_def delivers_def)

section \<open>The tests over HTTP\<close>

context www_http_api
begin

lemma bearer_admitted:
  assumes "r = sent_request host m path (bearer_header config # hs) body" and "hs = [] \<or> hs = [json_header]"
    and "fc_JsonWebToken config = token"
  obtains c where "AnnotateContext Background r = Inr c" and "admitted c"
proof -
  obtain c :: "'c ctx" where c: "AnnotateContext Background r = Inr c"
    using test_headers(1) [OF assms(1,2)] by blast
  from admits_bearer [OF c test_headers(2-4) [OF assms(1,2), unfolded assms(3)]] c that show thesis by blast
qed

lemma TestHttpVersion_passes:
  assumes "delivers te h proto host" and "json_agrees te (hl_marshaler lib)" and "fc_JsonWebToken config = token"
    and "httpClient netc config = Inr (client, host, proto)"
  shows "passes (TestHttpVersion te netc config) 1 live"
proof (intro allI impI)
  fix n s
  assume s: "live (1 + n) s"
  let ?r = "sent_request host ''GET'' (''/'' @ ''api/v1/version'') [bearer_header config, json_header] []"
  obtain c where c: "AnnotateContext Background ?r = Inr c" "admitted c"
    by (rule bearer_admitted [OF refl disjI2 [OF refl] assms(3), where host = host and m = "''GET''" and
          path = "''/'' @ ''api/v1/version''" and body = "[]"])
  obtain s' where s': "conn c Version_name (ReqEmpty EmptyMessage) s =
      (Ret (Some (RespVersion version_answer)) None, s')" "live n s'"
    using answers_version [OF c(2), of n s] s by auto
  obtain b where b: "mr_Marshal (hl_marshaler lib) (PMsg (Some (RespVersion version_answer))) = Inr b"
    "te_Version te \<lparr>hr_Body = b, hr_ReadErr = None\<rparr> = (version_answer, None)"
    using json_agreesD(1) [OF assms(2)] by blast
  have "answers h ?r s StatusOK b s'"
    by (rule http_version [OF _ _ c(1) s'(1) b(1)]) (simp_all add: sent_request_def)
  from http_get_delivered [OF assms(1,4) this, of "''Version/HTTP''"] s'(2) b(2) version_answer_passes
  show "\<exists>s'. TestHttpVersion te netc config s = (Inr [], s') \<and> live n s'"
    by (simp add: TestHttpVersion_def)
qed

lemma TestHttpServicesStatus_passes:
  assumes "delivers te h proto host" and "json_agrees te (hl_marshaler lib)" and "fc_JsonWebToken config = token"
    and "httpClient netc config = Inr (client, host, proto)"
  shows "passes (TestHttpServicesStatus te netc config) 1 live"
proof (intro allI impI)
  fix n s
  assume s: "live (1 + n) s"
  let ?r = "sent_request host ''GET'' (''/'' @ ''api/v1/services/status'') [bearer_header config, json_header] []"
  obtain c where c: "AnnotateContext Background ?r = Inr c" "admitted c"
    by (rule bearer_admitted [OF refl disjI2 [OF refl] assms(3), where host = host and m = "''GET''" and
          path = "''/'' @ ''api/v1/services/status''" and body = "[]"])
  obtain s' where s': "conn c ServicesStatus_name (ReqEmpty EmptyMessage) s =
      (Ret (Some (RespStatus status_answer)) None, s')" "live n s'"
    using answers_status [OF c(2), of n s] s by auto
  obtain b where b: "mr_Marshal (hl_marshaler lib) (PMsg (Some (RespStatus status_answer))) = Inr b"
    "te_Status te \<lparr>hr_Body = b, hr_ReadErr = None\<rparr> = (status_answer, None)"
    using json_agreesD(2) [OF assms(2)] by blast
  have "answers h ?r s StatusOK b s'"
    by (rule http_status [OF _ _ c(1) s'(1) b(1)]) (simp_all add: sent_request_def)
  from http_get_delivered [OF assms(1,4) this, of "''ServicesStatus/HTTP''"] s'(2) b(2) status_answer_passes
  show "\<exists>s'. TestHttpServicesStatus te netc config s = (Inr [], s') \<and> live n s'"
    by (simp add: TestHttpServicesStatus_def)
qed

text \<open>The pages that do not reach the service.\<close>

lemma TestHttpStatus_passes:
  assumes "delivers te h proto host" and "httpClient netc config = Inr (client, host, proto)"
  shows "passes (TestHttpStatus te netc config) 0 live"
proof (intro allI impI)
  fix n s
  assume s: "live (0 + n) s"
  let ?r = "sent_request host ''GET'' (''/'' @ ''status'') [bearer_header config] []"
  have "answers h ?r s StatusOK ''OK'' s"
    by (rule front(2)) (simp_all add: sent_request_def)
  from http_get_delivered [OF assms this, of "''Status/HTTP''"] s
  show "\<exists>s'. TestHttpStatus te netc config s = (Inr [], s') \<and> live n s'"
    by (simp add: TestHttpStatus_def)
qed

lemma TestHttpMetrics_result:
  assumes "delivers te h proto host" and "httpClient netc config = Inr (client, host, proto)"
  shows "TestHttpMetrics te netc order config s = (Inr (check_metrics te order (metrics_body lib host config)), s)"
proof -
  let ?r = "sent_request host ''GET'' (''/'' @ ''metrics'') [bearer_header config] []"
  have "answers h ?r s (rp_Status (hl_metrics lib ?r)) (rp_Body (hl_metrics lib ?r)) s"
    by (rule front(3)) (simp_all add: sent_request_def)
  from http_get_delivered [OF assms this, of "''Metrics/HTTP''"] show ?thesis
    by (simp add: TestHttpMetrics_def metrics_body_def)
qed

lemma TestHttpSwagger_result:
  assumes "delivers te h proto host" and "httpClient netc config = Inr (client, host, proto)"
  shows "TestHttpSwagger te netc config s = (Inr (check_swagger te (hl_Swagger lib)), s)"
proof -
  let ?r = "sent_request host ''GET'' (''/'' @ ''api/v1/swagger.json'') [bearer_header config, json_header] []"
  have "answers h ?r s StatusOK (hl_Swagger lib) s"
    by (rule front(4)) (simp_all add: sent_request_def)
  from http_get_delivered [OF assms this, of "''Swagger/HTTP''"] show ?thesis
    by (simp add: TestHttpSwagger_def)
qed

section \<open>Creations over HTTP\<close>

lemma http_rsvp_refused:
  assumes "delivers te h proto host" and "json_agrees te (hl_marshaler lib)" and "fc_JsonWebToken config = token"
    and "live (Suc n) s" and "sendable req" and "RsvpCreationRequest_Validate req \<noteq> None"
  shows "\<exists>tr s'. http_rsvp te client (proto @ ''://'' @ host @ ''/'' @ ''api/v1/rsvp_creation'') config req s = (tr, s') \<and>
      live n s' \<and> tc_Request tr = IPtr (Some req) \<and> tc_Error tr \<noteq> None"
proof -
  obtain body where body: "te_Marshal te req = Inr body" "mr_Decode (hl_marshaler lib) body = (req, None)"
    using json_agreesD(5) [OF assms(2), of req] by blast
  let ?r = "sent_request host ''POST'' (''/'' @ ''api/v1/rsvp_creation'') [bearer_header config, json_header] body"
  obtain c where c: "AnnotateContext Background ?r = Inr c" "admitted c"
    by (rule bearer_admitted [OF refl disjI2 [OF refl] assms(3), where host = host and m = "''POST''" and
          path = "''/'' @ ''api/v1/rsvp_creation''" and body = body])
  obtain e where e: "RsvpCreationRequest_Validate req = Some e" using assms(6) by blast
  obtain s' where s': "srv_RsvpCreation (NewWwwClient conn) c req s = (Ret None (Some (refusal e)), s')" "live n s'"
    using client_refuses [OF c(2) assms(4,5) e] by blast
  obtain b he where b: "mr_Marshal (hl_marshaler lib) (PStatus CodeInvalidArgument (Sprintf0 (fieldError_Error e))) = Inr b"
    "te_HttpError te b = (he, None)" "he_Code he \<noteq> 0"
    using json_agreesD(4) [OF assms(2)] by blast
  have "answers h ?r s StatusBadRequest b s'"
    by (rule http_rsvp [OF _ _ test_headers(5) [OF refl disjI2 [OF refl]] c(1), where req = req and x = "Ret None (Some (refusal e))"])
      (simp_all add: sent_request_def body s'(1) lift_handler_def gw_reply_def refusal_def
        DefaultHTTPProtoErrorHandler_def status_FromError_def b(1))
  note d = delivered [OF assms(1) this, of client]
  have "te_NewRequest te ''POST'' url = None" for url using assms(1) by (simp add: delivers_def)
  then show ?thesis
    using d s'(2) b(2,3) by (simp add: http_rsvp_def http_case_def body Let_def)
qed

lemma http_rsvp_created:
  assumes "delivers te h proto host" and "json_agrees te (hl_marshaler lib)" and "fc_JsonWebToken config = token"
    and "live (Suc n) s" and "sendable req" and "RsvpCreationRequest_Validate req = None"
  shows "\<exists>info s'. http_rsvp te client (proto @ ''://'' @ host @ ''/'' @ ''api/v1/rsvp_creation'') config req s =
      (http_case req (IPtr (Some (created_answer info))) None, s') \<and> live n s' \<and> echoes req info"
proof -
  obtain body where body: "te_Marshal te req = Inr body" "mr_Decode (hl_marshaler lib) body = (req, None)"
    using json_agreesD(5) [OF assms(2), of req] by blast
  let ?r = "sent_request host ''POST'' (''/'' @ ''api/v1/rsvp_creation'') [bearer_header config, json_header] body"
  obtain c where c: "AnnotateContext Background ?r = Inr c" "admitted c"
    by (rule bearer_admitted [OF refl disjI2 [OF refl] assms(3), where host = host and m = "''POST''" and
          path = "''/'' @ ''api/v1/rsvp_creation''" and body = body])
  obtain info s' where s': "srv_RsvpCreation (NewWwwClient conn) c req s = (Ret (Some (created_answer info)) None, s')"
    "live n s'" "echoes req info"
    using client_accepts [OF c(2) assms(4-6)] by blast
  obtain b he err where b: "mr_Marshal (hl_marshaler lib) (PMsg (Some (RespRsvp (created_answer info)))) = Inr b"
    "te_HttpError te b = (he, err)" "err = None \<longrightarrow> he_Code he = 0 \<and> he_Error he = []"
    "te_Rsvp te b = (created_answer info, None)"
    using json_agreesD(3) [OF assms(2), of info] by blast
  have "answers h ?r s StatusOK b s'"
    by (rule http_rsvp [OF _ _ test_headers(5) [OF refl disjI2 [OF refl]] c(1), where req = req and x = "Ret (Some (RespRsvp (created_answer info))) None"])
      (simp_all add: sent_request_def body s'(1) lift_handler_def gw_reply_def ForwardResponseMessage_def b(1))
  note d = delivered [OF assms(1) this, of client]
  have "te_NewRequest te ''POST'' url = None" for url using assms(1) by (simp add: delivers_def)
  then show ?thesis
    using d s'(2,3) b(2-4) by (auto simp: http_rsvp_def body Let_def)
qed

lemma post_each_refused:
  assumes "delivers te h proto host" and "json_agrees te (hl_marshaler lib)" and "fc_JsonWebToken config = token"
    and "live (length reqs + n) s"
    and "\<And>r. r \<in> set reqs \<Longrightarrow> sendable r \<and> RsvpCreationRequest_Validate r \<noteq> None"
  shows "\<exists>trs s'. post_each (http_rsvp te client (proto @ ''://'' @ host @ ''/'' @ ''api/v1/rsvp_creation'') config)
        (reqs @ rest) s =
      (case post_each (http_rsvp te client (proto @ ''://'' @ host @ ''/'' @ ''api/v1/rsvp_creation'') config) rest s' of
         (rs, s2) \<Rightarrow> (trs @ rs, s2)) \<and>
    live n s' \<and> list_all2 (\<lambda>r tr. tc_Request tr = IPtr (Some r) \<and> tc_Error tr \<noteq> None) reqs trs"
  using assms(4,5)
proof (induction reqs arbitrary: s)
  case Nil
  then show ?case by (auto intro!: exI [of _ "[]"] exI [of _ s] split: prod.split)
next
  case (Cons r reqs)
  from http_rsvp_refused [OF assms(1-3), of "length reqs + n" s r client] Cons.prems
  obtain tr s1 where r: "http_rsvp te client (proto @ ''://'' @ host @ ''/'' @ ''api/v1/rsvp_creation'') config r s = (tr, s1)"
    "live (length reqs + n) s1" "tc_Request tr = IPtr (Some r)" "tc_Error tr \<noteq> None" by auto
  from Cons.IH [OF r(2)] Cons.prems(2) obtain trs s' where
    "post_each (http_rsvp te client (proto @ ''://'' @ host @ ''/'' @ ''api/v1/rsvp_creation'') config) (reqs @ rest) s1 =
      (case post_each (http_rsvp te client (proto @ ''://'' @ host @ ''/'' @ ''api/v1/rsvp_creation'') config) rest s' of
         (rs, s2) \<Rightarrow> (trs @ rs, s2))"
    "live n s'" "list_all2 (\<lambda>r tr. tc_Request tr = IPtr (Some r) \<and> tc_Error tr \<noteq> None) reqs trs" by auto
  with r show ?case
    by (intro exI [of _ "tr # trs"] exI [of _ s']) (simp split: prod.split)
qed

lemma TestHttpRsvpCreation_passes:
  assumes "delivers te h proto host" and "json_agrees te (hl_marshaler lib)" and "fc_JsonWebToken config = token"
    and "httpClient netc config = Inr (client, host, proto)" and "good_draw draw" and "sends sendable draw"
  shows "passes (TestHttpRsvpCreation te netc draw config) 6 live"
proof (intro allI impI)
  fix n s
  assume "live (6 + n) s"
  then have s: "live (length (bad_requests draw) + Suc n) s" by (simp add: test_requests eval_nat_numeral)
  let ?f = "http_rsvp te client (proto @ ''://'' @ host @ ''/'' @ ''api/v1/rsvp_creation'') config"
  let ?bad = "bad_requests draw" and ?good = "fst draw"
  have bad: "\<And>r. r \<in> set ?bad \<Longrightarrow> sendable r \<and> RsvpCreationRequest_Validate r \<noteq> None"
    using bad_refused [OF assms(5)] assms(6) by (auto simp: sends_def list_all_iff)
  have good: "RsvpCreationRequest_Validate ?good = None"
    using assms(5) by (auto simp: good_draw_def split: prod.splits)
  from post_each_refused [OF assms(1-3) s bad, where rest = "[?good]" and client = client]
  obtain trs s1 where s1: "post_each ?f (?bad @ [?good]) s =
      (case post_each ?f [?good] s1 of (rs, s2) \<Rightarrow> (trs @ rs, s2))" "live (Suc n) s1"
    "list_all2 (\<lambda>r tr. tc_Request tr = IPtr (Some r) \<and> tc_Error tr \<noteq> None) ?bad trs" by blast
  from http_rsvp_created [OF assms(1-3) s1(2) _ good, of client] obtain info s2 where
    s2: "?f ?good s1 = (http_case ?good (IPtr (Some (created_answer info))) None, s2)" "live n s2"
      "echoes ?good info" using assms(6) unfolding sends_def by blast
  let ?tr = "http_case ?good (IPtr (Some (created_answer info))) None"
  have "testRsvpCreationResponse (te_panic te) config FUNCTEST_HTTP (trs @ [?tr]) = []"
  proof (rule test_results_ok)
    show l: "length trs = 5" using s1(3) test_requests(2) [of draw] by (simp add: list_all2_lengthD [symmetric])
    show "check_case (te_panic te) FUNCTEST_HTTP i (trs ! i) = []" if "i < 5" for i
    proof -
      have "tc_Request (trs ! i) = IPtr (Some (?bad ! i)) \<and> tc_Error (trs ! i) \<noteq> None"
        using list_all2_nthD [OF s1(3), of i] that test_requests(2) [of draw] by simp
      with that show ?thesis by (simp add: check_case_def check_error_case_def FUNCTEST_HTTP_def)
    qed
    show "check_case (te_panic te) FUNCTEST_HTTP 5 ?tr = []"
      by (rule check_created [OF s2(3)]) (simp_all add: http_case_def)
  qed
  moreover have "proto @ ''://'' @ host @ ''/api/v1/rsvp_creation'' =
      proto @ ''://'' @ host @ ''/'' @ ''api/v1/rsvp_creation''" by simp
  ultimately show "\<exists>s'. TestHttpRsvpCreation te netc draw config s = (Inr [], s') \<and> live n s'"
    using assms(4) s1(1) s2(1,2) by (simp add: TestHttpRsvpCreation_def test_requests)
qed

section \<open>The session\<close>

lemma run_tests_pass:
  assumes "list_all (\<lambda>(t, k). passes t k live) ts" and "live (sum_list (List.map snd ts) + n) s"
  shows "\<exists>s'. run_tests [] (List.map fst ts @ us) s = run_tests [] us s' \<and> live n s'"
  using assms
proof (induction ts arbitrary: s)
  case (Cons x ts)
  obtain t k where x: "x = (t, k)" by (cases x)
  from Cons.prems x have p: "passes t k live" and l: "live (k + (sum_list (List.map snd ts) + n)) s"
    by (auto simp: add.assoc)
  from p l obtain s1 where "t s = (Inr [], s1)" "live (sum_list (List.map snd ts) + n) s1" by blast
  with Cons x show ?case by auto
qed auto

lemma session_result:
  assumes "delivers te h proto host" and "json_agrees te (hl_marshaler lib)" and "fc_JsonWebToken config = token"
    and "connects netc config conn" and "httpClient netc config = Inr (client, host, proto)"
    and "good_draw draw1" and "good_draw draw2" and "sends sendable draw1" and "sends sendable draw2"
    and "live (16 + n) s"
  shows "\<exists>s'. runFunctionalTestSession te netc order draw1 draw2 config s =
      (Inr (check_metrics te order (metrics_body lib host config) @ check_swagger te (hl_Swagger lib)), s') \<and> live n s'"
proof -
  let ?ts = "[(TestVersion te netc config, 1), (TestHttpVersion te netc config, 1),
      (TestServicesStatus te netc config, 1), (TestHttpServicesStatus te netc config, 1), 
      (TestRsvpCreation te netc draw1 config, 6), (TestHttpRsvpCreation te netc draw2 config, 6), 
      (TestHttpStatus te netc config, 0)]"
  note a = admits_token [folded assms(3)]
  have "list_all (\<lambda>(t, k). passes t k live) ?ts"
    using TestVersion_passes [OF assms(4) a] TestHttpVersion_passes [OF assms(1-3,5)]
      TestServicesStatus_passes [OF assms(4) a] TestHttpServicesStatus_passes [OF assms(1-3,5)]
      TestRsvpCreation_passes [OF assms(4,6) a assms(8)] TestHttpRsvpCreation_passes [OF assms(1-3,5,7,9)]
      TestHttpStatus_passes [OF assms(1,5)]
    by (simp only: list.pred_inject prod.case) blast
  have "live (sum_list (List.map snd ?ts) + n) s" using assms(10) by (simp add: eval_nat_numeral)
  from run_tests_pass [OF \<open>list_all _ ?ts\<close> this, of "[TestHttpMetrics te netc order config, TestHttpSwagger te netc config]"]
  obtain s' where "run_tests [] (session_tests te netc order draw1 draw2 config) s =
      run_tests [] [TestHttpMetrics te netc order config, TestHttpSwagger te netc config] s'" "live n s'"
    by (auto simp: session_tests_def)
  moreover have "appendFailures acc fs = acc @ fs" for acc fs by (induction fs arbitrary: acc) auto
  ultimately show ?thesis
    by (simp add: runFunctionalTestSession_def TestHttpMetrics_result [OF assms(1,5)]
        TestHttpSwagger_result [OF assms(1,5)])
qed

end

end
