(* ===== verification/Cmd_Flags.thy ===== *)
theory Cmd_Flags
  imports Service
begin

text \<open>
  The flags of the commands of \<open>cmd/\<close>. They are bound to the variables of the package, and several
  commands bind the same variable: registering a flag stores its default value in the variable, so
  that the last registration decides what every command starts from. The files are initialised in
  the order of their names. Usage texts are left out.
\<close>

section \<open>The variables of the package\<close>

record globals =
  g_cfgFile :: string
  g_caCertificate :: string
  g_serverCertificate :: string
  g_serverPrivateKey :: string
  g_clientCertificate :: string
  g_clientPrivateKey :: string
  g_timeoutSeconds :: int
  g_jwtToken :: string
  g_debugMode :: bool
  g_serverAddress :: string
  g_grpcServerAddress :: string
  g_httpServerAddress :: string
  g_corsAllowedOrigins :: string
  g_jwtSecret :: string
  g_sqliteMigrate :: bool
  g_sqliteDataSourceName :: string
  g_useEmbeddedServer :: bool
  g_useRandomPort :: bool
  g_sqliteFunctestMigrate :: bool
  g_cliAddress :: string
  g_consoleAddress :: string
  g_migrateSkipPrompt :: bool
  g_sqliteMigrateDataSourceName :: string
  g_sqliteMigrateFlush :: bool
  g_secretSigningKey :: string
  g_tokenLifetimeHours :: int
  g_subjectID :: string
  g_customClaims :: string

definition zero_globals :: globals where
  "zero_globals =
     \<lparr>g_cfgFile = [], g_caCertificate = [], g_serverCertificate = [], g_serverPrivateKey = [],
      g_clientCertificate = [], g_clientPrivateKey = [], g_timeoutSeconds = 0, g_jwtToken = [],
      g_debugMode = False, g_serverAddress = [], g_grpcServerAddress = [], g_httpServerAddress = [],
      g_corsAllowedOrigins = [], g_jwtSecret = [], g_sqliteMigrate = False, g_sqliteDataSourceName = [],
      g_useEmbeddedServer = False, g_useRandomPort = False, g_sqliteFunctestMigrate = False,
      g_cliAddress = [], g_consoleAddress = [], g_migrateSkipPrompt = False,
      g_sqliteMigrateDataSourceName = [], g_sqliteMigrateFlush = False, g_secretSigningKey = [],
      g_tokenLifetimeHours = 0, g_subjectID = [], g_customClaims = []\<rparr>"

section \<open>Flags\<close>

datatype flag_value = VString string | VInt int | VBool bool

datatype flag_var =
    StringFlag "(string \<Rightarrow> string) \<Rightarrow> globals \<Rightarrow> globals"
  | IntFlag "(int \<Rightarrow> int) \<Rightarrow> globals \<Rightarrow> globals"
  | BoolFlag "(bool \<Rightarrow> bool) \<Rightarrow> globals \<Rightarrow> globals"

record flag =
  fl_name :: string
  fl_shorthand :: string
  fl_default :: flag_value
  fl_var :: flag_var

fun set_var :: "flag_var \<Rightarrow> flag_value \<Rightarrow> globals \<Rightarrow> globals" where
  "set_var (StringFlag upd) (VString v) g = upd (\<lambda>_. v) g"
| "set_var (IntFlag upd) (VInt v) g = upd (\<lambda>_. v) g"
| "set_var (BoolFlag upd) (VBool v) g = upd (\<lambda>_. v) g"
| "set_var _ _ g = g"

definition StringVarP ::
  "((string \<Rightarrow> string) \<Rightarrow> globals \<Rightarrow> globals) \<Rightarrow> string \<Rightarrow> string \<Rightarrow> string \<Rightarrow> flag" where
  "StringVarP upd name shorthand v =
     \<lparr>fl_name = name, fl_shorthand = shorthand, fl_default = VString v, fl_var = StringFlag upd\<rparr>"

definition StringVar :: "((string \<Rightarrow> string) \<Rightarrow> globals \<Rightarrow> globals) \<Rightarrow> string \<Rightarrow> string \<Rightarrow> flag" where
  "StringVar upd name v = StringVarP upd name [] v"

definition IntVarP :: "((int \<Rightarrow> int) \<Rightarrow> globals \<Rightarrow> globals) \<Rightarrow> string \<Rightarrow> string \<Rightarrow> int \<Rightarrow> flag" where
  "IntVarP upd name shorthand v =
     \<lparr>fl_name = name, fl_shorthand = shorthand, fl_default = VInt v, fl_var = IntFlag upd\<rparr>"

definition IntVar :: "((int \<Rightarrow> int) \<Rightarrow> globals \<Rightarrow> globals) \<Rightarrow> string \<Rightarrow> int \<Rightarrow> flag" where
  "IntVar upd name v = IntVarP upd name [] v"

definition BoolVarP :: "((bool \<Rightarrow> bool) \<Rightarrow> globals \<Rightarrow> globals) \<Rightarrow> string \<Rightarrow> string \<Rightarrow> bool \<Rightarrow> flag" where
  "BoolVarP upd name shorthand v =
     \<lparr>fl_name = name, fl_shorthand = shorthand, fl_default = VBool v, fl_var = BoolFlag upd\<rparr>"

definition BoolVar :: "((bool \<Rightarrow> bool) \<Rightarrow> globals \<Rightarrow> globals) \<Rightarrow> string \<Rightarrow> bool \<Rightarrow> flag" where
  "BoolVar upd name v = BoolVarP upd name [] v"

lemmas flag_defs = StringVar_def StringVarP_def IntVar_def IntVarP_def BoolVar_def BoolVarP_def

section \<open>The flags of each command\<close>

definition cli_flags :: "flag list" where
  "cli_flags =
     [StringVar g_cliAddress_update ''address'' ''localhost:13000'',
      StringVar g_caCertificate_update ''ca'' [],
      StringVar g_clientCertificate_update ''cert'' [],
      StringVar g_clientPrivateKey_update ''key'' [],
      IntVar g_timeoutSeconds_update ''timeout'' 5,
      StringVar g_jwtToken_update ''jwt'' []]"

definition console_flags :: "flag list" where
  "console_flags =
     [StringVar g_consoleAddress_update ''address'' ''localhost:13000'',
      StringVar g_caCertificate_update ''ca'' [],
      StringVar g_clientCertificate_update ''cert'' [],
      StringVar g_clientPrivateKey_update ''key'' [],
      IntVar g_timeoutSeconds_update ''timeout'' 5,
      StringVar g_jwtToken_update ''jwt'' []]"

definition functest_flags :: "flag list" where
  "functest_flags =
     [BoolVarP g_debugMode_update ''debug'' ''d'' False,
      StringVarP g_serverAddress_update ''address'' ''a'' ''localhost:13000'',
      StringVar g_grpcServerAddress_update ''grpc-address'' [],
      StringVar g_httpServerAddress_update ''http-address'' [],
      StringVar g_caCertificate_update ''ca'' [],
      StringVar g_serverCertificate_update ''cert'' [],
      StringVar g_serverPrivateKey_update ''key'' [],
      StringVar g_jwtToken_update ''jwt'' [],
      StringVar g_jwtSecret_update ''jwt-secret'' [],
      IntVar g_timeoutSeconds_update ''timeout'' 5,
      BoolVarP g_useEmbeddedServer_update ''embed-server'' ''e'' False,
      BoolVar g_useRandomPort_update ''random-port'' False,
      StringVarP g_corsAllowedOrigins_update ''cors'' ''c'' ''*'',
      BoolVar g_sqliteFunctestMigrate_update ''sqlite-migrate'' False,
      StringVar g_sqliteDataSourceName_update ''sqlite-dsn'' []]"

definition migrate_flags :: "flag list" where
  "migrate_flags =
     [BoolVarP g_debugMode_update ''debug'' ''d'' False,
      BoolVarP g_migrateSkipPrompt_update ''skip-prompt'' ''y'' False,
      BoolVar g_sqliteMigrateFlush_update ''sqlite-flush-data'' False,
      StringVar g_sqliteMigrateDataSourceName_update ''sqlite-dsn'' []]"

definition root_flags :: "flag list" where
  "root_flags = [StringVar g_cfgFile_update ''config'' []]"

definition serve_flags :: "flag list" where
  "serve_flags =
     [BoolVarP g_debugMode_update ''debug'' ''d'' False,
      StringVarP g_serverAddress_update ''address'' ''a'' '':13000'',
      StringVar g_grpcServerAddress_update ''grpc-address'' [],
      StringVar g_httpServerAddress_update ''http-address'' [],
      StringVarP g_corsAllowedOrigins_update ''cors'' ''c'' ''*'',
      StringVarP g_jwtSecret_update ''jwt-secret'' ''j'' [],
      StringVar g_caCertificate_update ''ca'' [],
      StringVar g_serverCertificate_update ''cert'' [],
      StringVar g_serverPrivateKey_update ''key'' [],
      BoolVar g_sqliteMigrate_update ''sqlite-migrate'' False,
      StringVar g_sqliteDataSourceName_update ''sqlite-dsn'' []]"

definition tokenIssuer :: string where
  "tokenIssuer = ''https://gomeet.com/''"

definition defaultTokenLifetimeHours :: int where
  "defaultTokenLifetimeHours = 24"

definition token_flags :: "flag list" where
  "token_flags =
     [StringVarP g_secretSigningKey_update ''secret-key'' ''k'' [],
      IntVarP g_tokenLifetimeHours_update ''lifetime'' ''l'' defaultTokenLifetimeHours,
      StringVarP g_subjectID_update ''subject'' ''s'' [],
      StringVarP g_customClaims_update ''claims'' ''c'' []]"

section \<open>Registration and parsing\<close>

text \<open>Adding a second flag of a name, or of a shorthand, to the flags of a command panics.\<close>

definition flags_ok :: "flag list \<Rightarrow> bool" where
  "flags_ok fs \<longleftrightarrow> distinct (List.map fl_name fs) \<and>
     distinct (List.map fl_shorthand (filter (\<lambda>f. fl_shorthand f \<noteq> []) fs))"

definition register_flags :: "flag list \<Rightarrow> globals \<Rightarrow> globals" where
  "register_flags fs g = fold (\<lambda>f. set_var (fl_var f) (fl_default f)) fs g"

definition commands :: "(string \<times> flag list) list" where
  "commands =
     [(''cli'', cli_flags), (''console'', console_flags), (''functest'', functest_flags),
      (''migrate'', migrate_flags), (''serve'', serve_flags), (''token'', token_flags), (''version'', [])]"

text \<open>The variables when \<open>main\<close> starts: \<open>cli.go\<close>, \<open>console.go\<close>, ..., \<open>version.go\<close>.\<close>

definition initial_globals :: globals where
  "initial_globals =
     fold register_flags
       [cli_flags, console_flags, functest_flags, migrate_flags, root_flags, serve_flags, token_flags, []]
       zero_globals"

text \<open>The flags given on the command line, as cobra and pflag have read them.\<close>

definition apply_flags :: "flag list \<Rightarrow> (string \<times> flag_value) list \<Rightarrow> globals \<Rightarrow> globals" where
  "apply_flags fs given g =
     fold (\<lambda>(name, v) g. case find (\<lambda>f. fl_name f = name) fs of
                              None \<Rightarrow> g
                            | Some f \<Rightarrow> set_var (fl_var f) v g) given g"

section \<open>What the commands start from\<close>

lemma initial_globals_simp [simp]:
  "initial_globals = zero_globals\<lparr>g_timeoutSeconds := 5, g_serverAddress := '':13000'',
     g_corsAllowedOrigins := ''*'', g_cliAddress := ''localhost:13000'',
     g_consoleAddress := ''localhost:13000'', g_tokenLifetimeHours := 24\<rparr>"
  by (simp add: initial_globals_def register_flags_def cli_flags_def console_flags_def functest_flags_def
      migrate_flags_def root_flags_def serve_flags_def token_flags_def flag_defs zero_globals_def
      defaultTokenLifetimeHours_def)

end
