(* ===== verification/Cmd.thy ===== *)
theory Cmd
  imports Cmd_Flags Functest_Http Server
begin

text \<open>
  The commands of the executable: \<open>serve\<close>, \<open>cli\<close>, \<open>console\<close>, \<open>functest\<close>, \<open>migrate\<close>, \<open>token\<close> and
  \<open>version\<close>. A command reads the variables of the package and its arguments; it writes lines and
  log entries, and ends with an exit status. The files behind the data source names are the
  state of the machine: opening one again finds what the last user left.
\<close>

section \<open>Effects\<close>

datatype log_setting = DebugLevel | PanicLevel

datatype effect =
    Printed string
  | Logged log_level "(string \<times> string) list" string
  | SetLevel log_setting
  | Fatal string

text \<open>A process ends with a status, dies of a panic, or waits.\<close>

datatype exit_status = Exit int | Crash panic | Waiting

definition fatal :: "effect list \<Rightarrow> string \<Rightarrow> effect list \<times> exit_status" where
  "fatal out msg = (out @ [Fatal msg], Exit 1)"

definition svcName :: string where
  "svcName = svc_name @ ''-'' @ svc_version"

section \<open>version\<close>

definition version_text :: string where
  "version_text = svc_name @ '' version '' @ svc_version @ '' - '' @ svcName"

definition version_cmd :: "effect list \<times> exit_status" where
  "version_cmd = ([Printed version_text], Exit 0)"

section \<open>cli\<close>

definition cli_cmd ::
  "cli_env \<Rightarrow> ('c, 's) net_env \<Rightarrow>
   ((string \<times> ('c, 's) command) list \<Rightarrow> (string \<times> ('c, 's) command) list) \<Rightarrow>
   globals \<Rightarrow> string list \<Rightarrow> 's \<Rightarrow> (effect list \<times> exit_status) \<times> 's" where
  "cli_cmd env net visit g args s =
     (if length args < 1 then (fatal [] ''Bad arguments'', s)
      else
        (case NewRemoteCli net svc_name svc_version CliCall (g_cliAddress g) (g_timeoutSeconds g)
            (g_caCertificate g) (g_clientCertificate g) (g_clientPrivateKey g) (g_jwtToken g) of
           Inl err \<Rightarrow> (fatal [] (''did not connect: '' @ err), s)
         | Inr c \<Rightarrow>
             (case Eval env visit c (Join args '' '') s of
                (CmdErr err, _, s1) \<Rightarrow> (fatal [] err, s1)
              | (CmdOk ok, _, s1) \<Rightarrow> (([Logged LInfo [] ok], Exit 0), s1)
              | (CmdPanic p, _, s1) \<Rightarrow> (([], Crash p), s1))))"

section \<open>console\<close>

text \<open>What one call of \<open>Readline\<close> returns.\<close>

datatype read_error = ErrInterrupt | ErrEOF | ErrRead

type_synonym reading = "string \<times> read_error option"

text \<open>The loop over the lines read: an empty interrupt, the end of the input and \<open>exit\<close> leave it.\<close>

fun console_loop ::
  "cli_env \<Rightarrow> ((string \<times> ('c, 's) command) list \<Rightarrow> (string \<times> ('c, 's) command) list) \<Rightarrow>
   reading list \<Rightarrow> ('c, 's) remoteCli \<Rightarrow> 's \<Rightarrow> (effect list \<times> exit_status) \<times> ('c, 's) remoteCli \<times> 's" where
  "console_loop env visit [] c s = (([], Waiting), c, s)"
| "console_loop env visit ((line0, err) # rest) c s =
     (if err = Some ErrInterrupt then
        (if length line0 = 0 then (([], Exit 0), c, s) else console_loop env visit rest c s)
      else if err = Some ErrEOF then (([], Exit 0), c, s)
      else
        (let line = TrimSpace line0
         in if length line = 0 then
              (case console_loop env visit rest c s of
                 ((out, x), c', s') \<Rightarrow> ((Logged LInfo [] [] # out, x), c', s'))
            else if line = ''exit'' then (([], Exit 0), c, s)
            else
              (case Eval env visit c line s of
                 (CmdPanic p, c1, s1) \<Rightarrow> (([], Crash p), c1, s1)
               | (CmdErr e, c1, s1) \<Rightarrow>
                   (case console_loop env visit rest c1 s1 of
                      ((out, x), c', s') \<Rightarrow> ((Logged LWarn [] e # out, x), c', s'))
               | (CmdOk ok, c1, s1) \<Rightarrow>
                   (case console_loop env visit rest c1 s1 of
                      ((out, x), c', s') \<Rightarrow> ((Logged LInfo [] ok # out, x), c', s')))))"

text \<open>The corners of the prompt in UTF-8.\<close>

definition console_prompt :: "string \<Rightarrow> string" where
  "console_prompt prompt =
     [CHR 0xE2, CHR 0x94, CHR 0x94, CHR 0xE2, CHR 0x94, CHR 0x80, CHR 0xE2, CHR 0x94, CHR 0xA4] @ prompt @
     [CHR 0xE2, CHR 0x94, CHR 0x9C, CHR 0xE2, CHR 0x94, CHR 0x80, CHR ''$'', CHR '' '']"

text \<open>\<open>newEx\<close> makes the reader of lines for a prompt: an error, or the lines it will read.\<close>

definition console_cmd ::
  "cli_env \<Rightarrow> ('c, 's) net_env \<Rightarrow>
   ((string \<times> ('c, 's) command) list \<Rightarrow> (string \<times> ('c, 's) command) list) \<Rightarrow>
   (string \<Rightarrow> string + reading list) \<Rightarrow> nat \<Rightarrow> globals \<Rightarrow> 's \<Rightarrow> (effect list \<times> exit_status) \<times> 's" where
  "console_cmd env net visit newEx pid g s =
     (let out0 = [Logged LInfo [(''Name'', svc_name), (''Version'', svc_version), (''FullName'', svcName)]
                    ''console version'']
      in case NewRemoteCli net svc_name svc_version ConsoleCall (g_consoleAddress g) (g_timeoutSeconds g)
            (g_caCertificate g) (g_clientCertificate g) (g_clientPrivateKey g) (g_jwtToken g) of
           Inl err \<Rightarrow> (fatal out0 (''Remote cli init fail - '' @ err), s)
         | Inr c \<Rightarrow>
             (case RemoteVersion env c s of
                (CallPanic p, s1) \<Rightarrow> ((out0, Crash p), s1)
              | (Called None, s1) \<Rightarrow> ((out0, Crash NilDereference), s1)
              | (x, s1) \<Rightarrow>
                  (let (out1, prompt) =
                         (case x of
                            Called (Some v) \<Rightarrow>
                              (out0 @ [Logged LInfo [(''Name'', vr_Name v), (''Version'', vr_Version v)] ''remote version''],
                               vr_Name v @ ''-'' @ vr_Version v @ ''@'' @ g_consoleAddress g)
                          | CallErr e \<Rightarrow> (out0 @ [Logged LWarn [] (''Get remote version fail : '' @ e)], svc_name)
                          | _ \<Rightarrow> (out0, svc_name))
                   in case newEx (console_prompt prompt) of
                        Inl err \<Rightarrow> (fatal out1 err, s1)
                      | Inr readings \<Rightarrow>
                          (let out2 = out1 @
                                 [Logged LInfo [(''HistoryFile'', ''/tmp/'' @ svc_name @ ''-'' @ nat_dec pid @ ''.tmp''),
                                    (''Interrupt'', ''^C''), (''Exit'', ''exit'')] ''load console'']
                           in case console_loop env visit readings c s1 of
                                ((out, st), _, s2) \<Rightarrow> ((out2 @ out, st), s2)))))"

section \<open>migrate\<close>

type_synonym 'db disk = "string \<Rightarrow> string + 'db"

definition on_disk :: "'db driver \<Rightarrow> 'db disk \<Rightarrow> 'db driver" where
  "on_disk drv disk = drv\<lparr>d_open := disk\<rparr>"

definition store :: "string \<Rightarrow> 'db option \<Rightarrow> 'db disk \<Rightarrow> 'db disk" where
  "store dsn d disk = (case d of None \<Rightarrow> disk | Some d \<Rightarrow> disk(dsn := Inr d))"

record migrate_env =
  me_CI :: string
  me_answer :: string
  me_yellow :: "string \<Rightarrow> string"
  me_cyan :: "string \<Rightarrow> string"
  me_quote :: "string \<Rightarrow> string"
  me_scan :: "uuid_error \<Rightarrow> string"

definition askIsOK :: "migrate_env \<Rightarrow> string \<Rightarrow> effect list \<times> bool" where
  "askIsOK env msg0 =
     (if me_CI env \<noteq> [] then ([], True)
      else
        (let msg = (if msg0 = [] then ''Is this OK?'' else msg0)
         in ([Printed (msg @ '' '' @ me_yellow env ''[y]'' @ ''es/'' @ me_cyan env ''[N]'' @ ''o'' @ newline)],
             Contains (ToLower (me_answer env)) ''y'')))"

definition log_setting_effects :: "globals \<Rightarrow> effect list" where
  "log_setting_effects g =
     (if g_debugMode g then [SetLevel DebugLevel, Logged LDebug [] ''set log debug level'']
      else [SetLevel PanicLevel])"

definition migrateSchema ::
  "migrate_env \<Rightarrow> 'db driver \<Rightarrow> globals \<Rightarrow> 'db disk \<Rightarrow> (effect list \<times> exit_status) \<times> 'db disk" where
  "migrateSchema env drv g disk =
     (let out0 = log_setting_effects g; dsn = g_sqliteMigrateDataSourceName g;
          msg = models_error_msg (me_quote env) (me_scan env)
      in if dsn \<noteq> [] then
           (case MigrateSchema (on_disk drv disk) dsn of
              (Some err, d1) \<Rightarrow>
                ((out0 @ [Printed (''Sqlite schema migration error: '' @ msg err @ newline)], Exit 1),
                 store dsn d1 disk)
            | (None, d1) \<Rightarrow>
                (let disk1 = store dsn d1 disk;
                     out1 = out0 @ [Printed (''Sqlite database schema was successfully migrated'' @ newline)];
                     (out2, ok) =
                       (if g_sqliteMigrateFlush g then
                          (if g_migrateSkipPrompt g then ([], True)
                           else askIsOK env ''Are you sure you want flush sqlite data ?'')
                        else ([], False))
                 in if ok then
                      (case Flush (on_disk drv disk1) dsn of
                         (Some err, d2) \<Rightarrow>
                           ((out1 @ out2 @ [Printed (''Sqlite database flush error: '' @ msg err @ newline)], Exit 1),
                            store dsn d2 disk1)
                       | (None, d2) \<Rightarrow>
                           ((out1 @ out2 @ [Printed (''Sqlite database is flushed'' @ newline)], Exit 0),
                            store dsn d2 disk1))
                    else ((out1 @ out2, Exit 0), disk1)))
         else
           ((out0 @ [Printed (''No migration found'' @ newline), Printed (''Use one of flags :'' @ newline),
               Printed (''   --sqlite-dsn'' @ newline)], Exit 0), disk))"

section \<open>serve\<close>

text \<open>What the servers are started with: see the arguments of \<open>OnSingleAddress\<close>.\<close>

record ('c, 'db, 's) serve_env =
  se_lib :: http_lib
  se_stack :: "panic \<Rightarrow> string"
  se_rorder :: "(string \<times> string) list"
  se_gorder :: "string list"
  se_net :: "('c, 's) net_env"
  se_listen :: "string \<Rightarrow> string option"
  se_call :: call_env
  se_finish :: "nat list"
  se_eps :: "string option list"

definition databaseMigration ::
  "('c, 'db, 's) serve_env \<Rightarrow> 'db driver \<Rightarrow> globals \<Rightarrow> 'db disk \<Rightarrow> (effect list \<times> int option) \<times> 'db disk" where
  "databaseMigration env drv g disk =
     (if g_sqliteMigrate g then
        (if g_sqliteDataSourceName g = [] then
           (([Logged LError [] ''The --sqlite-dsn flag is required for automatic schema migration''], Some 1), disk)
         else
           (case MigrateSchema (on_disk drv disk) (g_sqliteDataSourceName g) of
              (Some err, d) \<Rightarrow>
                (([Logged LError [] (''Database schema migration failure: '' @
                    models_error_msg (e_quote (se_call env)) (e_scan (se_call env)) err @ newline)], Some 1),
                 store (g_sqliteDataSourceName g) d disk)
            | (None, d) \<Rightarrow> (([], None), store (g_sqliteDataSourceName g) d disk)))
      else (([], None), disk))"

text \<open>The choice between one address and two, which \<open>serve\<close> and \<open>functest\<close> share.\<close>

definition start_server ::
  "('c, 'db, 's) serve_env \<Rightarrow> 'db driver \<Rightarrow> globals \<Rightarrow> 'db disk \<Rightarrow> string + ('c, 'db, 's) running" where
  "start_server env drv g disk =
     (if g_grpcServerAddress g \<noteq> [] \<and> g_httpServerAddress g \<noteq> [] then
        OnMultipleAddresses (se_lib env) (se_stack env) (se_rorder env) (se_gorder env) (se_net env)
          (se_listen env) (on_disk drv disk) (se_call env) (se_finish env) (se_eps env)
          (g_grpcServerAddress g) (g_httpServerAddress g) (g_corsAllowedOrigins g)
          (g_caCertificate g) (g_serverCertificate g) (g_serverPrivateKey g) (g_jwtSecret g)
          (g_sqliteDataSourceName g)
      else
        OnSingleAddress (se_lib env) (se_stack env) (se_rorder env) (se_gorder env) (se_net env)
          (se_listen env) (on_disk drv disk) (se_call env) (se_finish env) (se_eps env)
          (g_serverAddress g) (g_corsAllowedOrigins g)
          (g_caCertificate g) (g_serverCertificate g) (g_serverPrivateKey g) (g_jwtSecret g)
          (g_sqliteDataSourceName g))"

definition starting_failure :: "globals \<Rightarrow> effect" where
  "starting_failure g =
     Logged LError [] (''AhSvcWww starting failure: grpcServerAddress: '' @ g_grpcServerAddress g @
       '', httpServerAddress: '' @ g_httpServerAddress g @ newline)"

definition serve_cmd ::
  "('c, 'db, 's) serve_env \<Rightarrow> 'db driver \<Rightarrow> globals \<Rightarrow> 'db disk \<Rightarrow>
   (effect list \<times> exit_status) \<times> ('c, 'db, 's) running option \<times> 'db disk" where
  "serve_cmd env drv g disk =
     (let out0 = (if HasSuffix svc_version ''+dev'' \<or> g_debugMode g then
                    [SetLevel DebugLevel,
                     Logged LDebug [(''Name'', svc_name), (''Version'', svc_version), (''FullName'', svcName)]
                       ''set log debug level''] else []) @
                 [Logged LInfo [] version_text]
      in case databaseMigration env drv g disk of
           ((out1, Some status), disk1) \<Rightarrow> ((out0 @ out1, Exit status), None, disk1)
         | ((out1, None), disk1) \<Rightarrow>
             (case start_server env drv g disk1 of
                Inl err \<Rightarrow> (fatal (out0 @ out1) err, None, disk1)
              | Inr run \<Rightarrow>
                  (case run_ok run of
                     None \<Rightarrow> ((out0 @ out1, Waiting), Some run, disk1)
                   | Some True \<Rightarrow> ((out0 @ out1, Exit 0), Some run, disk1)
                   | Some False \<Rightarrow> ((out0 @ out1 @ [starting_failure g], Exit 1), Some run, disk1))))"

end
