(* ===== verification/Cmd_Main.thy ===== *)
theory Cmd_Main
  imports Cmd
begin

text \<open>
  The commands \<open>token\<close> and \<open>functest\<close>, the reading of the configuration, and \<open>Execute\<close>. Signing a
  token, reading JSON, the configuration library and the parsing of the command line by cobra are
  arguments.
\<close>

section \<open>Tokens\<close>

text \<open>The values of claims: those that \<open>Create\<close> sets, and any JSON value for the custom ones.\<close>

datatype claim = CString string | CInt int | CJson json

type_synonym claims = "string \<Rightarrow> claim option"

datatype created = Token string | CreateErr string | CreatePanic panic

record jwt_env =
  je_now :: gtime
  je_rnd_sub :: "byte list option"
  je_rnd_jti :: "byte list option"
  je_sign :: "string \<Rightarrow> claims \<Rightarrow> string + string"

text \<open>A lifetime in hours as a duration of 64 bits in nanoseconds.\<close>

definition lifetime_ns :: "int \<Rightarrow> int" where
  "lifetime_ns h = sint (of_int (3600 * 10 ^ 9 * h) :: 64 word)"

definition standard_claims :: "gtime \<Rightarrow> string \<Rightarrow> int \<Rightarrow> string \<Rightarrow> string \<Rightarrow> claims" where
  "standard_claims now issuer lifetime jti subject =
     [''iss'' \<mapsto> CString issuer, ''aud'' \<mapsto> CString issuer, ''iat'' \<mapsto> CInt (now div 10 ^ 9),
      ''exp'' \<mapsto> CInt ((now + lifetime_ns lifetime) div 10 ^ 9), ''jti'' \<mapsto> CString jti,
      ''sub'' \<mapsto> CString subject]"

definition add_claims :: "claims \<Rightarrow> (string \<times> json) list \<Rightarrow> claims" where
  "add_claims claims custom = fold (\<lambda>(k, v) m. m(k \<mapsto> CJson v)) custom claims"

definition jwt_Create ::
  "jwt_env \<Rightarrow> string \<Rightarrow> string \<Rightarrow> int \<Rightarrow> string \<Rightarrow> (string \<times> json) list \<Rightarrow> created" where
  "jwt_Create env issuer jwtSecret lifetime subject customClaims =
     (if jwtSecret = [] then CreateErr ''No jwt secret''
      else
        (case (if subject = [] then map_option UUID_String (UUID_New (je_rnd_sub env)) else Some subject) of
           None \<Rightarrow> CreatePanic RandomFailed
         | Some sub \<Rightarrow>
             (case UUID_New (je_rnd_jti env) of
                None \<Rightarrow> CreatePanic RandomFailed
              | Some jti \<Rightarrow>
                  (case je_sign env jwtSecret
                      (add_claims (standard_claims (je_now env) issuer lifetime (UUID_String jti) sub) customClaims) of
                     Inl err \<Rightarrow> CreateErr err
                   | Inr t \<Rightarrow> Token t))))"

definition createToken ::
  "(string \<Rightarrow> string + json) \<Rightarrow> jwt_env \<Rightarrow> globals \<Rightarrow> effect list \<times> exit_status" where
  "createToken unmarshal env g =
     (if g_secretSigningKey g = [] then
        ([Printed (''missing the secret signing key'' @ newline)], Exit 1)
      else
        (case (if g_customClaims g = [] then Inr []
               else
                 (case unmarshal (g_customClaims g) of
                    Inl err \<Rightarrow> Inl (''JSON parsing error: '' @ err @ newline)
                  | Inr (JObject m) \<Rightarrow> Inr m
                  | Inr _ \<Rightarrow> Inl (''JSON parsing error: failed type assertion on JSON object - <nil>'' @ newline))) of
           Inl text \<Rightarrow> ([Printed text], Exit 1)
         | Inr claimsMap \<Rightarrow>
             (case jwt_Create env ''github.com/gomeet/gomeet'' (g_secretSigningKey g) (g_tokenLifetimeHours g)
                 (g_subjectID g) claimsMap of
                CreateErr err \<Rightarrow> ([Printed (''failed to create JWT : '' @ err @ newline)], Exit 1)
              | CreatePanic p \<Rightarrow> ([], Crash p)
              | Token t \<Rightarrow> ([Printed (t @ newline)], Exit 0))))"

section \<open>functest\<close>

text \<open>
  \<open>fe_port\<close> is what the kernel answers when asked for a free port. The embedded server runs beside
  the tests; \<open>fe_net\<close> is the network they see, with the embedded server on it if there is one,
  and \<open>fe_start\<close> the state of the machine when they begin.
\<close>

record ('c, 'db, 's) functest_env =
  fe_port :: "string + nat"
  fe_serve :: "('c, 'db, 's) serve_env"
  fe_jwt :: jwt_env
  fe_net :: "('c, 'db, 's) running option \<Rightarrow> ('c, 's) net_env"
  fe_test :: "('c, 'db, 's) running option \<Rightarrow> 's test_env"
  fe_start :: "('c, 'db, 's) running option \<Rightarrow> 's"
  fe_order :: "(string \<times> string) list"
  fe_draw1 :: "RsvpCreationRequest \<times> string"
  fe_draw2 :: "RsvpCreationRequest \<times> string"

definition getFreePort :: "('c, 'db, 's) functest_env \<Rightarrow> string + nat" where
  "getFreePort env = fe_port env"

definition random_port :: "('c, 'db, 's) functest_env \<Rightarrow> globals \<Rightarrow> globals" where
  "random_port env g =
     (if g_useRandomPort g then
        (case getFreePort env of
           Inl err \<Rightarrow> g
         | Inr freePort \<Rightarrow>
             g\<lparr>g_serverAddress := ''localhost:'' @ nat_dec freePort, g_grpcServerAddress := [],
               g_httpServerAddress := []\<rparr>)
      else g)"

text \<open>The token of the tests: the one given, or for an embedded server with a secret a new one.\<close>

definition functest_token :: "('c, 'db, 's) functest_env \<Rightarrow> globals \<Rightarrow> created" where
  "functest_token env g =
     (if g_useEmbeddedServer g \<and> g_jwtSecret g \<noteq> [] then
        jwt_Create (fe_jwt env) ''github.com/gomeet/gomeet'' (g_jwtSecret g) (g_tokenLifetimeHours g)
          (g_subjectID g) []
      else Token (g_jwtToken g))"

definition functest_migration ::
  "('c, 'db, 's) functest_env \<Rightarrow> 'db driver \<Rightarrow> globals \<Rightarrow> 'db disk \<Rightarrow> string option \<times> 'db disk" where
  "functest_migration env drv g disk =
     (let dsn = g_sqliteDataSourceName g; quoted = [CHR 0x22] @ dsn @ [CHR 0x22]
      in if dsn \<noteq> [] \<and> g_sqliteFunctestMigrate g then
           (case gorm_Open (on_disk drv disk) dsn of
              Inl err \<Rightarrow> (Some (''Database connection error (DSN '' @ quoted @ ''): '' @ err @ newline), disk)
            | Inr d \<Rightarrow>
                (case d_ping drv d of
                   Some err \<Rightarrow>
                     (Some (''Ping database connection error (DSN '' @ quoted @ ''): '' @ err @ newline), disk)
                 | None \<Rightarrow>
                     (case MigrateSchema (on_disk drv disk) dsn of
                        (Some err, d1) \<Rightarrow>
                          (Some (''Sqlite schema migration error: '' @
                             models_error_msg (e_quote (se_call (fe_serve env))) (e_scan (se_call (fe_serve env))) err @
                             newline), store dsn d1 disk)
                      | (None, d1) \<Rightarrow> (None, store dsn d1 disk))))
         else (None, disk))"

definition test_config :: "globals \<Rightarrow> string \<Rightarrow> FunctionalTestConfig" where
  "test_config g token =
     \<lparr>fc_ServerAddress = g_serverAddress g, fc_GrpcServerAddress = g_grpcServerAddress g,
      fc_HttpServerAddress = g_httpServerAddress g, fc_CaCertificate = g_caCertificate g,
      fc_ClientCertificate = g_serverCertificate g, fc_ClientPrivateKey = g_serverPrivateKey g,
      fc_JsonWebToken = token, fc_TimeoutSeconds = g_timeoutSeconds g,
      fc_SqliteDataSourceName = g_sqliteDataSourceName g\<rparr>"

fun failure_lines :: "nat \<Rightarrow> TestFailure list \<Rightarrow> effect list" where
  "failure_lines idx [] = []"
| "failure_lines idx (f # fs) =
     Printed (nat_dec (idx + 1) @ '') '' @ tf_Procedure f @ '': '' @ tf_Message f @ newline) #
     failure_lines (idx + 1) fs"

definition verdict :: "TestFailure list \<Rightarrow> effect list \<times> exit_status" where
  "verdict failures =
     (if length failures = 0 then
        ([Printed (''PASS'' @ newline), Printed (''ok'' @ [CHR 0x09] @ ''functest is ok'' @ newline)], Exit 0)
      else (Printed (''Test failures:'' @ newline) # failure_lines 0 failures, Exit 1))"

text \<open>
  The goroutine of the embedded server is taken to run when the main one first waits for it, in the
  first test: it opens its database with the first call, so that what it serves is what the
  migration has left. A fatal error of it ends the process.
\<close>

definition embedded_server ::
  "('c, 'db, 's) functest_env \<Rightarrow> 'db driver \<Rightarrow> globals \<Rightarrow> 'db disk \<Rightarrow> string + ('c, 'db, 's) running option" where
  "embedded_server env drv g disk =
     (if g_useEmbeddedServer g then map_sum id Some (start_server (fe_serve env) drv g disk) else Inr None)"

definition runFunctionalTests ::
  "('c, 'db, 's) functest_env \<Rightarrow> 'db driver \<Rightarrow> globals \<Rightarrow> 'db disk \<Rightarrow>
   (effect list \<times> exit_status) \<times> 's option" where
  "runFunctionalTests env drv g0 disk =
     (let g = (if g_useEmbeddedServer g0 then random_port env g0 else g0);
          out0 = (if g_useEmbeddedServer g0 then
                    [SetLevel (if g_debugMode g0 then DebugLevel else PanicLevel)] else [])
      in case functest_token env g of
           CreatePanic p \<Rightarrow> ((out0, Crash p), None)
         | CreateErr err \<Rightarrow> ((out0 @ [Printed (''failed to create JWT : '' @ err @ newline)], Exit 1), None)
         | Token token \<Rightarrow>
             (case functest_migration env drv g disk of
                (Some text, _) \<Rightarrow> ((out0 @ [Printed text], Exit 1), None)
              | (None, disk1) \<Rightarrow>
                  (case embedded_server env drv g disk1 of
                     Inl err \<Rightarrow> (fatal out0 err, None)
                   | Inr server \<Rightarrow>
                       (case runFunctionalTestSession (fe_test env server) (fe_net env server) (fe_order env)
                           (fe_draw1 env) (fe_draw2 env) (test_config g token) (fe_start env server) of
                          (Inl p, s1) \<Rightarrow> ((out0, Crash p), Some s1)
                        | (Inr failures, s1) \<Rightarrow>
                            (case verdict failures of (out, x) \<Rightarrow> ((out0 @ out, x), Some s1))))))"

section \<open>Configuration and dispatch\<close>

text \<open>
  \<open>home\<close> is the home directory or an error; \<open>readConfig\<close> gives the path of the configuration file
  that was read, if any, for a file or for a directory to search. The values are used by nobody.
\<close>

definition initConfig ::
  "string + string \<Rightarrow> (string + string \<Rightarrow> string option) \<Rightarrow> globals \<Rightarrow> effect list \<times> int option" where
  "initConfig home readConfig g =
     (let used = (\<lambda>place. case readConfig place of
                    None \<Rightarrow> ([], None)
                  | Some path \<Rightarrow> ([Printed (''Using config file: '' @ path @ newline)], None))
      in if g_cfgFile g \<noteq> [] then used (Inl (g_cfgFile g))
         else
           (case home of
              Inl err \<Rightarrow> ([Printed (err @ newline)], Some 1)
            | Inr dir \<Rightarrow> used (Inr dir)))"

text \<open>
  \<open>parsed\<close> is what cobra makes of the command line: an error, or a command, the flags given to it
  and its arguments; \<open>Run\<close> runs the command on the variables.
\<close>

definition Execute ::
  "string + string \<times> (string \<times> flag_value) list \<times> string list \<Rightarrow>
   string + string \<Rightarrow> (string + string \<Rightarrow> string option) \<Rightarrow>
   (string \<Rightarrow> globals \<Rightarrow> string list \<Rightarrow> effect list \<times> exit_status) \<Rightarrow> effect list \<times> exit_status" where
  "Execute parsed home readConfig run =
     (case parsed of
        Inl err \<Rightarrow> ([Printed (err @ newline)], Exit (- 1))
      | Inr (cmd, given, args) \<Rightarrow>
          (let fs = (case map_of commands cmd of None \<Rightarrow> [] | Some fs \<Rightarrow> fs) @ root_flags;
               g = apply_flags fs given initial_globals
           in case initConfig home readConfig g of
                (out, Some status) \<Rightarrow> (out, Exit status)
              | (out, None) \<Rightarrow>
                  (case run cmd g args of (out1, x) \<Rightarrow> (out @ out1, x))))"

end
