(* ===== verification/System.thy ===== *)
theory System
  imports Functest_Session Cmd_Main
begin

text \<open>
  The parts together: the HTTP server in front of the gRPC server over its database, and the tests
  against both. The interface \<open>www_http_api\<close> is discharged for the servers of this program.
\<close>

section \<open>The servers keep the interface\<close>

lemma serve_www_http_api:
  assumes "sql_store drv rows base up ord"
    and "httpServer lib stack rorder gorder net addr origins ca cert key jwt = Inr h"
    and "\<And>creds. ne_Dial net addr 0 creds = Inr (clocked (\<lambda>env. serve drv verify env [0]))"
    and "set rorder = set routeMap" and "set gorder = {''GET'', ''POST''}"
    and "good_token verify secret token"
  shows "www_http_api (clocked (\<lambda>env. serve drv verify env [0])) (lets_in verify secret)
    (live_server drv rows up secret) (\<lambda>_. True) lib stack rorder gorder net addr origins ca cert key jwt h token"
  by (intro www_http_api.intro www_http_api_axioms.intro http_front.intro serve_www_api [OF assms(1)]
      assms(2-5) lets_in_token [OF assms(6)] lets_in_http [OF assms(6)])

text \<open>The HTTP server without certificates and without origins, in front of a connection.\<close>

definition front_of :: "http_lib \<Rightarrow> ('c, 's) channel \<Rightarrow> 's http_handler" where
  "front_of lib conn =
     (case httpServer lib (\<lambda>_. []) routeMap [''GET'', ''POST''] (live_net conn) '':13000'' [] [] [] [] [] of
        Inr h \<Rightarrow> h | Inl _ \<Rightarrow> (\<lambda>r s. (HPanic NilDereference, s)))"

lemma httpServer_any_lib:
  "\<exists>h. httpServer lib stack routeMap [''GET'', ''POST''] (live_net conn) addr [] [] [] [] [] = Inr h"
  by (simp add: httpServer_def gateway_credentials_def live_net_def RegisterHTTPServices_def
      RegisterWwwHandlerFromEndpoint_def RegisterWwwHandler_def registered_mux Let_def)

lemma front_of_server:
  "httpServer lib (\<lambda>_. []) routeMap [''GET'', ''POST''] (live_net conn) '':13000'' [] [] [] [] [] =
   Inr (front_of lib conn)"
  using httpServer_any_lib [of lib "\<lambda>_. []" conn "'':13000''"] by (auto simp: front_of_def)

lemma live_net_dials: "ne_Dial (live_net conn) addr t creds = Inr conn"
  by (simp add: live_net_def)

interpretation plain_http: http_front lib "\<lambda>_. []" routeMap "[''GET'', ''POST'']"
    "live_net (clocked (\<lambda>env. serve (mem_driver disk) verify env [0]))" "'':13000''" "[]" "[]" "[]" "[]" "[]"
    "clocked (\<lambda>env. serve (mem_driver disk) verify env [0])" "front_of lib (clocked (\<lambda>env. serve (mem_driver disk) verify env [0]))"
  by (rule http_front.intro [OF front_of_server live_net_dials]) auto

interpretation plain_api: www_http_api "clocked (\<lambda>env. serve (mem_driver disk) verify env [0])"
    "lets_in verify []" "live_server (mem_driver disk) m_rows mem_up []" "\<lambda>_. True" lib "\<lambda>_. []" routeMap
    "[''GET'', ''POST'']" "live_net (clocked (\<lambda>env. serve (mem_driver disk) verify env [0]))" "'':13000''"
    "[]" "[]" "[]" "[]" "[]" "front_of lib (clocked (\<lambda>env. serve (mem_driver disk) verify env [0]))" token
  by (rule serve_www_http_api [OF mem.sql_store_axioms front_of_server live_net_dials])
    (auto simp: good_token_def)

section \<open>A caller whose token does not verify\<close>

lemma unverified_refused:
  assumes "ws_jwtSecret s \<noteq> []" and "AuthFromMD (makeServerContext c) ''bearer'' = Inr t"
    and "verify (ws_jwtSecret s) t = None" and "UUID_New (e_cid_rnd env) \<noteq> None"
  shows "serve drv verify env finish c RsvpCreation_name (ReqRsvp req) s =
    (Ret None (Some (Status CodeUnauthenticated ''invalid auth token'')), s)"
proof -
  obtain c1 where c1: "ensureCorrelationId (e_cid_rnd env) False (makeServerContext c) = Some c1"
    using ensureCorrelationId_up [OF assms(4), of "makeServerContext c"] by blast
  show ?thesis
    unfolding serve_methods(3) www_interceptor_def stack_unfold
    by (simp add: c1 AuthFuncOverride_private ensureCorrelationId_auth [OF c1] assms(1-3))
qed

section \<open>A small encoding for the witnesses\<close>

text \<open>Texts written one after the other: every character after a plus, every text before a full stop.\<close>

definition enc_field :: "string \<Rightarrow> string" where
  "enc_field f = concat (List.map (\<lambda>c. [CHR ''+'', c]) f) @ ''.''"

fun dec_fields :: "string \<Rightarrow> string \<Rightarrow> string list" where
  "dec_fields acc [] = []"
| "dec_fields acc (c # s) =
     (if c = CHR ''.'' then acc # dec_fields [] s
      else (case s of [] \<Rightarrow> [] | d # t \<Rightarrow> dec_fields (acc @ [d]) t))"

lemma dec_enc: "dec_fields acc (enc_field f @ rest) = (acc @ f) # dec_fields [] rest"
  by (induction f arbitrary: acc) (simp_all add: enc_field_def)

lemma dec_enc_all: "dec_fields [] (concat (List.map enc_field fs)) = fs"
  by (induction fs) (simp_all add: dec_enc)

definition enc_bool :: "bool \<Rightarrow> string" where
  "enc_bool b = (if b then ''t'' else [])"

definition enc_request :: "RsvpCreationRequest \<Rightarrow> string" where
  "enc_request r = concat (List.map enc_field
     [rq_Names r, rq_Email r, enc_bool (rq_Presence r), rq_ChildrenNameAge r, enc_bool (rq_Housing r),
      rq_Music r, enc_bool (rq_Brunch r)])"

definition dec_request :: "string \<Rightarrow> RsvpCreationRequest" where
  "dec_request b =
     (case dec_fields [] b of
        [n, e, p, c, h, m, br] \<Rightarrow>
          \<lparr>rq_Names = n, rq_Email = e, rq_Presence = (p \<noteq> []), rq_ChildrenNameAge = c, rq_Housing = (h \<noteq> []),
           rq_Music = m, rq_Brunch = (br \<noteq> [])\<rparr>
      | _ \<Rightarrow> RsvpCreationRequest_Reset)"

lemma dec_enc_request: "dec_request (enc_request r) = r"
  unfolding dec_request_def enc_request_def dec_enc_all by (simp add: enc_bool_def)

definition enc_info :: "RsvpInfo \<Rightarrow> string" where
  "enc_info r = concat (List.map enc_field
     [ri_Uuid r, ri_Names r, ri_Email r, enc_bool (ri_Presence r), ri_ChildrenNameAge r,
      enc_bool (ri_Housing r), ri_Music r, enc_bool (ri_Brunch r), ri_CreatedAt r, ri_UpdatedAt r, ri_DeletedAt r])"

definition dec_info :: "string \<Rightarrow> RsvpInfo" where
  "dec_info b =
     (case dec_fields [] b of
        [u, n, e, p, c, h, m, br, t1, t2, t3] \<Rightarrow>
          \<lparr>ri_Uuid = u, ri_Names = n, ri_Email = e, ri_Presence = (p \<noteq> []), ri_ChildrenNameAge = c,
           ri_Housing = (h \<noteq> []), ri_Music = m, ri_Brunch = (br \<noteq> []), ri_CreatedAt = t1, ri_UpdatedAt = t2,
           ri_DeletedAt = t3\<rparr>
      | _ \<Rightarrow> RsvpInfo_Reset)"

lemma dec_enc_info: "dec_info (enc_info r) = r"
  unfolding dec_info_def enc_info_def dec_enc_all by (simp add: enc_bool_def)

definition field_marshaler :: marshaler where
  "field_marshaler =
     \<lparr>mr_ContentType = ''application/json'',
      mr_Marshal = (\<lambda>x. Inr (case x of
          PMsg (Some (RespRsvp r)) \<Rightarrow> (case rs_Info r of None \<Rightarrow> [] | Some i \<Rightarrow> enc_info i)
        | PMsg _ \<Rightarrow> ''ok''
        | PStatus c m \<Rightarrow> ''error'')),
      mr_Decode = (\<lambda>b. (dec_request b, None))\<rparr>"

definition field_lib :: http_lib where
  "field_lib = plain_lib\<lparr>hl_marshaler := field_marshaler, hl_metrics := (\<lambda>r. html_reply StatusOK [104])\<rparr>"

definition field_env :: "'s http_handler \<Rightarrow> string \<Rightarrow> string \<Rightarrow> 's test_env" where
  "field_env h proto host =
     \<lparr>te_show = rq_Names, te_panic = (\<lambda>_. []), te_NewRequest = (\<lambda>m url. None),
      te_Do = (\<lambda>client m url headers body s.
        case h (sent_request host m (drop (length (proto @ ''://'' @ host)) url) headers body) s of
          (Reply rp, s') \<Rightarrow> (Inr \<lparr>hr_Body = rp_Body rp, hr_ReadErr = None\<rparr>, s')
        | (HPanic p, s') \<Rightarrow> (Inl ''EOF'', s')),
      te_Marshal = (\<lambda>r. Inr (enc_request r)),
      te_Version = (\<lambda>resp. (version_answer, None)), te_Status = (\<lambda>resp. (status_answer, None)),
      te_Rsvp = (\<lambda>b. (created_answer (dec_info b), None)),
      te_HttpError = (\<lambda>b. if b = ''error'' then (\<lparr>he_Code = 3, he_Error = []\<rparr>, None)
                           else (\<lparr>he_Code = 0, he_Error = []\<rparr>, None)),
      te_json = (\<lambda>b. Inr (JObject [(''swagger'', JString ''2.0''), (''info'', JObject []), (''paths'', JObject [])])),
      te_Compile = (\<lambda>p. Inr (\<lambda>l. True))\<rparr>"

lemma enc_info_no_error: "enc_info i \<noteq> ''error''"
proof
  assume "enc_info i = ''error''"
  then have "hd (enc_info i) = CHR ''e''" by simp
  then show False by (cases "ri_Uuid i") (simp_all add: enc_info_def enc_field_def)
qed

lemma field_env_agrees: "json_agrees (field_env h proto host) (hl_marshaler field_lib)"
  by (simp add: json_agrees_def field_env_def field_lib_def field_marshaler_def created_answer_def
      dec_enc_info dec_enc_request enc_info_no_error)

lemma field_env_delivers: "delivers (field_env h proto host) h proto host"
  by (simp add: delivers_def field_env_def eval_nat_numeral)

lemma field_env_checks:
  "check_metrics (field_env h proto host) order (metrics_body field_lib x config) = []"
  "check_swagger (field_env h proto host) b = []"
proof -
  have "list_ex (\<lambda>l. True) (split_char d b)" for d b
    using split_char_nonempty [of d b] by (cases "split_char d b") simp_all
  then show "check_metrics (field_env h proto host) order (metrics_body field_lib x config) = []"
    by (simp add: check_metrics_def field_env_def metrics_body_def field_lib_def html_reply_def text_of_def Let_def)
  show "check_swagger (field_env h proto host) b = []"
    by (simp add: check_swagger_def field_env_def json_field_def is_string_def is_object_def)
qed

text \<open>Sixteen calls with different random bytes.\<close>

definition sample_supply :: "nat \<Rightarrow> call_env" where
  "sample_supply i = sample_env\<lparr>e_rnd := Some (of_nat i # replicate 15 0)\<rparr>"

lemma sample_supply_good: "good_supply 16 {} sample_supply"
proof -
  have n: "UUID_New (e_rnd (sample_supply i)) =
      Some ((of_nat i # replicate 15 0)[6 := 0x40, 8 := 0x80])" for i
    by (simp add: UUID_New_def NewRandom_def sample_supply_def eval_nat_numeral)
  have "new_id (sample_supply j) \<noteq> new_id (sample_supply i)" if "j < i" "i < 16" for i j
  proof
    assume "new_id (sample_supply j) = new_id (sample_supply i)"
    then have "UUID_String ((of_nat j # replicate 15 0)[6 := 0x40, 8 := 0x80]) =
        UUID_String ((of_nat i # replicate 15 0)[6 := 0x40, 8 := 0x80])"
      by (simp add: new_id_def n UUID_Value_def)
    then have "(of_nat j # replicate 15 0)[6 := 0x40, 8 := 0x80] =
        (of_nat i # replicate 15 (0 :: byte))[6 := 0x40, 8 := 0x80]"
      using UUID_String_inj by simp
    then have "(of_nat j :: byte) = of_nat i" by simp
    with that show False by (simp add: word_unat_eq_iff take_bit_nat_def unsigned_of_nat)
  qed
  moreover have "e_cid_rnd (sample_supply i) = Some new_bytes" "new_id (sample_supply i) \<noteq> None" for i
    unfolding new_id_def n by (simp_all add: sample_supply_def sample_env_def)
  ultimately show ?thesis by (simp add: good_supply_def UUID_New_new_bytes)
qed

lemma sample_server_live:
  "live_server (mem_driver empty_disk) m_rows mem_up [] 16 (sample_server\<lparr>ws_version := svc_version\<rparr>, sample_supply)"
  using sample_supply_good
  by (auto simp: live_server_def sample_server_def initDatabaseHandle_def gorm_Open_def empty_disk_def
      empty_rows)

end
