(* ===== verification/Remote_Cli_Props.thy ===== *)
theory Remote_Cli_Props
  imports Remote_Cli
begin

text \<open>
  The interpreter runs the command a line names in every order of its map of commands, quoting
  arguments and splitting them again gives them back, and no line disconnects the interpreter.
\<close>

section \<open>Dispatch\<close>

definition action_names :: "string list" where
  "action_names =
     [''version'', ''services_status'', ''rsvp_creation'', ''console_version'', ''jwt'',
      ''default_timeout'', ''service_address'', ''tls_config'', ''help'']"

lemma GetActionsMap_names: "map fst (GetActionsMap env c) = action_names"
  by (simp add: GetActionsMap_def action_names_def GetExtraActionsMap_def)

lemma action_names_prefix_free:
  "list_all (\<lambda>a. list_all (\<lambda>b. prefix a b \<longrightarrow> a = b) action_names) action_names"
  by (simp add: action_names_def)

lemma action_names_distinct: "distinct action_names"
  by (simp add: action_names_def)

lemma action_unique:
  assumes "x \<in> set (GetActionsMap env c)" and "y \<in> set (GetActionsMap env c)"
    and "HasPrefix line (fst x)" and "HasPrefix line (fst y)"
  shows "x = y"
proof -
  let ?m = "GetActionsMap env c"
  have n: "fst x \<in> set action_names" "fst y \<in> set action_names"
    using assms(1,2) GetActionsMap_names [of env c] by (metis image_eqI list.set_map)+
  have "prefix (fst x) (fst y) \<or> prefix (fst y) (fst x)"
    using assms(3,4) prefix_same_cases unfolding HasPrefix_def by blast
  then have "fst x = fst y"
    using action_names_prefix_free n unfolding list_all_iff by metis
  moreover have "distinct (map fst ?m)" using action_names_distinct by (simp add: GetActionsMap_names)
  ultimately show ?thesis
    using assms(1,2) by (metis eq_key_imp_eq_value prod.collapse)
qed

text \<open>The loop over the actions, in any order.\<close>

lemma find_action:
  assumes "set (visit (GetActionsMap env c)) = set (GetActionsMap env c)"
  shows "find (\<lambda>(k, fn). HasPrefix line k) (visit (GetActionsMap env c)) =
    find (\<lambda>(k, fn). HasPrefix line k) (GetActionsMap env c)"
  by (rule find_perm_unique [OF assms])
    (use assms action_unique [of _ env c _ line] in \<open>auto simp: case_prod_unfold\<close>)

text \<open>
  C33: a line that begins with the name of a command runs that command on the arguments after the
  name, whatever the order in which the map of commands is visited: no name is the beginning of
  another one.
\<close>

theorem Eval_dispatch:
  assumes "set (visit (GetActionsMap env c)) = set (GetActionsMap env c)"
    and "(k, fn) \<in> set (GetActionsMap env c)"
  shows "Eval env visit c (k @ rest) s = fn c (parseParams (TrimSpace rest)) s"
proof -
  have one: "y = (k, fn)" if "y \<in> set (GetActionsMap env c)" and "HasPrefix (k @ rest) (fst y)" for y
    using that assms(2) by (intro action_unique [of y env c "(k, fn)" "k @ rest"]) simp_all
  have "find (\<lambda>(k', fn). HasPrefix (k @ rest) k') (visit (GetActionsMap env c)) = Some (k, fn)"
    unfolding find_action [where visit = visit, OF assms(1)]
  proof (rule find_Some_iff_unique)
    show "(k, fn) \<in> set (GetActionsMap env c)" by (rule assms(2))
    show "y = (k, fn)" if "y \<in> set (GetActionsMap env c)" and "case y of (k', fn) \<Rightarrow> HasPrefix (k @ rest) k'" for y
      using that by (intro one) (simp_all add: case_prod_unfold)
  qed simp
  moreover have "k \<noteq> []"
    using assms(2) by (auto simp: GetActionsMap_def GetExtraActionsMap_def)
  ultimately show ?thesis by (simp add: Eval_def)
qed

section \<open>Arguments\<close>

text \<open>An argument that fits between double quotes.\<close>

definition quotable :: "string \<Rightarrow> bool" where
  "quotable a \<longleftrightarrow> CHR 0x22 \<notin> set a \<and> CHR 0x0A \<notin> set a \<and>
     (a \<noteq> [] \<longrightarrow> hd a \<noteq> CHR 0x20 \<and> last a \<noteq> CHR 0x20)"

definition quoted :: "string \<Rightarrow> string" where
  "quoted a = CHR 0x22 # a @ [CHR 0x22]"

lemma until_quote_free:
  "q \<notin> set a \<Longrightarrow> CHR 0x0A \<notin> set a \<Longrightarrow> until_quote q (a @ q # r) = Some (a, r)"
  by (induction a) auto

lemma param_tokens_quoted: "quotable a \<Longrightarrow> param_tokens (quoted a @ r) = quoted a # param_tokens r"
  by (simp add: quoted_def quotable_def re_space_def until_quote_free)

lemma param_tokens_space: "param_tokens (CHR 0x20 # s) = param_tokens s"
  by (simp add: re_space_def)

lemma param_tokens_line: "list_all quotable args \<Longrightarrow> param_tokens (Join (map quoted args) '' '') = map quoted args"
proof (induction args)
  case (Cons a args)
  show ?case
  proof (cases args)
    case Nil
    with Cons.prems show ?thesis using param_tokens_quoted [of a "[]"] by simp
  next
    case (Cons b bs)
    then have "Join (map quoted (a # args)) '' '' = quoted a @ CHR 0x20 # Join (map quoted args) '' ''"
      by simp
    with Cons.IH Cons.prems show ?thesis
      by (simp add: param_tokens_quoted param_tokens_space del: param_tokens.simps)
  qed
qed simp

text \<open>Trimming a character that is at neither end.\<close>

lemma Trim_ends:
  assumes "s = [] \<or> hd s \<notin> set cs \<and> last s \<notin> set cs"
  shows "Trim s cs = s"
proof (cases "s = []")
  case False
  then have "dropWhile (\<lambda>c. c \<in> set cs) s = s"
    using assms by (intro dropWhile_hd_idle) auto
  moreover have "dropWhile (\<lambda>c. c \<in> set cs) (rev s) = rev s"
    using assms False by (intro dropWhile_hd_idle) (auto simp: hd_rev)
  ultimately show ?thesis by (simp add: Trim_def)
qed (simp add: Trim_def)

lemma Trim_quoted: "CHR 0x22 \<notin> set a \<Longrightarrow> Trim (quoted a) [CHR 0x22] = a"
proof -
  assume q: "CHR 0x22 \<notin> set a"
  have "dropWhile (\<lambda>c. c = CHR 0x22) (rev a) = rev a"
    using q by (intro dropWhile_idle) auto
  then show "Trim (quoted a) [CHR 0x22] = a"
    using q by (cases a) (auto simp: quoted_def Trim_def)
qed

lemma trim_param_quoted: "quotable a \<Longrightarrow> trim_param (quoted a) = a"
proof -
  assume a: "quotable a"
  have "Trim (quoted a) [CHR 0x20] = quoted a" "Trim (quoted a) [CHR 0x27] = quoted a"
    by (rule Trim_ends; simp add: quoted_def)+
  moreover have "Trim (quoted a) [CHR 0x22] = a" "Trim a [CHR 0x20] = a"
    using a by (auto simp: quotable_def intro!: Trim_quoted Trim_ends)
  ultimately show "trim_param (quoted a) = a" by (simp add: trim_param_def)
qed

text \<open>
  C34: arguments put between double quotes and separated by blanks are split again into the same
  arguments, empty ones included, when they hold no double quote and no line break and neither
  begin nor end with a blank.
\<close>

theorem parseParams_quoted:
  assumes "list_all quotable args"
  shows "parseParams (Join (map quoted args) '' '') = args"
  unfolding parseParams_def param_tokens_line [OF assms]
  using assms by (induction args) (simp_all add: trim_param_quoted)

theorem parseParams_quoted_witness:
  "parseParams (Join (map quoted [''Ann and Bob'', [], ''true'']) '' '') = [''Ann and Bob'', [], ''true'']"
  by (rule parseParams_quoted) (simp add: quotable_def)

section \<open>The token of the interpreter\<close>

lemma lower_authorization: "ToLower ''Authorization'' = ''authorization''"
  by code_simp

lemma SetJWT_authorization:
  "jwt \<noteq> [] \<Longrightarrow> x_outgoing (rc_ctx (SetJWT jwt c)) = Some [''authorization'' \<mapsto> [''Bearer '' @ jwt]]"
  by (simp add: SetJWT_def AuthContextFromJWT_def MD_Add_def Background_def ExtractOutgoing_def
      lower_authorization)

text \<open>
  Setting a token shows it, and showing it again gives the same text; setting the empty token
  removes the one there was, yet the command ends in an error.
\<close>

lemma cmdJWT_sets_token:
  "cmdJWT c [jwt] s =
    (if jwt = [] then (CmdErr ''Context FromOutgoingContext fail'', UnsetJWT c, s)
     else (CmdOk (''jwt : '' @ jwt), SetJWT jwt c, s)) \<and>
   cmdJWT (fst (snd (cmdJWT c [jwt] s))) [] s = cmdJWT c [jwt] s"
proof (cases "jwt = []")
  case True
  then show ?thesis by (simp add: cmdJWT_def UnsetJWT_def Background_def)
next
  case False
  have "HasPrefix (''Bearer '' @ jwt) ''Bearer ''" "TrimPrefix (''Bearer '' @ jwt) ''Bearer '' = jwt"
    by (rule HasPrefix_append, rule TrimPrefix_append)
  then have "cmdJWT c' args s = (CmdOk (''jwt : '' @ jwt), SetJWT jwt c, s)"
    if "args = [jwt] \<and> c' = c \<or> args = [] \<and> c' = SetJWT jwt c" for c' args
    using that False SetJWT_authorization [OF False, of c] unfolding cmdJWT_def
    by (elim disjE conjE) (simp_all del: append.simps)
  with False show ?thesis by simp
qed

section \<open>Deadlines\<close>

lemma digit_chars:
  "digit_char 0 = CHR ''0''" "digit_char 2 = CHR ''2''" "digit_char 3 = CHR ''3''"
  "digit_char 7 = CHR ''7''" "digit_char 9 = CHR ''9''"
  by (code_simp, code_simp, code_simp, code_simp, code_simp)


section \<open>Sessions\<close>

text \<open>The commands that leave the interpreter as it is.\<close>

lemma readonly_commands:
  "fst (snd (cmdVersion env c args s)) = c" "fst (snd (cmdServicesStatus env c args s)) = c"
  "fst (snd (cmdRsvpCreation env c args s)) = c" "fst (snd (cmdConsoleVersion c args s)) = c"
  "fst (snd (cmdServiceAddress c args s)) = c" "fst (snd (cmdTLSConfig c args s)) = c"
  "fst (snd (cmdHelp c args s)) = c"
  by (auto simp: cmdVersion_def cmdServicesStatus_def cmdRsvpCreation_def cmdConsoleVersion_def
      cmdServiceAddress_def cmdTLSConfig_def cmdHelp_def Let_def
      split: prod.split call_result.split option.split)

text \<open>A session: the lines of a console, evaluated one after the other.\<close>

inductive cli_reach ::
  "cli_env \<Rightarrow> ((string \<times> ('c, 's) command) list \<Rightarrow> (string \<times> ('c, 's) command) list) \<Rightarrow>
   ('c, 's) remoteCli \<times> 's \<Rightarrow> ('c, 's) remoteCli \<times> 's \<Rightarrow> bool"
  for env visit where
  none: "cli_reach env visit x x"
| line: "cli_reach env visit x (c, s) \<Longrightarrow> Eval env visit c line s = (res, c', s') \<Longrightarrow>
    cli_reach env visit x (c', s')"

definition token_ctx :: "'c ctx \<Rightarrow> bool" where
  "token_ctx x \<longleftrightarrow> x = Background \<or> (\<exists>jwt. jwt \<noteq> [] \<and> x = AuthContextFromJWT Background jwt)"

definition session_ok :: "('c, 's) remoteCli \<Rightarrow> ('c, 's) remoteCli \<Rightarrow> bool" where
  "session_ok c0 c \<longleftrightarrow>
     rc_GomeetClient c = rc_GomeetClient c0 \<and> rc_c c = rc_c c0 \<and> rc_name c = rc_name c0 \<and>
     rc_version c = rc_version c0 \<and> rc_ctxCall c = rc_ctxCall c0 \<and>
     0 \<le> rc_defaultTimeout c \<and> rc_defaultTimeout c < 2 ^ 63 \<and> token_ctx (rc_ctx c)"

lemma cmdJWT_ok: "session_ok c0 c \<Longrightarrow> session_ok c0 (fst (snd (cmdJWT c args s)))"
  by (cases args)
    (auto simp: cmdJWT_def session_ok_def UnsetJWT_def SetJWT_def token_ctx_def Let_def split: option.split)

lemma ParseInt_bound: "ParseInt s = Some i \<Longrightarrow> i < 2 ^ 63"
  by (auto simp: ParseInt_def Let_def split: list.splits if_splits option.splits prod.splits)

lemma cmdDefaultTimeout_ok:
  "session_ok c0 c \<Longrightarrow> session_ok c0 (fst (snd (cmdDefaultTimeout c args s)))"
  by (cases args)
    (auto simp: cmdDefaultTimeout_def session_ok_def UnsetDefaultTimeout_def SetDefaultTimeout_def Let_def
      dest: ParseInt_bound split: option.split)

lemma action_ok:
  assumes "(k, fn) \<in> set (GetActionsMap env c)" and "session_ok c0 c"
  shows "session_ok c0 (fst (snd (fn c args s)))"
  using assms by (auto simp: GetActionsMap_def GetExtraActionsMap_def readonly_commands cmdJWT_ok
      cmdDefaultTimeout_ok)

lemma Eval_ok:
  assumes "\<And>c. set (visit (GetActionsMap env c)) = set (GetActionsMap env c)" and "session_ok c0 c"
  shows "session_ok c0 (fst (snd (Eval env visit c line s)))"
proof (cases "length line = 0 \<or> find (\<lambda>(k, fn). HasPrefix line k) (visit (GetActionsMap env c)) = None")
  case True
  then show ?thesis using assms(2) by (auto simp: Eval_def)
next
  case False
  then obtain k fn where f: "find (\<lambda>(k, fn). HasPrefix line k) (visit (GetActionsMap env c)) = Some (k, fn)"
    by auto
  then have "(k, fn) \<in> set (GetActionsMap env c)"
    using assms(1) [of c] by (metis find_Some_iff nth_mem)
  from action_ok [OF this assms(2)] f False show ?thesis by (simp add: Eval_def)
qed


definition sample_cli :: "(unit, nat) remoteCli" where
  "sample_cli =
     \<lparr>rc_name = ''n'', rc_version = ''v'', rc_ctxCall = ConsoleCall, rc_defaultTimeout = 5,
      rc_GomeetClient = NewGomeetInProcessClient None, rc_c = NewWwwClient (conn_channel None),
      rc_ctx = Background\<rparr>"

definition plain_env :: cli_env where
  "plain_env = \<lparr>ce_quote = id, ce_show = (\<lambda>_. []), ce_panic = (\<lambda>_. ''panic'')\<rparr>"

theorem Eval_dispatch_witness:
  "Eval plain_env rev sample_cli ''console_version'' 0 = (CmdOk ''Client Version: n-v'', sample_cli, 0)"
proof -
  have "(''console_version'', cmdConsoleVersion) \<in> set (GetActionsMap plain_env sample_cli)"
    by (simp add: GetActionsMap_def)
  from Eval_dispatch [of rev, OF set_rev this, of "[]" 0] show ?thesis
    by (simp add: cmdConsoleVersion_def sample_cli_def)
qed



end
