(* ===== verification/Cmd_Props.thy ===== *)
theory Cmd_Props
  imports System Server_Props Remote_Cli_Props
begin

text \<open>
  The commands of the executable: the tests with an embedded server from the flags to the exit
  status, what \<open>migrate\<close> may erase, how a console ends, and what the flags start from.
\<close>

section \<open>functest with an embedded server\<close>

text \<open>
  The machine of the run: the address is free, the connections to it reach the embedded server, the
  requests of the tests reach its HTTP handler, and the tests begin in the state that the
  registration of the service has made, with the random bytes of the calls to come.
\<close>

definition embedded_machine ::
  "('c, 'db, 'db wwwServer \<times> (nat \<Rightarrow> call_env)) functest_env \<Rightarrow> globals \<Rightarrow>
   ('c, 'db wwwServer \<times> (nat \<Rightarrow> call_env)) channel \<Rightarrow> (nat \<Rightarrow> call_env) \<Rightarrow> bool" where
  "embedded_machine env g conn rnds \<longleftrightarrow>
     se_listen (fe_serve env) (g_serverAddress g) = None \<and>
     (\<forall>creds. ne_Dial (se_net (fe_serve env)) (g_serverAddress g) 0 creds = Inr conn) \<and>
     (\<forall>run. (\<forall>t creds. ne_Dial (fe_net env (Some run)) (g_serverAddress g) t creds = Inr conn) \<and>
        delivers (fe_test env (Some run)) (run_http run) ''http'' (g_serverAddress g) \<and>
        json_agrees (fe_test env (Some run)) (hl_marshaler (se_lib (fe_serve env))) \<and>
        (\<forall>s. Service_serverImpl (gs_svc (run_grpc run)) = Some s \<longrightarrow> fe_start env (Some run) = (s, rnds)))"

text \<open>The metrics page and the swagger document have what the tests look for.\<close>

definition documented :: "('c, 'db, 's) functest_env \<Rightarrow> FunctionalTestConfig \<Rightarrow> bool" where
  "documented env config \<longleftrightarrow>
     (\<forall>run. check_metrics (fe_test env (Some run)) (fe_order env)
          (metrics_body (se_lib (fe_serve env)) (fc_ServerAddress config) config) = [] \<and>
        check_swagger (fe_test env (Some run)) (hl_Swagger (se_lib (fe_serve env))) = [])"

lemma embedded_single:
  assumes "g_useEmbeddedServer g" and "g_grpcServerAddress g = []" and "g_caCertificate g = []"
    and "set (se_rorder (fe_serve env)) = set routeMap" and "set (se_gorder (fe_serve env)) = {''GET'', ''POST''}"
    and "embedded_machine env g conn rnds"
  obtains run where "embedded_server env drv g disk = Inr (Some run)"
    and "httpServer (se_lib (fe_serve env)) (se_stack (fe_serve env)) (se_rorder (fe_serve env))
      (se_gorder (fe_serve env)) (se_net (fe_serve env)) (g_serverAddress g) (g_corsAllowedOrigins g)
      [] (g_serverCertificate g) (g_serverPrivateKey g) (g_jwtSecret g) = Inr (run_http run)"
    and "Service_serverImpl (gs_svc (run_grpc run)) = Some \<lparr>ws_version = svc_version, ws_jwtSecret = g_jwtSecret g,
      ws_caCertificate = [], ws_certificate = g_serverCertificate g, ws_privateKey = g_serverPrivateKey g,
      ws_sqliteDataSourceName = g_sqliteDataSourceName g, ws_sqliteHandle = None\<rparr>"
proof -
  let ?e = "fe_serve env"
  obtain h where h: "httpServer (se_lib ?e) (se_stack ?e) (se_rorder ?e) (se_gorder ?e) (se_net ?e)
      (g_serverAddress g) (g_corsAllowedOrigins g) [] (g_serverCertificate g) (g_serverPrivateKey g)
      (g_jwtSecret g) = Inr h"
    using assms(6)
    by (auto simp: embedded_machine_def httpServer_def gateway_credentials_def RegisterHTTPServices_def
        RegisterWwwHandlerFromEndpoint_def RegisterWwwHandler_def registered_mux Let_def)
  obtain gs where gs: "grpcServer (se_net ?e) (on_disk drv disk) (se_call ?e) (se_finish ?e) []
      (g_serverCertificate g) (g_serverPrivateKey g) (g_jwtSecret g) (g_sqliteDataSourceName g) = Inr gs"
    by (simp add: grpcServer_def server_credentials_def RegisterHandlerWww_empty ForEach_def
        RegisterService_def RegisterGRPCServices_def NewService_def Www_serviceDesc_def Let_def)
  show thesis
  proof (rule that)
    show "embedded_server env drv g disk = Inr (Some \<lparr>run_grpc = gs, run_http = h, run_https = None,
        run_ok = collect_exits True 0 (se_eps ?e)\<rparr>)"
      using assms(1-3,6) h gs
      by (simp add: embedded_server_def start_server_def OnSingleAddress_def embedded_machine_def)
  qed (use h grpcServer_serve [OF gs] in simp_all)
qed


text \<open>The run \<open>functest -e --random-port --jwt-secret s --sqlite-migrate --sqlite-dsn db\<close>.\<close>

definition sample_flags :: globals where
  "sample_flags = apply_flags functest_flags
     [(''embed-server'', VBool True), (''random-port'', VBool True), (''jwt-secret'', VString ''s''),
      (''sqlite-migrate'', VBool True), (''sqlite-dsn'', VString ''db'')] initial_globals"

definition sample_verify :: "string \<Rightarrow> string \<Rightarrow> unit option" where
  "sample_verify secret token = (if secret = ''s'' \<and> token = ''t'' then Some () else None)"

lemma mem_migrate_disk: "d_auto_migrate (mem_driver disk) m = d_auto_migrate (mem_driver empty_disk) m"
  by (simp add: mem_driver_def)

definition migrated_disk :: "mem disk" where
  "migrated_disk = empty_disk(''db'' := Inr (d_auto_migrate (mem_driver empty_disk) empty_mem))"

definition sample_conn :: "(unit, mem wwwServer \<times> (nat \<Rightarrow> call_env)) channel" where
  "sample_conn = clocked (\<lambda>cenv. serve (on_disk (mem_driver empty_disk) migrated_disk) sample_verify cenv [0])"

definition sample_addr :: string where
  "sample_addr = ''localhost:'' @ nat_dec 40000"

definition sample_functest :: "(unit, mem, mem wwwServer \<times> (nat \<Rightarrow> call_env)) functest_env" where
  "sample_functest =
     \<lparr>fe_port = Inr 40000,
      fe_serve = \<lparr>se_lib = field_lib, se_stack = (\<lambda>_. []), se_rorder = routeMap, se_gorder = [''GET'', ''POST''],
        se_net = live_net sample_conn, se_listen = (\<lambda>_. None), se_call = sample_env, se_finish = [0], se_eps = []\<rparr>,
      fe_jwt = \<lparr>je_now = 0, je_rnd_sub = Some new_bytes, je_rnd_jti = Some new_bytes, je_sign = (\<lambda>_ _. Inr ''t'')\<rparr>,
      fe_net = (\<lambda>_. live_net sample_conn),
      fe_test = (\<lambda>server. field_env (run_http (the server)) ''http'' sample_addr),
      fe_start = (\<lambda>server. (the (Service_serverImpl (gs_svc (run_grpc (the server)))), sample_supply)),
      fe_order = metrics_routeMap, fe_draw1 = (sample_request, replicate 256 CHR ''a''),
      fe_draw2 = (sample_request, replicate 256 CHR ''a'')\<rparr>"

lemma sample_flags_simp:
  "sample_flags = initial_globals\<lparr>g_useEmbeddedServer := True, g_useRandomPort := True, g_jwtSecret := ''s'',
     g_sqliteFunctestMigrate := True, g_sqliteDataSourceName := ''db''\<rparr>"
  by (simp add: sample_flags_def apply_flags_def functest_flags_def flag_defs)

lemma sample_flags_sel:
  "g_useEmbeddedServer sample_flags" "g_useRandomPort sample_flags" "g_debugMode sample_flags = False"
  "g_sqliteFunctestMigrate sample_flags" "g_sqliteDataSourceName sample_flags = ''db''"
  "g_jwtSecret sample_flags = ''s''" "g_caCertificate sample_flags = []"
  by (simp_all add: sample_flags_simp zero_globals_def)

lemma sample_port: "random_port sample_functest sample_flags = sample_flags\<lparr>g_serverAddress := sample_addr,
    g_grpcServerAddress := [], g_httpServerAddress := []\<rparr>"
proof -
  have "getFreePort sample_functest = Inr 40000" by (simp add: getFreePort_def sample_functest_def)
  then show ?thesis by (simp add: random_port_def sample_flags_sel sample_addr_def)
qed

lemma on_mem_disk: "on_disk (mem_driver disk) disk' = mem_driver disk'"
  by (simp add: on_disk_def mem_driver_def)

lemma mem_migrated:
  "''rsvps'' \<in> set (m_tables (d_auto_migrate (mem_driver disk) m))"
  "m_rows (d_auto_migrate (mem_driver disk) m) = m_rows m" "mem_up (d_auto_migrate (mem_driver disk) m)"
  by (simp_all add: mem_driver_def mem_up_def)

lemma sample_migration:
  "functest_migration sample_functest (mem_driver empty_disk) (random_port sample_functest sample_flags) empty_disk =
    (None, migrated_disk)"
  by (simp add: functest_migration_def sample_port sample_flags_sel on_mem_disk gorm_Open_def empty_disk_def
      MigrateSchema_def sqliteModels_def TableName_def store_def migrated_disk_def mem_migrated Let_def)

lemma sample_draw: "good_draw (sample_request, replicate 256 CHR ''a'')"
  by (simp add: good_draw_def sample_request_valid plain_text_def)
    (simp add: sample_request_def RsvpCreationRequest_Reset_def)

lemma sample_token:
  "functest_token sample_functest (random_port sample_functest sample_flags) = Token ''t''"
  unfolding sample_port
  by (simp add: functest_token_def sample_flags_sel jwt_Create_def sample_functest_def
      UUID_New_new_bytes)

lemma sample_machine:
  "embedded_machine sample_functest (random_port sample_functest sample_flags)
     (clocked (\<lambda>cenv. serve (mem_driver migrated_disk) sample_verify cenv [0])) sample_supply"
  unfolding sample_port
  by (simp add: embedded_machine_def sample_functest_def live_net_dials
      field_env_delivers field_env_agrees sample_conn_def on_mem_disk)

lemma sample_documented: "documented sample_functest config"
  by (simp add: documented_def sample_functest_def field_env_checks)

lemma sample_functest_sel:
  "se_rorder (fe_serve sample_functest) = routeMap" "se_gorder (fe_serve sample_functest) = [''GET'', ''POST'']"
  "good_draw (fe_draw1 sample_functest)" "good_draw (fe_draw2 sample_functest)"
  by (simp_all add: sample_functest_def sample_draw)


section \<open>migrate\<close>

text \<open>
  What the operator has to say before anything is erased: the flag, and then the flag that skips the
  question, an environment of continuous integration, or an answer with a y in it, small or capital.
\<close>

definition consents :: "migrate_env \<Rightarrow> globals \<Rightarrow> bool" where
  "consents env g \<longleftrightarrow> g_sqliteMigrateFlush g \<and>
     (g_migrateSkipPrompt g \<or> me_CI env \<noteq> [] \<or> Contains (ToLower (me_answer env)) ''y'')"

lemma askIsOK_consents: "g_sqliteMigrateFlush g \<Longrightarrow> \<not> g_migrateSkipPrompt g \<Longrightarrow> snd (askIsOK env m) = consents env g"
  by (simp add: askIsOK_def consents_def)

lemma Flush_empties:
  assumes "sql_store drv rows base up ord" and "gorm_Open drv dsn = Inr d" and "up d"
  shows "\<exists>d'. Flush drv dsn = (None, Some d') \<and> rows d' = []"
proof -
  obtain e d' where x: "d_exec drv (SqlDelete [] []) d = (e, d')" by fastforce
  with sql_store.delete_up [OF assms(1,3), of "[]"] have e: "e = None" by simp
  with sql_store.delete_effect [OF assms(1)] x have "rows d' = []"
    by (force simp: delete_rows_def conds_hold_def)
  with x e assms(2) show ?thesis by (simp add: Flush_def sqliteModels_def)
qed

lemma fun_upd_same_iff [simp]: "f(x := a) = f(x := b) \<longleftrightarrow> a = b"
  by (metis fun_upd_same)

text \<open>
  C39: \<open>migrate\<close> keeps every row of the database unless the operator has consented to erase them, and
  then erases them all and says so; it always leaves the schema migrated first, ends with status 0
  when the database answers, and never touches another data source. Without a data source it
  touches nothing.
\<close>

theorem migrate_erases_only_with_consent:
  assumes "\<And>disk. migrating_store (on_disk drv disk) rows base up ord"
    and "\<And>d. up d \<Longrightarrow> d_ping drv d = None"
    and "disk (g_sqliteMigrateDataSourceName g) = Inr d" and "up d"
  shows "if g_sqliteMigrateDataSourceName g = [] then snd (migrateSchema env drv g disk) = disk
    else \<exists>out d'. migrateSchema env drv g disk =
        ((out, Exit 0), disk(g_sqliteMigrateDataSourceName g := Inr d')) \<and>
      rows d' = (if consents env g then [] else rows d) \<and>
      (Printed (''Sqlite database is flushed'' @ newline) \<in> set out \<longleftrightarrow> consents env g)"
proof (cases "g_sqliteMigrateDataSourceName g = []")
  case True
  then show ?thesis by (simp add: migrateSchema_def Let_def)
next
  case False
  let ?dsn = "g_sqliteMigrateDataSourceName g" and ?d1 = "d_auto_migrate drv d"
  let ?disk1 = "disk(?dsn := Inr ?d1)"
  note M = assms(1) [of disk] and S = migrating_store.axioms(1) [OF assms(1)]
  have o: "gorm_Open (on_disk drv disk) ?dsn = Inr d"
    using assms(2-4) by (simp add: gorm_Open_def on_disk_def)
  have up1: "up ?d1" and rows1: "rows ?d1 = rows d"
    using migrating_store.migrate_up [OF M, of d] migrating_store.migrate_rows [OF M, of d]
    by (simp_all add: on_disk_def)
  have m: "MigrateSchema (on_disk drv disk) ?dsn = (None, Some ?d1)"
    using o migrating_store.migrate_table [OF M, of d]
    by (simp add: MigrateSchema_def sqliteModels_def TableName_def on_disk_def Let_def)
  have "gorm_Open (on_disk drv ?disk1) ?dsn = Inr ?d1"
    using assms(2) up1 by (simp add: gorm_Open_def on_disk_def)
  from Flush_empties [OF S this up1] obtain d2 where
    f: "Flush (on_disk drv ?disk1) ?dsn = (None, Some d2)" "rows d2 = []" by blast
  have said: "Printed (''Sqlite database is flushed'' @ newline) \<notin> set (log_setting_effects g)"
    "Printed (''Sqlite database is flushed'' @ newline) \<notin>
      set (fst (askIsOK env ''Are you sure you want flush sqlite data ?''))"
    by (simp_all add: log_setting_effects_def askIsOK_def Let_def)
  show ?thesis
  proof (cases "g_sqliteMigrateFlush g \<and> \<not> g_migrateSkipPrompt g")
    case True
    obtain out2 ok where a: "askIsOK env ''Are you sure you want flush sqlite data ?'' = (out2, ok)" by fastforce
    have ok: "ok = consents env g" using askIsOK_consents [of g env] True a by (metis snd_conv)
    show ?thesis
      using False True said by (simp add: migrateSchema_def m store_def a ok f rows1 Let_def)
  next
    case no_prompt: False
    then have "consents env g = g_sqliteMigrateFlush g" by (auto simp: consents_def)
    then show ?thesis
      using False no_prompt said by (simp add: migrateSchema_def m store_def f rows1 Let_def)
  qed
qed

definition flush_flags :: globals where
  "flush_flags = apply_flags migrate_flags
     [(''sqlite-flush-data'', VBool True), (''sqlite-dsn'', VString ''old'')] initial_globals"

lemma flush_flags_sel:
  "g_sqliteMigrateFlush flush_flags" "g_migrateSkipPrompt flush_flags = False"
  "g_sqliteMigrateDataSourceName flush_flags = ''old''"
  by (simp_all add: flush_flags_def apply_flags_def migrate_flags_def flag_defs zero_globals_def)

definition sample_operator :: "string \<Rightarrow> migrate_env" where
  "sample_operator answer =
     \<lparr>me_CI = [], me_answer = answer, me_yellow = id, me_cyan = id, me_quote = id, me_scan = (\<lambda>_. [])\<rparr>"

text \<open>The answer \<open>Not today\<close> has a y in it and erases the row; the answer \<open>no\<close> keeps it.\<close>

theorem migrate_erases_only_with_consent_witness:
  "(\<exists>out d'. migrateSchema (sample_operator ''Not today'') (mem_driver fresh_disk) flush_flags fresh_disk =
      ((out, Exit 0), fresh_disk(''old'' := Inr d')) \<and> m_rows d' = []) \<and>
   (\<exists>out d'. migrateSchema (sample_operator ''no'') (mem_driver fresh_disk) flush_flags fresh_disk =
      ((out, Exit 0), fresh_disk(''old'' := Inr d')) \<and> m_rows d' = m_rows sample_mem)"
proof -
  have y: "consents (sample_operator ''Not today'') flush_flags" "\<not> consents (sample_operator ''no'') flush_flags"
    by (simp_all add: consents_def flush_flags_sel sample_operator_def) (code_simp, code_simp)
  note h = migrate_erases_only_with_consent [where drv = "mem_driver fresh_disk" and g = flush_flags and
      disk = fresh_disk and d = sample_mem, unfolded on_mem_disk, OF mem_migrating.migrating_store_axioms]
  from h [of "sample_operator ''Not today''"] h [of "sample_operator ''no''"] show ?thesis
    by (simp add: y flush_flags_sel fresh_disk_def) blast
qed

section \<open>console\<close>

text \<open>The readings that leave the loop, and those that hand a line to the interpreter.\<close>

definition leaves :: "reading \<Rightarrow> bool" where
  "leaves r \<longleftrightarrow> (case r of
       (line, Some ErrInterrupt) \<Rightarrow> line = []
     | (line, Some ErrEOF) \<Rightarrow> True
     | (line, _) \<Rightarrow> TrimSpace line = ''exit'')"

definition typed_line :: "reading \<Rightarrow> string option" where
  "typed_line r =
     (if snd r = Some ErrInterrupt \<or> TrimSpace (fst r) = [] then None else Some (TrimSpace (fst r)))"

text \<open>
  The reference: the lines evaluated one after the other, up to the first that panics.
\<close>

fun eval_lines ::
  "cli_env \<Rightarrow> ((string \<times> ('c, 's) command) list \<Rightarrow> (string \<times> ('c, 's) command) list) \<Rightarrow>
   string list \<Rightarrow> ('c, 's) remoteCli \<Rightarrow> 's \<Rightarrow> exit_status \<times> ('c, 's) remoteCli \<times> 's" where
  "eval_lines env visit [] c s = (Exit 0, c, s)"
| "eval_lines env visit (l # ls) c s =
     (case Eval env visit c l s of
        (CmdPanic p, c1, s1) \<Rightarrow> (Crash p, c1, s1)
      | (_, c1, s1) \<Rightarrow> eval_lines env visit ls c1 s1)"

text \<open>
  A console ends. Once the operator leaves it - with \<open>exit\<close>, the end of the input or an
  interrupt on an empty line - the process has ended, whatever would be read after that: with
  status 0 when no command panicked, and having evaluated exactly the lines before, trimmed, in
  their order and without the empty and the interrupted ones.
\<close>

lemma console_ends:
  assumes "leaves r" and "\<not> list_ex leaves readings"
  shows "(case console_loop env visit (readings @ r # rest) c s of ((out, x), c', s') \<Rightarrow> (x, c', s')) =
    eval_lines env visit (List.map_filter typed_line readings) c s"
  using assms(2)
proof (induction readings arbitrary: c s)
  case Nil
  from assms(1) show ?case
    by (cases r) (auto simp: leaves_def map_filter_simps split: option.splits read_error.splits)
next
  case (Cons a readings)
  obtain line err where a: "a = (line, err)" by (cases a)
  have l: "\<not> leaves (line, err)" and rest: "\<not> list_ex leaves readings" using Cons.prems a by simp_all
  note IH = Cons.IH [OF rest]
  show ?case
  proof (cases "err = Some ErrInterrupt \<or> TrimSpace line = []")
    case True
    with l have "err \<noteq> Some ErrEOF" "err = Some ErrInterrupt \<longrightarrow> line \<noteq> []" by (auto simp: leaves_def)
    with True IH [of c s] show ?thesis
      by (auto simp: a typed_line_def map_filter_simps Let_def split: prod.split)
  next
    case False
    with l have "err \<noteq> Some ErrEOF" "TrimSpace line \<noteq> ''exit''"
      by (auto simp: leaves_def split: option.splits read_error.splits)
    moreover obtain res c1 s1 where "Eval env visit c (TrimSpace line) s = (res, c1, s1)"
      by (cases "Eval env visit c (TrimSpace line) s")
    moreover obtain out x c' s' where "console_loop env visit (readings @ r # rest) c1 s1 = ((out, x), c', s')"
      by (metis prod.exhaust)
    ultimately show ?thesis using False IH [of c1 s1]
      by (cases res) (simp_all add: a typed_line_def map_filter_simps Let_def)
  qed
qed

definition sample_readings :: "reading list" where
  "sample_readings = [(''abc'', Some ErrInterrupt), ('' console_version '', None), ([], None)]"

lemma console_ends_sample:
  "snd (fst (console_loop plain_env rev (sample_readings @ (''exit'', None) # [(''version'', None)]) sample_cli 0)) =
    Exit 0"
proof -
  have t: "TrimSpace ''abc'' = ''abc''" "TrimSpace '' console_version '' = ''console_version''" "TrimSpace [] = []"
    "TrimSpace ''exit'' = ''exit''" by (code_simp, code_simp, code_simp, code_simp)
  have e: "Eval plain_env rev sample_cli ''console_version'' 0 = (CmdOk ''Client Version: n-v'', sample_cli, 0)"
    by (simp add: Eval_def GetActionsMap_def GetExtraActionsMap_def HasPrefix_def cmdConsoleVersion_def sample_cli_def)
  show ?thesis
    using console_ends [of "(''exit'', None)" sample_readings plain_env rev "[(''version'', None)]" sample_cli 0]
    by (simp add: sample_readings_def leaves_def t typed_line_def map_filter_simps e split: prod.splits)
qed

text \<open>A variable that no flag but one writes keeps its value when that flag is not given.\<close>

lemma apply_flags_keeps:
  assumes "name \<notin> fst ` set given" and "\<And>f v g. f \<in> set fs \<Longrightarrow> fl_name f \<noteq> name \<Longrightarrow> sel (set_var (fl_var f) v g) = sel g"
  shows "sel (apply_flags fs given g) = sel g"
  using assms(1)
proof (induction given arbitrary: g)
  case (Cons a given)
  then have "find (\<lambda>f. fl_name f = fst a) fs = Some f \<Longrightarrow> f \<in> set fs \<and> fl_name f \<noteq> name" for f
    by (auto simp: find_Some_iff)
  with Cons assms(2) show ?case
    by (auto simp: apply_flags_def split: prod.splits option.splits)
qed (simp add: apply_flags_def)

lemma set_var_cases:
  "set_var (StringFlag u) v g = (case v of VString x \<Rightarrow> u (\<lambda>_. x) g | _ \<Rightarrow> g)"
  "set_var (IntFlag u') v g = (case v of VInt x \<Rightarrow> u' (\<lambda>_. x) g | _ \<Rightarrow> g)"
  "set_var (BoolFlag u'') v g = (case v of VBool x \<Rightarrow> u'' (\<lambda>_. x) g | _ \<Rightarrow> g)"
  by (cases v; simp)+

text \<open>
  The flags of every command can be registered, and a command starts from the defaults that were
  registered last: without its flag \<open>address\<close>, \<open>functest\<close> tests the address \<open>:13000\<close> that
  \<open>serve\<close> has registered, not the \<open>localhost:13000\<close> that its own flag documents; \<open>cli\<close> and
  \<open>console\<close> keep their own default.
\<close>

lemma flag_defaults:
  assumes "''address'' \<notin> fst ` set given"
  shows "list_all (\<lambda>(cmd, fs). flags_ok (fs @ root_flags)) commands \<and>
    find (\<lambda>f. fl_name f = ''address'') functest_flags =
      Some (StringVarP g_serverAddress_update ''address'' ''a'' ''localhost:13000'') \<and>
    g_serverAddress (apply_flags (functest_flags @ root_flags) given initial_globals) = '':13000'' \<and>
    g_cliAddress (apply_flags (cli_flags @ root_flags) given initial_globals) = ''localhost:13000'' \<and>
    g_consoleAddress (apply_flags (console_flags @ root_flags) given initial_globals) = ''localhost:13000''"
proof (intro conjI)
  show "list_all (\<lambda>(cmd, fs). flags_ok (fs @ root_flags)) commands" by code_simp
  show "find (\<lambda>f. fl_name f = ''address'') functest_flags =
      Some (StringVarP g_serverAddress_update ''address'' ''a'' ''localhost:13000'')"
    by (simp add: functest_flags_def flag_defs)
  show "g_serverAddress (apply_flags (functest_flags @ root_flags) given initial_globals) = '':13000''"
    by (rule trans [OF apply_flags_keeps [where sel = g_serverAddress, OF assms]]) (auto simp: functest_flags_def root_flags_def flag_defs set_var_cases
        split: flag_value.split)
  show "g_cliAddress (apply_flags (cli_flags @ root_flags) given initial_globals) = ''localhost:13000''"
    by (rule trans [OF apply_flags_keeps [where sel = g_cliAddress, OF assms]]) (auto simp: cli_flags_def root_flags_def flag_defs set_var_cases
        split: flag_value.split)
  show "g_consoleAddress (apply_flags (console_flags @ root_flags) given initial_globals) = ''localhost:13000''"
    by (rule trans [OF apply_flags_keeps [where sel = g_consoleAddress, OF assms]]) (auto simp: console_flags_def root_flags_def flag_defs set_var_cases
        split: flag_value.split)
qed

lemma flag_defaults_sample:
  "g_serverAddress (apply_flags (functest_flags @ root_flags) [(''timeout'', VInt 9)] initial_globals) = '':13000'' \<and>
   g_timeoutSeconds (apply_flags (functest_flags @ root_flags) [(''timeout'', VInt 9)] initial_globals) = 9"
  using flag_defaults [of "[(''timeout'', VInt 9)]"]
  by (simp add: apply_flags_def functest_flags_def flag_defs)

end
