(* ===== verification/Httprule.thy ===== *)
theory Httprule
  imports Gw_Pattern "HOL-Library.Char_ord"
begin

text \<open>
  Path templates: the generator of the gateway (\<open>protoc-gen-grpc-gateway/httprule\<close>) reads the
  templates of \<open>pb/www.proto\<close>, such as \<open>/api/v1/version\<close>, and compiles them into the programs of
  \<open>Gw_Pattern\<close> that it writes into \<open>pb/www.pb.gw.go\<close>. The texts of the errors are left out: an error
  is a constructor with what its text mentions. A template is a list of bytes; of a character outside
  ASCII an error keeps the first byte.
\<close>

section \<open>Templates\<close>

datatype segment = Wildcard | DeepWildcard | Literal string | Variable string "segment list"

record tmpl =
  tp_segments :: "segment list"
  tp_verb :: string
  tp_template :: string

fun segment_String :: "segment \<Rightarrow> string" where
  "segment_String Wildcard = ''*''"
| "segment_String DeepWildcard = ''**''"
| "segment_String (Literal l) = l"
| "segment_String (Variable path segs) =
     ''{'' @ path @ ''='' @ Join (List.map segment_String segs) ''/'' @ ''}''"

definition tmpl_String :: "tmpl \<Rightarrow> string" where
  "tmpl_String t =
     (let str = Join (List.map segment_String (tp_segments t)) ''/''
      in ''/'' @ (if tp_verb t \<noteq> [] then str @ '':'' @ tp_verb t else str))"

section \<open>Compiling\<close>

record raw_op =
  raw_code :: OpCode
  raw_str :: string
  raw_num :: int

fun OpCode_int :: "OpCode \<Rightarrow> int" where
  "OpCode_int OpNop = 0"
| "OpCode_int OpPush = 1"
| "OpCode_int OpLitPush = 2"
| "OpCode_int OpPushM = 3"
| "OpCode_int OpConcatN = 4"
| "OpCode_int OpCapture = 5"

fun compile :: "segment \<Rightarrow> raw_op list" where
  "compile Wildcard = [\<lparr>raw_code = OpPush, raw_str = [], raw_num = 0\<rparr>]"
| "compile DeepWildcard = [\<lparr>raw_code = OpPushM, raw_str = [], raw_num = 0\<rparr>]"
| "compile (Literal l) = [\<lparr>raw_code = OpLitPush, raw_str = l, raw_num = 0\<rparr>]"
| "compile (Variable path segs) =
     concat (List.map compile segs) @
     [\<lparr>raw_code = OpConcatN, raw_str = [], raw_num = int (length segs)\<rparr>,
      \<lparr>raw_code = OpCapture, raw_str = path, raw_num = 0\<rparr>]"

text \<open>The loop over the operations: the numbers, the pool, the index of each constant, the fields.\<close>

record compile_state =
  cp_ops :: "int list"
  cp_pool :: "string list"
  cp_consts :: "string \<Rightarrow> nat option"
  cp_fields :: "string list"

definition add_const :: "string \<Rightarrow> compile_state \<Rightarrow> compile_state" where
  "add_const s st =
     (case cp_consts st s of
        Some i \<Rightarrow> st
      | None \<Rightarrow> st\<lparr>cp_consts := (cp_consts st)(s \<mapsto> length (cp_pool st)), cp_pool := cp_pool st @ [s]\<rparr>)"

definition compile_op :: "raw_op \<Rightarrow> compile_state \<Rightarrow> compile_state" where
  "compile_op op st =
     (let st1 = (if raw_str op = [] then st\<lparr>cp_ops := cp_ops st @ [OpCode_int (raw_code op), raw_num op]\<rparr>
                 else (let st' = add_const (raw_str op) st
                       in st'\<lparr>cp_ops := cp_ops st' @
                            [OpCode_int (raw_code op), int (the (cp_consts st' (raw_str op)))]\<rparr>))
      in if raw_code op = OpCapture then st1\<lparr>cp_fields := cp_fields st1 @ [raw_str op]\<rparr> else st1)"

record Template =
  tm_Version :: int
  tm_OpCodes :: "int list"
  tm_Pool :: "string list"
  tm_Verb :: string
  tm_Fields :: "string list"
  tm_Template :: string

definition opcodeVersion :: int where
  "opcodeVersion = 1"

definition Compile :: "tmpl \<Rightarrow> Template" where
  "Compile t =
     (let st = fold compile_op (concat (List.map compile (tp_segments t)))
            \<lparr>cp_ops = [], cp_pool = [], cp_consts = Map.empty, cp_fields = []\<rparr>
      in \<lparr>tm_Version = opcodeVersion, tm_OpCodes = cp_ops st, tm_Pool = cp_pool st, tm_Verb = tp_verb t,
          tm_Fields = cp_fields st, tm_Template = tp_template t\<rparr>)"

section \<open>Tokens\<close>

fun IndexAny :: "string \<Rightarrow> string \<Rightarrow> nat option" where
  "IndexAny [] chars = None"
| "IndexAny (c # s) chars = (if c \<in> set chars then Some 0 else map_option Suc (IndexAny s chars))"

definition LastIndex :: "string \<Rightarrow> char \<Rightarrow> nat option" where
  "LastIndex s c = map_option (\<lambda>i. length s - 1 - i) (IndexAny (rev s) [c])"

lemma IndexAny_less: "IndexAny s chars = Some i \<Longrightarrow> i < length s \<and> s ! i \<in> set chars"
  by (induction s arbitrary: i) (auto split: if_splits)

datatype token_state = TkInit | TkField | TkNested

fun separators :: "token_state \<Rightarrow> string" where
  "separators TkInit = ''/{''"
| "separators TkField = ''.=}''"
| "separators TkNested = ''/}''"

definition next_state :: "char \<Rightarrow> token_state \<Rightarrow> token_state" where
  "next_state r st =
     (if r = CHR ''{'' then TkField else if r = CHR ''='' then TkNested
      else if r = CHR ''}'' then TkInit else st)"

function tokens_from :: "token_state \<Rightarrow> string \<Rightarrow> string list" where
  "tokens_from st path =
     (if path = [] then []
      else (case IndexAny path (separators st) of
              None \<Rightarrow> [path]
            | Some idx \<Rightarrow>
                (if idx = 0 then [[path ! idx]] else [take idx path, [path ! idx]]) @
                tokens_from (next_state (path ! idx) st) (drop (idx + 1) path)))"
  by pat_completeness auto
termination by (relation "measure (\<lambda>(st, path). length path)") auto

declare tokens_from.simps [simp del]

definition eof :: string where
  "eof = [CHR 0x00]"

definition tokenize :: "string \<Rightarrow> string list \<times> string" where
  "tokenize path =
     (if path = [] then ([eof], [])
      else
        (let tokens = tokens_from TkInit path; t = last tokens
         in case LastIndex t (CHR '':'') of
              None \<Rightarrow> (tokens @ [eof], [])
            | Some idx \<Rightarrow>
                if idx = 0 then (butlast tokens @ [eof], tl t)
                else (butlast tokens @ [take idx t] @ [eof], drop (idx + 1) t)))"

section \<open>Terminal symbols\<close>

datatype tmpl_error =
    ExpectedToken string string
  | ExpectedEOF string
  | EmptyIdentifier
  | StartsWithDigit string
  | InvalidIdentChar char string
  | InvalidHexdigit char
  | InvalidPathChar char
  | InvalidPercent string
  | NotASegment tmpl_error
  | InvalidSegmentIn string tmpl_error
  | Unterminated string
  | InvalidFieldPath tmpl_error
  | UnexpectedToken string string
  | NoLeadingSlash

definition isHexDigit :: "char \<Rightarrow> bool" where
  "isHexDigit r \<longleftrightarrow> CHR ''0'' \<le> r \<and> r \<le> CHR ''9'' \<or> CHR ''A'' \<le> r \<and> r \<le> CHR ''F'' \<or>
     CHR ''a'' \<le> r \<and> r \<le> CHR ''f''"

datatype pct_state = PctInit | Pct1 | Pct2

definition is_alnum :: "char \<Rightarrow> bool" where
  "is_alnum r \<longleftrightarrow> CHR ''A'' \<le> r \<and> r \<le> CHR ''Z'' \<or> CHR ''a'' \<le> r \<and> r \<le> CHR ''z'' \<or>
     CHR ''0'' \<le> r \<and> r \<le> CHR ''9''"

fun pchars_from :: "string \<Rightarrow> pct_state \<Rightarrow> string \<Rightarrow> tmpl_error option" where
  "pchars_from t st [] = (if st \<noteq> PctInit then Some (InvalidPercent t) else None)"
| "pchars_from t st (r # rs) =
     (if st \<noteq> PctInit then
        (if \<not> isHexDigit r then Some (InvalidHexdigit r)
         else pchars_from t (if st = Pct1 then Pct2 else PctInit) rs)
      else if is_alnum r then pchars_from t st rs
      else if r \<in> set ''-._~'' then pchars_from t st rs
      else if r \<in> set ''!$&()*+,;='' \<or> r = CHR 0x27 then pchars_from t st rs
      else if r = CHR '':'' \<or> r = CHR ''@'' then pchars_from t st rs
      else if r = CHR ''%'' then pchars_from t Pct1 rs
      else Some (InvalidPathChar r))"

definition expectPChars :: "string \<Rightarrow> tmpl_error option" where
  "expectPChars t = pchars_from t PctInit t"

fun ident_from :: "string \<Rightarrow> nat \<Rightarrow> string \<Rightarrow> tmpl_error option" where
  "ident_from ident pos [] = None"
| "ident_from ident pos (r # rs) =
     (if CHR ''0'' \<le> r \<and> r \<le> CHR ''9'' then
        (if pos = 0 then Some (StartsWithDigit ident) else ident_from ident (pos + 1) rs)
      else if is_alnum r then ident_from ident (pos + 1) rs
      else if r = CHR ''_'' then ident_from ident (pos + 1) rs
      else Some (InvalidIdentChar r ident))"

definition expectIdent :: "string \<Rightarrow> tmpl_error option" where
  "expectIdent ident = (if ident = [] then Some EmptyIdentifier else ident_from ident 0 ident)"

section \<open>The parser\<close>

record parser =
  ps_tokens :: "string list"
  ps_accepted :: "string list"

text \<open>
  What a function of the parser comes to: a value and the parser after it, an error, a panic (there
  is no token to look at) or no more fuel.
\<close>

datatype 'a parsed = POk 'a parser | PErr tmpl_error | PPanic | POut

fun p_bind :: "'a parsed \<Rightarrow> ('a \<Rightarrow> parser \<Rightarrow> 'b parsed) \<Rightarrow> 'b parsed" where
  "p_bind (POk x p) f = f x p"
| "p_bind (PErr e) f = PErr e"
| "p_bind PPanic f = PPanic"
| "p_bind POut f = POut"

fun p_else :: "'a parsed \<Rightarrow> 'a parsed \<Rightarrow> 'a parsed" where
  "p_else (PErr e) y = y"
| "p_else x y = x"

fun p_wrap :: "(tmpl_error \<Rightarrow> tmpl_error) \<Rightarrow> 'a parsed \<Rightarrow> 'a parsed" where
  "p_wrap f (PErr e) = PErr (f e)"
| "p_wrap f x = x"

datatype termType = TSym string | TIdent | TLiteral | TEOF

definition mismatch :: "termType \<Rightarrow> string \<Rightarrow> tmpl_error option" where
  "mismatch t tok =
     (case t of
        TSym s \<Rightarrow> if tok \<noteq> s then Some (ExpectedToken s tok) else None
      | TEOF \<Rightarrow> if tok \<noteq> eof then Some (ExpectedEOF tok) else None
      | TIdent \<Rightarrow> expectIdent tok
      | TLiteral \<Rightarrow> expectPChars tok)"

definition accept :: "termType \<Rightarrow> parser \<Rightarrow> string parsed" where
  "accept t p =
     (case ps_tokens p of
        [] \<Rightarrow> PPanic
      | tok # rest \<Rightarrow>
          (case mismatch t tok of
             Some e \<Rightarrow> PErr e
           | None \<Rightarrow> POk tok (p\<lparr>ps_tokens := rest, ps_accepted := ps_accepted p @ [tok]\<rparr>)))"

definition p_literal :: "parser \<Rightarrow> segment parsed" where
  "p_literal p = p_bind (accept TLiteral p) (\<lambda>lit. POk (Literal lit))"

text \<open>The loops and the nesting run on fuel; see \<open>parse_fuel\<close> for what is enough.\<close>

fun path_more :: "nat \<Rightarrow> string list \<Rightarrow> parser \<Rightarrow> string parsed" where
  "path_more 0 components p = POut"
| "path_more (Suc n) components p =
     (case accept (TSym ''.'') p of
        PErr _ \<Rightarrow> POk (Join components ''.'') p
      | POk _ p1 \<Rightarrow> p_bind (p_wrap InvalidFieldPath (accept TIdent p1)) (\<lambda>c. path_more n (components @ [c]))
      | PPanic \<Rightarrow> PPanic
      | POut \<Rightarrow> POut)"

definition p_fieldPath :: "nat \<Rightarrow> parser \<Rightarrow> string parsed" where
  "p_fieldPath n p = p_bind (accept TIdent p) (\<lambda>c. path_more n [c])"

fun p_segment :: "nat \<Rightarrow> parser \<Rightarrow> segment parsed"
and p_variable :: "nat \<Rightarrow> parser \<Rightarrow> segment parsed"
and p_segments :: "nat \<Rightarrow> parser \<Rightarrow> segment list parsed"
and p_more :: "nat \<Rightarrow> segment list \<Rightarrow> parser \<Rightarrow> segment list parsed" where
  "p_segment 0 p = POut"
| "p_segment (Suc n) p =
     p_else (p_bind (accept (TSym ''*'') p) (\<lambda>_. POk Wildcard))
       (p_else (p_bind (accept (TSym ''**'') p) (\<lambda>_. POk DeepWildcard))
         (p_else (p_literal p) (p_wrap NotASegment (p_variable n p))))"
| "p_variable 0 p = POut"
| "p_variable (Suc n) p =
     p_bind (accept (TSym ''{'') p) (\<lambda>_ p1.
     p_bind (p_fieldPath n p1) (\<lambda>path p2.
     p_bind (case accept (TSym ''='') p2 of
               POk _ p3 \<Rightarrow> p_wrap (InvalidSegmentIn path) (p_segments n p3)
             | PErr _ \<Rightarrow> POk [Wildcard] p2
             | PPanic \<Rightarrow> PPanic
             | POut \<Rightarrow> POut) (\<lambda>segs p4.
     p_bind (p_wrap (\<lambda>_. Unterminated path) (accept (TSym ''}'') p4)) (\<lambda>_.
     POk (Variable path segs)))))"
| "p_segments 0 p = POut"
| "p_segments (Suc n) p = p_bind (p_segment n p) (\<lambda>s. p_more n [s])"
| "p_more 0 segs p = POut"
| "p_more (Suc n) segs p =
     (case accept (TSym ''/'') p of
        PErr _ \<Rightarrow> POk segs p
      | POk _ p1 \<Rightarrow> p_bind (p_segment n p1) (\<lambda>s. p_more n (segs @ [s]))
      | PPanic \<Rightarrow> PPanic
      | POut \<Rightarrow> POut)"

definition p_topLevel :: "nat \<Rightarrow> parser \<Rightarrow> segment list parsed" where
  "p_topLevel n p =
     p_bind (p_segments n p) (\<lambda>segs p1.
       case accept TEOF p1 of
         POk _ p2 \<Rightarrow> POk segs p2
       | PErr _ \<Rightarrow> PErr (UnexpectedToken (hd (ps_tokens p1)) (Join (ps_accepted p1) []))
       | PPanic \<Rightarrow> PPanic
       | POut \<Rightarrow> POut)"

definition parse_fuel :: "string list \<Rightarrow> nat" where
  "parse_fuel tokens = 4 * length tokens + 4"

text \<open>\<open>Parse\<close>; the template itself is part of every error and left out of it.\<close>

datatype parse_result = ParseOk tmpl | ParseErr tmpl_error | ParsePanic | ParseOut

definition Parse_tmpl :: "string \<Rightarrow> parse_result" where
  "Parse_tmpl tmpl =
     (if \<not> HasPrefix tmpl ''/'' then ParseErr NoLeadingSlash
      else
        (case tokenize (tl tmpl) of
           (tokens, verb) \<Rightarrow>
             (case p_topLevel (parse_fuel tokens) \<lparr>ps_tokens = tokens, ps_accepted = []\<rparr> of
                POk segs _ \<Rightarrow> ParseOk \<lparr>tp_segments = segs, tp_verb = verb, tp_template = tmpl\<rparr>
              | PErr e \<Rightarrow> ParseErr e
              | PPanic \<Rightarrow> ParsePanic
              | POut \<Rightarrow> ParseOut)))"

end
