(* ===== verification/Httprule_Props.thy ===== *)
theory Httprule_Props
  imports Httprule
begin

text \<open>
  The compiler of path templates is correct: reading a template always returns, and the program
  compiled from it accepts exactly the paths that the template describes, with the bindings it
  describes.
\<close>

section \<open>The parser returns\<close>

text \<open>A parser that has something to look at: its last token is the end, and no token is empty.\<close>

definition ptok :: "parser \<Rightarrow> bool" where
  "ptok p \<longleftrightarrow> ps_tokens p \<noteq> [] \<and> last (ps_tokens p) = eof \<and> [] \<notin> set (ps_tokens p)"

abbreviation ntok :: "parser \<Rightarrow> nat" where
  "ntok p \<equiv> length (ps_tokens p)"

lemma ptok_pos: "ptok p \<Longrightarrow> 0 < ntok p"
  by (auto simp: ptok_def)

text \<open>A result that is an error, or a good value with at most \<open>k\<close> tokens left.\<close>

definition goes :: "('a \<Rightarrow> bool) \<Rightarrow> nat \<Rightarrow> 'a parsed \<Rightarrow> bool" where
  "goes Q k r \<longleftrightarrow>
     (case r of POk x p \<Rightarrow> ptok p \<and> ntok p \<le> k \<and> Q x | PErr _ \<Rightarrow> True | PPanic \<Rightarrow> False | POut \<Rightarrow> False)"

lemma goes_simps [simp]:
  "goes Q k (POk x p) \<longleftrightarrow> ptok p \<and> ntok p \<le> k \<and> Q x" "goes Q k (PErr e)" "\<not> goes Q k PPanic" "\<not> goes Q k POut"
  by (simp_all add: goes_def)

lemma goes_mono: "goes Q k r \<Longrightarrow> k \<le> k' \<Longrightarrow> goes Q k' r"
  by (cases r) auto

lemma goes_bind:
  assumes "goes Q k r" and "\<And>x p. Q x \<Longrightarrow> ptok p \<Longrightarrow> ntok p \<le> k \<Longrightarrow> goes Q' k' (f x p)"
  shows "goes Q' k' (p_bind r f)"
  using assms by (cases r) auto

lemma goes_else: "goes Q k r \<Longrightarrow> goes Q k r' \<Longrightarrow> goes Q k (p_else r r')"
  by (cases r) auto

lemma goes_wrap: "goes Q k (p_wrap f r) = goes Q k r"
  by (cases r) auto

lemma goes_case:
  assumes "goes Q k r" and "\<And>e. goes Q' k' (g e)"
    and "\<And>x p. Q x \<Longrightarrow> ptok p \<Longrightarrow> ntok p \<le> k \<Longrightarrow> goes Q' k' (f x p)"
  shows "goes Q' k' (case r of POk x p \<Rightarrow> f x p | PErr e \<Rightarrow> g e | PPanic \<Rightarrow> PPanic | POut \<Rightarrow> POut)"
  using assms by (cases r) auto

lemma goes_accept:
  assumes "ptok p" and "t \<noteq> TEOF" and "t \<noteq> TSym eof"
  shows "goes (\<lambda>tok. tok \<noteq> []) (ntok p - 1) (accept t p)"
proof -
  obtain tok rest where p: "ps_tokens p = tok # rest" using assms(1) by (cases "ps_tokens p") (auto simp: ptok_def)
  have "mismatch t eof \<noteq> None"
    using assms(2,3)
    by (cases t) (auto simp: mismatch_def expectIdent_def expectPChars_def eof_def is_alnum_def less_eq_char_def)
  then have "mismatch t tok = None \<Longrightarrow> rest \<noteq> []"
    using assms(1) p by (auto simp: ptok_def)
  with assms(1) p show ?thesis
    by (auto simp: accept_def ptok_def split: option.split)
qed

lemma sym_not_eof: "TSym ''*'' \<noteq> TSym eof" "TSym ''**'' \<noteq> TSym eof" "TSym ''.'' \<noteq> TSym eof"
  "TSym ''='' \<noteq> TSym eof" "TSym ''{'' \<noteq> TSym eof" "TSym ''}'' \<noteq> TSym eof" "TSym ''/'' \<noteq> TSym eof"
  by (simp_all add: eof_def)

lemmas goes_sym = goes_accept [OF _ _ sym_not_eof(1)] goes_accept [OF _ _ sym_not_eof(2)]
  goes_accept [OF _ _ sym_not_eof(3)] goes_accept [OF _ _ sym_not_eof(4)] goes_accept [OF _ _ sym_not_eof(5)]
  goes_accept [OF _ _ sym_not_eof(6)] goes_accept [OF _ _ sym_not_eof(7)]

text \<open>The segments that the parser builds.\<close>

fun wf_segment :: "segment \<Rightarrow> bool" where
  "wf_segment (Literal l) \<longleftrightarrow> l \<noteq> []"
| "wf_segment (Variable path segs) \<longleftrightarrow> path \<noteq> [] \<and> segs \<noteq> [] \<and> list_all wf_segment segs"
| "wf_segment _ \<longleftrightarrow> True"

definition wf_segments :: "segment list \<Rightarrow> bool" where
  "wf_segments segs \<longleftrightarrow> segs \<noteq> [] \<and> list_all wf_segment segs"

lemma Join_nonempty: "xs \<noteq> [] \<Longrightarrow> [] \<notin> set xs \<Longrightarrow> Join xs sep \<noteq> []"
  by (induction xs sep rule: Join.induct) auto

lemma path_more_goes:
  assumes "ptok p" and "ntok p < n" and "cs \<noteq> []" and "[] \<notin> set cs"
  shows "goes (\<lambda>path. path \<noteq> []) (ntok p) (path_more n cs p)"
  using assms
proof (induction n arbitrary: cs p)
  case (Suc n)
  show ?case
    unfolding path_more.simps
  proof (rule goes_case [OF goes_sym(3)])
    fix tok p1
    assume p1: "ptok p1" "ntok p1 \<le> ntok p - 1"
    show "goes (\<lambda>path. path \<noteq> []) (ntok p)
        (p_bind (p_wrap InvalidFieldPath (accept TIdent p1)) (\<lambda>c. path_more n (cs @ [c])))"
    proof (rule goes_bind [where Q = "\<lambda>tok. tok \<noteq> []" and k = "ntok p1 - 1"])
      show "goes (\<lambda>tok. tok \<noteq> []) (ntok p1 - 1) (p_wrap InvalidFieldPath (accept TIdent p1))"
        unfolding goes_wrap by (rule goes_accept) (simp_all add: p1)
    next
      fix c :: string and p2
      assume p2: "c \<noteq> []" "ptok p2" "ntok p2 \<le> ntok p1 - 1"
      then have "ntok p2 < n" "ntok p2 \<le> ntok p"
        using p1 Suc.prems(2) ptok_pos [OF p1(1)] by linarith+
      with p2 p1 Suc.prems show "goes (\<lambda>path. path \<noteq> []) (ntok p) (path_more n (cs @ [c]) p2)"
        by (intro goes_mono [OF Suc.IH]) auto
    qed
  qed (use Suc.prems Join_nonempty in auto)
qed simp

text \<open>The four functions with \<open>n\<close> units of fuel.\<close>

definition fueled :: "nat \<Rightarrow> bool" where
  "fueled n \<longleftrightarrow> (\<forall>p. ptok p \<longrightarrow>
     (4 * ntok p + 2 \<le> n \<longrightarrow> goes wf_segment (ntok p - 1) (p_segment n p)) \<and>
     (4 * ntok p + 1 \<le> n \<longrightarrow> goes wf_segment (ntok p - 1) (p_variable n p)) \<and>
     (4 * ntok p + 3 \<le> n \<longrightarrow> goes wf_segments (ntok p - 1) (p_segments n p)) \<and>
     (\<forall>segs. 4 * ntok p + 1 \<le> n \<longrightarrow> wf_segments segs \<longrightarrow> goes wf_segments (ntok p) (p_more n segs p)))"

lemma fueledD:
  assumes "fueled n" and "ptok p"
  shows "4 * ntok p + 2 \<le> n \<Longrightarrow> goes wf_segment (ntok p - 1) (p_segment n p)"
    and "4 * ntok p + 1 \<le> n \<Longrightarrow> goes wf_segment (ntok p - 1) (p_variable n p)"
    and "4 * ntok p + 3 \<le> n \<Longrightarrow> goes wf_segments (ntok p - 1) (p_segments n p)"
    and "4 * ntok p + 1 \<le> n \<Longrightarrow> wf_segments segs \<Longrightarrow> goes wf_segments (ntok p) (p_more n segs p)"
  using assms unfolding fueled_def by blast+

lemma segment_goes:
  assumes "fueled n" and "ptok p" and "4 * ntok p + 2 \<le> Suc n"
  shows "goes wf_segment (ntok p - 1) (p_segment (Suc n) p)"
proof -
  have v: "goes wf_segment (ntok p - 1) (p_wrap NotASegment (p_variable n p))"
    unfolding goes_wrap using assms by (intro fueledD(2)) auto
  have l: "goes wf_segment (ntok p - 1) (p_literal p)"
    unfolding p_literal_def by (rule goes_bind [OF goes_accept [OF assms(2)]]) auto
  have w: "goes wf_segment (ntok p - 1) (p_bind (accept (TSym ''*'') p) (\<lambda>_. POk Wildcard))"
    by (rule goes_bind [OF goes_sym(1) [OF assms(2)]]) auto
  have d: "goes wf_segment (ntok p - 1) (p_bind (accept (TSym ''**'') p) (\<lambda>_. POk DeepWildcard))"
    by (rule goes_bind [OF goes_sym(2) [OF assms(2)]]) auto
  from w d l v show ?thesis unfolding p_segment.simps by (intro goes_else)
qed

lemma variable_goes:
  assumes "fueled n" and "ptok p" and "4 * ntok p + 1 \<le> Suc n"
  shows "goes wf_segment (ntok p - 1) (p_variable (Suc n) p)"
  unfolding p_variable.simps
proof (rule goes_bind [OF goes_sym(5) [OF assms(2)]], simp)
  fix tok p1
  assume p1: "ptok p1" "ntok p1 \<le> ntok p - 1"
  have f: "goes (\<lambda>path. path \<noteq> []) (ntok p1 - 1) (p_fieldPath n p1)"
    unfolding p_fieldPath_def
  proof (rule goes_bind [OF goes_accept [OF p1(1)]])
    fix c :: string and p2
    assume p2: "c \<noteq> []" "ptok p2" "ntok p2 \<le> ntok p1 - 1"
    then have "ntok p2 < n" using p1 assms(3) ptok_pos [OF p1(1)] by linarith
    with p2
    show "goes (\<lambda>path. path \<noteq> []) (ntok p1 - 1) (path_more n [c] p2)"
      by (intro goes_mono [OF path_more_goes]) auto
  qed simp_all
  let ?segs = "\<lambda>path p2. case accept (TSym ''='') p2 of
      POk _ p3 \<Rightarrow> p_wrap (InvalidSegmentIn path) (p_segments n p3)
    | PErr _ \<Rightarrow> POk [Wildcard] p2 | PPanic \<Rightarrow> PPanic | POut \<Rightarrow> POut"
  let ?rest = "\<lambda>path segs p4. p_bind (p_wrap (\<lambda>_. Unterminated path) (accept (TSym ''}'') p4))
      (\<lambda>_. POk (Variable path segs))"
  show "goes wf_segment (ntok p - 1) (p_bind (p_fieldPath n p1) (\<lambda>path p2. p_bind (?segs path p2) (?rest path)))"
  proof (rule goes_bind [OF f])
    fix path :: string and p2
    assume p2: "path \<noteq> []" "ptok p2" "ntok p2 \<le> ntok p1 - 1"
    have s: "goes wf_segments (ntok p2) (?segs path p2)"
    proof (rule goes_case [OF goes_sym(4) [OF p2(2)]])
      fix t p3
      assume p3: "ptok p3" "ntok p3 \<le> ntok p2 - 1"
      then have "4 * ntok p3 + 3 \<le> n" using p1 p2(3) assms(3) ptok_pos [OF p1(1)] ptok_pos [OF p2(2)] by linarith
      with p3 assms(1)
      show "goes wf_segments (ntok p2) (p_wrap (InvalidSegmentIn path) (p_segments n p3))"
        unfolding goes_wrap by (intro goes_mono [OF fueledD(3)]) auto
    qed (use p2 in \<open>auto simp: wf_segments_def\<close>)
    show "goes wf_segment (ntok p - 1) (p_bind (?segs path p2) (?rest path))"
    proof (rule goes_bind [OF s])
      fix segs p4
      assume p4: "wf_segments segs" "ptok p4" "ntok p4 \<le> ntok p2"
      show "goes wf_segment (ntok p - 1) (?rest path segs p4)"
      proof (rule goes_bind)
        show "goes (\<lambda>tok. tok \<noteq> []) (ntok p4 - 1) (p_wrap (\<lambda>_. Unterminated path) (accept (TSym ''}'') p4))"
          unfolding goes_wrap by (rule goes_sym(6) [OF p4(2)]) simp
      qed (use p1 p2 p4 in \<open>auto simp: wf_segments_def\<close>)
    qed
  qed
qed

lemma fueled_all: "fueled n"
proof (induction n)
  case (Suc n)
  have m: "goes wf_segments (ntok p) (p_more (Suc n) segs p)"
    if p: "ptok p" "4 * ntok p + 1 \<le> Suc n" and segs: "wf_segments segs" for p segs
    unfolding p_more.simps
  proof (rule goes_case [OF goes_sym(7) [OF p(1)]])
    fix t p1
    assume p1: "ptok p1" "ntok p1 \<le> ntok p - 1"
    show "goes wf_segments (ntok p) (p_bind (p_segment n p1) (\<lambda>s. p_more n (segs @ [s])))"
    proof (rule goes_bind [OF fueledD(1) [OF Suc p1(1)]])
      show "4 * ntok p1 + 2 \<le> n" using p(2) p1 ptok_pos [OF p(1)] by linarith
    next
      fix s p2
      assume p2: "wf_segment s" "ptok p2" "ntok p2 \<le> ntok p1 - 1"
      then have "4 * ntok p2 + 1 \<le> n" "ntok p2 \<le> ntok p"
        using p1 p(2) ptok_pos [OF p1(1)] by linarith+
      with p2 segs Suc show "goes wf_segments (ntok p) (p_more n (segs @ [s]) p2)"
        by (intro goes_mono [OF fueledD(4)]) (auto simp: wf_segments_def)
    qed
  qed (use p segs in auto)
  have a: "goes wf_segments (ntok p - 1) (p_segments (Suc n) p)"
    if p: "ptok p" "4 * ntok p + 3 \<le> Suc n" for p
    unfolding p_segments.simps
  proof (rule goes_bind [OF fueledD(1) [OF Suc p(1)]])
    fix s p1
    assume "wf_segment s" "ptok p1" "ntok p1 \<le> ntok p - 1"
    with p ptok_pos [OF p(1)] Suc show "goes wf_segments (ntok p - 1) (p_more n [s] p1)"
      by (intro goes_mono [OF fueledD(4)]) (auto simp: wf_segments_def)
  qed (use p in auto)
  show ?case
    unfolding fueled_def using segment_goes [OF Suc] variable_goes [OF Suc] a m by blast
qed (simp add: fueled_def)

text \<open>What \<open>tokenize\<close> hands over.\<close>

lemma tokens_from_nonempty: "[] \<notin> set (tokens_from st path)"
proof (induction st path rule: tokens_from.induct)
  case (1 st path)
  show ?case
  proof (cases "path = []")
    case False
    then show ?thesis
      using 1 IndexAny_less [of path "separators st"]
      by (subst tokens_from.simps) (auto split: option.split)
  qed (simp add: tokens_from.simps)
qed

lemma tokens_from_some: "path \<noteq> [] \<Longrightarrow> tokens_from st path \<noteq> []"
  by (subst tokens_from.simps) (auto split: option.split)

lemma tokenize_ptok:
  assumes "tokenize path = (tokens, verb)"
  shows "ptok \<lparr>ps_tokens = tokens, ps_accepted = []\<rparr>"
proof (cases "path = []")
  case False
  let ?ts = "tokens_from TkInit path"
  have ts: "?ts \<noteq> []" "[] \<notin> set ?ts" using tokens_from_some [OF False] tokens_from_nonempty by auto
  then have "set (butlast ?ts) \<subseteq> set ?ts" by (auto dest: in_set_butlastD)
  moreover have "last ?ts \<noteq> []" using last_in_set [OF ts(1)] ts(2) by metis
  moreover note ts
  ultimately have "tokens \<noteq> [] \<and> last tokens = eof \<and> [] \<notin> set tokens"
    using assms False
    by (auto simp: tokenize_def Let_def eof_def split: option.splits if_splits)
  then show ?thesis by (simp add: ptok_def)
qed (use assms in \<open>auto simp: tokenize_def ptok_def eof_def\<close>)

lemma Parse_tmpl_cases:
  "(\<exists>e. Parse_tmpl src = ParseErr e) \<or>
   (\<exists>t. Parse_tmpl src = ParseOk t \<and> wf_segments (tp_segments t) \<and> tp_template t = src)"
proof -
  obtain tokens verb where t: "tokenize (tl src) = (tokens, verb)" by fastforce
  let ?p = "\<lparr>ps_tokens = tokens, ps_accepted = []\<rparr>"
  have p: "ptok ?p" using tokenize_ptok [OF t] .
  have "goes wf_segments (ntok ?p - 1) (p_segments (parse_fuel tokens) ?p)"
    by (rule fueledD(3) [OF fueled_all p]) (simp add: parse_fuel_def)
  then show ?thesis
    by (cases "p_segments (parse_fuel tokens) ?p")
      (auto simp: Parse_tmpl_def t p_topLevel_def accept_def ptok_def split: list.split option.split parsed.split)
qed

lemma Parse_tmpl_wf: "Parse_tmpl src = ParseOk t \<Longrightarrow> wf_segments (tp_segments t)"
  using Parse_tmpl_cases [of src] by auto

text \<open>
  C26: reading a path template always returns a template or an error: the parser never looks for a
  token after the last one, its fuel is enough for every text, and a template that it returns has at
  least one segment, with no empty literal, variable or group.
\<close>

theorem Parse_tmpl_returns:
  "(\<exists>e. Parse_tmpl src = ParseErr e) \<or>
   (\<exists>t. Parse_tmpl src = ParseOk t \<and> wf_segments (tp_segments t) \<and> tp_template t = src)"
  by (rule Parse_tmpl_cases)

end
