(* ===== verification/Httprule_Flat.thy ===== *)
theory Httprule_Flat
  imports Httprule_Props
begin

text \<open>
  Variables do not nest: the grammar of templates would let a variable stand inside a variable, but
  the tokens after the equals sign of a variable are cut at slashes and closing braces only, so an
  opening brace there is never followed by an identifier.
\<close>

text \<open>The segments that take a value of their own: all but the variables, which group them.\<close>

fun atoms_of :: "segment \<Rightarrow> segment list" where
  "atoms_of (Variable path segs) = segs"
| "atoms_of s = [s]"

definition atoms :: "segment list \<Rightarrow> segment list" where
  "atoms segs = concat (List.map atoms_of segs)"

definition is_var :: "segment \<Rightarrow> bool" where
  "is_var s \<longleftrightarrow> (\<exists>path segs. s = Variable path segs)"

text \<open>No variable inside a variable, as the syntax of templates asks for.\<close>

definition flat :: "segment list \<Rightarrow> bool" where
  "flat segs \<longleftrightarrow> list_all (\<lambda>s. \<not> is_var s) (atoms segs)"

lemma atoms_simps [simp]:
  "atoms [] = []" "atoms (s # segs) = atoms_of s @ atoms segs"
  by (simp_all add: atoms_def)

lemma flat_simps [simp]:
  "flat []" "flat (s # segs) \<longleftrightarrow> list_all (\<lambda>s. \<not> is_var s) (atoms_of s) \<and> flat segs"
  by (simp_all add: flat_def)

section \<open>Tokens of a state\<close>

text \<open>The state of \<open>tokenize\<close> behind a token.\<close>

definition after_token :: "string \<Rightarrow> token_state \<Rightarrow> token_state" where
  "after_token t st = (case t of [c] \<Rightarrow> if c \<in> set (separators st) then next_state c st else st | _ \<Rightarrow> st)"

text \<open>Tokens cut in a state: a brace after an equals sign comes before a separator or the end.\<close>

fun lexed :: "token_state \<Rightarrow> string list \<Rightarrow> bool" where
  "lexed st [] \<longleftrightarrow> True"
| "lexed st (t # ts) \<longleftrightarrow>
     (st = TkNested \<and> t = ''{'' \<and> ts \<noteq> [] \<longrightarrow> hd (hd ts) \<in> {CHR ''/'', CHR ''}'', CHR 0x00}) \<and>
     lexed (after_token t st) ts"

lemma lexed_single [simp]: "lexed st [t]"
  by simp

lemma lexed_append_eof: "lexed st xs \<Longrightarrow> lexed st (xs @ [eof])"
proof (induction xs arbitrary: st)
  case (Cons x xs)
  then show ?case by (cases xs) (auto simp: eof_def)
qed simp

lemma lexed_butlast: "lexed st xs \<Longrightarrow> lexed st (butlast xs)"
proof (induction xs arbitrary: st)
  case (Cons x xs)
  then show ?case by (cases xs) auto
qed simp

lemma lexed_shorten:
  "lexed st (xs @ [t]) \<Longrightarrow> 0 < i \<Longrightarrow> t \<noteq> [] \<Longrightarrow> lexed st (xs @ [take i t])"
proof (induction xs arbitrary: st)
  case (Cons x xs)
  then show ?case by (cases xs) (auto simp: hd_take)
qed simp

lemma no_separator:
  "IndexAny s chars = None \<Longrightarrow> set s \<inter> set chars = {}"
  "IndexAny s chars = Some i \<Longrightarrow> set (take i s) \<inter> set chars = {}"
  by (induction s arbitrary: i) (auto split: if_splits)

lemma after_piece: "set t \<inter> set (separators st) = {} \<Longrightarrow> after_token t st = st"
  by (auto simp: after_token_def split: list.split)

lemma after_separator: "c \<in> set (separators st) \<Longrightarrow> after_token [c] st = next_state c st"
  by (simp add: after_token_def)

lemma lexed_separator: "c \<in> set (separators st) \<Longrightarrow> lexed (next_state c st) ts \<Longrightarrow> lexed st ([c] # ts)"
  by (cases st) (auto simp: after_separator)

lemma lexed_piece:
  "set t \<inter> set (separators st) = {} \<Longrightarrow> c \<in> set (separators st) \<Longrightarrow> lexed st ([c] # ts) \<Longrightarrow>
   lexed st (t # [c] # ts)"
  by (cases st) (auto simp: after_piece)

lemma lexed_tokens_from: "lexed st (tokens_from st path)"
proof (induction st path rule: tokens_from.induct)
  case (1 st path)
  show ?case
  proof (cases "IndexAny path (separators st)")
    case None
    then show ?thesis by (simp add: tokens_from.simps [of st path])
  next
    case (Some i)
    let ?rest = "tokens_from (next_state (path ! i) st) (drop (i + 1) path)"
    have ne: "path \<noteq> []" using Some by auto
    have c: "path ! i \<in> set (separators st)" using IndexAny_less [OF Some] by simp
    have l: "lexed st ([path ! i] # ?rest)" by (rule lexed_separator [OF c 1 [OF ne Some]])
    have "lexed st (take i path # [path ! i] # ?rest)"
      by (rule lexed_piece [OF no_separator(2) [OF Some] c l])
    moreover have "tokens_from st path = (if i = 0 then [] else [take i path]) @ [path ! i] # ?rest"
      using Some ne by (simp add: tokens_from.simps [of st path])
    ultimately show ?thesis using l by (cases "i = 0") (simp_all del: lexed.simps)
  qed
qed

lemma lexed_tokenize:
  assumes "tokenize path = (tokens, verb)"
  shows "lexed TkInit tokens"
proof (cases "path = []")
  case False
  let ?ts = "tokens_from TkInit path"
  have n: "?ts \<noteq> []" using tokens_from_some [OF False] .
  have l: "last ?ts \<noteq> []" using last_in_set [OF n] tokens_from_nonempty [of TkInit path] by auto
  have b: "lexed TkInit (butlast ?ts @ [last ?ts])" using n lexed_tokens_from by simp
  have "lexed TkInit (butlast ?ts @ [take i (last ?ts), eof])" if "0 < i" for i
    using lexed_append_eof [OF lexed_shorten [OF b that l]] by simp
  with assms False show ?thesis
    by (auto simp: tokenize_def Let_def lexed_append_eof lexed_butlast lexed_tokens_from split: option.splits if_splits)
qed (use assms in \<open>auto simp: tokenize_def\<close>)

section \<open>The parser on such tokens\<close>

text \<open>A result, if it is a value, leaves the tokens of a state.\<close>

definition lands :: "token_state set \<Rightarrow> ('a \<Rightarrow> bool) \<Rightarrow> 'a parsed \<Rightarrow> bool" where
  "lands S Q r \<longleftrightarrow> (case r of POk x p \<Rightarrow> (\<exists>st\<in>S. lexed st (ps_tokens p)) \<and> Q x | _ \<Rightarrow> True)"

lemma lands_simps [simp]:
  "lands S Q (POk x p) \<longleftrightarrow> (\<exists>st\<in>S. lexed st (ps_tokens p)) \<and> Q x" "lands S Q (PErr e)" "lands S Q PPanic"
  "lands S Q POut"
  by (simp_all add: lands_def)

lemma lands_bind:
  assumes "lands S Q r" and "\<And>x p st. Q x \<Longrightarrow> st \<in> S \<Longrightarrow> lexed st (ps_tokens p) \<Longrightarrow> lands S' Q' (f x p)"
  shows "lands S' Q' (p_bind r f)"
  using assms by (cases r) auto

lemma lands_else: "lands S Q r \<Longrightarrow> lands S Q r' \<Longrightarrow> lands S Q (p_else r r')"
  by (cases r) auto

lemma lands_wrap: "lands S Q (p_wrap f r) = lands S Q r"
  by (cases r) auto

lemma lands_case:
  assumes "lands S Q r" and "\<And>e. lands S' Q' (g e)"
    and "\<And>x p st. Q x \<Longrightarrow> st \<in> S \<Longrightarrow> lexed st (ps_tokens p) \<Longrightarrow> lands S' Q' (f x p)"
  shows "lands S' Q' (case r of POk x p \<Rightarrow> f x p | PErr e \<Rightarrow> g e | PPanic \<Rightarrow> PPanic | POut \<Rightarrow> POut)"
  using assms by (cases r) auto

lemma lands_accept:
  assumes "lexed st (ps_tokens p)" and "\<And>tok. mismatch t tok = None \<Longrightarrow> after_token tok st \<in> S"
  shows "lands S (\<lambda>tok. mismatch t tok = None) (accept t p)"
  using assms by (auto simp: accept_def split: list.split option.split)

lemma lands_mono: "lands S Q r \<Longrightarrow> S \<subseteq> S' \<Longrightarrow> (\<And>x. Q x \<Longrightarrow> Q' x) \<Longrightarrow> lands S' Q' r"
  by (cases r) auto

lemma mismatch_sym [simp]: "mismatch (TSym s) tok = None \<longleftrightarrow> tok = s"
  by (simp add: mismatch_def)

lemma after_literal: "mismatch TLiteral tok = None \<Longrightarrow> st \<noteq> TkField \<Longrightarrow> after_token tok st = st"
  by (cases st) (auto simp: mismatch_def expectPChars_def after_token_def is_alnum_def less_eq_char_def
      split: list.split if_splits)

lemma after_ident: "mismatch TIdent tok = None \<Longrightarrow> after_token tok TkField = TkField"
  by (auto simp: mismatch_def expectIdent_def after_token_def is_alnum_def less_eq_char_def
      split: list.split if_splits)

lemma not_ident: "hd tok \<in> {CHR ''/'', CHR ''}'', CHR 0x00} \<Longrightarrow> mismatch TIdent tok \<noteq> None"
  by (cases tok) (auto simp: mismatch_def expectIdent_def is_alnum_def less_eq_char_def)

text \<open>What a segment may be: outside a variable, one that holds no variable; inside, no variable.\<close>

definition fine :: "token_state \<Rightarrow> segment \<Rightarrow> bool" where
  "fine st s \<longleftrightarrow> (if st = TkInit then list_all (\<lambda>s. \<not> is_var s) (atoms_of s) else \<not> is_var s)"

lemma fine_simps [simp]:
  "fine st Wildcard" "fine st DeepWildcard" "fine st (Literal l)"
  "fine TkInit (Variable path segs) \<longleftrightarrow> list_all (\<lambda>s. \<not> is_var s) segs" "fine TkNested s \<longleftrightarrow> \<not> is_var s"
  by (simp_all add: fine_def is_var_def)

lemma path_more_lands:
  "lexed TkField (ps_tokens p) \<Longrightarrow> lands {TkField} (\<lambda>_. True) (path_more n cs p)"
proof (induction n arbitrary: cs p)
  case (Suc n)
  have "lands {TkField} (\<lambda>tok. mismatch (TSym ''.'') tok = None) (accept (TSym ''.'') p)"
    by (rule lands_accept [OF Suc.prems]) (simp add: after_token_def next_state_def)
  then show ?case
    unfolding path_more.simps
  proof (rule lands_case)
    fix p1 :: parser and st
    assume "st \<in> {TkField}" "lexed st (ps_tokens p1)"
    then have "lands {TkField} (\<lambda>tok. mismatch TIdent tok = None) (p_wrap InvalidFieldPath (accept TIdent p1))"
      unfolding lands_wrap by (intro lands_accept) (auto simp: after_ident)
    then show "lands {TkField} (\<lambda>_. True)
        (p_bind (p_wrap InvalidFieldPath (accept TIdent p1)) (\<lambda>c. path_more n (cs @ [c])))"
      by (rule lands_bind) (use Suc.IH in auto)
  qed (use Suc.prems in auto)
qed simp

lemma fieldPath_lands:
  assumes "lexed TkField (ps_tokens p)"
  shows "lands {TkField} (\<lambda>_. True) (p_fieldPath n p)"
  unfolding p_fieldPath_def
proof (rule lands_bind)
  show "lands {TkField} (\<lambda>tok. mismatch TIdent tok = None) (accept TIdent p)"
    by (rule lands_accept [OF assms]) (auto simp: after_ident)
qed (use path_more_lands in auto)

text \<open>The functions of the parser, outside and inside a variable.\<close>

definition settled :: "nat \<Rightarrow> bool" where
  "settled n \<longleftrightarrow> (\<forall>p st. st \<noteq> TkField \<longrightarrow> lexed st (ps_tokens p) \<longrightarrow>
     lands {st} (fine st) (p_segment n p) \<and> lands {st} (fine st) (p_variable n p) \<and>
     lands {st} (list_all (fine st)) (p_segments n p) \<and>
     (\<forall>segs. list_all (fine st) segs \<longrightarrow> lands {st} (list_all (fine st)) (p_more n segs p)))"

lemma settledD:
  assumes "settled n" and "st \<noteq> TkField" and "lexed st (ps_tokens p)"
  shows "lands {st} (fine st) (p_segment n p)" "lands {st} (fine st) (p_variable n p)"
    "lands {st} (list_all (fine st)) (p_segments n p)"
    "list_all (fine st) segs \<Longrightarrow> lands {st} (list_all (fine st)) (p_more n segs p)"
  using assms unfolding settled_def by blast+

lemma segment_lands:
  assumes "settled n" and "st \<noteq> TkField" and "lexed st (ps_tokens p)"
  shows "lands {st} (fine st) (p_segment (Suc n) p)"
proof -
  have a: "lands {st} (\<lambda>tok. mismatch t tok = None) (accept t p)" if "t \<in> {TSym ''*'', TSym ''**'', TLiteral}" for t
  proof (rule lands_accept [OF assms(3)])
    fix tok
    assume "mismatch t tok = None"
    with that assms(2) show "after_token tok st \<in> {st}"
      using after_literal [of tok st] by (cases st) (auto simp: after_token_def)
  qed
  have "lands {st} (fine st) (p_bind (accept (TSym ''*'') p) (\<lambda>_. POk Wildcard))"
    by (rule lands_bind [OF a]) auto
  moreover have "lands {st} (fine st) (p_bind (accept (TSym ''**'') p) (\<lambda>_. POk DeepWildcard))"
    by (rule lands_bind [OF a]) auto
  moreover have "lands {st} (fine st) (p_literal p)"
    unfolding p_literal_def by (rule lands_bind [OF a]) auto
  moreover have "lands {st} (fine st) (p_wrap NotASegment (p_variable n p))"
    unfolding lands_wrap by (rule settledD(2) [OF assms])
  ultimately show ?thesis unfolding p_segment.simps by (intro lands_else)
qed

text \<open>Inside a variable there is no variable.\<close>

lemma nested_variable:
  assumes "lexed TkNested (ps_tokens p)"
  shows "lands {} Q (p_variable n p)"
proof (cases n)
  case (Suc m)
  show ?thesis
  proof (cases "ps_tokens p")
    case (Cons t ts)
    have "p_fieldPath m q = PPanic \<or> (\<exists>e. p_fieldPath m q = PErr e)" if "t = ''{''" "ps_tokens q = ts" for q
    proof (cases ts)
      case (Cons u us)
      with that assms \<open>ps_tokens p = t # ts\<close> have "mismatch TIdent u \<noteq> None"
        by (intro not_ident) auto
      with that Cons show ?thesis by (auto simp: p_fieldPath_def accept_def)
    qed (use that in \<open>simp add: p_fieldPath_def accept_def\<close>)
    note F = this [of "p\<lparr>ps_tokens := ts, ps_accepted := ps_accepted p @ [t]\<rparr>"]
    have acc: "accept (TSym ''{'') p =
        (if t = ''{'' then POk t (p\<lparr>ps_tokens := ts, ps_accepted := ps_accepted p @ [t]\<rparr>)
         else PErr (ExpectedToken ''{'' t))"
      by (simp add: accept_def Cons mismatch_def)
    from F show ?thesis
      unfolding Suc p_variable.simps acc by auto
  qed (simp add: Suc accept_def)
qed simp

lemma variable_lands:
  assumes "settled n" and "lexed TkInit (ps_tokens p)"
  shows "lands {TkInit} (fine TkInit) (p_variable (Suc n) p)"
  unfolding p_variable.simps
proof (rule lands_bind)
  show "lands {TkField} (\<lambda>_. True) (accept (TSym ''{'') p)"
    by (rule lands_mono [OF lands_accept [OF assms(2)]]) (auto simp: after_token_def next_state_def)
next
  fix p1 :: parser and st
  assume "st \<in> {TkField}" "lexed st (ps_tokens p1)"
  then have f: "lands {TkField} (\<lambda>_. True) (p_fieldPath n p1)" by (simp add: fieldPath_lands)
  let ?segs = "\<lambda>path p2. case accept (TSym ''='') p2 of
      POk _ p3 \<Rightarrow> p_wrap (InvalidSegmentIn path) (p_segments n p3)
    | PErr _ \<Rightarrow> POk [Wildcard] p2 | PPanic \<Rightarrow> PPanic | POut \<Rightarrow> POut"
  let ?rest = "\<lambda>path segs p4. p_bind (p_wrap (\<lambda>_. Unterminated path) (accept (TSym ''}'') p4))
      (\<lambda>_. POk (Variable path segs))"
  show "lands {TkInit} (fine TkInit) (p_bind (p_fieldPath n p1) (\<lambda>path p2. p_bind (?segs path p2) (?rest path)))"
  proof (rule lands_bind [OF f])
    fix path :: string and p2 :: parser and st
    assume "st \<in> {TkField}" "lexed st (ps_tokens p2)"
    then have p2: "lexed TkField (ps_tokens p2)" by simp
    have s: "lands {TkField, TkNested} (list_all (fine TkNested)) (?segs path p2)"
    proof (rule lands_case)
      show "lands {TkNested} (\<lambda>_. True) (accept (TSym ''='') p2)"
        by (rule lands_mono [OF lands_accept [OF p2]]) (auto simp: after_token_def next_state_def)
    next
      fix p3 :: parser and st
      assume "st \<in> {TkNested}" "lexed st (ps_tokens p3)"
      then show "lands {TkField, TkNested} (list_all (fine TkNested)) (p_wrap (InvalidSegmentIn path) (p_segments n p3))"
        unfolding lands_wrap by (intro lands_mono [OF settledD(3) [OF assms(1)]]) auto
    qed (use p2 in \<open>auto simp: is_var_def\<close>)
    show "lands {TkInit} (fine TkInit) (p_bind (?segs path p2) (?rest path))"
    proof (rule lands_bind [OF s])
      fix segs and p4 :: parser and st
      assume p4: "list_all (fine TkNested) segs" "st \<in> {TkField, TkNested}" "lexed st (ps_tokens p4)"
      show "lands {TkInit} (fine TkInit) (?rest path segs p4)"
      proof (rule lands_bind)
        show "lands {TkInit} (\<lambda>_. True) (p_wrap (\<lambda>_. Unterminated path) (accept (TSym ''}'') p4))"
          unfolding lands_wrap
          by (rule lands_mono [OF lands_accept [OF p4(3)]]) (use p4(2) in \<open>auto simp: after_token_def next_state_def\<close>)
      qed (use p4(1) in \<open>auto simp: list_all_iff\<close>)
    qed
  qed
qed

lemma settled_all: "settled n"
proof (induction n)
  case (Suc n)
  have m: "lands {st} (list_all (fine st)) (p_more (Suc n) segs p)"
    if "st \<noteq> TkField" "lexed st (ps_tokens p)" "list_all (fine st) segs" for st p segs
    unfolding p_more.simps
  proof (rule lands_case)
    have "after_token ''/'' st = st" by (simp add: after_token_def next_state_def)
    then show "lands {st} (\<lambda>_. True) (accept (TSym ''/'') p)"
      by (intro lands_mono [OF lands_accept [OF that(2), where S = "{st}"]]) auto
  next
    fix p1 :: parser and st'
    assume "st' \<in> {st}" "lexed st' (ps_tokens p1)"
    then have "lands {st} (fine st) (p_segment n p1)" using settledD(1) [OF Suc that(1)] by simp
    then show "lands {st} (list_all (fine st)) (p_bind (p_segment n p1) (\<lambda>s. p_more n (segs @ [s])))"
      by (rule lands_bind) (use that settledD(4) [OF Suc that(1)] in auto)
  qed (use that in auto)
  have a: "lands {st} (list_all (fine st)) (p_segments (Suc n) p)"
    if "st \<noteq> TkField" "lexed st (ps_tokens p)" for st p
    unfolding p_segments.simps
    by (rule lands_bind [OF settledD(1) [OF Suc that]]) (use settledD(4) [OF Suc that(1)] in auto)
  have v: "lands {st} (fine st) (p_variable (Suc n) p)" if "st \<noteq> TkField" "lexed st (ps_tokens p)" for st p
  proof (cases st)
    case TkNested
    with that lands_mono [OF nested_variable [of p "fine st" "Suc n"], of "{st}" "fine st"] show ?thesis
      by blast
  qed (use that variable_lands [OF Suc] in auto)
  show ?case
    unfolding settled_def by (intro allI impI conjI segment_lands [OF Suc] v a m)
qed (simp add: settled_def)

text \<open>No template that the parser returns has a variable inside a variable.\<close>

lemma Parse_tmpl_flat:
  assumes "Parse_tmpl src = ParseOk t"
  shows "flat (tp_segments t)"
proof -
  obtain tokens verb where t: "tokenize (tl src) = (tokens, verb)" by fastforce
  let ?p = "\<lparr>ps_tokens = tokens, ps_accepted = []\<rparr>"
  have "lands {TkInit} (list_all (fine TkInit)) (p_segments (parse_fuel tokens) ?p)"
    using lexed_tokenize [OF t] by (intro settledD(3) [OF settled_all]) auto
  then have "list_all (fine TkInit) (tp_segments t)"
    using assms by (cases "p_segments (parse_fuel tokens) ?p")
      (auto simp: Parse_tmpl_def t p_topLevel_def split: if_splits parsed.splits)
  then show ?thesis
    unfolding flat_def atoms_def fine_def by (simp add: list_all_iff)
qed

end
