(* ===== verification/Httprule_Compile.thy ===== *)
theory Httprule_Compile
  imports Httprule_Flat
begin

text \<open>
  The programs that the compiler makes, against the templates they come from: what \<open>Compile\<close> emits,
  what \<open>NewPattern\<close> makes of it and what \<open>Match\<close> then does, each described on the segments.
\<close>

section \<open>What a template describes\<close>

text \<open>
  A path fits the atoms if its components can be shared out among them: one to a wildcard, an equal
  one to a literal, any number to a deep wildcard. The values are what each atom has got.
\<close>

inductive fits :: "segment list \<Rightarrow> string list \<Rightarrow> string list \<Rightarrow> bool" where
  fits_nil: "fits [] [] []"
| fits_wild: "fits ss cs vs \<Longrightarrow> fits (Wildcard # ss) (c # cs) (c # vs)"
| fits_lit: "fits ss cs vs \<Longrightarrow> fits (Literal l # ss) (l # cs) (l # vs)"
| fits_deep: "fits ss cs vs \<Longrightarrow> fits (DeepWildcard # ss) (xs @ cs) (Join xs ''/'' # vs)"

inductive_simps fits_simps [simp]:
  "fits [] cs vs" "fits (Wildcard # ss) cs vs" "fits (Literal l # ss) cs vs" "fits (DeepWildcard # ss) cs vs"
  "fits (Variable x segs # ss) cs vs"

text \<open>A variable is bound to the values of its atoms, with slashes between them.\<close>

fun bindings :: "segment list \<Rightarrow> string list \<Rightarrow> (string \<times> string) list" where
  "bindings [] vs = []"
| "bindings (Variable path ss # segs) vs =
     (path, Join (take (length ss) vs) ''/'') # bindings segs (drop (length ss) vs)"
| "bindings (s # segs) vs = bindings segs (tl vs)"

text \<open>The values that stay on the stack: those outside the variables.\<close>

fun loose :: "segment list \<Rightarrow> string list \<Rightarrow> string list" where
  "loose [] vs = []"
| "loose (Variable path ss # segs) vs = loose segs (drop (length ss) vs)"
| "loose (s # segs) vs = hd vs # loose segs (tl vs)"

section \<open>Emitting\<close>

text \<open>The numbers encode the operations over a pool.\<close>

fun encodes :: "string list \<Rightarrow> raw_op list \<Rightarrow> int list \<Rightarrow> bool" where
  "encodes pool [] is \<longleftrightarrow> is = []"
| "encodes pool (r # rs) is \<longleftrightarrow>
     (\<exists>x is'. is = OpCode_int (raw_code r) # x # is' \<and>
        (if raw_str r = [] then x = raw_num r
         else 0 \<le> x \<and> x < int (length pool) \<and> pool ! nat x = raw_str r) \<and> encodes pool rs is')"

lemma encodes_append:
  "encodes pool xs is \<Longrightarrow> encodes pool ys js \<Longrightarrow> encodes pool (xs @ ys) (is @ js)"
  by (induction xs arbitrary: "is") auto

lemma encodes_extend: "encodes pool rs is \<Longrightarrow> encodes (pool @ qs) rs is"
  by (induction rs arbitrary: "is") (auto simp: nth_append nat_less_iff)

definition consts_ok :: "compile_state \<Rightarrow> bool" where
  "consts_ok st \<longleftrightarrow>
     (\<forall>s i. cp_consts st s = Some i \<longrightarrow> i < length (cp_pool st) \<and> cp_pool st ! i = s)"

lemma add_const_ok:
  assumes "consts_ok st"
  shows "consts_ok (add_const s st)" and "\<exists>qs. cp_pool (add_const s st) = cp_pool st @ qs"
    and "cp_ops (add_const s st) = cp_ops st" and "cp_fields (add_const s st) = cp_fields st"
    and "\<exists>i. cp_consts (add_const s st) s = Some i"
  using assms by (auto simp: add_const_def consts_ok_def nth_append split: option.splits) fastforce+

lemma compile_op_ok:
  assumes "consts_ok st"
  shows "consts_ok (compile_op r st) \<and>
    (\<exists>qs is. cp_pool (compile_op r st) = cp_pool st @ qs \<and> cp_ops (compile_op r st) = cp_ops st @ is \<and>
       encodes (cp_pool st @ qs) [r] is)"
proof (cases "raw_str r = []")
  case True
  with assms show ?thesis by (auto simp: compile_op_def consts_ok_def Let_def)
next
  case False
  note A = add_const_ok [OF assms, of "raw_str r"]
  obtain i where i: "cp_consts (add_const (raw_str r) st) (raw_str r) = Some i" using A(5) by blast
  then have p: "i < length (cp_pool (add_const (raw_str r) st))" "cp_pool (add_const (raw_str r) st) ! i = raw_str r"
    using A(1) by (auto simp: consts_ok_def)
  obtain qs where m: "cp_pool (add_const (raw_str r) st) = cp_pool st @ qs" using A(2) by blast
  show ?thesis
  proof (intro conjI exI)
    show "consts_ok (compile_op r st)"
      using A(1) by (simp add: compile_op_def False consts_ok_def Let_def)
    show "cp_pool (compile_op r st) = cp_pool st @ qs"
      by (simp add: compile_op_def False m Let_def)
    show "cp_ops (compile_op r st) = cp_ops st @ [OpCode_int (raw_code r), int i]"
      by (simp add: compile_op_def False A(3) i Let_def)
    show "encodes (cp_pool st @ qs) [r] [OpCode_int (raw_code r), int i]"
      using p by (simp add: False m)
  qed
qed

lemma compile_ops_ok:
  assumes "consts_ok st"
  shows "\<exists>qs is. cp_pool (fold compile_op rs st) = cp_pool st @ qs \<and>
    cp_ops (fold compile_op rs st) = cp_ops st @ is \<and> encodes (cp_pool st @ qs) rs is"
  using assms
proof (induction rs arbitrary: st)
  case (Cons r rs)
  from compile_op_ok [OF Cons.prems, of r] obtain m1 is1 where
    1: "consts_ok (compile_op r st)" "cp_pool (compile_op r st) = cp_pool st @ m1"
      "cp_ops (compile_op r st) = cp_ops st @ is1" "encodes (cp_pool st @ m1) [r] is1" by blast
  from Cons.IH [OF 1(1)] obtain m2 is2 where
    2: "cp_pool (fold compile_op rs (compile_op r st)) = cp_pool st @ m1 @ m2"
      "cp_ops (fold compile_op rs (compile_op r st)) = cp_ops st @ is1 @ is2"
      "encodes (cp_pool st @ m1 @ m2) rs is2" by (auto simp: 1)
  have "encodes (cp_pool st @ m1 @ m2) ([r] @ rs) (is1 @ is2)"
    using encodes_append [OF encodes_extend [OF 1(4), of m2]] 2(3) by simp
  with 2 show ?case by fastforce
qed simp

lemma Compile_encodes:
  "encodes (tm_Pool (Compile t)) (concat (List.map compile (tp_segments t))) (tm_OpCodes (Compile t))"
  using compile_ops_ok [of "\<lparr>cp_ops = [], cp_pool = [], cp_consts = Map.empty, cp_fields = []\<rparr>"
      "concat (List.map compile (tp_segments t))"]
  by (auto simp: Compile_def consts_ok_def Let_def)

section \<open>Checking\<close>

text \<open>The operations of a template: the constants they have and need.\<close>

definition raw_ok :: "raw_op \<Rightarrow> bool" where
  "raw_ok r \<longleftrightarrow>
     (case raw_code r of
        OpNop \<Rightarrow> False
      | OpLitPush \<Rightarrow> raw_str r \<noteq> []
      | OpCapture \<Rightarrow> raw_str r \<noteq> []
      | OpConcatN \<Rightarrow> raw_str r = [] \<and> 0 < raw_num r
      | _ \<Rightarrow> raw_str r = [])"

text \<open>The height of the stack, the length of the tail and the deep wildcard, after an operation.\<close>

fun raw_step :: "raw_op \<Rightarrow> int \<times> int \<times> bool \<Rightarrow> (int \<times> int \<times> bool) option" where
  "raw_step r (d, t, b) =
     (case raw_code r of
        OpPushM \<Rightarrow> if b then None else Some (d + 1, t, True)
      | OpConcatN \<Rightarrow> if d < raw_num r then None else Some (d - raw_num r + 1, t, b)
      | OpCapture \<Rightarrow> if d < 1 then None else Some (d - 1, t, b)
      | _ \<Rightarrow> Some (d + 1, if b then t + 1 else t, b))"

fun raw_height :: "raw_op list \<Rightarrow> int \<times> int \<times> bool \<Rightarrow> (int \<times> int \<times> bool) option" where
  "raw_height [] x = Some x"
| "raw_height (r # rs) x = Option.bind (raw_step r x) (raw_height rs)"

lemma raw_height_append: "raw_height (xs @ ys) x = Option.bind (raw_height xs x) (raw_height ys)"
  by (induction xs arbitrary: x) (auto split: bind_splits)

definition raw_vars :: "raw_op list \<Rightarrow> string list" where
  "raw_vars rs = List.map raw_str (filter (\<lambda>r. raw_code r = OpCapture) rs)"

lemma raw_vars_simps [simp]:
  "raw_vars [] = []" "raw_vars (xs @ ys) = raw_vars xs @ raw_vars ys"
  "raw_vars (r # rs) = (if raw_code r = OpCapture then [raw_str r] else []) @ raw_vars rs"
  by (simp_all add: raw_vars_def)

text \<open>The checked operations: the variables are numbered from \<open>k\<close> on.\<close>

fun typed :: "string list \<Rightarrow> nat \<Rightarrow> raw_op list \<Rightarrow> op list \<Rightarrow> bool" where
  "typed pool k [] os \<longleftrightarrow> os = []"
| "typed pool k (r # rs) os \<longleftrightarrow>
     (\<exists>x os'. os = \<lparr>op_code = raw_code r, op_operand = x\<rparr> # os' \<and>
        (case raw_code r of
           OpLitPush \<Rightarrow> 0 \<le> x \<and> x < int (length pool) \<and> pool ! nat x = raw_str r
         | OpConcatN \<Rightarrow> x = raw_num r
         | OpCapture \<Rightarrow> x = int k
         | _ \<Rightarrow> True) \<and>
        typed pool (if raw_code r = OpCapture then Suc k else k) rs os')"

lemma typed_Cons:
  "typed pool k [r] [o1] \<Longrightarrow> typed pool (if raw_code r = OpCapture then Suc k else k) rs os \<Longrightarrow>
   typed pool k (r # rs) (o1 # os)"
  by auto

lemma typed_append:
  "typed pool k (xs @ ys) os \<longleftrightarrow>
     (\<exists>o1 o2. os = o1 @ o2 \<and> typed pool k xs o1 \<and> typed pool (k + length (raw_vars xs)) ys o2)"
proof (induction xs arbitrary: k os)
  case (Cons r xs)
  show ?case
    by (auto simp: Cons.IH) (metis append_Cons | force)+
qed simp

lemma OpCode_of_int [simp]: "OpCode_of (OpCode_int c) = Some c"
  by (cases c) (simp_all add: OpCode_of_def)

lemma np_step_raw:
  assumes "raw_ok r"
    and "if raw_str r = [] then x = raw_num r else 0 \<le> x \<and> x < int (length pool) \<and> pool ! nat x = raw_str r"
    and "raw_step r (np_stack st, np_tailLen st, np_pushMSeen st) = Some y"
  shows "\<exists>st1 o1. np_step pool (OpCode_int (raw_code r)) x st = Some st1 \<and>
    y = (np_stack st1, np_tailLen st1, np_pushMSeen st1) \<and> np_typedOps st1 = np_typedOps st @ [o1] \<and>
    typed pool (length (np_vars st)) [r] [o1] \<and> np_vars st1 = np_vars st @ raw_vars [r]"
  using assms
  by (cases "raw_code r") (auto simp: np_step_def np_emit_def raw_ok_def OpCode_of_def split: if_splits)

lemma np_loop_raw:
  assumes "list_all raw_ok rs" and "encodes pool rs is"
    and "raw_height rs (np_stack st, np_tailLen st, np_pushMSeen st) = Some (d, t, b)"
  shows "\<exists>st' os. np_loop pool is st = Some st' \<and> np_typedOps st' = np_typedOps st @ os \<and>
    typed pool (length (np_vars st)) rs os \<and> np_vars st' = np_vars st @ raw_vars rs \<and> np_tailLen st' = t"
  using assms
proof (induction rs arbitrary: "is" st)
  case (Cons r rs)
  from Cons.prems(2) obtain x is' where x: "is = OpCode_int (raw_code r) # x # is'"
    "if raw_str r = [] then x = raw_num r else 0 \<le> x \<and> x < int (length pool) \<and> pool ! nat x = raw_str r"
    "encodes pool rs is'" by auto
  from Cons.prems(3) obtain y where
    y: "raw_step r (np_stack st, np_tailLen st, np_pushMSeen st) = Some y" "raw_height rs y = Some (d, t, b)"
    by (auto split: bind_splits)
  from np_step_raw [OF _ x(2) y(1)] Cons.prems(1) obtain st1 o1 where
    1: "np_step pool (OpCode_int (raw_code r)) x st = Some st1" "y = (np_stack st1, np_tailLen st1, np_pushMSeen st1)"
      "np_typedOps st1 = np_typedOps st @ [o1]" "typed pool (length (np_vars st)) [r] [o1]"
      "np_vars st1 = np_vars st @ raw_vars [r]" by auto
  from Cons.IH [OF _ x(3), of st1] Cons.prems(1) y(2) 1(2) obtain st' os where
    2: "np_loop pool is' st1 = Some st'" "np_typedOps st' = np_typedOps st1 @ os"
      "typed pool (length (np_vars st1)) rs os" "np_vars st' = np_vars st1 @ raw_vars rs" "np_tailLen st' = t" by auto
  have "typed pool (length (np_vars st)) (r # rs) (o1 # os)"
    by (rule typed_Cons [OF 1(4)]) (use 1(5) 2(3) in \<open>simp split: if_splits\<close>)
  with 1 2 x show ?case by auto
qed simp

text \<open>The length of the tail after the deep wildcard, on the atoms; a second deep wildcard is refused.\<close>

fun tails :: "segment list \<Rightarrow> int \<times> bool \<Rightarrow> (int \<times> bool) option" where
  "tails [] x = Some x"
| "tails (s # ss) (t, b) =
     (if s = DeepWildcard then (if b then None else tails ss (t, True))
      else tails ss (if b then t + 1 else t, b))"

lemma tails_append: "tails (xs @ ys) x = Option.bind (tails xs x) (tails ys)"
  by (induction xs arbitrary: x) auto

lemma raw_ok_compile: "wf_segment s \<Longrightarrow> list_all raw_ok (compile s)"
  by (induction s) (auto simp: raw_ok_def list_all_iff)

lemma height_atoms:
  assumes "list_all (\<lambda>s. \<not> is_var s) ss"
  shows "raw_height (concat (List.map compile ss)) (d, t, b) =
    map_option (\<lambda>(t, b). (d + int (length ss), t, b)) (tails ss (t, b))"
  using assms
proof (induction ss arbitrary: d t b)
  case (Cons s ss)
  then show ?case
    by (cases s) (auto simp: is_var_def add.assoc split: bind_splits)
qed simp

lemma height_segment:
  assumes "list_all (\<lambda>s. \<not> is_var s) (atoms_of s)" and "0 \<le> d"
  shows "raw_height (compile s) (d, t, b) =
    map_option (\<lambda>(t, b). (d + (if is_var s then 0 else 1), t, b)) (tails (atoms_of s) (t, b))"
proof (cases s)
  case (Variable path ss)
  with assms show ?thesis
    by (auto simp: raw_height_append height_atoms is_var_def split: bind_splits option.split)
qed (simp_all add: is_var_def)

lemma height_segments:
  assumes "flat segs" and "0 \<le> d"
  shows "\<exists>n \<ge> 0. \<forall>t b. raw_height (concat (List.map compile segs)) (d, t, b) =
    map_option (\<lambda>(t, b). (d + n, t, b)) (tails (atoms segs) (t, b))"
  using assms
proof (induction segs arbitrary: d)
  case (Cons s segs)
  define e where "e = (if is_var s then 0 else 1 :: int)"
  then have "0 \<le> e" by simp
  obtain n where n: "0 \<le> n" "\<forall>t b. raw_height (concat (List.map compile segs)) (d + e, t, b) =
      map_option (\<lambda>(t, b). (d + e + n, t, b)) (tails (atoms segs) (t, b))"
    using Cons.IH [of "d + e"] Cons.prems \<open>0 \<le> e\<close> by auto
  have s: "raw_height (compile s) (d, t, b) = map_option (\<lambda>(t, b). (d + e, t, b)) (tails (atoms_of s) (t, b))" for t b
    unfolding e_def using Cons.prems by (intro height_segment) simp_all
  have "raw_height (concat (List.map compile (s # segs))) (d, t, b) =
      map_option (\<lambda>(t, b). (d + (e + n), t, b)) (tails (atoms (s # segs)) (t, b))" for t b
    by (cases "tails (atoms_of s) (t, b)") (auto simp: raw_height_append tails_append s n add.assoc)
  with n(1) \<open>0 \<le> e\<close> show ?case by (intro exI [of _ "e + n"]) auto
qed auto

text \<open>The variables of a template, in order.\<close>

lemma raw_vars_atoms: "list_all (\<lambda>s. \<not> is_var s) ss \<Longrightarrow> raw_vars (concat (List.map compile ss)) = []"
proof (induction ss)
  case (Cons s ss)
  then show ?case by (cases s) (auto simp: is_var_def)
qed simp

lemma raw_vars_compile: "flat segs \<Longrightarrow> raw_vars (concat (List.map compile segs)) = List.map fst (bindings segs vs)"
proof (induction segs arbitrary: vs)
  case (Cons s segs)
  then show ?case by (cases s) (auto simp: raw_vars_atoms)
qed simp

section \<open>Running\<close>

text \<open>
  The run of a program on its atoms: a deep wildcard leaves the components of its tail, \<open>T\<close> of them.
\<close>

fun atom_step :: "nat \<Rightarrow> segment \<Rightarrow> string list \<Rightarrow> (string \<times> string list) option" where
  "atom_step T DeepWildcard cs =
     (if length cs < T then None else Some (Join (take (length cs - T) cs) ''/'', drop (length cs - T) cs))"
| "atom_step T Wildcard (c # cs) = Some (c, cs)"
| "atom_step T (Literal l) (c # cs) = (if c = l then Some (c, cs) else None)"
| "atom_step T _ _ = None"

fun atoms_run :: "nat \<Rightarrow> segment list \<Rightarrow> string list \<Rightarrow> (string list \<times> string list) option" where
  "atoms_run T [] cs = Some ([], cs)"
| "atoms_run T (s # ss) cs =
     (case atom_step T s cs of
        None \<Rightarrow> None
      | Some (v, r) \<Rightarrow>
          (case atoms_run T ss r of None \<Rightarrow> None | Some (vs, r') \<Rightarrow> Some (v # vs, r')))"

lemma atoms_run_append:
  "atoms_run T (xs @ ys) cs =
     (case atoms_run T xs cs of
        None \<Rightarrow> None
      | Some (vs, r) \<Rightarrow> (case atoms_run T ys r of None \<Rightarrow> None | Some (ws, r') \<Rightarrow> Some (vs @ ws, r')))"
  by (induction xs arbitrary: cs) (auto split: option.split)

lemma atoms_run_length: "atoms_run T ss cs = Some (vs, r) \<Longrightarrow> length vs = length ss"
  by (induction ss arbitrary: cs vs) (auto split: option.splits)

lemma match_ops_append:
  "match_ops p cs (xs @ ys) st =
     (case match_ops p cs xs st of Matched st' \<Rightarrow> match_ops p cs ys st' | r \<Rightarrow> r)"
  by (induction xs arbitrary: st) (auto split: match_result.split)

text \<open>The state of a run that has \<open>r\<close> of the components left.\<close>

definition at_rest :: "string list \<Rightarrow> string list \<Rightarrow> string list \<Rightarrow> string list \<Rightarrow> match_state \<Rightarrow> bool" where
  "at_rest cs r stk cap st \<longleftrightarrow>
     ms_stack st = stk \<and> ms_captured st = cap \<and> (\<exists>pre. cs = pre @ r \<and> ms_pos st = int (length pre))"

lemma run_atom:
  assumes "typed (p_pool p) k (compile s) os" and "\<not> is_var s" and "p_tailLen p = int T"
    and "at_rest cs r stk cap st"
  shows "case atom_step T s r of
      None \<Rightarrow> match_ops p cs os st = ErrNotMatch
    | Some (v, r') \<Rightarrow> \<exists>st'. match_ops p cs os st = Matched st' \<and> at_rest cs r' (stk @ [v]) cap st'"
proof -
  obtain pre where pre: "cs = pre @ r" "ms_pos st = int (length pre)" "ms_stack st = stk" "ms_captured st = cap"
    using assms(4) by (auto simp: at_rest_def)
  show ?thesis
  proof (cases s)
    case DeepWildcard
    then obtain x where os: "os = [\<lparr>op_code = OpPushM, op_operand = x\<rparr>]" using assms(1) by auto
    show ?thesis
    proof (cases "length r < T")
      case True
      with pre assms(3) show ?thesis by (simp add: os DeepWildcard match_step_def Let_def)
    next
      case False
      let ?n = "length r - T"
      define q where "q = int (length pre + ?n)"
      have l: "int (length cs) - p_tailLen p = q" "\<not> int (length cs) < ms_pos st + p_tailLen p"
        using False by (simp_all add: pre(1,2) assms(3) q_def)
      have "slice cs (int (length pre)) q = Some (take ?n r)"
        by (auto simp: slice_def pre(1) nat_add_distrib q_def)
      then have "match_ops p cs os st =
          Matched (st\<lparr>ms_stack := stk @ [Join (take ?n r) ''/''], ms_pos := q\<rparr>)"
        using l by (simp add: os match_step_def pre(2,3) Let_def)
      moreover have "cs = (pre @ take ?n r) @ drop ?n r" by (simp add: pre(1))
      ultimately show ?thesis using False pre(4)
        by (auto simp: DeepWildcard at_rest_def q_def intro!: exI [of _ "pre @ take ?n r"])
    qed
  next
    case Wildcard
    with assms(1) pre show ?thesis
      by (cases r) (auto simp: at_rest_def match_step_def index_at_def Let_def)
  next
    case (Literal l)
    with assms(1) pre show ?thesis
      by (cases r) (auto simp: at_rest_def match_step_def index_at_def Let_def)
  qed (use assms(2) in \<open>simp add: is_var_def\<close>)
qed

lemma run_atoms:
  assumes "typed (p_pool p) k (concat (List.map compile ss)) os" and "list_all (\<lambda>s. \<not> is_var s) ss"
    and "p_tailLen p = int T" and "at_rest cs r stk cap st"
  shows "case atoms_run T ss r of
      None \<Rightarrow> match_ops p cs os st = ErrNotMatch
    | Some (vs, r') \<Rightarrow> \<exists>st'. match_ops p cs os st = Matched st' \<and> at_rest cs r' (stk @ vs) cap st'"
  using assms
proof (induction ss arbitrary: k os r stk st)
  case (Cons s ss)
  from Cons.prems(1) obtain o1 o2 where os: "os = o1 @ o2" "typed (p_pool p) k (compile s) o1"
    "typed (p_pool p) (k + length (raw_vars (compile s))) (concat (List.map compile ss)) o2"
    by (auto simp: typed_append)
  from run_atom [OF os(2) _ Cons.prems(3,4)] Cons.prems(2)
  have 1: "case atom_step T s r of
      None \<Rightarrow> match_ops p cs o1 st = ErrNotMatch
    | Some (v, r') \<Rightarrow> \<exists>st'. match_ops p cs o1 st = Matched st' \<and> at_rest cs r' (stk @ [v]) cap st'" by simp
  show ?case
  proof (cases "atom_step T s r")
    case None
    with 1 show ?thesis by (simp add: os(1) match_ops_append)
  next
    case (Some x)
    obtain v r1 where x: "x = (v, r1)" by (cases x)
    with 1 Some obtain st1 where st1: "match_ops p cs o1 st = Matched st1" "at_rest cs r1 (stk @ [v]) cap st1" by auto
    from Cons.IH [OF os(3) _ Cons.prems(3) st1(2)] Cons.prems(2) show ?thesis
      by (auto simp: os(1) match_ops_append st1(1) Some x split: option.splits)
  qed
qed auto

text \<open>The captured values after those of the variables from \<open>k\<close> on.\<close>

definition captures :: "nat \<Rightarrow> string list \<Rightarrow> string list \<Rightarrow> string list" where
  "captures k ws cap = take k cap @ ws @ drop (k + length ws) cap"

lemma captures_nil [simp]: "captures k [] cap = cap"
  by (simp add: captures_def)

lemma captures_one [simp]: "k < length cap \<Longrightarrow> captures k [w] cap = cap[k := w]"
  by (simp add: captures_def upd_conv_take_nth_drop)

lemma captures_append:
  assumes "k + length ws + length ws' \<le> length cap"
  shows "captures (k + length ws) ws' (captures k ws cap) = captures k (ws @ ws') cap"
proof -
  have "min (length cap) k = k" using assms by simp
  then show ?thesis using assms by (simp add: captures_def ac_simps)
qed

lemma captures_length: "k + length ws \<le> length cap \<Longrightarrow> length (captures k ws cap) = length cap"
  by (simp add: captures_def)

lemma run_segment:
  assumes "typed (p_pool p) k (compile s) os" and "flat [s]" and "p_tailLen p = int T"
    and "at_rest cs r stk cap st" and "k + length (bindings [s] []) \<le> length cap"
  shows "case atoms_run T (atoms_of s) r of
      None \<Rightarrow> match_ops p cs os st = ErrNotMatch
    | Some (vs, r') \<Rightarrow> \<exists>st'. match_ops p cs os st = Matched st' \<and>
        at_rest cs r' (stk @ loose [s] vs) (captures k (List.map snd (bindings [s] vs)) cap) st'"
proof (cases "is_var s")
  case False
  then have "atoms_of s = [s]" "loose [s] vs = [hd vs]" "bindings [s] vs = []" for vs
    by (cases s; simp add: is_var_def)+
  with run_atom [OF assms(1) False assms(3,4)] show ?thesis
    by (auto split: option.splits)
next
  case True
  then obtain path ss where s: "s = Variable path ss" by (auto simp: is_var_def)
  have flat: "list_all (\<lambda>s. \<not> is_var s) ss" using assms(2) by (simp add: s)
  from assms(1) raw_vars_atoms [OF flat] obtain o1 where
    os: "os = o1 @ [\<lparr>op_code = OpConcatN, op_operand = int (length ss)\<rparr>, \<lparr>op_code = OpCapture, op_operand = int k\<rparr>]"
      "typed (p_pool p) k (concat (List.map compile ss)) o1"
    by (auto simp: s typed_append)
  note 1 = run_atoms [OF os(2) flat assms(3,4)]
  show ?thesis
  proof (cases "atoms_run T ss r")
    case None
    with 1 show ?thesis by (simp add: s os(1) match_ops_append)
  next
    case (Some x)
    obtain vs r1 where x: "x = (vs, r1)" by (cases x)
    with 1 Some obtain st1 where st1: "match_ops p cs o1 st = Matched st1" "at_rest cs r1 (stk @ vs) cap st1" by auto
    have "length vs = length ss" using atoms_run_length Some x by simp
    with st1 assms(5) show ?thesis
      by (auto simp: s Some x os(1) match_ops_append match_step_def slice_def index_at_def at_rest_def captures_def
          upd_conv_take_nth_drop Let_def)
  qed
qed

lemma bindings_append:
  "bindings (s # segs) vs = bindings [s] (take (length (atoms_of s)) vs) @ bindings segs (drop (length (atoms_of s)) vs)"
  by (cases s) (simp_all add: drop_Suc)

lemma loose_append:
  "length (atoms_of s) \<le> length vs \<Longrightarrow>
   loose (s # segs) vs = loose [s] (take (length (atoms_of s)) vs) @ loose segs (drop (length (atoms_of s)) vs)"
  by (cases s) (simp_all add: drop_Suc hd_take)

lemma length_bindings: "length (bindings segs vs) = length (bindings segs ws)"
proof (induction segs arbitrary: vs ws)
  case (Cons s segs)
  then show ?case by (cases s) auto
qed simp

lemma raw_vars_segment: "flat [s] \<Longrightarrow> length (raw_vars (compile s)) = length (bindings [s] vs)"
  using raw_vars_compile [of "[s]" vs] by simp

lemma run_segments:
  assumes "typed (p_pool p) k (concat (List.map compile segs)) os" and "flat segs" and "p_tailLen p = int T"
    and "at_rest cs r stk cap st" and "k + length (bindings segs []) \<le> length cap"
  shows "case atoms_run T (atoms segs) r of
      None \<Rightarrow> match_ops p cs os st = ErrNotMatch
    | Some (vs, r') \<Rightarrow> \<exists>st'. match_ops p cs os st = Matched st' \<and>
        at_rest cs r' (stk @ loose segs vs) (captures k (List.map snd (bindings segs vs)) cap) st'"
  using assms
proof (induction segs arbitrary: k os r stk cap st)
  case (Cons s segs)
  let ?n = "length (atoms_of s)" and ?b = "length (bindings [s] [])"
  have flat: "flat [s]" "flat segs" using Cons.prems(2) by simp_all
  have len: "length (bindings (s # segs) []) = ?b + length (bindings segs [])"
    using bindings_append [of s segs "[]"] length_bindings [of segs "drop ?n []" "[]"] by simp
  from Cons.prems(1) raw_vars_segment [OF flat(1), of "[]"] obtain o1 o2 where
    os: "os = o1 @ o2" "typed (p_pool p) k (compile s) o1"
      "typed (p_pool p) (k + ?b) (concat (List.map compile segs)) o2"
    by (auto simp: typed_append)
  have 1: "case atoms_run T (atoms_of s) r of
      None \<Rightarrow> match_ops p cs o1 st = ErrNotMatch
    | Some (vs, r') \<Rightarrow> \<exists>st'. match_ops p cs o1 st = Matched st' \<and>
        at_rest cs r' (stk @ loose [s] vs) (captures k (List.map snd (bindings [s] vs)) cap) st'"
    by (rule run_segment [OF os(2) flat(1) Cons.prems(3,4)]) (use Cons.prems(5) len in simp)
  show ?case
  proof (cases "atoms_run T (atoms_of s) r")
    case None
    with 1 show ?thesis by (simp add: os(1) match_ops_append atoms_run_append)
  next
    case (Some x)
    obtain vs r1 where x: "x = (vs, r1)" by (cases x)
    with 1 Some obtain st1 where st1: "match_ops p cs o1 st = Matched st1"
      "at_rest cs r1 (stk @ loose [s] vs) (captures k (List.map snd (bindings [s] vs)) cap) st1" by auto
    have n: "length vs = ?n" using atoms_run_length Some x by simp
    have b: "length (List.map snd (bindings [s] vs)) = ?b" using length_bindings by (metis length_map)
    then have c: "length (captures k (List.map snd (bindings [s] vs)) cap) = length cap"
      using Cons.prems(5) len by (intro captures_length) simp
    have 2: "case atoms_run T (atoms segs) r1 of
        None \<Rightarrow> match_ops p cs o2 st1 = ErrNotMatch
      | Some (ws, r') \<Rightarrow> \<exists>st'. match_ops p cs o2 st1 = Matched st' \<and>
          at_rest cs r' ((stk @ loose [s] vs) @ loose segs ws)
            (captures (k + ?b) (List.map snd (bindings segs ws)) (captures k (List.map snd (bindings [s] vs)) cap)) st'"
      by (rule Cons.IH [OF os(3) flat(2) Cons.prems(3) st1(2)]) (use Cons.prems(5) len c in simp)
    show ?thesis
    proof (cases "atoms_run T (atoms segs) r1")
      case None
      with 2 Some x show ?thesis by (simp add: os(1) match_ops_append atoms_run_append st1(1))
    next
      case inner: (Some y)
      obtain ws r2 where y: "y = (ws, r2)" by (cases y)
      have "length (List.map snd (bindings segs ws)) = length (bindings segs [])"
        using length_bindings by (metis length_map)
      then have "captures (k + ?b) (List.map snd (bindings segs ws)) (captures k (List.map snd (bindings [s] vs)) cap) =
          captures k (List.map snd (bindings (s # segs) (vs @ ws))) cap"
        using captures_append [of k "List.map snd (bindings [s] vs)" "List.map snd (bindings segs ws)" cap]
          Cons.prems(5) len b n by (simp add: bindings_append [of s segs])
      moreover have run: "atoms_run T (atoms (s # segs)) r = Some (vs @ ws, r2)"
        "match_ops p cs os st = match_ops p cs o2 st1"
        using Some x inner y by (simp_all add: os(1) match_ops_append atoms_run_append st1(1))
      moreover have "loose (s # segs) (vs @ ws) = loose [s] vs @ loose segs ws"
        using n by (subst loose_append) simp_all
      ultimately show ?thesis
        using 2 unfolding inner y run by (simp only: option.case prod.case append_assoc)
    qed
  qed
qed auto

section \<open>Runs are fits\<close>

lemma plain_step:
  assumes "\<not> is_var s" and "s \<noteq> DeepWildcard"
  shows "atom_step T s cs = Some (v, r) \<longleftrightarrow> cs = v # r \<and> (s = Wildcard \<or> s = Literal v)"
    and "fits (s # ss) cs vs \<longleftrightarrow>
      (\<exists>c cs' vs'. cs = c # cs' \<and> vs = c # vs' \<and> (s = Wildcard \<or> s = Literal c) \<and> fits ss cs' vs')"
  using assms by (cases s; cases cs; auto simp: is_var_def)+

lemma run_plain:
  assumes "list_all (\<lambda>s. \<not> is_var s) ss" and "DeepWildcard \<notin> set ss"
  shows "atoms_run T ss cs = Some (vs, r) \<longleftrightarrow> (\<exists>pre. cs = pre @ r \<and> fits ss pre vs)"
  using assms
proof (induction ss arbitrary: cs vs)
  case (Cons s ss)
  then have s: "\<not> is_var s" "s \<noteq> DeepWildcard"
    and IH: "atoms_run T ss cs = Some (vs, r) \<longleftrightarrow> (\<exists>pre. cs = pre @ r \<and> fits ss pre vs)" for cs vs by auto
  have "atoms_run T (s # ss) cs = Some (vs, r) \<longleftrightarrow>
      (\<exists>v r1 vs'. atom_step T s cs = Some (v, r1) \<and> atoms_run T ss r1 = Some (vs', r) \<and> vs = v # vs')"
    by (auto split: option.splits)
  also have "\<dots> \<longleftrightarrow> (\<exists>v pre vs'. cs = v # pre @ r \<and> (s = Wildcard \<or> s = Literal v) \<and> fits ss pre vs' \<and> vs = v # vs')"
    unfolding plain_step(1) [OF s] IH by blast
  also have "\<dots> \<longleftrightarrow> (\<exists>pre. cs = pre @ r \<and> fits (s # ss) pre vs)"
    unfolding plain_step(2) [OF s] by (metis append_Cons)
  finally show ?case .
qed auto

lemma fits_length: "fits ss cs vs \<Longrightarrow> DeepWildcard \<notin> set ss \<Longrightarrow> length cs = length ss"
  by (induction rule: fits.induct) auto

lemma fits_appendI: "fits xs c1 v1 \<Longrightarrow> fits ys c2 v2 \<Longrightarrow> fits (xs @ ys) (c1 @ c2) (v1 @ v2)"
proof (induction rule: fits.induct)
  case (fits_deep ss cs vs xs)
  then show ?case using fits.fits_deep [of "ss @ ys" "cs @ c2" "vs @ v2" xs] by simp
qed auto

lemma fits_appendE:
  assumes "fits (xs @ ys) cs vs"
  shows "\<exists>c1 c2 v1 v2. cs = c1 @ c2 \<and> vs = v1 @ v2 \<and> fits xs c1 v1 \<and> fits ys c2 v2"
  using assms
proof (induction "xs @ ys" cs vs arbitrary: xs rule: fits.induct)
  case fits_nil
  then show ?case by simp
next
  case (fits_wild ss cs vs c)
  show ?case
  proof (cases xs)
    case Nil
    with fits_wild.hyps show ?thesis by (auto intro: fits.fits_wild)
  next
    case (Cons s xs')
    with fits_wild.hyps obtain c1 c2 v1 v2 where "cs = c1 @ c2" "vs = v1 @ v2" "fits xs' c1 v1" "fits ys c2 v2"
      by (metis append_Cons list.inject)
    with Cons fits_wild.hyps(3) show ?thesis
      by (intro exI [of _ "c # c1"] exI [of _ c2] exI [of _ "c # v1"] exI [of _ v2]) auto
  qed
next
  case (fits_lit ss cs vs l)
  show ?case
  proof (cases xs)
    case Nil
    with fits_lit.hyps show ?thesis by (auto intro: fits.fits_lit)
  next
    case (Cons s xs')
    with fits_lit.hyps obtain c1 c2 v1 v2 where "cs = c1 @ c2" "vs = v1 @ v2" "fits xs' c1 v1" "fits ys c2 v2"
      by (metis append_Cons list.inject)
    with Cons fits_lit.hyps(3) show ?thesis
      by (intro exI [of _ "l # c1"] exI [of _ c2] exI [of _ "l # v1"] exI [of _ v2]) auto
  qed
next
  case (fits_deep ss cs vs zs)
  show ?case
  proof (cases xs)
    case Nil
    with fits_deep.hyps show ?thesis by (auto intro: fits.fits_deep)
  next
    case (Cons s xs')
    with fits_deep.hyps obtain c1 c2 v1 v2 where "cs = c1 @ c2" "vs = v1 @ v2" "fits xs' c1 v1" "fits ys c2 v2"
      by (metis append_Cons list.inject)
    with Cons fits_deep.hyps(3) show ?thesis
      by (intro exI [of _ "zs @ c1"] exI [of _ c2] exI [of _ "Join zs ''/'' # v1"] exI [of _ v2]) auto
  qed
qed

text \<open>At most one deep wildcard.\<close>

definition one_deep :: "segment list \<Rightarrow> bool" where
  "one_deep ss \<longleftrightarrow> count_list ss DeepWildcard \<le> 1"

lemma one_deepE:
  assumes "one_deep ss"
  obtains (none) "DeepWildcard \<notin> set ss"
  | (split) xs ys where "ss = xs @ DeepWildcard # ys" and "DeepWildcard \<notin> set xs" and "DeepWildcard \<notin> set ys"
proof (cases "DeepWildcard \<in> set ss")
  case True
  then obtain xs ys where "ss = xs @ DeepWildcard # ys" "DeepWildcard \<notin> set xs"
    by (metis split_list_first)
  moreover then have "DeepWildcard \<notin> set ys"
    using assms by (simp add: one_deep_def count_list_append count_list_0_iff)
  ultimately show ?thesis by (rule split)
qed (rule none)

lemma tails_plain: "DeepWildcard \<notin> set ss \<Longrightarrow> tails ss (t, b) = Some (if b then t + int (length ss) else t, b)"
  by (induction ss arbitrary: t) auto

text \<open>The run with the tail that \<open>NewPattern\<close> computes accepts exactly the fits.\<close>

lemma run_fits:
  assumes "list_all (\<lambda>s. \<not> is_var s) ss" and "one_deep ss"
  shows "\<exists>T b. tails ss (0, False) = Some (int T, b) \<and>
    (\<forall>cs vs. atoms_run T ss cs = Some (vs, []) \<longleftrightarrow> fits ss cs vs)"
  using assms(2)
proof (cases rule: one_deepE)
  case none
  then have "atoms_run 0 ss cs = Some (vs, []) \<longleftrightarrow> fits ss cs vs" for cs vs
    using run_plain [OF assms(1) none, of 0 cs vs "[]"] by auto
  with none show ?thesis by (auto simp: tails_plain)
next
  case (split xs ys)
  let ?T = "length ys"
  have p: "list_all (\<lambda>s. \<not> is_var s) xs" "list_all (\<lambda>s. \<not> is_var s) ys" using assms(1) split(1) by simp_all
  have "atoms_run ?T ss cs = Some (vs, []) \<longleftrightarrow> fits ss cs vs" for cs vs
  proof
    assume "atoms_run ?T ss cs = Some (vs, [])"
    then obtain v1 r v2 where r: "atoms_run ?T xs cs = Some (v1, r)" "?T \<le> length r"
      "atoms_run ?T ys (drop (length r - ?T) r) = Some (v2, [])" "vs = v1 @ Join (take (length r - ?T) r) ''/'' # v2"
      by (auto simp: split(1) atoms_run_append split: option.splits if_splits)
    from r(1) obtain pre where pre: "cs = pre @ r" "fits xs pre v1" by (auto simp: run_plain [OF p(1) split(2)])
    from r(3) have "fits ys (drop (length r - ?T) r) v2" by (simp add: run_plain [OF p(2) split(3)])
    from fits_appendI [OF pre(2) fits_deep [OF this, of "take (length r - ?T) r"]]
    show "fits ss cs vs" by (simp add: split(1) pre(1) r(4))
  next
    assume "fits ss cs vs"
    then obtain c1 zs c3 v1 v3 where c: "cs = c1 @ zs @ c3" "vs = v1 @ Join zs ''/'' # v3" "fits xs c1 v1" "fits ys c3 v3"
      using fits_appendE [of xs "DeepWildcard # ys" cs vs] by (auto simp: split(1))
    have "length c3 = ?T" using fits_length [OF c(4) split(3)] .
    moreover have "atoms_run ?T xs cs = Some (v1, zs @ c3)"
      using c(1,3) by (auto simp: run_plain [OF p(1) split(2)])
    moreover have "atoms_run ?T ys c3 = Some (v3, [])"
      using c(4) by (simp add: run_plain [OF p(2) split(3)])
    ultimately show "atoms_run ?T ss cs = Some (vs, [])"
      by (simp add: split(1) atoms_run_append c(2))
  qed
  moreover have "tails ss (0, False) = Some (int ?T, True)"
    by (simp add: split tails_append tails_plain)
  ultimately show ?thesis by blast
qed

section \<open>The compiler is correct\<close>

lemma encodes_length: "encodes pool rs is \<Longrightarrow> length is = 2 * length rs"
  by (induction rs arbitrary: "is") auto

lemma np_loop_raw_none:
  assumes "list_all raw_ok rs" and "encodes pool rs is"
    and "raw_height rs (np_stack st, np_tailLen st, np_pushMSeen st) = None"
  shows "np_loop pool is st = None"
  using assms
proof (induction rs arbitrary: "is" st)
  case (Cons r rs)
  from Cons.prems(2) obtain x is' where x: "is = OpCode_int (raw_code r) # x # is'"
    "if raw_str r = [] then x = raw_num r else 0 \<le> x \<and> x < int (length pool) \<and> pool ! nat x = raw_str r"
    "encodes pool rs is'" by auto
  show ?case
  proof (cases "raw_step r (np_stack st, np_tailLen st, np_pushMSeen st)")
    case None
    then have "np_step pool (OpCode_int (raw_code r)) x st = None"
      using Cons.prems(1) x(2) by (cases "raw_code r") (auto simp: np_step_def raw_ok_def OpCode_of_def split: if_splits)
    then show ?thesis by (simp add: x(1))
  next
    case (Some y)
    from np_step_raw [OF _ x(2) this] Cons.prems(1) obtain st1 where
      1: "np_step pool (OpCode_int (raw_code r)) x st = Some st1" "y = (np_stack st1, np_tailLen st1, np_pushMSeen st1)" by auto
    have "np_loop pool is' st1 = None"
      by (rule Cons.IH [OF _ x(3)]) (use Cons.prems(1,3) Some 1(2) in auto)
    with 1(1) show ?thesis by (simp add: x(1))
  qed
qed simp

lemma tails_none: "tails ss (t, b) = None \<longleftrightarrow> (if b then 1 else 2) \<le> count_list ss DeepWildcard"
proof (induction ss arbitrary: t b)
  case (Cons s ss)
  then show ?case by (cases b) auto
qed simp

lemma raw_ok_segments: "wf_segments segs \<Longrightarrow> list_all raw_ok (concat (List.map compile segs))"
  using raw_ok_compile by (force simp: wf_segments_def list_all_iff)

text \<open>The pattern of a template, when there is one.\<close>

definition template_pattern :: "tmpl \<Rightarrow> Pattern option" where
  "template_pattern t =
     (let c = Compile t in NewPattern (tm_Version c) (tm_OpCodes c) (tm_Pool c) (tm_Verb c))"

lemma template_pattern_none:
  assumes "wf_segments (tp_segments t)" and "flat (tp_segments t)" and "\<not> one_deep (atoms (tp_segments t))"
  shows "template_pattern t = None"
proof -
  have "tails (atoms (tp_segments t)) (0, False) = None" using assms(3) by (simp add: tails_none one_deep_def)
  with height_segments [OF assms(2), of 0]
  have "raw_height (concat (List.map compile (tp_segments t))) (0, 0, False) = None" by auto
  from np_loop_raw_none [OF raw_ok_segments [OF assms(1)] Compile_encodes, of "\<lparr>np_typedOps = [], np_stack = 0,
      np_maxstack = 0, np_tailLen = 0, np_pushMSeen = False, np_vars = []\<rparr>"] this
  show ?thesis by (simp add: template_pattern_def NewPattern_def Let_def)
qed

lemma template_pattern_some:
  assumes "wf_segments (tp_segments t)" and "flat (tp_segments t)"
    and "tails (atoms (tp_segments t)) (0, False) = Some (int T, b)"
  shows "\<exists>p. template_pattern t = Some p \<and> p_verb p = tp_verb t \<and> p_tailLen p = int T \<and>
    p_vars p = raw_vars (concat (List.map compile (tp_segments t))) \<and>
    typed (p_pool p) 0 (concat (List.map compile (tp_segments t))) (p_ops p)"
proof -
  let ?rs = "concat (List.map compile (tp_segments t))" and ?c = "Compile t"
  let ?st = "\<lparr>np_typedOps = [], np_stack = 0, np_maxstack = 0, np_tailLen = 0, np_pushMSeen = False, np_vars = []\<rparr>"
  obtain n where "raw_height ?rs (0, 0, False) = Some (n, int T, b)"
    using height_segments [OF assms(2), of 0] assms(3) by auto
  then have "raw_height ?rs (np_stack ?st, np_tailLen ?st, np_pushMSeen ?st) = Some (n, int T, b)" by simp
  from np_loop_raw [OF raw_ok_segments [OF assms(1)] Compile_encodes this] obtain st where
    "np_loop (tm_Pool ?c) (tm_OpCodes ?c) ?st = Some st" "typed (tm_Pool ?c) 0 ?rs (np_typedOps st)"
    "np_vars st = raw_vars ?rs" "np_tailLen st = int T" by auto
  moreover have "length (tm_OpCodes ?c) mod 2 = 0" using encodes_length [OF Compile_encodes] by simp
  moreover have "tm_Version ?c = 1" "tm_Verb ?c = tp_verb t"
    by (simp_all add: Compile_def opcodeVersion_def Let_def)
  ultimately show ?thesis by (simp add: template_pattern_def NewPattern_def Let_def)
qed

lemma template_match:
  assumes "template_pattern t = Some p" and "wf_segments (tp_segments t)" and "flat (tp_segments t)"
    and "tails (atoms (tp_segments t)) (0, False) = Some (int T, b)"
  shows "Match p cs verb =
    (if verb \<noteq> tp_verb t then ErrNotMatch
     else (case atoms_run T (atoms (tp_segments t)) cs of
             Some (vs, []) \<Rightarrow> Matched (map_of (rev (bindings (tp_segments t) vs)))
           | _ \<Rightarrow> ErrNotMatch))"
proof (cases "verb = tp_verb t")
  case True
  let ?segs = "tp_segments t" and ?cap = "replicate (length (p_vars p)) []"
  let ?st = "\<lparr>ms_pos = 0, ms_stack = [], ms_captured = ?cap\<rparr>"
  from template_pattern_some [OF assms(2-4)] assms(1) have p: "p_verb p = tp_verb t" "p_tailLen p = int T"
    "p_vars p = raw_vars (concat (List.map compile ?segs))"
    "typed (p_pool p) 0 (concat (List.map compile ?segs)) (p_ops p)" by auto
  have vars: "p_vars p = List.map fst (bindings ?segs vs)" for vs
    using raw_vars_compile [OF assms(3)] p(3) by simp
  have rest: "at_rest cs cs [] ?cap ?st" by (simp add: at_rest_def)
  have run: "case atoms_run T (atoms ?segs) cs of
      None \<Rightarrow> match_ops p cs (p_ops p) ?st = ErrNotMatch
    | Some (vs, r') \<Rightarrow> \<exists>st'. match_ops p cs (p_ops p) ?st = Matched st' \<and>
        at_rest cs r' ([] @ loose ?segs vs) (captures 0 (List.map snd (bindings ?segs vs)) ?cap) st'"
    by (rule run_segments [OF p(4) assms(3) p(2) rest]) (simp add: vars [of "[]"])
  show ?thesis
  proof (cases "atoms_run T (atoms ?segs) cs")
    case None
    with run True p(1) show ?thesis by (simp add: Match_def)
  next
    case (Some x)
    obtain vs r where x: "x = (vs, r)" by (cases x)
    with run Some obtain st' where st': "match_ops p cs (p_ops p) ?st = Matched st'"
      "at_rest cs r (loose ?segs vs) (captures 0 (List.map snd (bindings ?segs vs)) ?cap) st'" by auto
    have "captures 0 (List.map snd (bindings ?segs vs)) ?cap = List.map snd (bindings ?segs vs)"
      by (simp add: captures_def vars [of vs])
    with st'(2) have c: "ms_captured st' = List.map snd (bindings ?segs vs)" by (simp add: at_rest_def)
    have "zip (p_vars p) (ms_captured st') = bindings ?segs vs"
      unfolding c vars [of vs] by (rule zip_map_fst_snd)
    moreover have "ms_pos st' < int (length cs) \<longleftrightarrow> r \<noteq> []" using st'(2) by (auto simp: at_rest_def)
    ultimately show ?thesis
      using True p(1) Some x st'(1) by (cases r) (simp_all add: Match_def)
  qed
next
  case False
  from template_pattern_some [OF assms(2-4)] assms(1) have "p_verb p = tp_verb t" by auto
  with False show ?thesis by (simp add: Match_def)
qed

text \<open>What a pattern accepts, and that it never runs into an index out of range.\<close>

lemma pattern_accepts:
  assumes "wf_segments (tp_segments t)" and "flat (tp_segments t)" and "one_deep (atoms (tp_segments t))"
  obtains p where "template_pattern t = Some p" and "\<And>cs verb. Match p cs verb \<noteq> MatchPanic"
    and "\<And>cs verb b. Match p cs verb = Matched b \<longleftrightarrow>
      verb = tp_verb t \<and> (\<exists>vs. fits (atoms (tp_segments t)) cs vs \<and> b = map_of (rev (bindings (tp_segments t) vs)))"
proof -
  have "list_all (\<lambda>s. \<not> is_var s) (atoms (tp_segments t))" using assms(2) by (simp add: flat_def)
  from run_fits [OF this assms(3)] obtain T b where
    T: "tails (atoms (tp_segments t)) (0, False) = Some (int T, b)"
      "\<And>cs vs. atoms_run T (atoms (tp_segments t)) cs = Some (vs, []) \<longleftrightarrow> fits (atoms (tp_segments t)) cs vs"
    by blast
  obtain p where p: "template_pattern t = Some p" using template_pattern_some [OF assms(1,2) T(1)] by blast
  show ?thesis
    by (rule that [OF p])
      (auto simp: template_match [OF p assms(1,2) T(1)] T(2) [symmetric] split: option.split list.split)
qed

text \<open>
  C24: the compiler of path templates is correct. For a template that the parser returns, \<open>NewPattern\<close> accepts the compiled program exactly when the template
  has at most one deep wildcard, and \<open>Match\<close> then accepts exactly the paths whose components can be
  shared out among the segments, under the verb of the template, and binds each variable to its part
  of the path; it never runs into an index out of range.
\<close>

theorem template_compiles:
  assumes "Parse_tmpl src = ParseOk t"
  shows "case template_pattern t of
      None \<Rightarrow> \<not> one_deep (atoms (tp_segments t))
    | Some p \<Rightarrow> one_deep (atoms (tp_segments t)) \<and>
        (\<forall>cs verb. Match p cs verb \<noteq> MatchPanic) \<and>
        (\<forall>cs verb b. Match p cs verb = Matched b \<longleftrightarrow>
           verb = tp_verb t \<and> (\<exists>vs. fits (atoms (tp_segments t)) cs vs \<and>
             b = map_of (rev (bindings (tp_segments t) vs))))"
proof (cases "one_deep (atoms (tp_segments t))")
  case True
  with Parse_tmpl_wf [OF assms] Parse_tmpl_flat [OF assms] show ?thesis by (rule_tac pattern_accepts) auto
next
  case False
  with template_pattern_none [OF Parse_tmpl_wf [OF assms] Parse_tmpl_flat [OF assms]] show ?thesis by simp
qed

definition sample_template :: string where
  "sample_template = ''/a/{x.y=b/*/c}/**:run''"

lemma sample_template_parses:
  "Parse_tmpl sample_template =
     ParseOk \<lparr>tp_segments = [Literal ''a'', Variable ''x.y'' [Literal ''b'', Wildcard, Literal ''c''], DeepWildcard],
       tp_verb = ''run'', tp_template = sample_template\<rparr>"
  by code_simp

abbreviation sample_segments :: "segment list" where
  "sample_segments \<equiv> [Literal ''a'', Variable ''x.y'' [Literal ''b'', Wildcard, Literal ''c''], DeepWildcard]"

lemma sample_facts:
  "one_deep (atoms sample_segments)"
  "fits (atoms sample_segments) [''a'', ''b'', ''7'', ''c'', ''d'', ''e''] [''a'', ''b'', ''7'', ''c'', ''d/e'']"
  "bindings sample_segments [''a'', ''b'', ''7'', ''c'', ''d/e''] = [(''x.y'', ''b/7/c'')]"
  "\<not> fits (atoms sample_segments) [''a'', ''b'', ''7'', ''d''] vs"
  using fits_deep [OF fits_nil, of "[''d'', ''e'']"] by (simp_all add: is_var_def one_deep_def)

theorem template_compiles_witness:
  "case template_pattern \<lparr>tp_segments = sample_segments, tp_verb = ''run'', tp_template = sample_template\<rparr> of
     None \<Rightarrow> False
   | Some p \<Rightarrow> Match p [''a'', ''b'', ''7'', ''c'', ''d'', ''e''] ''run'' = Matched [''x.y'' \<mapsto> ''b/7/c''] \<and>
       Match p [''a'', ''b'', ''7'', ''d''] ''run'' = ErrNotMatch"
proof -
  have e: "x = ErrNotMatch \<longleftrightarrow> (\<forall>b. x \<noteq> Matched b) \<and> x \<noteq> MatchPanic" for x :: "'a match_result"
    by (cases x) auto
  have b: "[''x.y'' \<mapsto> ''b/7/c''] = map_of (rev (bindings sample_segments [''a'', ''b'', ''7'', ''c'', ''d/e'']))"
    unfolding sample_facts(3) by simp
  have "case template_pattern \<lparr>tp_segments = sample_segments, tp_verb = ''run'', tp_template = sample_template\<rparr> of
      None \<Rightarrow> \<not> one_deep (atoms sample_segments)
    | Some p \<Rightarrow> one_deep (atoms sample_segments) \<and> (\<forall>cs verb. Match p cs verb \<noteq> MatchPanic) \<and>
        (\<forall>cs verb b. Match p cs verb = Matched b \<longleftrightarrow>
           verb = ''run'' \<and> (\<exists>vs. fits (atoms sample_segments) cs vs \<and>
             b = map_of (rev (bindings sample_segments vs))))"
    using template_compiles [OF sample_template_parses, unfolded tmpl.select_convs] .
  with sample_facts(1,2,4) b show ?thesis
    unfolding e by (auto split: option.splits simp del: atoms_simps fits_simps)
qed

end
