(* ===== verification/Httprule_Gateway.thy ===== *)
theory Httprule_Gateway
  imports Httprule_Compile Gateway_Props
begin

text \<open>
  The path templates of \<open>pb/www.proto\<close> and the patterns of \<open>pb/www.pb.gw.go\<close>: the constants of the
  generated file are what parsing and compiling the templates gives, so what they match is read off
  the templates.
\<close>

text \<open>The templates of the three methods of the service.\<close>

definition template_Version :: string where
  "template_Version = ''/api/v1/version''"

definition template_ServicesStatus :: string where
  "template_ServicesStatus = ''/api/v1/services/status''"

definition template_RsvpCreation :: string where
  "template_RsvpCreation = ''/api/v1/rsvp_creation''"

text \<open>A constant of the generated file that comes from a template, and matches one path only.\<close>

definition generated_as :: "string \<Rightarrow> Pattern option \<Rightarrow> string list \<Rightarrow> bool" where
  "generated_as src pat path \<longleftrightarrow>
     (\<exists>t p. Parse_tmpl src = ParseOk t \<and> template_pattern t = pat \<and> pat = Some p \<and>
        (\<forall>cs verb b. Match p cs verb = Matched b \<longleftrightarrow> verb = [] \<and> cs = path \<and> b = Map.empty))"

lemma literal_fits: "fits (List.map Literal ls) cs vs \<longleftrightarrow> cs = ls \<and> vs = ls"
  by (induction ls arbitrary: cs vs) auto

lemma literal_atoms:
  "atoms (List.map Literal ls) = List.map Literal ls" "flat (List.map Literal ls)"
  "one_deep (List.map Literal ls)" "bindings (List.map Literal ls) vs = []"
  by (induction ls arbitrary: vs) (simp_all add: is_var_def one_deep_def)

text \<open>A template of literals gives a pattern that matches the literals.\<close>

lemma literal_generated:
  assumes "Parse_tmpl src = ParseOk t" and "tp_segments t = List.map Literal ls" and "tp_verb t = []"
    and "template_pattern t = pat"
  shows "generated_as src pat ls"
  using Parse_tmpl_wf [OF assms(1)] assms
  by (rule_tac pattern_accepts [of t]) (auto simp: literal_atoms literal_fits generated_as_def)

lemma templates_parse:
  "Parse_tmpl template_Version = ParseOk \<lparr>tp_segments = List.map Literal version_path,
     tp_verb = [], tp_template = template_Version\<rparr>"
  "Parse_tmpl template_ServicesStatus = ParseOk \<lparr>tp_segments = List.map Literal status_path,
     tp_verb = [], tp_template = template_ServicesStatus\<rparr>"
  "Parse_tmpl template_RsvpCreation = ParseOk \<lparr>tp_segments = List.map Literal rsvp_path,
     tp_verb = [], tp_template = template_RsvpCreation\<rparr>"
  by code_simp+

lemma templates_compile:
  "template_pattern \<lparr>tp_segments = List.map Literal version_path, tp_verb = [], tp_template = s\<rparr> =
     pattern_Www_Version_0"
  "template_pattern \<lparr>tp_segments = List.map Literal status_path, tp_verb = [], tp_template = s\<rparr> =
     pattern_Www_ServicesStatus_0"
  "template_pattern \<lparr>tp_segments = List.map Literal rsvp_path, tp_verb = [], tp_template = s\<rparr> =
     pattern_Www_RsvpCreation_0"
  by (simp_all add: template_pattern_def Compile_def compile_op_def add_const_def opcodeVersion_def Let_def
      version_path_def status_path_def rsvp_path_def pattern_Www_Version_0_def
      pattern_Www_ServicesStatus_0_def pattern_Www_RsvpCreation_0_def MustPattern_def NewPattern_def
      np_step_def np_emit_def OpCode_of_def)

text \<open>
  C25: the routes of the gateway are the ones that the service declares. The three patterns of the
  generated file are what the compiler of path templates makes of the templates in
  \<open>pb/www.proto\<close>, and each matches the path of its template, without a verb and without bindings,
  and nothing else.
\<close>

theorem gateway_patterns_generated:
  "generated_as template_Version pattern_Www_Version_0 [''api'', ''v1'', ''version''] \<and>
   generated_as template_ServicesStatus pattern_Www_ServicesStatus_0 [''api'', ''v1'', ''services'', ''status''] \<and>
   generated_as template_RsvpCreation pattern_Www_RsvpCreation_0 [''api'', ''v1'', ''rsvp_creation'']"
  unfolding version_path_def [symmetric] status_path_def [symmetric] rsvp_path_def [symmetric]
  by (intro conjI; rule literal_generated [OF templates_parse(1)] literal_generated [OF templates_parse(2)]
      literal_generated [OF templates_parse(3)]) (simp_all add: templates_compile)

end
