(* ===== verification/Service_Concurrent.thy ===== *)
theory Service_Concurrent
  imports Service_Props
begin

text \<open>
  Requests at the same time. The gRPC server runs every call in a goroutine of its own, on one
  \<open>wwwServer\<close>, and \<open>initDatabaseHandle\<close> looks at \<open>sqliteHandle\<close> and sets it without a lock. Here
  the calls of \<open>RsvpCreation\<close> run in steps: the look at the handle, the opening, the assignment, the
  ping and the creation, which is one transaction of the engine. A schedule says which call makes the
  next step. All the handles of one data source name lead to the same database, and a pointer is read
  and written as a whole.
\<close>

section \<open>The steps of a call\<close>

text \<open>
  Where a call stands: it has entered, it has found no handle, it has opened one and not stored it
  yet, it is about to ping, it is about to create, it has answered. A handle is the number of its
  opening.
\<close>

datatype pc =
    Entered
  | SawNil
  | Opened nat
  | Ready
  | Pinged
  | Answered "RsvpCreationResponse outcome"

record thread =
  th_env :: call_env
  th_req :: RsvpCreationRequest
  th_pc :: pc

record 'db shared =
  sh_disk :: 'db
  sh_handle :: "nat option"
  sh_opened :: nat
  sh_threads :: "thread list"

definition failed_answer :: "code \<Rightarrow> string \<Rightarrow> RsvpCreationResponse outcome" where
  "failed_answer c err = Ret (Some (RsvpCreationResponse_Reset\<lparr>rs_Ok := False\<rparr>)) (Some (status_Errorf0 c err))"

text \<open>The last part of \<open>RsvpCreation\<close>, from the call of \<open>CreateRsvp\<close> on.\<close>

definition create_answer ::
  "'db driver \<Rightarrow> call_env \<Rightarrow> RsvpCreationRequest \<Rightarrow> 'db \<Rightarrow> RsvpCreationResponse outcome \<times> 'db" where
  "create_answer drv env req d =
     (case CreateRsvp drv (e_now env) (e_rnd env)
         (RsvpCreationRequest_GetNames (Some req))
         (RsvpCreationRequest_GetEmail (Some req))
         (RsvpCreationRequest_GetPresence (Some req))
         (RsvpCreationRequest_GetChildrenNameAge (Some req))
         (RsvpCreationRequest_GetHousing (Some req))
         (RsvpCreationRequest_GetMusic (Some req))
         (RsvpCreationRequest_GetBrunch (Some req)) d of
        None \<Rightarrow> (Panic RandomFailed, d)
      | Some (_, Some err, d') \<Rightarrow>
          (failed_answer CodeInvalidArgument (models_error_msg (e_quote env) (e_scan env) err), d')
      | Some (None, None, d') \<Rightarrow> (Panic NilDereference, d')
      | Some (Some dbRsvp, None, d') \<Rightarrow>
          (Ret (Some (RsvpCreationResponse_Reset\<lparr>rs_Ok := True,
             rs_Info := Some (convertRsvpFromModelToProtocol dbRsvp)\<rparr>)) None, d'))"

definition thread_step :: "'db driver \<Rightarrow> string \<Rightarrow> thread \<Rightarrow> 'db shared \<Rightarrow> pc \<times> 'db shared" where
  "thread_step drv dsn t sh =
     (case th_pc t of
        Entered \<Rightarrow>
          (case RsvpCreationRequest_Validate (th_req t) of
             Some err \<Rightarrow>
               (Answered (Ret (Some (RsvpCreationResponse_Reset\<lparr>rs_Ok := False\<rparr>))
                  (Some (status_Error CodeInvalidArgument (fieldError_Error err)))), sh)
           | None \<Rightarrow> (if sh_handle sh = None then SawNil else Ready, sh))
      | SawNil \<Rightarrow>
          (case d_open drv dsn of
             Inl err \<Rightarrow> (Answered (failed_answer CodeInternal err), sh)
           | Inr _ \<Rightarrow>
               (case d_ping drv (sh_disk sh) of
                  Some err \<Rightarrow> (Answered (failed_answer CodeInternal err), sh)
                | None \<Rightarrow> (Opened (sh_opened sh), sh\<lparr>sh_opened := sh_opened sh + 1\<rparr>)))
      | Opened h \<Rightarrow> (Ready, sh\<lparr>sh_handle := Some h\<rparr>)
      | Ready \<Rightarrow>
          (if sh_handle sh = None then (Answered (Panic NilDereference), sh)
           else (case d_ping drv (sh_disk sh) of
                   Some err \<Rightarrow> (Answered (failed_answer CodeInternal err), sh)
                 | None \<Rightarrow> (Pinged, sh)))
      | Pinged \<Rightarrow>
          (if sh_handle sh = None then (Answered (Panic NilDereference), sh)
           else (case create_answer drv (th_env t) (th_req t) (sh_disk sh) of
                   (out, d) \<Rightarrow> (Answered out, sh\<lparr>sh_disk := d\<rparr>)))
      | Answered out \<Rightarrow> (Answered out, sh))"

definition shared_step :: "'db driver \<Rightarrow> string \<Rightarrow> nat \<Rightarrow> 'db shared \<Rightarrow> 'db shared" where
  "shared_step drv dsn i sh =
     (if i < length (sh_threads sh) then
        (case thread_step drv dsn (sh_threads sh ! i) sh of
           (pc, sh') \<Rightarrow> sh'\<lparr>sh_threads := (sh_threads sh)[i := (sh_threads sh ! i)\<lparr>th_pc := pc\<rparr>]\<rparr>)
      else sh)"

definition interleave :: "'db driver \<Rightarrow> string \<Rightarrow> nat list \<Rightarrow> 'db shared \<Rightarrow> 'db shared" where
  "interleave drv dsn sched sh = fold (shared_step drv dsn) sched sh"

type_synonym creation_call = "call_env \<times> RsvpCreationRequest"

text \<open>The calls come in on a new server.\<close>

definition arrive :: "'db \<Rightarrow> creation_call list \<Rightarrow> 'db shared" where
  "arrive d calls =
     \<lparr>sh_disk = d, sh_handle = None, sh_opened = 0,
      sh_threads = map (\<lambda>(env, req). \<lparr>th_env = env, th_req = req, th_pc = Entered\<rparr>) calls\<rparr>"

definition answered :: "'db shared \<Rightarrow> nat \<Rightarrow> RsvpCreationResponse outcome option" where
  "answered sh i =
     (if i < length (sh_threads sh) then
        (case th_pc (sh_threads sh ! i) of Answered out \<Rightarrow> Some out | _ \<Rightarrow> None)
      else None)"

section \<open>Every call answers\<close>

fun rank :: "pc \<Rightarrow> nat" where
  "rank Entered = 5"
| "rank SawNil = 4"
| "rank (Opened h) = 3"
| "rank Ready = 2"
| "rank Pinged = 1"
| "rank (Answered out) = 0"

definition th_rank :: "'db shared \<Rightarrow> nat \<Rightarrow> nat" where
  "th_rank sh i = rank (th_pc (sh_threads sh ! i))"

lemma thread_step_rank: "rank (fst (thread_step drv dsn t sh)) \<le> rank (th_pc t) - 1"
  by (simp add: thread_step_def split: pc.split option.split sum.split prod.split)

lemma shared_step_frame [simp]:
  "length (sh_threads (shared_step drv dsn j sh)) = length (sh_threads sh)"
  by (simp add: shared_step_def split: prod.split)

lemma shared_step_thread:
  "i < length (sh_threads sh) \<Longrightarrow> sh_threads (shared_step drv dsn j sh) ! i =
     (if i = j then (sh_threads sh ! i)\<lparr>th_pc := fst (thread_step drv dsn (sh_threads sh ! i) sh)\<rparr>
      else sh_threads sh ! i)"
  by (simp add: shared_step_def split: prod.split)

lemma shared_step_rank:
  "i < length (sh_threads sh) \<Longrightarrow>
     th_rank (shared_step drv dsn j sh) i \<le> th_rank sh i - (if i = j then 1 else 0)"
  using thread_step_rank [of drv dsn "sh_threads sh ! i" sh] by (auto simp: th_rank_def shared_step_thread)

lemma interleave_rank:
  assumes "i < length (sh_threads sh)"
  shows "th_rank (interleave drv dsn sched sh) i \<le> th_rank sh i - count_list sched i"
  using assms
proof (induction sched arbitrary: sh)
  case (Cons j sched)
  from Cons.IH [of "shared_step drv dsn j sh"] shared_step_rank [OF Cons.prems, of drv dsn j] Cons.prems
  show ?case by (auto simp: interleave_def split: if_splits)
qed (simp add: interleave_def)

lemma interleave_length [simp]: "length (sh_threads (interleave drv dsn sched sh)) = length (sh_threads sh)"
  unfolding interleave_def by (induction sched arbitrary: sh) simp_all

lemma rank_answered: "th_rank sh i = 0 \<Longrightarrow> i < length (sh_threads sh) \<Longrightarrow> answered sh i \<noteq> None"
  by (cases "th_pc (sh_threads sh ! i)") (auto simp: th_rank_def answered_def)

lemma arrive_simps [simp]:
  "length (sh_threads (arrive d calls)) = length calls" "sh_disk (arrive d calls) = d"
  "sh_handle (arrive d calls) = None" "sh_opened (arrive d calls) = 0" "answered (arrive d calls) i = None"
  "i < length calls \<Longrightarrow> sh_threads (arrive d calls) ! i =
     \<lparr>th_env = fst (calls ! i), th_req = snd (calls ! i), th_pc = Entered\<rparr>"
  by (simp_all add: arrive_def answered_def split: prod.split)

lemma interleave_answers:
  assumes "i < length calls" and "5 \<le> count_list sched i"
  shows "answered (interleave drv dsn sched (arrive d calls)) i \<noteq> None"
  using interleave_rank [of i "arrive d calls" drv dsn sched] assms
  by (intro rank_answered) (auto simp: th_rank_def)

section \<open>One call after the other\<close>

text \<open>The same calls carried out in sequence, by the handler as a whole.\<close>

fun seq_calls ::
  "'db driver \<Rightarrow> 'c ctx \<Rightarrow> creation_call list \<Rightarrow> 'db wwwServer \<Rightarrow>
   RsvpCreationResponse outcome list \<times> 'db wwwServer" where
  "seq_calls drv c [] s = ([], s)"
| "seq_calls drv c ((env, req) # calls) s =
     (case RsvpCreation drv env c req s of
        (out, s1) \<Rightarrow> (case seq_calls drv c calls s1 of (outs, s2) \<Rightarrow> (out # outs, s2)))"

lemma seq_calls_snoc:
  "seq_calls drv c (calls @ [(env, req)]) s =
     (case seq_calls drv c calls s of
        (outs, s1) \<Rightarrow> (case RsvpCreation drv env c req s1 of (out, s2) \<Rightarrow> (outs @ [out], s2)))"
  by (induction calls arbitrary: s) (auto split: prod.splits)

text \<open>The database that a server has: the one of its handle, or the one it would open.\<close>

definition current :: "'db \<Rightarrow> 'db wwwServer \<Rightarrow> 'db" where
  "current d0 s = (case ws_sqliteHandle s of None \<Rightarrow> d0 | Some d \<Rightarrow> d)"

text \<open>An engine that opens the name and answers every ping.\<close>

definition responsive :: "'db driver \<Rightarrow> string \<Rightarrow> 'db \<Rightarrow> bool" where
  "responsive drv dsn d0 \<longleftrightarrow> d_open drv dsn = Inr d0 \<and> d_ping drv = (\<lambda>d. None)"

lemma RsvpCreation_create:
  assumes "responsive drv (ws_sqliteDataSourceName s) d0" and "RsvpCreationRequest_Validate req = None"
    and "create_answer drv env req (current d0 s) = (out, d)"
  shows "RsvpCreation drv env c req s = (out, s\<lparr>ws_sqliteHandle := Some d\<rparr>)"
proof -
  have i: "initDatabaseHandle drv s = (None, s\<lparr>ws_sqliteHandle := Some (current d0 s)\<rparr>)"
    using assms(1)
    by (cases "ws_sqliteHandle s")
      (auto simp: initDatabaseHandle_def gorm_Open_def responsive_def current_def intro!: wwwServer.equality)
  show ?thesis
    using assms(2,3)
    by (auto simp: RsvpCreation_def i create_answer_def failed_answer_def Let_def split: option.splits prod.splits)
qed

lemma RsvpCreation_rejects:
  "RsvpCreationRequest_Validate req = Some err \<Longrightarrow> RsvpCreation drv env c req s =
     (Ret (Some (RsvpCreationResponse_Reset\<lparr>rs_Ok := False\<rparr>))
        (Some (status_Error CodeInvalidArgument (fieldError_Error err))), s)"
  by (simp add: RsvpCreation_def)

text \<open>The calls that have answered, in the order \<open>order\<close>, are explained by the sequence in that order.\<close>

definition explains ::
  "'db driver \<Rightarrow> 'c ctx \<Rightarrow> 'db \<Rightarrow> creation_call list \<Rightarrow> 'db wwwServer \<Rightarrow> nat list \<Rightarrow> 'db wwwServer \<Rightarrow> 'db shared \<Rightarrow>
   bool" where
  "explains drv c d0 calls s order s' sh \<longleftrightarrow>
     distinct order \<and> set order = {i. answered sh i \<noteq> None} \<and>
     seq_calls drv c (map ((!) calls) order) s = (map (\<lambda>i. the (answered sh i)) order, s') \<and>
     sh_disk sh = current d0 s'"

text \<open>The threads are the calls, those past the look have passed the checks, those past it find a handle.\<close>

definition threads_ok :: "creation_call list \<Rightarrow> 'db shared \<Rightarrow> bool" where
  "threads_ok calls sh \<longleftrightarrow>
     length (sh_threads sh) = length calls \<and>
     (\<forall>i < length calls. let t = sh_threads sh ! i in
        (th_env t, th_req t) = calls ! i \<and>
        (th_pc t \<in> {Ready, Pinged} \<longrightarrow> sh_handle sh \<noteq> None) \<and>
        ((\<forall>out. th_pc t \<noteq> Answered out) \<and> th_pc t \<noteq> Entered \<longrightarrow> RsvpCreationRequest_Validate (th_req t) = None))"

lemma threads_okD:
  assumes "threads_ok calls sh" and "i < length calls"
  shows "calls ! i = (th_env (sh_threads sh ! i), th_req (sh_threads sh ! i))"
    and "th_pc (sh_threads sh ! i) \<in> {Ready, Pinged} \<Longrightarrow> sh_handle sh \<noteq> None"
    and "\<lbrakk>\<And>out. th_pc (sh_threads sh ! i) \<noteq> Answered out; th_pc (sh_threads sh ! i) \<noteq> Entered\<rbrakk> \<Longrightarrow>
      RsvpCreationRequest_Validate (th_req (sh_threads sh ! i)) = None"
    and "length (sh_threads sh) = length calls"
  using assms by (auto simp: threads_ok_def Let_def)

lemma threads_ok_arrive: "threads_ok calls (arrive d calls)"
  by (simp add: threads_ok_def)

lemma thread_step_handle:
  "sh_handle sh \<noteq> None \<Longrightarrow> sh_handle (snd (thread_step drv dsn t sh)) \<noteq> None"
  by (simp add: thread_step_def split: pc.split option.split sum.split prod.split)

lemma shared_step_sel:
  "sh_handle (shared_step drv dsn i sh) =
     (if i < length (sh_threads sh) then sh_handle (snd (thread_step drv dsn (sh_threads sh ! i) sh)) else sh_handle sh)"
  "sh_disk (shared_step drv dsn i sh) =
     (if i < length (sh_threads sh) then sh_disk (snd (thread_step drv dsn (sh_threads sh ! i) sh)) else sh_disk sh)"
  "sh_opened (shared_step drv dsn i sh) =
     (if i < length (sh_threads sh) then sh_opened (snd (thread_step drv dsn (sh_threads sh ! i) sh)) else sh_opened sh)"
  by (simp_all add: shared_step_def split: prod.split)

lemma threads_ok_step:
  assumes "threads_ok calls sh"
  shows "threads_ok calls (shared_step drv dsn j sh)"
proof (cases "j < length calls")
  case True
  note T = threads_okD [OF assms True]
  let ?t = "sh_threads sh ! j"
  have own: "(fst (thread_step drv dsn ?t sh) \<in> {Ready, Pinged} \<longrightarrow> sh_handle (snd (thread_step drv dsn ?t sh)) \<noteq> None) \<and>
    ((\<forall>out. fst (thread_step drv dsn ?t sh) \<noteq> Answered out) \<and> fst (thread_step drv dsn ?t sh) \<noteq> Entered \<longrightarrow>
      RsvpCreationRequest_Validate (th_req ?t) = None)"
    using T(2,3) by (auto simp: thread_step_def split: pc.splits option.splits sum.splits prod.splits if_splits)
  show ?thesis
    unfolding threads_ok_def Let_def
  proof (intro conjI allI impI)
    fix i
    assume i: "i < length calls"
    note I = threads_okD [OF assms i]
    let ?u = "sh_threads (shared_step drv dsn j sh) ! i"
    show "(th_env ?u, th_req ?u) = calls ! i" using I(1,4) i by (simp add: shared_step_thread)
    show "sh_handle (shared_step drv dsn j sh) \<noteq> None" if "th_pc ?u \<in> {Ready, Pinged}"
      using that I(2,4) i True T(4) own thread_step_handle [of sh drv dsn ?t]
      by (cases "i = j") (auto simp: shared_step_thread shared_step_sel)
    show "RsvpCreationRequest_Validate (th_req ?u) = None"
      if "(\<forall>out. th_pc ?u \<noteq> Answered out) \<and> th_pc ?u \<noteq> Entered"
      using that I(3,4) i own by (cases "i = j") (auto simp: shared_step_thread)
  qed (use T(4) in simp)
next
  case False
  with assms show ?thesis by (simp add: shared_step_def threads_ok_def)
qed

lemma answered_other:
  "i \<noteq> j \<Longrightarrow> answered (shared_step drv dsn j sh) i = answered sh i"
  by (simp add: answered_def shared_step_thread)

lemma answered_own:
  "j < length (sh_threads sh) \<Longrightarrow> answered (shared_step drv dsn j sh) j =
     (case fst (thread_step drv dsn (sh_threads sh ! j) sh) of Answered out \<Rightarrow> Some out | _ \<Rightarrow> None)"
  by (simp add: answered_def shared_step_thread)

lemma answered_stays:
  assumes "answered sh i = Some out"
  shows "shared_step drv dsn i sh = sh"
proof -
  from assms have pc: "i < length (sh_threads sh)" "th_pc (sh_threads sh ! i) = Answered out"
    by (auto simp: answered_def split: if_splits pc.splits)
  then have "(sh_threads sh ! i)\<lparr>th_pc := Answered out\<rparr> = sh_threads sh ! i" by (intro thread.equality) auto
  then have "(sh_threads sh)[i := (sh_threads sh ! i)\<lparr>th_pc := Answered out\<rparr>] = sh_threads sh"
    using list_update_id by metis
  with pc show ?thesis by (intro shared.equality) (auto simp: shared_step_def thread_step_def)
qed

text \<open>A step that does not answer leaves the database alone; one that does is the call as a whole.\<close>

lemma silent_step:
  "(\<exists>out. fst (thread_step drv dsn t sh) = Answered out) \<or> sh_disk (snd (thread_step drv dsn t sh)) = sh_disk sh"
  by (simp add: thread_step_def split: pc.split option.split sum.split prod.split)

lemma answering_step:
  assumes "threads_ok calls sh" and "j < length calls" and "answered sh j = None"
    and "responsive drv (ws_sqliteDataSourceName s') d0" and "sh_disk sh = current d0 s'"
    and "dsn = ws_sqliteDataSourceName s'"
    and "fst (thread_step drv dsn (sh_threads sh ! j) sh) = Answered out"
  shows "\<exists>s''. RsvpCreation drv (fst (calls ! j)) c (snd (calls ! j)) s' = (out, s'') \<and>
    sh_disk (snd (thread_step drv dsn (sh_threads sh ! j) sh)) = current d0 s'' \<and>
    ws_sqliteDataSourceName s'' = dsn"
proof -
  let ?t = "sh_threads sh ! j"
  note T = threads_okD [OF assms(1,2)]
  have calls: "fst (calls ! j) = th_env ?t" "snd (calls ! j) = th_req ?t" using T(1) by simp_all
  have ping: "d_ping drv = (\<lambda>d. None)" "d_open drv dsn = Inr d0" using assms(4,6) by (simp_all add: responsive_def)
  consider (reject) err where "th_pc ?t = Entered" "RsvpCreationRequest_Validate (th_req ?t) = Some err"
      "thread_step drv dsn ?t sh = (Answered out, sh)"
      "out = Ret (Some (RsvpCreationResponse_Reset\<lparr>rs_Ok := False\<rparr>))
        (Some (status_Error CodeInvalidArgument (fieldError_Error err)))"
    | (create) d where "th_pc ?t = Pinged" "create_answer drv (th_env ?t) (th_req ?t) (sh_disk sh) = (out, d)"
      "sh_disk (snd (thread_step drv dsn ?t sh)) = d"
    using assms(2,3,7) T(2,4) ping
    by (auto simp: thread_step_def answered_def split: pc.splits option.splits sum.splits prod.splits if_splits)
  then show ?thesis
  proof cases
    case reject
    with assms(5,6) show ?thesis by (simp add: calls RsvpCreation_rejects)
  next
    case create
    have "RsvpCreationRequest_Validate (th_req ?t) = None" using T(3) create(1) by simp
    from RsvpCreation_create [OF assms(4) this, of "th_env ?t" out d c] create assms(5,6)
    show ?thesis by (simp add: calls current_def)
  qed
qed

lemma explains_step:
  assumes "explains drv c d0 calls s order s' sh" and "threads_ok calls sh"
    and "ws_sqliteDataSourceName s' = dsn" and "responsive drv dsn d0"
  shows "\<exists>order' s''. explains drv c d0 calls s order' s'' (shared_step drv dsn j sh) \<and>
    ws_sqliteDataSourceName s'' = dsn"
proof (cases "j < length calls \<and> answered sh j = None")
  case False
  have "shared_step drv dsn j sh = sh"
  proof (cases "j < length calls")
    case True
    with False answered_stays [of sh j] show ?thesis by auto
  next
    case F: False
    with assms(2) show ?thesis by (simp add: shared_step_def threads_ok_def)
  qed
  with assms(1,3) show ?thesis by metis
next
  case True
  note E = assms(1) [unfolded explains_def]
  have len: "j < length (sh_threads sh)" using True assms(2) by (simp add: threads_ok_def)
  let ?pc = "fst (thread_step drv dsn (sh_threads sh ! j) sh)"
  let ?sh = "shared_step drv dsn j sh"
  have other: "answered ?sh i = answered sh i" if "i \<noteq> j" for i using answered_other [OF that] .
  have nj: "j \<notin> set order" using E True by simp
  have outs: "map (\<lambda>i. the (answered ?sh i)) order = map (\<lambda>i. the (answered sh i)) order"
    by (rule map_cong [OF refl]) (metis nj other)
  show ?thesis
  proof (cases "\<exists>out. ?pc = Answered out")
    case F: False
    then have n: "answered ?sh j = None" by (auto simp: answered_own [OF len] split: pc.split)
    have "answered ?sh = answered sh" using other n True by (metis ext)
    moreover have "sh_disk ?sh = sh_disk sh" using silent_step F len by (metis shared_step_sel(2))
    ultimately show ?thesis using E assms(3) by (auto simp: explains_def)
  next
    case T: True
    then obtain out where out: "?pc = Answered out" by blast
    from answering_step [OF assms(2) conjunct1 [OF True] conjunct2 [OF True] _ _ assms(3) [symmetric] out, of d0 c]
      assms(3,4) E obtain s'' where
      s: "RsvpCreation drv (fst (calls ! j)) c (snd (calls ! j)) s' = (out, s'')"
        "sh_disk (snd (thread_step drv dsn (sh_threads sh ! j) sh)) = current d0 s''"
        "ws_sqliteDataSourceName s'' = dsn" by auto
    have a: "answered ?sh j = Some out" by (simp add: answered_own [OF len] out)
    have "seq_calls drv c (map ((!) calls) (order @ [j])) s = (map (\<lambda>i. the (answered ?sh i)) (order @ [j]), s'')"
      using E s(1) seq_calls_snoc [of drv c "map ((!) calls) order" "fst (calls ! j)" "snd (calls ! j)" s]
      by (simp add: outs a)
    moreover have "set (order @ [j]) = {i. answered ?sh i \<noteq> None}"
      using E a other by (auto; metis option.distinct(1))
    moreover have "sh_disk ?sh = current d0 s''" using s(2) len by (simp add: shared_step_sel)
    ultimately have "explains drv c d0 calls s (order @ [j]) s'' ?sh"
      using E nj by (simp add: explains_def)
    with s(3) show ?thesis by blast
  qed
qed

lemma explains_interleave:
  assumes "explains drv c d0 calls s order s' sh" and "threads_ok calls sh"
    and "ws_sqliteDataSourceName s' = dsn" and "responsive drv dsn d0"
  shows "\<exists>order' s''. explains drv c d0 calls s order' s'' (interleave drv dsn sched sh)"
  using assms
proof (induction sched arbitrary: sh order s')
  case (Cons j sched)
  from explains_step [OF Cons.prems] obtain order' s'' where
    "explains drv c d0 calls s order' s'' (shared_step drv dsn j sh)" "ws_sqliteDataSourceName s'' = dsn" by blast
  from Cons.IH [OF this(1) threads_ok_step [OF Cons.prems(2)] this(2) Cons.prems(4)]
  show ?case by (simp add: interleave_def)
qed (auto simp: interleave_def)

text \<open>A new server: no handle yet.\<close>

lemma explains_arrive:
  "ws_sqliteHandle s = None \<Longrightarrow> explains drv c d0 calls s [] s (arrive d0 calls)"
  by (simp add: explains_def current_def)

lemma interleave_explained:
  assumes "ws_sqliteHandle s = None" and "responsive drv (ws_sqliteDataSourceName s) d0"
  shows "\<exists>order s'. explains drv c d0 calls s order s'
    (interleave drv (ws_sqliteDataSourceName s) sched (arrive d0 calls))"
  by (rule explains_interleave [OF explains_arrive [OF assms(1)] threads_ok_arrive refl assms(2)])

section \<open>What the calls store\<close>

definition call_valid :: "creation_call \<Rightarrow> bool" where
  "call_valid call \<longleftrightarrow> RsvpCreationRequest_Validate (snd call) = None"

definition call_rsvp :: "creation_call \<Rightarrow> Rsvp" where
  "call_rsvp call = created_rsvp (the (UUID_New (e_rnd (fst call)))) (e_now (fst call)) (snd call)"

definition call_answer :: "creation_call \<Rightarrow> RsvpCreationResponse outcome" where
  "call_answer call =
     (case RsvpCreationRequest_Validate (snd call) of
        Some err \<Rightarrow>
          Ret (Some (RsvpCreationResponse_Reset\<lparr>rs_Ok := False\<rparr>))
            (Some (status_Error CodeInvalidArgument (fieldError_Error err)))
      | None \<Rightarrow>
          Ret (Some (RsvpCreationResponse_Reset\<lparr>rs_Ok := True,
            rs_Info := Some (convertRsvpFromModelToProtocol (call_rsvp call))\<rparr>)) None)"

text \<open>The random source gives every valid call an identifier, and no two the same.\<close>

definition fresh_calls :: "rsvp_row list \<Rightarrow> creation_call list \<Rightarrow> bool" where
  "fresh_calls rs calls \<longleftrightarrow>
     (let xs = filter call_valid calls; ids = map (\<lambda>call. c_uuid (to_row (call_rsvp call))) xs in
      list_all (\<lambda>call. UUID_New (e_rnd (fst call)) \<noteq> None) xs \<and> distinct (map c_uuid rs @ ids))"

lemma c_uuid_call: "c_uuid (to_row (call_rsvp call)) = UUID_Value (the (UUID_New (e_rnd (fst call))))"
  by (simp add: to_row_def call_rsvp_def created_rsvp_def)

lemma fresh_calls_Cons:
  "fresh_calls rs (call # calls) \<longleftrightarrow>
     (if call_valid call then
        UUID_New (e_rnd (fst call)) \<noteq> None \<and> c_uuid (to_row (call_rsvp call)) \<notin> c_uuid ` set rs \<and>
        fresh_calls (rs @ [to_row (call_rsvp call)]) calls \<and> distinct (map c_uuid rs)
      else fresh_calls rs calls)"
  by (auto simp: fresh_calls_def Let_def)

lemma fresh_calls_mset:
  assumes "mset calls = mset calls'"
  shows "fresh_calls rs calls = fresh_calls rs calls'"
proof -
  let ?ids = "\<lambda>calls. map (\<lambda>call. c_uuid (to_row (call_rsvp call))) (filter call_valid calls)"
  have "mset (filter call_valid calls) = mset (filter call_valid calls')" using assms by simp
  then have m: "mset (map c_uuid rs @ ?ids calls) = mset (map c_uuid rs @ ?ids calls')"
    and f: "set (filter call_valid calls) = set (filter call_valid calls')"
    unfolding mset_append mset_map by (simp only:, rule mset_eq_setD)
  show ?thesis
    unfolding fresh_calls_def Let_def list_all_iff f mset_eq_imp_distinct_iff [OF m] ..
qed

context sql_store
begin

lemma create_answer_success:
  assumes "call_valid (env, req)" and "up d" and "UUID_New (e_rnd env) \<noteq> None"
    and "c_uuid (to_row (call_rsvp (env, req))) \<notin> c_uuid ` set (rows d)"
  shows "\<exists>d'. create_answer drv env req d = (call_answer (env, req), d') \<and> up d' \<and>
    rows d' = rows d @ [to_row (call_rsvp (env, req))]"
proof -
  have l: "length (rq_Names req) \<in> {3..255}" "length (rq_ChildrenNameAge req) \<le> 255" "length (rq_Music req) \<le> 255"
    using validated_lengths [of req] assms(1) by (auto simp: call_valid_def)
  obtain u where u: "UUID_New (e_rnd env) = Some u" using assms(3) by blast
  let ?v = "zero_Rsvp\<lparr>r_Names := rq_Names req, r_Email := rq_Email req, r_Presence := rq_Presence req,
    r_ChildrenNameAge := rq_ChildrenNameAge req, r_Housing := rq_Housing req, r_Music := rq_Music req,
    r_Brunch := rq_Brunch req\<rparr>"
  have f: "UUID_Value u \<notin> c_uuid ` set (rows d)" using assms(4) by (simp add: c_uuid_call u)
  have w: "stamped (e_now env) (?v\<lparr>r_UUID := u\<rparr>) = call_rsvp (env, req)"
    by (simp add: call_rsvp_def created_rsvp_def u stamped_def zero_Rsvp_def)
  from create_fresh [OF assms(2) u f, of "e_now env" ?v] obtain sc where
    "gorm_Create drv (e_now env) (e_rnd env) ?v d = Some sc" "sc_errs sc = []" "sc_val sc = call_rsvp (env, req)"
    "up (sc_db sc)" "rows (sc_db sc) = rows d @ [to_row (call_rsvp (env, req))]" by (auto simp: w)
  moreover have "castRsvpParams (rq_Names req) (rq_Email req) (rq_Presence req) (rq_ChildrenNameAge req)
      (rq_Housing req) (rq_Music req) (rq_Brunch req) =
    Inr (rq_Names req, rq_Email req, rq_Presence req, rq_ChildrenNameAge req, rq_Housing req, rq_Music req, rq_Brunch req)"
    using l by (simp add: castRsvpParams_Inr)
  ultimately show ?thesis
    using assms(1)
    by (simp add: create_answer_def CreateRsvp_def gorm_Error_def getter_defs call_answer_def call_valid_def)
qed

lemma seq_calls_store:
  assumes "responsive drv (ws_sqliteDataSourceName s) d0" and "up (current d0 s)"
    and "fresh_calls (rows (current d0 s)) calls" and "seq_calls drv c calls s = (outs, s')"
  shows "outs = map call_answer calls \<and>
    rows (current d0 s') = rows (current d0 s) @ map (\<lambda>call. to_row (call_rsvp call)) (filter call_valid calls)"
  using assms
proof (induction calls arbitrary: s outs)
  case (Cons call calls)
  obtain env req where call: "call = (env, req)" by (cases call)
  show ?case
  proof (cases "call_valid call")
    case True
    from Cons.prems(3) True have f: "UUID_New (e_rnd env) \<noteq> None"
      "c_uuid (to_row (call_rsvp (env, req))) \<notin> c_uuid ` set (rows (current d0 s))"
      "fresh_calls (rows (current d0 s) @ [to_row (call_rsvp (env, req))]) calls"
      by (simp_all add: fresh_calls_Cons call)
    from create_answer_success [OF True [unfolded call] Cons.prems(2) f(1,2)] obtain d where
      d: "create_answer drv env req (current d0 s) = (call_answer (env, req), d)" "up d"
        "rows d = rows (current d0 s) @ [to_row (call_rsvp (env, req))]" by blast
    let ?s = "s\<lparr>ws_sqliteHandle := Some d\<rparr>"
    have "RsvpCreationRequest_Validate req = None" using True by (simp add: call call_valid_def)
    from RsvpCreation_create [OF Cons.prems(1) this d(1)]
    have r: "RsvpCreation drv env c req s = (call_answer (env, req), ?s)" .
    obtain outs' where o: "seq_calls drv c calls ?s = (outs', s')" "outs = call_answer (env, req) # outs'"
      using Cons.prems(4) by (auto simp: call r split: prod.splits)
    have "current d0 ?s = d" by (simp add: current_def)
    with Cons.IH [OF _ _ _ o(1)] Cons.prems(1) d f(3) o(2) True show ?thesis by (simp add: call)
  next
    case False
    then obtain err where "RsvpCreationRequest_Validate req = Some err" by (auto simp: call call_valid_def)
    with Cons.prems False Cons.IH [of s] show ?thesis
      by (auto simp: call RsvpCreation_rejects call_answer_def fresh_calls_Cons split: prod.splits)
  qed
qed simp

end

section \<open>The handles\<close>

definition pending :: "'db shared \<Rightarrow> nat set" where
  "pending sh = {i. i < length (sh_threads sh) \<and> th_pc (sh_threads sh ! i) \<in> {Entered, SawNil} \<and>
     RsvpCreationRequest_Validate (th_req (sh_threads sh ! i)) = None}"

lemma finite_pending [simp]: "finite (pending sh)"
  by (simp add: pending_def)

lemma thread_step_opened:
  "sh_opened (snd (thread_step drv dsn t sh)) = sh_opened sh \<or>
   (th_pc t = SawNil \<and> thread_step drv dsn t sh = (Opened (sh_opened sh), sh\<lparr>sh_opened := sh_opened sh + 1\<rparr>))"
  by (simp add: thread_step_def split: pc.split option.split sum.split prod.split)

lemma opened_step:
  assumes "threads_ok calls sh"
  shows "sh_opened (shared_step drv dsn j sh) + card (pending (shared_step drv dsn j sh)) \<le>
    sh_opened sh + card (pending sh)"
proof (cases "j < length (sh_threads sh)")
  case True
  let ?t = "sh_threads sh ! j" and ?sh = "shared_step drv dsn j sh"
  have j: "j < length calls" using True assms by (simp add: threads_ok_def)
  have sub: "pending ?sh \<subseteq> pending sh"
  proof
    fix i
    assume i: "i \<in> pending ?sh"
    have "fst (thread_step drv dsn ?t sh) \<in> {Entered, SawNil} \<Longrightarrow> th_pc ?t \<in> {Entered, SawNil}"
      by (auto simp: thread_step_def split: pc.splits option.splits sum.splits prod.splits if_splits)
    with i show "i \<in> pending sh"
      by (cases "i = j") (auto simp: pending_def shared_step_thread)
  qed
  consider "sh_opened (snd (thread_step drv dsn ?t sh)) = sh_opened sh"
    | "th_pc ?t = SawNil" "thread_step drv dsn ?t sh = (Opened (sh_opened sh), sh\<lparr>sh_opened := sh_opened sh + 1\<rparr>)"
    using thread_step_opened [of drv dsn ?t sh] by blast
  then show ?thesis
  proof cases
    case 1
    with True card_mono [OF finite_pending sub] show ?thesis by (simp add: shared_step_sel)
  next
    case 2
    then have "j \<in> pending sh" "j \<notin> pending ?sh"
      using True threads_okD(3) [OF assms j] by (auto simp: pending_def shared_step_thread)
    with sub have "card (pending ?sh) < card (pending sh)" by (intro psubset_card_mono) auto
    with 2 True show ?thesis by (simp add: shared_step_sel)
  qed
qed (simp add: shared_step_def)

lemma opened_interleave:
  assumes "threads_ok calls sh"
  shows "sh_opened (interleave drv dsn sched sh) \<le> sh_opened sh + card (pending sh)"
  using assms
proof (induction sched arbitrary: sh)
  case (Cons j sched)
  from Cons.IH [OF threads_ok_step [OF Cons.prems, of drv dsn j]] opened_step [OF Cons.prems, of drv dsn j]
  show ?case by (simp add: interleave_def)
qed (simp add: interleave_def)

lemma pending_arrive: "card (pending (arrive d calls)) = length (filter call_valid calls)"
proof -
  have "pending (arrive d calls) = {i. i < length calls \<and> call_valid (calls ! i)}"
    by (auto simp: pending_def call_valid_def)
  then show ?thesis by (simp add: length_filter_conv_card)
qed

section \<open>Properties\<close>

text \<open>
  C5: the steps of concurrent calls of \<open>RsvpCreation\<close> on a new server can be put in a sequence: in
  every interleaving there is an order of the calls that have answered in which the handler, run as a
  whole for one call after the other, gives every call the answer it got, and leaves the database
  that they left. The race on the handle does not show in the answers.
\<close>

theorem RsvpCreation_linearizable:
  assumes "ws_sqliteHandle s = None" and "responsive drv (ws_sqliteDataSourceName s) d0"
    and "sh = interleave drv (ws_sqliteDataSourceName s) sched (arrive d0 calls)"
  shows "\<exists>order s'. distinct order \<and> set order = {i. answered sh i \<noteq> None} \<and>
    seq_calls drv c (map ((!) calls) order) s = (map (\<lambda>i. the (answered sh i)) order, s') \<and>
    sh_disk sh = current d0 s'"
  using interleave_explained [OF assms(1,2), of c calls sched] unfolding explains_def assms(3) .

definition two_calls :: "creation_call list" where
  "two_calls = [(sample_env, sample_request), (sample_env, sample_request\<lparr>rq_Names := []\<rparr>)]"

lemma responsive_mem: "responsive (mem_driver empty_disk) dsn empty_mem"
  by (simp add: responsive_def empty_disk_def fun_eq_iff)

theorem RsvpCreation_linearizable_witness:
  "\<exists>order s'. distinct order \<and>
    set order = {i. answered (interleave (mem_driver empty_disk) (ws_sqliteDataSourceName sample_server)
      [0, 1, 0, 0, 0, 0] (arrive empty_mem two_calls)) i \<noteq> None} \<and>
    length (fst (seq_calls (mem_driver empty_disk) (Background :: unit ctx) (map ((!) two_calls) order) sample_server)) =
      length order"
  using RsvpCreation_linearizable [where s = sample_server and c = "Background :: unit ctx" and calls = two_calls
      and sched = "[0, 1, 0, 0, 0, 0]", OF _ responsive_mem refl]
  by (force simp: sample_server_def)

text \<open>
  C4: concurrent answers to the invitation are all stored, none twice. Over an engine that keeps the
  laws of an SQL table and answers, with identifiers that differ from each other and from those in
  the table, every schedule that gives each call five steps ends with every call answered: a valid
  one with the created entry, an invalid one with the error of its validator; and the table has got
  one row for each valid call, behind the rows it had, and nothing else.
\<close>

theorem concurrent_rsvps_stored:
  assumes "sql_store drv rows base up ord" and "responsive drv dsn d0" and "up d0"
    and "fresh_calls (rows d0) calls" and "\<And>i. i < length calls \<Longrightarrow> 5 \<le> count_list sched i"
    and "sh = interleave drv dsn sched (arrive d0 calls)"
  shows "map (answered sh) [0..<length calls] = map (\<lambda>call. Some (call_answer call)) calls \<and>
    (\<exists>new. rows (sh_disk sh) = rows d0 @ new \<and>
      mset new = mset (map (\<lambda>call. to_row (call_rsvp call)) (filter call_valid calls)))"
proof -
  let ?s = "\<lparr>ws_version = [], ws_jwtSecret = [], ws_caCertificate = [], ws_certificate = [], ws_privateKey = [],
    ws_sqliteDataSourceName = dsn, ws_sqliteHandle = None\<rparr> :: 'a wwwServer"
  let ?n = "length calls" and ?c = "Background :: unit ctx"
  have cur: "current d0 ?s = d0" by (simp add: current_def)
  from interleave_explained [of ?s drv d0 ?c calls sched] assms(2) obtain order s' where
    e: "explains drv ?c d0 calls ?s order s' sh" by (auto simp: assms(6))
  have "length (sh_threads sh) = ?n"
    by (simp add: assms(6))
  then have "{i. answered sh i \<noteq> None} = {..<?n}"
    using interleave_answers [OF _ assms(5)] by (auto simp: assms(6)) (auto simp: answered_def split: if_splits)
  then have order: "distinct order" "set order = {..<?n}" using e by (simp_all add: explains_def)
  then have "mset order = mset [0..<?n]" by (metis atLeast_upt distinct_upt set_eq_iff_mset_eq_distinct)
  then have m: "mset (map ((!) calls) order) = mset calls" by (metis map_nth mset_map)
  have seq: "seq_calls drv ?c (map ((!) calls) order) ?s = (map (\<lambda>i. the (answered sh i)) order, s')"
    "sh_disk sh = current d0 s'" using e by (simp_all add: explains_def)
  from sql_store.seq_calls_store [OF assms(1) _ _ _ seq(1), of d0] assms(2,3,4) fresh_calls_mset [OF m]
  have r: "map (\<lambda>i. the (answered sh i)) order = map (\<lambda>i. call_answer (calls ! i)) order"
    "rows (sh_disk sh) = rows d0 @ map (\<lambda>call. to_row (call_rsvp call)) (filter call_valid (map ((!) calls) order))"
    by (simp_all add: cur seq(2) comp_def)
  have "answered sh i = Some (call_answer (calls ! i))" if "i < ?n" for i
  proof -
    have "i \<in> set order" "answered sh i \<noteq> None"
      using that order(2) e by (auto simp: explains_def)
    with r(1) show ?thesis by auto
  qed
  then have "map (answered sh) [0..<?n] = map (\<lambda>i. Some (call_answer (calls ! i))) [0..<?n]" by simp
  also have "\<dots> = map (\<lambda>call. Some (call_answer call)) (map ((!) calls) [0..<?n])" by simp
  also have "\<dots> = map (\<lambda>call. Some (call_answer call)) calls" by (simp only: map_nth)
  finally show ?thesis using r(2) m by (metis mset_filter mset_map)
qed

lemma two_calls_fresh: "fresh_calls (m_rows empty_mem) two_calls"
  using sample_request_valid
  by (simp add: two_calls_def fresh_calls_def call_valid_def sample_env_def UUID_New_new_bytes
      RsvpCreationRequest_Validate_def)

theorem concurrent_rsvps_stored_witness:
  "\<exists>new. m_rows (sh_disk (interleave (mem_driver empty_disk) ''dsn'' [0, 1, 1, 0, 0, 0, 0, 1, 1, 1] (arrive empty_mem two_calls)))
     = m_rows empty_mem @ new \<and> mset new = {#to_row (created_rsvp new_uuid (10 ^ 9) sample_request)#}"
proof -
  have "call_valid (sample_env, sample_request)" "\<not> call_valid (sample_env, sample_request\<lparr>rq_Names := []\<rparr>)"
    using sample_request_valid by (simp_all add: call_valid_def RsvpCreationRequest_Validate_def)
  moreover have "call_rsvp (sample_env, sample_request) = created_rsvp new_uuid (10 ^ 9) sample_request"
    by (simp add: call_rsvp_def sample_env_def UUID_New_new_bytes)
  moreover have "5 \<le> count_list [0, 1, 1, 0, 0, 0, 0, 1, 1, 1 :: nat] i" if "i < length two_calls" for i
    using that by (auto simp: two_calls_def less_Suc_eq)
  ultimately show ?thesis
    using concurrent_rsvps_stored [OF mem.sql_store_axioms responsive_mem sample_up(2) two_calls_fresh _ refl,
        of "[0, 1, 1, 0, 0, 0, 0, 1, 1, 1]" "''dsn''"]
    by (simp add: two_calls_def)
qed



text \<open>
  The calls open at most one handle for each valid request among them, whatever the
  interleaving.
\<close>

lemma handles_bounded:
  "sh_opened (interleave drv dsn sched (arrive d calls)) \<le> length (filter call_valid calls)"
  using opened_interleave [OF threads_ok_arrive, of drv dsn sched d calls] by (simp add: pending_arrive)

text \<open>
  The bound is reached: two valid first calls that look before either has stored its handle open two,
  and the second one stored replaces the first, which nothing refers to and nothing closes.
\<close>

lemma racing_calls_leak_a_handle:
  assumes "responsive drv dsn d" and "call_valid call" and "call_valid call'"
    and "sh = interleave drv dsn [0, 1, 0, 1, 0, 1] (arrive d [call, call'])"
  shows "sh_opened sh = 2" and "sh_handle sh = Some 1"
    and "map th_pc (sh_threads sh) = [Ready, Ready]"
  using assms
  by (cases call; cases call';
      simp add: interleave_def shared_step_def thread_step_def arrive_def call_valid_def responsive_def)+

end
