(* ===== verification/Faker.thy ===== *)
theory Faker
  imports Pb_Messages "HOL-Library.Char_ord" "HOL-Library.Multiset"
begin

text \<open>
  The vendored \<open>github.com/dmgk/faker\<close>, as far as the generated test data reach it: the look-up of
  a path in the table of a locale, the random choice with its substitution of references, words and
  characters, user names, domain names and addresses. The generator of random numbers is the record
  \<open>go_rand\<close> with the laws of the locale \<open>fair_rand\<close>; the expansion of a value written between slashes
  as a regular expression (\<open>Regexify\<close>) is an argument.
\<close>

section \<open>Random numbers\<close>

record 's go_rand =
  gr_Intn :: "nat \<Rightarrow> 's \<Rightarrow> nat \<times> 's"
  gr_Perm :: "nat \<Rightarrow> 's \<Rightarrow> nat list \<times> 's"

locale fair_rand =
  fixes r :: "'s go_rand"
  assumes Intn_less: "0 < n \<Longrightarrow> fst (gr_Intn r n s) < n"
    and Perm_perm: "mset (fst (gr_Perm r n s)) = mset [0..<n]"

text \<open>A tape of numbers; a permutation is a rotation by the next one.\<close>

definition tape_rand :: "nat list go_rand" where
  "tape_rand =
     \<lparr>gr_Intn = (\<lambda>n t. (case t of [] \<Rightarrow> 0 | x # xs \<Rightarrow> x mod n, tl t)),
      gr_Perm = (\<lambda>n t. (rotate (case t of [] \<Rightarrow> 0 | x # xs \<Rightarrow> x) [0..<n], tl t))\<rparr>"

lemma mset_rotate [simp]: "mset (rotate k xs) = mset xs"
proof (induction k)
  case (Suc k)
  have "mset (rotate1 ys) = mset ys" for ys :: "'a list" by (cases ys) auto
  with Suc show ?case by simp
qed simp

interpretation tape_rand: fair_rand tape_rand
  by unfold_locales (auto simp: tape_rand_def split: list.split)

text \<open>A draw: a value and the source after it, a panic, or no more fuel.\<close>

datatype ('a, 's) draw = Draw 'a 's | DrawPanic | DrawOut

fun d_bind :: "('a, 's) draw \<Rightarrow> ('a \<Rightarrow> 's \<Rightarrow> ('b, 's) draw) \<Rightarrow> ('b, 's) draw" where
  "d_bind (Draw x s) f = f x s"
| "d_bind DrawPanic f = DrawPanic"
| "d_bind DrawOut f = DrawOut"

section \<open>The tables\<close>

datatype lval =
    LMap "(string \<times> lval) list"
  | LLists "string list list"
  | LList "string list"
  | LStr string

text \<open>\<open>localeValueAt\<close>: a panic (\<open>None\<close>) at a value that is no map, and no value at a key that is missing.\<close>

fun value_at_keys :: "string list \<Rightarrow> lval \<Rightarrow> lval option option" where
  "value_at_keys [] v = Some (Some v)"
| "value_at_keys (k # ks) v =
     (case v of
        LMap m \<Rightarrow> (case map_of m k of None \<Rightarrow> Some None | Some w \<Rightarrow> value_at_keys ks w)
      | _ \<Rightarrow> None)"

definition localeValueAt :: "string \<Rightarrow> lval \<Rightarrow> lval option option" where
  "localeValueAt path l = value_at_keys (split_char CHR ''.'' path) l"

text \<open>The chosen table, the English one behind it, the random numbers and \<open>Regexify\<close>.\<close>

record 's faker =
  fk_Locale :: lval
  fk_En :: lval
  fk_rand :: "'s go_rand"
  fk_Regexify :: "string \<Rightarrow> 's \<Rightarrow> (string, 's) draw"

definition valueAt :: "'s faker \<Rightarrow> string \<Rightarrow> lval option" where
  "valueAt fk path =
     (case localeValueAt path (fk_Locale fk) of
        None \<Rightarrow> None
      | Some (Some v) \<Rightarrow> Some v
      | Some None \<Rightarrow>
          (case localeValueAt path (fk_En fk) of
             None \<Rightarrow> None
           | Some None \<Rightarrow> None
           | Some (Some v) \<Rightarrow> Some v))"

section \<open>Choosing\<close>

definition RandomChoice :: "'s faker \<Rightarrow> string list \<Rightarrow> 's \<Rightarrow> (string, 's) draw" where
  "RandomChoice fk ss s =
     (if ss = [] then DrawPanic
      else (case gr_Intn (fk_rand fk) (length ss) s of (i, s') \<Rightarrow> Draw (ss ! i) s'))"

fun random_choices :: "'s faker \<Rightarrow> string list list \<Rightarrow> 's \<Rightarrow> (string list, 's) draw" where
  "random_choices fk [] s = Draw [] s"
| "random_choices fk (ss # slices) s =
     d_bind (RandomChoice fk ss s) (\<lambda>c s1.
     d_bind (random_choices fk slices s1) (\<lambda>cs s2. Draw (c # cs) s2))"

definition is_letter :: "char \<Rightarrow> bool" where
  "is_letter c \<longleftrightarrow> CHR ''A'' \<le> c \<and> c \<le> CHR ''Z'' \<or> CHR ''a'' \<le> c \<and> c \<le> CHR ''z''"

text \<open>The references \<open>#{a.b}\<close> in a text: letters, a dot, and anything up to the closing brace.\<close>

definition ref_at :: "string \<Rightarrow> string option" where
  "ref_at s =
     (if HasPrefix s ''#{'' then
        (let rest = drop 2 s; letters = takeWhile is_letter rest; rest1 = drop (length letters) rest in
         if letters \<noteq> [] \<and> HasPrefix rest1 ''.'' then
           (let body = takeWhile (\<lambda>c. c \<noteq> CHR ''}'') (tl rest1) in
            if body \<noteq> [] \<and> length body < length (tl rest1) then Some (letters @ ''.'' @ body) else None)
         else None)
      else None)"

function find_refs :: "string \<Rightarrow> string list" where
  "find_refs [] = []"
| "find_refs (c # s) =
     (case ref_at (c # s) of
        Some r \<Rightarrow> r # find_refs (drop (length r + 3) (c # s))
      | None \<Rightarrow> find_refs s)"
  by pat_completeness auto
termination by (relation "measure length") auto

text \<open>\<open>strings.Replace\<close> of the first occurrence.\<close>

fun replace_first :: "string \<Rightarrow> string \<Rightarrow> string \<Rightarrow> string" where
  "replace_first [] old new = (if old = [] then new else [])"
| "replace_first (c # s) old new =
     (if prefix old (c # s) then new @ drop (length old) (c # s) else c # replace_first s old new)"

fun substitute ::
  "(string \<Rightarrow> 's \<Rightarrow> (string, 's) draw) \<Rightarrow> string list \<Rightarrow> string \<Rightarrow> 's \<Rightarrow> (string, 's) draw" where
  "substitute f [] res s = Draw res s"
| "substitute f (r # rs) res s =
     d_bind (f (ToLower r) s) (\<lambda>v s1. substitute f rs (replace_first res (''#{'' @ r @ ''}'') v) s1)"

definition choose_value :: "'s faker \<Rightarrow> lval \<Rightarrow> 's \<Rightarrow> (string, 's) draw" where
  "choose_value fk v s =
     (case v of
        LLists slices \<Rightarrow> d_bind (random_choices fk slices s) (\<lambda>choices s1. Draw (Join choices '' '') s1)
      | LList ss \<Rightarrow> RandomChoice fk ss s
      | LStr str \<Rightarrow> Draw str s
      | LMap _ \<Rightarrow> DrawPanic)"

text \<open>\<open>Fetch\<close> calls itself for the references; the fuel bounds the depth.\<close>

fun Fetch :: "nat \<Rightarrow> 's faker \<Rightarrow> string \<Rightarrow> 's \<Rightarrow> (string, 's) draw" where
  "Fetch 0 fk path s = DrawOut"
| "Fetch (Suc n) fk path s =
     (case valueAt fk path of
        None \<Rightarrow> DrawPanic
      | Some v \<Rightarrow>
          d_bind (choose_value fk v s) (\<lambda>res s1.
          d_bind (substitute (Fetch n fk) (find_refs res) res s1) (\<lambda>res s2.
            if HasPrefix res ''/'' \<and> HasSuffix res ''/'' then fk_Regexify fk res s2 else Draw res s2)))"

text \<open>Every reference of the tables leads to texts without references: two levels.\<close>

definition fetch_fuel :: nat where
  "fetch_fuel = 2"

section \<open>Lorem_Words and characters\<close>

definition digitsAndLetters :: string where
  "digitsAndLetters = ''0123456789ABCDEFGHIJKLMNOPQRSTUVWXYZabcdefghijklmnopqrstuvwxyz''"

definition Lorem_Characters :: "'s faker \<Rightarrow> nat \<Rightarrow> 's \<Rightarrow> (string, 's) draw" where
  "Lorem_Characters fk num s =
     (let l = length digitsAndLetters in
      case gr_Perm (fk_rand fk) (l * (num div l + 1)) s of
        (perm, s') \<Rightarrow> Draw (map (\<lambda>i. digitsAndLetters ! (perm ! i mod l)) [0..<num]) s')"

definition Lorem_Words :: "'s faker \<Rightarrow> nat \<Rightarrow> 's \<Rightarrow> (string list, 's) draw" where
  "Lorem_Words fk num s =
     (case valueAt fk ''lorem.words'' of
        Some (LList ws) \<Rightarrow>
          (if ws = [] then DrawPanic
           else (case gr_Perm (fk_rand fk) (length ws * (num div length ws + 1)) s of
                   (perm, s') \<Rightarrow> Draw (map (\<lambda>i. ws ! (perm ! i mod length ws)) [0..<num]) s'))
      | _ \<Rightarrow> DrawPanic)"

section \<open>Addresses\<close>

definition is_word_char :: "char \<Rightarrow> bool" where
  "is_word_char c \<longleftrightarrow> is_letter c \<or> CHR ''0'' \<le> c \<and> c \<le> CHR ''9'' \<or> c = CHR ''_''"

definition sanitizeName :: "string \<Rightarrow> string" where
  "sanitizeName s = filter is_word_char s"

definition user_separators :: "string list" where
  "user_separators = [''.'', ''_'']"

definition Internet_UserName :: "'s faker \<Rightarrow> 's \<Rightarrow> (string, 's) draw" where
  "Internet_UserName fk s =
     d_bind (RandomChoice fk user_separators s) (\<lambda>sep s1.
     d_bind (Fetch fetch_fuel fk ''name.first_name'' s1) (\<lambda>f1 s2.
     d_bind (Fetch fetch_fuel fk ''name.first_name'' s2) (\<lambda>f2 s3.
     d_bind (Fetch fetch_fuel fk ''name.last_name'' s3) (\<lambda>l s4.
     d_bind (RandomChoice fk [sanitizeName f1, Join [sanitizeName f2, sanitizeName l] sep] s4) (\<lambda>u s5.
       Draw (ToLower u) s5)))))"

definition Internet_DomainWord :: "'s faker \<Rightarrow> 's \<Rightarrow> (string, 's) draw" where
  "Internet_DomainWord fk s =
     d_bind (Fetch fetch_fuel fk ''company.name'' s) (\<lambda>n s1.
       Draw (ToLower (sanitizeName (hd (split_char CHR '' '' n)))) s1)"

definition Internet_DomainSuffix :: "'s faker \<Rightarrow> 's \<Rightarrow> (string, 's) draw" where
  "Internet_DomainSuffix fk s = Fetch fetch_fuel fk ''internet.domain_suffix'' s"

definition Internet_DomainName :: "'s faker \<Rightarrow> 's \<Rightarrow> (string, 's) draw" where
  "Internet_DomainName fk s =
     d_bind (Internet_DomainWord fk s) (\<lambda>w s1. d_bind (Internet_DomainSuffix fk s1) (\<lambda>x s2. Draw (Join [w, x] ''.'') s2))"

definition Internet_Email :: "'s faker \<Rightarrow> 's \<Rightarrow> (string, 's) draw" where
  "Internet_Email fk s =
     d_bind (Internet_UserName fk s) (\<lambda>u s1. d_bind (Internet_DomainName fk s1) (\<lambda>d s2. Draw (Join [u, d] ''@'') s2))"

section \<open>Applications\<close>

definition aryDigits :: "string list" where
  "aryDigits = map (\<lambda>c. [c]) ''0123456789''"

text \<open>\<open>Numerify\<close>: a digit for every number sign, the first one not zero; each replaces the first sign left.\<close>

fun numerify_signs :: "'s faker \<Rightarrow> bool \<Rightarrow> nat \<Rightarrow> string \<Rightarrow> 's \<Rightarrow> (string, 's) draw" where
  "numerify_signs fk first 0 str s = Draw str s"
| "numerify_signs fk first (Suc n) str s =
     d_bind (RandomChoice fk (if first then tl aryDigits else aryDigits) s) (\<lambda>d s1.
       numerify_signs fk False n (replace_first str ''#'' d) s1)"

definition Numerify :: "'s faker \<Rightarrow> string \<Rightarrow> 's \<Rightarrow> (string, 's) draw" where
  "Numerify fk str s = numerify_signs fk True (count_list str CHR ''#'') str s"

definition App_Name :: "'s faker \<Rightarrow> 's \<Rightarrow> (string, 's) draw" where
  "App_Name fk s = Fetch fetch_fuel fk ''app.name'' s"

definition App_Version :: "'s faker \<Rightarrow> 's \<Rightarrow> (string, 's) draw" where
  "App_Version fk s = d_bind (Fetch fetch_fuel fk ''app.version'' s) (\<lambda>v s1. Numerify fk v s1)"

end
