(* ===== verification/Pb_Faker.thy ===== *)
theory Pb_Faker
  imports Faker Service Functest
begin

text \<open>
  The generated test data of \<open>pb/www.gomeetfaker.pb.go\<close>, on the model of the faker, and the two draws
  that the functional tests make from it (\<open>cmd/functest/helpers_rsvp_creation.go\<close>). The generator that
  \<open>GomeetFakerRand\<close> seeds with the clock is read off the same source of random numbers.
\<close>

section \<open>Locales\<close>

datatype locale_id =
  Locale_De | Locale_De_AT | Locale_De_CH | Locale_En | Locale_En_AU | Locale_En_AU_OCKER |
    Locale_En_BORK | Locale_En_CA | Locale_En_GB | Locale_En_IND | Locale_En_NEP | Locale_En_US |
    Locale_Es | Locale_Fa | Locale_Fr | Locale_It | Locale_Ja | Locale_Ko | Locale_Nb_NO | Locale_Nl
    | Locale_Pl | Locale_Pt_BR | Locale_Ru | Locale_Sk | Locale_Sv | Locale_Vi | Locale_Zh_CN |
    Locale_Zh_TW

definition GomeetFakerSetLocale :: "(locale_id \<Rightarrow> lval) \<Rightarrow> string \<Rightarrow> 's faker \<Rightarrow> 's faker" where
  "GomeetFakerSetLocale tables l fk =
     fk\<lparr>fk_Locale := tables
     (if l = ''de'' then Locale_De
      else if l = ''de-at'' then Locale_De_AT
      else if l = ''de-ch'' then Locale_De_CH
      else if l = ''en'' then Locale_En
      else if l = ''en-au'' then Locale_En_AU
      else if l = ''en-au-ocker'' then Locale_En_AU_OCKER
      else if l = ''en-bork'' then Locale_En_BORK
      else if l = ''en-ca'' then Locale_En_CA
      else if l = ''en-gb'' then Locale_En_GB
      else if l = ''en-ind'' then Locale_En_IND
      else if l = ''en-nep'' then Locale_En_NEP
      else if l = ''en-us'' then Locale_En_US
      else if l = ''es'' then Locale_Es
      else if l = ''fa'' then Locale_Fa
      else if l = ''fr'' then Locale_Fr
      else if l = ''it'' then Locale_It
      else if l = ''ja'' then Locale_Ja
      else if l = ''ko'' then Locale_Ko
      else if l = ''nb-no'' then Locale_Nb_NO
      else if l = ''nl'' then Locale_Nl
      else if l = ''pl'' then Locale_Pl
      else if l = ''pt-br'' then Locale_Pt_BR
      else if l = ''ru'' then Locale_Ru
      else if l = ''sk'' then Locale_Sk
      else if l = ''sv'' then Locale_Sv
      else if l = ''vi'' then Locale_Vi
      else if l = ''zh-cn'' then Locale_Zh_CN
      else if l = ''zh-tw'' then Locale_Zh_TW
      else Locale_En)\<rparr>"

text \<open>The initialisation of the package.\<close>

definition pb_faker_init :: "(locale_id \<Rightarrow> lval) \<Rightarrow> 's faker \<Rightarrow> 's faker" where
  "pb_faker_init tables fk = GomeetFakerSetLocale tables ''en'' fk"

section \<open>Messages\<close>

definition NewEmptyMessageGomeetFaker :: EmptyMessage where
  "NewEmptyMessageGomeetFaker = EmptyMessage"

definition NewVersionResponseGomeetFaker :: "'s faker \<Rightarrow> 's \<Rightarrow> (VersionResponse, 's) draw" where
  "NewVersionResponseGomeetFaker fk s =
     d_bind (App_Name fk s) (\<lambda>n s1.
     d_bind (App_Version fk s1) (\<lambda>v s2.
       Draw (VersionResponse_Reset\<lparr>vr_Name := n, vr_Version := v\<rparr>) s2))"

definition NewServiceStatusGomeetFaker :: "'s faker \<Rightarrow> 's \<Rightarrow> (ServiceStatus, 's) draw" where
  "NewServiceStatusGomeetFaker fk s =
     d_bind (App_Name fk s) (\<lambda>n s1.
     d_bind (App_Version fk s1) (\<lambda>v s2.
       case gr_Intn (fk_rand fk) 2 s2 of
         (i, s3) \<Rightarrow> Draw (ServiceStatus_Reset\<lparr>st_Name := n, st_Version := v, st_Status := [0, 1] ! i\<rparr>) s3))"

fun faker_services :: "'s faker \<Rightarrow> nat \<Rightarrow> 's \<Rightarrow> (ServiceStatus option list, 's) draw" where
  "faker_services fk 0 s = Draw [] s"
| "faker_services fk (Suc n) s =
     d_bind (NewServiceStatusGomeetFaker fk s) (\<lambda>x s1.
     d_bind (faker_services fk n s1) (\<lambda>xs s2. Draw (Some x # xs) s2))"

definition NewServicesStatusListGomeetFaker :: "'s faker \<Rightarrow> 's \<Rightarrow> (ServicesStatusList, 's) draw" where
  "NewServicesStatusListGomeetFaker fk s =
     d_bind (faker_services fk 3 s) (\<lambda>xs s1. Draw (ServicesStatusList_Reset\<lparr>sl_Services := xs\<rparr>) s1)"

text \<open>Six words with blanks between them.\<close>

definition six_words :: "'s faker \<Rightarrow> 's \<Rightarrow> (string, 's) draw" where
  "six_words fk s = d_bind (Lorem_Words fk 6 s) (\<lambda>ws s1. Draw (Join ws '' '') s1)"

definition NewRsvpCreationRequestGomeetFaker :: "'s faker \<Rightarrow> 's \<Rightarrow> (RsvpCreationRequest, 's) draw" where
  "NewRsvpCreationRequestGomeetFaker fk s =
     d_bind (six_words fk s) (\<lambda>n s1.
     d_bind (Internet_Email fk s1) (\<lambda>e s2.
     d_bind (six_words fk s2) (\<lambda>c s3.
     d_bind (six_words fk s3) (\<lambda>m s4.
       Draw (RsvpCreationRequest_Reset\<lparr>rq_Names := n, rq_Email := e, rq_Presence := True,
         rq_ChildrenNameAge := c, rq_Housing := True, rq_Music := m, rq_Brunch := True\<rparr>) s4))))"

text \<open>The bytes of the new identifier and the three readings of the clock are arguments.\<close>

definition NewRsvpInfoGomeetFaker ::
  "'s faker \<Rightarrow> byte list option \<Rightarrow> gtime \<Rightarrow> gtime \<Rightarrow> gtime \<Rightarrow> 's \<Rightarrow> (RsvpInfo, 's) draw" where
  "NewRsvpInfoGomeetFaker fk rnd t1 t2 t3 s =
     (case UUID_New rnd of
        None \<Rightarrow> DrawPanic
      | Some u \<Rightarrow>
          d_bind (six_words fk s) (\<lambda>n s1.
          d_bind (Internet_Email fk s1) (\<lambda>e s2.
          d_bind (six_words fk s2) (\<lambda>c s3.
          d_bind (six_words fk s3) (\<lambda>m s4.
            Draw (RsvpInfo_Reset\<lparr>ri_Uuid := UUID_String u, ri_Names := n, ri_Email := e, ri_Presence := True,
              ri_ChildrenNameAge := c, ri_Housing := True, ri_Music := m, ri_Brunch := True,
              ri_CreatedAt := Format_RFC3339 t1, ri_UpdatedAt := Format_RFC3339 t2,
              ri_DeletedAt := Format_RFC3339 t3\<rparr>) s4)))))"

definition NewRsvpCreationResponseGomeetFaker ::
  "'s faker \<Rightarrow> byte list option \<Rightarrow> gtime \<Rightarrow> gtime \<Rightarrow> gtime \<Rightarrow> 's \<Rightarrow> (RsvpCreationResponse, 's) draw" where
  "NewRsvpCreationResponseGomeetFaker fk rnd t1 t2 t3 s =
     d_bind (NewRsvpInfoGomeetFaker fk rnd t1 t2 t3 s) (\<lambda>info s1.
       Draw (RsvpCreationResponse_Reset\<lparr>rs_Ok := True, rs_Info := Some info\<rparr>) s1)"

section \<open>What the functional tests draw\<close>

definition draw_requests :: "'s faker \<Rightarrow> 's \<Rightarrow> (RsvpCreationRequest \<times> string, 's) draw" where
  "draw_requests fk s =
     d_bind (NewRsvpCreationRequestGomeetFaker fk s) (\<lambda>validRequest s1.
     d_bind (Lorem_Characters fk 256 s1) (\<lambda>verylongString s2. Draw (validRequest, verylongString) s2))"

end
