(* ===== verification/Pb_Faker_Props.thy ===== *)
theory Pb_Faker_Props
  imports Pb_Faker Faker_En Functest_Props
begin

text \<open>
  The generated test data are good: over a fair source of random numbers and the English table, the
  generators return, and the requests that they draw pass the validators.
\<close>

section \<open>Draws that return\<close>

definition yields :: "('a \<Rightarrow> bool) \<Rightarrow> ('a, 's) draw \<Rightarrow> bool" where
  "yields P d \<longleftrightarrow> (\<exists>x s. d = Draw x s \<and> P x)"

lemma yields_Draw [simp]: "yields P (Draw x s) \<longleftrightarrow> P x"
  by (auto simp: yields_def)

lemma yields_bind:
  assumes "yields P d" and "\<And>x s. P x \<Longrightarrow> yields Q (f x s)"
  shows "yields Q (d_bind d f)"
  using assms by (auto simp: yields_def)

lemma yields_mono: "yields P d \<Longrightarrow> (\<And>x. P x \<Longrightarrow> Q x) \<Longrightarrow> yields Q d"
  by (auto simp: yields_def)

section \<open>References\<close>

lemma find_refs_free: "CHR ''#'' \<notin> set s \<Longrightarrow> find_refs s = []"
  by (induction s) (auto simp: ref_at_def HasPrefix_def)

lemma replace_first_ref:
  assumes "CHR ''#'' \<notin> set a"
  shows "replace_first (a @ (CHR ''#'' # r) @ b) (CHR ''#'' # r) new = a @ new @ b"
  using assms by (induction a) auto

section \<open>Names\<close>

lemma letter_cases:
  assumes "is_letter c"
  shows "in_class alnum_class (lower_char c)" and "in_class local_class (lower_char c)" and "is_word_char c"
proof -
  have r: "is_letter c \<longleftrightarrow> of_char c \<in> {65..90 :: nat} \<union> {97..122}"
    by (auto simp: is_letter_def less_eq_char_def)
  have l: "of_char (lower_char c) = (if of_char c \<in> {65..90 :: nat} then of_char c + 32 else of_char c :: nat)"
    by (auto simp: lower_char_def less_eq_char_def)
  from r l assms have "of_char (lower_char c) \<in> {97..122 :: nat}" by auto
  then show "in_class alnum_class (lower_char c)" by (auto simp: in_class_def alnum_class_def)
  then show "in_class local_class (lower_char c)" by (simp add: in_class_def local_class_def)
  show "is_word_char c" using assms by (simp add: is_word_char_def)
qed

text \<open>A name of letters, at least one and at most \<open>k\<close>.\<close>

definition lettered :: "nat \<Rightarrow> string \<Rightarrow> bool" where
  "lettered k w \<longleftrightarrow> w \<noteq> [] \<and> length w \<le> k \<and> list_all is_letter w"

lemma plain_nameD:
  assumes "plain_name n"
  shows "lettered 30 (sanitizeName n)" and "c \<in> set n \<Longrightarrow> is_letter c \<or> c = CHR 0x27" and "n \<noteq> []"
proof -
  from assms have n: "\<And>c. c \<in> set n \<Longrightarrow> is_letter c \<or> c = CHR 0x27" "\<exists>c\<in>set n. is_letter c" "length n \<le> 30"
    by (auto simp: plain_name_def list_all_iff list_ex_iff letter_bits_letter)
  show "c \<in> set n \<Longrightarrow> is_letter c \<or> c = CHR 0x27" using n(1) .
  show "n \<noteq> []" using n(2) by auto
  have "\<not> is_word_char CHR 0x27" by (simp add: is_word_char_def is_letter_def less_eq_char_def)
  then have "list_all is_letter (sanitizeName n)" using n(1) by (auto simp: sanitizeName_def list_all_iff)
  moreover have "sanitizeName n \<noteq> []"
    using n(2) letter_cases(3) by (auto simp: sanitizeName_def filter_empty_conv)
  moreover have "length (sanitizeName n) \<le> 30" using n(3) by (simp add: sanitizeName_def le_trans [OF length_filter_le])
  ultimately show "lettered 30 (sanitizeName n)" by (simp add: lettered_def)
qed

lemma plain_name_free:
  assumes "plain_name n" and "\<not> is_letter c" and "c \<noteq> CHR 0x27"
  shows "c \<notin> set n"
  using plain_nameD(2) [OF assms(1)] assms(2,3) by auto

lemma not_letters: "\<not> is_letter CHR ''#''" "\<not> is_letter CHR ''/''" "\<not> is_letter CHR '' ''" "\<not> is_letter CHR '',''"
  "\<not> is_letter CHR ''-''" "\<not> is_letter CHR ''%''" "\<not> is_letter CHR ''@''" "\<not> is_letter CHR ''.''"
  by (simp_all add: is_letter_def less_eq_char_def)

lemma lettered_append: "lettered j u \<Longrightarrow> lettered k v \<Longrightarrow> lettered (j + k) (u @ v)"
  by (auto simp: lettered_def)

lemma lettered_mono: "lettered j u \<Longrightarrow> j \<le> k \<Longrightarrow> lettered k u"
  by (auto simp: lettered_def)

text \<open>An address made of such names.\<close>

lemma lower_label: "lettered 63 w \<Longrightarrow> label_ok (ToLower w)"
  by (auto simp: lettered_def label_ok_def ToLower_def list_all_iff hd_map last_map letter_cases alnum_alnumh)

lemma address_ok:
  assumes "u \<noteq> []" and "list_all (in_class local_class) u" and "lettered 63 w" and "label_ok x"
  shows "MatchString regex_Email (Join [u, Join [ToLower w, x] ''.''] ''@'')"
proof -
  have at: "\<forall>c\<in>set u. c \<noteq> CHR ''@''" using assms(2) at_not_local by (auto simp: list_all_iff)
  have l: "label_ok (ToLower w)" using lower_label [OF assms(3)] .
  have "split_char CHR ''.'' (ToLower w @ CHR ''.'' # x) = [ToLower w, x]"
    using dot_not_label [OF l] dot_not_label [OF assms(4)] by (simp add: split_char_append split_char_free)
  moreover have "takeWhile (\<lambda>c. c \<noteq> CHR ''@'') (u @ CHR ''@'' # v) = u"
    "dropWhile (\<lambda>c. c \<noteq> CHR ''@'') (u @ CHR ''@'' # v) = CHR ''@'' # v" for v
    using at by (simp_all add: takeWhile_append dropWhile_append)
  ultimately show ?thesis
    using assms l by (simp add: regex_Email_ok email_ok_def Let_def)
qed

section \<open>The draws\<close>

text \<open>The faker as the package leaves it: the English table and a fair source.\<close>

definition english :: "'s faker \<Rightarrow> bool" where
  "english fk \<longleftrightarrow> fair_rand (fk_rand fk) \<and> fk_Locale fk = locales_En"

lemma english_values:
  assumes "english fk"
  shows "valueAt fk ''name.first_name'' = Some (LList en_first_name)"
    and "valueAt fk ''name.last_name'' = Some (LList en_last_name)"
    and "valueAt fk ''name.suffix'' = Some (LList en_name_suffix)"
    and "valueAt fk ''company.name'' = Some (LList en_company_name)"
    and "valueAt fk ''internet.domain_suffix'' = Some (LList en_domain_suffix)"
    and "valueAt fk ''lorem.words'' = Some (LList en_lorem_words)"
  using assms by (simp_all add: english_def valueAt_def localeValueAt_def locales_En_def)

lemma english_fair: "english fk \<Longrightarrow> fair_rand (fk_rand fk)"
  by (simp add: english_def)

lemma choice_yields:
  assumes "english fk" and "ss \<noteq> []"
  shows "yields (\<lambda>x. x \<in> set ss) (RandomChoice fk ss s)"
  using fair_rand.Intn_less [OF english_fair [OF assms(1)], of "length ss" s] assms(2)
  by (auto simp: RandomChoice_def yields_def split: prod.split)

text \<open>A value without a reference that does not begin with a slash is taken as it is.\<close>

definition literal_value :: "string \<Rightarrow> bool" where
  "literal_value w \<longleftrightarrow> CHR ''#'' \<notin> set w \<and> \<not> HasPrefix w ''/''"

lemma Fetch_literal:
  assumes "english fk" and "valueAt fk path = Some (LList ss)" and "ss \<noteq> []" and "list_all literal_value ss"
  shows "yields (\<lambda>x. x \<in> set ss) (Fetch (Suc n) fk path s)"
proof -
  obtain w s1 where w: "RandomChoice fk ss s = Draw w s1" "w \<in> set ss"
    using choice_yields [OF assms(1,3), of s] by (auto simp: yields_def)
  then have "literal_value w" using assms(4) by (simp add: list_all_iff)
  with w show ?thesis by (simp add: assms(2) choose_value_def literal_value_def find_refs_free)
qed

lemma plain_name_literal: "plain_name w \<Longrightarrow> literal_value w"
  using plain_name_free [of w, OF _ not_letters(1)] plain_name_free [of w, OF _ not_letters(2)]
  by (cases w) (auto simp: literal_value_def HasPrefix_def)

lemma en_suffixes_literal: "list_all literal_value en_name_suffix" "list_all literal_value en_domain_suffix"
  by (simp_all add: en_name_suffix_def en_domain_suffix_def literal_value_def HasPrefix_def)

lemma en_nonempty: "en_last_name \<noteq> []" "en_name_suffix \<noteq> []" "en_domain_suffix \<noteq> []" "en_lorem_words \<noteq> []"
  "en_first_name \<noteq> []" "en_company_name \<noteq> []"
  by (simp_all add: en_last_name_def en_name_suffix_def en_domain_suffix_def en_lorem_words_def
      en_first_name_def en_first_name_1_def en_company_name_def)

lemma plain_names_literal: "list_all plain_name ss \<Longrightarrow> list_all literal_value ss"
  using plain_name_literal by (auto simp: list_all_iff)

lemma Fetch_names:
  assumes "english fk"
  shows "yields plain_name (Fetch (Suc n) fk ''name.first_name'' s)"
    and "yields plain_name (Fetch (Suc n) fk ''name.last_name'' s)"
    and "yields literal_value (Fetch (Suc n) fk ''name.suffix'' s)"
    and "yields label_ok (Fetch (Suc n) fk ''internet.domain_suffix'' s)"
proof -
  note fetch = Fetch_literal [OF assms english_values(1) [OF assms] en_nonempty(5) plain_names_literal [OF en_first_name_plain]]
    Fetch_literal [OF assms english_values(2) [OF assms] en_nonempty(1) plain_names_literal [OF en_last_name_plain]]
    Fetch_literal [OF assms english_values(3) [OF assms] en_nonempty(2) en_suffixes_literal(1)]
    Fetch_literal [OF assms english_values(5) [OF assms] en_nonempty(3) en_suffixes_literal(2)]
  have d: "list_all label_ok en_domain_suffix"
    by (simp add: en_domain_suffix_def label_ok_def in_class_def alnumh_class_def alnum_class_def)
  show "yields plain_name (Fetch (Suc n) fk ''name.first_name'' s)"
    by (rule yields_mono [OF fetch(1)]) (use en_first_name_plain in \<open>simp add: list_all_iff\<close>)
  show "yields plain_name (Fetch (Suc n) fk ''name.last_name'' s)"
    by (rule yields_mono [OF fetch(2)]) (use en_last_name_plain in \<open>simp add: list_all_iff\<close>)
  show "yields literal_value (Fetch (Suc n) fk ''name.suffix'' s)"
    by (rule yields_mono [OF fetch(3)]) (use en_suffixes_literal(1) in \<open>simp add: list_all_iff\<close>)
  show "yields label_ok (Fetch (Suc n) fk ''internet.domain_suffix'' s)"
    by (rule yields_mono [OF fetch(4)]) (use d in \<open>simp add: list_all_iff\<close>)
qed

text \<open>The first word of a company name, without the signs in it.\<close>

definition company_ok :: "string \<Rightarrow> bool" where
  "company_ok n \<longleftrightarrow> lettered 63 (sanitizeName (hd (split_char CHR '' '' n))) \<and> \<not> HasPrefix n ''/''"

lemma split_blank: "CHR '' '' \<notin> set a \<Longrightarrow> hd (split_char CHR '' '' (a @ CHR '' '' # b)) = a"
  by (simp add: split_char_append)

lemma sanitize_append: "sanitizeName (a @ b) = sanitizeName a @ sanitizeName b"
  by (simp add: sanitizeName_def)

lemma company_shapes:
  assumes "plain_name a" and "plain_name b"
  shows "company_ok (a @ '' '' @ x)" and "company_ok (a @ ''-'' @ b)" and "company_ok (a @ '', '' @ x)"
proof -
  note A = plain_nameD(1) [OF assms(1)] and B = plain_nameD(1) [OF assms(2)]
  have free: "CHR '' '' \<notin> set a" "CHR '' '' \<notin> set b"
    using plain_name_free [OF assms(1) not_letters(3)] plain_name_free [OF assms(2) not_letters(3)] by auto
  have p: "\<not> HasPrefix (a @ y) ''/''" for y
    using plain_nameD(3) [OF assms(1)] plain_name_free [OF assms(1) not_letters(2)]
    by (cases a) (auto simp: HasPrefix_def)
  have s: "sanitizeName [c] = []" if "c \<in> set ''-,''" for c
    using that by (auto simp: sanitizeName_def is_word_char_def is_letter_def less_eq_char_def)
  show "company_ok (a @ '' '' @ x)"
    using A p split_blank [OF free(1)] by (simp add: company_ok_def lettered_mono)
  show "company_ok (a @ ''-'' @ b)"
    using lettered_mono [OF lettered_append [OF A B]] p free
    by (simp add: company_ok_def split_char_free sanitize_append [of "[CHR ''-'']" b, simplified] sanitize_append s)
  have "hd (split_char CHR '' '' (a @ '', '' @ x)) = a @ '',''"
    using split_blank [of "a @ '',''"] free(1) by simp
  then show "company_ok (a @ '', '' @ x)"
    using A p by (simp add: company_ok_def sanitize_append s lettered_mono)
qed

text \<open>The three forms of a company name, with their references.\<close>

definition ref_last :: string where
  "ref_last = ''#{name.last_name}''"

lemma company_patterns:
  "en_company_name = [ref_last @ '' #{name.suffix}'', ref_last @ ''-'' @ ref_last,
     ref_last @ '', '' @ ref_last @ '' and '' @ ref_last]"
  "find_refs (ref_last @ '' #{name.suffix}'') = [''name.last_name'', ''name.suffix'']"
  "find_refs (ref_last @ ''-'' @ ref_last) = [''name.last_name'', ''name.last_name'']"
  "find_refs (ref_last @ '', '' @ ref_last @ '' and '' @ ref_last) = [''name.last_name'', ''name.last_name'', ''name.last_name'']"
  "ToLower ''name.last_name'' = ''name.last_name''" "ToLower ''name.suffix'' = ''name.suffix''"
  "''#{'' @ ''name.last_name'' @ ''}'' = ref_last"
  by (simp add: en_company_name_def ref_last_def, code_simp+)

lemma replace_last: "CHR ''#'' \<notin> set a \<Longrightarrow> replace_first (a @ ref_last @ b) ref_last v = a @ v @ b"
  unfolding ref_last_def using replace_first_ref [of a "tl ref_last" b v] by (simp add: ref_last_def)

lemma replace_suffix:
  "CHR ''#'' \<notin> set a \<Longrightarrow> replace_first (a @ ''#{name.suffix}'') ''#{name.suffix}'' v = a @ v"
  using replace_first_ref [of a "''{name.suffix}''" "[]" v] by simp

lemma Fetch_company:
  assumes "english fk"
  shows "yields company_ok (Fetch 2 fk ''company.name'' s)"
proof -
  let ?f = "Fetch 1 fk"
  note last = Fetch_names(2) [OF assms, of 0, folded One_nat_def]
  note suffix = Fetch_names(3) [OF assms, of 0, folded One_nat_def]
  have free: "CHR ''#'' \<notin> set a" if "plain_name a" for a using plain_name_free [OF that not_letters(1)] by simp
  have sub: "yields company_ok (substitute ?f (find_refs pat) pat s1)" if "pat \<in> set en_company_name" for pat s1
  proof -
    from that consider "pat = ref_last @ '' #{name.suffix}''" | "pat = ref_last @ ''-'' @ ref_last"
      | "pat = ref_last @ '', '' @ ref_last @ '' and '' @ ref_last" by (auto simp: company_patterns(1))
    then show ?thesis
    proof cases
      case 1
      show ?thesis
        unfolding 1 company_patterns substitute.simps
      proof (rule yields_bind [OF last], rule yields_bind [OF suffix])
        fix a x :: string and s2
        assume "plain_name a"
        then show "yields company_ok (Draw (replace_first (replace_first (ref_last @ '' #{name.suffix}'') ref_last a)
            (''#{'' @ ''name.suffix'' @ ''}'') x) s2)"
          using replace_last [of "[]" "'' #{name.suffix}''" a] replace_suffix [of "a @ '' ''" x]
            company_shapes(1) [of a a x] free [of a] by simp
      qed
    next
      case 2
      show ?thesis
        unfolding 2 company_patterns substitute.simps
      proof (rule yields_bind [OF last], rule yields_bind [OF last])
        fix a b :: string and s2
        assume "plain_name a" "plain_name b"
        then show "yields company_ok (Draw (replace_first (replace_first (ref_last @ ''-'' @ ref_last) ref_last a) ref_last b) s2)"
          using replace_last [of "[]" "''-'' @ ref_last" a] replace_last [of "a @ ''-''" "[]" b]
            company_shapes(2) [of a b] free [of a] by simp
      qed
    next
      case 3
      show ?thesis
        unfolding 3 company_patterns substitute.simps
      proof (rule yields_bind [OF last], rule yields_bind [OF last], rule yields_bind [OF last])
        fix a b c :: string and s2
        assume "plain_name a" "plain_name b"
        then show "yields company_ok (Draw (replace_first (replace_first (replace_first
            (ref_last @ '', '' @ ref_last @ '' and '' @ ref_last) ref_last a) ref_last b) ref_last c) s2)"
          using replace_last [of "[]" "'', '' @ ref_last @ '' and '' @ ref_last" a]
            replace_last [of "a @ '', ''" "'' and '' @ ref_last" b]
            replace_last [of "a @ '', '' @ b @ '' and ''" "[]" c]
            company_shapes(3) [of a a] free [of a] free [of b] by simp
      qed
    qed
  qed
  have "yields company_ok (Fetch (Suc 1) fk ''company.name'' s)"
    unfolding Fetch.simps english_values(4) [OF assms] option.simps choose_value_def lval.simps
  proof (rule yields_bind [OF choice_yields [OF assms en_nonempty(6)]])
    fix pat s1
    assume "pat \<in> set en_company_name"
    from sub [OF this]
    show "yields company_ok (d_bind (substitute ?f (find_refs pat) pat s1)
        (\<lambda>res s2. if HasPrefix res ''/'' \<and> HasSuffix res ''/'' then fk_Regexify fk res s2 else Draw res s2))"
      by (rule yields_bind) (simp add: company_ok_def)
  qed
  then show ?thesis by (simp add: numeral_2_eq_2)
qed

section \<open>The addresses and the texts\<close>

lemma user_chars: "list_all (in_class local_class) ''._''"
  by (simp add: in_class_def local_class_def)

lemma UserName_yields:
  assumes "english fk"
  shows "yields (\<lambda>u. u \<noteq> [] \<and> list_all (in_class local_class) u) (Internet_UserName fk s)"
proof -
  have l: "list_all (in_class local_class) (ToLower w) \<and> ToLower w \<noteq> []" if "lettered k w" for k w
    using that by (auto simp: lettered_def ToLower_def list_all_iff letter_cases(2))
  have j: "list_all (in_class local_class) (ToLower (Join [sanitizeName a, sanitizeName b] sep))"
    if "plain_name a" "plain_name b" "sep \<in> set user_separators" for a b sep
    using l [OF plain_nameD(1) [OF that(1)]] l [OF plain_nameD(1) [OF that(2)]] that(3) user_chars
    by (auto simp: user_separators_def ToLower_def lower_char_def)
  have "user_separators \<noteq> []" by (simp add: user_separators_def)
  note sep = choice_yields [OF assms this]
  have first: "yields plain_name (Fetch fetch_fuel fk ''name.first_name'' s)" for s
    using Fetch_names(1) [OF assms, of 1 s] by (simp add: fetch_fuel_def numeral_2_eq_2 del: Fetch.simps)
  have last: "yields plain_name (Fetch fetch_fuel fk ''name.last_name'' s)" for s
    using Fetch_names(2) [OF assms, of 1 s] by (simp add: fetch_fuel_def numeral_2_eq_2 del: Fetch.simps)
  show ?thesis
    unfolding Internet_UserName_def
  proof (rule yields_bind [OF sep], rule yields_bind [OF first], rule yields_bind [OF first],
      rule yields_bind [OF last], rule yields_bind [OF choice_yields [OF assms]])
    fix sep a b c u :: string and s1
    assume n: "sep \<in> set user_separators" "plain_name a" "plain_name b" "plain_name c"
      and u: "u \<in> set [sanitizeName a, Join [sanitizeName b, sanitizeName c] sep]"
    have "list_all (in_class local_class) (ToLower u) \<and> ToLower u \<noteq> []"
      using u l [OF plain_nameD(1) [OF n(2)]] j [OF n(3,4,1)] l [OF plain_nameD(1) [OF n(3)]]
      by (auto simp: ToLower_def)
    then show "yields (\<lambda>u. u \<noteq> [] \<and> list_all (in_class local_class) u) (Draw (ToLower u) s1)" by simp
  qed simp
qed

lemma Email_yields:
  assumes "english fk"
  shows "yields (MatchString regex_Email) (Internet_Email fk s)"
proof -
  have suffix: "yields label_ok (Internet_DomainSuffix fk s)" for s
    using Fetch_names(4) [OF assms, of 1 s]
    by (simp add: Internet_DomainSuffix_def fetch_fuel_def numeral_2_eq_2 del: Fetch.simps)
  have word: "yields (\<lambda>w. \<exists>v. w = ToLower v \<and> lettered 63 v) (Internet_DomainWord fk s)" for s
    unfolding Internet_DomainWord_def fetch_fuel_def
    by (rule yields_bind [OF Fetch_company [OF assms]]) (auto simp: company_ok_def)
  have domain: "yields (\<lambda>d. \<exists>v x. d = Join [ToLower v, x] ''.'' \<and> lettered 63 v \<and> label_ok x) (Internet_DomainName fk s)" for s
    unfolding Internet_DomainName_def
  proof (rule yields_bind [OF word], rule yields_bind [OF suffix])
    fix w x :: string and s1
    assume "\<exists>v. w = ToLower v \<and> lettered 63 v" "label_ok x"
    then show "yields (\<lambda>d. \<exists>v x. d = Join [ToLower v, x] ''.'' \<and> lettered 63 v \<and> label_ok x) (Draw (Join [w, x] ''.'') s1)"
      unfolding yields_Draw by blast
  qed
  show ?thesis
    unfolding Internet_Email_def
  proof (rule yields_bind [OF UserName_yields [OF assms]], rule yields_bind [OF domain])
    fix u d :: string and s1
    assume u: "u \<noteq> [] \<and> list_all (in_class local_class) u"
      and "\<exists>v x. d = Join [ToLower v, x] ''.'' \<and> lettered 63 v \<and> label_ok x"
    then obtain v x where "d = Join [ToLower v, x] ''.''" "lettered 63 v" "label_ok x" by blast
    with address_ok [of u v x] u show "yields (MatchString regex_Email) (Draw (Join [u, d] ''@'') s1)" by simp
  qed
qed

text \<open>The texts: between 3 and 255 bytes, and no percent sign.\<close>

definition six_ok :: "string \<Rightarrow> bool" where
  "six_ok t \<longleftrightarrow> length t \<in> {3..255} \<and> plain_text t"

lemma Join_words:
  assumes "list_all plain_word ws"
  shows "length (Join ws '' '') \<le> 15 * length ws" and "length ws \<le> length (Join ws '' '')"
    and "plain_text (Join ws '' '')"
proof -
  have w: "plain_text w \<and> 1 \<le> length w \<and> length w \<le> 14" if "plain_word w" for w
    using that not_letters(6) letter_bits_letter
    by (cases w) (auto simp: plain_word_def plain_text_def list_all_iff)
  show "length (Join ws '' '') \<le> 15 * length ws" "length ws \<le> length (Join ws '' '')" "plain_text (Join ws '' '')"
    using assms by (induction ws "'' ''" rule: Join.induct) (use w in \<open>force simp: plain_text_def\<close>)+
qed

lemma six_words_yields:
  assumes "english fk"
  shows "yields six_ok (six_words fk s)"
proof -
  have "yields (\<lambda>ws. length ws = 6 \<and> list_all plain_word ws) (Lorem_Words fk 6 s)"
    using en_lorem_words_plain en_nonempty(4)
    by (auto simp: Lorem_Words_def english_values(6) [OF assms] list_all_iff split: prod.split)
  then show ?thesis
    unfolding six_words_def
  proof (rule yields_bind)
    fix ws :: "string list" and s1
    assume "length ws = 6 \<and> list_all plain_word ws"
    with Join_words [of ws] show "yields six_ok (Draw (Join ws '' '') s1)" by (simp add: six_ok_def)
  qed
qed

lemma Characters_yields:
  "yields (\<lambda>t. length t = k \<and> plain_text t) (Lorem_Characters fk k s)"
proof -
  have d: "CHR ''%'' \<notin> set digitsAndLetters" "digitsAndLetters \<noteq> []" by (simp_all add: digitsAndLetters_def)
  then have "digitsAndLetters ! (n mod length digitsAndLetters) \<in> set digitsAndLetters" for n by simp
  with d(1) have "CHR ''%'' \<noteq> digitsAndLetters ! (n mod length digitsAndLetters)" for n by metis
  then show ?thesis by (auto simp: Lorem_Characters_def plain_text_def Let_def split: prod.split)
qed

lemma NewRsvpCreationRequest_yields:
  assumes "english fk"
  shows "yields (\<lambda>v. RsvpCreationRequest_Validate v = None \<and> plain_text (rq_Names v) \<and> plain_text (rq_ChildrenNameAge v))
    (NewRsvpCreationRequestGomeetFaker fk s)"
  unfolding NewRsvpCreationRequestGomeetFaker_def
  by (rule yields_bind [OF six_words_yields [OF assms]], rule yields_bind [OF Email_yields [OF assms]],
      rule yields_bind [OF six_words_yields [OF assms]], rule yields_bind [OF six_words_yields [OF assms]])
    (simp add: six_ok_def RsvpCreationRequest_Validate_def)

lemma NewRsvpInfo_yields:
  assumes "english fk" and "length bs = 16"
  shows "yields (\<lambda>info. RsvpInfo_Validate info = None) (NewRsvpInfoGomeetFaker fk (Some bs) t1 t2 t3 s)"
proof -
  obtain u where u: "UUID_New (Some bs) = Some u" by (simp add: UUID_New_def NewRandom_def)
  have m: "MatchString regex_Uuid (UUID_String u)" by (rule created_uuid_matches [OF u assms(2)])
  have g: "yields (\<lambda>info. RsvpInfo_Validate info = None)
      (d_bind (six_words fk s) (\<lambda>n s1. d_bind (Internet_Email fk s1) (\<lambda>e s2.
        d_bind (six_words fk s2) (\<lambda>c s3. d_bind (six_words fk s3) (\<lambda>m s4.
          Draw (RsvpInfo_Reset\<lparr>ri_Uuid := UUID_String u, ri_Names := n, ri_Email := e, ri_Presence := True,
            ri_ChildrenNameAge := c, ri_Housing := True, ri_Music := m, ri_Brunch := True,
            ri_CreatedAt := Format_RFC3339 t1, ri_UpdatedAt := Format_RFC3339 t2,
            ri_DeletedAt := Format_RFC3339 t3\<rparr>) s4)))))"
    by (rule yields_bind [OF six_words_yields [OF assms(1)]], rule yields_bind [OF Email_yields [OF assms(1)]],
        rule yields_bind [OF six_words_yields [OF assms(1)]], rule yields_bind [OF six_words_yields [OF assms(1)]])
      (simp add: six_ok_def RsvpInfo_Validate_def m)
  then show ?thesis by (simp add: NewRsvpInfoGomeetFaker_def u)
qed

section \<open>Properties\<close>

text \<open>
  C38: the generated test data pass the validators. Once the package has set its locale, over every
  fair source of random numbers and the English table, the generator of requests returns, without a
  panic and within the fuel, a request that its validator accepts, and with it the functional tests
  draw the long text that makes each of the other requests invalid in the one field it is about;
  and the generator of answers, given the bytes of an identifier, returns one that its validator
  accepts.
\<close>

theorem generated_requests_valid:
  assumes "fair_rand (fk_rand fk)" and "tables Locale_En = locales_En" and "length bs = 16"
  shows "(\<exists>draw s'. draw_requests (pb_faker_init tables fk) s = Draw draw s' \<and> good_draw draw) \<and>
    (\<exists>res s'. NewRsvpCreationResponseGomeetFaker (pb_faker_init tables fk) (Some bs) t1 t2 t3 s = Draw res s' \<and>
      RsvpCreationResponse_Validate res = None)"
proof (intro conjI)
  let ?fk = "pb_faker_init tables fk"
  have e: "english ?fk" using assms(1,2) by (simp add: english_def pb_faker_init_def GomeetFakerSetLocale_def)
  have "yields good_draw (draw_requests ?fk s)"
    unfolding draw_requests_def
    by (rule yields_bind [OF NewRsvpCreationRequest_yields [OF e]], rule yields_bind [OF Characters_yields])
      (simp add: good_draw_def)
  then show "\<exists>draw s'. draw_requests ?fk s = Draw draw s' \<and> good_draw draw" by (auto simp: yields_def)
  have "yields (\<lambda>res. RsvpCreationResponse_Validate res = None) (NewRsvpCreationResponseGomeetFaker ?fk (Some bs) t1 t2 t3 s)"
    unfolding NewRsvpCreationResponseGomeetFaker_def
    by (rule yields_bind [OF NewRsvpInfo_yields [OF e assms(3)]]) (simp add: RsvpCreationResponse_Validate_def)
  then show "\<exists>res s'. NewRsvpCreationResponseGomeetFaker ?fk (Some bs) t1 t2 t3 s = Draw res s' \<and>
      RsvpCreationResponse_Validate res = None" by (auto simp: yields_def)
qed

definition sample_faker :: "nat list faker" where
  "sample_faker = \<lparr>fk_Locale = LMap [], fk_En = locales_En, fk_rand = tape_rand, fk_Regexify = (\<lambda>_ _. DrawPanic)\<rparr>"

theorem generated_requests_valid_witness:
  "\<exists>draw s'. draw_requests (pb_faker_init (\<lambda>l. if l = Locale_En then locales_En else LMap []) sample_faker) [7, 1, 4] =
     Draw draw s' \<and> good_draw draw"
  by (rule conjunct1 [OF generated_requests_valid [OF _ _ length_new_bytes]])
    (simp_all add: sample_faker_def tape_rand.fair_rand_axioms)

end
