(* ===== verification/Assets_Gen.thy ===== *)
theory Assets_Gen
  imports Assets "HOL-Library.AList" "HOL-Library.List_Lexorder" "HOL-Library.Sublist"
begin

text \<open>
  The tool \<open>go-bindata\<close> (\<open>_tools\<close>, package \<open>bindata\<close>) that wrote \<open>ui/assets.go\<close>: the names it gives
  to the loader functions, and the directory tree it builds of the names of the files and writes as
  a composite literal. The names of the files are ASCII.
\<close>

section \<open>Names of functions\<close>

record toc_asset =
  ta_Path :: string
  ta_Name :: string
  ta_Func :: string

text \<open>The regular expression \<open>[^a-zA-Z0-9_]\<close> on one byte.\<close>

definition regFuncName :: "char \<Rightarrow> bool" where
  "regFuncName c =
     (let n = (of_char c :: nat)
      in \<not> (0x61 \<le> n \<and> n < 0x7B \<or> 0x41 \<le> n \<and> n < 0x5B \<or> 0x30 \<le> n \<and> n < 0x3A \<or> n = 0x5F))"

definition upper_char :: "char \<Rightarrow> char" where
  "upper_char c = (if CHR ''a'' \<le> c \<and> c \<le> CHR ''z'' then char_of (of_char c - 32 :: nat) else c)"

text \<open>The loop over the bytes; the flag is \<open>toUpper\<close>.\<close>

fun safe_bytes :: "bool \<Rightarrow> string \<Rightarrow> string" where
  "safe_bytes toUpper [] = []"
| "safe_bytes toUpper (c # s) =
     (if regFuncName c then safe_bytes True s
      else if toUpper then upper_char c # safe_bytes False s
      else c # safe_bytes False s)"

text \<open>A name without any usable byte is an index out of range (\<open>None\<close>).\<close>

definition safeFunctionName ::
  "string \<Rightarrow> (string \<rightharpoonup> nat) \<Rightarrow> (string \<times> (string \<rightharpoonup> nat)) option" where
  "safeFunctionName name knownFuncs =
     (let out = safe_bytes False (ToLower name)
      in if out = [] then None
         else
           (let name = (if CHR ''0'' \<le> hd out \<and> hd out \<le> CHR ''9'' then CHR ''_'' # out else out)
            in case knownFuncs name of
                 Some num \<Rightarrow> Some (name @ nat_dec num, knownFuncs(name \<mapsto> num + 1))
               | None \<Rightarrow> Some (name, knownFuncs(name \<mapsto> 2))))"

text \<open>The entries that \<open>findFiles\<close> appends, one for each file it comes to, with its path and name.\<close>

fun append_assets :: "(string \<times> string) list \<Rightarrow> (string \<rightharpoonup> nat) \<Rightarrow> toc_asset list option" where
  "append_assets [] knownFuncs = Some []"
| "append_assets ((path, name) # fs) knownFuncs =
     (case safeFunctionName name knownFuncs of
        None \<Rightarrow> None
      | Some (f, knownFuncs) \<Rightarrow>
          map_option ((#) \<lparr>ta_Path = path, ta_Name = name, ta_Func = f\<rparr>) (append_assets fs knownFuncs))"

section \<open>The tree\<close>

datatype assetTree = AssetTree (at_Asset: toc_asset) (at_Children: "(string \<times> assetTree) list")

definition no_asset :: toc_asset where
  "no_asset = \<lparr>ta_Path = [], ta_Name = [], ta_Func = []\<rparr>"

definition newAssetTree :: assetTree where
  "newAssetTree = AssetTree no_asset []"

text \<open>The child of a name, a new one where there is none, and the map with that child in its place.\<close>

definition child :: "assetTree \<Rightarrow> string \<Rightarrow> assetTree" where
  "child node name = (case map_of (at_Children node) name of Some rv \<Rightarrow> rv | None \<Rightarrow> newAssetTree)"

fun Add :: "assetTree \<Rightarrow> string list \<Rightarrow> toc_asset \<Rightarrow> assetTree" where
  "Add root [] a = AssetTree a (at_Children root)"
| "Add root (name # route) a =
     AssetTree (at_Asset root) (AList.update name (Add (child root name) route a) (at_Children root))"

definition writeTOCTree :: "toc_asset list \<Rightarrow> assetTree" where
  "writeTOCTree toc = fold (\<lambda>a tree. Add tree (split_char CHR ''/'' (ta_Name a)) a) toc newAssetTree"

text \<open>The value of the literal that \<open>writeGoMap\<close> writes; \<open>loader\<close> is what a function name stands for.\<close>

fun writeGoMap :: "(string \<rightharpoonup> bindataFileInfo) \<Rightarrow> assetTree \<Rightarrow> bintree" where
  "writeGoMap loader (AssetTree a cs) =
     Bintree (if ta_Func a = [] then None else loader (ta_Func a))
       (sort_key fst (List.map (\<lambda>(k, t). (k, writeGoMap loader t)) cs))"

section \<open>What is in the tree\<close>

fun at_walk :: "assetTree \<Rightarrow> string list \<Rightarrow> assetTree option" where
  "at_walk t [] = Some t"
| "at_walk t (p # ps) = (case map_of (at_Children t) p of None \<Rightarrow> None | Some u \<Rightarrow> at_walk u ps)"

lemma at_walk_new: "at_walk newAssetTree p = (if p = [] then Some newAssetTree else None)"
  by (cases p) (simp_all add: newAssetTree_def)

lemma at_Asset_new [simp]: "at_Asset newAssetTree = no_asset"
  by (simp add: newAssetTree_def)

lemma Add_walk:
  "map_option at_Asset (at_walk (Add t route a) p) =
     (if p = route then Some a
      else if prefix p route \<and> at_walk t p = None then Some no_asset
      else map_option at_Asset (at_walk t p))"
proof (induction t route a arbitrary: p rule: Add.induct)
  case (1 root a)
  then show ?case by (cases p) auto
next
  case (2 root name route a)
  show ?case
  proof (cases p)
    case (Cons q ps)
    then show ?thesis
      using 2 [of ps]
      by (cases "map_of (at_Children root) name")
        (auto simp: update_conv' child_def at_walk_new split: option.splits)
  qed simp
qed

definition route :: "toc_asset \<Rightarrow> string list" where
  "route a = split_char CHR ''/'' (ta_Name a)"

lemma writeTOCTree_walk:
  "map_option at_Asset (at_walk (writeTOCTree toc) p) =
     (if p = [] \<or> list_ex (\<lambda>a. prefix p (route a)) toc
      then Some (case find (\<lambda>a. route a = p) (rev toc) of Some a \<Rightarrow> a | None \<Rightarrow> no_asset)
      else None)"
proof (induction toc rule: rev_induct)
  case Nil
  then show ?case by (simp add: writeTOCTree_def at_walk_new)
next
  case (snoc a toc)
  have "writeTOCTree (toc @ [a]) = Add (writeTOCTree toc) (route a) a"
    by (simp add: writeTOCTree_def route_def)
  moreover have "find (\<lambda>a. route a = p) (rev toc) = None" if "\<not> list_ex (\<lambda>a. prefix p (route a)) toc"
    using that by (auto simp: find_None_iff list_ex_iff)
  ultimately show ?case
    using snoc by (auto simp: Add_walk split: if_splits)
qed

section \<open>The tree of the program\<close>

definition loaders_table :: "(string \<times> bindataFileInfo) list" where
  "loaders_table =
     [(''assets404Html'', assets404Html),
      (''assetsAndroidChrome192x192Png'', assetsAndroidChrome192x192Png),
      (''assetsAndroidChrome512x512Png'', assetsAndroidChrome512x512Png),
      (''assetsAppleTouchIconPng'', assetsAppleTouchIconPng),
      (''assetsBrowserconfigXml'', assetsBrowserconfigXml),
      (''assetsCssCarouselCss'', assetsCssCarouselCss),
      (''assetsCssFooterCss'', assetsCssFooterCss),
      (''assetsCssMainCss'', assetsCssMainCss),
      (''assetsCssMaterialComponentsWebCss'', assetsCssMaterialComponentsWebCss),
      (''assetsFavicon16x16Png'', assetsFavicon16x16Png),
      (''assetsFavicon32x32Png'', assetsFavicon32x32Png),
      (''assetsFaviconIco'', assetsFaviconIco),
      (''assetsImgCarouselAultJpg'', assetsImgCarouselAultJpg),
      (''assetsImgCarouselBaieDeSommeJpg'', assetsImgCarouselBaieDeSommeJpg),
      (''assetsImgCarouselBoisDeCiseJpg'', assetsImgCarouselBoisDeCiseJpg),
      (''assetsImgCarouselDieppeCerfsVolantsJpg'', assetsImgCarouselDieppeCerfsVolantsJpg),
      (''assetsImgCarouselDieppeJpg'', assetsImgCarouselDieppeJpg),
      (''assetsImgCarouselMersLesBainsJpg'', assetsImgCarouselMersLesBainsJpg),
      (''assetsImgCarouselVeulesLesRosesJpg'', assetsImgCarouselVeulesLesRosesJpg),
      (''assetsImgFavicon_package_v016Zip'', assetsImgFavicon_package_v016Zip),
      (''assetsImgIconsBrunchSmallPng'', assetsImgIconsBrunchSmallPng),
      (''assetsImgIconsBrunchPng'', assetsImgIconsBrunchPng),
      (''assetsImgIconsChampagneGlassesSmallPng'', assetsImgIconsChampagneGlassesSmallPng),
      (''assetsImgIconsChampagneGlassesPng'', assetsImgIconsChampagneGlassesPng),
      (''assetsImgIconsChurchSmallPng'', assetsImgIconsChurchSmallPng),
      (''assetsImgIconsChurchPng'', assetsImgIconsChurchPng),
      (''assetsImgIconsClubbingSmallPng'', assetsImgIconsClubbingSmallPng),
      (''assetsImgIconsClubbingPng'', assetsImgIconsClubbingPng),
      (''assetsImgIconsCocktailSmallPng'', assetsImgIconsCocktailSmallPng),
      (''assetsImgIconsCocktailPng'', assetsImgIconsCocktailPng),
      (''assetsImgIconsDancingSmallPng'', assetsImgIconsDancingSmallPng),
      (''assetsImgIconsDancingPng'', assetsImgIconsDancingPng),
      (''assetsImgIconsDinnerSmallPng'', assetsImgIconsDinnerSmallPng),
      (''assetsImgIconsDinnerPng'', assetsImgIconsDinnerPng),
      (''assetsImgIconsHallSmallPng'', assetsImgIconsHallSmallPng),
      (''assetsImgIconsHallPng'', assetsImgIconsHallPng),
      (''assetsImgIconsParkSmallPng'', assetsImgIconsParkSmallPng),
      (''assetsImgIconsParkPng'', assetsImgIconsParkPng),
      (''assetsImgIconsRoadSmallPng'', assetsImgIconsRoadSmallPng),
      (''assetsImgIconsRoadPng'', assetsImgIconsRoadPng),
      (''assetsImgIconsSoupSmallPng'', assetsImgIconsSoupSmallPng),
      (''assetsImgIconsSoupPng'', assetsImgIconsSoupPng),
      (''assetsImgIconsSoup2SmallPng'', assetsImgIconsSoup2SmallPng),
      (''assetsImgIconsSoup2Png'', assetsImgIconsSoup2Png),
      (''assetsImgLogoTextPng'', assetsImgLogoTextPng),
      (''assetsImgLogoJpg'', assetsImgLogoJpg),
      (''assetsIndexHtml'', assetsIndexHtml),
      (''assetsJsElmMdcJs'', assetsJsElmMdcJs),
      (''assetsJsFlickityPkgdMinJs'', assetsJsFlickityPkgdMinJs),
      (''assetsJsJquery331MinJs'', assetsJsJquery331MinJs),
      (''assetsJsRsvpJs'', assetsJsRsvpJs),
      (''assetsMstile150x150Png'', assetsMstile150x150Png),
      (''assetsSafariPinnedTabSvg'', assetsSafariPinnedTabSvg),
      (''assetsSiteWebmanifest'', assetsSiteWebmanifest)]"

definition base_name :: "string \<Rightarrow> string" where
  "base_name name =
     (let out = safe_bytes False (ToLower name)
      in if out \<noteq> [] \<and> CHR ''0'' \<le> hd out \<and> hd out \<le> CHR ''9'' then CHR ''_'' # out else out)"

lemma append_assets_distinct:
  assumes "distinct (List.map (base_name \<circ> snd) fs)"
    and "list_all (\<lambda>(p, n). base_name n \<noteq> [] \<and> known (base_name n) = None) fs"
  shows "append_assets fs known =
    Some (List.map (\<lambda>(p, n). \<lparr>ta_Path = p, ta_Name = n, ta_Func = base_name n\<rparr>) fs)"
  using assms
proof (induction fs arbitrary: known)
  case (Cons x fs)
  obtain p n where x: "x = (p, n)" by (cases x)
  have "safeFunctionName n known = Some (base_name n, known(base_name n \<mapsto> 2))"
    using Cons.prems(2) by (auto simp: x safeFunctionName_def base_name_def Let_def split: if_splits)
  moreover have "append_assets fs (known(base_name n \<mapsto> 2)) =
      Some (List.map (\<lambda>(p, n). \<lparr>ta_Path = p, ta_Name = n, ta_Func = base_name n\<rparr>) fs)"
    using Cons.prems by (intro Cons.IH) (force simp: x list_all_iff)+
  ultimately show ?case by (simp add: x)
qed simp

lemma base_names: "List.map base_name AssetNames = List.map fst loaders_table"
  unfolding AssetNames_def bindata_def loaders_table_def list.map fst_conv by code_simp

lemma loaders_distinct: "distinct (List.map fst loaders_table)"
  by (simp add: loaders_table_def)

lemma loaders_infos: "List.map snd loaders_table = List.map snd bindata"
  by (simp add: loaders_table_def bindata_def)

text \<open>
  The files of a tree in its order. A tree in which files have no children, directories have files
  below them, and siblings differ is the tree that the generator builds of its files.
\<close>

fun at_files :: "assetTree \<Rightarrow> (string list \<times> toc_asset) list" where
  "at_files (AssetTree a cs) =
     (if ta_Func a = [] then [] else [([], a)]) @
     concat (List.map (\<lambda>(k, u). List.map (\<lambda>(p, b). (k # p, b)) (at_files u)) cs)"

fun at_ok :: "assetTree \<Rightarrow> bool" where
  "at_ok (AssetTree a cs) =
     (distinct (List.map fst cs) \<and> (if cs = [] then ta_Func a \<noteq> [] else a = no_asset) \<and>
      list_all (\<lambda>(k, u). at_ok u) cs)"

abbreviation add_files :: "(string list \<times> toc_asset) list \<Rightarrow> assetTree \<Rightarrow> assetTree" where
  "add_files \<equiv> fold (\<lambda>(p, a) t. Add t p a)"

lemma at_ok_files: "at_ok t \<Longrightarrow> at_files t \<noteq> []"
proof (induction t rule: at_files.induct)
  case (1 a cs)
  show ?case
  proof (cases cs)
    case (Cons c cs')
    obtain k u where c: "c = (k, u)" by (cases c)
    then have "at_ok u" using 1(2) Cons by (simp split: if_splits)
    then have "at_files u \<noteq> []" by (intro 1(1) [of c k u]) (simp_all add: Cons c)
    with Cons c show ?thesis by simp
  qed (use 1 in simp)
qed

lemma add_below:
  "k \<notin> fst ` set cs \<Longrightarrow>
   add_files (List.map (\<lambda>(p, b). (k # p, b)) fs) (AssetTree a (cs @ [(k, u)])) =
     AssetTree a (cs @ [(k, add_files fs u)])"
proof (induction fs arbitrary: u)
  case (Cons f fs)
  have "AList.update k v (cs @ [(k, u)]) = cs @ [(k, v)]" for v
    using Cons.prems by (induction cs) auto
  moreover have "map_of (cs @ [(k, u)]) k = Some u"
    using Cons.prems by (simp add: map_of_append map_add_def dom_map_of_conv_image_fst [symmetric] domIff)
  ultimately show ?case
    using Cons by (cases f) (simp add: child_def)
qed simp

lemma add_child:
  assumes "k \<notin> fst ` set cs" and "fs \<noteq> []"
  shows "add_files (List.map (\<lambda>(p, b). (k # p, b)) fs) (AssetTree a cs) =
    AssetTree a (cs @ [(k, add_files fs newAssetTree)])"
proof -
  obtain p b fs' where fs: "fs = (p, b) # fs'" using assms(2) by (cases fs) auto
  have "map_of cs k = None" using assms(1) by (simp add: map_of_eq_None_iff)
  moreover from this have "AList.update k v cs = cs @ [(k, v)]" for v
    by (induction cs) (auto split: if_splits)
  ultimately show ?thesis
    using add_below [OF assms(1), of fs' a "Add newAssetTree p b"] by (simp add: fs child_def)
qed

lemma add_files_tree: "at_ok t \<Longrightarrow> add_files (at_files t) newAssetTree = t"
proof (induction t rule: at_files.induct)
  case (1 a cs)
  have step: "add_files (concat (List.map (\<lambda>(k, u). List.map (\<lambda>(p, b). (k # p, b)) (at_files u)) ds))
      (AssetTree no_asset es) = AssetTree no_asset (es @ ds)"
    if "set ds \<subseteq> set cs" "distinct (List.map fst (es @ ds))" for ds es
    using that
  proof (induction ds arbitrary: es)
    case (Cons d ds)
    obtain k u where d: "d = (k, u)" by (cases d)
    have u: "(k, u) \<in> set cs" "at_ok u" using Cons.prems(1) "1.prems" by (auto simp: d list_all_iff)
    then have "add_files (at_files u) newAssetTree = u" using "1.IH" by blast
    then show ?case
      using Cons.IH [of "es @ [(k, u)]"] Cons.prems at_ok_files [OF u(2)]
      by (simp add: d add_child)
  qed simp
  show ?case
  proof (cases "cs = []")
    case True
    then show ?thesis using "1.prems" by (simp add: newAssetTree_def)
  next
    case False
    then show ?thesis
      using step [of cs "[]"] "1.prems" by (simp add: newAssetTree_def no_asset_def)
  qed
qed

text \<open>The tree of the file, with the entries of the generator in the place of the loaders.\<close>

definition entry :: "(string \<Rightarrow> string) \<Rightarrow> string \<Rightarrow> toc_asset" where
  "entry path name = \<lparr>ta_Path = path name, ta_Name = name, ta_Func = base_name name\<rparr>"

fun as_tree :: "(string \<Rightarrow> string) \<Rightarrow> bintree \<Rightarrow> assetTree" where
  "as_tree path (Bintree g cs) =
     AssetTree (case g of None \<Rightarrow> no_asset | Some g \<Rightarrow> entry path (fi_name g))
       (List.map (\<lambda>(k, u). (k, as_tree path u)) cs)"

fun sorted_tree :: "bintree \<Rightarrow> bool" where
  "sorted_tree (Bintree g cs) = (sorted (List.map fst cs) \<and> list_all (\<lambda>(k, u). sorted_tree u) cs)"

fun tree_loaders :: "bintree \<Rightarrow> bindataFileInfo list" where
  "tree_loaders (Bintree g cs) =
     (case g of None \<Rightarrow> [] | Some g \<Rightarrow> [g]) @ concat (List.map (\<lambda>(k, u). tree_loaders u) cs)"

lemma sort_key_sorted: "sorted (List.map f xs) \<Longrightarrow> sort_key f xs = xs"
  by (induction xs) (auto simp: insort_is_Cons)

lemma writeGoMap_as_tree:
  assumes "\<And>g. g \<in> set (tree_loaders t) \<Longrightarrow>
      base_name (fi_name g) \<noteq> [] \<and> loader (base_name (fi_name g)) = Some g"
    and "sorted_tree t"
  shows "writeGoMap loader (as_tree path t) = t"
  using assms
proof (induction path t rule: as_tree.induct)
  case (1 path g cs)
  have "writeGoMap loader (as_tree path u) = u" if "(k, u) \<in> set cs" for k u
  proof (rule 1(1) [OF that refl])
    show "sorted_tree u" using 1(3) that by (auto simp: list_all_iff)
    show "base_name (fi_name h) \<noteq> [] \<and> loader (base_name (fi_name h)) = Some h"
      if "h \<in> set (tree_loaders u)" for h
      using that \<open>(k, u) \<in> set cs\<close> by (intro 1(2)) force
  qed
  then have cs: "List.map (\<lambda>(k, u). (k, writeGoMap loader (as_tree path u))) cs = cs"
    by (intro map_idI) auto
  have "List.map (\<lambda>(k, t). (k, writeGoMap loader t)) (List.map (\<lambda>(k, u). (k, as_tree path u)) cs) = cs"
    using cs by (simp add: comp_def case_prod_unfold)
  then show ?case
    using 1(2) [of "the g"] 1(3) by (cases g) (simp_all add: no_asset_def entry_def sort_key_sorted)
qed

lemma as_tree_files:
  assumes "tree_ok n t" and "\<forall>g \<in> set (tree_loaders t). base_name (fi_name g) \<noteq> []"
  shows "at_files (as_tree path t) = List.map (\<lambda>(p, g). (p, entry path (fi_name g))) (files_at n t) \<and>
    at_ok (as_tree path t)"
  using assms
proof (induction n arbitrary: t)
  case 0
  then show ?case by (cases t) (auto simp: entry_def)
next
  case (Suc n)
  obtain g cs where t: "t = Bintree g cs" by (cases t)
  have sub: "at_files (as_tree path u) = List.map (\<lambda>(p, g). (p, entry path (fi_name g))) (files_at n u) \<and>
      at_ok (as_tree path u)" if "(k, u) \<in> set cs" for k u
  proof (rule Suc.IH)
    show "tree_ok n u" using Suc.prems(1) that by (auto simp: t)
    show "\<forall>g \<in> set (tree_loaders u). base_name (fi_name g) \<noteq> []"
      using Suc.prems(2) that by (force simp: t)
  qed
  then have "List.map (\<lambda>x. List.map (\<lambda>(p, b). (fst x # p, b)) (at_files (as_tree path (snd x)))) cs =
      List.map (\<lambda>x. List.map (\<lambda>(p, g). (p, entry path (fi_name g)))
        (List.map (\<lambda>(p, g). (fst x # p, g)) (files_at n (snd x)))) cs"
    by (intro map_cong refl) (force simp: case_prod_unfold)
  moreover have "list_all (\<lambda>(k, u). at_ok u) (List.map (\<lambda>(k, u). (k, as_tree path u)) cs)"
    using sub by (auto simp: list_all_iff)
  ultimately show ?case
    using Suc.prems
    by (auto simp: t no_asset_def entry_def map_concat comp_def case_prod_unfold
        intro!: arg_cong [where f = concat] split: option.splits)
qed


section \<open>The tree of the program is generated\<close>

lemma the_bintree_sorted: "sorted_tree the_bintree"
  by (simp add: the_bintree_def less_eq_char_def less_char_def)

lemma the_bintree_loaders: "tree_loaders the_bintree = List.map snd bindata"
  by (simp add: the_bintree_def bindata_def)

lemma info_names: "(k, g) \<in> set bindata \<Longrightarrow> fi_name g = k"
proof -
  have "list_all (\<lambda>(k, g). fi_name g = k) bindata" by (simp add: bindata_def assets_defs)
  then show "(k, g) \<in> set bindata \<Longrightarrow> fi_name g = k" by (auto simp: list_all_iff)
qed

lemma loaders_of_table: "loaders_table = List.map (\<lambda>(k, g). (base_name k, g)) bindata"
proof -
  have "loaders_table = zip (List.map fst loaders_table) (List.map snd loaders_table)" by (simp add: zip_map_fst_snd)
  also have "\<dots> = zip (List.map base_name (List.map fst bindata)) (List.map snd bindata)"
    by (simp add: base_names [symmetric] loaders_infos AssetNames_def)
  also have "\<dots> = List.map (\<lambda>(k, g). (base_name k, g)) bindata"
    by (simp add: zip_map_map zip_same_conv_map case_prod_unfold comp_def)
  finally show ?thesis .
qed

lemma base_names_nonempty: "k \<in> set AssetNames \<Longrightarrow> base_name k \<noteq> []"
proof -
  have "list_all (\<lambda>f. f \<noteq> []) (List.map fst loaders_table)" by (simp add: loaders_table_def)
  then have "list_all (\<lambda>f. f \<noteq> []) (List.map base_name AssetNames)" by (simp only: base_names)
  then show "k \<in> set AssetNames \<Longrightarrow> base_name k \<noteq> []" by (auto simp: list_all_iff)
qed

lemma loader_found:
  "(k, g) \<in> set bindata \<Longrightarrow> base_name (fi_name g) \<noteq> [] \<and> map_of loaders_table (base_name (fi_name g)) = Some g"
  using loaders_distinct base_names_nonempty [of k]
  by (force simp: info_names loaders_of_table AssetNames_def intro!: map_of_is_SomeI)

lemma writeTOCTree_table: "writeTOCTree (List.map (entry path) AssetNames) = as_tree path the_bintree"
proof -
  have g: "base_name (fi_name g) \<noteq> []" if "g \<in> set (tree_loaders the_bintree)" for g
    using that loader_found by (force simp: the_bintree_loaders)
  note tree = as_tree_files [OF the_bintree_ok, of path]
  have "writeTOCTree (List.map (entry path) AssetNames) =
      fold (\<lambda>(p, g) t. Add t (split_char CHR ''/'' (Join p ''/'')) (entry path (Join p ''/'')))
        (files_at 4 the_bintree) newAssetTree"
    by (simp add: writeTOCTree_def AssetNames_def the_bintree_files [symmetric] fold_map comp_def
        case_prod_unfold entry_def)
  also have "\<dots> = fold (\<lambda>(p, g) t. Add t p (entry path (fi_name g))) (files_at 4 the_bintree) newAssetTree"
  proof (rule fold_cong [OF refl refl])
    fix x assume x: "x \<in> set (files_at 4 the_bintree)"
    then have "(Join (fst x) ''/'', snd x) \<in> set bindata"
      unfolding bindata_files by (intro exI [of _ "fst x"]) simp
    from info_names [OF this] split_file [of "fst x" "snd x"] x
    show "(case x of (p, g) \<Rightarrow> \<lambda>t. Add t (split_char CHR ''/'' (Join p ''/'')) (entry path (Join p ''/''))) =
        (case x of (p, g) \<Rightarrow> \<lambda>t. Add t p (entry path (fi_name g)))"
      by (cases x) simp
  qed
  also have "\<dots> = add_files (at_files (as_tree path the_bintree)) newAssetTree"
    using tree g by (simp add: fold_map comp_def case_prod_unfold)
  also have "\<dots> = as_tree path the_bintree"
    by (rule add_files_tree) (use tree g in blast)
  finally show ?thesis .
qed

lemma append_assets_table:
  "append_assets (List.map (\<lambda>n. (path n, n)) AssetNames) Map.empty = Some (List.map (entry path) AssetNames)"
proof -
  have "distinct (List.map base_name AssetNames)" using loaders_distinct by (simp only: base_names)
  then show ?thesis
    using append_assets_distinct [of "List.map (\<lambda>n. (path n, n)) AssetNames" Map.empty] base_names_nonempty
    by (simp add: comp_def entry_def list_all_iff)
qed

text \<open>
  C32: the file of the embedded assets is what its generator makes of the names of the files: the
  loader functions have the names that \<open>safeFunctionName\<close> gives, all different, and the literal of
  the directory tree is the one written for them. In every tree the generator builds, a path leads
  to a node exactly when it is a prefix of a name, and the node holds the last entry of that name.
\<close>

theorem assets_generated:
  "\<exists>toc. append_assets (List.map (\<lambda>n. (path n, n)) AssetNames) Map.empty = Some toc \<and>
     List.map ta_Func toc = List.map fst loaders_table \<and> distinct (List.map ta_Func toc) \<and>
     writeGoMap (map_of loaders_table) (writeTOCTree toc) = the_bintree \<and>
     map_option at_Asset (at_walk (writeTOCTree es) p) =
       (if p = [] \<or> list_ex (\<lambda>a. prefix p (route a)) es
        then Some (case find (\<lambda>a. route a = p) (rev es) of Some a \<Rightarrow> a | None \<Rightarrow> no_asset)
        else None)"
proof (intro exI conjI)
  show "append_assets (List.map (\<lambda>n. (path n, n)) AssetNames) Map.empty = Some (List.map (entry path) AssetNames)"
    by (rule append_assets_table)
  show f: "List.map ta_Func (List.map (entry path) AssetNames) = List.map fst loaders_table"
    by (simp add: base_names [symmetric] entry_def)
  show "distinct (List.map ta_Func (List.map (entry path) AssetNames))"
    unfolding f by (rule loaders_distinct)
  show "writeGoMap (map_of loaders_table) (writeTOCTree (List.map (entry path) AssetNames)) = the_bintree"
    unfolding writeTOCTree_table
    by (rule writeGoMap_as_tree [OF _ the_bintree_sorted])
      (use loader_found in \<open>force simp: the_bintree_loaders\<close>)
qed (rule writeTOCTree_walk)

text \<open>
  Nothing makes the names of the functions different in general: the number that is appended to a
  name can make it the name of another file.
\<close>

lemma safe_names_clash:
  "map_option (List.map ta_Func)
     (append_assets [(''a'', ''x.a''), (''b'', ''x-a''), (''c'', ''x.a2'')] Map.empty) =
   Some [''xA'', ''xA2'', ''xA2'']"
  by code_simp

end
