(* ===== verification/Pb_Populate.thy ===== *)
theory Pb_Populate
  imports Pb_Messages
begin

text \<open>
  The generators of random messages in \<open>pb/www.pb.go\<close>. The source of randomness is an argument,
  the record \<open>randyWww\<close> of the two methods the generators call, which thread a state. What they
  rely on is the locale \<open>fair_randy\<close>, interpreted on a tape of numbers.
\<close>

section \<open>The source of randomness\<close>

record 's randyWww =
  Intn :: "nat \<Rightarrow> 's \<Rightarrow> nat \<times> 's"
  Int63 :: "'s \<Rightarrow> 64 word \<times> 's"

locale fair_randy =
  fixes r :: "'s randyWww"
  assumes Intn_less: "0 < n \<Longrightarrow> fst (Intn r n s) < n"
    and Int63_less: "unat (fst (Int63 r s)) < 2 ^ 63"

text \<open>A tape: the numbers still to be read; an empty tape reads as zero.\<close>

definition tape_next :: "nat list \<Rightarrow> nat \<times> nat list" where
  "tape_next t = (case t of [] \<Rightarrow> (0, []) | x # xs \<Rightarrow> (x, xs))"

definition tape_randy :: "nat list randyWww" where
  "tape_randy =
     \<lparr>Intn = (\<lambda>n t. case tape_next t of (x, t') \<Rightarrow> (x mod n, t')),
      Int63 = (\<lambda>t. case tape_next t of (x, t') \<Rightarrow> (word_of_nat (x mod 2 ^ 63), t'))\<rparr>"

interpretation tape: fair_randy tape_randy
proof
  show "fst (Intn tape_randy n s) < n" if "0 < n" for n s
    using that by (simp add: tape_randy_def split: prod.split)
  have "x mod 2 ^ 63 < 2 ^ LENGTH(64)" for x :: nat
    by (rule less_le_trans [of _ "2 ^ 63"]) simp_all
  then have "unat (word_of_nat (x mod 2 ^ 63) :: 64 word) = x mod 2 ^ 63" for x
    by (simp add: unat_of_nat take_bit_nat_eq_self)
  then show "unat (fst (Int63 tape_randy s)) < 2 ^ 63" for s
    by (simp add: tape_randy_def split: prod.split)
qed

section \<open>Texts\<close>

definition randUTF8RuneWww :: "'s randyWww \<Rightarrow> 's \<Rightarrow> nat \<times> 's" where
  "randUTF8RuneWww r s =
     (case Intn r 62 s of
        (ru, s') \<Rightarrow>
          (if ru < 10 then ru + 48 else if ru < 36 then ru + 55 else ru + 61, s'))"

fun rand_runes :: "'s randyWww \<Rightarrow> nat \<Rightarrow> 's \<Rightarrow> nat list \<times> 's" where
  "rand_runes r 0 s = ([], s)"
| "rand_runes r (Suc n) s =
     (case randUTF8RuneWww r s of
        (c, s1) \<Rightarrow> (case rand_runes r n s1 of (cs, s2) \<Rightarrow> (c # cs, s2)))"

text \<open>The runes are below 128, so the text has one byte for each.\<close>

definition randStringWww :: "'s randyWww \<Rightarrow> 's \<Rightarrow> string \<times> 's" where
  "randStringWww r s =
     (case Intn r 100 s of
        (v2, s1) \<Rightarrow> (case rand_runes r v2 s1 of (tmps, s2) \<Rightarrow> (map char_of tmps, s2)))"

definition randBool :: "'s randyWww \<Rightarrow> 's \<Rightarrow> bool \<times> 's" where
  "randBool r s = (case Intn r 2 s of (x, s') \<Rightarrow> (x = 0, s'))"

text \<open>The last draw, made for unknown fields and without effect.\<close>

definition skip_unrecognized :: "'s randyWww \<Rightarrow> bool \<Rightarrow> 's \<Rightarrow> 's" where
  "skip_unrecognized r easy s = (if \<not> easy then snd (Intn r 10 s) else s)"

section \<open>Messages\<close>

definition NewPopulatedEmptyMessage :: "'s randyWww \<Rightarrow> bool \<Rightarrow> 's \<Rightarrow> EmptyMessage \<times> 's" where
  "NewPopulatedEmptyMessage r easy s = (EmptyMessage, skip_unrecognized r easy s)"

definition NewPopulatedVersionResponse :: "'s randyWww \<Rightarrow> bool \<Rightarrow> 's \<Rightarrow> VersionResponse \<times> 's" where
  "NewPopulatedVersionResponse r easy s =
     (case randStringWww r s of (n, s1) \<Rightarrow>
      case randStringWww r s1 of (v, s2) \<Rightarrow>
        (VersionResponse_Reset\<lparr>vr_Name := n, vr_Version := v\<rparr>, skip_unrecognized r easy s2))"

definition NewPopulatedServiceStatus :: "'s randyWww \<Rightarrow> bool \<Rightarrow> 's \<Rightarrow> ServiceStatus \<times> 's" where
  "NewPopulatedServiceStatus r easy s =
     (case randStringWww r s of (n, s1) \<Rightarrow>
      case randStringWww r s1 of (v, s2) \<Rightarrow>
      case Intn r 2 s2 of (i, s3) \<Rightarrow>
      case randStringWww r s3 of (e, s4) \<Rightarrow>
        (ServiceStatus_Reset\<lparr>st_Name := n, st_Version := v, st_Status := [0, 1] ! i, st_EMsg := e\<rparr>,
         skip_unrecognized r easy s4))"

fun populate_services :: "'s randyWww \<Rightarrow> bool \<Rightarrow> nat \<Rightarrow> 's \<Rightarrow> ServiceStatus option list \<times> 's" where
  "populate_services r easy 0 s = ([], s)"
| "populate_services r easy (Suc n) s =
     (case NewPopulatedServiceStatus r easy s of (x, s1) \<Rightarrow>
      case populate_services r easy n s1 of (xs, s2) \<Rightarrow> (Some x # xs, s2))"

definition NewPopulatedServicesStatusList :: "'s randyWww \<Rightarrow> bool \<Rightarrow> 's \<Rightarrow> ServicesStatusList \<times> 's" where
  "NewPopulatedServicesStatusList r easy s =
     (case Intn r 10 s of (k, s1) \<Rightarrow>
      case (if k \<noteq> 0 then
              (case Intn r 5 s1 of (v1, s2) \<Rightarrow> populate_services r easy v1 s2)
            else ([], s1)) of (xs, s3) \<Rightarrow>
        (ServicesStatusList_Reset\<lparr>sl_Services := xs\<rparr>, skip_unrecognized r easy s3))"

definition NewPopulatedRsvpCreationRequest ::
  "'s randyWww \<Rightarrow> bool \<Rightarrow> 's \<Rightarrow> RsvpCreationRequest \<times> 's" where
  "NewPopulatedRsvpCreationRequest r easy s =
     (case randStringWww r s of (n, s1) \<Rightarrow>
      case randStringWww r s1 of (e, s2) \<Rightarrow>
      case randBool r s2 of (p, s3) \<Rightarrow>
      case randStringWww r s3 of (c, s4) \<Rightarrow>
      case randBool r s4 of (h, s5) \<Rightarrow>
      case randStringWww r s5 of (m, s6) \<Rightarrow>
      case randBool r s6 of (b, s7) \<Rightarrow>
        (RsvpCreationRequest_Reset\<lparr>rq_Names := n, rq_Email := e, rq_Presence := p,
           rq_ChildrenNameAge := c, rq_Housing := h, rq_Music := m, rq_Brunch := b\<rparr>,
         skip_unrecognized r easy s7))"

definition NewPopulatedRsvpInfo :: "'s randyWww \<Rightarrow> bool \<Rightarrow> 's \<Rightarrow> RsvpInfo \<times> 's" where
  "NewPopulatedRsvpInfo r easy s =
     (case randStringWww r s of (u, s0) \<Rightarrow>
      case randStringWww r s0 of (n, s1) \<Rightarrow>
      case randStringWww r s1 of (e, s2) \<Rightarrow>
      case randBool r s2 of (p, s3) \<Rightarrow>
      case randStringWww r s3 of (c, s4) \<Rightarrow>
      case randBool r s4 of (h, s5) \<Rightarrow>
      case randStringWww r s5 of (m, s6) \<Rightarrow>
      case randBool r s6 of (b, s7) \<Rightarrow>
      case randStringWww r s7 of (ca, s8) \<Rightarrow>
      case randStringWww r s8 of (ua, s9) \<Rightarrow>
      case randStringWww r s9 of (da, s10) \<Rightarrow>
        (RsvpInfo_Reset\<lparr>ri_Uuid := u, ri_Names := n, ri_Email := e, ri_Presence := p,
           ri_ChildrenNameAge := c, ri_Housing := h, ri_Music := m, ri_Brunch := b,
           ri_CreatedAt := ca, ri_UpdatedAt := ua, ri_DeletedAt := da\<rparr>,
         skip_unrecognized r easy s10))"

definition NewPopulatedRsvpCreationResponse ::
  "'s randyWww \<Rightarrow> bool \<Rightarrow> 's \<Rightarrow> RsvpCreationResponse \<times> 's" where
  "NewPopulatedRsvpCreationResponse r easy s =
     (case randBool r s of (ok, s1) \<Rightarrow>
      case Intn r 10 s1 of (k, s2) \<Rightarrow>
      case (if k \<noteq> 0 then
              (case NewPopulatedRsvpInfo r easy s2 of (i, s3) \<Rightarrow> (Some i, s3))
            else (None, s2)) of (info, s4) \<Rightarrow>
        (RsvpCreationResponse_Reset\<lparr>rs_Ok := ok, rs_Info := info\<rparr>, skip_unrecognized r easy s4))"

section \<open>Unknown fields\<close>

text \<open>The loop of \<open>encodeVarintPopulateWww\<close>, which shifts the number to the right until it is below 128.\<close>

lemma drop_bit_7_less:
  assumes "\<not> v < (128 :: 64 word)"
  shows "unat (drop_bit 7 v) < unat v"
proof -
  have "128 \<le> unat v" using assms by (simp add: word_less_nat_alt)
  then show ?thesis by (simp add: drop_bit_eq_div unat_div)
qed

function encodeVarintPopulateWww :: "byte list \<Rightarrow> 64 word \<Rightarrow> byte list" where
  "encodeVarintPopulateWww dAtA v =
     (if v < 128 then dAtA @ [ucast v]
      else encodeVarintPopulateWww (dAtA @ [ucast ((v AND 0x7f) OR 0x80)]) (drop_bit 7 v))"
  by pat_completeness auto
termination
  by (relation "measure (\<lambda>(d, v). unat v)") (auto simp: drop_bit_7_less)

declare encodeVarintPopulateWww.simps [simp del]

fun rand_bytes :: "'s randyWww \<Rightarrow> nat \<Rightarrow> 's \<Rightarrow> byte list \<times> 's" where
  "rand_bytes r 0 s = ([], s)"
| "rand_bytes r (Suc n) s =
     (case Intn r 256 s of (x, s1) \<Rightarrow>
      case rand_bytes r n s1 of (xs, s2) \<Rightarrow> (word_of_nat x # xs, s2))"

definition randFieldWww :: "byte list \<Rightarrow> 's randyWww \<Rightarrow> nat \<Rightarrow> nat \<Rightarrow> 's \<Rightarrow> byte list \<times> 's" where
  "randFieldWww dAtA r fieldNumber wire s =
     (let key = push_bit 3 (word_of_nat fieldNumber :: 32 word) OR word_of_nat wire;
          d1 = encodeVarintPopulateWww dAtA (ucast key)
      in if wire = 0 then
           (case Int63 r s of (v3, s1) \<Rightarrow>
            case Intn r 2 s1 of (k, s2) \<Rightarrow>
              (encodeVarintPopulateWww d1 (if k = 0 then - v3 else v3), s2))
         else if wire = 1 then (case rand_bytes r 8 s of (bs, s1) \<Rightarrow> (d1 @ bs, s1))
         else if wire = 2 then
           (case Intn r 100 s of (ll, s1) \<Rightarrow>
            case rand_bytes r ll s1 of (bs, s2) \<Rightarrow>
              (encodeVarintPopulateWww d1 (word_of_nat ll) @ bs, s2))
         else (case rand_bytes r 4 s of (bs, s1) \<Rightarrow> (d1 @ bs, s1)))"

fun rand_fields :: "'s randyWww \<Rightarrow> nat \<Rightarrow> nat \<Rightarrow> byte list \<Rightarrow> 's \<Rightarrow> byte list \<times> 's" where
  "rand_fields r maxFieldNumber 0 dAtA s = (dAtA, s)"
| "rand_fields r maxFieldNumber (Suc l) dAtA s =
     (case Intn r 4 s of (w, s1) \<Rightarrow>
      case Intn r 100 s1 of (k, s2) \<Rightarrow>
      case randFieldWww dAtA r (maxFieldNumber + k) (if w = 3 then 5 else w) s2 of (d, s3) \<Rightarrow>
        rand_fields r maxFieldNumber l d s3)"

definition randUnrecognizedWww :: "'s randyWww \<Rightarrow> nat \<Rightarrow> 's \<Rightarrow> byte list \<times> 's" where
  "randUnrecognizedWww r maxFieldNumber s =
     (case Intn r 5 s of (l, s1) \<Rightarrow> rand_fields r maxFieldNumber l [] s1)"

section \<open>What the generators promise\<close>

definition alnum :: "char \<Rightarrow> bool" where
  "alnum c = (of_char c \<in> {48..57 :: nat} \<or> of_char c \<in> {65..90 :: nat} \<or> of_char c \<in> {97..122 :: nat})"

context fair_randy
begin

lemma rune_alnum: "alnum (char_of (fst (randUTF8RuneWww r s)))"
proof -
  obtain ru s' where ru: "Intn r 62 s = (ru, s')" by fastforce
  with Intn_less [of 62 s] have "ru < 62" by simp
  then show ?thesis using ru by (auto simp: randUTF8RuneWww_def alnum_def)
qed

lemma rand_runes_alnum:
  "rand_runes r n s = (cs, s') \<Longrightarrow> length cs = n \<and> list_all alnum (map char_of cs)"
proof (induction n arbitrary: s cs s')
  case (Suc n)
  then show ?case using rune_alnum [of s] by (auto split: prod.splits)
qed simp

lemma randStringWww_ok: "randStringWww r s = (t, s') \<Longrightarrow> length t < 100 \<and> list_all alnum t"
  using rand_runes_alnum Intn_less [of 100 s]
  by (auto simp: randStringWww_def split: prod.splits)

end

text \<open>Reading back a variable-length number: 7 bits from each byte, the last one below 128.\<close>

fun varint_value :: "byte list \<Rightarrow> nat" where
  "varint_value [] = 0"
| "varint_value (b # bs) = unat b mod 128 + 128 * varint_value bs"

definition varint_shape :: "byte list \<Rightarrow> bool" where
  "varint_shape bs = (bs \<noteq> [] \<and> last bs < 128 \<and> list_all (\<lambda>b. 128 \<le> b) (butlast bs))"

lemma low_bits: "unat (ucast ((v AND 0x7f) OR 0x80 :: 64 word) :: byte) mod 128 = unat v mod 128"
  and high_bit: "128 \<le> (ucast ((v AND 0x7f) OR 0x80 :: 64 word) :: byte)"
proof -
  let ?b = "ucast ((v AND 0x7f) OR 0x80) :: byte"
  have "take_bit 7 ?b = ucast (take_bit 7 v)"
    by (rule bit_word_eqI) (auto simp: bit_simps less_Suc_eq numeral_eq_Suc)
  then have "unat (take_bit 7 ?b) = unat (ucast (take_bit 7 v) :: byte)" by simp
  also have "\<dots> = unat (take_bit 7 v)"
    by (simp only: unsigned_ucast_eq unsigned_take_bit_eq take_bit_take_bit) simp
  finally have "take_bit 7 (unat ?b) = take_bit 7 (unat v)"
    by (simp only: unsigned_take_bit_eq)
  then show "unat ?b mod 128 = unat v mod 128"
    by (simp add: take_bit_eq_mod)
  have "?b = 128 OR take_bit 7 ?b"
    by (rule bit_word_eqI) (auto simp: bit_simps less_Suc_eq numeral_eq_Suc)
  then show "128 \<le> ?b" by (metis le_word_or2)
qed

lemma varint_value_append:
  "varint_value (bs @ cs) = varint_value bs + 128 ^ length bs * varint_value cs"
  by (induction bs) (simp_all add: algebra_simps)

lemma encodeVarint_append:
  "encodeVarintPopulateWww (d @ e) v = d @ encodeVarintPopulateWww e v"
proof (induction e v rule: encodeVarintPopulateWww.induct)
  case (1 e v)
  then show ?case
    by (simp add: encodeVarintPopulateWww.simps [of _ v])
qed

lemma encodeVarint_Nil:
  "encodeVarintPopulateWww d v = d @ encodeVarintPopulateWww [] v"
  using encodeVarint_append [of d "[]" v] by simp

lemma encodeVarint_step:
  "\<not> v < 128 \<Longrightarrow> encodeVarintPopulateWww [] v =
     ucast ((v AND 0x7f) OR 0x80) # encodeVarintPopulateWww [] (drop_bit 7 v)"
  by (subst encodeVarintPopulateWww.simps) (simp add: encodeVarint_Nil [of "[_]"])

lemma encodeVarint_last: "v < 128 \<Longrightarrow> encodeVarintPopulateWww [] v = [ucast v]"
  by (subst encodeVarintPopulateWww.simps) simp

lemma encodeVarint_value_shape:
  "varint_value (encodeVarintPopulateWww [] v) = unat v \<and> varint_shape (encodeVarintPopulateWww [] v)"
proof (induction "unat v" arbitrary: v rule: less_induct)
  case less
  show ?case
  proof (cases "v < 128")
    case True
    then have "unat v < 128" by (simp add: word_less_nat_alt)
    then have u: "unat (ucast v :: byte) = unat v" by (simp add: unsigned_ucast_eq take_bit_nat_eq_self)
    then have "(ucast v :: byte) < 128" using \<open>unat v < 128\<close> by (simp add: word_less_nat_alt)
    with True u \<open>unat v < 128\<close> show ?thesis
      by (simp add: encodeVarint_last varint_shape_def)
  next
    case False
    have "unat (drop_bit 7 v) = unat v div 128" by (simp add: drop_bit_eq_div unat_div)
    then show ?thesis
      using less [OF drop_bit_7_less [OF False]] low_bits [of v] high_bit [of v]
      by (simp add: encodeVarint_step [OF False] varint_shape_def)
  qed
qed

section \<open>Properties\<close>

text \<open>
  Every text of a generated request is made of fewer than 100 ASCII letters and digits, for
  any source of randomness that respects its bounds.
\<close>

lemma NewPopulatedRsvpCreationRequest_texts:
  assumes "fair_randy r" and "NewPopulatedRsvpCreationRequest r easy s = (m, s')"
  shows "\<forall>t \<in> {rq_Names m, rq_Email m, rq_ChildrenNameAge m, rq_Music m}.
    length t < 100 \<and> list_all alnum t"
  using assms(2) fair_randy.randStringWww_ok [OF assms(1)]
  by (auto simp: NewPopulatedRsvpCreationRequest_def RsvpCreationRequest_Reset_def split: prod.splits)

lemma NewPopulatedRsvpCreationRequest_texts_sample:
  "\<exists>m s'. NewPopulatedRsvpCreationRequest tape_randy True [3, 0, 1, 2, 2, 40, 41] = (m, s') \<and>
     length (rq_Names m) < 100"
proof -
  obtain m s' where r: "NewPopulatedRsvpCreationRequest tape_randy True [3, 0, 1, 2, 2, 40, 41] = (m, s')"
    by fastforce
  with NewPopulatedRsvpCreationRequest_texts [OF tape.fair_randy_axioms r] show ?thesis by auto
qed

text \<open>
  \<open>encodeVarintPopulateWww\<close> appends to its buffer the base-128 digits of the number, least
  significant first: their value is the number, every byte but the last has its high bit set and
  the last has not.
\<close>

lemma encodeVarintPopulateWww_correct:
  "\<exists>bs. encodeVarintPopulateWww dAtA v = dAtA @ bs \<and> varint_value bs = unat v \<and> varint_shape bs"
  using encodeVarint_Nil [of dAtA v] encodeVarint_value_shape [of v] by blast

end
