(* ===== verification/Wire.thy ===== *)
theory Wire
  imports Go_Fmt Pb_Populate
begin

text \<open>
  The wire format of the messages: \<open>table_marshal.go\<close>, \<open>table_unmarshal.go\<close> and \<open>encode.go\<close> of the
  vendored \<open>github.com/golang/protobuf/proto\<close>, for the messages a proto3 file without maps, groups,
  extensions, oneofs and repeated scalars gives. The package reads the struct type of a message by
  reflection and makes two tables of it, which drive the encoder and the decoder; so do the
  definitions here. A struct in memory is the list of the values of its fields, a field being
  addressed by its index. A slice expression out of its bounds is the error \<open>SliceOutOfRange\<close>.
\<close>

unbundle bit_operations_syntax

section \<open>Bytes and texts\<close>

definition string_bytes :: "string \<Rightarrow> byte list" where
  "string_bytes s = List.map of_char s"

definition bytes_string :: "byte list \<Rightarrow> string" where
  "bytes_string b = List.map (\<lambda>x. char_of (unat x)) b"

text \<open>\<open>utf8.ValidString\<close>.\<close>

definition byte_in :: "nat \<Rightarrow> nat \<Rightarrow> char \<Rightarrow> bool" where
  "byte_in lo hi c = (lo \<le> (of_char c :: nat) \<and> (of_char c :: nat) \<le> hi)"

fun ValidString :: "string \<Rightarrow> bool" where
  "ValidString [] = True"
| "ValidString (c # s) =
     (if byte_in 0x00 0x7F c then ValidString s
      else (case s of
        [] \<Rightarrow> False
      | c1 # s1 \<Rightarrow>
          if byte_in 0xC2 0xDF c then byte_in 0x80 0xBF c1 \<and> ValidString s1
          else (case s1 of
            [] \<Rightarrow> False
          | c2 # s2 \<Rightarrow>
              if byte_in 0xE0 0xEF c then
                byte_in (if byte_in 0xE0 0xE0 c then 0xA0 else 0x80)
                  (if byte_in 0xED 0xED c then 0x9F else 0xBF) c1 \<and>
                byte_in 0x80 0xBF c2 \<and> ValidString s2
              else (case s2 of
                [] \<Rightarrow> False
              | c3 # s3 \<Rightarrow>
                  byte_in 0xF0 0xF4 c \<and>
                  byte_in (if byte_in 0xF0 0xF0 c then 0x90 else 0x80)
                    (if byte_in 0xF4 0xF4 c then 0x8F else 0xBF) c1 \<and>
                  byte_in 0x80 0xBF c2 \<and> byte_in 0x80 0xBF c3 \<and> ValidString s3))))"

section \<open>Errors\<close>

datatype wire_err =
    ErrUnexpectedEOF
  | ErrIllegalTag string nat
  | ErrInvalidUTF8
  | ErrFieldUTF8 string
  | ErrCantSkip nat
  | ErrBadWireType
  | ErrRepeatedHasNil
  | ErrFieldHasNil string
  | ErrNil
  | NoTable
  | SliceOutOfRange

fun wire_err_text :: "wire_err \<Rightarrow> string" where
  "wire_err_text ErrUnexpectedEOF = ''unexpected EOF''"
| "wire_err_text (ErrIllegalTag t w) =
     ''proto: '' @ t @ '': illegal tag 0 (wire type '' @ nat_dec w @ '')''"
| "wire_err_text ErrInvalidUTF8 = ''proto: invalid UTF-8 string''"
| "wire_err_text (ErrFieldUTF8 name) =
     ''proto: string field '' @ [CHR 0x22] @ name @ [CHR 0x22] @ '' contains invalid UTF-8''"
| "wire_err_text (ErrCantSkip w) = ''proto: can'' @ [CHR 0x27] @ ''t skip unknown wire type '' @ nat_dec w"
| "wire_err_text ErrBadWireType = ''proto: internal error: bad wiretype''"
| "wire_err_text ErrRepeatedHasNil = ''proto: repeated field has nil element''"
| "wire_err_text (ErrFieldHasNil name) = ''proto: repeated field '' @ name @ '' has nil element''"
| "wire_err_text ErrNil = ''proto: Marshal called with nil''"
| "wire_err_text NoTable = ''unknown or mismatched type''"
| "wire_err_text SliceOutOfRange = ''runtime error: slice bounds out of range''"

definition slice_from :: "nat \<Rightarrow> 'a list \<Rightarrow> wire_err + 'a list" where
  "slice_from n b = (if n \<le> length b then Inr (drop n b) else Inl SliceOutOfRange)"

definition slice_to :: "nat \<Rightarrow> 'a list \<Rightarrow> wire_err + 'a list" where
  "slice_to n b = (if n \<le> length b then Inr (take n b) else Inl SliceOutOfRange)"

section \<open>Variable-length numbers\<close>

definition SizeVarint :: "64 word \<Rightarrow> nat" where
  "SizeVarint x =
     (if x < push_bit 7 1 then 1
      else if x < push_bit 14 1 then 2
      else if x < push_bit 21 1 then 3
      else if x < push_bit 28 1 then 4
      else if x < push_bit 35 1 then 5
      else if x < push_bit 42 1 then 6
      else if x < push_bit 49 1 then 7
      else if x < push_bit 56 1 then 8
      else if x < push_bit 63 1 then 9
      else 10)"

text \<open>One of the bytes that are followed by another: seven bits of the number and the high bit.\<close>

definition more_byte :: "64 word \<Rightarrow> byte" where
  "more_byte x = ucast ((x AND 0x7f) OR 0x80)"

definition appendVarint :: "byte list \<Rightarrow> 64 word \<Rightarrow> byte list" where
  "appendVarint b v =
     (if v < push_bit 7 1 then b @ [ucast v]
      else if v < push_bit 14 1 then b @ [more_byte v, ucast (drop_bit 7 v)]
      else if v < push_bit 21 1 then b @ [more_byte v, more_byte (drop_bit 7 v), ucast (drop_bit 14 v)]
      else if v < push_bit 28 1 then
        b @ [more_byte v, more_byte (drop_bit 7 v), more_byte (drop_bit 14 v), ucast (drop_bit 21 v)]
      else if v < push_bit 35 1 then
        b @ [more_byte v, more_byte (drop_bit 7 v), more_byte (drop_bit 14 v), more_byte (drop_bit 21 v),
             ucast (drop_bit 28 v)]
      else if v < push_bit 42 1 then
        b @ [more_byte v, more_byte (drop_bit 7 v), more_byte (drop_bit 14 v), more_byte (drop_bit 21 v),
             more_byte (drop_bit 28 v), ucast (drop_bit 35 v)]
      else if v < push_bit 49 1 then
        b @ [more_byte v, more_byte (drop_bit 7 v), more_byte (drop_bit 14 v), more_byte (drop_bit 21 v),
             more_byte (drop_bit 28 v), more_byte (drop_bit 35 v), ucast (drop_bit 42 v)]
      else if v < push_bit 56 1 then
        b @ [more_byte v, more_byte (drop_bit 7 v), more_byte (drop_bit 14 v), more_byte (drop_bit 21 v),
             more_byte (drop_bit 28 v), more_byte (drop_bit 35 v), more_byte (drop_bit 42 v),
             ucast (drop_bit 49 v)]
      else if v < push_bit 63 1 then
        b @ [more_byte v, more_byte (drop_bit 7 v), more_byte (drop_bit 14 v), more_byte (drop_bit 21 v),
             more_byte (drop_bit 28 v), more_byte (drop_bit 35 v), more_byte (drop_bit 42 v),
             more_byte (drop_bit 49 v), ucast (drop_bit 56 v)]
      else
        b @ [more_byte v, more_byte (drop_bit 7 v), more_byte (drop_bit 14 v), more_byte (drop_bit 21 v),
             more_byte (drop_bit 28 v), more_byte (drop_bit 35 v), more_byte (drop_bit 42 v),
             more_byte (drop_bit 49 v), more_byte (drop_bit 56 v), 1])"

text \<open>The number and how many bytes it takes; two zeros where no number can be read.\<close>

definition decodeVarint :: "byte list \<Rightarrow> 64 word \<times> nat" where
  "decodeVarint b =
     (if length b \<le> 0 then (0, 0) else
      let x = ucast (b ! 0) in if x < 0x80 then (x, 1) else
      let x = x - 0x80 in
      if length b \<le> 1 then (0, 0) else
      let y = ucast (b ! 1); x = x + push_bit 7 y in if y < 0x80 then (x, 2) else
      let x = x - push_bit 7 0x80 in
      if length b \<le> 2 then (0, 0) else
      let y = ucast (b ! 2); x = x + push_bit 14 y in if y < 0x80 then (x, 3) else
      let x = x - push_bit 14 0x80 in
      if length b \<le> 3 then (0, 0) else
      let y = ucast (b ! 3); x = x + push_bit 21 y in if y < 0x80 then (x, 4) else
      let x = x - push_bit 21 0x80 in
      if length b \<le> 4 then (0, 0) else
      let y = ucast (b ! 4); x = x + push_bit 28 y in if y < 0x80 then (x, 5) else
      let x = x - push_bit 28 0x80 in
      if length b \<le> 5 then (0, 0) else
      let y = ucast (b ! 5); x = x + push_bit 35 y in if y < 0x80 then (x, 6) else
      let x = x - push_bit 35 0x80 in
      if length b \<le> 6 then (0, 0) else
      let y = ucast (b ! 6); x = x + push_bit 42 y in if y < 0x80 then (x, 7) else
      let x = x - push_bit 42 0x80 in
      if length b \<le> 7 then (0, 0) else
      let y = ucast (b ! 7); x = x + push_bit 49 y in if y < 0x80 then (x, 8) else
      let x = x - push_bit 49 0x80 in
      if length b \<le> 8 then (0, 0) else
      let y = ucast (b ! 8); x = x + push_bit 56 y in if y < 0x80 then (x, 9) else
      let x = x - push_bit 56 0x80 in
      if length b \<le> 9 then (0, 0) else
      let y = ucast (b ! 9); x = x + push_bit 63 y in if y < 2 then (x, 10) else (0, 0))"

text \<open>
  The decoder again, as a loop that takes one byte at a time: the reference that the unrolled
  function is compared with.
\<close>

fun varint_loop :: "nat \<Rightarrow> 64 word \<Rightarrow> byte list \<Rightarrow> 64 word \<times> nat" where
  "varint_loop k x [] = (0, 0)"
| "varint_loop k x (c # b) =
     (let y = ucast c; x' = x + push_bit (7 * k) y
      in if k = 9 then (if y < 2 then (x', 10) else (0, 0))
         else if y < 0x80 then (x', Suc k)
         else varint_loop (Suc k) (x' - push_bit (7 * k) 0x80) b)"

lemma varint_loop_drop:
  "varint_loop k x (drop k b) =
     (if length b \<le> k then (0, 0) else
      let y = ucast (b ! k); x' = x + push_bit (7 * k) y
      in if k = 9 then (if y < 2 then (x', 10) else (0, 0))
         else if y < 0x80 then (x', Suc k)
         else varint_loop (Suc k) (x' - push_bit (7 * k) 0x80) (drop (Suc k) b))"
proof (cases "length b \<le> k")
  case False
  then show ?thesis by (subst Cons_nth_drop_Suc [symmetric]) (simp_all add: Let_def)
qed simp

lemma decodeVarint_loop: "decodeVarint b = varint_loop 0 0 b"
proof -
  note step = varint_loop_drop [where b = b]
  have "varint_loop 0 0 (drop 0 b) = decodeVarint b"
    unfolding decodeVarint_def
    apply (subst step, subst step, subst step, subst step, subst step)
    apply (subst step, subst step, subst step, subst step, subst step)
    apply (simp add: Let_def numeral_eq_Suc)
    done
  then show ?thesis by simp
qed

text \<open>What the decoder reads is within the bytes it is given.\<close>

lemma varint_loop_bound: "varint_loop k x b = (y, n) \<Longrightarrow> n \<noteq> 0 \<Longrightarrow> k < n \<and> n \<le> k + length b"
proof (induction k x b rule: varint_loop.induct)
  case (2 k x c b)
  then show ?case by (fastforce simp: Let_def split: if_splits)
qed simp

lemma decodeVarint_bound:
  assumes "decodeVarint b = (x, n)"
  shows "n \<le> length b"
  using varint_loop_bound [of 0 0 b x n] assms by (cases "n = 0") (auto simp: decodeVarint_loop)

lemma unat_byte_64 [simp]: "unat (ucast (c :: byte) :: 64 word) = unat c"
  using unsigned_less [of c, where 'a = nat]
  by (simp add: unsigned_ucast_eq take_bit_nat_eq_self less_trans [of _ "2 ^ 8"])

text \<open>The loop reads back any list of the right shape that fits in ten bytes.\<close>

lemma varint_loop_value:
  assumes "varint_shape bs" and "k + length bs \<le> 10" and "k + length bs = 10 \<Longrightarrow> last bs < 2"
  shows "varint_loop k x (bs @ rest) =
    (x + push_bit (7 * k) (word_of_nat (varint_value bs)), k + length bs)"
  using assms
proof (induction bs arbitrary: k x)
  case Nil
  then show ?case by (simp add: varint_shape_def)
next
  case (Cons c bs)
  show ?case
  proof (cases "bs = []")
    case True
    then have c: "c < 128" and "k \<le> 9" and top: "k = 9 \<Longrightarrow> c < 2"
      using Cons.prems by (auto simp: varint_shape_def)
    with c top show ?thesis
      using True by (auto simp: Let_def word_less_nat_alt)
  next
    case False
    then have c: "128 \<le> c" and sh: "varint_shape bs" and k: "k \<noteq> 9" "Suc k + length bs \<le> 10"
      and top: "Suc k + length bs = 10 \<Longrightarrow> last bs < 2"
      using Cons.prems by (auto simp: varint_shape_def Suc_le_eq)
    from c have c': "\<not> (ucast c :: 64 word) < 0x80" by (simp add: word_less_nat_alt word_le_nat_alt)
    have m: "unat c = unat c mod 128 + 128"
    proof -
      have "128 \<le> unat c" and "unat c < 256"
        using c unsigned_less [of c, where 'a = nat] by (simp_all add: word_le_nat_alt)
      then show ?thesis by (simp add: le_mod_geq)
    qed
    have "(ucast c :: 64 word) = word_of_nat (unat c mod 128 + 128)"
      by (subst m [symmetric]) simp
    then have "(push_bit (7 * k) (ucast c) :: 64 word) =
        push_bit (7 * k) (word_of_nat (unat c mod 128)) + push_bit (7 * k) 0x80"
      by (simp only: of_nat_add push_bit_add of_nat_numeral)
    moreover have "(push_bit (7 * k) (word_of_nat (128 * varint_value bs)) :: 64 word) =
        push_bit (7 * Suc k) (word_of_nat (varint_value bs))"
      by (simp add: push_bit_eq_mult power_add)
    ultimately have e: "x + push_bit (7 * k) (ucast c) - push_bit (7 * k) 0x80 +
        push_bit (7 * Suc k) (word_of_nat (varint_value bs)) =
        x + push_bit (7 * k) (word_of_nat (varint_value (c # bs)) :: 64 word)"
      by (simp only: varint_value.simps of_nat_add push_bit_add) simp
    have "varint_loop k x ((c # bs) @ rest) =
        varint_loop (Suc k) (x + push_bit (7 * k) (ucast c) - push_bit (7 * k) 0x80) (bs @ rest)"
      using c' k by (simp add: Let_def)
    also have "\<dots> = (x + push_bit (7 * k) (word_of_nat (varint_value (c # bs))), Suc k + length bs)"
      by (simp only: Cons.IH [OF sh k(2) top] e)
    finally show ?thesis by simp
  qed
qed

text \<open>The ten cases of the encoder are the loop that shifts by seven bits.\<close>

lemma unat_two_power: "m < 64 \<Longrightarrow> unat (2 ^ m :: 64 word) = 2 ^ m"
  using unsigned_of_nat [of "2 ^ m", where 'b = 64 and 'a = nat]
  by (simp add: take_bit_nat_eq_self)

lemma drop_bit_below: "n + m < 64 \<Longrightarrow> drop_bit n v < (push_bit m 1 :: 64 word) \<longleftrightarrow> v < push_bit (n + m) 1"
  by (simp add: word_less_nat_alt drop_bit_eq_div unat_div unat_two_power
      div_less_iff_less_mult flip: power_add) (simp add: add.commute)

lemma encodeVarint_shifted:
  assumes "n + 7 < 64"
  shows "encodeVarintPopulateWww [] (drop_bit n v) =
    (if v < push_bit (n + 7) 1 then [ucast (drop_bit n v)]
     else more_byte (drop_bit n v) # encodeVarintPopulateWww [] (drop_bit (n + 7) v))"
  using drop_bit_below [of n 7 v] assms encodeVarint_step [of "drop_bit n v"]
  by (simp add: encodeVarint_last more_byte_def add.commute)

lemma top_bit:
  assumes "\<not> v < push_bit 63 1"
  shows "drop_bit 63 v = (1 :: 64 word)"
proof (rule unsigned_word_eqI)
  have "unat v < 2 * 2 ^ 63" using unsigned_less [of v, where 'a = nat] by simp
  moreover have "2 ^ 63 \<le> unat v" using assms by (simp add: word_less_nat_alt unat_two_power)
  ultimately have "unat v div 2 ^ 63 = 1" by (intro div_nat_eqI) simp_all
  then show "unat (drop_bit 63 v) = unat (1 :: 64 word)" by (simp add: drop_bit_eq_div unat_div)
qed

lemma appendVarint_encodeVarint: "appendVarint b v = b @ encodeVarintPopulateWww [] v"
proof -
  note step = encodeVarint_shifted [where v = v]
  have "encodeVarintPopulateWww [] (drop_bit 0 v) = appendVarint [] v"
    unfolding appendVarint_def
    by (subst step, simp, subst step, simp, subst step, simp, subst step, simp, subst step, simp,
        subst step, simp, subst step, simp, subst step, simp, subst step, simp)
      (simp add: top_bit encodeVarint_last)
  then show ?thesis by (simp add: appendVarint_def)
qed

lemma appendVarint_Nil: "appendVarint b v = b @ appendVarint [] v"
  by (simp add: appendVarint_encodeVarint)

lemma SizeVarint_length: "length (appendVarint [] v) = SizeVarint v"
  by (simp add: appendVarint_def SizeVarint_def)

lemma appendVarint_nonempty [simp]: "appendVarint [] v \<noteq> []"
  by (simp add: appendVarint_def)

lemma decodeVarint_append:
  "decodeVarint (appendVarint [] v @ rest) = (v, SizeVarint v)"
proof -
  let ?bs = "appendVarint [] v"
  have bs: "varint_shape ?bs" "varint_value ?bs = unat v"
    using encodeVarint_value_shape [of v] by (simp_all add: appendVarint_encodeVarint)
  have "SizeVarint v \<le> 10" by (simp add: SizeVarint_def)
  moreover have "last ?bs < 2" if "SizeVarint v = 10"
    using that by (auto simp: SizeVarint_def appendVarint_def split: if_splits)
  ultimately show ?thesis
    using varint_loop_value [OF bs(1), of 0 0 rest] bs(2)
    by (simp add: decodeVarint_loop SizeVarint_length)
qed


text \<open>
  C31: variable-length numbers are coded one way in the whole program. What the unrolled encoder
  writes, the unrolled decoder reads back, followed by whatever, with the length the size function
  gives; the encoder is the loop of the generated test data, the decoder the loop that takes one
  byte at a time, and it never counts more bytes than there are.
\<close>

theorem varint_codec:
  "decodeVarint (appendVarint [] v @ rest) = (v, SizeVarint v) \<and>
   appendVarint b v = b @ encodeVarintPopulateWww [] v \<and>
   length (appendVarint b v) = length b + SizeVarint v \<and>
   decodeVarint c = varint_loop 0 0 c \<and> snd (decodeVarint c) \<le> length c"
  using decodeVarint_append [of v rest] appendVarint_encodeVarint [of b v] decodeVarint_loop [of c]
    decodeVarint_bound [of c "fst (decodeVarint c)" "snd (decodeVarint c)"]
    SizeVarint_length [of v] appendVarint_encodeVarint [of "[]" v]
  by simp

end
