(* ===== verification/Wire_Codec.thy ===== *)
theory Wire_Codec
  imports Wire
begin

text \<open>
  The encoder and the decoder of messages: the tables that \<open>computeMarshalInfo\<close> and
  \<open>computeUnmarshalInfo\<close> make of a struct type, the size of an encoded message, the encoder and the
  decoder that these tables drive. A tag or a type the messages of this program do not have gives
  no table (\<open>None\<close>).
\<close>

section \<open>Struct types and structs\<close>

datatype go_type =
    TBool | TInt32 | TString | TPtr go_type | TSlice go_type | TStruct string "struct_field list"
and struct_field = StructField string go_type string

datatype fval =
    VBool bool
  | VInt32 "32 word"
  | VString string
  | VPtr "fval list option"
  | VPtrs "fval list option list"

fun toBool :: "fval \<Rightarrow> bool" where
  "toBool (VBool v) = v" | "toBool _ = False"

fun toInt32 :: "fval \<Rightarrow> 32 word" where
  "toInt32 (VInt32 v) = v" | "toInt32 _ = 0"

fun toString :: "fval \<Rightarrow> string" where
  "toString (VString v) = v" | "toString _ = []"

fun getPointer :: "fval \<Rightarrow> fval list option" where
  "getPointer (VPtr p) = p" | "getPointer _ = None"

fun getPointerSlice :: "fval \<Rightarrow> fval list option list" where
  "getPointerSlice (VPtrs ps) = ps" | "getPointerSlice _ = []"

text \<open>\<open>reflect.New\<close>.\<close>

fun zero_value :: "go_type \<Rightarrow> fval" where
  "zero_value TBool = VBool False"
| "zero_value TInt32 = VInt32 0"
| "zero_value TString = VString []"
| "zero_value (TPtr _) = VPtr None"
| "zero_value (TSlice _) = VPtrs []"
| "zero_value (TStruct _ _) = VPtr None"

fun zero_struct :: "struct_field list \<Rightarrow> fval list" where
  "zero_struct [] = []"
| "zero_struct (StructField _ t _ # fs) = zero_value t # zero_struct fs"

text \<open>The wire types.\<close>

definition WireVarint :: nat where "WireVarint = 0"
definition WireFixed64 :: nat where "WireFixed64 = 1"
definition WireBytes :: nat where "WireBytes = 2"
definition WireStartGroup :: nat where "WireStartGroup = 3"
definition WireEndGroup :: nat where "WireEndGroup = 4"
definition WireFixed32 :: nat where "WireFixed32 = 5"

lemmas wire_types = WireVarint_def WireFixed64_def WireBytes_def WireStartGroup_def
  WireEndGroup_def WireFixed32_def

text \<open>The names of the registered messages, \<open>revProtoTypes\<close>; a type that is not there has the empty name.\<close>

definition revProtoTypes :: "string \<Rightarrow> string" where
  "revProtoTypes t =
     (case map_of
        [(''EmptyMessage'', ''grpc.hugdubois.www.EmptyMessage''),
         (''VersionResponse'', ''grpc.hugdubois.www.VersionResponse''),
         (''ServiceStatus'', ''grpc.hugdubois.www.ServiceStatus''),
         (''ServicesStatusList'', ''grpc.hugdubois.www.ServicesStatusList''),
         (''RsvpCreationRequest'', ''grpc.hugdubois.www.RsvpCreationRequest''),
         (''RsvpInfo'', ''grpc.hugdubois.www.RsvpInfo''),
         (''RsvpCreationResponse'', ''grpc.hugdubois.www.RsvpCreationResponse'')] t of
        None \<Rightarrow> [] | Some n \<Rightarrow> n)"

section \<open>The table of the encoder\<close>

datatype mfield = MField (mf_field: nat) (mf_wiretag: "64 word") (mf_tagsize: nat)
    (mf_isPointer: bool) (mf_name: string) (mf_kind: mkind)
and mkind =
    BoolValueNoZero | VarintS32ValueNoZero | StringValueNoZero
  | MessageMarshaler minfo | MessageSliceMarshaler minfo
and minfo = MarshalInfo (mi_typ: string) (mi_fields: "mfield list")

definition wiretype :: "string \<Rightarrow> nat option" where
  "wiretype encoding =
     (if encoding = ''fixed32'' then Some WireFixed32
      else if encoding = ''fixed64'' then Some WireFixed64
      else if encoding \<in> set [''varint'', ''zigzag32'', ''zigzag64''] then Some WireVarint
      else if encoding = ''bytes'' then Some WireBytes
      else if encoding = ''group'' then Some WireStartGroup
      else None)"

definition mf_setTag :: "nat \<Rightarrow> string \<Rightarrow> bool \<Rightarrow> mkind \<Rightarrow> int \<Rightarrow> nat \<Rightarrow> mfield" where
  "mf_setTag i name isptr k tag wt =
     MField i (push_bit 3 (word_of_int tag) OR word_of_nat wt)
       (SizeVarint (push_bit 3 (word_of_int tag))) isptr name k"

fun is_pointer_type :: "go_type \<Rightarrow> bool" where
  "is_pointer_type (TPtr _) = True"
| "is_pointer_type (TSlice _) = True"
| "is_pointer_type _ = False"

text \<open>
  \<open>typeMarshaler\<close> with \<open>nozero\<close>, the arguments \<open>setMarshaler\<close> gives it, and the loop of
  \<open>computeMarshalInfo\<close> over the fields of a struct, from field number \<open>i\<close> on.
\<close>

fun typeMarshaler :: "go_type \<Rightarrow> string list \<Rightarrow> mkind option"
and computeMarshalFields :: "nat \<Rightarrow> struct_field list \<Rightarrow> mfield list option" where
  "typeMarshaler TBool tags = Some BoolValueNoZero"
| "typeMarshaler TInt32 tags = (if tags ! 0 = ''varint'' then Some VarintS32ValueNoZero else None)"
| "typeMarshaler TString tags = Some StringValueNoZero"
| "typeMarshaler (TPtr (TStruct t fs)) tags =
     (if tags ! 0 = ''bytes'' then
        map_option (\<lambda>fields. MessageMarshaler (MarshalInfo t (sort_key mf_wiretag fields)))
          (computeMarshalFields 0 fs)
      else None)"
| "typeMarshaler (TSlice (TPtr (TStruct t fs))) tags =
     (if tags ! 0 = ''bytes'' then
        map_option (\<lambda>fields. MessageSliceMarshaler (MarshalInfo t (sort_key mf_wiretag fields)))
          (computeMarshalFields 0 fs)
      else None)"
| "typeMarshaler _ tags = None"
| "computeMarshalFields i [] = Some []"
| "computeMarshalFields i (StructField name t tag # fs) =
     (case computeMarshalFields (Suc i) fs of
        None \<Rightarrow> None
      | Some rest \<Rightarrow>
          (if tag = [] then Some rest
           else
             (let tags = split_char (CHR '','') tag
              in if length tags < 3 then None
                 else (case (ParseInt (tags ! 1), wiretype (tags ! 0), typeMarshaler t tags) of
                         (Some n, Some wt, Some k) \<Rightarrow>
                           if tags ! 2 = ''req'' then None
                           else Some (mf_setTag i name (is_pointer_type t) k n wt # rest)
                       | _ \<Rightarrow> None))))"

definition computeMarshalInfo :: "string \<Rightarrow> struct_field list \<Rightarrow> minfo option" where
  "computeMarshalInfo t fs = map_option (\<lambda>fields. MarshalInfo t (sort_key mf_wiretag fields)) (computeMarshalFields 0 fs)"

section \<open>The size of a message\<close>

text \<open>A nil pointer, or a nil slice (which stands for the empty slices too: they encode to nothing).\<close>

definition nil_field :: "fval \<Rightarrow> bool" where
  "nil_field v = (v \<in> {VPtr None, VPtrs []})"

text \<open>The functions for the plain types; a field with its zero value takes no bytes.\<close>

definition sizeBoolValueNoZero :: "fval \<Rightarrow> nat \<Rightarrow> nat" where [simp]:
  "sizeBoolValueNoZero v tagsize = (if \<not> toBool v then 0 else 1 + tagsize)"

definition sizeVarintS32ValueNoZero :: "fval \<Rightarrow> nat \<Rightarrow> nat" where [simp]:
  "sizeVarintS32ValueNoZero v tagsize =
     (if toInt32 v = 0 then 0 else SizeVarint (scast (toInt32 v)) + tagsize)"

definition sizeStringValueNoZero :: "fval \<Rightarrow> nat \<Rightarrow> nat" where [simp]:
  "sizeStringValueNoZero v tagsize =
     (let s = toString v
      in if s = [] then 0 else length s + SizeVarint (word_of_nat (length s)) + tagsize)"

fun info_size :: "minfo \<Rightarrow> fval list \<Rightarrow> nat"
and fields_size :: "mfield list \<Rightarrow> fval list \<Rightarrow> nat"
and field_size :: "mkind \<Rightarrow> fval \<Rightarrow> nat \<Rightarrow> nat" where
  "info_size (MarshalInfo t fs) m = fields_size fs m"
| "fields_size [] m = 0"
| "fields_size (MField i wiretag tagsize isptr name k # fs) m = 
     (if isptr \<and> nil_field (m ! i) then fields_size fs m
      else field_size k (m ! i) tagsize + fields_size fs m)"
| "field_size BoolValueNoZero v tagsize = sizeBoolValueNoZero v tagsize"
| "field_size VarintS32ValueNoZero v tagsize = sizeVarintS32ValueNoZero v tagsize"
| "field_size StringValueNoZero v tagsize = sizeStringValueNoZero v tagsize"
| "field_size (MessageMarshaler u) v tagsize =
     (case getPointer v of
        None \<Rightarrow> 0
      | Some p \<Rightarrow> (let siz = info_size u p in siz + SizeVarint (word_of_nat siz) + tagsize))"
| "field_size (MessageSliceMarshaler u) v tagsize =
     (\<Sum>p \<leftarrow> getPointerSlice v.
        case p of
          None \<Rightarrow> 0
        | Some p \<Rightarrow> (let siz = info_size u p in siz + SizeVarint (word_of_nat siz) + tagsize))"

section \<open>The encoder\<close>

definition appendBoolValueNoZero :: "byte list \<Rightarrow> fval \<Rightarrow> 64 word \<Rightarrow> wire_err + byte list" where [simp]:
  "appendBoolValueNoZero b v wiretag =
     (if \<not> toBool v then Inr b else Inr (appendVarint b wiretag @ [1]))"

definition appendVarintS32ValueNoZero :: "byte list \<Rightarrow> fval \<Rightarrow> 64 word \<Rightarrow> wire_err + byte list" where [simp]:
  "appendVarintS32ValueNoZero b v wiretag =
     (if toInt32 v = 0 then Inr b
      else Inr (appendVarint (appendVarint b wiretag) (scast (toInt32 v))))"

definition appendStringValueNoZero :: "byte list \<Rightarrow> fval \<Rightarrow> 64 word \<Rightarrow> wire_err + byte list" where [simp]:
  "appendStringValueNoZero b v wiretag =
     (let s = toString v
      in if s = [] then Inr b
         else if \<not> ValidString s then Inl ErrInvalidUTF8
         else Inr (appendVarint (appendVarint b wiretag) (word_of_nat (length s)) @ string_bytes s))"

text \<open>
  The loop over a slice of messages: \<open>enc\<close> is the encoder of an element and \<open>siz\<close> its size. A nil
  element ends it.
\<close>

fun append_messages ::
  "(byte list \<Rightarrow> fval list \<Rightarrow> wire_err + byte list) \<Rightarrow> (fval list \<Rightarrow> nat) \<Rightarrow> 64 word \<Rightarrow>
   byte list \<Rightarrow> fval list option list \<Rightarrow> wire_err + byte list" where
  "append_messages enc siz wiretag b [] = Inr b"
| "append_messages enc siz wiretag b (None # ps) = Inl ErrRepeatedHasNil"
| "append_messages enc siz wiretag b (Some p # ps) =
     (case enc (appendVarint (appendVarint b wiretag) (word_of_nat (siz p))) p of
        Inl e \<Rightarrow> Inl (if e = ErrNil then ErrRepeatedHasNil else e)
      | Inr b' \<Rightarrow> append_messages enc siz wiretag b' ps)"

lemma append_messages_cong [fundef_cong]:
  assumes "ps = ps'" and "wiretag = wiretag'" and "b = b'"
    and "\<And>b p. Some p \<in> set ps' \<Longrightarrow> enc b p = enc' b p" and "\<And>p. Some p \<in> set ps' \<Longrightarrow> siz p = siz' p"
  shows "append_messages enc siz wiretag b ps = append_messages enc' siz' wiretag' b' ps'"
  using assms(4,5) unfolding assms(1-3)
  by (induction enc siz wiretag' b' ps' rule: append_messages.induct) (auto split: sum.split)

definition marshal_error :: "string \<Rightarrow> string \<Rightarrow> wire_err \<Rightarrow> wire_err" where
  "marshal_error t name err =
     (if err = ErrRepeatedHasNil then ErrFieldHasNil name
      else if err = ErrInvalidUTF8 then ErrFieldUTF8 (revProtoTypes t @ ''.'' @ name)
      else err)"

fun info_marshal :: "minfo \<Rightarrow> byte list \<Rightarrow> fval list \<Rightarrow> wire_err + byte list"
and fields_marshal :: "string \<Rightarrow> mfield list \<Rightarrow> byte list \<Rightarrow> fval list \<Rightarrow> wire_err + byte list"
and field_marshal :: "mkind \<Rightarrow> byte list \<Rightarrow> fval \<Rightarrow> 64 word \<Rightarrow> wire_err + byte list" where
  "info_marshal (MarshalInfo t fs) b m = fields_marshal t fs b m"
| "fields_marshal t [] b m = Inr b"
| "fields_marshal t (MField i wiretag tagsize isptr name k # fs) b m =
     (if isptr \<and> nil_field (m ! i) then fields_marshal t fs b m
      else (case field_marshal k b (m ! i) wiretag of
              Inl err \<Rightarrow> Inl (marshal_error t name err)
            | Inr b' \<Rightarrow> fields_marshal t fs b' m))"
| "field_marshal BoolValueNoZero b v wiretag = appendBoolValueNoZero b v wiretag"
| "field_marshal VarintS32ValueNoZero b v wiretag = appendVarintS32ValueNoZero b v wiretag"
| "field_marshal StringValueNoZero b v wiretag = appendStringValueNoZero b v wiretag"
| "field_marshal (MessageMarshaler u) b v wiretag =
     (case getPointer v of
        None \<Rightarrow> Inr b
      | Some p \<Rightarrow> info_marshal u (appendVarint (appendVarint b wiretag) (word_of_nat (info_size u p))) p)"
| "field_marshal (MessageSliceMarshaler u) b v wiretag =
     append_messages (info_marshal u) (info_size u) wiretag b (getPointerSlice v)"

section \<open>The table of the decoder\<close>

datatype ufield = UField nat string ukind
and ukind =
    BoolValue | Int32Value | StringValue
  | MessagePtr uinfo | MessageSlicePtr uinfo | IllegalTag
and uinfo = UnmarshalInfo (ui_typ: string) (ui_zero: "fval list") (ui_dense: "ufield option list")
    (ui_sparse: "(nat \<times> ufield) list")

text \<open>\<open>n\<close> is the number of fields of the struct; a small tag has its slot in the dense table.\<close>

definition uf_setTag ::
  "nat \<Rightarrow> int \<Rightarrow> ufield \<Rightarrow> ufield option list \<times> (nat \<times> ufield) list \<Rightarrow>
   ufield option list \<times> (nat \<times> ufield) list" where
  "uf_setTag n tag i tables =
     (case tables of (dense, sparse) \<Rightarrow>
        if 0 \<le> tag \<and> (tag < 16 \<or> tag < 2 * int n) then
          ((dense @ replicate (Suc (nat tag) - length dense) None)[nat tag := Some i], sparse)
        else (dense, (unat (word_of_int tag :: 64 word), i) # sparse))"

fun name_of_tags :: "string list \<Rightarrow> string" where
  "name_of_tags [] = []"
| "name_of_tags (t # ts) =
     (if HasPrefix t ''name='' \<and> \<not> list_ex (\<lambda>t. HasPrefix t ''name='') ts then drop 5 t else name_of_tags ts)"

fun typeUnmarshaler :: "go_type \<Rightarrow> string list \<Rightarrow> ukind option"
and computeUnmarshalFields ::
  "nat \<Rightarrow> nat \<Rightarrow> struct_field list \<Rightarrow> ufield option list \<times> (nat \<times> ufield) list \<Rightarrow>
   (ufield option list \<times> (nat \<times> ufield) list) option" where
  "typeUnmarshaler TBool tags = Some BoolValue"
| "typeUnmarshaler TInt32 tags = (if tags ! 0 = ''varint'' then Some Int32Value else None)"
| "typeUnmarshaler TString tags = Some StringValue"
| "typeUnmarshaler (TPtr (TStruct t fs)) tags =
     (if tags ! 0 = ''bytes'' then
        (case computeUnmarshalFields (length fs) 0 fs ([], []) of
           None \<Rightarrow> None
         | Some tables \<Rightarrow>
             (case uf_setTag (length fs) 0 (UField 0 [] IllegalTag) tables of
                (dense, sparse) \<Rightarrow> Some (MessagePtr (UnmarshalInfo t (zero_struct fs) dense sparse))))
      else None)"
| "typeUnmarshaler (TSlice (TPtr (TStruct t fs))) tags =
     (if tags ! 0 = ''bytes'' then
        (case computeUnmarshalFields (length fs) 0 fs ([], []) of
           None \<Rightarrow> None
         | Some tables \<Rightarrow>
             (case uf_setTag (length fs) 0 (UField 0 [] IllegalTag) tables of
                (dense, sparse) \<Rightarrow> Some (MessageSlicePtr (UnmarshalInfo t (zero_struct fs) dense sparse))))
      else None)"
| "typeUnmarshaler _ tags = None"
| "computeUnmarshalFields n i [] tables = Some tables"
| "computeUnmarshalFields n i (StructField name t tag # fs) tables =
     (let tags = split_char (CHR '','') tag
      in if length tags < 3 then None
         else (case (ParseInt (tags ! 1), typeUnmarshaler t tags) of
                 (Some k, Some u) \<Rightarrow>
                   if tags ! 2 = ''req'' then None
                   else computeUnmarshalFields n (Suc i) fs
                     (uf_setTag n k (UField i (name_of_tags (drop 3 tags)) u) tables)
               | _ \<Rightarrow> None))"

definition computeUnmarshalInfo :: "string \<Rightarrow> struct_field list \<Rightarrow> uinfo option" where
  "computeUnmarshalInfo t fs =
     (case computeUnmarshalFields (length fs) 0 fs ([], []) of
        None \<Rightarrow> None
      | Some tables \<Rightarrow>
          (case uf_setTag (length fs) 0 (UField 0 [] IllegalTag) tables of
             (dense, sparse) \<Rightarrow> Some (UnmarshalInfo t (zero_struct fs) dense sparse)))"

definition u_lookup :: "uinfo \<Rightarrow> nat \<Rightarrow> ufield option" where
  "u_lookup u tag =
     (if tag < length (ui_dense u) then ui_dense u ! tag else map_of (ui_sparse u) tag)"

section \<open>Skipping a field\<close>

text \<open>
  \<open>findEndGroup\<close> from position \<open>i\<close> on, \<open>depth\<close> groups being open: where the next unpaired end of a
  group starts and ends, both \<open>-1\<close> when there is none.
\<close>

function findEndGroup :: "byte list \<Rightarrow> nat \<Rightarrow> nat \<Rightarrow> wire_err + int \<times> int" where
  "findEndGroup b depth i =
     (case slice_from i b of
        Inl err \<Rightarrow> Inl err
      | Inr r \<Rightarrow>
          (case decodeVarint r of
             (x, n) \<Rightarrow>
               if n = 0 then Inr (-1, -1)
               else
                 (let j = i; i = i + n; wire = unat (x AND 7)
                  in if wire = WireVarint then
                       (case slice_from i b of
                          Inl err \<Rightarrow> Inl err
                        | Inr r \<Rightarrow>
                            (case decodeVarint r of
                               (_, k) \<Rightarrow> if k = 0 then Inr (-1, -1) else findEndGroup b depth (i + k)))
                     else if wire = WireFixed32 then
                       (if int (length b) - 4 < int i then Inr (-1, -1) else findEndGroup b depth (i + 4))
                     else if wire = WireFixed64 then
                       (if int (length b) - 8 < int i then Inr (-1, -1) else findEndGroup b depth (i + 8))
                     else if wire = WireBytes then
                       (case slice_from i b of
                          Inl err \<Rightarrow> Inl err
                        | Inr r \<Rightarrow>
                            (case decodeVarint r of
                               (m, k) \<Rightarrow>
                                 if k = 0 then Inr (-1, -1)
                                 else if (word_of_nat (length b - (i + k)) :: 64 word) < m then Inr (-1, -1)
                                 else findEndGroup b depth (i + k + unat m)))
                     else if wire = WireStartGroup then findEndGroup b (Suc depth) i
                     else if wire = WireEndGroup then
                       (if depth - 1 = 0 then Inr (int j, int i) else findEndGroup b (depth - 1) i)
                     else Inr (-1, -1))))"
  by pat_completeness auto
termination
proof (relation "measure (\<lambda>(b, depth, i). Suc (length b) - i)")
qed (auto simp: slice_from_def split: if_splits)

declare findEndGroup.simps [simp del]

definition skipField :: "byte list \<Rightarrow> nat \<Rightarrow> wire_err + byte list" where
  "skipField b wire =
     (if wire = WireVarint then
        (case decodeVarint b of (_, k) \<Rightarrow> if k = 0 then Inl ErrUnexpectedEOF else slice_from k b)
      else if wire = WireFixed32 then
        (if length b < 4 then Inl ErrUnexpectedEOF else slice_from 4 b)
      else if wire = WireFixed64 then
        (if length b < 8 then Inl ErrUnexpectedEOF else slice_from 8 b)
      else if wire = WireBytes then
        (case decodeVarint b of
           (m, k) \<Rightarrow>
             if k = 0 \<or> (word_of_nat (length b - k) :: 64 word) < m then Inl ErrUnexpectedEOF
             else slice_from (unat (word_of_nat k + m)) b)
      else if wire = WireStartGroup then
        (case findEndGroup b 1 0 of
           Inl err \<Rightarrow> Inl err
         | Inr (_, i) \<Rightarrow> if i = -1 then Inl ErrUnexpectedEOF else slice_from (nat i) b)
      else Inl (ErrCantSkip wire))"

section \<open>The decoder\<close>

text \<open>The tag and the wire type in front of a field, with short paths for one and two bytes.\<close>

definition read_tag :: "byte list \<Rightarrow> wire_err + 64 word \<times> byte list" where
  "read_tag b =
     (if b ! 0 < 128 then Inr (ucast (b ! 0), drop 1 b)
      else if 2 \<le> length b \<and> b ! 1 < 128 then
        Inr (ucast (b ! 0 AND 0x7f) + push_bit 7 (ucast (b ! 1)), drop 2 b)
      else (case decodeVarint b of
              (x, n) \<Rightarrow>
                if n = 0 then Inl ErrUnexpectedEOF
                else (case slice_from n b of Inl err \<Rightarrow> Inl err | Inr r \<Rightarrow> Inr (x, r))))"

definition unmarshalInt32Value :: "byte list \<Rightarrow> nat \<Rightarrow> wire_err + fval \<times> byte list" where
  "unmarshalInt32Value b w =
     (if w \<noteq> WireVarint then Inl ErrBadWireType
      else (case decodeVarint b of
              (x, n) \<Rightarrow>
                if n = 0 then Inl ErrUnexpectedEOF
                else (case slice_from n b of Inl err \<Rightarrow> Inl err | Inr r \<Rightarrow> Inr (VInt32 (ucast x), r))))"

definition unmarshalBoolValue :: "byte list \<Rightarrow> nat \<Rightarrow> wire_err + fval \<times> byte list" where
  "unmarshalBoolValue b w =
     (if w \<noteq> WireVarint then Inl ErrBadWireType
      else (case decodeVarint b of
              (x, n) \<Rightarrow>
                if n = 0 then Inl ErrUnexpectedEOF
                else (case slice_from n b of Inl err \<Rightarrow> Inl err | Inr r \<Rightarrow> Inr (VBool (x \<noteq> 0), r))))"

text \<open>The bytes of a length-delimited field and those after it, which three of the functions start with.\<close>

definition delimited :: "byte list \<Rightarrow> nat \<Rightarrow> wire_err + byte list \<times> byte list" where
  "delimited b w =
     (if w \<noteq> WireBytes then Inl ErrBadWireType
      else (case decodeVarint b of
              (x, n) \<Rightarrow>
                if n = 0 then Inl ErrUnexpectedEOF
                else (case slice_from n b of
                        Inl err \<Rightarrow> Inl err
                      | Inr b \<Rightarrow>
                          if (word_of_nat (length b) :: 64 word) < x then Inl ErrUnexpectedEOF
                          else (case (slice_to (unat x) b, slice_from (unat x) b) of
                                  (Inr v, Inr r) \<Rightarrow> Inr (v, r)
                                | _ \<Rightarrow> Inl SliceOutOfRange))))"

definition unmarshalStringValue :: "byte list \<Rightarrow> nat \<Rightarrow> wire_err + fval \<times> byte list" where
  "unmarshalStringValue b w =
     (case delimited b w of
        Inl err \<Rightarrow> Inl err
      | Inr (v, r) \<Rightarrow>
          (if \<not> ValidString (bytes_string v) then Inl ErrInvalidUTF8
           else Inr (VString (bytes_string v), r)))"

text \<open>The error of a field as the message reports it; a bad wire type is no error yet.\<close>

definition unmarshal_error :: "string \<Rightarrow> string \<Rightarrow> wire_err \<Rightarrow> wire_err" where
  "unmarshal_error t name err =
     (if err = ErrInvalidUTF8 then ErrFieldUTF8 (revProtoTypes t @ ''.'' @ name) else err)"

lemma slice_from_shorter: "slice_from n b = Inr r \<Longrightarrow> n \<noteq> 0 \<Longrightarrow> length r < length b"
  by (auto simp: slice_from_def split: if_splits)

lemma read_tag_shorter: "b \<noteq> [] \<Longrightarrow> read_tag b = Inr (x, r) \<Longrightarrow> length r < length b"
  by (auto simp: read_tag_def slice_from_shorter split: if_splits prod.splits sum.splits)

lemma delimited_shorter: "delimited b w = Inr (v, r) \<Longrightarrow> length v < length b \<and> length r < length b"
  using slice_from_shorter
  by (fastforce simp: delimited_def slice_to_def slice_from_def split: if_splits prod.splits sum.splits)

lemma scalar_shorter:
  "unmarshalInt32Value b w = Inr (v, r) \<Longrightarrow> length r < length b"
  "unmarshalBoolValue b w = Inr (v, r) \<Longrightarrow> length r < length b"
  "unmarshalStringValue b w = Inr (v, r) \<Longrightarrow> length r < length b"
  by (auto simp: unmarshalInt32Value_def unmarshalBoolValue_def unmarshalStringValue_def
      slice_from_shorter dest: delimited_shorter split: if_splits prod.splits sum.splits)

lemma decodeVarint_zero: "decodeVarint b = (x, n) \<Longrightarrow> b = [] \<Longrightarrow> n = 0"
  by (simp add: decodeVarint_def)

lemma skipField_shorter: "skipField b w = Inr r \<Longrightarrow> length r \<le> length b"
  by (auto simp: skipField_def slice_from_def split: if_splits prod.splits sum.splits)

text \<open>
  The loop of \<open>unmarshal\<close>: the message so far, and the bytes still to be read. The functions that
  \<open>makeUnmarshalMessagePtr\<close> and \<open>makeUnmarshalMessageSlicePtr\<close> return are the cases of a message
  field: the first decodes into the message that is already there.
\<close>

function unmarshal :: "uinfo \<Rightarrow> fval list \<Rightarrow> byte list \<Rightarrow> wire_err + fval list" where
  "unmarshal u m b =
     (if b = [] then Inr m
      else (case read_tag b of
        Inl err \<Rightarrow> Inl err
      | Inr (x, b) \<Rightarrow>
          (let tag = unat (drop_bit 3 x); wire = unat (x AND 7)
           in case u_lookup u tag of
                None \<Rightarrow>
                  (case skipField b wire of Inl err \<Rightarrow> Inl err | Inr b \<Rightarrow> unmarshal u m b)
              | Some (UField i name k) \<Rightarrow>
                  (case (case k of
                           BoolValue \<Rightarrow> unmarshalBoolValue b wire
                         | Int32Value \<Rightarrow> unmarshalInt32Value b wire
                         | StringValue \<Rightarrow> unmarshalStringValue b wire
                         | MessagePtr sub \<Rightarrow>
                             (case delimited b wire of
                                Inl err \<Rightarrow> Inl err
                              | Inr (bx, r) \<Rightarrow>
                                  (let v = (case getPointer (m ! i) of None \<Rightarrow> ui_zero sub | Some v \<Rightarrow> v)
                                   in case unmarshal sub v bx of
                                        Inl err \<Rightarrow> Inl err
                                      | Inr v \<Rightarrow> Inr (VPtr (Some v), r)))
                         | MessageSlicePtr sub \<Rightarrow>
                             (case delimited b wire of
                                Inl err \<Rightarrow> Inl err
                              | Inr (bx, r) \<Rightarrow>
                                  (case unmarshal sub (ui_zero sub) bx of
                                     Inl err \<Rightarrow> Inl err
                                   | Inr v \<Rightarrow> Inr (VPtrs (getPointerSlice (m ! i) @ [Some v]), r)))
                         | IllegalTag \<Rightarrow> Inl (ErrIllegalTag (''pb.'' @ ui_typ u) wire)) of
                     Inr (v, b) \<Rightarrow> unmarshal u (m[i := v]) b
                   | Inl err \<Rightarrow>
                       (if err \<noteq> ErrBadWireType then Inl (unmarshal_error (ui_typ u) name err)
                        else (case skipField b wire of Inl err \<Rightarrow> Inl err | Inr b \<Rightarrow> unmarshal u m b))))))"
  by pat_completeness auto
termination
  apply (relation "measure (\<lambda>(u, m, b). length b)")
  apply (auto dest!: read_tag_shorter delimited_shorter scalar_shorter skipField_shorter
      split: ukind.splits sum.splits prod.splits)
  done

declare unmarshal.simps [simp del]

end
