(* ===== verification/Pb_Wire.thy ===== *)
theory Pb_Wire
  imports Wire_Codec
begin

text \<open>
  The messages of \<open>pb/www.pb.go\<close> on the wire: the struct types with the tags of their fields, the
  tables the codec makes of them, the structs as the codec sees them in memory, and the codec of
  gRPC (\<open>encoding/proto\<close>) for each message.
\<close>

section \<open>The struct types\<close>

definition EmptyMessage_fields :: "struct_field list" where
  "EmptyMessage_fields = []"

definition VersionResponse_fields :: "struct_field list" where
  "VersionResponse_fields =
     [StructField ''Name'' TString ''bytes,1,opt,name=name,proto3'',
      StructField ''Version'' TString ''bytes,2,opt,name=version,proto3'']"

definition ServiceStatus_fields :: "struct_field list" where
  "ServiceStatus_fields =
     [StructField ''Name'' TString ''bytes,1,opt,name=name,proto3'',
      StructField ''Version'' TString ''bytes,2,opt,name=version,proto3'',
      StructField ''Status'' TInt32
        ''varint,3,opt,name=status,proto3,enum=grpc.hugdubois.www.ServiceStatus_Status'',
      StructField ''EMsg'' TString ''bytes,4,opt,name=e_msg,json=eMsg,proto3'']"

definition ServicesStatusList_fields :: "struct_field list" where
  "ServicesStatusList_fields =
     [StructField ''Services'' (TSlice (TPtr (TStruct ''ServiceStatus'' ServiceStatus_fields)))
        ''bytes,1,rep,name=services'']"

definition RsvpCreationRequest_fields :: "struct_field list" where
  "RsvpCreationRequest_fields =
     [StructField ''Names'' TString ''bytes,1,opt,name=names,proto3'',
      StructField ''Email'' TString ''bytes,2,opt,name=email,proto3'',
      StructField ''Presence'' TBool ''varint,3,opt,name=presence,proto3'',
      StructField ''ChildrenNameAge'' TString
        ''bytes,4,opt,name=children_name_age,json=childrenNameAge,proto3'',
      StructField ''Housing'' TBool ''varint,5,opt,name=housing,proto3'',
      StructField ''Music'' TString ''bytes,6,opt,name=music,proto3'',
      StructField ''Brunch'' TBool ''varint,7,opt,name=brunch,proto3'']"

definition RsvpInfo_fields :: "struct_field list" where
  "RsvpInfo_fields =
     [StructField ''Uuid'' TString ''bytes,1,opt,name=uuid,proto3'',
      StructField ''Names'' TString ''bytes,2,opt,name=names,proto3'',
      StructField ''Email'' TString ''bytes,3,opt,name=email,proto3'',
      StructField ''Presence'' TBool ''varint,4,opt,name=presence,proto3'',
      StructField ''ChildrenNameAge'' TString
        ''bytes,5,opt,name=children_name_age,json=childrenNameAge,proto3'',
      StructField ''Housing'' TBool ''varint,6,opt,name=housing,proto3'',
      StructField ''Music'' TString ''bytes,7,opt,name=music,proto3'',
      StructField ''Brunch'' TBool ''varint,8,opt,name=brunch,proto3'',
      StructField ''CreatedAt'' TString ''bytes,9,opt,name=created_at,json=createdAt,proto3'',
      StructField ''UpdatedAt'' TString ''bytes,10,opt,name=updated_at,json=updatedAt,proto3'',
      StructField ''DeletedAt'' TString ''bytes,11,opt,name=deleted_at,json=deletedAt,proto3'']"

definition RsvpCreationResponse_fields :: "struct_field list" where
  "RsvpCreationResponse_fields =
     [StructField ''Ok'' TBool ''varint,1,opt,name=ok,proto3'',
      StructField ''Info'' (TPtr (TStruct ''RsvpInfo'' RsvpInfo_fields)) ''bytes,2,opt,name=info'']"

section \<open>Messages in memory\<close>

definition EmptyMessage_mem :: "EmptyMessage \<Rightarrow> fval list" where
  "EmptyMessage_mem m = []"

definition mem_EmptyMessage :: "fval list \<Rightarrow> EmptyMessage" where
  "mem_EmptyMessage fs = EmptyMessage"

definition VersionResponse_mem :: "VersionResponse \<Rightarrow> fval list" where
  "VersionResponse_mem m = [VString (vr_Name m), VString (vr_Version m)]"

definition mem_VersionResponse :: "fval list \<Rightarrow> VersionResponse" where
  "mem_VersionResponse fs =
     \<lparr>vr_Name = toString (fs ! 0), vr_Version = toString (fs ! 1)\<rparr>"

definition ServiceStatus_mem :: "ServiceStatus \<Rightarrow> fval list" where
  "ServiceStatus_mem m =
     [VString (st_Name m), VString (st_Version m), VInt32 (st_Status m), VString (st_EMsg m)]"

definition mem_ServiceStatus :: "fval list \<Rightarrow> ServiceStatus" where
  "mem_ServiceStatus fs =
     \<lparr>st_Name = toString (fs ! 0), st_Version = toString (fs ! 1), st_Status = toInt32 (fs ! 2),
      st_EMsg = toString (fs ! 3)\<rparr>"

definition ServicesStatusList_mem :: "ServicesStatusList \<Rightarrow> fval list" where
  "ServicesStatusList_mem m = [VPtrs (List.map (map_option ServiceStatus_mem) (sl_Services m))]"

definition mem_ServicesStatusList :: "fval list \<Rightarrow> ServicesStatusList" where
  "mem_ServicesStatusList fs =
     \<lparr>sl_Services = List.map (map_option mem_ServiceStatus) (getPointerSlice (fs ! 0))\<rparr>"

definition RsvpCreationRequest_mem :: "RsvpCreationRequest \<Rightarrow> fval list" where
  "RsvpCreationRequest_mem m =
     [VString (rq_Names m), VString (rq_Email m), VBool (rq_Presence m), VString (rq_ChildrenNameAge m),
      VBool (rq_Housing m), VString (rq_Music m), VBool (rq_Brunch m)]"

definition mem_RsvpCreationRequest :: "fval list \<Rightarrow> RsvpCreationRequest" where
  "mem_RsvpCreationRequest fs =
     \<lparr>rq_Names = toString (fs ! 0), rq_Email = toString (fs ! 1), rq_Presence = toBool (fs ! 2),
      rq_ChildrenNameAge = toString (fs ! 3), rq_Housing = toBool (fs ! 4), rq_Music = toString (fs ! 5),
      rq_Brunch = toBool (fs ! 6)\<rparr>"

definition RsvpInfo_mem :: "RsvpInfo \<Rightarrow> fval list" where
  "RsvpInfo_mem m =
     [VString (ri_Uuid m), VString (ri_Names m), VString (ri_Email m), VBool (ri_Presence m),
      VString (ri_ChildrenNameAge m), VBool (ri_Housing m), VString (ri_Music m), VBool (ri_Brunch m),
      VString (ri_CreatedAt m), VString (ri_UpdatedAt m), VString (ri_DeletedAt m)]"

definition mem_RsvpInfo :: "fval list \<Rightarrow> RsvpInfo" where
  "mem_RsvpInfo fs =
     \<lparr>ri_Uuid = toString (fs ! 0), ri_Names = toString (fs ! 1), ri_Email = toString (fs ! 2),
      ri_Presence = toBool (fs ! 3), ri_ChildrenNameAge = toString (fs ! 4), ri_Housing = toBool (fs ! 5),
      ri_Music = toString (fs ! 6), ri_Brunch = toBool (fs ! 7), ri_CreatedAt = toString (fs ! 8),
      ri_UpdatedAt = toString (fs ! 9), ri_DeletedAt = toString (fs ! 10)\<rparr>"

definition RsvpCreationResponse_mem :: "RsvpCreationResponse \<Rightarrow> fval list" where
  "RsvpCreationResponse_mem m = [VBool (rs_Ok m), VPtr (map_option RsvpInfo_mem (rs_Info m))]"

definition mem_RsvpCreationResponse :: "fval list \<Rightarrow> RsvpCreationResponse" where
  "mem_RsvpCreationResponse fs =
     \<lparr>rs_Ok = toBool (fs ! 0), rs_Info = map_option mem_RsvpInfo (getPointer (fs ! 1))\<rparr>"

section \<open>The codec\<close>

text \<open>
  \<open>Buffer.Marshal\<close> and \<open>Buffer.Unmarshal\<close>, for messages that have no methods of their own to encode
  and decode, and \<open>Marshal\<close> and \<open>Unmarshal\<close> of the codec \<open>proto\<close>: it starts from an empty buffer, and
  \<open>Unmarshal\<close> resets the message first. A message pointer may be nil.
\<close>

definition Buffer_Size :: "string \<Rightarrow> struct_field list \<Rightarrow> fval list option \<Rightarrow> nat" where
  "Buffer_Size t fs p =
     (case (computeMarshalInfo t fs, p) of (Some u, Some m) \<Rightarrow> info_size u m | _ \<Rightarrow> 0)"

definition Buffer_Marshal ::
  "string \<Rightarrow> struct_field list \<Rightarrow> byte list \<Rightarrow> fval list option \<Rightarrow> wire_err + byte list" where
  "Buffer_Marshal t fs buf p =
     (case p of
        None \<Rightarrow> Inl ErrNil
      | Some m \<Rightarrow>
          (case computeMarshalInfo t fs of
             None \<Rightarrow> Inl NoTable
           | Some u \<Rightarrow> info_marshal u buf m))"

definition Buffer_Unmarshal ::
  "string \<Rightarrow> struct_field list \<Rightarrow> fval list \<Rightarrow> byte list \<Rightarrow> wire_err + fval list" where
  "Buffer_Unmarshal t fs m b =
     (case computeUnmarshalInfo t fs of
        None \<Rightarrow> Inl NoTable
      | Some u \<Rightarrow> unmarshal u m b)"

definition codec_Marshal :: "string \<Rightarrow> struct_field list \<Rightarrow> fval list option \<Rightarrow> wire_err + byte list" where
  "codec_Marshal t fs v = Buffer_Marshal t fs [] v"

definition codec_Unmarshal :: "string \<Rightarrow> struct_field list \<Rightarrow> byte list \<Rightarrow> wire_err + fval list" where
  "codec_Unmarshal t fs data = Buffer_Unmarshal t fs (zero_struct fs) data"

text \<open>The codec at each message.\<close>

definition Marshal_EmptyMessage :: "EmptyMessage option \<Rightarrow> wire_err + byte list" where
  "Marshal_EmptyMessage m = codec_Marshal ''EmptyMessage'' EmptyMessage_fields (map_option EmptyMessage_mem m)"

definition Unmarshal_EmptyMessage :: "byte list \<Rightarrow> wire_err + EmptyMessage" where
  "Unmarshal_EmptyMessage b =
     map_sum id mem_EmptyMessage (codec_Unmarshal ''EmptyMessage'' EmptyMessage_fields b)"

definition Marshal_VersionResponse :: "VersionResponse option \<Rightarrow> wire_err + byte list" where
  "Marshal_VersionResponse m =
     codec_Marshal ''VersionResponse'' VersionResponse_fields (map_option VersionResponse_mem m)"

definition Unmarshal_VersionResponse :: "byte list \<Rightarrow> wire_err + VersionResponse" where
  "Unmarshal_VersionResponse b =
     map_sum id mem_VersionResponse (codec_Unmarshal ''VersionResponse'' VersionResponse_fields b)"

definition Marshal_ServicesStatusList :: "ServicesStatusList option \<Rightarrow> wire_err + byte list" where
  "Marshal_ServicesStatusList m =
     codec_Marshal ''ServicesStatusList'' ServicesStatusList_fields (map_option ServicesStatusList_mem m)"

definition Unmarshal_ServicesStatusList :: "byte list \<Rightarrow> wire_err + ServicesStatusList" where
  "Unmarshal_ServicesStatusList b =
     map_sum id mem_ServicesStatusList (codec_Unmarshal ''ServicesStatusList'' ServicesStatusList_fields b)"

definition Marshal_RsvpCreationRequest :: "RsvpCreationRequest option \<Rightarrow> wire_err + byte list" where
  "Marshal_RsvpCreationRequest m =
     codec_Marshal ''RsvpCreationRequest'' RsvpCreationRequest_fields (map_option RsvpCreationRequest_mem m)"

definition Unmarshal_RsvpCreationRequest :: "byte list \<Rightarrow> wire_err + RsvpCreationRequest" where
  "Unmarshal_RsvpCreationRequest b =
     map_sum id mem_RsvpCreationRequest (codec_Unmarshal ''RsvpCreationRequest'' RsvpCreationRequest_fields b)"

definition Marshal_RsvpCreationResponse :: "RsvpCreationResponse option \<Rightarrow> wire_err + byte list" where
  "Marshal_RsvpCreationResponse m =
     codec_Marshal ''RsvpCreationResponse'' RsvpCreationResponse_fields (map_option RsvpCreationResponse_mem m)"

definition Unmarshal_RsvpCreationResponse :: "byte list \<Rightarrow> wire_err + RsvpCreationResponse" where
  "Unmarshal_RsvpCreationResponse b =
     map_sum id mem_RsvpCreationResponse (codec_Unmarshal ''RsvpCreationResponse'' RsvpCreationResponse_fields b)"

end
