(* ===== verification/Grpc_Net.thy ===== *)
theory Grpc_Net
  imports Service Pb_Wire
begin

text \<open>
  A unary call of the service over a connection: \<open>rpc_util.go\<close>, \<open>call.go\<close>, \<open>stream.go\<close> and \<open>server.go\<close> of
  the vendored gRPC, with the codec of \<open>Pb_Wire\<close>, and the status headers of its package \<open>transport\<close>. The
  connection itself delivers the bytes written on a stream, in order and all of them; the context
  the server makes of the metadata that arrives is the argument \<open>rx\<close>. Neither side compresses, and
  no stats handler, tracing or service configuration is installed.
\<close>

section \<open>The status of a call in headers\<close>

definition plain_message_byte :: "char \<Rightarrow> bool" where
  "plain_message_byte c = (byte_in 0x20 0x7D c \<and> c \<noteq> CHR ''%'')"

text \<open>The verb \<open>%02X\<close> on a byte.\<close>

definition upper_hex :: "nat \<Rightarrow> char" where
  "upper_hex n = (''0123456789ABCDEF'' ! n)"

definition percent_byte :: "char \<Rightarrow> string" where
  "percent_byte c = [CHR ''%'', upper_hex (of_char c div 16), upper_hex (of_char c mod 16)]"

definition encodeGrpcMessageUnchecked :: "string \<Rightarrow> string" where
  "encodeGrpcMessageUnchecked msg =
     concat (List.map (\<lambda>c. if plain_message_byte c then [c] else percent_byte c) msg)"

definition encodeGrpcMessage :: "string \<Rightarrow> string" where
  "encodeGrpcMessage msg =
     (if msg = [] then []
      else if list_ex (\<lambda>c. \<not> plain_message_byte c) msg then encodeGrpcMessageUnchecked msg
      else msg)"

text \<open>\<open>strconv.ParseUint\<close> with base 16 on two characters.\<close>

definition hex_digit_value :: "char \<Rightarrow> nat option" where
  "hex_digit_value c =
     (if CHR ''0'' \<le> c \<and> c \<le> CHR ''9'' then Some (of_char c - 48)
      else if CHR ''a'' \<le> c \<and> c \<le> CHR ''z'' \<and> of_char c - 87 < (16 :: nat) then Some (of_char c - 87)
      else if CHR ''A'' \<le> c \<and> c \<le> CHR ''Z'' \<and> of_char c - 55 < (16 :: nat) then Some (of_char c - 55)
      else None)"

fun decodeGrpcMessageUnchecked :: "string \<Rightarrow> string" where
  "decodeGrpcMessageUnchecked (c # a # b # s) =
     (if c = CHR ''%'' then
        (case (hex_digit_value a, hex_digit_value b) of
           (Some x, Some y) \<Rightarrow> char_of (16 * x + y) # decodeGrpcMessageUnchecked s
         | _ \<Rightarrow> c # decodeGrpcMessageUnchecked (a # b # s))
      else c # decodeGrpcMessageUnchecked (a # b # s))"
| "decodeGrpcMessageUnchecked s = s"

fun has_percent :: "string \<Rightarrow> bool" where
  "has_percent (c # a # b # s) = (c = CHR ''%'' \<or> has_percent (a # b # s))"
| "has_percent _ = False"

definition decodeGrpcMessage :: "string \<Rightarrow> string" where
  "decodeGrpcMessage msg = (if has_percent msg then decodeGrpcMessageUnchecked msg else msg)"

text \<open>The numbers of the codes.\<close>

definition all_codes :: "code list" where
  "all_codes =
     [CodeOK, CodeCanceled, CodeUnknown, CodeInvalidArgument, CodeDeadlineExceeded, CodeNotFound,
      CodeAlreadyExists, CodePermissionDenied, CodeResourceExhausted, CodeFailedPrecondition,
      CodeAborted, CodeOutOfRange, CodeUnimplemented, CodeInternal, CodeUnavailable, CodeDataLoss,
      CodeUnauthenticated]"

fun index_of :: "'a \<Rightarrow> 'a list \<Rightarrow> nat" where
  "index_of x [] = 0"
| "index_of x (y # ys) = (if x = y then 0 else Suc (index_of x ys))"

fun code_number :: "code \<Rightarrow> int" where
  "code_number (CodeNumber n) = n"
| "code_number c = int (index_of c all_codes)"

definition code_of_number :: "int \<Rightarrow> code" where
  "code_of_number n =
     (if 0 \<le> n \<and> n < int (length all_codes) then all_codes ! nat n else CodeNumber n)"

text \<open>The error of \<open>strconv.Atoi\<close>: what is wrong with a text that is no 64-bit number.\<close>

definition Atoi_error :: "(string \<Rightarrow> string) \<Rightarrow> string \<Rightarrow> string" where
  "Atoi_error quote s =
     (let ds = (if s \<noteq> [] \<and> (hd s = CHR ''-'' \<or> hd s = CHR ''+'') then tl s else s)
      in ''strconv.Atoi: parsing '' @ quote s @
         (if ds = [] \<or> dec_val 0 ds = None then '': invalid syntax'' else '': value out of range''))"

text \<open>The headers \<open>grpc-status\<close> and \<open>grpc-message\<close> that \<open>WriteStatus\<close> sends and what the client makes of them.\<close>

definition WriteStatus :: "code \<times> string \<Rightarrow> string \<times> string" where
  "WriteStatus st = (Itoa (code_number (fst st)), encodeGrpcMessage (snd st))"

definition stream_status :: "(string \<Rightarrow> string) \<Rightarrow> string \<times> string \<Rightarrow> code \<times> string" where
  "stream_status quote h =
     (case ParseInt (fst h) of
        None \<Rightarrow> (CodeInternal, ''transport: malformed grpc-status: '' @ Atoi_error quote (fst h))
      | Some n \<Rightarrow> (code_of_number (n mod 2 ^ 32), decodeGrpcMessage (snd h)))"

section \<open>Messages on a stream\<close>

datatype recv_err = RecvEOF | RecvUnexpectedEOF | RecvStatus code string

text \<open>\<open>io.ReadFull\<close> of \<open>n\<close> bytes, \<open>n\<close> not zero, from the bytes that are left.\<close>

definition ReadFull :: "nat \<Rightarrow> byte list \<Rightarrow> recv_err + byte list \<times> byte list" where
  "ReadFull n r =
     (if r = [] then Inl RecvEOF
      else if length r < n then Inl RecvUnexpectedEOF
      else Inr (take n r, drop n r))"

definition BigEndian_PutUint32 :: "32 word \<Rightarrow> byte list" where
  "BigEndian_PutUint32 x =
     [ucast (drop_bit 24 x), ucast (drop_bit 16 x), ucast (drop_bit 8 x), ucast x]"

definition BigEndian_Uint32 :: "byte list \<Rightarrow> 32 word" where
  "BigEndian_Uint32 b =
     (ucast (b ! 3) OR push_bit 8 (ucast (b ! 2)) OR push_bit 16 (ucast (b ! 1)) OR push_bit 24 (ucast (b ! 0)))"

definition maxInt :: int where "maxInt = 2 ^ 63 - 1"

definition MaxUint32 :: nat where "MaxUint32 = 2 ^ 32 - 1"

definition defaultServerMaxReceiveMessageSize :: nat where
  "defaultServerMaxReceiveMessageSize = 1024 * 1024 * 4"

definition defaultServerMaxSendMessageSize :: nat where
  "defaultServerMaxSendMessageSize = 2 ^ 31 - 1"

definition defaultClientMaxReceiveMessageSize :: nat where
  "defaultClientMaxReceiveMessageSize = 1024 * 1024 * 4"

definition defaultClientMaxSendMessageSize :: nat where
  "defaultClientMaxSendMessageSize = 2 ^ 31 - 1"

text \<open>The payload format, the message, and the bytes after it.\<close>

definition recvMsg :: "nat \<Rightarrow> byte list \<Rightarrow> recv_err + byte \<times> byte list \<times> byte list" where
  "recvMsg maxReceiveMessageSize r =
     (case ReadFull 5 r of
        Inl err \<Rightarrow> Inl err
      | Inr (header, r) \<Rightarrow>
          (let pf = header ! 0; len = unat (BigEndian_Uint32 (drop 1 header))
           in if len = 0 then Inr (pf, [], r)
              else if int len > maxInt then
                Inl (RecvStatus CodeResourceExhausted
                  (''grpc: received message larger than max length allowed on current machine ('' @
                   nat_dec len @ '' vs. '' @ Itoa maxInt @ '')''))
              else if len > maxReceiveMessageSize then
                Inl (RecvStatus CodeResourceExhausted
                  (''grpc: received message larger than max ('' @ nat_dec len @ '' vs. '' @
                   nat_dec maxReceiveMessageSize @ '')''))
              else (case ReadFull len r of
                      Inl RecvEOF \<Rightarrow> Inl RecvUnexpectedEOF
                    | Inl err \<Rightarrow> Inl err
                    | Inr (msg, r) \<Rightarrow> Inr (pf, msg, r))))"

text \<open>\<open>encode\<close> without a compressor: \<open>m\<close> is what the codec makes of the message.\<close>

definition encode :: "wire_err + byte list \<Rightarrow> rpc_error + byte list \<times> byte list" where
  "encode m =
     (case m of
        Inl err \<Rightarrow> Inl (Status CodeInternal (''grpc: error while marshaling: '' @ wire_err_text err))
      | Inr b \<Rightarrow>
          (if length b > MaxUint32 then
             Inl (Status CodeResourceExhausted (''grpc: message too large ('' @ nat_dec (length b) @ '' bytes)''))
           else Inr (0 # BigEndian_PutUint32 (word_of_nat (length b)), b)))"

text \<open>\<open>checkRecvPayload\<close> on a stream without \<open>grpc-encoding\<close>.\<close>

definition checkRecvPayload :: "byte \<Rightarrow> (code \<times> string) option" where
  "checkRecvPayload pf =
     (if pf = 0 then None
      else if pf = 1 then Some (CodeInternal, ''grpc: compressed flag set with identity or empty encoding'')
      else Some (CodeInternal, ''grpc: received unexpected payload format '' @ nat_dec (unat pf)))"

section \<open>The messages of the methods\<close>

fun Marshal_req :: "www_req \<Rightarrow> wire_err + byte list" where
  "Marshal_req (ReqEmpty m) = Marshal_EmptyMessage (Some m)"
| "Marshal_req (ReqRsvp m) = Marshal_RsvpCreationRequest (Some m)"

text \<open>The reply of a handler is a pointer in an interface; a nil one is an error of the codec.\<close>

fun Marshal_resp :: "www_resp option \<Rightarrow> wire_err + byte list" where
  "Marshal_resp None = Inl ErrNil"
| "Marshal_resp (Some (RespVersion m)) = Marshal_VersionResponse (Some m)"
| "Marshal_resp (Some (RespStatus m)) = Marshal_ServicesStatusList (Some m)"
| "Marshal_resp (Some (RespRsvp m)) = Marshal_RsvpCreationResponse (Some m)"

text \<open>The type of the message that the handler of a method, and the stub of a method, allocate.\<close>

definition Unmarshal_req :: "string \<Rightarrow> byte list \<Rightarrow> wire_err + www_req" where
  "Unmarshal_req methodName b =
     (if methodName = ''RsvpCreation'' then map_sum id ReqRsvp (Unmarshal_RsvpCreationRequest b)
      else map_sum id ReqEmpty (Unmarshal_EmptyMessage b))"

definition Unmarshal_resp :: "string \<Rightarrow> byte list \<Rightarrow> wire_err + www_resp" where
  "Unmarshal_resp method b =
     (if method = Version_name then map_sum id RespVersion (Unmarshal_VersionResponse b)
      else if method = ServicesStatus_name then map_sum id RespStatus (Unmarshal_ServicesStatusList b)
      else map_sum id RespRsvp (Unmarshal_RsvpCreationResponse b))"

section \<open>The server\<close>

text \<open>
  What the server puts on the stream: the bytes of the reply and the status headers. There may be
  no status (the client went away), and a panic that leaves the handler ends the process.
\<close>

datatype net_reply = NetReply "byte list" "(string \<times> string) option" | NetPanic panic

definition recv_status :: "recv_err \<Rightarrow> (code \<times> string) option" where
  "recv_status err =
     (case err of
        RecvEOF \<Rightarrow> None
      | RecvUnexpectedEOF \<Rightarrow> Some (CodeInternal, ''unexpected EOF'')
      | RecvStatus c m \<Rightarrow> Some (c, m))"

definition sendResponse :: "www_resp option \<Rightarrow> rpc_error + byte list" where
  "sendResponse msg =
     (case encode (Marshal_resp msg) of
        Inl err \<Rightarrow> Inl err
      | Inr (hdr, data) \<Rightarrow>
          (if length data > defaultServerMaxSendMessageSize then
             Inl (Status CodeResourceExhausted
               (''grpc: trying to send message larger than max ('' @ nat_dec (length data) @ '' vs. '' @
                nat_dec defaultServerMaxSendMessageSize @ '')''))
           else Inr (hdr @ data)))"

definition decode_request :: "string \<Rightarrow> byte list \<Rightarrow> rpc_error + www_req" where
  "decode_request methodName req =
     (if length req > defaultServerMaxReceiveMessageSize then
        Inl (Status CodeResourceExhausted
          (''grpc: received message larger than max ('' @ nat_dec (length req) @ '' vs. '' @
           nat_dec defaultServerMaxReceiveMessageSize @ '')''))
      else (case Unmarshal_req methodName req of
              Inl err \<Rightarrow> Inl (Status CodeInternal (''grpc: error unmarshalling request: '' @ wire_err_text err))
            | Inr q \<Rightarrow> Inr q))"

definition processUnaryRPC ::
  "(panic \<Rightarrow> string) \<Rightarrow> ('c, 's) WwwServer \<Rightarrow> string \<Rightarrow> ('c, 's) method_handler \<Rightarrow>
   ('c, 's) www_interceptor option \<Rightarrow> 'c ctx \<Rightarrow> byte list \<Rightarrow> 's \<Rightarrow> net_reply \<times> 's" where
  "processUnaryRPC pt srv methodName h interceptor c stream s =
     (case recvMsg defaultServerMaxReceiveMessageSize stream of
        Inl err \<Rightarrow> (NetReply [] (map_option WriteStatus (recv_status err)), s)
      | Inr (pf, req, _) \<Rightarrow>
          (case checkRecvPayload pf of
             Some st \<Rightarrow> (NetReply [] (Some (WriteStatus st)), s)
           | None \<Rightarrow>
               (case (case decode_request methodName req of
                        Inl err \<Rightarrow> (Ret None (Some err), s)
                      | Inr q \<Rightarrow> h srv c q interceptor s) of
                  (Panic p, s') \<Rightarrow> (NetPanic p, s')
                | (Ret r (Some appErr), s') \<Rightarrow>
                    (NetReply [] (Some (WriteStatus (status_FromError pt appErr))), s')
                | (Ret r None, s') \<Rightarrow>
                    (case sendResponse r of
                       Inl err \<Rightarrow> (NetReply [] (Some (WriteStatus (status_FromError pt err))), s')
                     | Inr out \<Rightarrow> (NetReply out (Some (WriteStatus (CodeOK, []))), s')))))"

text \<open>\<open>handleStream\<close>; \<open>quote\<close> is the verb \<open>%q\<close>.\<close>

fun LastIndex_slash :: "string \<Rightarrow> nat option" where
  "LastIndex_slash [] = None"
| "LastIndex_slash (c # s) =
     (case LastIndex_slash s of
        Some n \<Rightarrow> Some (Suc n)
      | None \<Rightarrow> if c = CHR ''/'' then Some 0 else None)"

definition handleStream ::
  "(string \<Rightarrow> string) \<Rightarrow> (panic \<Rightarrow> string) \<Rightarrow> ('c, 's) HandlerMap \<Rightarrow> ('c, 's) www_interceptor option \<Rightarrow>
   'c ctx \<Rightarrow> string \<Rightarrow> byte list \<Rightarrow> 's \<Rightarrow> net_reply \<times> 's" where
  "handleStream quote pt m interceptor c stream_method stream s =
     (let sm = (if stream_method \<noteq> [] \<and> hd stream_method = CHR ''/'' then tl stream_method else stream_method)
      in case LastIndex_slash sm of
           None \<Rightarrow>
             (NetReply [] (Some (WriteStatus (CodeResourceExhausted,
                ''malformed method name: '' @ quote stream_method))), s)
         | Some pos \<Rightarrow>
             (let service = take pos sm; methodName = drop (Suc pos) sm
              in case m service of
                   None \<Rightarrow>
                     (NetReply [] (Some (WriteStatus (CodeUnimplemented, ''unknown service '' @ service))), s)
                 | Some (sd, srv) \<Rightarrow>
                     (case FindUnaryMethod methodName (sd_Methods sd) of
                        None \<Rightarrow>
                          (NetReply [] (Some (WriteStatus (CodeUnimplemented,
                             ''unknown method '' @ methodName))), s)
                      | Some h \<Rightarrow> processUnaryRPC pt srv methodName h interceptor c stream s)))"

section \<open>The client\<close>

text \<open>\<open>Status.Err\<close>: no error for the code OK.\<close>

definition Status_Err :: "code \<times> string \<Rightarrow> rpc_error option" where
  "Status_Err st = (if fst st = CodeOK then None else Some (Status (fst st) (snd st)))"

text \<open>\<open>toRPCErr\<close> on the errors of \<open>recv\<close>.\<close>

definition toRPCErr :: "recv_err \<Rightarrow> rpc_error" where
  "toRPCErr err =
     (case err of
        RecvEOF \<Rightarrow> Plain ''EOF''
      | RecvUnexpectedEOF \<Rightarrow> Status CodeUnknown ''unexpected EOF''
      | RecvStatus c m \<Rightarrow> Status c m)"

text \<open>\<open>recv\<close>: the message and the bytes after it, or an error, which is the end of the stream or has a status.\<close>

definition recv :: "string \<Rightarrow> byte list \<Rightarrow> recv_err + www_resp \<times> byte list" where
  "recv method stream =
     (case recvMsg defaultClientMaxReceiveMessageSize stream of
        Inl err \<Rightarrow> Inl err
      | Inr (pf, d, r) \<Rightarrow>
          (case checkRecvPayload pf of
             Some (c, m) \<Rightarrow> Inl (RecvStatus c m)
           | None \<Rightarrow>
               (if length d > defaultClientMaxReceiveMessageSize then
                  Inl (RecvStatus CodeResourceExhausted
                    (''grpc: received message larger than max ('' @ nat_dec (length d) @ '' vs. '' @
                     nat_dec defaultClientMaxReceiveMessageSize @ '')''))
                else (case Unmarshal_resp method d of
                        Inl err \<Rightarrow>
                          Inl (RecvStatus CodeInternal
                            (''grpc: failed to unmarshal the received message '' @ wire_err_text err))
                      | Inr m \<Rightarrow> Inr (m, r)))))"

text \<open>The attempt's \<open>sendMsg\<close> and \<open>recvMsg\<close> for a unary call; \<open>st\<close> is the status of the stream.\<close>

definition attempt_sendMsg :: "www_req \<Rightarrow> rpc_error + byte list" where
  "attempt_sendMsg m =
     (case encode (Marshal_req m) of
        Inl err \<Rightarrow> Inl err
      | Inr (hdr, data) \<Rightarrow>
          (if length data > defaultClientMaxSendMessageSize then
             Inl (Status CodeResourceExhausted
               (''trying to send message larger than max ('' @ nat_dec (length data) @ '' vs. '' @
                nat_dec defaultClientMaxSendMessageSize @ '')''))
           else Inr (hdr @ data)))"

definition attempt_recvMsg :: "string \<Rightarrow> byte list \<Rightarrow> code \<times> string \<Rightarrow> rpc_error + www_resp" where
  "attempt_recvMsg method stream st =
     (case recv method stream of
        Inl RecvEOF \<Rightarrow> Inl (case Status_Err st of Some e \<Rightarrow> e | None \<Rightarrow> Plain ''EOF'')
      | Inl err \<Rightarrow> Inl (toRPCErr err)
      | Inr (m, r) \<Rightarrow>
          (case recv method r of
             Inr _ \<Rightarrow>
               Inl (Status CodeUnknown ''grpc: client streaming protocol violation: get <nil>, want <EOF>'')
           | Inl RecvEOF \<Rightarrow> (case Status_Err st of Some e \<Rightarrow> Inl e | None \<Rightarrow> Inr m)
           | Inl err \<Rightarrow> Inl (toRPCErr err)))"

text \<open>A stream that ends without a status has the status Unknown, as \<open>decodeResponseHeader\<close> leaves it.\<close>

definition reply_status :: "(string \<Rightarrow> string) \<Rightarrow> (string \<times> string) option \<Rightarrow> code \<times> string" where
  "reply_status quote h = (case h of None \<Rightarrow> (CodeUnknown, []) | Some h \<Rightarrow> stream_status quote h)"

definition grpc_invoke ::
  "(string \<Rightarrow> string) \<Rightarrow> (panic \<Rightarrow> string) \<Rightarrow> ('c ctx \<Rightarrow> 'c ctx) \<Rightarrow> ('c, 's) HandlerMap \<Rightarrow>
   ('c, 's) www_interceptor option \<Rightarrow> ('c, 's) channel" where
  "grpc_invoke quote pt rx m interceptor c method req s =
     (case attempt_sendMsg req of
        Inl err \<Rightarrow> (Ret None (Some err), s)
      | Inr stream \<Rightarrow>
          (case handleStream quote pt m interceptor (rx c) method stream s of
             (NetPanic p, s') \<Rightarrow> (Panic p, s')
           | (NetReply out h, s') \<Rightarrow>
               (case attempt_recvMsg method out (reply_status quote h) of
                  Inl err \<Rightarrow> (Ret None (Some err), s')
                | Inr m \<Rightarrow> (Ret (Some m) None, s'))))"

text \<open>The service behind its interceptors, called over a connection.\<close>

definition net_serve ::
  "(string \<Rightarrow> string) \<Rightarrow> ('c ctx \<Rightarrow> 'c ctx) \<Rightarrow> 'db driver \<Rightarrow> (string \<Rightarrow> string \<Rightarrow> 'c option) \<Rightarrow>
   call_env \<Rightarrow> nat list \<Rightarrow> ('c, 'db wwwServer) channel" where
  "net_serve quote rx drv verify env finish =
     (case RegisterWwwServer Map.empty (www_server drv env finish) of
        None \<Rightarrow> (\<lambda>c m req s. (Panic NilDereference, s))
      | Some reg \<Rightarrow> grpc_invoke quote (e_panic env) rx reg (Some (www_interceptor verify env)))"

end
