(* ===== verification/Wire_Props.thy ===== *)
theory Wire_Props
  imports Wire_Codec
begin

text \<open>
  What the encoder writes the decoder reads back, for any struct type whose two tables agree; the
  size computed before encoding is the number of bytes written; and the decoder keeps within the
  bytes it is given.
\<close>

section \<open>Tables that agree, structs that fit a table\<close>

fun kind_wire :: "mkind \<Rightarrow> nat" where
  "kind_wire BoolValueNoZero = WireVarint"
| "kind_wire VarintS32ValueNoZero = WireVarint"
| "kind_wire _ = WireBytes"

fun kind_zero :: "mkind \<Rightarrow> fval" where
  "kind_zero BoolValueNoZero = VBool False"
| "kind_zero VarintS32ValueNoZero = VInt32 0"
| "kind_zero StringValueNoZero = VString []"
| "kind_zero (MessageMarshaler _) = VPtr None"
| "kind_zero (MessageSliceMarshaler _) = VPtrs []"

text \<open>
  \<open>info_matches\<close>: the fields are those of the struct in order, the decoder finds each under the tag
  the encoder writes, with the same kind and a zero value of that kind, and every slot of the
  decoder's tables is one of these fields or the one for tag 0.
\<close>

fun info_matches :: "minfo \<Rightarrow> uinfo \<Rightarrow> bool"
and field_matches :: "mfield \<Rightarrow> uinfo \<Rightarrow> bool"
and field_takes :: "mfield \<Rightarrow> ufield \<Rightarrow> bool"
and kind_matches :: "mkind \<Rightarrow> ukind \<Rightarrow> bool" where
  "info_matches (MarshalInfo t fs) u =
     (List.map mf_field fs = [0..<length (ui_zero u)] \<and> list_all (\<lambda>f. field_matches f u) fs \<and>
      list_all (\<lambda>slot. case slot of
          None \<Rightarrow> True
        | Some uf \<Rightarrow> uf = UField 0 [] IllegalTag \<or> list_ex (\<lambda>f. field_takes f uf) fs) (ui_dense u) \<and>
      list_all (\<lambda>(_, uf). list_ex (\<lambda>f. field_takes f uf) fs) (ui_sparse u))"
| "field_matches (MField i wiretag tagsize isptr name k) u =
     (tagsize = SizeVarint wiretag \<and> unat (wiretag AND 7) = kind_wire k \<and> ui_zero u ! i = kind_zero k \<and>
      (case u_lookup u (unat (drop_bit 3 wiretag)) of
         Some (UField j _ uk) \<Rightarrow> j = i \<and> kind_matches k uk
       | None \<Rightarrow> False))"
| "field_takes (MField i wiretag tagsize isptr name k) uf =
     (case uf of UField j _ uk \<Rightarrow> j = i \<and> kind_matches k uk)"
| "kind_matches BoolValueNoZero uk = (uk = BoolValue)"
| "kind_matches VarintS32ValueNoZero uk = (uk = Int32Value)"
| "kind_matches StringValueNoZero uk = (uk = StringValue)"
| "kind_matches (MessageMarshaler mi) uk = (case uk of MessagePtr u \<Rightarrow> info_matches mi u | _ \<Rightarrow> False)"
| "kind_matches (MessageSliceMarshaler mi) uk =
     (case uk of MessageSlicePtr u \<Rightarrow> info_matches mi u | _ \<Rightarrow> False)"

fun info_fits :: "minfo \<Rightarrow> fval list \<Rightarrow> bool"
and field_fits :: "mfield \<Rightarrow> fval list \<Rightarrow> bool"
and kind_fits :: "mkind \<Rightarrow> fval \<Rightarrow> bool" where
  "info_fits (MarshalInfo t fs) m = (length m = length fs \<and> list_all (\<lambda>f. field_fits f m) fs)"
| "field_fits (MField i wiretag tagsize isptr name k) m = kind_fits k (m ! i)"
| "kind_fits BoolValueNoZero v = (case v of VBool _ \<Rightarrow> True | _ \<Rightarrow> False)"
| "kind_fits VarintS32ValueNoZero v = (case v of VInt32 _ \<Rightarrow> True | _ \<Rightarrow> False)"
| "kind_fits StringValueNoZero v = (case v of VString _ \<Rightarrow> True | _ \<Rightarrow> False)"
| "kind_fits (MessageMarshaler u) v =
     (case v of VPtr p \<Rightarrow> (case p of None \<Rightarrow> True | Some p \<Rightarrow> info_fits u p) | _ \<Rightarrow> False)"
| "kind_fits (MessageSliceMarshaler u) v =
     (case v of
        VPtrs ps \<Rightarrow> list_all (\<lambda>p. case p of None \<Rightarrow> True | Some p \<Rightarrow> info_fits u p) ps
      | _ \<Rightarrow> False)"

section \<open>Steps of the decoder\<close>

lemma slice_in [simp]:
  "n \<le> length b \<Longrightarrow> slice_from n b = Inr (drop n b)" "n \<le> length b \<Longrightarrow> slice_to n b = Inr (take n b)"
  by (simp_all add: slice_from_def slice_to_def)

lemma decodeVarint_front:
  "decodeVarint (appendVarint [] v @ r) = (v, SizeVarint v)"
  "drop (SizeVarint v) (appendVarint [] v @ r) = r"
  "SizeVarint v \<noteq> 0" "SizeVarint v \<le> length (appendVarint [] v @ r)"
  using SizeVarint_length [of v] by (simp_all add: decodeVarint_append) (simp add: SizeVarint_def)

lemma slice_front [simp]: "slice_from (SizeVarint v) (appendVarint [] v @ r) = Inr r"
  by (simp only: slice_in(1) decodeVarint_front)

lemma read_tag_decodeVarint:
  assumes "b \<noteq> []"
  shows "read_tag b =
    (case decodeVarint b of (x, n) \<Rightarrow> if n = 0 then Inl ErrUnexpectedEOF else Inr (x, drop n b))"
proof -
  obtain c r where b: "b = c # r" using assms by (cases b) auto
  have small: "(ucast c :: 64 word) < 0x80 \<longleftrightarrow> c < 128" for c :: byte
    by (simp add: word_less_nat_alt)
  have low: "(ucast (c AND 0x7f) :: 64 word) = ucast c - 0x80" if "\<not> c < 128"
  proof (rule unsigned_word_eqI)
    have "unat (c AND 0x7f) = unat c mod 128"
      using take_bit_eq_mask [of 7 "unat c"] by (simp add: unsigned_and_eq take_bit_eq_mod mask_eq_exp_minus_1)
    moreover have "128 \<le> unat c" and "unat c < 256"
      using that unsigned_less [of c, where 'a = nat] by (simp_all add: word_less_nat_alt)
    ultimately show "unat (ucast (c AND 0x7f) :: 64 word) = unat (ucast c - 0x80 :: 64 word)"
      by (simp add: unat_sub word_le_nat_alt le_mod_geq)
  qed
  show ?thesis
  proof (cases "c < 128")
    case True
    then show ?thesis
      by (simp add: b read_tag_def decodeVarint_loop small)
  next
    case c: False
    show ?thesis
    proof (cases "r \<noteq> [] \<and> hd r < 128")
      case True
      with c show ?thesis
        by (cases r) (simp_all add: b read_tag_def decodeVarint_loop small low Let_def)
    next
      case False
      have "n \<le> length b" if "decodeVarint b = (x, n)" for x n
        using decodeVarint_bound [OF that] .
      with c False show ?thesis
        by (cases r) (auto simp: b read_tag_def split: prod.split)
    qed
  qed
qed

lemma read_tag_front: "read_tag (appendVarint [] x @ r) = Inr (x, r)"
  by (simp add: read_tag_decodeVarint decodeVarint_front SizeVarint_length)

lemma delimited_front:
  assumes "length v + length r < 2 ^ 64"
  shows "delimited (appendVarint [] (word_of_nat (length v)) @ v @ r) WireBytes = Inr (v, r)"
proof -
  have u: "unat (word_of_nat n :: 64 word) = n" if "n \<le> length v + length r" for n
    using that assms by (simp add: unat_of_nat take_bit_nat_eq_self)
  show ?thesis
    using assms by (simp add: delimited_def decodeVarint_front u word_less_nat_alt del: of_nat_add)
qed

text \<open>
  One turn of the loop: \<open>read_field\<close> is the value a field of kind \<open>k\<close> gets, \<open>v\<close> being the one it has.
\<close>

definition read_field :: "uinfo \<Rightarrow> ukind \<Rightarrow> fval \<Rightarrow> byte list \<Rightarrow> nat \<Rightarrow> wire_err + fval \<times> byte list" where
  "read_field u k v b wire =
     (case k of
        BoolValue \<Rightarrow> unmarshalBoolValue b wire
      | Int32Value \<Rightarrow> unmarshalInt32Value b wire
      | StringValue \<Rightarrow> unmarshalStringValue b wire
      | MessagePtr sub \<Rightarrow>
          (case delimited b wire of
             Inl err \<Rightarrow> Inl err
           | Inr (bx, r) \<Rightarrow>
               (case unmarshal sub (case getPointer v of None \<Rightarrow> ui_zero sub | Some v \<Rightarrow> v) bx of
                  Inl err \<Rightarrow> Inl err
                | Inr v \<Rightarrow> Inr (VPtr (Some v), r)))
      | MessageSlicePtr sub \<Rightarrow>
          (case delimited b wire of
             Inl err \<Rightarrow> Inl err
           | Inr (bx, r) \<Rightarrow>
               (case unmarshal sub (ui_zero sub) bx of
                  Inl err \<Rightarrow> Inl err
                | Inr x \<Rightarrow> Inr (VPtrs (getPointerSlice v @ [Some x]), r)))
      | IllegalTag \<Rightarrow> Inl (ErrIllegalTag (''pb.'' @ ui_typ u) wire))"

lemma unmarshal_turn:
  assumes "b \<noteq> []" and "read_tag b = Inr (x, r)"
  shows "unmarshal u m b =
    (case u_lookup u (unat (drop_bit 3 x)) of
       None \<Rightarrow>
         (case skipField r (unat (x AND 7)) of Inl err \<Rightarrow> Inl err | Inr r \<Rightarrow> unmarshal u m r)
     | Some (UField i name k) \<Rightarrow>
         (case read_field u k (m ! i) r (unat (x AND 7)) of
            Inr (v, r) \<Rightarrow> unmarshal u (m[i := v]) r
          | Inl err \<Rightarrow>
              (if err \<noteq> ErrBadWireType then Inl (unmarshal_error (ui_typ u) name err)
               else (case skipField r (unat (x AND 7)) of Inl err \<Rightarrow> Inl err | Inr r \<Rightarrow> unmarshal u m r))))"
  unfolding unmarshal.simps [of u m b]
  by (simp only: assms if_False sum.case prod.case Let_def read_field_def)

lemma unmarshal_field:
  assumes "u_lookup u (unat (drop_bit 3 wt)) = Some (UField i name k)"
    and "read_field u k (m ! i) b (unat (wt AND 7)) = Inr (v, r)"
  shows "unmarshal u m (appendVarint [] wt @ b) = unmarshal u (m[i := v]) r"
  by (subst unmarshal_turn [OF _ read_tag_front]) (simp_all add: assms)

lemma read_field_shorter: "read_field u k v b w = Inr (x, r) \<Longrightarrow> length r < length b"
  by (cases k) (auto simp: read_field_def dest: scalar_shorter delimited_shorter split: sum.splits prod.splits)

lemma unmarshal_Nil [simp]: "unmarshal u m [] = Inr m"
  by (subst unmarshal.simps) simp

text \<open>A scalar field, a message and an element of a slice of messages.\<close>

lemma unmarshal_varint_field:
  assumes "u_lookup u (unat (drop_bit 3 wt)) = Some (UField i name k)" and "unat (wt AND 7) = WireVarint"
  shows "k = BoolValue \<Longrightarrow>
      unmarshal u m (appendVarint [] wt @ appendVarint [] x @ r) = unmarshal u (m[i := VBool (x \<noteq> 0)]) r"
    and "k = Int32Value \<Longrightarrow>
      unmarshal u m (appendVarint [] wt @ appendVarint [] x @ r) = unmarshal u (m[i := VInt32 (ucast x)]) r"
  by (simp_all add: unmarshal_field [OF assms(1)] read_field_def assms(2) unmarshalBoolValue_def
      unmarshalInt32Value_def decodeVarint_front)

lemma bytes_string_bytes [simp]: "bytes_string (string_bytes s) = s"
proof -
  have "unat (of_char c :: byte) = of_char c" for c :: char
    by (subst of_nat_of_char [symmetric]) (simp add: unat_of_nat take_bit_eq_mod)
  then show ?thesis by (induction s) (simp_all add: bytes_string_def string_bytes_def)
qed

lemma length_string_bytes [simp]: "length (string_bytes s) = length s"
  by (simp add: string_bytes_def)

lemma unmarshal_string_field:
  assumes "u_lookup u (unat (drop_bit 3 wt)) = Some (UField i name StringValue)"
    and "unat (wt AND 7) = WireBytes" and "ValidString s" and "length s + length r < 2 ^ 64"
  shows "unmarshal u m (appendVarint [] wt @ appendVarint [] (word_of_nat (length s)) @ string_bytes s @ r) =
    unmarshal u (m[i := VString s]) r"
  using delimited_front [of "string_bytes s" r] assms(3,4)
  by (intro unmarshal_field [OF assms(1)]) (simp add: read_field_def assms(2) unmarshalStringValue_def)

lemma unmarshal_message_field:
  assumes "u_lookup u (unat (drop_bit 3 wt)) = Some (UField i name (MessagePtr sub))"
    and "unat (wt AND 7) = WireBytes" and "length bx + length r < 2 ^ 64"
    and "m ! i = VPtr None" and "unmarshal sub (ui_zero sub) bx = Inr v"
  shows "unmarshal u m (appendVarint [] wt @ appendVarint [] (word_of_nat (length bx)) @ bx @ r) =
    unmarshal u (m[i := VPtr (Some v)]) r"
  using delimited_front [of bx r] assms(3-5)
  by (intro unmarshal_field [OF assms(1)]) (simp add: read_field_def assms(2))

lemma unmarshal_element_field:
  assumes "u_lookup u (unat (drop_bit 3 wt)) = Some (UField i name (MessageSlicePtr sub))"
    and "unat (wt AND 7) = WireBytes" and "length bx + length r < 2 ^ 64"
    and "m ! i = VPtrs ps" and "unmarshal sub (ui_zero sub) bx = Inr v"
  shows "unmarshal u m (appendVarint [] wt @ appendVarint [] (word_of_nat (length bx)) @ bx @ r) =
    unmarshal u (m[i := VPtrs (ps @ [Some v])]) r"
  using delimited_front [of bx r] assms(3-5)
  by (intro unmarshal_field [OF assms(1)]) (simp add: read_field_def assms(2))

section \<open>Reading back what was written\<close>

text \<open>
  The encoder of a kind of field is right when it appends as many bytes as the size says, and the
  decoder, with the field at its zero value, reads them back as the value of the field.
\<close>

definition kind_reads :: "mkind \<Rightarrow> bool" where
  "kind_reads k \<longleftrightarrow>
     (\<forall>b v wt c u i name uk.
        field_marshal k b v wt = Inr c \<longrightarrow> kind_fits k v \<longrightarrow>
        u_lookup u (unat (drop_bit 3 wt)) = Some (UField i name uk) \<longrightarrow> kind_matches k uk \<longrightarrow>
        unat (wt AND 7) = kind_wire k \<longrightarrow>
        (\<exists>e. c = b @ e \<and> length e = field_size k v (SizeVarint wt) \<and>
           (\<forall>m r. i < length m \<longrightarrow> m ! i = kind_zero k \<longrightarrow> length e + length r < 2 ^ 64 \<longrightarrow>
              unmarshal u m (e @ r) = unmarshal u (m[i := v]) r)))"

definition info_reads :: "minfo \<Rightarrow> bool" where
  "info_reads mi \<longleftrightarrow>
     (\<forall>b m c u.
        info_marshal mi b m = Inr c \<longrightarrow> info_fits mi m \<longrightarrow> info_matches mi u \<longrightarrow>
        (\<exists>e. c = b @ e \<and> length e = info_size mi m \<and>
           (length e < 2 ^ 64 \<longrightarrow> unmarshal u (ui_zero u) e = Inr m)))"

lemma list_update_same: "m ! i = v \<Longrightarrow> m[i := v] = m"
  by auto

lemma kind_reads_bool: "kind_reads BoolValueNoZero"
  unfolding kind_reads_def
proof (intro allI impI)
  fix b v wt c u i name uk
  assume c: "field_marshal BoolValueNoZero b v wt = Inr c" and "kind_fits BoolValueNoZero v"
    and t: "u_lookup u (unat (drop_bit 3 wt)) = Some (UField i name uk)"
      "unat (wt AND 7) = kind_wire BoolValueNoZero"
    and uk: "kind_matches BoolValueNoZero uk"
  then obtain x where v: "v = VBool x" by (auto split: fval.splits)
  have one: "[1] = appendVarint [] 1" by (simp add: appendVarint_def)
  show "\<exists>e. c = b @ e \<and> length e = field_size BoolValueNoZero v (SizeVarint wt) \<and>
      (\<forall>m r. i < length m \<longrightarrow> m ! i = kind_zero BoolValueNoZero \<longrightarrow> length e + length r < 2 ^ 64 \<longrightarrow>
         unmarshal u m (e @ r) = unmarshal u (m[i := v]) r)"
  proof (cases x)
    case True
    then have "c = b @ appendVarint [] wt @ appendVarint [] 1"
      using c v by (simp add: appendVarint_Nil [of b] one)
    moreover have "SizeVarint 1 = 1" by (simp add: SizeVarint_def)
    ultimately show ?thesis
      using True v t uk unmarshal_varint_field(1) [of u wt i name uk _ 1]
      by (intro exI [of _ "appendVarint [] wt @ appendVarint [] 1"]) (simp add: SizeVarint_length)
  next
    case False
    then show ?thesis using c v by (intro exI [of _ "[]"]) (simp add: list_update_same)
  qed
qed

lemma kind_reads_int32: "kind_reads VarintS32ValueNoZero"
  unfolding kind_reads_def
proof (intro allI impI)
  fix b v wt c u i name uk
  assume c: "field_marshal VarintS32ValueNoZero b v wt = Inr c" and "kind_fits VarintS32ValueNoZero v"
    and t: "u_lookup u (unat (drop_bit 3 wt)) = Some (UField i name uk)"
      "unat (wt AND 7) = kind_wire VarintS32ValueNoZero"
    and uk: "kind_matches VarintS32ValueNoZero uk"
  then obtain x where v: "v = VInt32 x" by (auto split: fval.splits)
  have ux: "(ucast (scast x :: 64 word) :: 32 word) = x"
    by (rule bit_word_eqI) (auto simp: bit_simps)
  show "\<exists>e. c = b @ e \<and> length e = field_size VarintS32ValueNoZero v (SizeVarint wt) \<and>
      (\<forall>m r. i < length m \<longrightarrow> m ! i = kind_zero VarintS32ValueNoZero \<longrightarrow> length e + length r < 2 ^ 64 \<longrightarrow>
         unmarshal u m (e @ r) = unmarshal u (m[i := v]) r)"
  proof (cases "x = 0")
    case True
    then show ?thesis using c v by (intro exI [of _ "[]"]) (simp add: list_update_same)
  next
    case False
    then have "c = b @ appendVarint [] wt @ appendVarint [] (scast x)"
      using c v by (simp add: appendVarint_Nil [of b] appendVarint_Nil [of "b @ _"])
    then show ?thesis
      using False v t uk unmarshal_varint_field(2) [of u wt i name uk _ "scast x"] ux
      by (intro exI [of _ "appendVarint [] wt @ appendVarint [] (scast x)"]) (simp add: SizeVarint_length)
  qed
qed

lemma kind_reads_string: "kind_reads StringValueNoZero"
  unfolding kind_reads_def
proof (intro allI impI)
  fix b v wt c u i name uk
  assume c: "field_marshal StringValueNoZero b v wt = Inr c" and "kind_fits StringValueNoZero v"
    and t: "u_lookup u (unat (drop_bit 3 wt)) = Some (UField i name uk)"
      "unat (wt AND 7) = kind_wire StringValueNoZero"
    and uk: "kind_matches StringValueNoZero uk"
  then obtain x where v: "v = VString x" by (auto split: fval.splits)
  show "\<exists>e. c = b @ e \<and> length e = field_size StringValueNoZero v (SizeVarint wt) \<and>
      (\<forall>m r. i < length m \<longrightarrow> m ! i = kind_zero StringValueNoZero \<longrightarrow> length e + length r < 2 ^ 64 \<longrightarrow>
         unmarshal u m (e @ r) = unmarshal u (m[i := v]) r)"
  proof (cases "x = []")
    case True
    then show ?thesis using c v by (intro exI [of _ "[]"]) (simp add: list_update_same)
  next
    case False
    let ?e = "appendVarint [] wt @ appendVarint [] (word_of_nat (length x)) @ string_bytes x"
    have "c = b @ ?e" and "ValidString x"
      using False c v
      by (simp_all add: appendVarint_Nil [of b] appendVarint_Nil [of "b @ _"] split: if_splits)
    then show ?thesis
      using False v t uk unmarshal_string_field [of u wt i name x _ _]
      by (intro exI [of _ ?e]) (simp add: SizeVarint_length)
  qed
qed

lemma kind_reads_message:
  assumes "info_reads mi"
  shows "kind_reads (MessageMarshaler mi)"
  unfolding kind_reads_def
proof (intro allI impI)
  fix b v wt c u i name uk
  assume c: "field_marshal (MessageMarshaler mi) b v wt = Inr c" and fits: "kind_fits (MessageMarshaler mi) v"
    and t: "u_lookup u (unat (drop_bit 3 wt)) = Some (UField i name uk)"
      "unat (wt AND 7) = kind_wire (MessageMarshaler mi)"
    and uk: "kind_matches (MessageMarshaler mi) uk"
  then obtain p where v: "v = VPtr p" by (auto split: fval.splits)
  show "\<exists>e. c = b @ e \<and> length e = field_size (MessageMarshaler mi) v (SizeVarint wt) \<and>
      (\<forall>m r. i < length m \<longrightarrow> m ! i = kind_zero (MessageMarshaler mi) \<longrightarrow> length e + length r < 2 ^ 64 \<longrightarrow>
         unmarshal u m (e @ r) = unmarshal u (m[i := v]) r)"
  proof (cases p)
    case None
    then show ?thesis using c v by (intro exI [of _ "[]"]) (simp add: list_update_same)
  next
    case (Some q)
    from uk obtain sub where sub: "uk = MessagePtr sub" "info_matches mi sub" by (auto split: ukind.splits)
    let ?h = "appendVarint [] wt @ appendVarint [] (word_of_nat (info_size mi q))"
    have "info_marshal mi (b @ ?h) q = Inr c" and "info_fits mi q"
      using c fits Some v by (simp_all add: appendVarint_Nil [of b] appendVarint_Nil [of "b @ _"])
    with assms sub obtain e where e: "c = (b @ ?h) @ e" "length e = info_size mi q"
      "length e < 2 ^ 64 \<Longrightarrow> unmarshal sub (ui_zero sub) e = Inr q"
      unfolding info_reads_def by blast
    then show ?thesis
      using t sub v Some unmarshal_message_field [of u wt i name sub e _ _ q]
      by (intro exI [of _ "?h @ e"]) (simp add: SizeVarint_length Let_def)
  qed
qed

lemma append_messages_reads:
  assumes "info_reads mi"
    and t: "u_lookup u (unat (drop_bit 3 wt)) = Some (UField i name (MessageSlicePtr sub))"
      "unat (wt AND 7) = WireBytes" "info_matches mi sub"
    and "append_messages (info_marshal mi) (info_size mi) wt b ps = Inr c"
    and "list_all (\<lambda>p. case p of None \<Rightarrow> True | Some p \<Rightarrow> info_fits mi p) ps"
  shows "\<exists>e. c = b @ e \<and> length e = field_size (MessageSliceMarshaler mi) (VPtrs ps) (SizeVarint wt) \<and>
    (\<forall>m qs r. i < length m \<longrightarrow> m ! i = VPtrs qs \<longrightarrow> length e + length r < 2 ^ 64 \<longrightarrow>
       unmarshal u m (e @ r) = unmarshal u (m[i := VPtrs (qs @ ps)]) r)"
  using assms(5,6)
proof (induction ps arbitrary: b)
  case Nil
  then show ?case by (intro exI [of _ "[]"]) (auto simp: list_update_same)
next
  case (Cons p ps)
  then obtain q where p: "p = Some q" by (cases p) auto
  let ?h = "appendVarint [] wt @ appendVarint [] (word_of_nat (info_size mi q))"
  from Cons.prems p obtain c' where c': "info_marshal mi (b @ ?h) q = Inr c'"
    and rest: "append_messages (info_marshal mi) (info_size mi) wt c' ps = Inr c"
    by (auto simp: appendVarint_Nil [of b] appendVarint_Nil [of "b @ _"] split: sum.splits)
  from c' Cons.prems(2) p t(3) assms(1) obtain e where e: "c' = (b @ ?h) @ e" "length e = info_size mi q"
    "length e < 2 ^ 64 \<Longrightarrow> unmarshal sub (ui_zero sub) e = Inr q"
    unfolding info_reads_def by fastforce
  from Cons.IH [OF rest] Cons.prems(2) obtain es where es: "c = c' @ es"
    "length es = field_size (MessageSliceMarshaler mi) (VPtrs ps) (SizeVarint wt)"
    and reads: "\<And>m qs r. i < length m \<Longrightarrow> m ! i = VPtrs qs \<Longrightarrow> length es + length r < 2 ^ 64 \<Longrightarrow>
       unmarshal u m (es @ r) = unmarshal u (m[i := VPtrs (qs @ ps)]) r"
    by auto
  have "unmarshal u m ((?h @ e @ es) @ r) = unmarshal u (m[i := VPtrs (qs @ p # ps)]) r"
    if "i < length m" "m ! i = VPtrs qs" "length (?h @ e @ es) + length r < 2 ^ 64" for m qs r
    using unmarshal_element_field [of u wt i name sub e "es @ r" m qs q] t e that
      reads [of "m[i := VPtrs (qs @ [Some q])]" "qs @ [Some q]" r] p
    by simp
  then show ?case
    using e(1,2) es p by (intro exI [of _ "?h @ e @ es"]) (simp add: SizeVarint_length Let_def)
qed

lemma kind_reads_messages:
  assumes "info_reads mi"
  shows "kind_reads (MessageSliceMarshaler mi)"
  unfolding kind_reads_def
proof (intro allI impI)
  fix b v wt c u i name uk
  assume c: "field_marshal (MessageSliceMarshaler mi) b v wt = Inr c"
    and fits: "kind_fits (MessageSliceMarshaler mi) v"
    and t: "u_lookup u (unat (drop_bit 3 wt)) = Some (UField i name uk)"
      "unat (wt AND 7) = kind_wire (MessageSliceMarshaler mi)"
    and uk: "kind_matches (MessageSliceMarshaler mi) uk"
  from fits obtain ps where v: "v = VPtrs ps" by (auto split: fval.splits)
  from uk obtain sub where sub: "uk = MessageSlicePtr sub" "info_matches mi sub" by (auto split: ukind.splits)
  show "\<exists>e. c = b @ e \<and> length e = field_size (MessageSliceMarshaler mi) v (SizeVarint wt) \<and>
      (\<forall>m r. i < length m \<longrightarrow> m ! i = kind_zero (MessageSliceMarshaler mi) \<longrightarrow> length e + length r < 2 ^ 64 \<longrightarrow>
         unmarshal u m (e @ r) = unmarshal u (m[i := v]) r)"
    using append_messages_reads [OF assms, of u wt i name sub b ps c] c fits t v sub by fastforce
qed

lemma kind_marshal_nil:
  "nil_field v \<Longrightarrow> kind_fits k v \<Longrightarrow> field_marshal k b v wt = Inr b \<and> field_size k v n = 0"
  by (cases k) (auto simp: nil_field_def)

lemma fold_update:
  "length z = n \<Longrightarrow> length m = n \<Longrightarrow> k \<le> n \<Longrightarrow> fold (\<lambda>i z. z[i := m ! i]) [0..<k] z = take k m @ drop k z"
proof (induction k)
  case (Suc k)
  then show ?case
    by (simp add: list_update_append take_Suc_conv_app_nth Cons_nth_drop_Suc [symmetric])
qed simp

lemma fold_update_all:
  assumes "List.map mf_field fs = [0..<length z]" and "length m = length z"
  shows "fold (\<lambda>f z. z[mf_field f := m ! mf_field f]) fs z = m"
proof -
  have "fold (\<lambda>f z. z[mf_field f := m ! mf_field f]) fs z =
      fold (\<lambda>i z. z[i := m ! i]) (List.map mf_field fs) z"
    by (simp add: fold_map comp_def)
  also have "\<dots> = m" using assms by (simp add: fold_update)
  finally show ?thesis .
qed

lemma fields_read:
  assumes "\<And>f. f \<in> set fs \<Longrightarrow> kind_reads (mf_kind f)"
    and "list_all (\<lambda>f. field_matches f u) fs" and "list_all (\<lambda>f. field_fits f m) fs"
    and "fields_marshal t fs b m = Inr c"
  shows "\<exists>e. c = b @ e \<and> length e = fields_size fs m \<and>
    (\<forall>m0 r. distinct (List.map mf_field fs) \<longrightarrow>
       (\<forall>f \<in> set fs. mf_field f < length m0 \<and> m0 ! mf_field f = kind_zero (mf_kind f)) \<longrightarrow>
       length e + length r < 2 ^ 64 \<longrightarrow>
       unmarshal u m0 (e @ r) = unmarshal u (fold (\<lambda>f z. z[mf_field f := m ! mf_field f]) fs m0) r)"
  using assms
proof (induction fs arbitrary: b)
  case Nil
  then show ?case by simp
next
  case (Cons f fs)
  obtain i wt ts isptr name k where f: "f = MField i wt ts isptr name k" by (cases f)
  from Cons.prems(2,3) f obtain n uk where
    match: "ts = SizeVarint wt" "unat (wt AND 7) = kind_wire k" 
      "u_lookup u (unat (drop_bit 3 wt)) = Some (UField i n uk)" "kind_matches k uk"
    and fit: "kind_fits k (m ! i)"
    by (auto split: option.splits ufield.splits)
  from Cons.prems(4) f fit obtain c' where c': "field_marshal k b (m ! i) wt = Inr c'"
    and rest: "fields_marshal t fs c' m = Inr c"
    by (auto simp: kind_marshal_nil split: if_splits sum.splits)
  have size: "fields_size (f # fs) m = field_size k (m ! i) ts + fields_size fs m"
    using f fit by (simp add: kind_marshal_nil)
  have "kind_reads k" using Cons.prems(1) [of f] by (simp add: f)
  then obtain e where e: "c' = b @ e" "length e = field_size k (m ! i) ts"
    "\<And>m0 r. i < length m0 \<Longrightarrow> m0 ! i = kind_zero k \<Longrightarrow> length e + length r < 2 ^ 64 \<Longrightarrow>
       unmarshal u m0 (e @ r) = unmarshal u (m0[i := m ! i]) r"
    using c' fit match unfolding kind_reads_def by blast
  from Cons.IH [OF Cons.prems(1) _ _ rest] Cons.prems(2,3) obtain es where es: "c = c' @ es"
    "length es = fields_size fs m"
    "\<And>m0 r. distinct (List.map mf_field fs) \<Longrightarrow>
       \<forall>f \<in> set fs. mf_field f < length m0 \<and> m0 ! mf_field f = kind_zero (mf_kind f) \<Longrightarrow>
       length es + length r < 2 ^ 64 \<Longrightarrow>
       unmarshal u m0 (es @ r) = unmarshal u (fold (\<lambda>f z. z[mf_field f := m ! mf_field f]) fs m0) r"
    by auto
  have "unmarshal u m0 ((e @ es) @ r) =
      unmarshal u (fold (\<lambda>f z. z[mf_field f := m ! mf_field f]) (f # fs) m0) r"
    if d: "distinct (List.map mf_field (f # fs))"
      and z: "\<forall>f \<in> set (f # fs). mf_field f < length m0 \<and> m0 ! mf_field f = kind_zero (mf_kind f)"
      and l: "length (e @ es) + length r < 2 ^ 64" for m0 r
  proof -
    have "unmarshal u m0 (e @ es @ r) = unmarshal u (m0[i := m ! i]) (es @ r)"
      using z l f by (intro e(3)) simp_all
    also have "\<dots> = unmarshal u (fold (\<lambda>f z. z[mf_field f := m ! mf_field f]) fs (m0[i := m ! i])) r"
      using d z l f by (intro es(3)) (auto simp: nth_list_update image_iff)
    finally show ?thesis using f by simp
  qed
  then show ?case
    using e(1,2) es(1,2) size by (intro exI [of _ "e @ es"]) simp
qed

lemma info_reads_fields:
  assumes "\<And>f. f \<in> set fs \<Longrightarrow> kind_reads (mf_kind f)"
  shows "info_reads (MarshalInfo t fs)"
  unfolding info_reads_def
proof (intro allI impI)
  fix b m c u
  assume c: "info_marshal (MarshalInfo t fs) b m = Inr c" and fits: "info_fits (MarshalInfo t fs) m"
    and u: "info_matches (MarshalInfo t fs) u"
  then have n: "length m = length (ui_zero u)" "List.map mf_field fs = [0..<length (ui_zero u)]"
    by (simp_all, metis length_map length_upt minus_nat.diff_0)
  have zero: "mf_field f < length (ui_zero u) \<and> ui_zero u ! mf_field f = kind_zero (mf_kind f)"
    if "f \<in> set fs" for f
  proof -
    have "mf_field f \<in> set (List.map mf_field fs)" using that by simp
    then have "mf_field f < length (ui_zero u)" unfolding n(2) by simp
    moreover have "field_matches f u" using u that by (simp add: list_all_iff)
    ultimately show ?thesis by (cases f) simp
  qed
  have "distinct (List.map mf_field fs)" by (simp add: n(2))
  with fields_read [OF assms, of fs u m t b c] c fits u zero
  obtain e where e: "c = b @ e" "length e = fields_size fs m"
    "\<And>r. length e + length r < 2 ^ 64 \<Longrightarrow>
       unmarshal u (ui_zero u) (e @ r) =
       unmarshal u (fold (\<lambda>f z. z[mf_field f := m ! mf_field f]) fs (ui_zero u)) r"
    by auto
  from e(3) [of "[]"] have "unmarshal u (ui_zero u) e = Inr m" if "length e < 2 ^ 64"
    using that fold_update_all [OF n(2,1)] by simp
  with e(1,2) show "\<exists>e. c = b @ e \<and> length e = info_size (MarshalInfo t fs) m \<and>
      (length e < 2 ^ 64 \<longrightarrow> unmarshal u (ui_zero u) e = Inr m)"
    by auto
qed

text \<open>Every table reads back.\<close>

lemma all_read:
  "kind_reads (mf_kind f)" "kind_reads k" "info_reads mi"
proof (induction f and k and mi rule: mfield.induct mkind.induct minfo.induct)
qed (auto intro: kind_reads_bool kind_reads_int32 kind_reads_string kind_reads_message
    kind_reads_messages info_reads_fields)

lemma marshal_unmarshal:
  assumes "info_marshal mi b m = Inr c" and "info_fits mi m" and "info_matches mi u"
  shows "\<exists>e. c = b @ e \<and> length e = info_size mi m \<and>
    (length e < 2 ^ 64 \<longrightarrow> unmarshal u (ui_zero u) e = Inr m)"
  using all_read(3) [of mi] assms unfolding info_reads_def by blast

section \<open>Which messages can be encoded\<close>

text \<open>A message whose texts are all UTF-8 and whose slices hold no nil.\<close>

fun info_clean :: "minfo \<Rightarrow> fval list \<Rightarrow> bool"
and field_clean :: "mfield \<Rightarrow> fval list \<Rightarrow> bool"
and kind_clean :: "mkind \<Rightarrow> fval \<Rightarrow> bool" where
  "info_clean (MarshalInfo t fs) m = (length m = length fs \<and> list_all (\<lambda>f. field_clean f m) fs)"
| "field_clean (MField i wiretag tagsize isptr name k) m = kind_clean k (m ! i)"
| "kind_clean BoolValueNoZero v = (case v of VBool _ \<Rightarrow> True | _ \<Rightarrow> False)"
| "kind_clean VarintS32ValueNoZero v = (case v of VInt32 _ \<Rightarrow> True | _ \<Rightarrow> False)"
| "kind_clean StringValueNoZero v = (case v of VString s \<Rightarrow> ValidString s | _ \<Rightarrow> False)"
| "kind_clean (MessageMarshaler u) v =
     (case v of VPtr p \<Rightarrow> (case p of None \<Rightarrow> True | Some p \<Rightarrow> info_clean u p) | _ \<Rightarrow> False)"
| "kind_clean (MessageSliceMarshaler u) v =
     (case v of
        VPtrs ps \<Rightarrow> list_all (\<lambda>p. case p of None \<Rightarrow> False | Some p \<Rightarrow> info_clean u p) ps
      | _ \<Rightarrow> False)"

lemma append_messages_ok:
  "(\<exists>c. append_messages enc siz wt b ps = Inr c) \<longleftrightarrow> list_all (\<lambda>p. case p of None \<Rightarrow> False | Some p \<Rightarrow> ok p) ps"
  if "\<And>b p. Some p \<in> set ps \<Longrightarrow> (\<exists>c. enc b p = Inr c) \<longleftrightarrow> ok p"
  using that
proof (induction enc siz wt b ps rule: append_messages.induct)
  case (3 enc siz wt b p ps)
  show ?case
  proof (cases "enc (appendVarint (appendVarint b wt) (word_of_nat (siz p))) p")
    case (Inl e)
    then have "\<not> ok p" using "3.prems" [of p "appendVarint (appendVarint b wt) (word_of_nat (siz p))"] by simp
    with Inl show ?thesis by simp
  next
    case (Inr b')
    then show ?thesis using "3.IH" [OF Inr] "3.prems" by auto
  qed
qed auto

lemma fields_marshal_ok:
  assumes "\<And>f b wt. f \<in> set fs \<Longrightarrow>
      (\<exists>c. field_marshal (mf_kind f) b (m ! mf_field f) wt = Inr c) \<longleftrightarrow> kind_clean (mf_kind f) (m ! mf_field f)"
    and "list_all (\<lambda>f. field_fits f m) fs"
  shows "(\<exists>c. fields_marshal t fs b m = Inr c) \<longleftrightarrow> list_all (\<lambda>f. field_clean f m) fs"
  using assms
proof (induction fs arbitrary: b)
  case (Cons f fs)
  obtain i wt ts isptr name k where f: "f = MField i wt ts isptr name k" by (cases f)
  have k: "(\<exists>c. field_marshal k b (m ! i) wt = Inr c) \<longleftrightarrow> kind_clean k (m ! i)"
    using Cons.prems(1) [of f b wt] by (simp add: f)
  have nil: "field_marshal k b (m ! i) wt = Inr b" if "isptr" "nil_field (m ! i)"
    using that Cons.prems(2) by (simp add: f kind_marshal_nil)
  have IH: "(\<exists>c. fields_marshal t fs b m = Inr c) \<longleftrightarrow> list_all (\<lambda>f. field_clean f m) fs" for b
    using Cons.prems by (intro Cons.IH) auto
  show ?case
  proof (cases "field_marshal k b (m ! i) wt")
    case (Inl e)
    then show ?thesis using k nil by (auto simp: f)
  next
    case (Inr c)
    then show ?thesis using k nil IH [of c] IH [of b] by (auto simp: f)
  qed
qed simp

lemma marshal_ok_all:
  "field_fits f m \<Longrightarrow>
     (\<exists>c. field_marshal (mf_kind f) b (m ! mf_field f) wt = Inr c) \<longleftrightarrow> kind_clean (mf_kind f) (m ! mf_field f)"
  "kind_fits k v \<Longrightarrow> (\<exists>c. field_marshal k b v wt = Inr c) \<longleftrightarrow> kind_clean k v"
  "info_fits mi m \<Longrightarrow> (\<exists>c. info_marshal mi b m = Inr c) \<longleftrightarrow> info_clean mi m"
proof (induction f and k and mi arbitrary: m b wt and v b wt and m b rule: mfield.induct mkind.induct minfo.induct)
  case (MessageSliceMarshaler mi)
  then obtain ps where v: "v = VPtrs ps" by (auto split: fval.splits)
  have "(\<exists>c. info_marshal mi b p = Inr c) \<longleftrightarrow> info_clean mi p" if "Some p \<in> set ps" for b p
    using MessageSliceMarshaler that by (force simp: v list_all_iff)
  from append_messages_ok [OF this] show ?case by (simp add: v)
next
  case (MarshalInfo t fs)
  then show ?case using fields_marshal_ok [of fs m t b] by (force simp: list_all_iff)
qed (auto simp: Let_def split: fval.splits option.splits)

lemmas marshal_iff_clean = marshal_ok_all(3)

section \<open>What the decoder returns\<close>

text \<open>The decoder keeps to its bytes, and a bad wire type never leaves it.\<close>

lemma varint_within:
  assumes "\<not> (word_of_nat n :: 64 word) < x"
  shows "unat x \<le> n"
proof -
  have "unat x \<le> unat (word_of_nat n :: 64 word)" using assms by (simp add: word_less_nat_alt)
  also have "\<dots> \<le> n" by (simp add: unat_of_nat take_bit_nat_less_eq_self)
  finally show ?thesis .
qed

definition group_end_ok :: "byte list \<Rightarrow> wire_err + int \<times> int \<Rightarrow> bool" where
  "group_end_ok b x = (case x of Inl _ \<Rightarrow> False | Inr (_, y) \<Rightarrow> y = -1 \<or> 0 \<le> y \<and> y \<le> int (length b))"

lemma group_end_if:
  "(c \<Longrightarrow> group_end_ok b x) \<Longrightarrow> (\<not> c \<Longrightarrow> group_end_ok b y) \<Longrightarrow> group_end_ok b (if c then x else y)"
  by simp

lemma findEndGroup_bounds: "i \<le> length b \<Longrightarrow> group_end_ok b (findEndGroup b depth i)"
proof (induction "length b - i" arbitrary: depth i rule: less_induct)
  case less
  have bad: "group_end_ok b (Inr (-1, -1))" by (simp add: group_end_ok_def)
  have IH: "group_end_ok b (findEndGroup b d j)" if "i < j" "j \<le> length b" for d j
    using that by (intro less.hyps) simp_all
  obtain x n where x: "decodeVarint (drop i b) = (x, n)" by fastforce
  then have n: "i + n \<le> length b" using decodeVarint_bound [OF x] less.prems by simp
  obtain y k where y: "decodeVarint (drop (i + n) b) = (y, k)" by fastforce
  then have k: "i + n + k \<le> length b" using decodeVarint_bound [OF y] n by simp
  have "i + n + k + unat y \<le> length b" if "\<not> word_of_nat (length b - (i + n + k)) < y"
    using varint_within [OF that] k by simp
  then have far: "group_end_ok b (findEndGroup b depth (i + n + k + unat y))"
    if "n \<noteq> 0" "\<not> word_of_nat (length b - (i + n + k)) < y"
    using that by (intro IH) simp_all
  have here: "group_end_ok b (Inr (int i, int (i + n)))" using n by (simp add: group_end_ok_def)
  have eq: "findEndGroup b depth i =
      (if n = 0 then Inr (-1, -1)
       else if unat (x AND 7) = WireVarint then
         (if k = 0 then Inr (-1, -1) else findEndGroup b depth (i + n + k))
       else if unat (x AND 7) = WireFixed32 then
         (if int (length b) - 4 < int (i + n) then Inr (-1, -1) else findEndGroup b depth (i + n + 4))
       else if unat (x AND 7) = WireFixed64 then
         (if int (length b) - 8 < int (i + n) then Inr (-1, -1) else findEndGroup b depth (i + n + 8))
       else if unat (x AND 7) = WireBytes then
         (if k = 0 then Inr (-1, -1)
          else if word_of_nat (length b - (i + n + k)) < y then Inr (-1, -1)
          else findEndGroup b depth (i + n + k + unat y))
       else if unat (x AND 7) = WireStartGroup then findEndGroup b (Suc depth) (i + n)
       else if unat (x AND 7) = WireEndGroup then
         (if depth - 1 = 0 then Inr (int i, int (i + n)) else findEndGroup b (depth - 1) (i + n))
       else Inr (-1, -1))"
    unfolding findEndGroup.simps [of b depth i]
    by (simp only: slice_in less.prems n sum.case prod.case x y Let_def)
  have more: "n \<noteq> 0 \<Longrightarrow> group_end_ok b (findEndGroup b depth (i + n + k))"
    "\<not> int (length b) - 4 < int (i + n) \<Longrightarrow> group_end_ok b (findEndGroup b depth (i + n + 4))"
    "\<not> int (length b) - 8 < int (i + n) \<Longrightarrow> group_end_ok b (findEndGroup b depth (i + n + 8))"
    "n \<noteq> 0 \<Longrightarrow> group_end_ok b (findEndGroup b d (i + n))" for d
    using n k by (auto intro!: IH)
  show ?case
    unfolding eq by (intro group_end_if bad far here more) assumption+
qed

text \<open>The errors of the decoder.\<close>

definition decode_error :: "wire_err \<Rightarrow> bool" where
  "decode_error e =
     (case e of ErrUnexpectedEOF \<Rightarrow> True | ErrIllegalTag _ _ \<Rightarrow> True | ErrFieldUTF8 _ \<Rightarrow> True
      | ErrCantSkip _ \<Rightarrow> True | _ \<Rightarrow> False)"

lemma decode_error_simps [simp]:
  "decode_error ErrUnexpectedEOF" "decode_error (ErrIllegalTag t w)" "decode_error (ErrFieldUTF8 n)"
  "decode_error (ErrCantSkip w)"
  by (simp_all add: decode_error_def)

lemma skipField_safe: "skipField b w = Inl e \<Longrightarrow> decode_error e"
proof -
  assume err: "skipField b w = Inl e"
  obtain x n where x: "decodeVarint b = (x, n)" by fastforce
  have n: "n \<le> length b" using decodeVarint_bound [OF x] .
  have "unat (word_of_nat n + x) \<le> length b" if "\<not> word_of_nat (length b - n) < x"
  proof -
    have "unat (word_of_nat n + x) \<le> unat (word_of_nat n :: 64 word) + unat x"
      by (simp add: unat_word_ariths)
    also have "\<dots> \<le> n + unat x" by (simp add: unat_of_nat take_bit_nat_less_eq_self)
    also have "\<dots> \<le> length b" using varint_within [OF that] n by simp
    finally show ?thesis .
  qed
  moreover have "group_end_ok b (findEndGroup b 1 0)" by (rule findEndGroup_bounds) simp
  ultimately show ?thesis
    using n err by (auto simp: skipField_def x group_end_ok_def split: if_splits sum.splits)
qed

lemma delimited_safe: "delimited b w = Inl e \<Longrightarrow> e = ErrUnexpectedEOF \<or> e = ErrBadWireType"
proof -
  assume err: "delimited b w = Inl e"
  obtain x n where x: "decodeVarint b = (x, n)" by fastforce
  have "n \<le> length b" using decodeVarint_bound [OF x] .
  moreover have "unat x \<le> length b - n" if "\<not> word_of_nat (length b - n) < x"
    using varint_within [OF that] .
  ultimately show ?thesis using err by (auto simp: delimited_def x split: if_splits)
qed

lemma scalar_safe:
  "unmarshalInt32Value b w = Inl e \<Longrightarrow> e \<in> {ErrUnexpectedEOF, ErrBadWireType, ErrInvalidUTF8}"
  "unmarshalBoolValue b w = Inl e \<Longrightarrow> e \<in> {ErrUnexpectedEOF, ErrBadWireType, ErrInvalidUTF8}"
  "unmarshalStringValue b w = Inl e \<Longrightarrow> e \<in> {ErrUnexpectedEOF, ErrBadWireType, ErrInvalidUTF8}"
proof -
  obtain x n where x: "decodeVarint b = (x, n)" by fastforce
  have "n \<le> length b" using decodeVarint_bound [OF x] .
  then show "unmarshalInt32Value b w = Inl e \<Longrightarrow> e \<in> {ErrUnexpectedEOF, ErrBadWireType, ErrInvalidUTF8}"
    "unmarshalBoolValue b w = Inl e \<Longrightarrow> e \<in> {ErrUnexpectedEOF, ErrBadWireType, ErrInvalidUTF8}"
    by (auto simp: unmarshalInt32Value_def unmarshalBoolValue_def x split: if_splits)
  show "unmarshalStringValue b w = Inl e \<Longrightarrow> e \<in> {ErrUnexpectedEOF, ErrBadWireType, ErrInvalidUTF8}"
    using delimited_safe [of b w] by (auto simp: unmarshalStringValue_def split: sum.splits if_splits)
qed

lemma read_tag_safe: "b \<noteq> [] \<Longrightarrow> read_tag b = Inl e \<Longrightarrow> decode_error e"
  by (auto simp: read_tag_decodeVarint split: prod.splits if_splits)

lemma unmarshal_error_safe:
  "e = ErrBadWireType \<or> e = ErrInvalidUTF8 \<or> decode_error e \<Longrightarrow> e \<noteq> ErrBadWireType \<Longrightarrow>
     decode_error (unmarshal_error t name e)"
  by (auto simp: unmarshal_error_def)

lemma unmarshal_safe: "unmarshal u m b = Inl e \<Longrightarrow> decode_error e"
proof (induction "length b" arbitrary: u m b e rule: less_induct)
  case less
  have skip: "decode_error e"
    if "(case skipField r w of Inl err \<Rightarrow> Inl err | Inr r \<Rightarrow> unmarshal u m r) = Inl e" "length r < length b" for r w
    using that less.hyps [OF le_less_trans [OF skipField_shorter that(2)]] skipField_safe [of r w]
    by (auto split: sum.splits)
  have field: "e = ErrBadWireType \<or> e = ErrInvalidUTF8 \<or> decode_error e"
    if r: "length r < length b" and err: "read_field u k v r w = Inl e" for k v r w e
  proof -
    have "decode_error e" if "delimited r w = Inr (bx, r')" "unmarshal sub z bx = Inl e" for sub z bx r' e
      using less.hyps [OF _ that(2)] r delimited_shorter [OF that(1)] by simp
    then show ?thesis
      using err delimited_safe [of r w] scalar_safe [of r w]
      by (cases k) (fastforce simp: read_field_def split: sum.splits prod.splits)+
  qed
  show ?case
  proof (cases "b = []")
    case True
    then show ?thesis using less.prems by simp
  next
    case False
    show ?thesis
    proof (cases "read_tag b")
      case (Inl e')
      then have "e = e'" using less.prems by (subst (asm) unmarshal.simps) (simp add: False)
      then show ?thesis using read_tag_safe [OF False] Inl by simp
    next
      case (Inr xr)
      then obtain x r where t: "read_tag b = Inr (x, r)" by (cases xr) auto
      have r: "length r < length b" using read_tag_shorter [OF False t] .
      note turn = unmarshal_turn [OF False t, of u m]
      show ?thesis
      proof (cases "u_lookup u (unat (drop_bit 3 x))")
        case None
        then show ?thesis using turn less.prems skip [OF _ r] by simp
      next
        case (Some uf)
        obtain i name k where uf: "uf = UField i name k" by (cases uf)
        show ?thesis
        proof (cases "read_field u k (m ! i) r (unat (x AND 7))")
          case (Inl e')
          then show ?thesis
            using turn less.prems skip [OF _ r] field [OF r Inl] Some uf
            by (auto intro: unmarshal_error_safe split: if_splits)
        next
          case (Inr vr)
          then obtain v r' where v: "read_field u k (m ! i) r (unat (x AND 7)) = Inr (v, r')" by (cases vr) auto
          then have "unmarshal u (m[i := v]) r' = Inl e" using turn less.prems Some uf by simp
          then show ?thesis using less.hyps [of r'] read_field_shorter [OF v] r by simp
        qed
      qed
    qed
  qed
qed

text \<open>A decoder that succeeds has made a number of assignments to fields and nothing else.\<close>

lemma unmarshal_invariant:
  assumes "\<And>m tag i name k r w v r'. I m \<Longrightarrow> u_lookup u tag = Some (UField i name k) \<Longrightarrow> length r < length b \<Longrightarrow>
      read_field u k (m ! i) r w = Inr (v, r') \<Longrightarrow> I (m[i := v])"
    and "I m" and "unmarshal u m b = Inr m'"
  shows "I m'"
  using assms
proof (induction "length b" arbitrary: m b rule: less_induct)
  case less
  have IH: "I m'" if "length c < length b" "I m1" "unmarshal u m1 c = Inr m'" for c m1
    by (rule less.hyps [OF that(1) _ that(2,3)]) (use less.prems(1) that(1) in \<open>meson less_trans\<close>)
  show ?case
  proof (cases "b = []")
    case True
    then show ?thesis using less.prems(2,3) by simp
  next
    case False
    then obtain x r where t: "read_tag b = Inr (x, r)"
      using less.prems(3) by (subst (asm) unmarshal.simps) (auto split: sum.splits)
    have r: "length r < length b" using read_tag_shorter [OF False t] .
    have skip: "I m'" if "(case skipField r w of Inl err \<Rightarrow> Inl err | Inr r \<Rightarrow> unmarshal u m r) = Inr m'" for w
      using that IH [OF le_less_trans [OF skipField_shorter r] less.prems(2)] by (auto split: sum.splits)
    show ?thesis
    proof (cases "u_lookup u (unat (drop_bit 3 x))")
      case None
      then show ?thesis using unmarshal_turn [OF False t, of u m] less.prems(3) skip by simp
    next
      case (Some uf)
      obtain i name k where uf: "uf = UField i name k" by (cases uf)
      show ?thesis
      proof (cases "read_field u k (m ! i) r (unat (x AND 7))")
        case (Inl e)
        then show ?thesis
          using unmarshal_turn [OF False t, of u m] less.prems(3) skip Some uf by (auto split: if_splits)
      next
        case (Inr vr)
        obtain v r' where vr: "vr = (v, r')" by (cases vr)
        have "I (m[i := v])"
          using less.prems(1) [OF less.prems(2) Some [unfolded uf] r] Inr vr by blast
        moreover have "unmarshal u (m[i := v]) r' = Inr m'"
          using unmarshal_turn [OF False t, of u m] less.prems(3) Some uf Inr vr by simp
        moreover have "length r' < length b" using read_field_shorter Inr vr r by fastforce
        ultimately show ?thesis using IH by blast
      qed
    qed
  qed
qed

lemma u_lookup_known:
  assumes "info_matches (MarshalInfo t fs) u" and "u_lookup u tag = Some uf"
  shows "uf = UField 0 [] IllegalTag \<or> (\<exists>f \<in> set fs. field_takes f uf)"
proof (cases "tag < length (ui_dense u)")
  case True
  then have "Some uf \<in> set (ui_dense u)" using assms(2) nth_mem [OF True] by (simp add: u_lookup_def)
  then show ?thesis using assms(1) by (force simp: list_all_iff list_ex_iff)
next
  case False
  then have "(tag, uf) \<in> set (ui_sparse u)" using assms(2) by (simp add: u_lookup_def map_of_SomeD)
  then show ?thesis using assms(1) by (force simp: list_all_iff list_ex_iff)
qed

lemma zero_clean:
  assumes "info_matches mi u"
  shows "info_clean mi (ui_zero u)"
proof (cases mi)
  case (MarshalInfo t fs)
  have "length (ui_zero u) = length fs"
    using assms by (simp add: MarshalInfo, metis length_map length_upt minus_nat.diff_0)
  moreover have "field_clean f (ui_zero u)" if "f \<in> set fs" for f
  proof -
    have "field_matches f u" using assms that by (simp add: MarshalInfo list_all_iff)
    then show ?thesis by (cases f; cases "mf_kind f") auto
  qed
  ultimately show ?thesis by (simp add: MarshalInfo list_all_iff)
qed

text \<open>Whatever bytes it is given, a decoder that succeeds leaves a message that can be encoded.\<close>

lemma unmarshal_clean:
  assumes "info_matches mi u" and "info_clean mi m" and "unmarshal u m b = Inr m'"
  shows "info_clean mi m'"
  using assms
proof (induction "length b" arbitrary: mi u m b m' rule: less_induct)
  case less
  obtain t fs where mi: "mi = MarshalInfo t fs" by (cases mi)
  show ?case
  proof (rule unmarshal_invariant [where I = "info_clean mi" and u = u and b = b and m = m])
    show "info_clean mi m" by fact
    show "unmarshal u m b = Inr m'" by fact
  next
    fix m tag i name k r w v r'
    assume clean: "info_clean mi m" and l: "u_lookup u tag = Some (UField i name k)"
      and r: "length r < length b" and v: "read_field u k (m ! i) r w = Inr (v, r')"
    from v have "k \<noteq> IllegalTag" by (auto simp: read_field_def)
    with u_lookup_known [OF less.prems(1) [unfolded mi] l] obtain f where f: "f \<in> set fs" "field_takes f (UField i name k)"
      by auto
    from f(2) obtain wt ts isptr nm mk where fe: "f = MField i wt ts isptr nm mk" and mk: "kind_matches mk k"
      by (cases f) auto
    have old: "kind_clean mk (m ! i)" using clean f fe by (auto simp: mi list_all_iff)
    have sub: "info_clean mi' y" if "info_matches mi' u'" "info_clean mi' z" "unmarshal u' z bx = Inr y"
      "delimited r w = Inr (bx, q)" for mi' u' z bx y q
      using delimited_shorter [OF that(4)] r by (intro less.hyps [OF _ that(1-3)]) simp
    have new: "kind_clean mk v"
      using v mk old
      by (cases mk) (auto simp: read_field_def unmarshalBoolValue_def unmarshalInt32Value_def unmarshalStringValue_def
          split: if_splits sum.splits prod.splits option.splits ukind.splits fval.splits
          intro: sub [OF _ zero_clean] sub)
    have n: "List.map mf_field fs = [0..<length (ui_zero u)]" using less.prems(1) by (simp add: mi)
    then have inj: "distinct (List.map mf_field fs)" by simp
    have "mf_field f \<in> set (List.map mf_field fs)" using f(1) by simp
    moreover have "length m = length (ui_zero u)"
      using clean arg_cong [OF n, of length] by (simp add: mi)
    ultimately have i: "i < length m" unfolding n fe by simp
    have "field_clean g (m[i := v])" if g: "g \<in> set fs" for g
    proof (cases "g = f")
      case True
      then show ?thesis using new i fe by simp
    next
      case False
      then have "mf_field g \<noteq> i" using inj g f(1) fe by (auto simp: distinct_map inj_on_def)
      moreover have "field_clean g m" using clean g by (simp add: mi list_all_iff)
      ultimately show ?thesis by (cases g) simp
    qed
    then show "info_clean mi (m[i := v])" using clean by (simp add: mi list_all_iff)
  qed
qed

end
