(* ===== verification/Pb_Wire_Props.thy ===== *)
theory Pb_Wire_Props
  imports Pb_Wire Wire_Props
begin

text \<open>
  The messages of the service go over the wire and come back. What the codec promises of a message
  type is proved once, in the locale \<open>wire_message\<close>, and interpreted on the five messages a call
  of the service sends.
\<close>

section \<open>The tables\<close>

definition EmptyMessage_minfo :: minfo where
  "EmptyMessage_minfo = MarshalInfo ''EmptyMessage''
     []"

definition EmptyMessage_uinfo :: uinfo where
  "EmptyMessage_uinfo = UnmarshalInfo ''EmptyMessage''
     []
     [Some (UField 0 [] IllegalTag)] []"

definition VersionResponse_minfo :: minfo where
  "VersionResponse_minfo = MarshalInfo ''VersionResponse''
     [MField 0 10 1 False ''Name'' StringValueNoZero,
      MField 1 18 1 False ''Version'' StringValueNoZero]"

definition VersionResponse_uinfo :: uinfo where
  "VersionResponse_uinfo = UnmarshalInfo ''VersionResponse''
     [VString [], VString []]
     [Some (UField 0 [] IllegalTag), Some (UField 0 ''name'' StringValue),
      Some (UField 1 ''version'' StringValue)] []"

definition ServiceStatus_minfo :: minfo where
  "ServiceStatus_minfo = MarshalInfo ''ServiceStatus''
     [MField 0 10 1 False ''Name'' StringValueNoZero,
      MField 1 18 1 False ''Version'' StringValueNoZero,
      MField 2 24 1 False ''Status'' VarintS32ValueNoZero,
      MField 3 34 1 False ''EMsg'' StringValueNoZero]"

definition ServiceStatus_uinfo :: uinfo where
  "ServiceStatus_uinfo = UnmarshalInfo ''ServiceStatus''
     [VString [], VString [], VInt32 0, VString []]
     [Some (UField 0 [] IllegalTag), Some (UField 0 ''name'' StringValue),
      Some (UField 1 ''version'' StringValue), Some (UField 2 ''status'' Int32Value),
      Some (UField 3 ''e_msg'' StringValue)] []"

definition ServicesStatusList_minfo :: minfo where
  "ServicesStatusList_minfo = MarshalInfo ''ServicesStatusList''
     [MField 0 10 1 True ''Services'' (MessageSliceMarshaler ServiceStatus_minfo)]"

definition ServicesStatusList_uinfo :: uinfo where
  "ServicesStatusList_uinfo = UnmarshalInfo ''ServicesStatusList''
     [VPtrs []]
     [Some (UField 0 [] IllegalTag),
      Some (UField 0 ''services'' (MessageSlicePtr ServiceStatus_uinfo))] []"

definition RsvpCreationRequest_minfo :: minfo where
  "RsvpCreationRequest_minfo = MarshalInfo ''RsvpCreationRequest''
     [MField 0 10 1 False ''Names'' StringValueNoZero,
      MField 1 18 1 False ''Email'' StringValueNoZero,
      MField 2 24 1 False ''Presence'' BoolValueNoZero,
      MField 3 34 1 False ''ChildrenNameAge'' StringValueNoZero,
      MField 4 40 1 False ''Housing'' BoolValueNoZero,
      MField 5 50 1 False ''Music'' StringValueNoZero,
      MField 6 56 1 False ''Brunch'' BoolValueNoZero]"

definition RsvpCreationRequest_uinfo :: uinfo where
  "RsvpCreationRequest_uinfo = UnmarshalInfo ''RsvpCreationRequest''
     [VString [], VString [], VBool False, VString [], VBool False, VString [], VBool False]
     [Some (UField 0 [] IllegalTag), Some (UField 0 ''names'' StringValue),
      Some (UField 1 ''email'' StringValue), Some (UField 2 ''presence'' BoolValue),
      Some (UField 3 ''children_name_age'' StringValue), Some (UField 4 ''housing'' BoolValue),
      Some (UField 5 ''music'' StringValue), Some (UField 6 ''brunch'' BoolValue)] []"

definition RsvpInfo_minfo :: minfo where
  "RsvpInfo_minfo = MarshalInfo ''RsvpInfo''
     [MField 0 10 1 False ''Uuid'' StringValueNoZero,
      MField 1 18 1 False ''Names'' StringValueNoZero,
      MField 2 26 1 False ''Email'' StringValueNoZero,
      MField 3 32 1 False ''Presence'' BoolValueNoZero,
      MField 4 42 1 False ''ChildrenNameAge'' StringValueNoZero,
      MField 5 48 1 False ''Housing'' BoolValueNoZero,
      MField 6 58 1 False ''Music'' StringValueNoZero,
      MField 7 64 1 False ''Brunch'' BoolValueNoZero,
      MField 8 74 1 False ''CreatedAt'' StringValueNoZero,
      MField 9 82 1 False ''UpdatedAt'' StringValueNoZero,
      MField 10 90 1 False ''DeletedAt'' StringValueNoZero]"

definition RsvpInfo_uinfo :: uinfo where
  "RsvpInfo_uinfo = UnmarshalInfo ''RsvpInfo''
     [VString [], VString [], VString [], VBool False, VString [], VBool False, VString [],
      VBool False, VString [], VString [], VString []]
     [Some (UField 0 [] IllegalTag), Some (UField 0 ''uuid'' StringValue),
      Some (UField 1 ''names'' StringValue), Some (UField 2 ''email'' StringValue),
      Some (UField 3 ''presence'' BoolValue), Some (UField 4 ''children_name_age'' StringValue),
      Some (UField 5 ''housing'' BoolValue), Some (UField 6 ''music'' StringValue),
      Some (UField 7 ''brunch'' BoolValue), Some (UField 8 ''created_at'' StringValue),
      Some (UField 9 ''updated_at'' StringValue), Some (UField 10 ''deleted_at'' StringValue)] []"

definition RsvpCreationResponse_minfo :: minfo where
  "RsvpCreationResponse_minfo = MarshalInfo ''RsvpCreationResponse''
     [MField 0 8 1 False ''Ok'' BoolValueNoZero,
      MField 1 18 1 True ''Info'' (MessageMarshaler RsvpInfo_minfo)]"

definition RsvpCreationResponse_uinfo :: uinfo where
  "RsvpCreationResponse_uinfo = UnmarshalInfo ''RsvpCreationResponse''
     [VBool False, VPtr None]
     [Some (UField 0 [] IllegalTag), Some (UField 0 ''ok'' BoolValue),
      Some (UField 1 ''info'' (MessagePtr RsvpInfo_uinfo))] []"

lemmas minfo_defs = EmptyMessage_minfo_def VersionResponse_minfo_def ServiceStatus_minfo_def
  ServicesStatusList_minfo_def RsvpCreationRequest_minfo_def RsvpInfo_minfo_def
  RsvpCreationResponse_minfo_def

lemmas uinfo_defs = EmptyMessage_uinfo_def VersionResponse_uinfo_def ServiceStatus_uinfo_def
  ServicesStatusList_uinfo_def RsvpCreationRequest_uinfo_def RsvpInfo_uinfo_def
  RsvpCreationResponse_uinfo_def

lemmas field_defs = EmptyMessage_fields_def VersionResponse_fields_def ServiceStatus_fields_def
  ServicesStatusList_fields_def RsvpCreationRequest_fields_def RsvpInfo_fields_def
  RsvpCreationResponse_fields_def

lemmas tag_simps = ParseInt_def digit_val_def less_eq_char_def wiretype_def wire_types
  mf_setTag_def SizeVarint_def uf_setTag_def HasPrefix_def

text \<open>The tables are the ones the codec computes from the struct types.\<close>

lemma computed_minfo:
  "computeMarshalInfo ''EmptyMessage'' EmptyMessage_fields = Some EmptyMessage_minfo"
  "computeMarshalInfo ''VersionResponse'' VersionResponse_fields = Some VersionResponse_minfo"
  "computeMarshalInfo ''ServiceStatus'' ServiceStatus_fields = Some ServiceStatus_minfo"
  "computeMarshalInfo ''ServicesStatusList'' ServicesStatusList_fields = Some ServicesStatusList_minfo"
  "computeMarshalInfo ''RsvpCreationRequest'' RsvpCreationRequest_fields = Some RsvpCreationRequest_minfo"
  "computeMarshalInfo ''RsvpInfo'' RsvpInfo_fields = Some RsvpInfo_minfo"
  "computeMarshalInfo ''RsvpCreationResponse'' RsvpCreationResponse_fields = Some RsvpCreationResponse_minfo"
  by (simp_all add: computeMarshalInfo_def field_defs minfo_defs tag_simps)

lemma computed_uinfo:
  "computeUnmarshalInfo ''EmptyMessage'' EmptyMessage_fields = Some EmptyMessage_uinfo"
  "computeUnmarshalInfo ''VersionResponse'' VersionResponse_fields = Some VersionResponse_uinfo"
  "computeUnmarshalInfo ''ServiceStatus'' ServiceStatus_fields = Some ServiceStatus_uinfo"
  "computeUnmarshalInfo ''ServicesStatusList'' ServicesStatusList_fields = Some ServicesStatusList_uinfo"
  "computeUnmarshalInfo ''RsvpCreationRequest'' RsvpCreationRequest_fields = Some RsvpCreationRequest_uinfo"
  "computeUnmarshalInfo ''RsvpInfo'' RsvpInfo_fields = Some RsvpInfo_uinfo"
  "computeUnmarshalInfo ''RsvpCreationResponse'' RsvpCreationResponse_fields = Some RsvpCreationResponse_uinfo"
  by (simp_all add: computeUnmarshalInfo_def field_defs uinfo_defs tag_simps)

text \<open>And they agree.\<close>

lemma tables_match:
  "info_matches EmptyMessage_minfo EmptyMessage_uinfo"
  "info_matches VersionResponse_minfo VersionResponse_uinfo"
  "info_matches ServiceStatus_minfo ServiceStatus_uinfo"
  "info_matches ServicesStatusList_minfo ServicesStatusList_uinfo"
  "info_matches RsvpCreationRequest_minfo RsvpCreationRequest_uinfo"
  "info_matches RsvpInfo_minfo RsvpInfo_uinfo"
  "info_matches RsvpCreationResponse_minfo RsvpCreationResponse_uinfo"
  by (simp_all add: minfo_defs uinfo_defs u_lookup_def tag_simps)

section \<open>What the codec promises of a message type\<close>

lemma computed_zero: "computeUnmarshalInfo t fs = Some u \<Longrightarrow> ui_zero u = zero_struct fs"
  by (auto simp: computeUnmarshalInfo_def split: option.splits prod.splits)

locale wire_message =
  fixes tname :: string and fs :: "struct_field list" and mi :: minfo and u :: uinfo
    and mem :: "'a \<Rightarrow> fval list" and unmem :: "fval list \<Rightarrow> 'a"
  assumes marshal_table: "computeMarshalInfo tname fs = Some mi"
    and unmarshal_table: "computeUnmarshalInfo tname fs = Some u"
    and tables: "info_matches mi u"
    and mem_fits: "info_fits mi (mem m)"
    and unmem_mem: "unmem (mem m) = m"
    and mem_unmem: "info_clean mi x \<Longrightarrow> mem (unmem x) = x"
begin

lemma Marshal_table: "codec_Marshal tname fs (Some x) = info_marshal mi [] x"
  by (simp add: codec_Marshal_def Buffer_Marshal_def marshal_table)

lemma Unmarshal_table: "codec_Unmarshal tname fs b = unmarshal u (ui_zero u) b"
  by (simp add: codec_Unmarshal_def Buffer_Unmarshal_def unmarshal_table computed_zero [OF unmarshal_table])

lemma Marshal_ok: "(\<exists>b. codec_Marshal tname fs (Some (mem m)) = Inr b) \<longleftrightarrow> info_clean mi (mem m)"
  by (simp add: Marshal_table marshal_iff_clean [OF mem_fits])

lemma Marshal_size:
  "codec_Marshal tname fs (Some (mem m)) = Inr b \<Longrightarrow> length b = Buffer_Size tname fs (Some (mem m))"
  using marshal_unmarshal [OF _ mem_fits tables, of "[]"]
  by (auto simp: Marshal_table Buffer_Size_def marshal_table)

lemma round_trip:
  "codec_Marshal tname fs (Some (mem m)) = Inr b \<Longrightarrow> length b < 2 ^ 64 \<Longrightarrow>
     map_sum id unmem (codec_Unmarshal tname fs b) = Inr m"
  using marshal_unmarshal [OF _ mem_fits tables, of "[]" m b]
  by (auto simp: Marshal_table Unmarshal_table unmem_mem)

lemma Unmarshal_safe: "map_sum id unmem (codec_Unmarshal tname fs b) = Inl e \<Longrightarrow> decode_error e"
  using unmarshal_safe [of u "ui_zero u" b] by (cases "codec_Unmarshal tname fs b") (auto simp: Unmarshal_table)

lemma decoded_is_encodable:
  assumes "map_sum id unmem (codec_Unmarshal tname fs b) = Inr m"
  shows "\<exists>c. codec_Marshal tname fs (Some (mem m)) = Inr c"
proof -
  obtain x where x: "codec_Unmarshal tname fs b = Inr x" "unmem x = m"
    using assms by (cases "codec_Unmarshal tname fs b") auto
  have "info_clean mi x"
    using unmarshal_clean [OF tables zero_clean [OF tables]] x(1) by (simp add: Unmarshal_table)
  then have "info_clean mi (mem m)" using mem_unmem [of x] x(2) by simp
  then show ?thesis by (simp add: Marshal_ok)
qed

end

text \<open>The messages of the service.\<close>

lemma EmptyMessage_eq: "EmptyMessage = m"
  by (cases m) simp

lemmas list_shape = length_Suc_conv numeral_eq_Suc

interpretation empty_wire: wire_message "''EmptyMessage''" EmptyMessage_fields EmptyMessage_minfo
  EmptyMessage_uinfo EmptyMessage_mem mem_EmptyMessage
  by unfold_locales
    (simp_all add: computed_minfo computed_uinfo tables_match,
      simp_all add: minfo_defs EmptyMessage_mem_def mem_EmptyMessage_def EmptyMessage_eq)

interpretation version_wire: wire_message "''VersionResponse''" VersionResponse_fields
  VersionResponse_minfo VersionResponse_uinfo VersionResponse_mem mem_VersionResponse
  by unfold_locales
    (simp_all add: computed_minfo computed_uinfo tables_match,
      auto simp: minfo_defs VersionResponse_mem_def mem_VersionResponse_def list_shape split: fval.splits)

interpretation status_wire: wire_message "''ServiceStatus''" ServiceStatus_fields
  ServiceStatus_minfo ServiceStatus_uinfo ServiceStatus_mem mem_ServiceStatus
  by unfold_locales
    (simp_all add: computed_minfo computed_uinfo tables_match,
      auto simp: ServiceStatus_minfo_def ServiceStatus_mem_def mem_ServiceStatus_def list_shape split: fval.splits)

interpretation request_wire: wire_message "''RsvpCreationRequest''" RsvpCreationRequest_fields
  RsvpCreationRequest_minfo RsvpCreationRequest_uinfo RsvpCreationRequest_mem mem_RsvpCreationRequest
  by unfold_locales
    (simp_all add: computed_minfo computed_uinfo tables_match,
      auto simp: RsvpCreationRequest_minfo_def RsvpCreationRequest_mem_def mem_RsvpCreationRequest_def list_shape
        split: fval.splits)

interpretation info_wire: wire_message "''RsvpInfo''" RsvpInfo_fields
  RsvpInfo_minfo RsvpInfo_uinfo RsvpInfo_mem mem_RsvpInfo
  by unfold_locales
    (simp_all add: computed_minfo computed_uinfo tables_match,
      auto simp: RsvpInfo_minfo_def RsvpInfo_mem_def mem_RsvpInfo_def list_shape split: fval.splits)

lemma statuses_mem:
  "list_all (\<lambda>p. case p of None \<Rightarrow> False | Some p \<Rightarrow> info_clean ServiceStatus_minfo p) ps \<Longrightarrow>
     List.map (map_option ServiceStatus_mem) (List.map (map_option mem_ServiceStatus) ps) = ps"
  by (induction ps) (auto simp: status_wire.mem_unmem split: option.splits)

interpretation list_wire: wire_message "''ServicesStatusList''" ServicesStatusList_fields
  ServicesStatusList_minfo ServicesStatusList_uinfo ServicesStatusList_mem mem_ServicesStatusList
proof unfold_locales
  show "info_fits ServicesStatusList_minfo (ServicesStatusList_mem m)" for m
    by (auto simp: ServicesStatusList_minfo_def ServicesStatusList_mem_def list_all_iff
        status_wire.mem_fits split: option.splits)
  show "mem_ServicesStatusList (ServicesStatusList_mem m) = m" for m
    by (cases m) (simp add: mem_ServicesStatusList_def ServicesStatusList_mem_def comp_def option.map_comp
        status_wire.unmem_mem option.map_ident)
  show "ServicesStatusList_mem (mem_ServicesStatusList x) = x" if "info_clean ServicesStatusList_minfo x" for x
    using that statuses_mem
    by (auto simp: ServicesStatusList_minfo_def mem_ServicesStatusList_def ServicesStatusList_mem_def list_shape
        split: fval.splits)
qed (simp_all add: computed_minfo computed_uinfo tables_match)

interpretation response_wire: wire_message "''RsvpCreationResponse''" RsvpCreationResponse_fields
  RsvpCreationResponse_minfo RsvpCreationResponse_uinfo RsvpCreationResponse_mem mem_RsvpCreationResponse
proof unfold_locales
  show "info_fits RsvpCreationResponse_minfo (RsvpCreationResponse_mem m)" for m
    by (auto simp: RsvpCreationResponse_minfo_def RsvpCreationResponse_mem_def info_wire.mem_fits split: option.splits)
  show "mem_RsvpCreationResponse (RsvpCreationResponse_mem m) = m" for m
    by (cases m) (simp add: mem_RsvpCreationResponse_def RsvpCreationResponse_mem_def comp_def option.map_comp
        info_wire.unmem_mem option.map_ident)
  show "RsvpCreationResponse_mem (mem_RsvpCreationResponse x) = x"
    if "info_clean RsvpCreationResponse_minfo x" for x
    using that info_wire.mem_unmem
    by (auto simp: RsvpCreationResponse_minfo_def mem_RsvpCreationResponse_def RsvpCreationResponse_mem_def list_shape
        split: fval.splits option.splits)
qed (simp_all add: computed_minfo computed_uinfo tables_match)


section \<open>Properties\<close>

text \<open>
  The bytes of a request: its fields in the order of their numbers, an empty text and a false flag
  left out. The number of a field and its wire type make the first byte.
\<close>

definition text_field :: "nat \<Rightarrow> string \<Rightarrow> byte list" where
  "text_field n s =
     (if s = [] then []
      else word_of_nat (8 * n + 2) # appendVarint [] (word_of_nat (length s)) @ string_bytes s)"

definition flag_field :: "nat \<Rightarrow> bool \<Rightarrow> byte list" where
  "flag_field n v = (if v then [word_of_nat (8 * n), 1] else [])"

lemma append_small_tag: "v < 128 \<Longrightarrow> appendVarint b v = b @ [ucast v]"
  by (simp add: appendVarint_def)

lemma text_field_marshal:
  assumes "wt < 128"
  shows "field_marshal StringValueNoZero b (VString s) wt =
    (if ValidString s then
       Inr (b @ (if s = [] then []
                 else ucast wt # appendVarint [] (word_of_nat (length s)) @ string_bytes s))
     else Inl ErrInvalidUTF8)"
  by (simp add: Let_def append_small_tag [OF assms] appendVarint_Nil [of "b @ [ucast wt]"])

lemma flag_field_marshal:
  assumes "wt < 128"
  shows "field_marshal BoolValueNoZero b (VBool v) wt = Inr (b @ (if v then [ucast wt, 1] else []))"
  by (simp add: append_small_tag [OF assms])

text \<open>
  C14: the encoder, which is driven by tables made of the struct type, writes a request exactly as
  the format says: the fields in the order of their numbers, empty ones left out. When some text is
  not UTF-8 there are no bytes; the error names the first such field.
\<close>

theorem request_on_the_wire:
  "Marshal_RsvpCreationRequest (Some m) =
     (case find (\<lambda>(name, s). \<not> ValidString s)
        [(''Names'', rq_Names m), (''Email'', rq_Email m), (''ChildrenNameAge'', rq_ChildrenNameAge m),
         (''Music'', rq_Music m)] of
        Some (name, _) \<Rightarrow> Inl (ErrFieldUTF8 (''grpc.hugdubois.www.RsvpCreationRequest.'' @ name))
      | None \<Rightarrow>
          Inr (text_field 1 (rq_Names m) @ text_field 2 (rq_Email m) @ flag_field 3 (rq_Presence m) @
            text_field 4 (rq_ChildrenNameAge m) @ flag_field 5 (rq_Housing m) @
            text_field 6 (rq_Music m) @ flag_field 7 (rq_Brunch m)))"
  unfolding Marshal_RsvpCreationRequest_def option.map request_wire.Marshal_table
  by (simp add: RsvpCreationRequest_minfo_def RsvpCreationRequest_mem_def text_field_marshal
      flag_field_marshal marshal_error_def revProtoTypes_def text_field_def flag_field_def
      del: field_marshal.simps)

text \<open>
  C12: what is written is read back: the bytes of a request or of a reply decode to the same message,
  and there are as many as the size that was computed beforehand.
\<close>

theorem messages_round_trip:
  assumes "length b < 2 ^ 64"
  shows "(Marshal_RsvpCreationRequest (Some rq) = Inr b \<longrightarrow>
      Unmarshal_RsvpCreationRequest b = Inr rq \<and>
      length b = Buffer_Size ''RsvpCreationRequest'' RsvpCreationRequest_fields (Some (RsvpCreationRequest_mem rq))) \<and>
    (Marshal_RsvpCreationResponse (Some rs) = Inr b \<longrightarrow>
      Unmarshal_RsvpCreationResponse b = Inr rs \<and>
      length b = Buffer_Size ''RsvpCreationResponse'' RsvpCreationResponse_fields (Some (RsvpCreationResponse_mem rs))) \<and>
    (Marshal_ServicesStatusList (Some sl) = Inr b \<longrightarrow>
      Unmarshal_ServicesStatusList b = Inr sl \<and>
      length b = Buffer_Size ''ServicesStatusList'' ServicesStatusList_fields (Some (ServicesStatusList_mem sl))) \<and>
    (Marshal_VersionResponse (Some vr) = Inr b \<longrightarrow>
      Unmarshal_VersionResponse b = Inr vr \<and>
      length b = Buffer_Size ''VersionResponse'' VersionResponse_fields (Some (VersionResponse_mem vr)))"
  using request_wire.round_trip [OF _ assms] request_wire.Marshal_size
    response_wire.round_trip [OF _ assms] response_wire.Marshal_size
    list_wire.round_trip [OF _ assms] list_wire.Marshal_size
    version_wire.round_trip [OF _ assms] version_wire.Marshal_size
  by (simp add: Marshal_RsvpCreationRequest_def Unmarshal_RsvpCreationRequest_def
      Marshal_RsvpCreationResponse_def Unmarshal_RsvpCreationResponse_def
      Marshal_ServicesStatusList_def Unmarshal_ServicesStatusList_def
      Marshal_VersionResponse_def Unmarshal_VersionResponse_def)

theorem messages_round_trip_witness:
  "Unmarshal_VersionResponse [10, 2, 97, 98, 18, 1, 49] = Inr \<lparr>vr_Name = ''ab'', vr_Version = ''1''\<rparr>"
proof -
  have "Marshal_VersionResponse (Some \<lparr>vr_Name = ''ab'', vr_Version = ''1''\<rparr>) = Inr [10, 2, 97, 98, 18, 1, 49]"
    unfolding Marshal_VersionResponse_def option.map version_wire.Marshal_table
    by (simp add: VersionResponse_minfo_def VersionResponse_mem_def text_field_marshal string_bytes_def
        appendVarint_def byte_in_def del: field_marshal.simps)
  then show ?thesis
    using messages_round_trip [of "[10, 2, 97, 98, 18, 1, 49]" RsvpCreationRequest_Reset
        RsvpCreationResponse_Reset ServicesStatusList_Reset "\<lparr>vr_Name = ''ab'', vr_Version = ''1''\<rparr>"]
    by simp
qed

text \<open>
  C13: whatever the bytes, a decoder returns: a message, which then can be encoded (its texts are
  UTF-8 and no element of a list is nil), or one of four errors: too few bytes, field number zero, a
  text that is not UTF-8, a wire type that does not exist. It never reads past the end.
\<close>

theorem any_bytes_decode:
  "(case Unmarshal_RsvpCreationRequest b of
      Inl e \<Rightarrow> decode_error e | Inr m \<Rightarrow> (\<exists>c. Marshal_RsvpCreationRequest (Some m) = Inr c)) \<and>
   (case Unmarshal_RsvpCreationResponse b of
      Inl e \<Rightarrow> decode_error e | Inr m \<Rightarrow> (\<exists>c. Marshal_RsvpCreationResponse (Some m) = Inr c)) \<and>
   (case Unmarshal_ServicesStatusList b of
      Inl e \<Rightarrow> decode_error e | Inr m \<Rightarrow> (\<exists>c. Marshal_ServicesStatusList (Some m) = Inr c)) \<and>
   (case Unmarshal_VersionResponse b of
      Inl e \<Rightarrow> decode_error e | Inr m \<Rightarrow> (\<exists>c. Marshal_VersionResponse (Some m) = Inr c))"
  using request_wire.Unmarshal_safe [of b] request_wire.decoded_is_encodable [of b]
    response_wire.Unmarshal_safe [of b] response_wire.decoded_is_encodable [of b]
    list_wire.Unmarshal_safe [of b] list_wire.decoded_is_encodable [of b]
    version_wire.Unmarshal_safe [of b] version_wire.decoded_is_encodable [of b]
  by (simp add: Marshal_RsvpCreationRequest_def Unmarshal_RsvpCreationRequest_def
      Marshal_RsvpCreationResponse_def Unmarshal_RsvpCreationResponse_def
      Marshal_ServicesStatusList_def Unmarshal_ServicesStatusList_def
      Marshal_VersionResponse_def Unmarshal_VersionResponse_def split: sum.split)

end
