(* ===== verification/Grpc_Net_Props.thy ===== *)
theory Grpc_Net_Props
  imports Grpc_Net Pb_Wire_Props Service_Props
begin

text \<open>
  A call over a connection has the effect and the answer of the same call in the process of the
  server, as long as its messages can be encoded and are not too large; the theory says what comes
  back in every case.
\<close>

section \<open>Status headers\<close>

lemma decode_unchecked_plain:
  "c \<noteq> CHR ''%'' \<Longrightarrow> decodeGrpcMessageUnchecked (c # t) = c # decodeGrpcMessageUnchecked t"
  by (cases t; cases "tl t") auto

lemma decode_unchecked_no_percent: "\<not> has_percent s \<Longrightarrow> decodeGrpcMessageUnchecked s = s"
  by (induction s rule: has_percent.induct) (auto simp: decode_unchecked_plain)

lemma decodeGrpcMessage_unchecked: "decodeGrpcMessage s = decodeGrpcMessageUnchecked s"
  by (simp add: decodeGrpcMessage_def decode_unchecked_no_percent)

lemma encodeGrpcMessage_unchecked: "encodeGrpcMessage s = encodeGrpcMessageUnchecked s"
proof -
  have "encodeGrpcMessageUnchecked s = s" if "\<not> list_ex (\<lambda>c. \<not> plain_message_byte c) s"
    using that by (induction s) (auto simp: encodeGrpcMessageUnchecked_def)
  then show ?thesis by (auto simp: encodeGrpcMessage_def encodeGrpcMessageUnchecked_def)
qed

lemma hex_value_upper_hex: "n < 16 \<Longrightarrow> hex_digit_value (upper_hex n) = Some n"
proof -
  assume "n < 16"
  then have "n \<in> set [0..<16]" by simp
  then show ?thesis by (auto simp: upt_rec upper_hex_def hex_digit_value_def less_eq_char_def)
qed

lemma decode_percent_byte:
  "decodeGrpcMessageUnchecked (percent_byte c @ t) = c # decodeGrpcMessageUnchecked t"
proof -
  have "of_char c < (256 :: nat)" using of_char_mod_256 [of c] by (metis mod_less_divisor zero_less_numeral)
  then have "hex_digit_value (upper_hex (of_char c div 16)) = Some (of_char c div 16)"
    and "hex_digit_value (upper_hex (of_char c mod 16)) = Some (of_char c mod 16)"
    by (simp_all add: hex_value_upper_hex less_mult_imp_div_less)
  then show ?thesis by (simp add: percent_byte_def)
qed

lemma grpc_message_round_trip: "decodeGrpcMessage (encodeGrpcMessage msg) = msg"
  unfolding decodeGrpcMessage_unchecked encodeGrpcMessage_unchecked
  by (induction msg)
    (auto simp: encodeGrpcMessageUnchecked_def decode_percent_byte decode_unchecked_plain plain_message_byte_def)

lemma code_of_code_number: "c \<in> set all_codes \<Longrightarrow> code_of_number (code_number c mod 2 ^ 32) = c"
  by (auto simp: all_codes_def code_of_number_def)

lemma status_round_trip: "c \<in> set all_codes \<Longrightarrow> stream_status quote (WriteStatus (c, m)) = (c, m)"
proof -
  assume c: "c \<in> set all_codes"
  then have "0 \<le> code_number c \<and> code_number c < 17" by (auto simp: all_codes_def)
  then have "ParseInt (Itoa (code_number c)) = Some (code_number c)" by (intro ParseInt_Itoa) auto
  then show ?thesis
    using code_of_code_number [OF c] by (simp add: stream_status_def WriteStatus_def grpc_message_round_trip)
qed

section \<open>Messages on a stream\<close>

lemma Uint32_PutUint32: "BigEndian_Uint32 (BigEndian_PutUint32 x) = x"
proof (rule bit_word_eqI)
  fix n assume n: "n < LENGTH(32)"
  consider "n < 8" | "8 \<le> n" "n < 16" | "16 \<le> n" "n < 24" | "24 \<le> n" "n < 32" using n by fastforce
  then show "bit (BigEndian_Uint32 (BigEndian_PutUint32 x)) n \<longleftrightarrow> bit x n"
    by cases (auto simp: BigEndian_Uint32_def BigEndian_PutUint32_def bit_simps)
qed

text \<open>What is read of a message that was written, whatever the receiver's limit.\<close>

lemma encode_Inr:
  "encode x = Inr (hdr, data) \<longleftrightarrow>
     x = Inr data \<and> length data \<le> MaxUint32 \<and> hdr = 0 # BigEndian_PutUint32 (word_of_nat (length data))"
  by (auto simp: encode_def split: sum.splits if_splits)

lemma recvMsg_encode:
  assumes "encode x = Inr (hdr, d)"
  shows "recvMsg n (hdr @ d @ r) =
    (if n < length d then
       Inl (RecvStatus CodeResourceExhausted
         (''grpc: received message larger than max ('' @ nat_dec (length d) @ '' vs. '' @ nat_dec n @ '')''))
     else Inr (0, d, r))"
proof -
  from assms have hdr: "hdr = 0 # BigEndian_PutUint32 (word_of_nat (length d))" and d: "length d \<le> MaxUint32"
    by (auto simp: encode_Inr)
  then have len: "length (BigEndian_PutUint32 (word_of_nat (length d))) = 4"
    and u: "unat (word_of_nat (length d) :: 32 word) = length d"
    by (simp_all add: BigEndian_PutUint32_def MaxUint32_def unat_of_nat take_bit_nat_eq_self)
  have "ReadFull 5 (hdr @ d @ r) = Inr (hdr, d @ r)"
    using len by (simp add: ReadFull_def hdr)
  moreover have "drop 1 hdr = BigEndian_PutUint32 (word_of_nat (length d))" by (simp add: hdr)
  moreover have "ReadFull (length d) (d @ r) = Inr (d, r)" if "d \<noteq> []" using that by (simp add: ReadFull_def)
  moreover have "\<not> int (length d) > maxInt" using d by (simp add: MaxUint32_def maxInt_def)
  ultimately show ?thesis
    by (cases "d = []") (simp_all add: recvMsg_def Uint32_PutUint32 u, simp_all add: hdr)
qed

section \<open>What a call answers\<close>

text \<open>
  Which request a method takes and which reply it gives, and an outcome that fits the method: its
  error has a code that is a number of gRPC other than OK, its reply the method's type.
\<close>

definition takes :: "string \<Rightarrow> www_req \<Rightarrow> bool" where
  "takes method req =
     (case req of
        ReqEmpty _ \<Rightarrow> method = Version_name \<or> method = ServicesStatus_name
      | ReqRsvp _ \<Rightarrow> method = RsvpCreation_name)"

definition gives :: "string \<Rightarrow> www_resp \<Rightarrow> bool" where
  "gives method r =
     (case r of
        RespVersion _ \<Rightarrow> method = Version_name
      | RespStatus _ \<Rightarrow> method = ServicesStatus_name
      | RespRsvp _ \<Rightarrow> method = RsvpCreation_name)"

definition proper_error :: "rpc_error \<Rightarrow> bool" where
  "proper_error e \<longleftrightarrow> rpc_error_code e \<in> set all_codes - {CodeOK}"

definition fits_method :: "string \<Rightarrow> www_resp outcome \<Rightarrow> bool" where
  "fits_method method out =
     (case out of
        Panic _ \<Rightarrow> True
      | Ret r (Some e) \<Rightarrow> proper_error e
      | Ret r None \<Rightarrow> (case r of None \<Rightarrow> True | Some r \<Rightarrow> gives method r))"

lemma method_names [simp]:
  "Version_name \<noteq> ServicesStatus_name" "Version_name \<noteq> RsvpCreation_name"
  "ServicesStatus_name \<noteq> Version_name" "ServicesStatus_name \<noteq> RsvpCreation_name"
  "RsvpCreation_name \<noteq> Version_name" "RsvpCreation_name \<noteq> ServicesStatus_name"
  by (simp_all add: Version_name_def ServicesStatus_name_def RsvpCreation_name_def)

lemma proper_codes [simp]:
  "proper_error (status_Errorf0 CodeInvalidArgument m)" "proper_error (status_Errorf0 CodePermissionDenied m)"
  "proper_error (status_Errorf0 CodeUnauthenticated m)" "proper_error (status_Errorf0 CodeInternal m)"
  "proper_error (status_Error CodeInvalidArgument m)" "proper_error (Recovered p)" "proper_error (Plain m)"
  by (simp_all add: proper_error_def all_codes_def status_Errorf0_def status_Error_def)

lemma AuthFuncOverride_error: "AuthFuncOverride verify s c m = Inl e \<Longrightarrow> proper_error e"
  by (auto simp: AuthFuncOverride_def ParseJWTFromContext_def proper_error_def all_codes_def status_Errorf0_def
      dest: AuthFromMD_code split: sum.splits option.splits if_splits)

lemma interceptor_fits:
  assumes "\<And>c s. fits_method method (fst (h c q s))"
  shows "fits_method method (fst (www_interceptor verify env m c q h s))"
proof -
  have "fits_method method (fst (recovery_interceptor c q h s))" for c
    using assms [of c s]
    by (auto simp: recovery_interceptor_def fits_method_def recoverFromPanic_def split: prod.splits outcome.splits)
  then show ?thesis
    unfolding www_interceptor_def stack_unfold
    by (auto simp: fits_method_def dest: AuthFuncOverride_error split: option.splits sum.splits)
qed

lemma serve_fits:
  assumes "takes method req"
  shows "fits_method method (fst (serve drv verify env finish c method req s))"
proof (cases req)
  case (ReqEmpty m)
  have "fits_method Version_name (fst (lift_handler RespVersion (Version c m s)))" for c s
    by (auto simp: lift_handler_def Version_def fits_method_def gives_def)
  moreover have "fits_method ServicesStatus_name (fst (lift_handler RespStatus (ServicesStatus env finish c m s)))"
    for c s
    by (auto simp: lift_handler_def ServicesStatus_def fits_method_def gives_def)
  ultimately show ?thesis
    using assms ReqEmpty by (auto simp: takes_def serve_methods intro!: interceptor_fits)
next
  case (ReqRsvp m)
  have "fits_method RsvpCreation_name (fst (lift_handler RespRsvp (RsvpCreation drv env c m s)))" for c s
    by (auto simp: lift_handler_def RsvpCreation_def fits_method_def gives_def Let_def
        split: option.splits prod.splits)
  then show ?thesis
    using assms ReqRsvp by (auto simp: takes_def serve_methods intro!: interceptor_fits)
qed

section \<open>The call over a connection\<close>

text \<open>What the client gets of an outcome of the server.\<close>

definition over_net :: "(panic \<Rightarrow> string) \<Rightarrow> www_resp outcome \<Rightarrow> www_resp outcome" where
  "over_net pt out =
     (case out of
        Panic p \<Rightarrow> Panic p
      | Ret r (Some e) \<Rightarrow> Ret None (Some (case status_FromError pt e of (c, m) \<Rightarrow> Status c m))
      | Ret r None \<Rightarrow>
          (case sendResponse r of
             Inl e \<Rightarrow> Ret None (Some e)
           | Inr b \<Rightarrow>
               (if length b > 5 + defaultClientMaxReceiveMessageSize then
                  Ret None (Some (Status CodeResourceExhausted
                    (''grpc: received message larger than max ('' @ nat_dec (length b - 5) @ '' vs. '' @
                     nat_dec defaultClientMaxReceiveMessageSize @ '')'')))
                else Ret r None)))"

lemma client_gets_error:
  assumes "proper_error e"
  shows "attempt_recvMsg method [] (reply_status quote (Some (WriteStatus (status_FromError pt e)))) =
    Inl (case status_FromError pt e of (c, m) \<Rightarrow> Status c m)"
proof -
  obtain c m where e: "status_FromError pt e = (c, m)" by fastforce
  then have "c = rpc_error_code e" by (cases e) (auto simp: status_FromError_def)
  then have "c \<in> set all_codes" "c \<noteq> CodeOK" using assms by (auto simp: proper_error_def)
  then show ?thesis
    by (simp add: e attempt_recvMsg_def recv_def recvMsg_def ReadFull_def reply_status_def status_round_trip
        Status_Err_def)
qed


text \<open>A written message has a header of five bytes and is short enough for every length on the wire.\<close>

lemma encode_length:
  "encode x = Inr (hdr, d) \<Longrightarrow> x = Inr d \<and> length (hdr @ d) = 5 + length d \<and> length d < 2 ^ 64"
  by (auto simp: encode_Inr BigEndian_PutUint32_def MaxUint32_def)

lemma sendMsg_Inr:
  "attempt_sendMsg req = Inr b \<longleftrightarrow>
     (\<exists>hdr d. encode (Marshal_req req) = Inr (hdr, d) \<and> b = hdr @ d \<and> length d \<le> defaultClientMaxSendMessageSize)"
  by (auto simp: attempt_sendMsg_def split: sum.splits if_splits)

lemma sendResponse_Inr:
  "sendResponse r = Inr b \<longleftrightarrow>
     (\<exists>hdr d. encode (Marshal_resp r) = Inr (hdr, d) \<and> b = hdr @ d \<and> length d \<le> defaultServerMaxSendMessageSize)"
  by (auto simp: sendResponse_def split: sum.splits if_splits)

lemma sendResponse_error: "sendResponse r = Inl e \<Longrightarrow> proper_error e \<and> (\<exists>c m. e = Status c m)"
  by (auto simp: sendResponse_def encode_def proper_error_def all_codes_def split: sum.splits if_splits)

text \<open>The message is read back as it was written.\<close>

definition method_name :: "string \<Rightarrow> string" where
  "method_name method = tl (dropWhile (\<lambda>x. x \<noteq> CHR ''/'') (tl method))"

lemma method_name_values [simp]:
  "method_name Version_name = ''Version''" "method_name ServicesStatus_name = ''ServicesStatus''"
  "method_name RsvpCreation_name = ''RsvpCreation''"
  by (simp_all add: method_name_def Version_name_def ServicesStatus_name_def RsvpCreation_name_def)

lemma Unmarshal_Marshal_req:
  assumes "takes method req" "Marshal_req req = Inr d" "length d < 2 ^ 64"
  shows "Unmarshal_req (method_name method) d = Inr req"
proof (cases req)
  case (ReqEmpty m)
  then have "codec_Marshal ''EmptyMessage'' EmptyMessage_fields (Some (EmptyMessage_mem m)) = Inr d"
    using assms by (simp add: Marshal_EmptyMessage_def)
  from empty_wire.round_trip [OF this assms(3)] show ?thesis
    using ReqEmpty assms(1) by (auto simp: takes_def Unmarshal_req_def Unmarshal_EmptyMessage_def)
next
  case (ReqRsvp m)
  then have "codec_Marshal ''RsvpCreationRequest'' RsvpCreationRequest_fields
      (Some (RsvpCreationRequest_mem m)) = Inr d"
    using assms by (simp add: Marshal_RsvpCreationRequest_def)
  from request_wire.round_trip [OF this assms(3)] show ?thesis
    using ReqRsvp assms(1) by (auto simp: takes_def Unmarshal_req_def Unmarshal_RsvpCreationRequest_def)
qed

lemma Unmarshal_Marshal_resp:
  assumes "gives method r" "Marshal_resp (Some r) = Inr d" "length d < 2 ^ 64"
  shows "Unmarshal_resp method d = Inr r"
proof (cases r)
  case (RespVersion m)
  then have "codec_Marshal ''VersionResponse'' VersionResponse_fields (Some (VersionResponse_mem m)) = Inr d"
    using assms by (simp add: Marshal_VersionResponse_def)
  from version_wire.round_trip [OF this assms(3)] show ?thesis
    using RespVersion assms(1) by (auto simp: gives_def Unmarshal_resp_def Unmarshal_VersionResponse_def)
next
  case (RespStatus m)
  then have "codec_Marshal ''ServicesStatusList'' ServicesStatusList_fields
      (Some (ServicesStatusList_mem m)) = Inr d"
    using assms by (simp add: Marshal_ServicesStatusList_def)
  from list_wire.round_trip [OF this assms(3)] show ?thesis
    using RespStatus assms(1) by (auto simp: gives_def Unmarshal_resp_def Unmarshal_ServicesStatusList_def)
next
  case (RespRsvp m)
  then have "codec_Marshal ''RsvpCreationResponse'' RsvpCreationResponse_fields
      (Some (RsvpCreationResponse_mem m)) = Inr d"
    using assms by (simp add: Marshal_RsvpCreationResponse_def)
  from response_wire.round_trip [OF this assms(3)] show ?thesis
    using RespRsvp assms(1) by (auto simp: gives_def Unmarshal_resp_def Unmarshal_RsvpCreationResponse_def)
qed

lemma recv_nothing: "recv method [] = Inl RecvEOF"
  by (simp add: recv_def recvMsg_def ReadFull_def)

lemma client_gets_reply:
  assumes "gives method r" "sendResponse (Some r) = Inr b"
  shows "attempt_recvMsg method b (reply_status quote (Some (WriteStatus (CodeOK, [])))) =
    (if length b > 5 + defaultClientMaxReceiveMessageSize then
       Inl (Status CodeResourceExhausted
         (''grpc: received message larger than max ('' @ nat_dec (length b - 5) @ '' vs. '' @
          nat_dec defaultClientMaxReceiveMessageSize @ '')''))
     else Inr r)"
proof -
  obtain hdr d where e: "encode (Marshal_resp (Some r)) = Inr (hdr, d)" and b: "b = hdr @ d"
    using assms(2) by (auto simp: sendResponse_Inr)
  note d = encode_length [OF e]
  have "recv method b = (if defaultClientMaxReceiveMessageSize < length d then
       Inl (RecvStatus CodeResourceExhausted
         (''grpc: received message larger than max ('' @ nat_dec (length d) @ '' vs. '' @
          nat_dec defaultClientMaxReceiveMessageSize @ '')''))
     else Inr (r, []))"
    using recvMsg_encode [OF e, of defaultClientMaxReceiveMessageSize "[]"] d
      Unmarshal_Marshal_resp [OF assms(1)]
    by (simp add: recv_def b checkRecvPayload_def)
  moreover have "reply_status quote (Some (WriteStatus (CodeOK, []))) = (CodeOK, [])"
    by (simp add: reply_status_def status_round_trip all_codes_def)
  ultimately show ?thesis
    using d by (simp add: attempt_recvMsg_def toRPCErr_def recv_nothing Status_Err_def b)
qed


text \<open>The client of an outcome that the server has answered.\<close>

definition client_reads :: "(string \<Rightarrow> string) \<Rightarrow> string \<Rightarrow> net_reply \<times> 's \<Rightarrow> www_resp outcome \<times> 's" where
  "client_reads quote method x =
     (case x of
        (NetPanic p, s) \<Rightarrow> (Panic p, s)
      | (NetReply out h, s) \<Rightarrow>
          (case attempt_recvMsg method out (reply_status quote h) of
             Inl err \<Rightarrow> (Ret None (Some err), s)
           | Inr m \<Rightarrow> (Ret (Some m) None, s)))"

lemma grpc_invoke_reads:
  "grpc_invoke quote pt rx m interceptor c method req s =
     (case attempt_sendMsg req of
        Inl err \<Rightarrow> (Ret None (Some err), s)
      | Inr stream \<Rightarrow> client_reads quote method (handleStream quote pt m interceptor (rx c) method stream s))"
  by (simp add: grpc_invoke_def client_reads_def split: sum.split)

lemma client_reads_error:
  "proper_error e \<Longrightarrow>
     client_reads quote method (NetReply [] (Some (WriteStatus (status_FromError pt e))), s) =
     (Ret None (Some (case status_FromError pt e of (c, m) \<Rightarrow> Status c m)), s)"
  by (simp add: client_reads_def client_gets_error)

text \<open>What \<open>processUnaryRPC\<close> sends of an outcome.\<close>

definition reply_of :: "(panic \<Rightarrow> string) \<Rightarrow> www_resp outcome \<Rightarrow> net_reply" where
  "reply_of pt out =
     (case out of
        Panic p \<Rightarrow> NetPanic p
      | Ret r (Some e) \<Rightarrow> NetReply [] (Some (WriteStatus (status_FromError pt e)))
      | Ret r None \<Rightarrow>
          (case sendResponse r of
             Inl e \<Rightarrow> NetReply [] (Some (WriteStatus (status_FromError pt e)))
           | Inr b \<Rightarrow> NetReply b (Some (WriteStatus (CodeOK, [])))))"

lemma client_reads_reply:
  assumes "fits_method method out"
  shows "client_reads quote method (reply_of pt out, s) = (over_net pt out, s)"
proof (cases out)
  case (Panic p)
  then show ?thesis by (simp add: client_reads_def reply_of_def over_net_def)
next
  case (Ret r e)
  show ?thesis
  proof (cases e)
    case (Some e')
    then show ?thesis
      using assms Ret by (simp add: reply_of_def over_net_def fits_method_def client_reads_error)
  next
    case None
    show ?thesis
    proof (cases "sendResponse r")
      case (Inl e')
      with sendResponse_error [OF Inl] show ?thesis
        using Ret None Inl client_reads_error [where e = e' and pt = pt and s = s]
        by (auto simp: reply_of_def over_net_def status_FromError_def)
    next
      case (Inr b)
      then obtain r' where r: "r = Some r'" by (cases r) (auto simp: sendResponse_def encode_def)
      then have "gives method r'" using assms Ret None by (simp add: fits_method_def)
      from client_gets_reply [OF this] show ?thesis
        using Ret None Inr r by (simp add: reply_of_def over_net_def client_reads_def)
    qed
  qed
qed

lemma client_reads_answer:
  "fits_method method (fst x) \<Longrightarrow>
     client_reads quote method (map_prod (reply_of pt) id x) = (case x of (out, s') \<Rightarrow> (over_net pt out, s'))"
  by (cases x) (simp add: client_reads_reply)

lemma processUnaryRPC_reply:
  assumes "attempt_sendMsg req = Inr b" "takes method req"
  shows "processUnaryRPC pt srv (method_name method) h i c b s =
    (if length b > 5 + defaultServerMaxReceiveMessageSize then
       (NetReply [] (Some (WriteStatus (CodeResourceExhausted,
          ''grpc: received message larger than max ('' @ nat_dec (length b - 5) @ '' vs. '' @
          nat_dec defaultServerMaxReceiveMessageSize @ '')''))), s)
     else map_prod (reply_of pt) id (h srv c req i s))"
proof -
  obtain hdr d where e: "encode (Marshal_req req) = Inr (hdr, d)" and b: "b = hdr @ d"
    using assms(1) by (auto simp: sendMsg_Inr)
  note d = encode_length [OF e]
  have "Unmarshal_req (method_name method) d = Inr req"
    using d Unmarshal_Marshal_req [OF assms(2)] by blast
  then show ?thesis
    using d recvMsg_encode [OF e, of defaultServerMaxReceiveMessageSize "[]"]
    by (auto simp: processUnaryRPC_def b checkRecvPayload_def recv_status_def decode_request_def reply_of_def
        split: prod.splits outcome.splits option.splits sum.splits)
qed

lemma handleStream_methods:
  fixes srv :: "('c, 's) WwwServer"
  assumes "reg = Map.empty(''grpc.hugdubois.www.Www'' \<mapsto> (Www_serviceDesc, srv))"
  shows "handleStream quote pt reg i c Version_name b s =
      processUnaryRPC pt srv (method_name Version_name) Www_Version_Handler i c b s"
    and "handleStream quote pt reg i c ServicesStatus_name b s =
      processUnaryRPC pt srv (method_name ServicesStatus_name) Www_ServicesStatus_Handler i c b s"
    and "handleStream quote pt reg i c RsvpCreation_name b s =
      processUnaryRPC pt srv (method_name RsvpCreation_name) Www_RsvpCreation_Handler i c b s"
  by (simp_all add: assms handleStream_def Version_name_def ServicesStatus_name_def RsvpCreation_name_def
      Www_serviceDesc_def FindUnaryMethod_def method_name_def)


text \<open>The handler of a method, behind the interceptors, is what the channel in the process runs.\<close>

lemma handlers_serve:
  "Www_Version_Handler (www_server drv env finish) (makeServerContext c) (ReqEmpty m)
     (Some (www_interceptor verify env)) s = serve drv verify env finish c Version_name (ReqEmpty m) s"
  "Www_ServicesStatus_Handler (www_server drv env finish) (makeServerContext c) (ReqEmpty m)
     (Some (www_interceptor verify env)) s = serve drv verify env finish c ServicesStatus_name (ReqEmpty m) s"
  "Www_RsvpCreation_Handler (www_server drv env finish) (makeServerContext c) (ReqRsvp r)
     (Some (www_interceptor verify env)) s = serve drv verify env finish c RsvpCreation_name (ReqRsvp r) s"
  by (simp_all add: serve_def RegisterHandlerWww_empty Invoke_methods)

lemma RegisterWwwServer_empty:
  "RegisterWwwServer Map.empty srv = Some [''grpc.hugdubois.www.Www'' \<mapsto> (Www_serviceDesc, srv)]"
  by (simp add: RegisterWwwServer_def RegisterService_def Www_serviceDesc_def)

lemma handleStream_serve:
  fixes verify :: "string \<Rightarrow> string \<Rightarrow> 'b option"
  assumes "takes method req" "attempt_sendMsg req = Inr b"
    and "length b \<le> 5 + defaultServerMaxReceiveMessageSize"
  shows "handleStream quote pt [''grpc.hugdubois.www.Www'' \<mapsto> (Www_serviceDesc, www_server drv env finish)]
      (Some (www_interceptor verify env)) (makeServerContext c) method b (s :: 'a wwwServer) =
    map_prod (reply_of pt) id (serve drv verify env finish c method req s)"
proof -
  have p: "processUnaryRPC pt srv (method_name method) h i c b s = map_prod (reply_of pt) id (h srv c req i s)"
    for srv :: "('b, 'a wwwServer) WwwServer" and h i c s
    using processUnaryRPC_reply [OF assms(2,1)] assms(3) by simp
  show ?thesis
  proof (cases req)
    case (ReqEmpty m)
    then consider "method = Version_name" | "method = ServicesStatus_name"
      using assms(1) by (auto simp: takes_def)
    then show ?thesis
      using p [of _ Www_Version_Handler] p [of _ Www_ServicesStatus_Handler] ReqEmpty by cases (simp_all add: handleStream_methods [OF refl] handlers_serve del: method_name_values)
  next
    case (ReqRsvp m)
    then have "method = RsvpCreation_name" using assms(1) by (auto simp: takes_def)
    then show ?thesis
      using p [of _ Www_RsvpCreation_Handler] ReqRsvp by (simp add: handleStream_methods [OF refl] handlers_serve del: method_name_values)
  qed
qed

lemma handleStream_too_large:
  assumes "takes method req" "attempt_sendMsg req = Inr b"
    and "length b > 5 + defaultServerMaxReceiveMessageSize"
  shows "handleStream quote pt [''grpc.hugdubois.www.Www'' \<mapsto> (Www_serviceDesc, srv)]
      i c method b s =
    (NetReply [] (Some (WriteStatus (status_FromError pt (Status CodeResourceExhausted
       (''grpc: received message larger than max ('' @ nat_dec (length b - 5) @ '' vs. '' @
        nat_dec defaultServerMaxReceiveMessageSize @ '')''))))), s)"
proof -
  have "method = Version_name \<or> method = ServicesStatus_name \<or> method = RsvpCreation_name"
    using assms(1) by (auto simp: takes_def split: www_req.splits)
  then show ?thesis
    using processUnaryRPC_reply [OF assms(2,1)] assms(3)
    by (auto simp: handleStream_methods [OF refl] status_FromError_def simp del: method_name_values)
qed

section \<open>Any bytes\<close>

lemma recvMsg_status_code: "recvMsg n r = Inl (RecvStatus c m) \<Longrightarrow> c = CodeResourceExhausted"
  by (auto simp: recvMsg_def ReadFull_def Let_def split: if_splits sum.splits recv_err.splits)

lemma error_status:
  "WriteStatus (CodeInternal, m) \<noteq> WriteStatus (CodeOK, [])"
  "WriteStatus (CodeResourceExhausted, m) \<noteq> WriteStatus (CodeOK, [])"
  using status_round_trip [of CodeInternal quote m] status_round_trip [of CodeResourceExhausted quote m]
    status_round_trip [of CodeOK quote "[]"] by (auto simp: all_codes_def)

lemma decoded_request_valid:
  assumes "Unmarshal_RsvpCreationRequest b = Inr q"
  shows "list_all ValidString [rq_Names q, rq_Email q, rq_ChildrenNameAge q, rq_Music q]"
proof -
  have "\<exists>c. codec_Marshal ''RsvpCreationRequest'' RsvpCreationRequest_fields (Some (RsvpCreationRequest_mem q)) = Inr c"
    using request_wire.decoded_is_encodable assms by (simp add: Unmarshal_RsvpCreationRequest_def)
  then show ?thesis
    unfolding request_wire.Marshal_ok by (simp add: RsvpCreationRequest_minfo_def RsvpCreationRequest_mem_def)
qed

section \<open>A call that is carried\<close>

lemma net_serve_invoke:
  assumes "rx c = makeServerContext c'" and "attempt_sendMsg req = Inr b"
  shows "net_serve quote rx drv verify env finish c method req s =
    client_reads quote method (handleStream quote (e_panic env)
      [''grpc.hugdubois.www.Www'' \<mapsto> (Www_serviceDesc, www_server drv env finish)]
      (Some (www_interceptor verify env)) (makeServerContext c') method b s)"
  by (simp add: net_serve_def RegisterWwwServer_empty grpc_invoke_reads assms)

text \<open>A request that can be encoded and is not too large has the effect that it has in the process.\<close>

lemma net_serve_carried:
  assumes "takes method req" and "rx c = makeServerContext c'" and "attempt_sendMsg req = Inr b"
    and "length b \<le> 5 + defaultServerMaxReceiveMessageSize"
  shows "net_serve quote rx drv verify env finish c method req s =
    (case serve drv verify env finish c' method req s of (out, s') \<Rightarrow> (over_net (e_panic env) out, s'))"
  by (simp add: net_serve_invoke [where rx = rx and c = c and c' = c', OF assms(2,3)] handleStream_serve [OF assms(1,3,4)]
      client_reads_answer [OF serve_fits [OF assms(1)]])

section \<open>Properties\<close>

text \<open>
  C10: A call over a connection is the same call in the process of the server, seen through the
  connection. A request that cannot be encoded is an error of the client and changes nothing; one
  of more than four megabytes is refused by the server before any handler runs; every other one
  has the effect on the state of the server that it has in the process, and the client gets the
  reply, or the code and the text of the error, whatever bytes it has, unless the reply itself
  cannot be encoded or is more than four megabytes.
\<close>

theorem net_serve_transparent:
  assumes "takes method req" and "rx c = makeServerContext c'"
  shows "net_serve quote rx drv verify env finish c method req s =
    (case attempt_sendMsg req of
       Inl err \<Rightarrow> (Ret None (Some err), s)
     | Inr b \<Rightarrow>
         if length b > 5 + defaultServerMaxReceiveMessageSize then
           (Ret None (Some (Status CodeResourceExhausted
              (''grpc: received message larger than max ('' @ nat_dec (length b - 5) @ '' vs. '' @
               nat_dec defaultServerMaxReceiveMessageSize @ '')''))), s)
         else
           (case serve drv verify env finish c' method req s of
              (out, s') \<Rightarrow> (over_net (e_panic env) out, s')))"
proof -
  have proper: "proper_error (Status CodeResourceExhausted m)" for m
    by (simp add: proper_error_def all_codes_def)
  show ?thesis
  proof (cases "attempt_sendMsg req")
    case (Inl err)
    then show ?thesis by (simp add: net_serve_def RegisterWwwServer_empty grpc_invoke_reads)
  next
    case (Inr b)
    show ?thesis
    proof (cases "length b > 5 + defaultServerMaxReceiveMessageSize")
      case True
      then show ?thesis
        by (simp add: net_serve_invoke [where rx = rx and c = c and c' = c', OF assms(2) Inr] handleStream_too_large [OF assms(1) Inr] Inr
            client_reads_error [OF proper])
          (simp add: status_FromError_def)
    next
      case False
      then show ?thesis by (simp add: net_serve_carried [where rx = rx and c = c and c' = c', OF assms Inr] Inr)
    qed
  qed
qed

theorem net_serve_transparent_witness:
  "net_serve id makeServerContext (mem_driver empty_disk) (\<lambda>_ _. None :: unit option) sample_env [0] Background
     Version_name (ReqEmpty EmptyMessage) sample_server =
   (case serve (mem_driver empty_disk) (\<lambda>_ _. None :: unit option) sample_env [0] Background
      Version_name (ReqEmpty EmptyMessage) sample_server of
      (out, s') \<Rightarrow> (over_net (e_panic sample_env) out, s'))"
proof -
  have "Marshal_EmptyMessage (Some EmptyMessage) = Inr []"
    unfolding Marshal_EmptyMessage_def option.map empty_wire.Marshal_table
    by (simp add: EmptyMessage_minfo_def)
  then have "attempt_sendMsg (ReqEmpty EmptyMessage) = Inr [0, 0, 0, 0, 0]"
    by (simp add: attempt_sendMsg_def encode_def BigEndian_PutUint32_def)
  then show ?thesis
    by (simp add: net_serve_transparent [where c' = Background] takes_def defaultServerMaxReceiveMessageSize_def)
qed


end
