(* ===== verification/Net_System.thy ===== *)
theory Net_System
  imports System Grpc_Net_Props
begin

text \<open>
  The service over a connection keeps the interfaces \<open>www_api\<close> and \<open>www_http_api\<close>: a
  request with texts in UTF-8 and of less than four million bytes reaches the handlers, and every
  answer of the service can be encoded and comes back as it is.
\<close>

section \<open>Texts that can be encoded\<close>

definition ascii :: "string \<Rightarrow> bool" where
  "ascii s \<longleftrightarrow> list_all (byte_in 0 0x7F) s"

lemma ascii_simps [simp]:
  "ascii []" "ascii (c # s) \<longleftrightarrow> byte_in 0 0x7F c \<and> ascii s" "ascii (s @ t) \<longleftrightarrow> ascii s \<and> ascii t"
  "byte_in 0 0x7F c \<Longrightarrow> ascii (replicate n c)"
  by (auto simp: ascii_def list_all_iff)

lemma ascii_ValidString: "ascii s \<Longrightarrow> ValidString s"
  by (induction s) simp_all

lemma hex_digit_ascii: "unat n < 16 \<Longrightarrow> byte_in 0 0x7F (hex_digit n)"
proof -
  have "list_all (byte_in 0 0x7F) ''0123456789abcdef''" by (simp add: byte_in_def)
  moreover assume "unat n < 16"
  ultimately show ?thesis unfolding hex_digit_def list_all_length by simp
qed

lemma hex_encode_ascii: "ascii (hex_encode u)"
proof (induction u)
  case (Cons b u)
  have "unat (b AND 15) < 16" "unat (drop_bit 4 b) < 16"
    by (simp_all add: nibble_lo nibble_hi)
  then show ?case using Cons by (simp add: hex_digit_ascii)
qed simp

lemma UUID_String_ascii: "ascii (UUID_String u)"
  by (simp add: UUID_String_def encodeHex_def hex_encode_ascii byte_in_def)

lemma nat_dec_ascii: "ascii (nat_dec n)"
proof (induction n rule: nat_dec.induct)
  case (1 n)
  then show ?case using mod_less_divisor [of 10 n]
    by (auto simp: nat_dec.simps [of n] digit_char_def byte_in_def)
qed

lemma pad_ascii: "ascii (pad w i)"
  by (simp add: pad_def nat_dec_ascii byte_in_def Let_def)

lemma Format_RFC3339_ascii: "ascii (Format_RFC3339 t)"
proof -
  define D where "D = t div 10 ^ 9 div 86400 + 719162"
  obtain y r where y: "year_yday D = (y, r)" by fastforce
  obtain m d where m: "month_day y r = (m, d)" by fastforce
  show ?thesis
    unfolding Format_RFC3339_def Let_def D_def [symmetric] y m prod.case
    by (simp only: ascii_simps pad_ascii byte_in_def) simp
qed

section \<open>Answers over a connection\<close>

lemma sent_over_net:
  assumes "Marshal_resp (Some r) = Inr d" and "length d \<le> defaultClientMaxReceiveMessageSize"
  shows "over_net pt (Ret (Some r) None) = Ret (Some r) None"
  using assms
  by (simp add: over_net_def sendResponse_def encode_def MaxUint32_def BigEndian_PutUint32_def
      defaultClientMaxReceiveMessageSize_def defaultServerMaxSendMessageSize_def)

lemma attempt_sends:
  assumes "Marshal_req q = Inr d" and "length d \<le> defaultServerMaxReceiveMessageSize"
  obtains b where "attempt_sendMsg q = Inr b" "length b \<le> 5 + defaultServerMaxReceiveMessageSize"
  using assms
  by (simp add: attempt_sendMsg_def encode_def MaxUint32_def BigEndian_PutUint32_def
      defaultServerMaxReceiveMessageSize_def defaultClientMaxSendMessageSize_def)

lemma text_size:
  "field_size StringValueNoZero (VString x) 1 \<le> length x + 11"
  "field_size BoolValueNoZero (VBool y) 1 \<le> 2"
  by (simp_all add: SizeVarint_def Let_def)

definition request_length :: "RsvpCreationRequest \<Rightarrow> nat" where
  "request_length r = length (rq_Names r) + length (rq_Email r) + length (rq_ChildrenNameAge r) + length (rq_Music r)"

definition over_net_sendable :: "RsvpCreationRequest \<Rightarrow> bool" where
  "over_net_sendable r \<longleftrightarrow>
     list_all ValidString [rq_Names r, rq_Email r, rq_ChildrenNameAge r, rq_Music r] \<and> request_length r \<le> 4000000"

lemma request_sends:
  assumes "over_net_sendable r"
  obtains b where "attempt_sendMsg (ReqRsvp r) = Inr b" "length b \<le> 5 + defaultServerMaxReceiveMessageSize"
proof -
  have "info_clean RsvpCreationRequest_minfo (RsvpCreationRequest_mem r)"
    using assms by (simp add: over_net_sendable_def RsvpCreationRequest_minfo_def RsvpCreationRequest_mem_def)
  then obtain d where d: "codec_Marshal ''RsvpCreationRequest'' RsvpCreationRequest_fields
      (Some (RsvpCreationRequest_mem r)) = Inr d"
    using request_wire.Marshal_ok by blast
  have "length d \<le> request_length r + 50"
    using request_wire.Marshal_size [OF d] text_size(1) [of "rq_Names r"] text_size(1) [of "rq_Email r"]
      text_size(1) [of "rq_ChildrenNameAge r"] text_size(1) [of "rq_Music r"] text_size(2) [of "rq_Presence r"]
      text_size(2) [of "rq_Housing r"] text_size(2) [of "rq_Brunch r"]
    by (simp add: Buffer_Size_def request_wire.marshal_table RsvpCreationRequest_minfo_def
        RsvpCreationRequest_mem_def request_length_def del: field_size.simps)
  with assms d show thesis
    by (intro attempt_sends [OF _ _ that])
      (auto simp: Marshal_RsvpCreationRequest_def over_net_sendable_def defaultServerMaxReceiveMessageSize_def)
qed

lemma empty_sends:
  obtains b where "attempt_sendMsg (ReqEmpty m) = Inr b" "length b \<le> 5 + defaultServerMaxReceiveMessageSize"
  by (rule attempt_sends [of "ReqEmpty m" "[]"])
    (simp_all add: Marshal_EmptyMessage_def empty_wire.Marshal_table EmptyMessage_minfo_def)


text \<open>The three answers.\<close>

lemma version_sends: "over_net pt (Ret (Some (RespVersion version_answer)) None) = Ret (Some (RespVersion version_answer)) None"
proof -
  have "info_clean VersionResponse_minfo (VersionResponse_mem version_answer)"
    by (simp add: VersionResponse_minfo_def VersionResponse_mem_def version_answer_def svc_name_def svc_version_def
        VersionResponse_Reset_def byte_in_def)
  then obtain d where d: "codec_Marshal ''VersionResponse'' VersionResponse_fields
      (Some (VersionResponse_mem version_answer)) = Inr d"
    using version_wire.Marshal_ok by blast
  have "length d \<le> length (vr_Name version_answer) + length (vr_Version version_answer) + 22"
    using version_wire.Marshal_size [OF d] text_size(1) [of "vr_Name version_answer"]
      text_size(1) [of "vr_Version version_answer"]
    by (simp add: Buffer_Size_def version_wire.marshal_table VersionResponse_minfo_def
        VersionResponse_mem_def del: field_size.simps)
  then have "length d \<le> defaultClientMaxReceiveMessageSize"
    by (simp add: version_answer_def svc_name_def svc_version_def VersionResponse_Reset_def
        defaultClientMaxReceiveMessageSize_def)
  with d show ?thesis by (intro sent_over_net) (simp_all add: Marshal_VersionResponse_def)
qed

lemma status_sends: "over_net pt (Ret (Some (RespStatus status_answer)) None) = Ret (Some (RespStatus status_answer)) None"
proof -
  have "info_clean ServicesStatusList_minfo (ServicesStatusList_mem status_answer)"
    by (simp add: ServicesStatusList_minfo_def ServicesStatusList_mem_def ServiceStatus_minfo_def
        ServiceStatus_mem_def status_answer_def svc_name_def svc_version_def ServicesStatusList_Reset_def
        ServiceStatus_Reset_def byte_in_def)
  then obtain d where d: "codec_Marshal ''ServicesStatusList'' ServicesStatusList_fields
      (Some (ServicesStatusList_mem status_answer)) = Inr d"
    using list_wire.Marshal_ok by blast
  have "length d \<le> 1000"
    using list_wire.Marshal_size [OF d]
    by (simp add: Buffer_Size_def list_wire.marshal_table ServicesStatusList_minfo_def ServicesStatusList_mem_def
        ServiceStatus_minfo_def ServiceStatus_mem_def status_answer_def svc_name_def svc_version_def
        ServicesStatusList_Reset_def ServiceStatus_Reset_def SizeVarint_def nil_field_def Let_def)
  with d show ?thesis
    by (intro sent_over_net)
      (auto simp: Marshal_ServicesStatusList_def defaultClientMaxReceiveMessageSize_def)
qed

text \<open>The clock of the server in the years 0 to 9999.\<close>

definition on_time :: "gtime \<Rightarrow> bool" where
  "on_time t \<longleftrightarrow> fst (year_yday (t div 10 ^ 9 div 86400 + 719162)) \<in> {0..9999}"

lemma on_time_length: "on_time t \<Longrightarrow> length (Format_RFC3339 t) = 20"
  by (cases "year_yday (t div 10 ^ 9 div 86400 + 719162)") (simp add: on_time_def Format_RFC3339_length)

definition created_info :: "UUID \<Rightarrow> gtime \<Rightarrow> RsvpCreationRequest \<Rightarrow> RsvpInfo" where
  "created_info u now r = convertRsvpFromModelToProtocol (created_rsvp u now r)"

lemma created_sends:
  assumes "over_net_sendable r" and "length u = 16" and "on_time now"
  shows "over_net pt (Ret (Some (RespRsvp (created_answer (created_info u now r)))) None) =
    Ret (Some (RespRsvp (created_answer (created_info u now r)))) None"
proof -
  let ?i = "created_info u now r"
  have i: "?i = \<lparr>ri_Uuid = UUID_String u, ri_Names = rq_Names r, ri_Email = rq_Email r,
      ri_Presence = rq_Presence r, ri_ChildrenNameAge = rq_ChildrenNameAge r, ri_Housing = rq_Housing r,
      ri_Music = rq_Music r, ri_Brunch = rq_Brunch r, ri_CreatedAt = Format_RFC3339 now,
      ri_UpdatedAt = Format_RFC3339 now, ri_DeletedAt = []\<rparr>"
    by (simp add: created_info_def convertRsvpFromModelToProtocol_def created_rsvp_def RsvpInfo_Reset_def)
  have info: "info_clean RsvpInfo_minfo (RsvpInfo_mem ?i)"
    using assms(1)
    by (simp add: i over_net_sendable_def RsvpInfo_minfo_def RsvpInfo_mem_def ascii_ValidString
        UUID_String_ascii Format_RFC3339_ascii)
  then have "info_clean RsvpCreationResponse_minfo (RsvpCreationResponse_mem (created_answer ?i))"
    by (simp add: RsvpCreationResponse_minfo_def RsvpCreationResponse_mem_def created_answer_def)
  then obtain d where d: "codec_Marshal ''RsvpCreationResponse'' RsvpCreationResponse_fields
      (Some (RsvpCreationResponse_mem (created_answer ?i))) = Inr d"
    using response_wire.Marshal_ok by blast
  have "info_size RsvpInfo_minfo (RsvpInfo_mem ?i) \<le> request_length r + 76 + 94"
    using text_size(1) [of "UUID_String u"] text_size(1) [of "rq_Names r"] text_size(1) [of "rq_Email r"]
      text_size(1) [of "rq_ChildrenNameAge r"] text_size(1) [of "rq_Music r"]
      text_size(1) [of "Format_RFC3339 now"] text_size(1) [of "[]"] text_size(2) [of "rq_Presence r"]
      text_size(2) [of "rq_Housing r"] text_size(2) [of "rq_Brunch r"]
    by (simp add: i RsvpInfo_minfo_def RsvpInfo_mem_def request_length_def UUID_String_length [OF assms(2)]
        on_time_length [OF assms(3)] del: field_size.simps)
  moreover have "SizeVarint (word_of_nat (info_size RsvpInfo_minfo (RsvpInfo_mem ?i))) \<le> 10"
    by (simp add: SizeVarint_def)
  ultimately have "length d \<le> request_length r + 190"
    using response_wire.Marshal_size [OF d]
    by (simp add: Buffer_Size_def response_wire.marshal_table RsvpCreationResponse_minfo_def
        RsvpCreationResponse_mem_def created_answer_def nil_field_def Let_def add_le_mono)
  with assms(1) d show ?thesis
    by (intro sent_over_net)
      (auto simp: Marshal_RsvpCreationResponse_def over_net_sendable_def defaultClientMaxReceiveMessageSize_def)
qed

lemma refusal_sends: "over_net pt (Ret r (Some (refusal e))) = Ret None (Some (refusal e))"
  by (simp add: over_net_def refusal_def status_FromError_def)


section \<open>The service over a connection keeps the interface\<close>

text \<open>
  What HTTP/2 makes of the metadata of a caller: the server may see more headers, and the header of
  the authentication as it was sent.
\<close>

definition carries_token :: "('c ctx \<Rightarrow> 'c ctx) \<Rightarrow> bool" where
  "carries_token rx \<longleftrightarrow>
     (\<forall>c. \<exists>c'. rx c = makeServerContext c' \<and>
        AuthFromMD (makeServerContext c') ''bearer'' = AuthFromMD (makeServerContext c) ''bearer'')"

lemma carried_caller:
  assumes "carries_token rx" and "lets_in verify secret c"
  obtains c' where "rx c = makeServerContext c'" "lets_in verify secret c'"
  using assms unfolding carries_token_def lets_in_def by metis

text \<open>A clock in the years 0 to 9999, and sixteen bytes of every read of the random source.\<close>

definition real_env :: "call_env \<Rightarrow> bool" where
  "real_env env \<longleftrightarrow>
     on_time (e_now env) \<and> (case e_rnd env of None \<Rightarrow> True | Some bs \<Rightarrow> length bs = 16)"

lemma real_env_uuid: "real_env env \<Longrightarrow> UUID_New (e_rnd env) = Some u \<Longrightarrow> length u = 16"
  by (cases "e_rnd env") (auto simp: real_env_def UUID_New_def NewRandom_def dest!: sym [of _ u])

definition live_on_time ::
  "'db driver \<Rightarrow> ('db \<Rightarrow> rsvp_row list) \<Rightarrow> ('db \<Rightarrow> bool) \<Rightarrow> string \<Rightarrow> nat \<Rightarrow>
   'db wwwServer \<times> (nat \<Rightarrow> call_env) \<Rightarrow> bool" where
  "live_on_time drv rows up secret n x \<longleftrightarrow>
     live_server drv rows up secret n x \<and> (\<forall>i<n. real_env (snd x i))"

lemma live_on_time_next:
  "live_on_time drv rows up secret (Suc n) (s, es) \<Longrightarrow> live_server drv rows up secret n (s', \<lambda>i. es (Suc i)) \<Longrightarrow>
     live_on_time drv rows up secret n (s', \<lambda>i. es (Suc i))"
  by (simp add: live_on_time_def)

lemma net_serve_www_api:
  assumes "sql_store drv rows base up ord" and "carries_token rx"
  shows "www_api (clocked (\<lambda>env. net_serve quote rx drv verify env [0])) (lets_in verify secret)
    (live_on_time drv rows up secret) over_net_sendable"
proof
  fix c n x
  assume c: "lets_in verify secret c" and "live_on_time drv rows up secret (Suc n) x"
  moreover obtain s es where x: "x = (s, es)" by (cases x)
  ultimately have t: "live_on_time drv rows up secret (Suc n) (s, es)"
    and l: "live_server drv rows up secret (Suc n) (s, es)" and env: "real_env (es 0)"
    by (auto simp: live_on_time_def)
  obtain c' where rx: "rx c = makeServerContext c'" and c': "lets_in verify secret c'"
    using carried_caller [OF assms(2) c] .
  note same = live_on_time_next [OF t live_server_same [OF l]] and calls = live_version [OF c' l]
  obtain b where b: "attempt_sendMsg (ReqEmpty EmptyMessage) = Inr b"
    "length b \<le> 5 + defaultServerMaxReceiveMessageSize"
    by (rule empty_sends)
  note empty = net_serve_carried [where rx = rx and c = c and c' = c' and verify = verify, OF _ rx b]
  show "\<exists>s'. clocked (\<lambda>env. net_serve quote rx drv verify env [0]) c Version_name (ReqEmpty EmptyMessage) x =
      (Ret (Some (RespVersion version_answer)) None, s') \<and> live_on_time drv rows up secret n s'"
    using same by (simp add: clocked_def x empty takes_def calls version_sends)
  show "\<exists>s'. clocked (\<lambda>env. net_serve quote rx drv verify env [0]) c ServicesStatus_name (ReqEmpty EmptyMessage) x =
      (Ret (Some (RespStatus status_answer)) None, s') \<and> live_on_time drv rows up secret n s'"
    using same by (simp add: clocked_def x empty takes_def calls status_sends)
  fix req assume r: "over_net_sendable req"
  obtain b where b: "attempt_sendMsg (ReqRsvp req) = Inr b"
    "length b \<le> 5 + defaultServerMaxReceiveMessageSize"
    by (rule request_sends [OF r])
  note rsvp = net_serve_carried [where rx = rx and c = c and c' = c' and verify = verify, OF _ rx b]
  show "\<exists>s'. clocked (\<lambda>env. net_serve quote rx drv verify env [0]) c RsvpCreation_name (ReqRsvp req) x =
      (Ret None (Some (refusal e)), s') \<and> live_on_time drv rows up secret n s'"
    if "RsvpCreationRequest_Validate req = Some e" for e
    using same by (simp add: clocked_def x rsvp takes_def calls(3) [OF that] refusal_sends)
  show "\<exists>info s'. clocked (\<lambda>env. net_serve quote rx drv verify env [0]) c RsvpCreation_name (ReqRsvp req) x =
      (Ret (Some (RespRsvp (created_answer info))) None, s') \<and> live_on_time drv rows up secret n s' \<and>
      echoes req info"
    if v: "RsvpCreationRequest_Validate req = None"
  proof -
    obtain u s' where u: "serve drv verify (es 0) [0] c' RsvpCreation_name (ReqRsvp req) s =
        (Ret (Some (RespRsvp (created_answer (created_info u (e_now (es 0)) req)))) None, s')"
      "live_server drv rows up secret n (s', \<lambda>i. es (Suc i))" "UUID_New (e_rnd (es 0)) = Some u"
      unfolding created_info_def by (rule live_created [OF assms(1) c' l v])
    have "echoes req (created_info u (e_now (es 0)) req)"
      by (simp add: created_info_def created_echoes)
    with u live_on_time_next [OF t u(2)] created_sends [OF r real_env_uuid [OF env u(3)]] env show ?thesis
      by (auto simp: clocked_def x rsvp takes_def real_env_def)
  qed
qed

lemma net_serve_www_http_api:
  assumes "sql_store drv rows base up ord" and "carries_token rx"
    and "httpServer lib stack rorder gorder net addr origins ca cert key jwt = Inr h"
    and "\<And>creds. ne_Dial net addr 0 creds = Inr (clocked (\<lambda>env. net_serve quote rx drv verify env [0]))"
    and "set rorder = set routeMap" and "set gorder = {''GET'', ''POST''}"
    and "good_token verify secret token"
  shows "www_http_api (clocked (\<lambda>env. net_serve quote rx drv verify env [0])) (lets_in verify secret)
    (live_on_time drv rows up secret) over_net_sendable lib stack rorder gorder net addr origins ca cert key jwt h
    token"
  by (intro www_http_api.intro www_http_api_axioms.intro http_front.intro net_serve_www_api [OF assms(1,2)]
      assms(3-6) lets_in_token [OF assms(7)] lets_in_http [OF assms(7)])

interpretation mem_net_api: www_api "clocked (\<lambda>env. net_serve quote makeServerContext (mem_driver disk) verify env [0])"
    "lets_in verify secret" "live_on_time (mem_driver disk) m_rows mem_up secret" over_net_sendable
  by (rule net_serve_www_api [OF mem.sql_store_axioms]) (auto simp: carries_token_def)

text \<open>The requests of the tests can be carried when the texts of the draw are UTF-8.\<close>

definition draw_utf8 :: "RsvpCreationRequest \<times> string \<Rightarrow> bool" where
  "draw_utf8 draw =
     (case draw of (v, long) \<Rightarrow>
        list_all ValidString [rq_Names v, rq_Email v, rq_ChildrenNameAge v, rq_Music v, long] \<and>
        length (rq_Email v) \<le> 1000000)"

lemma draw_sends:
  assumes "good_draw draw" and "draw_utf8 draw"
  shows "sends over_net_sendable draw"
proof -
  obtain v long where d: "draw = (v, long)" by (cases draw)
  with assms(1) have v: "RsvpCreationRequest_Validate v = None" "length long = 256" by (simp_all add: good_draw_def)
  show ?thesis
    using assms(2) validated_lengths [OF v(1)] v(2)
    by (simp add: d draw_utf8_def sends_def bad_requests_def testGetRsvpCreationRequest_def Let_def
        over_net_sendable_def request_length_def RsvpCreationRequest_Reset_def getter_defs)
qed

end
