(* ===== verification/Spec2Isabelle.thy ===== *)
theory Spec2Isabelle
  imports Cmd_Props Httprule_Gateway Service_Concurrent Pb_Faker_Props Assets_Gen Net_System
begin

text \<open>
  A verification development for \<open>ah-svc-www\<close>, the service behind a wedding site: a gRPC service
  \<open>Www\<close> with three methods (\<open>Version\<close>, \<open>ServicesStatus\<close>, \<open>RsvpCreation\<close>), an HTTP server with a
  JSON gateway to it, embedded pages, metrics and a swagger document, a table of answers to the
  invitation in SQLite, and one executable with the commands \<open>serve\<close>, \<open>cli\<close>, \<open>console\<close>,
  \<open>functest\<close>, \<open>migrate\<close>, \<open>token\<close> and \<open>version\<close>. All paths below are under \<open>src/\<close>.

  \<^bold>\<open>How the parts interact.\<close> A request by HTTP passes the middlewares of \<open>server/server.go\<close>
  (recovery, log, CORS), the router of \<open>service/http.go\<close> and \<open>service/service.go\<close>, and for the API
  the multiplexer of the gateway (\<open>pb/www.pb.gw.go\<close> and the vendored runtime), which calls the
  gRPC server as a client. A gRPC call passes the interceptors (correlation, authentication,
  validation, access, recovery), then a handler of \<open>service/\<close>, which uses \<open>models/\<close>, which uses
  the vendored ORM. The command line drives the same server (\<open>cmd/serve.go\<close>), the same client
  (\<open>client/\<close>, \<open>cmd/remotecli\<close>) and a test session against both (\<open>cmd/functest\<close>).

  \<^bold>\<open>Which theory models what.\<close>

  \<^item> \<open>Prelude\<close>: the collections of facts and the generic lemmas. \<open>Go_Strings\<close>, \<open>Go_Path\<close>,
    \<open>Go_Regexp\<close>, \<open>Go_Fmt\<close>, \<open>Go_Time\<close>, \<open>Go_Http\<close>: what the code uses of the standard library.
  \<^item> \<open>Uuid\<close>: the vendored \<open>google/uuid\<close>. \<open>Pb_Messages\<close>, \<open>Pb_Validator\<close>, \<open>Pb_Grpc\<close>,
    \<open>Pb_Populate\<close>: the generated code of \<open>pb/\<close>, one record per message, the validators, the stubs and
    registries, the populated test messages with their random source in the locale \<open>fair_randy\<close>.
  \<^item> \<open>Gorm\<close>, \<open>Gorm_Store\<close>: scopes, callbacks and statements of the vendored ORM over a driver; the
    locales \<open>sql_store\<close>, \<open>sql_store_no_limit\<close> and \<open>migrating_store\<close> state the laws of an SQL table,
    and an engine on lists interprets them. \<open>Models\<close>, \<open>Models_Facts\<close>, \<open>Models_Props\<close>: \<open>models/\<close>.
  \<^item> \<open>Grpc_Stack\<close>, \<open>Service\<close>, \<open>Service_Facts\<close>, \<open>Service_Props\<close>: interceptors, contexts and tokens;
    the handlers of \<open>service/\<close> on the state \<open>wwwServer\<close>, composed to \<open>serve\<close>.
  \<^item> \<open>Wire\<close>, \<open>Wire_Codec\<close>, \<open>Wire_Props\<close>: the encoder and the decoder of the vendored
    \<open>golang/protobuf\<close> (\<open>table_marshal.go\<close>, \<open>table_unmarshal.go\<close>), driven by the tables they make of a struct
    type. \<open>Pb_Wire\<close>, \<open>Pb_Wire_Props\<close>: the messages of \<open>pb/\<close> in them, by the locale \<open>wire_message\<close>.
    \<open>Grpc_Net\<close>, \<open>Grpc_Net_Props\<close>: a unary call of the vendored \<open>grpc\<close> over a connection, framing,
    limits, dispatch and status headers, on both sides.
  \<^item> \<open>Assets\<close>: \<open>ui/assets.go\<close>, its table of embedded files and its directory tree; \<open>Assets_Gen\<close>: the
    part of \<open>go-bindata\<close> (\<open>_tools\<close>) that named its functions and wrote its tree. \<open>Gw_Pattern\<close>,
    \<open>Gateway\<close>, \<open>Gateway_Props\<close>: path patterns, dispatch, metadata, error replies. \<open>Http\<close>,
    \<open>Http_Props\<close>: the controller and its routes. \<open>Cors\<close>: the vendored middleware. \<open>Server\<close>,
    \<open>Server_Props\<close>: both servers, on one and on two addresses.
  \<^item> \<open>Client\<close>, \<open>Remote_Cli\<close>, \<open>Remote_Cli_Props\<close>: \<open>client/\<close> and the interpreter of commands.
    \<open>Functest\<close>, \<open>Functest_Http\<close>: the tests of \<open>cmd/functest\<close>. \<open>Cmd_Flags\<close>, \<open>Cmd\<close>, \<open>Cmd_Main\<close>,
    \<open>Cmd_Props\<close>: the commands, their flags and the variables these share.
  \<^item> \<open>Service_Concurrent\<close>: calls of \<open>RsvpCreation\<close> at the same time, each in the steps of
    \<open>initDatabaseHandle\<close> and of the creation, under an arbitrary schedule.
  \<^item> \<open>Faker\<close>, \<open>Faker_En\<close>, \<open>Pb_Faker\<close>, \<open>Pb_Faker_Props\<close>: the vendored faker as far as
    \<open>pb/www.gomeetfaker.pb.go\<close> uses it, the English table, and the test data generated with them; the
    source of random numbers is in the locale \<open>fair_rand\<close>.
  \<^item> \<open>Httprule\<close>, \<open>Httprule_Props\<close>, \<open>Httprule_Flat\<close>, \<open>Httprule_Compile\<close>, \<open>Httprule_Gateway\<close>: the parser
    and the compiler of path templates in \<open>_tools\<close>, with which the patterns of \<open>pb/www.pb.gw.go\<close>
    were made out of \<open>pb/www.proto\<close>.
  \<^item> \<open>Www_Api\<close>, \<open>Http_Api\<close>, \<open>Functest_Props\<close>, \<open>Functest_Session\<close>, \<open>System\<close>: the interfaces between
    the parts. The locale \<open>www_api\<close> says what a connection to the service promises an admitted
    caller, \<open>http_front\<close> that an HTTP server stands in front of a connection, \<open>www_http_api\<close> both;
    the tests are proved once against them, and \<open>System\<close> discharges them for the servers of the
    program in one process, \<open>Net_System\<close> for the gRPC server behind a connection.

  \<^bold>\<open>State, effects and errors.\<close> A handler is a function from a context, a request and the state to an
  outcome and a new state; an outcome is a result, an error or a panic. An HTTP handler maps a request
  and a state to a reply or a panic and a state. \<open>log.Fatal\<close> and \<open>os.Exit\<close> end in an exit status. The
  iteration order of a Go map is an argument, and the properties hold for every order. The 64-bit
  durations wrap around as in Go.

  \<^bold>\<open>What the lemmas show.\<close> \<open>Models_Props\<close>: what each query stores, finds, lists, changes and deletes,
  and the invariant \<open>wf_table\<close>. \<open>Service_Props\<close>: an admitted request is carried out, every other one
  changes nothing; the states a server reaches. \<open>Gateway_Props\<close>, \<open>Http_Props\<close>: the route of every
  request, the token on its way through the metadata. \<open>Server_Props\<close>: the servers serve exactly that.
  \<open>Functest_Session\<close>, \<open>Net_System\<close> and this theory: the tests of the program, run against its servers
  in one process and over the wire, pass.
  \<open>Cmd_Props\<close>: the same from the flags to the exit status, what \<open>migrate\<close> may erase, how a console
  ends. \<open>Service_Concurrent\<close>: whatever the interleaving, every call answers after at most five steps,
  the answers and the table are those of the calls one after the other, and every valid one is stored
  once. \<open>Httprule_Compile\<close>: a compiled template matches exactly the paths the template describes;
  \<open>Httprule_Gateway\<close> draws from it that the routes are the declared ones. \<open>Pb_Faker_Props\<close>: the requests
  that the tests draw pass the validators. \<open>Wire_Props\<close>, \<open>Pb_Wire_Props\<close>: the exact bytes and the exact
  size of a message, the round trip, and that no bytes make the decoder read out of bounds.
  \<open>Grpc_Net_Props\<close>: a call over a connection is the call in the process, and what a client gets
  otherwise. \<open>Assets_Gen\<close>: the tree of the embedded files is the one the generator makes of their
  names. The deletions and the update of \<open>models/\<close> never do what their names say, which
  \<open>Models_Props\<close> proves of the code as it is.

  \<^bold>\<open>Bounds and fuel.\<close> \<open>RestoreAssets\<close> walks a tree of depth four with fuel five, which is proved to be
  enough. A session of the functional tests makes sixteen calls: \<open>live_server\<close> asks for identifiers
  for sixteen. The parser of templates gets four units of fuel for each token and four more, which
  \<open>Parse_tmpl_returns\<close> shows to be enough for every text; the faker looks up references with fuel two,
  which is enough for its English table. Loops are structural or have a measure; a console waits when its readings end, and
  \<open>console_ends\<close> shows that it does not once the operator has left.

  \<^bold>\<open>Not modelled.\<close> The JSON of the gateway and of the tests (arguments \<open>marshaler\<close> and \<open>test_env\<close>),
  the signing and checking of token signatures, TLS handshakes and the reading of certificates
  (\<open>net_env\<close>), the network below the streams of gRPC (HTTP/2, flow control, retries, compression),
  the parsing of the command line by cobra, the line editor and the
  configuration library, the tables of the faker for other locales: they are arguments of the
  definitions that use them. The tests take the requests they draw as an argument; \<open>Pb_Faker_Props\<close>
  shows that the faker draws good ones. The steps of concurrent calls follow one another, with a
  pointer read and written as a whole and a transaction of the engine as one step. Metrics and logs only observe. Left out are the deadlines of calls, the
  stream interceptors (the service has no stream), header and trailer metadata of replies, headers
  that were set before a panic, and the front end in Elm. The codec is modelled for the field types
  that the messages of \<open>pb/\<close> have. \<open>ui/assets.go\<close> is a file of
  many megabytes: its fifty-four loaders, its table and its tree are modelled alike, but only what
  stands in the first four megabytes can be pointed at by line; its look-ups are identified with the
  templates in \<open>_tools\<close> that they were written from. The swagger document is a text. The other
  sources of the build tools in \<open>_tools/\<close> and the other vendored packages are not part of the program.
\<close>

section \<open>The whole system\<close>

text \<open>In the process of the server, where the requests need no encoding.\<close>

lemma functional_tests_pass_in_process:
  assumes "sql_store drv rows base up ord"
    and "httpServer lib stack rorder gorder net addr origins ca cert key jwt = Inr h"
    and "\<And>creds. ne_Dial net addr 0 creds = Inr (clocked (\<lambda>env. serve drv verify env [0]))"
    and "set rorder = set routeMap" and "set gorder = {''GET'', ''POST''}"
    and "good_token verify secret (fc_JsonWebToken config)"
    and "connects netc config (clocked (\<lambda>env. serve drv verify env [0]))"
    and "httpClient netc config = Inr (client, host, proto)"
    and "delivers te h proto host" and "json_agrees te (hl_marshaler lib)"
    and "good_draw draw1" and "good_draw draw2"
    and "live_server drv rows up secret 16 s"
  shows "\<exists>s'. runFunctionalTestSession te netc order draw1 draw2 config s =
    (Inr (check_metrics te order (metrics_body lib host config) @ check_swagger te (hl_Swagger lib)), s')"
  using www_http_api.session_result [OF serve_www_http_api [OF assms(1-6)] assms(9,10) refl assms(7,8,11,12) sends_all sends_all,
      of 0 s order] assms(13)
  by auto

text \<open>
  C1: the functional tests, run against the HTTP server and the gRPC server of this program over a
  database that keeps the laws of an SQL table, report nothing but what the metrics page and the
  swagger document lack: every call over gRPC and over HTTP, valid or not, gets the answer the
  tests ask for. Every call to the gRPC server, also those of the gateway, passes the wire: it is
  encoded, framed, decoded, handled behind the interceptors, and its answer or error comes back
  the same way. The token of the tests is verified by the secret, or there is no secret; the
  server has fresh identifiers for the sixteen calls of the session and a clock in the years 0 to
  9999; the texts that the tests draw are UTF-8.
\<close>

theorem functional_tests_pass:
  assumes "sql_store drv rows base up ord" and "carries_token rx"
    and "httpServer lib stack rorder gorder net addr origins ca cert key jwt = Inr h"
    and "\<And>creds. ne_Dial net addr 0 creds = Inr (clocked (\<lambda>env. net_serve quote rx drv verify env [0]))"
    and "set rorder = set routeMap" and "set gorder = {''GET'', ''POST''}"
    and "good_token verify secret (fc_JsonWebToken config)"
    and "connects netc config (clocked (\<lambda>env. net_serve quote rx drv verify env [0]))"
    and "httpClient netc config = Inr (client, host, proto)"
    and "delivers te h proto host" and "json_agrees te (hl_marshaler lib)"
    and "good_draw draw1" and "good_draw draw2" and "draw_utf8 draw1" and "draw_utf8 draw2"
    and "live_on_time drv rows up secret 16 s"
  shows "\<exists>s'. runFunctionalTestSession te netc order draw1 draw2 config s =
    (Inr (check_metrics te order (metrics_body lib host config) @ check_swagger te (hl_Swagger lib)), s')"
  using www_http_api.session_result [OF net_serve_www_http_api [OF assms(1-7)] assms(10,11) refl assms(8,9,12,13)
      draw_sends [OF assms(12,14)] draw_sends [OF assms(13,15)], of 0 s order] assms(16)
  by auto

definition sample_config :: FunctionalTestConfig where
  "sample_config =
     \<lparr>fc_ServerAddress = '':13000'', fc_GrpcServerAddress = [], fc_HttpServerAddress = [], fc_CaCertificate = [],
      fc_ClientCertificate = [], fc_ClientPrivateKey = [], fc_JsonWebToken = [], fc_TimeoutSeconds = 5,
      fc_SqliteDataSourceName = []\<rparr>"

lemma sample_connects: "connects (live_net conn) sample_config conn"
  by (simp add: connects_def grpcClient_def sample_config_def NewGomeetClient_def dial_client_def live_net_def
      getter_defs conn_channel_def)

lemma sample_on_time:
  "live_on_time (mem_driver empty_disk) m_rows mem_up [] 16 (sample_server\<lparr>ws_version := svc_version\<rparr>, sample_supply)"
proof -
  have "on_time (10 ^ 9)" by (simp add: on_time_def year_yday_def)
  then show ?thesis
    using sample_server_live by (simp add: live_on_time_def real_env_def sample_supply_def sample_env_def)
qed

lemma sample_draw_utf8: "draw_utf8 (sample_request, replicate 256 CHR ''a'')"
  using ascii_ValidString [of "replicate 256 CHR ''a''"]
  by (simp add: draw_utf8_def sample_request_def RsvpCreationRequest_Reset_def byte_in_def)

theorem functional_tests_pass_witness:
  "\<exists>s'. runFunctionalTestSession
      (field_env (front_of field_lib
        (clocked (\<lambda>env. net_serve id makeServerContext (mem_driver empty_disk) (\<lambda>_ _. None :: unit option) env [0])))
        ''http'' '':13000'')
      (live_net
        (clocked (\<lambda>env. net_serve id makeServerContext (mem_driver empty_disk) (\<lambda>_ _. None :: unit option) env [0])))
      metrics_routeMap (sample_request, replicate 256 CHR ''a'') (sample_request, replicate 256 CHR ''a'')
      sample_config (sample_server\<lparr>ws_version := svc_version\<rparr>, sample_supply) = (Inr [], s')"
proof -
  let ?verify = "\<lambda>_ _. None :: unit option"
  let ?conn = "clocked (\<lambda>env. net_serve id makeServerContext (mem_driver empty_disk) ?verify env [0])"
  have c: "httpClient (live_net ?conn) sample_config =
      Inr (\<lparr>cl_TLS = None, cl_Timeout = seconds 5\<rparr>, '':13000'', ''http'')"
    by (simp add: httpClient_def sample_config_def)
  have t: "good_token ?verify [] (fc_JsonWebToken sample_config)" by (simp add: good_token_def)
  have rx: "carries_token (makeServerContext :: unit ctx \<Rightarrow> unit ctx)" by (auto simp: carries_token_def)
  from functional_tests_pass [where lib = field_lib and order = metrics_routeMap, OF mem.sql_store_axioms rx
      front_of_server live_net_dials refl _ t sample_connects c field_env_delivers field_env_agrees sample_draw
      sample_draw sample_draw_utf8 sample_draw_utf8 sample_on_time]
  show ?thesis by (simp add: field_env_checks)
qed

text \<open>
  C3: an answer to the invitation sent by HTTP. A request to \<open>/api/v1/rsvp_creation\<close> with a valid
  body and an \<open>Authorization\<close> header is carried out exactly when the server has no secret or the
  secret verifies the token: then the reply has status 200 and the created entry, and the row of
  that entry is appended to the table; otherwise the reply has status 401 and the server and its
  database are as before.
\<close>

theorem http_rsvp_end_to_end:
  fixes verify :: "string \<Rightarrow> string \<Rightarrow> 'c option"
  assumes "sql_store drv rows base up ord"
    and "httpServer lib stack rorder gorder net addr origins ca cert key jwt = Inr h"
    and "\<And>creds. ne_Dial net addr 0 creds = Inr (serve drv verify env finish)"
    and "set rorder = set routeMap" and "set gorder = {''GET'', ''POST''}"
    and "rq_Method r = ''POST''" and "rq_Path r = ''/api/v1/rsvp_creation''" and "\<not> isPathLengthFallback r"
    and "canonical_headers r" and "forwarded_authorization \<notin> fst ` set (rq_Header r)"
    and "Header_Get r ''Grpc-Timeout'' = []"
    and "map_of (rq_Header r) ''Authorization'' = Some [''Bearer '' @ token]"
    and "mr_Decode (hl_marshaler lib) (rq_Body r) = (req, None)" and "RsvpCreationRequest_Validate req = None"
    and "\<And>m. \<exists>b. mr_Marshal (hl_marshaler lib) m = Inr b"
    and "initDatabaseHandle drv s = (None, s\<lparr>ws_sqliteHandle := Some d\<rparr>)" and "up d"
    and "UUID_New (e_cid_rnd env) \<noteq> None" and "UUID_New (e_rnd env) = Some u"
    and "UUID_Value u \<notin> c_uuid ` set (rows d)"
  shows "if ws_jwtSecret s = [] \<or> verify (ws_jwtSecret s) token \<noteq> None then
      \<exists>b d'. answers h r s StatusOK b (s\<lparr>ws_sqliteHandle := Some d'\<rparr>) \<and>
        rows d' = rows d @ [to_row (created_rsvp u (e_now env) req)] \<and>
        mr_Marshal (hl_marshaler lib) (PMsg (Some (RespRsvp (created_answer
          (convertRsvpFromModelToProtocol (created_rsvp u (e_now env) req)))))) = Inr b
    else \<exists>b. answers h r s StatusUnauthorized b s"
proof -
  have front: "http_front lib stack rorder gorder net addr origins ca cert key jwt (serve drv verify env finish) h"
    by (rule http_front.intro) (rule assms(2-5))+
  obtain c :: "'c ctx" where c: "AnnotateContext Background r = Inr c"
    using AnnotateContext_ok [OF assms(11)] by blast
  have "CanonicalMIMEHeaderKey ''Authorization'' = ''Authorization''" by code_simp
  then have "Header_Get r ''Authorization'' = ''Bearer '' @ token"
    by (simp add: Header_Get_def Header_values_def assms(12))
  with annotated_authorization [OF c assms(9,10)] assms(12)
  have t: "AuthFromMD (makeServerContext c) ''bearer'' = Inr token" by (intro bearer_read) simp
  note call = http_front.http_rsvp [OF front assms(6-8) c assms(13)]
  note stub = NewWwwClient_def wwwClient_RsvpCreation_def stub_result_def out_RsvpCreation_def lift_handler_def
  show ?thesis
  proof (cases "ws_jwtSecret s = [] \<or> verify (ws_jwtSecret s) token \<noteq> None")
    case True
    then have "lets_in verify (ws_jwtSecret s) c" by (auto simp: lets_in_def t)
    from sql_store.admitted_accepted [OF assms(1) this assms(18,14,16,17,19,20)] obtain d' where
      d': "serve drv verify env finish c RsvpCreation_name (ReqRsvp req) s =
        (Ret (Some (RespRsvp (created_answer (convertRsvpFromModelToProtocol (created_rsvp u (e_now env) req))))) None,
         s\<lparr>ws_sqliteHandle := Some d'\<rparr>)" "rows d' = rows d @ [to_row (created_rsvp u (e_now env) req)]" by blast
    obtain b where b: "mr_Marshal (hl_marshaler lib) (PMsg (Some (RespRsvp (created_answer
        (convertRsvpFromModelToProtocol (created_rsvp u (e_now env) req)))))) = Inr b"
      using assms(15) by blast
    have "answers h r s StatusOK b (s\<lparr>ws_sqliteHandle := Some d'\<rparr>)"
      by (rule call [where x = "Ret (Some (RespRsvp (created_answer (convertRsvpFromModelToProtocol
            (created_rsvp u (e_now env) req))))) None"])
        (simp_all add: stub d'(1) gw_reply_def ForwardResponseMessage_def b)
    with True d'(2) b show ?thesis by auto
  next
    case False
    then have s: "ws_jwtSecret s \<noteq> []" "verify (ws_jwtSecret s) token = None" by auto
    note r = unverified_refused [where drv = drv and finish = finish and req = req and
      verify = verify and t = token, OF s(1) t s(2) assms(18)]
    obtain b where b: "mr_Marshal (hl_marshaler lib) (PStatus CodeUnauthenticated ''invalid auth token'') = Inr b"
      using assms(15) by blast
    have "answers h r s StatusUnauthorized b s"
      by (rule call [where x = "Ret None (Some (Status CodeUnauthenticated ''invalid auth token''))"])
        (simp_all add: stub r gw_reply_def DefaultHTTPProtoErrorHandler_def status_FromError_def b)
    with False show ?thesis by auto
  qed
qed

definition sample_post :: http_request where
  "sample_post = sent_request ''h'' ''POST'' ''/api/v1/rsvp_creation'' [bearer_header sample_config, json_header]
     (enc_request sample_request)"

theorem http_rsvp_end_to_end_witness:
  "\<exists>h b s' b'. httpServer field_lib (\<lambda>_. []) routeMap [''GET'', ''POST'']
      (live_net (serve (mem_driver empty_disk) (\<lambda>_ _. None :: unit option) sample_env [0])) ''h'' [] [] [] [] [] = Inr h \<and>
    answers h sample_post sample_server StatusOK b s' \<and>
    answers h sample_post (sample_server\<lparr>ws_jwtSecret := ''s''\<rparr>) StatusUnauthorized b'
      (sample_server\<lparr>ws_jwtSecret := ''s''\<rparr>)"
proof -
  let ?verify = "\<lambda>_ _. None :: unit option"
  let ?s = "sample_server\<lparr>ws_jwtSecret := ''s''\<rparr>"
  obtain h where h: "httpServer field_lib (\<lambda>_. []) routeMap [''GET'', ''POST'']
      (live_net (serve (mem_driver empty_disk) ?verify sample_env [0])) ''h'' [] [] [] [] [] = Inr h"
    using httpServer_any_lib by blast
  note th = test_headers [of sample_post "''h''" "''POST''" "''/api/v1/rsvp_creation''" sample_config "[json_header]"
      "enc_request sample_request", OF sample_post_def disjI2 [OF refl]]
  have t: "Header_Get sample_post ''Grpc-Timeout'' = []" by code_simp
  have b: "mr_Decode (hl_marshaler field_lib) (rq_Body sample_post) = (sample_request, None)"
    by (simp add: sample_post_def sent_request_def field_lib_def field_marshaler_def dec_enc_request)
  have m: "\<exists>b. mr_Marshal (hl_marshaler field_lib) m = Inr b" for m
    by (simp add: field_lib_def field_marshaler_def)
  note h1 = http_rsvp_end_to_end [where r = sample_post and req = sample_request and env = sample_env
      and drv = "mem_driver empty_disk", OF mem.sql_store_axioms h live_net_dials refl _ _ _ th(5) th(2,3) t th(4)
      b sample_request_valid m _ _ sample_cid]
  have "\<exists>b d'. answers h sample_post sample_server StatusOK b (sample_server\<lparr>ws_sqliteHandle := Some d'\<rparr>)"
    using h1 [of sample_server empty_mem new_uuid]
    by (auto simp: sample_post_def sent_request_def sample_server_def initDatabaseHandle_def gorm_Open_def
        empty_disk_def empty_rows sample_env_def UUID_New_new_bytes)
  moreover have "\<exists>b. answers h sample_post ?s StatusUnauthorized b ?s"
    using h1 [of ?s empty_mem new_uuid]
    by (auto simp: sample_post_def sent_request_def sample_server_def initDatabaseHandle_def gorm_Open_def
        empty_disk_def empty_rows sample_env_def UUID_New_new_bytes)
  ultimately show ?thesis using h by blast
qed

end
